(* ===== verification/Prelude.thy ===== *)
theory Prelude
  imports Complex_Main "HOL-Library.Char_ord" "HOL-Library.List_Lexorder"
    "HOL-Library.AList" "HOL-Library.Sublist"
begin

section \<open>Prelude: Python results, Python values, shared lemmas\<close>

text \<open>
  What every component of the development shares.
  \<^item> Python exceptions are values of the type \<open>exn\<close>; a function that may raise returns
    a value of \<open>'a res\<close> (\<open>Inl\<close> the exception). \<open>rbind\<close> runs one such computation after
    another and \<open>require\<close> is the guard function of the scripts.
  \<^item> A value that \<^verbatim>\<open>json.loads\<close>, \<^verbatim>\<open>yaml.safe_load\<close> or
    \<^verbatim>\<open>tomllib.loads\<close> returns is a \<open>jval\<close>. A dict is an association list, which
    keeps Python's insertion order; the first entry of a key counts. The functions \<open>jget\<close> (Python's
    \<^verbatim>\<open>.get\<close>) and \<open>jitem\<close> (Python's \<^verbatim>\<open>[...]\<close>) raise where Python
    raises.
  \<^item> Strings are lists of \<^typ>\<open>char\<close>: one character stands for a code point below 256.
\<close>

named_theorems res_simps "inversion of results that may raise"
named_theorems json_simps "unfolding of the accessors of Python values"

subsection \<open>Exceptions and results\<close>

text \<open>
  \<open>Refuse\<close> and its subclass \<open>Conflict\<close> are the exception classes the maintenance
  scripts declare; every exception of the Python runtime is a \<open>PyError\<close> with the name of
  its class.
\<close>

datatype exn = Refuse string | Conflict string | PyError string

type_synonym 'a res = "exn + 'a"

definition rbind :: "'a res \<Rightarrow> ('a \<Rightarrow> 'b res) \<Rightarrow> 'b res" where
  "rbind m f = (case m of Inl e \<Rightarrow> Inl e | Inr x \<Rightarrow> f x)"

lemma rbind_Inl [simp]: "rbind (Inl e) f = Inl e"
  by (simp add: rbind_def)

lemma rbind_Inr [simp]: "rbind (Inr x) f = f x"
  by (simp add: rbind_def)

lemma rbind_eq_Inr [res_simps]: "(rbind m f = Inr y) = (\<exists>x. m = Inr x \<and> f x = Inr y)"
  by (cases m) auto

lemma rbind_InrE: "rbind m f = Inr y \<Longrightarrow> (\<And>x. m = Inr x \<Longrightarrow> f x = Inr y \<Longrightarrow> P) \<Longrightarrow> P"
  by (auto simp: rbind_eq_Inr)

lemma rbind_eq_Inl: "(rbind m f = Inl e) = (m = Inl e \<or> (\<exists>x. m = Inr x \<and> f x = Inl e))"
  by (cases m) auto

lemma rbind_cong [fundef_cong]:
  assumes "m = m'" and "\<And>x. m' = Inr x \<Longrightarrow> f x = f' x"
  shows "rbind m f = rbind m' f'"
  using assms by (cases m') auto

lemma rbind_if_Inl [simp]:
  "rbind (if c then m else Inl e) f = (if c then rbind m f else Inl e)"
  by simp

definition require :: "bool \<Rightarrow> string \<Rightarrow> unit res" where
  "require c reason = (if c then Inr () else Inl (Refuse reason))"

lemma require_True [simp]: "require True r = Inr ()"
  by (simp add: require_def)

lemma require_False [simp]: "require False r = Inl (Refuse r)"
  by (simp add: require_def)

lemma require_eq_Inr [res_simps]: "(require c r = Inr u) = c"
  by (simp add: require_def)

lemma require_eq_Inl: "(require c r = Inl e) = (\<not> c \<and> e = Refuse r)"
  by (auto simp: require_def)

text \<open>The loops of the scripts that collect a list, where every element may raise.\<close>

fun rmap :: "('a \<Rightarrow> 'b res) \<Rightarrow> 'a list \<Rightarrow> 'b list res" where
  "rmap f [] = Inr []"
| "rmap f (x # xs) = rbind (f x) (\<lambda>y. rbind (rmap f xs) (\<lambda>ys. Inr (y # ys)))"

fun rfilter :: "('a \<Rightarrow> bool res) \<Rightarrow> 'a list \<Rightarrow> 'a list res" where
  "rfilter p [] = Inr []"
| "rfilter p (x # xs) =
     rbind (p x) (\<lambda>b. rbind (rfilter p xs) (\<lambda>ys. Inr (if b then x # ys else ys)))"

lemma rmap_eq_Inr: "rmap f xs = Inr ys \<longleftrightarrow> list_all2 (\<lambda>x y. f x = Inr y) xs ys"
  by (induction xs arbitrary: ys) (auto simp: res_simps list_all2_Cons1)

lemma rmap_total: "(\<exists>ys. rmap f xs = Inr ys) \<longleftrightarrow> list_all (\<lambda>x. \<exists>y. f x = Inr y) xs"
  by (induction xs) (auto simp: res_simps)

lemma rfilter_set: "rfilter p xs = Inr ys \<Longrightarrow> set ys = {x \<in> set xs. p x = Inr True}"
  by (induction xs arbitrary: ys) (auto simp: res_simps split: if_splits)

lemma rfilter_all: "rfilter p xs = Inr ys \<Longrightarrow> x \<in> set xs \<Longrightarrow> \<exists>b. p x = Inr b"
  by (induction xs arbitrary: ys) (auto simp: res_simps)

subsection \<open>Python values\<close>

text \<open>
  The payload of a float is an exact rational.
\<close>

datatype jval =
    JNull
  | JBool bool
  | JInt int
  | JFloat rat
  | JStr string
  | JList "jval list"
  | JDict "(string \<times> jval) list"

type_synonym dict = "(string \<times> jval) list"

definition dget :: "string \<Rightarrow> dict \<Rightarrow> jval" where
  "dget k d = (case map_of d k of None \<Rightarrow> JNull | Some v \<Rightarrow> v)"

definition dget_or :: "string \<Rightarrow> jval \<Rightarrow> dict \<Rightarrow> jval" where
  "dget_or k v0 d = (case map_of d k of None \<Rightarrow> v0 | Some v \<Rightarrow> v)"

text \<open>\<^verbatim>\<open>v.get(k)\<close>, \<^verbatim>\<open>v.get(k, v0)\<close> and \<^verbatim>\<open>v[k]\<close> for a string \<open>k\<close>.\<close>

definition jget :: "string \<Rightarrow> jval \<Rightarrow> jval res" where
  "jget k j = (case j of JDict d \<Rightarrow> Inr (dget k d) | _ \<Rightarrow> Inl (PyError ''AttributeError''))"

definition jget_or :: "string \<Rightarrow> jval \<Rightarrow> jval \<Rightarrow> jval res" where
  "jget_or k v0 j = (case j of JDict d \<Rightarrow> Inr (dget_or k v0 d) | _ \<Rightarrow> Inl (PyError ''AttributeError''))"

definition jitem :: "string \<Rightarrow> jval \<Rightarrow> jval res" where
  "jitem k j = (case j of
      JDict d \<Rightarrow> (case map_of d k of None \<Rightarrow> Inl (PyError ''KeyError'') | Some v \<Rightarrow> Inr v)
    | _ \<Rightarrow> Inl (PyError ''TypeError''))"

lemma dget_Nil [simp]: "dget k [] = JNull"
  by (simp add: dget_def)

lemma dget_Cons [simp]: "dget k ((k', v) # d) = (if k = k' then v else dget k d)"
  by (simp add: dget_def)

lemma dget_or_Nil [simp]: "dget_or k v0 [] = v0"
  by (simp add: dget_or_def)

lemma dget_or_Cons [simp]: "dget_or k v0 ((k', v) # d) = (if k = k' then v else dget_or k v0 d)"
  by (simp add: dget_or_def)

lemma jget_JDict [simp]: "jget k (JDict d) = Inr (dget k d)"
  by (simp add: jget_def)

lemma jget_or_JDict [simp]: "jget_or k v0 (JDict d) = Inr (dget_or k v0 d)"
  by (simp add: jget_or_def)

lemma jitem_JDict:
  "jitem k (JDict d) = (case map_of d k of None \<Rightarrow> Inl (PyError ''KeyError'') | Some v \<Rightarrow> Inr v)"
  by (simp add: jitem_def)

lemma jget_eq_Inr [res_simps]: "(jget k j = Inr v) = (\<exists>d. j = JDict d \<and> v = dget k d)"
  by (cases j) (auto simp: jget_def)

lemma jget_or_eq_Inr [res_simps]: "(jget_or k v0 j = Inr v) = (\<exists>d. j = JDict d \<and> v = dget_or k v0 d)"
  by (cases j) (auto simp: jget_or_def)

lemma jitem_eq_Inr [res_simps]: "(jitem k j = Inr v) = (\<exists>d. j = JDict d \<and> map_of d k = Some v)"
  by (cases j) (auto simp: jitem_def split: option.splits)

lemma dget_map_of: "map_of d k = Some v \<Longrightarrow> dget k d = v"
  by (simp add: dget_def)

lemma dget_not_null: "dget k d = v \<Longrightarrow> v \<noteq> JNull \<Longrightarrow> map_of d k = Some v"
  by (auto simp: dget_def split: option.splits)

definition is_dict :: "jval \<Rightarrow> bool" where
  "is_dict j = (case j of JDict _ \<Rightarrow> True | _ \<Rightarrow> False)"

definition is_list :: "jval \<Rightarrow> bool" where
  "is_list j = (case j of JList _ \<Rightarrow> True | _ \<Rightarrow> False)"

definition is_str :: "jval \<Rightarrow> bool" where
  "is_str j = (case j of JStr _ \<Rightarrow> True | _ \<Rightarrow> False)"

definition is_int :: "jval \<Rightarrow> bool" where
  "is_int j = (case j of JInt _ \<Rightarrow> True | _ \<Rightarrow> False)"

definition is_bool :: "jval \<Rightarrow> bool" where
  "is_bool j = (case j of JBool _ \<Rightarrow> True | _ \<Rightarrow> False)"

lemma is_dict_iff [json_simps]: "is_dict j = (\<exists>d. j = JDict d)"
  by (cases j) (auto simp: is_dict_def)

lemma is_list_iff [json_simps]: "is_list j = (\<exists>d. j = JList d)"
  by (cases j) (auto simp: is_list_def)

lemma is_str_iff [json_simps]: "is_str j = (\<exists>d. j = JStr d)"
  by (cases j) (auto simp: is_str_def)

lemma is_int_iff [json_simps]: "is_int j = (\<exists>d. j = JInt d)"
  by (cases j) (auto simp: is_int_def)

lemma is_bool_iff [json_simps]: "is_bool j = (\<exists>d. j = JBool d)"
  by (cases j) (auto simp: is_bool_def)

lemma is_JNull [simp]:
  "\<not> is_dict JNull" "\<not> is_list JNull" "\<not> is_str JNull" "\<not> is_int JNull" "\<not> is_bool JNull"
  by (simp_all add: json_simps)

lemma is_same [simp]:
  "is_dict (JDict d)" "is_list (JList l)" "is_str (JStr s)" "is_int (JInt i)" "is_bool (JBool b)"
  by (simp_all add: json_simps)

lemma is_other [simp]:
  "\<not> is_dict (JStr s)" "\<not> is_dict (JInt i)" "\<not> is_dict (JBool b)" "\<not> is_dict (JList l)"
  "\<not> is_str (JDict d)" "\<not> is_str (JInt i)" "\<not> is_str (JBool b)" "\<not> is_str (JList l)"
  "\<not> is_int (JDict d)" "\<not> is_int (JStr s)" "\<not> is_int (JBool b)" "\<not> is_int (JList l)"
  "\<not> is_bool (JDict d)" "\<not> is_bool (JStr s)" "\<not> is_bool (JInt i)" "\<not> is_bool (JList l)"
  "\<not> is_list (JDict d)" "\<not> is_list (JStr s)" "\<not> is_list (JInt i)" "\<not> is_list (JBool b)"
  by (simp_all add: json_simps)

text \<open>Python's truth value of an object.\<close>

fun truthy :: "jval \<Rightarrow> bool" where
  "truthy JNull = False"
| "truthy (JBool b) = b"
| "truthy (JInt i) = (i \<noteq> 0)"
| "truthy (JFloat r) = (r \<noteq> 0)"
| "truthy (JStr s) = (s \<noteq> [])"
| "truthy (JList xs) = (xs \<noteq> [])"
| "truthy (JDict d) = (d \<noteq> [])"

text \<open>
  \<^verbatim>\<open>v in {...}\<close> for a set of string literals hashes \<open>v\<close>, which raises for a list
  or a dict. \<open>and_then\<close> is Python's \<^verbatim>\<open>and\<close> when its right side may raise.
\<close>

fun in_strs :: "jval \<Rightarrow> string list \<Rightarrow> bool res" where
  "in_strs (JList _) ss = Inl (PyError ''TypeError'')"
| "in_strs (JDict _) ss = Inl (PyError ''TypeError'')"
| "in_strs (JStr s) ss = Inr (s \<in> set ss)"
| "in_strs _ ss = Inr False"

definition and_then :: "bool \<Rightarrow> bool res \<Rightarrow> bool res" where
  "and_then b m = (if b then m else Inr False)"

lemma in_strs_True [res_simps]: "(in_strs j ss = Inr True) = (\<exists>s. j = JStr s \<and> s \<in> set ss)"
  by (cases j) auto

lemma and_then_True [res_simps]: "(and_then b m = Inr True) = (b \<and> m = Inr True)"
  by (auto simp: and_then_def)

lemma and_then_simps [simp]: "and_then True m = m" "and_then False m = Inr False"
  by (simp_all add: and_then_def)

text \<open>\<^verbatim>\<open>set(d) == {...}\<close>.\<close>

definition has_keys :: "dict \<Rightarrow> string list \<Rightarrow> bool" where
  "has_keys d ks = (list_all (\<lambda>kv. fst kv \<in> set ks) d \<and> list_all (\<lambda>k. map_of d k \<noteq> None) ks)"

lemma has_keys_iff: "has_keys d ks = (fst ` set d = set ks)"
  by (auto simp: has_keys_def list_all_iff map_of_eq_None_iff)

lemma has_keys_dom: "has_keys d ks = (dom (map_of d) = set ks)"
  by (auto simp: has_keys_iff dom_map_of_conv_image_fst)

lemma has_keys_map_of: "has_keys d ks \<Longrightarrow> k \<in> set ks \<Longrightarrow> map_of d k = Some (dget k d)"
  by (auto simp: has_keys_dom dget_def dom_def split: option.splits)

lemma has_keys_all:
  "has_keys d ks \<Longrightarrow> list_all (\<lambda>kv. P (snd kv)) d \<Longrightarrow> k \<in> set ks \<Longrightarrow> P (dget k d)"
  by (metis has_keys_map_of in_set_conv_nth list_all_length map_of_SomeD snd_conv)

subsection \<open>Decimal numbers\<close>

definition digit :: "nat \<Rightarrow> char" where
  "digit n = char_of (48 + n)"

fun show_nat :: "nat \<Rightarrow> string" where
  "show_nat n = (if n < 10 then [digit n] else show_nat (n div 10) @ [digit (n mod 10)])"

declare show_nat.simps [simp del]

definition show_int :: "int \<Rightarrow> string" where
  "show_int i = (if i < 0 then CHR ''-'' # show_nat (nat (- i)) else show_nat (nat i))"

definition is_digit :: "char \<Rightarrow> bool" where
  "is_digit c = (48 \<le> (of_char c :: nat) \<and> (of_char c :: nat) \<le> 57)"

definition digit_val :: "char \<Rightarrow> nat" where
  "digit_val c = of_char c - 48"

definition read_nat :: "string \<Rightarrow> nat" where
  "read_nat s = foldl (\<lambda>n c. 10 * n + digit_val c) 0 s"

lemma of_char_digit: "n < 10 \<Longrightarrow> (of_char (digit n) :: nat) = 48 + n"
  by (simp add: digit_def)

lemma is_digit_digit [simp]: "n < 10 \<Longrightarrow> is_digit (digit n)"
  by (simp add: is_digit_def of_char_digit)

lemma digit_val_digit [simp]: "n < 10 \<Longrightarrow> digit_val (digit n) = n"
  by (simp add: digit_val_def of_char_digit)

lemma show_nat_digits: "list_all is_digit (show_nat n)"
  by (induction n rule: show_nat.induct) (subst show_nat.simps, simp)

lemma show_nat_nonempty: "show_nat n \<noteq> []"
  by (subst show_nat.simps) simp

lemma read_show_nat: "read_nat (show_nat n) = n"
proof (induction n rule: show_nat.induct)
  case (1 n)
  show ?case
  proof (cases "n < 10")
    case True
    then show ?thesis by (simp add: show_nat.simps [of n] read_nat_def)
  next
    case False
    then have "read_nat (show_nat n) = 10 * read_nat (show_nat (n div 10)) + n mod 10"
      by (simp add: show_nat.simps [of n] read_nat_def)
    with 1 False show ?thesis by simp
  qed
qed

lemma show_nat_inject: "show_nat m = show_nat n \<Longrightarrow> m = n"
  by (metis read_show_nat)

lemma show_nat_hd: "n \<noteq> 0 \<Longrightarrow> hd (show_nat n) \<noteq> CHR ''0''"
proof (induction n rule: show_nat.induct)
  case (1 n)
  have d: "digit m = CHR ''0'' \<Longrightarrow> m < 10 \<Longrightarrow> m = 0" for m
    using of_char_digit [of m] by simp
  show ?case
  proof (cases "n < 10")
    case True
    with 1(2) d [of n] show ?thesis by (auto simp: show_nat.simps [of n])
  next
    case False
    with 1(1) show ?thesis
      by (simp add: show_nat.simps [of n] show_nat_nonempty)
  qed
qed

subsection \<open>The calendar\<close>

text \<open>The proleptic Gregorian calendar of \<^verbatim>\<open>datetime\<close>, and seconds since 1970.\<close>

definition is_leap :: "int \<Rightarrow> bool" where
  "is_leap y = (y mod 4 = 0 \<and> (y mod 100 \<noteq> 0 \<or> y mod 400 = 0))"

definition days_in_month :: "int \<Rightarrow> int \<Rightarrow> int" where
  "days_in_month y m = (if m = 2 then (if is_leap y then 29 else 28)
     else if m \<in> {4, 6, 9, 11} then 30 else 31)"

definition days_before_month :: "int \<Rightarrow> int \<Rightarrow> int" where
  "days_before_month y m = sum_list (map (days_in_month y) [1..m - 1])"

definition date_ordinal :: "int \<Rightarrow> int \<Rightarrow> int \<Rightarrow> int" where
  "date_ordinal y m d =
     (let b = y - 1 in 365 * b + b div 4 - b div 100 + b div 400 + days_before_month y m + d)"

definition timestamp :: "int \<Rightarrow> int \<Rightarrow> int \<Rightarrow> int \<Rightarrow> int \<Rightarrow> int \<Rightarrow> int" where
  "timestamp y mo d h mi s = ((date_ordinal y mo d - 719163) * 24 + h) * 3600 + mi * 60 + s"

end
