(* ===== verification/Json_Text.thy ===== *)
theory Json_Text
  imports Prelude "HOL-Library.Multiset"
begin

section \<open>JSON texts: json.dumps and json.loads\<close>

text \<open>
  The maintenance state is kept as the JSON text of one ConfigMap key, written by
  \<^verbatim>\<open>json.dumps(state, sort_keys=True, separators=(',', ':'))\<close> and read back by
  \<^verbatim>\<open>json.loads\<close>. This theory holds both functions of the standard library, on
  the values of \<^typ>\<open>jval\<close>: \<open>json_dumps\<close> escapes as Python does with
  \<^verbatim>\<open>ensure_ascii\<close>, \<open>json_loads\<close> is a recursive-descent parser. The
  result that matters is the round trip \<open>json_loads_dumps\<close>, for values without floats.
  An escape of a code point above 255 is outside the character type, and such a text is not
  parsed here; nor are the constants NaN and Infinity.
\<close>

subsection \<open>Printing\<close>

definition hex_digit :: "nat \<Rightarrow> char" where
  "hex_digit n = (if n < 10 then char_of (48 + n) else char_of (87 + n))"

definition esc_char :: "char \<Rightarrow> string" where
  "esc_char c = (let n = (of_char c :: nat) in
     if n = 34 then [CHR 0x5C, CHR 0x22]
     else if n = 92 then [CHR 0x5C, CHR 0x5C]
     else if n = 10 then [CHR 0x5C, CHR ''n'']
     else if n = 13 then [CHR 0x5C, CHR ''r'']
     else if n = 9 then [CHR 0x5C, CHR ''t'']
     else if n = 8 then [CHR 0x5C, CHR ''b'']
     else if n = 12 then [CHR 0x5C, CHR ''f'']
     else if 32 \<le> n \<and> n \<le> 126 then [c]
     else [CHR 0x5C, CHR ''u'', CHR ''0'', CHR ''0'', hex_digit (n div 16), hex_digit (n mod 16)])"

definition print_str :: "string \<Rightarrow> string" where
  "print_str s = CHR 0x22 # concat (map esc_char s) @ [CHR 0x22]"

fun join_sep :: "string \<Rightarrow> string list \<Rightarrow> string" where
  "join_sep sep [] = []"
| "join_sep sep [s] = s"
| "join_sep sep (s # ss) = s @ sep @ join_sep sep ss"

text \<open>A float is printed as its integer part here; no modelled text holds a float.\<close>

fun print_json :: "jval \<Rightarrow> string" where
  "print_json JNull = ''null''"
| "print_json (JBool b) = (if b then ''true'' else ''false'')"
| "print_json (JInt i) = show_int i"
| "print_json (JFloat r) = show_int \<lfloor>r\<rfloor> @ ''.0''"
| "print_json (JStr s) = print_str s"
| "print_json (JList xs) = ''['' @ join_sep '','' (map print_json xs) @ '']''"
| "print_json (JDict d) =
     ''{'' @ join_sep '','' (map (\<lambda>(k, v). print_str k @ '':'' @ print_json v) d) @ ''}''"

fun sort_keys :: "jval \<Rightarrow> jval" where
  "sort_keys (JList xs) = JList (map sort_keys xs)"
| "sort_keys (JDict d) = JDict (sort_key fst (map (\<lambda>(k, v). (k, sort_keys v)) d))"
| "sort_keys j = j"

definition json_dumps :: "jval \<Rightarrow> string" where
  "json_dumps j = print_json (sort_keys j)"

subsection \<open>Parsing\<close>

definition is_ws :: "char \<Rightarrow> bool" where
  "is_ws c = ((of_char c :: nat) \<in> {32, 9, 10, 13})"

definition skip_ws :: "string \<Rightarrow> string" where
  "skip_ws s = dropWhile is_ws s"

definition hex_val :: "char \<Rightarrow> nat option" where
  "hex_val c = (let n = (of_char c :: nat) in
     if 48 \<le> n \<and> n \<le> 57 then Some (n - 48)
     else if 97 \<le> n \<and> n \<le> 102 then Some (n - 87)
     else if 65 \<le> n \<and> n \<le> 70 then Some (n - 55)
     else None)"

fun hex4 :: "string \<Rightarrow> (nat \<times> string) option" where
  "hex4 (a # b # c # d # s) =
     (case (hex_val a, hex_val b, hex_val c, hex_val d) of
        (Some w, Some x, Some y, Some z) \<Rightarrow> Some (4096 * w + 256 * x + 16 * y + z, s)
      | _ \<Rightarrow> None)"
| "hex4 _ = None"

definition simple_esc :: "char \<Rightarrow> char option" where
  "simple_esc c = (let n = (of_char c :: nat) in
     if n = 34 \<or> n = 92 \<or> n = 47 then Some c
     else if c = CHR ''n'' then Some (char_of (10::nat))
     else if c = CHR ''r'' then Some (char_of (13::nat))
     else if c = CHR ''t'' then Some (char_of (9::nat))
     else if c = CHR ''b'' then Some (char_of (8::nat))
     else if c = CHR ''f'' then Some (char_of (12::nat))
     else None)"

text \<open>One character of a string literal: \<open>None\<close> where the literal is malformed.\<close>

definition read_char :: "string \<Rightarrow> (char \<times> string) option" where
  "read_char s = (case s of [] \<Rightarrow> None
     | c # t \<Rightarrow>
        if (of_char c :: nat) = 92 then
          (case t of [] \<Rightarrow> None
           | e # u \<Rightarrow> (if e = CHR ''u'' then
                 (case hex4 u of Some (n, v) \<Rightarrow> if n < 256 then Some (char_of n, v) else None
                  | None \<Rightarrow> None)
               else map_option (\<lambda>x. (x, u)) (simple_esc e)))
        else if (of_char c :: nat) < 32 then None
        else Some (c, t))"

fun read_str :: "nat \<Rightarrow> string \<Rightarrow> (string \<times> string) option" where
  "read_str 0 s = None"
| "read_str (Suc n) s =
     (case s of [] \<Rightarrow> None
      | c # t \<Rightarrow> if (of_char c :: nat) = 34 then Some ([], t)
          else (case read_char s of None \<Rightarrow> None
                | Some (x, u) \<Rightarrow> map_option (\<lambda>(xs, v). (x # xs, v)) (read_str n u)))"

definition read_digits :: "string \<Rightarrow> (nat \<times> string) option" where
  "read_digits s = (let ds = takeWhile is_digit s in
     if ds = [] \<or> (1 < length ds \<and> hd ds = CHR ''0'') then None
     else Some (read_nat ds, dropWhile is_digit s))"

text \<open>The fraction and the exponent of a number; the value of a float is exact.\<close>

definition read_frac :: "string \<Rightarrow> (rat \<times> string) option" where
  "read_frac s = (case s of [] \<Rightarrow> None
     | c # t \<Rightarrow> (let ds = takeWhile is_digit t in
         if c = CHR ''.'' \<and> ds \<noteq> [] then Some (of_nat (read_nat ds) / 10 ^ length ds, dropWhile is_digit t) else None))"

definition read_exp :: "string \<Rightarrow> (int \<times> string) option" where
  "read_exp s = (case s of [] \<Rightarrow> None
     | c # t \<Rightarrow>
         let neg = (t \<noteq> [] \<and> hd t = CHR ''-'');
             u = (if t \<noteq> [] \<and> hd t \<in> {CHR ''-'', CHR ''+''} then tl t else t);
             ds = takeWhile is_digit u
         in if c \<in> {CHR ''e'', CHR ''E''} \<and> ds \<noteq> []
            then Some (if neg then - int (read_nat ds) else int (read_nat ds), dropWhile is_digit u) else None)"

definition scaled :: "rat \<Rightarrow> int \<Rightarrow> rat" where
  "scaled v e = (if 0 \<le> e then v * 10 ^ nat e else v / 10 ^ nat (- e))"

definition num_end :: "bool \<Rightarrow> nat \<Rightarrow> string \<Rightarrow> jval \<times> string" where
  "num_end neg n s =
     (let (f, t) = (case read_frac s of None \<Rightarrow> (None, s) | Some (q, t) \<Rightarrow> (Some q, t));
          (e, u) = (case read_exp t of None \<Rightarrow> (None, t) | Some (k, u) \<Rightarrow> (Some k, u))
      in if f = None \<and> e = None then (JInt (if neg then - int n else int n), s)
         else let v = scaled (of_nat n + (case f of None \<Rightarrow> 0 | Some q \<Rightarrow> q)) (case e of None \<Rightarrow> 0 | Some k \<Rightarrow> k)
              in (JFloat (if neg then - v else v), u))"

definition read_num :: "string \<Rightarrow> (jval \<times> string) option" where
  "read_num s = (case s of [] \<Rightarrow> None
     | c # t \<Rightarrow> if c = CHR ''-'' then map_option (\<lambda>(n, u). num_end True n u) (read_digits t)
         else map_option (\<lambda>(n, u). num_end False n u) (read_digits s))"

definition strip_lit :: "string \<Rightarrow> string \<Rightarrow> string option" where
  "strip_lit lit s = (if take (length lit) s = lit then Some (drop (length lit) s) else None)"

fun read_val :: "nat \<Rightarrow> string \<Rightarrow> (jval \<times> string) option"
  and read_elems :: "nat \<Rightarrow> string \<Rightarrow> (jval list \<times> string) option"
  and read_members :: "nat \<Rightarrow> string \<Rightarrow> (dict \<times> string) option" where
  "read_val 0 s = None"
| "read_val (Suc n) s =
     (case s of [] \<Rightarrow> None
      | c # t \<Rightarrow>
        if (of_char c :: nat) = 34 then map_option (\<lambda>(x, u). (JStr x, u)) (read_str (length s) t)
        else if c = CHR ''['' then
          (case skip_ws t of [] \<Rightarrow> None
           | d # u \<Rightarrow> if d = CHR '']'' then Some (JList [], u)
               else map_option (\<lambda>(xs, v). (JList xs, v)) (read_elems n (d # u)))
        else if c = CHR ''{'' then
          (case skip_ws t of [] \<Rightarrow> None
           | d # u \<Rightarrow> if d = CHR ''}'' then Some (JDict [], u)
               else map_option (\<lambda>(xs, v). (JDict xs, v)) (read_members n (d # u)))
        else if c = CHR ''n'' then map_option (\<lambda>u. (JNull, u)) (strip_lit ''null'' s)
        else if c = CHR ''t'' then map_option (\<lambda>u. (JBool True, u)) (strip_lit ''true'' s)
        else if c = CHR ''f'' then map_option (\<lambda>u. (JBool False, u)) (strip_lit ''false'' s)
        else read_num s)"
| "read_elems 0 s = None"
| "read_elems (Suc n) s =
     (case read_val n s of None \<Rightarrow> None
      | Some (x, t) \<Rightarrow>
        (case skip_ws t of [] \<Rightarrow> None
         | c # u \<Rightarrow> if c = CHR '']'' then Some ([x], u)
             else if c = CHR '','' then
               map_option (\<lambda>(xs, v). (x # xs, v)) (read_elems n (skip_ws u))
             else None))"
| "read_members 0 s = None"
| "read_members (Suc n) s =
     (case s of [] \<Rightarrow> None
      | q # t \<Rightarrow> if (of_char q :: nat) \<noteq> 34 then None else
        (case read_str (length s) t of None \<Rightarrow> None
         | Some (k, u) \<Rightarrow>
           (case skip_ws u of [] \<Rightarrow> None
            | c # v \<Rightarrow> if c \<noteq> CHR '':'' then None else
              (case read_val n (skip_ws v) of None \<Rightarrow> None
               | Some (x, w) \<Rightarrow>
                 (case skip_ws w of [] \<Rightarrow> None
                  | e # y \<Rightarrow> if e = CHR ''}'' then Some ([(k, x)], y)
                      else if e = CHR '','' then
                        map_option (\<lambda>(xs, z). ((k, x) # xs, z)) (read_members n (skip_ws y))
                      else None)))))"

text \<open>
  A repeated key keeps its last value in Python; the association list of \<open>read_members\<close>
  is reversed into that reading by \<open>last_wins\<close>.
\<close>

fun last_wins :: "jval \<Rightarrow> jval" where
  "last_wins (JList xs) = JList (map last_wins xs)"
| "last_wins (JDict d) =
     JDict (foldl (\<lambda>acc kv. AList.update (fst kv) (snd kv) acc) [] (map (\<lambda>(k, v). (k, last_wins v)) d))"
| "last_wins j = j"

definition json_loads :: "string \<Rightarrow> jval option" where
  "json_loads s =
     (case read_val (Suc (length s)) (skip_ws s) of None \<Rightarrow> None
      | Some (j, t) \<Rightarrow> if skip_ws t = [] then Some (last_wins j) else None)"


subsection \<open>The round trip\<close>

fun plain :: "jval \<Rightarrow> bool" where
  "plain (JFloat r) = False"
| "plain (JList xs) = list_all plain xs"
| "plain (JDict d) = list_all (\<lambda>kv. plain (snd kv)) d"
| "plain j = True"

text \<open>Every dict inside the value has distinct keys, as every Python dict has.\<close>

fun keys_ok :: "jval \<Rightarrow> bool" where
  "keys_ok (JList xs) = list_all keys_ok xs"
| "keys_ok (JDict d) = (distinct (map fst d) \<and> list_all (\<lambda>kv. keys_ok (snd kv)) d)"
| "keys_ok j = True"

definition ends :: "string \<Rightarrow> bool" where
  "ends s = (case s of [] \<Rightarrow> True | c # _ \<Rightarrow> c \<in> {CHR '','', CHR '']'', CHR ''}''})"

lemma hex_val_digit: "n < 16 \<Longrightarrow> hex_val (hex_digit n) = Some n"
  by (auto simp: hex_val_def hex_digit_def Let_def)

lemma hex4_print:
  "n < 256 \<Longrightarrow> hex4 (CHR ''0'' # CHR ''0'' # hex_digit (n div 16) # hex_digit (n mod 16) # s) = Some (n, s)"
proof -
  assume n: "n < 256"
  have z: "hex_val (CHR ''0'') = Some 0" by (simp add: hex_val_def)
  have "hex_val (hex_digit (n div 16)) = Some (n div 16)"
    using n by (intro hex_val_digit) simp
  moreover have "hex_val (hex_digit (n mod 16)) = Some (n mod 16)"
    by (intro hex_val_digit) simp
  ultimately show ?thesis by (simp add: z)
qed

lemma esc_char_hd: "\<exists>d t. esc_char c = d # t \<and> (of_char d :: nat) \<noteq> 34"
proof (cases "(of_char c :: nat) = 34")
  case True
  then show ?thesis by (simp add: esc_char_def)
next
  case False
  then show ?thesis by (auto simp: esc_char_def Let_def)
qed

lemma char_of_quote: "char_of (34::nat) = CHR 0x22" "char_of (92::nat) = CHR 0x5C"
  by code_simp+

lemma read_char_esc: "read_char (esc_char c @ s) = Some (c, s)"
proof -
  let ?n = "of_char c :: nat"
  have lt: "?n < 256" by simp
  consider "?n = 34" | "?n = 92" | "?n = 10" | "?n = 13" | "?n = 9" | "?n = 8" | "?n = 12"
    | "32 \<le> ?n" "?n \<le> 126" "?n \<noteq> 34" "?n \<noteq> 92"
    | "?n \<notin> {34, 92, 10, 13, 9, 8, 12}" "\<not> (32 \<le> ?n \<and> ?n \<le> 126)"
    by auto
  then show ?thesis
  proof cases
    case 8
    then show ?thesis by (auto simp: esc_char_def read_char_def Let_def)
  next
    case 9
    then have "esc_char c = [CHR 0x5C, CHR ''u'', CHR ''0'', CHR ''0'',
        hex_digit (?n div 16), hex_digit (?n mod 16)]"
      by (auto simp: esc_char_def Let_def)
    then show ?thesis using lt by (simp add: read_char_def hex4_print del: hex4.simps)
  qed (auto simp: esc_char_def read_char_def simple_esc_def Let_def char_of_quote
        dest!: arg_cong [where f = "char_of :: nat \<Rightarrow> char"])
qed

lemma read_str_print:
  "length s < n \<Longrightarrow> read_str n (concat (map esc_char s) @ CHR 0x22 # rest) = Some (s, rest)"
proof (induction s arbitrary: n)
  case Nil
  then obtain m where "n = Suc m" by (cases n) auto
  then show ?case by simp
next
  case (Cons c s)
  then obtain m where n: "n = Suc m" by (cases n) auto
  obtain d t where dt: "esc_char c = d # t" "(of_char d :: nat) \<noteq> 34"
    using esc_char_hd by blast
  have "read_char (d # t @ concat (map esc_char s) @ CHR 0x22 # rest)
      = Some (c, concat (map esc_char s) @ CHR 0x22 # rest)"
    using read_char_esc [of c "concat (map esc_char s) @ CHR 0x22 # rest"] by (simp add: dt)
  with Cons n dt show ?case by simp
qed

lemma length_esc: "length s \<le> length (concat (map esc_char s))"
proof (induction s)
  case (Cons c s)
  obtain d t where "esc_char c = d # t" using esc_char_hd by blast
  with Cons show ?case by simp
qed simp

lemma ends_not_digit: "ends s \<Longrightarrow> takeWhile is_digit s = [] \<and> dropWhile is_digit s = s"
  by (cases s) (auto simp: ends_def is_digit_def)

lemma num_end_ends: "ends s \<Longrightarrow> num_end neg n s = (JInt (if neg then - int n else int n), s)"
  by (cases s) (auto simp: ends_def num_end_def read_frac_def read_exp_def Let_def)

lemma read_digits_show:
  assumes "ends rest"
  shows "read_digits (show_nat n @ rest) = Some (n, rest)"
proof -
  have "takeWhile is_digit (show_nat n @ rest) = show_nat n"
    and "dropWhile is_digit (show_nat n @ rest) = rest"
    using show_nat_digits [of n] ends_not_digit [OF assms] by (simp_all add: list_all_iff)
  moreover have "\<not> (1 < length (show_nat n) \<and> hd (show_nat n) = CHR ''0'')"
    by (cases "n = 0") (use show_nat_hd in \<open>auto simp: show_nat.simps [of 0]\<close>)
  ultimately show ?thesis
    by (simp add: read_digits_def Let_def show_nat_nonempty read_show_nat)
qed

lemma show_nat_Cons: "\<exists>c t. show_nat n = c # t \<and> is_digit c"
  using show_nat_digits [of n] show_nat_nonempty [of n] by (cases "show_nat n") auto

lemma read_num_show:
  assumes "ends rest"
  shows "read_num (show_int i @ rest) = Some (JInt i, rest)"
proof (cases "i < 0")
  case True
  then show ?thesis
    by (simp add: show_int_def read_num_def read_digits_show [OF assms] num_end_ends [OF assms])
next
  case False
  obtain c t where ct: "show_nat (nat i) = c # t" "is_digit c" using show_nat_Cons by blast
  have "read_digits (c # t @ rest) = Some (nat i, rest)"
    using read_digits_show [OF assms, of "nat i"] by (simp add: ct)
  with False ct show ?thesis
    by (auto simp: show_int_def read_num_def num_end_ends [OF assms] is_digit_def)
qed

text \<open>The first character of a printed value decides which branch of the parser runs.\<close>

lemma is_ws_simps [simp]:
  "\<not> is_ws (CHR ''['')" "\<not> is_ws (CHR ''{'')" "\<not> is_ws (CHR '']'')" "\<not> is_ws (CHR ''}'')"
  "\<not> is_ws (CHR '','')" "\<not> is_ws (CHR '':'')" "\<not> is_ws (CHR 0x22)"
  by (simp_all add: is_ws_def)

lemma skip_ws_Cons: "\<not> is_ws c \<Longrightarrow> skip_ws (c # s) = c # s"
  by (simp add: skip_ws_def)

definition num_start :: "char \<Rightarrow> bool" where
  "num_start c = (is_digit c \<or> c = CHR ''-'')"

lemma num_start_distinct:
  "num_start c \<Longrightarrow> (of_char c :: nat) \<noteq> 34 \<and> c \<notin> set ''[]{}ntf,'' \<and> \<not> is_ws c"
  by (auto simp: num_start_def is_digit_def is_ws_def)

lemma show_int_Cons: "\<exists>c t. show_int i = c # t \<and> num_start c"
  using show_nat_Cons [of "nat i"] by (auto simp: show_int_def num_start_def)

lemma print_json_Cons:
  "plain j \<Longrightarrow> \<exists>c t. print_json j = c # t \<and> \<not> is_ws c \<and> c \<notin> {CHR '']'', CHR ''}''}"
proof (cases j)
  case (JInt i)
  then show ?thesis using show_int_Cons [of i] num_start_distinct by fastforce
qed (auto simp: print_str_def is_ws_def)

lemma skip_ws_print: "plain j \<Longrightarrow> skip_ws (print_json j @ s) = print_json j @ s"
  using print_json_Cons [of j] by (auto simp: skip_ws_Cons)

lemma read_val_list_elems:
  assumes "\<And>x n rest. x \<in> set xs \<Longrightarrow> plain x \<Longrightarrow> length (print_json x) \<le> n \<Longrightarrow> ends rest \<Longrightarrow>
      read_val n (print_json x @ rest) = Some (x, rest)"
    and "list_all plain xs" and "xs \<noteq> []"
    and "length (join_sep '','' (map print_json xs)) < n"
  shows "read_elems n (join_sep '','' (map print_json xs) @ CHR '']'' # rest) = Some (xs, rest)"
  using assms
proof (induction xs arbitrary: n)
  case Nil
  then show ?case by simp
next
  case (Cons x xs)
  then obtain m where n: "n = Suc m" by (cases n) auto
  show ?case
  proof (cases xs)
    case Nil
    have "read_val m (print_json x @ CHR '']'' # rest) = Some (x, CHR '']'' # rest)"
      using Cons.prems n Nil by (intro Cons.prems(1)) (auto simp: ends_def)
    with Nil n show ?thesis by (simp add: skip_ws_Cons)
  next
    case (Cons y ys)
    let ?rest = "join_sep '','' (map print_json xs) @ CHR '']'' # rest"
    have hd: "read_val m (print_json x @ CHR '','' # ?rest) = Some (x, CHR '','' # ?rest)"
      using Cons.prems n Cons by (intro Cons.prems(1)) (auto simp: ends_def)
    have tl: "read_elems m ?rest = Some (xs, rest)"
      using Cons.prems n Cons by (intro Cons.IH) auto
    have "skip_ws ?rest = ?rest"
      using Cons.prems(2) skip_ws_print [of y] Cons by (cases ys) auto
    with hd tl n Cons show ?thesis by (simp add: skip_ws_Cons)
  qed
qed

lemma length_print_str: "length s < length (print_str s)"
  using length_esc [of s] by (simp add: print_str_def)

lemma read_members_join:
  assumes "\<And>k x n rest. (k, x) \<in> set d \<Longrightarrow> plain x \<Longrightarrow> length (print_json x) \<le> n \<Longrightarrow> ends rest \<Longrightarrow>
      read_val n (print_json x @ rest) = Some (x, rest)"
    and "list_all (\<lambda>kv. plain (snd kv)) d" and "d \<noteq> []"
    and "length (join_sep '','' (map (\<lambda>(k, v). print_str k @ '':'' @ print_json v) d)) < n"
  shows "read_members n (join_sep '','' (map (\<lambda>(k, v). print_str k @ '':'' @ print_json v) d)
      @ CHR ''}'' # rest) = Some (d, rest)"
  using assms
proof (induction d arbitrary: n)
  case Nil
  then show ?case by simp
next
  case (Cons kv d)
  obtain k x where kv: "kv = (k, x)" by (cases kv)
  from Cons.prems obtain m where n: "n = Suc m" by (cases n) auto
  have key: "read_str (length (print_str k @ s)) (concat (map esc_char k) @ CHR 0x22 # s) = Some (k, s)" for s
    using length_print_str [of k] by (intro read_str_print) simp
  have val: "read_val m (skip_ws (print_json x @ s)) = Some (x, s)" if "ends s" for s
  proof -
    have "read_val m (print_json x @ s) = Some (x, s)"
      using Cons.prems n kv that by (intro Cons.prems(1) [of k]) (cases d; auto)+
    moreover have "plain x" using Cons.prems(2) kv by simp
    ultimately show ?thesis by (simp add: skip_ws_print)
  qed
  show ?case
  proof (cases d)
    case Nil
    have "ends (CHR ''}'' # rest)" by (simp add: ends_def)
    from val [OF this] key [of "CHR '':'' # print_json x @ CHR ''}'' # rest"] show ?thesis
      by (simp add: Nil kv n print_str_def skip_ws_Cons)
  next
    case (Cons y ys)
    let ?rest = "join_sep '','' (map (\<lambda>(k, v). print_str k @ '':'' @ print_json v) d) @ CHR ''}'' # rest"
    have tl: "read_members m ?rest = Some (d, rest)"
      using Cons.prems n Cons by (intro Cons.IH) auto
    have ws: "skip_ws ?rest = ?rest"
      by (cases ys) (auto simp: Cons print_str_def skip_ws_Cons split: prod.splits)
    have "ends (CHR '','' # ?rest)" by (simp add: ends_def)
    from val [OF this] key [of "CHR '':'' # print_json x @ CHR '','' # ?rest"] tl ws show ?thesis
      by (simp add: Cons kv n print_str_def skip_ws_Cons)
  qed
qed

lemma strip_lit_append [simp]: "strip_lit lit (lit @ s) = Some s"
  by (simp add: strip_lit_def)

lemma read_val_print:
  "plain j \<Longrightarrow> length (print_json j) \<le> n \<Longrightarrow> ends rest \<Longrightarrow> read_val n (print_json j @ rest) = Some (j, rest)"
proof (induction j arbitrary: n rest rule: print_json.induct)
  case 1
  then show ?case using strip_lit_append [of "''null''" rest] by (cases n) auto
next
  case (2 b)
  then show ?case
    using strip_lit_append [of "''true''" rest] strip_lit_append [of "''false''" rest] by (cases n; cases b) auto
next
  case (3 i)
  obtain c t where ct: "show_int i = c # t" "num_start c" using show_int_Cons by blast
  with 3 obtain m where "n = Suc m" by (cases n) auto
  with ct num_start_distinct [OF ct(2)] read_num_show [OF 3(3), of i] show ?case by simp
next
  case (4 r)
  then show ?case by simp
next
  case (5 s)
  then obtain m where n: "n = Suc m" by (cases n) (auto simp: print_str_def)
  have "read_str (length (print_str s @ rest)) (concat (map esc_char s) @ CHR 0x22 # rest) = Some (s, rest)"
    using length_print_str [of s] by (intro read_str_print) simp
  with n show ?case by (simp add: print_str_def)
next
  case (6 xs)
  then obtain m where n: "n = Suc m" by (cases n) auto
  show ?case
  proof (cases xs)
    case Nil
    with n show ?thesis by (simp add: skip_ws_Cons)
  next
    case (Cons y ys)
    have "read_elems m (join_sep '','' (map print_json xs) @ CHR '']'' # rest) = Some (xs, rest)"
      using 6 n Cons by (intro read_val_list_elems) auto
    moreover obtain c t where "print_json y = c # t" "\<not> is_ws c" "c \<noteq> CHR '']''"
      using print_json_Cons [of y] 6(2) Cons by auto
    then obtain u where "join_sep '','' (map print_json xs) = c # u" "\<not> is_ws c" "c \<noteq> CHR '']''"
      using Cons by (cases ys) auto
    ultimately show ?thesis using n by (simp add: skip_ws_Cons)
  qed
next
  case (7 d)
  then obtain m where n: "n = Suc m" by (cases n) auto
  show ?case
  proof (cases d)
    case Nil
    with n show ?thesis by (simp add: skip_ws_Cons)
  next
    case (Cons y ys)
    let ?p = "join_sep '','' (map (\<lambda>(k, v). print_str k @ '':'' @ print_json v) d)"
    have "read_members m (?p @ CHR ''}'' # rest) = Some (d, rest)"
      using 7 n Cons by (intro read_members_join) auto
    moreover obtain u where "?p = CHR 0x22 # u"
      using Cons by (cases ys; cases y) (auto simp: print_str_def)
    ultimately show ?thesis using n by (simp add: skip_ws_Cons)
  qed
qed

lemma foldl_update_distinct:
  "distinct (map fst acc @ map fst d) \<Longrightarrow>
     foldl (\<lambda>acc kv. AList.update (fst kv) (snd kv) acc) acc d = acc @ d"
proof (induction d arbitrary: acc)
  case (Cons kv d)
  have "fst kv \<notin> fst ` set acc" using Cons.prems by auto
  then have "AList.update (fst kv) (snd kv) acc = acc @ [kv]"
    by (induction acc) auto
  with Cons show ?case by simp
qed simp

lemma map_id_onD: "(\<And>x. x \<in> set xs \<Longrightarrow> f x = x) \<Longrightarrow> map f xs = xs"
  by (induction xs) auto

lemma last_wins_keys_ok: "keys_ok j \<Longrightarrow> last_wins j = j"
proof (induction j rule: last_wins.induct)
  case (1 xs)
  then show ?case by (auto simp: list_all_iff intro!: map_id_onD)
next
  case (2 d)
  then have "map (\<lambda>(k, v). (k, last_wins v)) d = d"
    by (fastforce simp: list_all_iff intro!: map_id_onD)
  then show ?case using 2(2) by (simp add: foldl_update_distinct)
qed auto

lemma sort_keys_plain: "plain j \<Longrightarrow> plain (sort_keys j)"
  by (induction j rule: sort_keys.induct) (fastforce simp: list_all_iff)+

lemma sort_keys_keys_ok: "keys_ok j \<Longrightarrow> keys_ok (sort_keys j)"
proof (induction j rule: sort_keys.induct)
  case (2 d)
  have "mset (map fst (sort_key fst (map (\<lambda>(k, v). (k, sort_keys v)) d))) = mset (map fst d)"
    by (induction d) auto
  then have "distinct (map fst (sort_key fst (map (\<lambda>(k, v). (k, sort_keys v)) d)))"
    using 2(2) by (metis distinct.simps(2) keys_ok.simps(2) mset_eq_imp_distinct_iff)
  with 2 show ?case by (fastforce simp: list_all_iff)
qed (auto simp: list_all_iff)

text \<open>Loading the text of a value gives the value with its keys sorted.\<close>

lemma json_loads_print: "plain j \<Longrightarrow> keys_ok j \<Longrightarrow> json_loads (print_json j) = Some j"
  using read_val_print [of j "Suc (length (print_json j))" "[]"] skip_ws_print [of j "[]"]
  by (simp add: json_loads_def last_wins_keys_ok ends_def skip_ws_def)

lemma json_loads_dumps: "plain j \<Longrightarrow> keys_ok j \<Longrightarrow> json_loads (json_dumps j) = Some (sort_keys j)"
  by (simp add: json_dumps_def json_loads_print sort_keys_plain sort_keys_keys_ok)

end
