(* ===== verification/Admission_State.thy ===== *)
theory Admission_State
  imports Json_Text "HOL-Library.Monad_Syntax"
begin

section \<open>The maintenance state and its validator\<close>

text \<open>
  The durable state of the runner maintenance protocol
  (\<^verbatim>\<open>infrastructure/shared-services/gitlab-runner/ci/maintenance-admission.py\<close>).
  The first part is the code: \<open>text_ok\<close>, \<open>identity\<close> and \<open>validate\<close> work on the
  Python value that \<^verbatim>\<open>json.loads\<close> returned. The second part is the typed state, a
  record \<open>mstate\<close>, with its decoding and encoding. The lemma \<open>validate_iff\<close> says that
  the validator accepts a value exactly when it is the encoding of a typed state that
  satisfies \<open>wf_state\<close>; the protocol is then modelled on typed states. The hash function
  of \<^verbatim>\<open>hashlib.sha256\<close> is a parameter \<open>sha\<close>, about which nothing is
  assumed.
\<close>

subsection \<open>The validator, as the code has it\<close>

definition WORKER_NAMESPACE :: string where
  "WORKER_NAMESPACE = ''ci-maintenance-worker''"

definition CONTROL_NAMESPACE :: string where
  "CONTROL_NAMESPACE = ''ci-maintenance''"

lemma namespaces_differ [simp]:
  "WORKER_NAMESPACE \<noteq> CONTROL_NAMESPACE" "CONTROL_NAMESPACE \<noteq> WORKER_NAMESPACE"
  by (simp_all add: WORKER_NAMESPACE_def CONTROL_NAMESPACE_def)

definition PHASES :: "string list" where
  "PHASES = [''IDLE'', ''PAUSE_INTENT'', ''DRAINING'', ''ADMITTED'', ''CLAIMED'',
             ''CLOSING'', ''RESTORING'', ''DONE'', ''ALERT'']"

definition text_ok :: "jval \<Rightarrow> bool" where
  "text_ok v = (case v of JStr s \<Rightarrow> s \<noteq> [] \<and> length s \<le> 256 | _ \<Rightarrow> False)"

definition IDENTITY_KEYS :: "string list" where
  "IDENTITY_KEYS = [''namespace'', ''name'', ''uid'', ''job'', ''job_uid'']"

definition identity :: "jval \<Rightarrow> jval res" where
  "identity v = (case v of
     JDict d \<Rightarrow>
       rbind (require (has_keys d IDENTITY_KEYS \<and> list_all (\<lambda>k. text_ok (dget k d)) (map fst d))
                ''invalid owner identity'') (\<lambda>_.
       rbind (require (dget ''namespace'' d \<in> {JStr WORKER_NAMESPACE, JStr CONTROL_NAMESPACE})
                ''invalid owner namespace'') (\<lambda>_.
       Inr v))
   | _ \<Rightarrow> Inl (Refuse ''invalid owner identity''))"

definition STATE_KEYS :: "string list" where
  "STATE_KEYS = [''schema'', ''uid'', ''policy'', ''runner'', ''heartbeat'', ''phase'',
                 ''operation'', ''gc_holder'']"

definition OPERATION_KEYS :: "string list" where
  "OPERATION_KEYS = [''id'', ''slot'', ''coordinator'', ''worker'', ''claimed'', ''holder'',
     ''baseline'', ''restore_required'', ''write'', ''drain_by'', ''cleanup_by'', ''recover_by'',
     ''outcome'', ''restored'']"

definition GC_KEYS :: "string list" where
  "GC_KEYS = [''identity'', ''claimed_at'']"

definition validate_gc :: "jval \<Rightarrow> unit res" where
  "validate_gc gc = (case gc of
     JNull \<Rightarrow> Inr ()
   | JDict d \<Rightarrow>
       rbind (require (has_keys d GC_KEYS
                \<and> (case dget ''claimed_at'' d of JInt n \<Rightarrow> 0 \<le> n | _ \<Rightarrow> False)) ''invalid GC holder'') (\<lambda>_.
       rbind (identity (dget ''identity'' d)) (\<lambda>_.
       rbind (jitem ''namespace'' (dget ''identity'' d)) (\<lambda>ns.
       require (ns = JStr WORKER_NAMESPACE) ''wrong GC namespace'')))
   | _ \<Rightarrow> Inl (Refuse ''invalid GC holder''))"

definition optional_identity :: "jval \<Rightarrow> unit res" where
  "optional_identity v = (if v = JNull then Inr () else rbind (identity v) (\<lambda>_. Inr ()))"

definition optional_namespace :: "jval \<Rightarrow> string \<Rightarrow> bool res" where
  "optional_namespace v ns =
     (if v = JNull then Inr True else rbind (jitem ''namespace'' v) (\<lambda>n. Inr (n = JStr ns)))"

definition deadlines_ok :: "dict \<Rightarrow> bool" where
  "deadlines_ok d =
     (case (dget ''slot'' d, dget ''drain_by'' d, dget ''cleanup_by'' d, dget ''recover_by'' d) of
        (JInt s, JInt dr, JInt cl, JInt re) \<Rightarrow>
          s mod 3600 = 47 * 60 \<and> dr = s + 1200 \<and> cl = s + 1800 \<and> re = s + 2700
      | _ \<Rightarrow> False)"

definition operation_values :: "dict \<Rightarrow> bool res" where
  "operation_values d =
     and_then (list_all (\<lambda>k. is_bool (dget k d)) [''claimed'', ''baseline'', ''restore_required'', ''restored'']
         \<and> dget ''baseline'' d = JBool False \<and> dget ''restore_required'' d = JBool True
         \<and> deadlines_ok d)
       (rbind (in_strs (dget ''write'' d) [''none'', ''pause'', ''restore'', ''unknown'']) (\<lambda>b.
        Inr (b \<and> text_ok (dget ''outcome'' d))))"

definition int_of :: "jval \<Rightarrow> int" where
  "int_of j = (case j of JInt i \<Rightarrow> i | _ \<Rightarrow> 0)"

definition str_of :: "jval \<Rightarrow> string" where
  "str_of j = (case j of JStr s \<Rightarrow> s | _ \<Rightarrow> [])"

definition operation_hash :: "(string \<Rightarrow> string) \<Rightarrow> int \<Rightarrow> string \<Rightarrow> string \<Rightarrow> string" where
  "operation_hash sha slot coord_uid policy = sha (show_int slot @ '':'' @ coord_uid @ '':'' @ policy)"

definition validate_operation :: "(string \<Rightarrow> string) \<Rightarrow> string \<Rightarrow> string \<Rightarrow> dict \<Rightarrow> unit res" where
  "validate_operation sha policy phase d =
     rbind (require (has_keys d OPERATION_KEYS) ''invalid operation fields'') (\<lambda>_.
     rbind (identity (dget ''coordinator'' d)) (\<lambda>_.
     rbind (optional_identity (dget ''worker'' d)) (\<lambda>_.
     rbind (optional_identity (dget ''holder'' d)) (\<lambda>_.
     rbind (jitem ''namespace'' (dget ''coordinator'' d)) (\<lambda>cns.
     rbind (optional_namespace (dget ''worker'' d) WORKER_NAMESPACE) (\<lambda>wns.
     rbind (optional_namespace (dget ''holder'' d) CONTROL_NAMESPACE) (\<lambda>hns.
     rbind (require (cns = JStr CONTROL_NAMESPACE \<and> wns \<and> hns) ''wrong effect-owner namespace'') (\<lambda>_.
     rbind (operation_values d) (\<lambda>values_ok.
     rbind (require values_ok ''invalid operation values'') (\<lambda>_.
     rbind (jitem ''uid'' (dget ''coordinator'' d)) (\<lambda>cuid.
     rbind (require (dget ''id'' d = JStr (operation_hash sha (int_of (dget ''slot'' d)) (str_of cuid) policy))
              ''invalid operation generation'') (\<lambda>_.
     rbind (require (dget ''claimed'' d = JBool False \<or> dget ''worker'' d \<noteq> JNull) ''missing claimant'') (\<lambda>_.
     rbind (require (phase \<notin> {''ADMITTED'', ''CLAIMED''}
              \<or> dget ''worker'' d \<noteq> JNull \<and> dget ''write'' d = JStr ''none'') ''invalid admission'') (\<lambda>_.
     rbind (require (phase \<noteq> ''CLAIMED'' \<or> dget ''claimed'' d = JBool True) ''missing claim latch'') (\<lambda>_.
     require (phase \<noteq> ''DONE'' \<or> dget ''restored'' d = JBool True \<and> dget ''write'' d = JStr ''none'')
       ''invalid restoration'')))))))))))))))"

definition validate :: "(string \<Rightarrow> string) \<Rightarrow> jval \<Rightarrow> string \<Rightarrow> string \<Rightarrow> unit res" where
  "validate sha state uid policy = (case state of
     JDict d \<Rightarrow>
       rbind (require (has_keys d STATE_KEYS) ''invalid state fields'') (\<lambda>_.
       rbind (and_then (dget ''schema'' d = JInt 1 \<and> dget ''runner'' d = JInt 2
                \<and> dget ''uid'' d = JStr uid \<and> text_ok (JStr uid) \<and> dget ''policy'' d = JStr policy
                \<and> (case dget ''heartbeat'' d of JInt n \<Rightarrow> 0 \<le> n | _ \<Rightarrow> False))
              (in_strs (dget ''phase'' d) PHASES)) (\<lambda>head_ok.
       rbind (require head_ok ''invalid state identity or policy'') (\<lambda>_.
       rbind (validate_gc (dget ''gc_holder'' d)) (\<lambda>_.
       (case dget ''operation'' d of
          JNull \<Rightarrow> require (dget ''phase'' d \<in> {JStr ''IDLE'', JStr ''ALERT''}) ''missing operation''
        | JDict op \<Rightarrow> validate_operation sha policy (str_of (dget ''phase'' d)) op
        | _ \<Rightarrow> Inl (Refuse ''invalid operation fields''))))))
   | _ \<Rightarrow> Inl (Refuse ''invalid state fields''))"

subsection \<open>The typed state\<close>

datatype phase = IDLE | PAUSE_INTENT | DRAINING | ADMITTED | CLAIMED | CLOSING | RESTORING | DONE | ALERT

fun phase_str :: "phase \<Rightarrow> string" where
  "phase_str IDLE = ''IDLE''"
| "phase_str PAUSE_INTENT = ''PAUSE_INTENT''"
| "phase_str DRAINING = ''DRAINING''"
| "phase_str ADMITTED = ''ADMITTED''"
| "phase_str CLAIMED = ''CLAIMED''"
| "phase_str CLOSING = ''CLOSING''"
| "phase_str RESTORING = ''RESTORING''"
| "phase_str DONE = ''DONE''"
| "phase_str ALERT = ''ALERT''"

datatype rwrite = WNone | WPause | WRestore | WUnknown

fun write_str :: "rwrite \<Rightarrow> string" where
  "write_str WNone = ''none''"
| "write_str WPause = ''pause''"
| "write_str WRestore = ''restore''"
| "write_str WUnknown = ''unknown''"

record ident =
  id_ns :: string
  id_name :: string
  id_uid :: string
  id_job :: string
  id_job_uid :: string

record gc_slot =
  gc_ident :: ident
  gc_claimed_at :: int

record operation =
  op_id :: string
  op_slot :: int
  op_coordinator :: ident
  op_worker :: "ident option"
  op_claimed :: bool
  op_holder :: "ident option"
  op_baseline :: bool
  op_restore_required :: bool
  op_write :: rwrite
  op_drain_by :: int
  op_cleanup_by :: int
  op_recover_by :: int
  op_outcome :: string
  op_restored :: bool

record mstate =
  ms_schema :: int
  ms_uid :: string
  ms_policy :: string
  ms_runner :: int
  ms_heartbeat :: int
  ms_phase :: phase
  ms_operation :: "operation option"
  ms_gc :: "gc_slot option"

subsection \<open>Encoding and decoding\<close>

definition enc_opt :: "('a \<Rightarrow> jval) \<Rightarrow> 'a option \<Rightarrow> jval" where
  "enc_opt f x = (case x of None \<Rightarrow> JNull | Some v \<Rightarrow> f v)"

definition enc_ident :: "ident \<Rightarrow> jval" where
  "enc_ident i = JDict [(''job'', JStr (id_job i)), (''job_uid'', JStr (id_job_uid i)),
     (''name'', JStr (id_name i)), (''namespace'', JStr (id_ns i)), (''uid'', JStr (id_uid i))]"

definition enc_gc :: "gc_slot \<Rightarrow> jval" where
  "enc_gc g = JDict [(''claimed_at'', JInt (gc_claimed_at g)), (''identity'', enc_ident (gc_ident g))]"

definition enc_op :: "operation \<Rightarrow> jval" where
  "enc_op p = JDict [
     (''baseline'', JBool (op_baseline p)), (''claimed'', JBool (op_claimed p)),
     (''cleanup_by'', JInt (op_cleanup_by p)), (''coordinator'', enc_ident (op_coordinator p)),
     (''drain_by'', JInt (op_drain_by p)), (''holder'', enc_opt enc_ident (op_holder p)),
     (''id'', JStr (op_id p)), (''outcome'', JStr (op_outcome p)),
     (''recover_by'', JInt (op_recover_by p)), (''restore_required'', JBool (op_restore_required p)),
     (''restored'', JBool (op_restored p)), (''slot'', JInt (op_slot p)),
     (''worker'', enc_opt enc_ident (op_worker p)), (''write'', JStr (write_str (op_write p)))]"

definition encode :: "mstate \<Rightarrow> jval" where
  "encode s = JDict [
     (''gc_holder'', enc_opt enc_gc (ms_gc s)), (''heartbeat'', JInt (ms_heartbeat s)),
     (''operation'', enc_opt enc_op (ms_operation s)), (''phase'', JStr (phase_str (ms_phase s))),
     (''policy'', JStr (ms_policy s)), (''runner'', JInt (ms_runner s)),
     (''schema'', JInt (ms_schema s)), (''uid'', JStr (ms_uid s))]"

fun dec_str :: "jval \<Rightarrow> string option" where
  "dec_str (JStr s) = Some s"
| "dec_str _ = None"

fun dec_int :: "jval \<Rightarrow> int option" where
  "dec_int (JInt i) = Some i"
| "dec_int _ = None"

fun dec_bool :: "jval \<Rightarrow> bool option" where
  "dec_bool (JBool b) = Some b"
| "dec_bool _ = None"

definition dec_opt :: "(jval \<Rightarrow> 'a option) \<Rightarrow> jval \<Rightarrow> 'a option option" where
  "dec_opt f j = (if j = JNull then Some None else map_option Some (f j))"

definition dec_phase :: "jval \<Rightarrow> phase option" where
  "dec_phase j = find (\<lambda>p. j = JStr (phase_str p))
     [IDLE, PAUSE_INTENT, DRAINING, ADMITTED, CLAIMED, CLOSING, RESTORING, DONE, ALERT]"

definition dec_write :: "jval \<Rightarrow> rwrite option" where
  "dec_write j = find (\<lambda>w. j = JStr (write_str w)) [WNone, WPause, WRestore, WUnknown]"

definition dec_keys :: "string list \<Rightarrow> jval \<Rightarrow> dict option" where
  "dec_keys ks j = (case j of JDict d \<Rightarrow> if has_keys d ks then Some d else None | _ \<Rightarrow> None)"

definition dec_ident :: "jval \<Rightarrow> ident option" where
  "dec_ident j = do {
     d \<leftarrow> dec_keys IDENTITY_KEYS j;
     ns \<leftarrow> dec_str (dget ''namespace'' d); nm \<leftarrow> dec_str (dget ''name'' d);
     u \<leftarrow> dec_str (dget ''uid'' d); jb \<leftarrow> dec_str (dget ''job'' d);
     ju \<leftarrow> dec_str (dget ''job_uid'' d);
     Some \<lparr>id_ns = ns, id_name = nm, id_uid = u, id_job = jb, id_job_uid = ju\<rparr> }"

definition dec_gc :: "jval \<Rightarrow> gc_slot option" where
  "dec_gc j = do {
     d \<leftarrow> dec_keys GC_KEYS j;
     i \<leftarrow> dec_ident (dget ''identity'' d); t \<leftarrow> dec_int (dget ''claimed_at'' d);
     Some \<lparr>gc_ident = i, gc_claimed_at = t\<rparr> }"

definition dec_op :: "jval \<Rightarrow> operation option" where
  "dec_op j = do {
     d \<leftarrow> dec_keys OPERATION_KEYS j;
     i \<leftarrow> dec_str (dget ''id'' d); sl \<leftarrow> dec_int (dget ''slot'' d);
     co \<leftarrow> dec_ident (dget ''coordinator'' d); wo \<leftarrow> dec_opt dec_ident (dget ''worker'' d);
     cl \<leftarrow> dec_bool (dget ''claimed'' d); ho \<leftarrow> dec_opt dec_ident (dget ''holder'' d);
     ba \<leftarrow> dec_bool (dget ''baseline'' d); rr \<leftarrow> dec_bool (dget ''restore_required'' d);
     wr \<leftarrow> dec_write (dget ''write'' d); db \<leftarrow> dec_int (dget ''drain_by'' d);
     cb \<leftarrow> dec_int (dget ''cleanup_by'' d); rb \<leftarrow> dec_int (dget ''recover_by'' d);
     ou \<leftarrow> dec_str (dget ''outcome'' d); re \<leftarrow> dec_bool (dget ''restored'' d);
     Some \<lparr>op_id = i, op_slot = sl, op_coordinator = co, op_worker = wo, op_claimed = cl,
       op_holder = ho, op_baseline = ba, op_restore_required = rr, op_write = wr,
       op_drain_by = db, op_cleanup_by = cb, op_recover_by = rb, op_outcome = ou, op_restored = re\<rparr> }"

definition decode :: "jval \<Rightarrow> mstate option" where
  "decode j = do {
     d \<leftarrow> dec_keys STATE_KEYS j;
     sc \<leftarrow> dec_int (dget ''schema'' d); u \<leftarrow> dec_str (dget ''uid'' d);
     po \<leftarrow> dec_str (dget ''policy'' d); ru \<leftarrow> dec_int (dget ''runner'' d);
     hb \<leftarrow> dec_int (dget ''heartbeat'' d); ph \<leftarrow> dec_phase (dget ''phase'' d);
     op \<leftarrow> dec_opt dec_op (dget ''operation'' d); gc \<leftarrow> dec_opt dec_gc (dget ''gc_holder'' d);
     Some \<lparr>ms_schema = sc, ms_uid = u, ms_policy = po, ms_runner = ru, ms_heartbeat = hb,
       ms_phase = ph, ms_operation = op, ms_gc = gc\<rparr> }"

subsection \<open>Well-formed states\<close>

definition wf_text :: "string \<Rightarrow> bool" where
  "wf_text s = (s \<noteq> [] \<and> length s \<le> 256)"

definition wf_ident :: "ident \<Rightarrow> bool" where
  "wf_ident i = (list_all wf_text [id_ns i, id_name i, id_uid i, id_job i, id_job_uid i]
     \<and> id_ns i \<in> {WORKER_NAMESPACE, CONTROL_NAMESPACE})"

definition wf_gc :: "gc_slot \<Rightarrow> bool" where
  "wf_gc g = (0 \<le> gc_claimed_at g \<and> wf_ident (gc_ident g) \<and> id_ns (gc_ident g) = WORKER_NAMESPACE)"

definition wf_operation :: "(string \<Rightarrow> string) \<Rightarrow> string \<Rightarrow> phase \<Rightarrow> operation \<Rightarrow> bool" where
  "wf_operation sha policy ph p =
     (wf_ident (op_coordinator p) \<and> id_ns (op_coordinator p) = CONTROL_NAMESPACE
      \<and> (\<forall>w. op_worker p = Some w \<longrightarrow> wf_ident w \<and> id_ns w = WORKER_NAMESPACE)
      \<and> (\<forall>h. op_holder p = Some h \<longrightarrow> wf_ident h \<and> id_ns h = CONTROL_NAMESPACE)
      \<and> \<not> op_baseline p \<and> op_restore_required p
      \<and> op_slot p mod 3600 = 47 * 60 \<and> op_drain_by p = op_slot p + 1200
      \<and> op_cleanup_by p = op_slot p + 1800 \<and> op_recover_by p = op_slot p + 2700
      \<and> wf_text (op_outcome p)
      \<and> op_id p = operation_hash sha (op_slot p) (id_uid (op_coordinator p)) policy
      \<and> (op_claimed p \<longrightarrow> op_worker p \<noteq> None)
      \<and> (ph \<in> {ADMITTED, CLAIMED} \<longrightarrow> op_worker p \<noteq> None \<and> op_write p = WNone)
      \<and> (ph = CLAIMED \<longrightarrow> op_claimed p)
      \<and> (ph = DONE \<longrightarrow> op_restored p \<and> op_write p = WNone))"

definition wf_state :: "(string \<Rightarrow> string) \<Rightarrow> string \<Rightarrow> string \<Rightarrow> mstate \<Rightarrow> bool" where
  "wf_state sha uid policy s =
     (ms_schema s = 1 \<and> ms_runner s = 2 \<and> ms_uid s = uid \<and> wf_text uid \<and> ms_policy s = policy
      \<and> 0 \<le> ms_heartbeat s
      \<and> (\<forall>g. ms_gc s = Some g \<longrightarrow> wf_gc g)
      \<and> (case ms_operation s of None \<Rightarrow> ms_phase s \<in> {IDLE, ALERT}
         | Some p \<Rightarrow> wf_operation sha policy (ms_phase s) p))"

subsection \<open>Decoding inverts encoding\<close>

lemma has_keys_enc [simp]:
  "has_keys [(''job'', a), (''job_uid'', b), (''name'', c), (''namespace'', d), (''uid'', e)] IDENTITY_KEYS"
  "has_keys [(''claimed_at'', a), (''identity'', b)] GC_KEYS"
  by (simp_all add: has_keys_def IDENTITY_KEYS_def GC_KEYS_def)

lemma dec_opt_enc_opt:
  "(\<And>v. f v \<noteq> JNull) \<Longrightarrow> (\<And>v. g (f v) = Some v) \<Longrightarrow> dec_opt g (enc_opt f x) = Some x"
  by (cases x) (auto simp: dec_opt_def enc_opt_def)

lemma dec_ident_enc [simp]: "dec_ident (enc_ident i) = Some i"
  by (simp add: dec_ident_def enc_ident_def dec_keys_def)

lemma dec_gc_enc [simp]: "dec_gc (enc_gc g) = Some g"
  by (simp add: dec_gc_def enc_gc_def dec_keys_def)

lemma dec_phase_enc [simp]: "dec_phase (JStr (phase_str p)) = Some p"
  by (cases p) (simp_all add: dec_phase_def)

lemma dec_write_enc [simp]: "dec_write (JStr (write_str w)) = Some w"
  by (cases w) (simp_all add: dec_write_def)

lemma find_in_P: "find P xs = Some x \<Longrightarrow> P x"
  by (auto simp: find_Some_iff)

lemma dec_phase_iff: "dec_phase j = Some x \<longleftrightarrow> j = JStr (phase_str x)"
proof
  assume "dec_phase j = Some x"
  then show "j = JStr (phase_str x)" unfolding dec_phase_def by (rule find_in_P)
qed (simp only: dec_phase_enc)

lemma dec_write_iff: "dec_write j = Some x \<longleftrightarrow> j = JStr (write_str x)"
proof
  assume "dec_write j = Some x"
  then show "j = JStr (write_str x)" unfolding dec_write_def by (rule find_in_P)
qed (simp only: dec_write_enc)

lemma enc_not_null [simp]: "enc_ident i \<noteq> JNull" "enc_gc g \<noteq> JNull" "enc_op p \<noteq> JNull"
  by (simp_all add: enc_ident_def enc_gc_def enc_op_def)

lemma dec_op_enc [simp]: "dec_op (enc_op p) = Some p"
  by (simp add: dec_op_def enc_op_def dec_keys_def dec_opt_enc_opt has_keys_def OPERATION_KEYS_def)

lemma decode_encode [simp]: "decode (encode s) = Some s"
  by (simp add: decode_def encode_def dec_keys_def dec_opt_enc_opt has_keys_def STATE_KEYS_def)

subsection \<open>The validator accepts exactly the well-formed states\<close>

lemma text_ok_JStr [simp]: "text_ok (JStr s) = wf_text s"
  by (simp add: text_ok_def wf_text_def)

lemma text_ok_iff: "text_ok v \<longleftrightarrow> (\<exists>s. dec_str v = Some s \<and> wf_text s)"
  by (cases v) (simp_all add: text_ok_def wf_text_def)

lemma dec_str_iff: "dec_str v = Some s \<longleftrightarrow> v = JStr s"
  by (cases v) auto

lemma dec_int_iff: "dec_int v = Some i \<longleftrightarrow> v = JInt i"
  by (cases v) auto

lemma dec_bool_iff: "dec_bool v = Some b \<longleftrightarrow> v = JBool b"
  by (cases v) auto

lemma dec_keys_iff: "dec_keys ks j = Some d \<longleftrightarrow> j = JDict d \<and> has_keys d ks"
  by (auto simp: dec_keys_def split: jval.splits if_splits)

lemma dec_opt_iff: "dec_opt f j = Some x \<longleftrightarrow>
    (case x of None \<Rightarrow> j = JNull | Some v \<Rightarrow> j \<noteq> JNull \<and> f j = Some v)"
  by (auto simp: dec_opt_def split: option.splits)

lemmas dec_iffs = dec_str_iff dec_int_iff dec_bool_iff dec_keys_iff dec_phase_iff dec_write_iff

lemma has_keys_list_all:
  "has_keys d ks \<Longrightarrow> list_all P (map fst d) = list_all P ks"
  by (auto simp: has_keys_iff list_all_iff)

lemma identity_iff: "identity v = Inr w \<longleftrightarrow> w = v \<and> (\<exists>i. dec_ident v = Some i \<and> wf_ident i)"
proof (cases v)
  case (JDict d)
  show ?thesis
  proof (cases "has_keys d IDENTITY_KEYS")
    case True
    have all: "list_all (\<lambda>k. text_ok (dget k d)) (map fst d)
        = (text_ok (dget ''namespace'' d) \<and> text_ok (dget ''name'' d) \<and> text_ok (dget ''uid'' d)
           \<and> text_ok (dget ''job'' d) \<and> text_ok (dget ''job_uid'' d))"
      by (simp add: has_keys_list_all [OF True]) (simp add: IDENTITY_KEYS_def)
    have "identity v = Inr w \<longleftrightarrow> w = v \<and> text_ok (dget ''namespace'' d) \<and> text_ok (dget ''name'' d)
        \<and> text_ok (dget ''uid'' d) \<and> text_ok (dget ''job'' d) \<and> text_ok (dget ''job_uid'' d)
        \<and> dget ''namespace'' d \<in> {JStr WORKER_NAMESPACE, JStr CONTROL_NAMESPACE}"
      by (auto simp: JDict identity_def all True res_simps)
    also have "\<dots> \<longleftrightarrow> w = v \<and> (\<exists>i. dec_ident v = Some i \<and> wf_ident i)"
      by (auto simp: JDict True dec_ident_def dec_keys_def text_ok_iff dec_iffs bind_eq_Some_conv wf_ident_def)
    finally show ?thesis .
  next
    case False
    then show ?thesis by (simp add: JDict identity_def dec_ident_def dec_keys_def)
  qed
qed (simp_all add: identity_def dec_ident_def dec_keys_def)

lemma identity_dec: "dec_ident v = Some i \<Longrightarrow> wf_ident i \<Longrightarrow> identity v = Inr v"
  by (simp add: identity_iff)

lemma dec_ident_items:
  assumes "dec_ident v = Some i"
  shows "jitem ''namespace'' v = Inr (JStr (id_ns i)) \<and> jitem ''uid'' v = Inr (JStr (id_uid i))"
proof -
  obtain d where d: "v = JDict d" "has_keys d IDENTITY_KEYS"
      "dget ''namespace'' d = JStr (id_ns i)" "dget ''uid'' d = JStr (id_uid i)"
    using assms by (auto simp: dec_ident_def dec_iffs bind_eq_Some_conv)
  then show ?thesis
    using has_keys_map_of [OF d(2)] by (simp add: jitem_JDict IDENTITY_KEYS_def)
qed

lemmas dec_ident_ns = dec_ident_items [THEN conjunct1]

lemmas dec_ident_uid = dec_ident_items [THEN conjunct2]

lemma dec_ident_null [simp]: "dec_ident JNull = None" "dec_gc JNull = None" "dec_op JNull = None"
  by (simp_all add: dec_ident_def dec_gc_def dec_op_def dec_keys_def)

text \<open>A check that follows \<open>identity\<close> sees the decoded identity.\<close>

lemma identity_then:
  "(rbind (identity v) f = Inr y) \<longleftrightarrow> (\<exists>i. dec_ident v = Some i \<and> wf_ident i \<and> f v = Inr y)"
  by (auto simp: rbind_eq_Inr identity_iff)

lemma validate_gc_iff:
  "validate_gc v = Inr () \<longleftrightarrow> (\<exists>g. dec_opt dec_gc v = Some g \<and> (\<forall>x. g = Some x \<longrightarrow> wf_gc x))"
proof (cases v)
  case JNull
  then show ?thesis by (simp add: validate_gc_def dec_opt_def)
next
  case (JDict d)
  have "validate_gc v = Inr () \<longleftrightarrow> has_keys d GC_KEYS
      \<and> (\<exists>n. dget ''claimed_at'' d = JInt n \<and> 0 \<le> n)
      \<and> (\<exists>i. dec_ident (dget ''identity'' d) = Some i \<and> wf_ident i \<and> id_ns i = WORKER_NAMESPACE)"
    unfolding JDict validate_gc_def
    by (cases "dec_ident (dget ''identity'' d)")
       (auto simp: rbind_eq_Inr [of "require _ _"] require_eq_Inr identity_then dec_ident_ns split: jval.splits)
  then have "validate_gc v = Inr () \<longleftrightarrow> (\<exists>g. dec_gc v = Some g \<and> wf_gc g)"
    by (auto simp: JDict dec_gc_def dec_iffs bind_eq_Some_conv wf_gc_def)
  then show ?thesis by (auto simp: dec_opt_iff JDict split: option.splits)
qed (simp_all add: validate_gc_def dec_opt_def dec_gc_def dec_keys_def)

lemma optional_identity_iff:
  "optional_identity v = Inr () \<longleftrightarrow> (\<exists>i. dec_opt dec_ident v = Some i \<and> (\<forall>x. i = Some x \<longrightarrow> wf_ident x))"
  by (auto simp: optional_identity_def dec_opt_def res_simps identity_iff)

lemma optional_namespace_dec:
  "dec_opt dec_ident v = Some i \<Longrightarrow>
     optional_namespace v ns = Inr (\<forall>x. i = Some x \<longrightarrow> id_ns x = ns)"
  by (auto simp: optional_namespace_def dec_opt_def dec_ident_ns split: if_splits)

lemma optional_identity_then:
  "(rbind (optional_identity v) f = Inr y) \<longleftrightarrow>
     (\<exists>i. dec_opt dec_ident v = Some i \<and> (\<forall>x. i = Some x \<longrightarrow> wf_ident x) \<and> f () = Inr y)"
  using optional_identity_iff [of v] by (auto simp: rbind_eq_Inr)

lemma require_then: "(rbind (require c r) f = Inr y) \<longleftrightarrow> c \<and> f () = Inr y"
  by (auto simp: rbind_eq_Inr require_eq_Inr)

lemma phase_str_iff [simp]: "phase_str p = phase_str q \<longleftrightarrow> p = q"
  by (metis dec_phase_enc option.inject)

lemma phase_str_lits [simp]:
  "(phase_str p = ''IDLE'') = (p = IDLE)" "(phase_str p = ''ADMITTED'') = (p = ADMITTED)"
  "(phase_str p = ''CLAIMED'') = (p = CLAIMED)" "(phase_str p = ''DONE'') = (p = DONE)"
  "(phase_str p = ''ALERT'') = (p = ALERT)"
  by (cases p; simp)+

lemma write_str_lits [simp]: "(write_str w = ''none'') = (w = WNone)"
  by (cases w) simp_all

lemma phase_str_PHASES: "s \<in> set PHASES \<longleftrightarrow> (\<exists>p. s = phase_str p)"
proof
  assume "s \<in> set PHASES"
  then show "\<exists>p. s = phase_str p"
    unfolding PHASES_def by (auto intro: phase_str.simps [symmetric])
next
  assume "\<exists>p. s = phase_str p"
  then obtain p where "s = phase_str p" ..
  then show "s \<in> set PHASES" by (cases p) (simp_all add: PHASES_def)
qed

lemma in_writes: "s \<in> set [''none'', ''pause'', ''restore'', ''unknown''] \<longleftrightarrow> (\<exists>w. s = write_str w)"
proof
  assume "s \<in> set [''none'', ''pause'', ''restore'', ''unknown'']"
  then show "\<exists>w. s = write_str w" by (auto intro: write_str.simps [symmetric])
next
  assume "\<exists>w. s = write_str w"
  then obtain w where "s = write_str w" ..
  then show "s \<in> set [''none'', ''pause'', ''restore'', ''unknown'']" by (cases w) simp_all
qed

definition op_values :: "dict \<Rightarrow> bool" where
  "op_values d \<longleftrightarrow>
     (\<exists>cl re sl w out. dget ''claimed'' d = JBool cl \<and> dget ''restored'' d = JBool re
        \<and> dget ''baseline'' d = JBool False \<and> dget ''restore_required'' d = JBool True
        \<and> dget ''slot'' d = JInt sl \<and> sl mod 3600 = 47 * 60 \<and> dget ''drain_by'' d = JInt (sl + 1200)
        \<and> dget ''cleanup_by'' d = JInt (sl + 1800) \<and> dget ''recover_by'' d = JInt (sl + 2700)
        \<and> dget ''write'' d = JStr (write_str w) \<and> dget ''outcome'' d = JStr out \<and> wf_text out)"

lemma in_strs_write:
  "(in_strs j [''none'', ''pause'', ''restore'', ''unknown''] = Inr True) \<longleftrightarrow> (\<exists>w. j = JStr (write_str w))"
  unfolding in_strs_True in_writes by blast

lemma deadlines_iff:
  "deadlines_ok d \<longleftrightarrow> (\<exists>sl. dget ''slot'' d = JInt sl \<and> sl mod 3600 = 47 * 60
     \<and> dget ''drain_by'' d = JInt (sl + 1200) \<and> dget ''cleanup_by'' d = JInt (sl + 1800)
     \<and> dget ''recover_by'' d = JInt (sl + 2700))"
  by (auto simp: deadlines_ok_def split: jval.splits)

lemma operation_values_iff: "operation_values d = Inr True \<longleftrightarrow> op_values d"
proof -
  have "(rbind (in_strs j [''none'', ''pause'', ''restore'', ''unknown'']) (\<lambda>b. Inr (b \<and> t)) = Inr True)
      \<longleftrightarrow> (in_strs j [''none'', ''pause'', ''restore'', ''unknown''] = Inr True) \<and> t" for j t
    by (auto simp: rbind_eq_Inr simp del: in_strs.simps)
  then show ?thesis
    unfolding operation_values_def op_values_def and_then_True in_strs_write deadlines_iff
    by (simp add: is_bool_iff text_ok_iff dec_str_iff del: in_strs.simps) blast
qed

lemma checked_then:
  "(rbind m (\<lambda>ok. rbind (require ok r) f) = Inr y) \<longleftrightarrow> m = Inr True \<and> f () = Inr y"
  by (auto simp: rbind_eq_Inr require_eq_Inr)

lemma dec_op_iff:
  "dec_op (JDict d) = Some p \<longleftrightarrow> has_keys d OPERATION_KEYS
     \<and> dget ''id'' d = JStr (op_id p) \<and> dget ''slot'' d = JInt (op_slot p)
     \<and> dec_ident (dget ''coordinator'' d) = Some (op_coordinator p)
     \<and> dec_opt dec_ident (dget ''worker'' d) = Some (op_worker p) \<and> dget ''claimed'' d = JBool (op_claimed p)
     \<and> dec_opt dec_ident (dget ''holder'' d) = Some (op_holder p) \<and> dget ''baseline'' d = JBool (op_baseline p)
     \<and> dget ''restore_required'' d = JBool (op_restore_required p)
     \<and> dget ''write'' d = JStr (write_str (op_write p)) \<and> dget ''drain_by'' d = JInt (op_drain_by p)
     \<and> dget ''cleanup_by'' d = JInt (op_cleanup_by p) \<and> dget ''recover_by'' d = JInt (op_recover_by p)
     \<and> dget ''outcome'' d = JStr (op_outcome p) \<and> dget ''restored'' d = JBool (op_restored p)"
  unfolding dec_op_def bind_eq_Some_conv dec_iffs by (cases p) simp

lemma dec_op_values: "dec_op (JDict d) = Some p \<Longrightarrow> wf_operation sha policy ph p \<Longrightarrow> op_values d"
  unfolding dec_op_iff wf_operation_def op_values_def by simp blast

text \<open>The validator after the identities have been decoded, as one conjunction.\<close>

lemma validate_operation_decoded:
  assumes co: "dec_ident (dget ''coordinator'' d) = Some co"
    and wo: "dec_opt dec_ident (dget ''worker'' d) = Some wo"
    and ho: "dec_opt dec_ident (dget ''holder'' d) = Some ho"
  shows "validate_operation sha policy ph d = Inr () \<longleftrightarrow>
     has_keys d OPERATION_KEYS \<and> wf_ident co \<and> (\<forall>x. wo = Some x \<longrightarrow> wf_ident x) \<and> (\<forall>x. ho = Some x \<longrightarrow> wf_ident x)
     \<and> id_ns co = CONTROL_NAMESPACE \<and> (\<forall>x. wo = Some x \<longrightarrow> id_ns x = WORKER_NAMESPACE)
     \<and> (\<forall>x. ho = Some x \<longrightarrow> id_ns x = CONTROL_NAMESPACE) \<and> op_values d
     \<and> dget ''id'' d = JStr (operation_hash sha (int_of (dget ''slot'' d)) (id_uid co) policy)
     \<and> (dget ''claimed'' d = JBool False \<or> dget ''worker'' d \<noteq> JNull)
     \<and> (ph \<notin> {''ADMITTED'', ''CLAIMED''} \<or> dget ''worker'' d \<noteq> JNull \<and> dget ''write'' d = JStr ''none'')
     \<and> (ph \<noteq> ''CLAIMED'' \<or> dget ''claimed'' d = JBool True)
     \<and> (ph \<noteq> ''DONE'' \<or> dget ''restored'' d = JBool True \<and> dget ''write'' d = JStr ''none'')"
  unfolding validate_operation_def require_then identity_then optional_identity_then
    optional_namespace_dec [OF wo] optional_namespace_dec [OF ho] dec_ident_ns [OF co] dec_ident_uid [OF co]
    rbind_Inr checked_then operation_values_iff require_eq_Inr
  by (simp add: co wo ho str_of_def)

lemma dec_opt_null: "dec_opt dec_ident v = Some x \<Longrightarrow> v = JNull \<longleftrightarrow> x = None"
  by (cases x) (auto simp: dec_opt_iff)

text \<open>Decoded values determine the operation record.\<close>

lemma op_values_dec:
  assumes "has_keys d OPERATION_KEYS" and "op_values d"
    and "dec_ident (dget ''coordinator'' d) = Some co"
    and "dec_opt dec_ident (dget ''worker'' d) = Some wo"
    and "dec_opt dec_ident (dget ''holder'' d) = Some ho"
    and "dget ''id'' d = JStr i"
  shows "\<exists>p. dec_op (JDict d) = Some p"
proof -
  from assms(2) obtain cl re sl w out where v: "dget ''claimed'' d = JBool cl" "dget ''restored'' d = JBool re"
      "dget ''baseline'' d = JBool False" "dget ''restore_required'' d = JBool True"
      "dget ''slot'' d = JInt sl" "dget ''drain_by'' d = JInt (sl + 1200)"
      "dget ''cleanup_by'' d = JInt (sl + 1800)" "dget ''recover_by'' d = JInt (sl + 2700)"
      "dget ''write'' d = JStr (write_str w)" "dget ''outcome'' d = JStr out"
    unfolding op_values_def by blast
  show ?thesis
    by (simp add: dec_op_def dec_keys_def assms v)
qed

lemma validate_operation_iff:
  "validate_operation sha policy (phase_str ph) d = Inr () \<longleftrightarrow>
     (\<exists>p. dec_op (JDict d) = Some p \<and> wf_operation sha policy ph p)"
proof
  assume ok: "validate_operation sha policy (phase_str ph) d = Inr ()"
  then obtain co wo ho where c: "dec_ident (dget ''coordinator'' d) = Some co"
      "dec_opt dec_ident (dget ''worker'' d) = Some wo" "dec_opt dec_ident (dget ''holder'' d) = Some ho"
    unfolding validate_operation_def require_then identity_then optional_identity_then by blast
  note v = ok [unfolded validate_operation_decoded [OF c]]
  obtain p where p: "dec_op (JDict d) = Some p"
    using op_values_dec [OF _ _ c] v by blast
  from c dec_opt_null [OF c(2)] p [unfolded dec_op_iff] v have "wf_operation sha policy ph p"
    unfolding wf_operation_def op_values_def by (auto simp: int_of_def)
  with p show "\<exists>p. dec_op (JDict d) = Some p \<and> wf_operation sha policy ph p" by blast
next
  assume "\<exists>p. dec_op (JDict d) = Some p \<and> wf_operation sha policy ph p"
  then obtain p where p: "dec_op (JDict d) = Some p" and wf: "wf_operation sha policy ph p" by blast
  have v: "op_values d" by (rule dec_op_values [OF p wf])
  note p = p [unfolded dec_op_iff]
  from p have c: "dec_ident (dget ''coordinator'' d) = Some (op_coordinator p)"
    "dec_opt dec_ident (dget ''worker'' d) = Some (op_worker p)"
    "dec_opt dec_ident (dget ''holder'' d) = Some (op_holder p)" by simp_all
  show "validate_operation sha policy (phase_str ph) d = Inr ()"
    unfolding validate_operation_decoded [OF c]
    using p wf v dec_opt_null [OF c(2)] by (simp add: wf_operation_def int_of_def) blast
qed

lemma decode_iff:
  "decode (JDict d) = Some s \<longleftrightarrow> has_keys d STATE_KEYS \<and> dget ''schema'' d = JInt (ms_schema s)
     \<and> dget ''uid'' d = JStr (ms_uid s) \<and> dget ''policy'' d = JStr (ms_policy s)
     \<and> dget ''runner'' d = JInt (ms_runner s) \<and> dget ''heartbeat'' d = JInt (ms_heartbeat s)
     \<and> dget ''phase'' d = JStr (phase_str (ms_phase s))
     \<and> dec_opt dec_op (dget ''operation'' d) = Some (ms_operation s)
     \<and> dec_opt dec_gc (dget ''gc_holder'' d) = Some (ms_gc s)"
  unfolding decode_def bind_eq_Some_conv dec_iffs by (cases s) simp

definition validate_op_field :: "(string \<Rightarrow> string) \<Rightarrow> string \<Rightarrow> phase \<Rightarrow> jval \<Rightarrow> unit res" where
  "validate_op_field sha policy ph v = (case v of
      JNull \<Rightarrow> require (ph \<in> {IDLE, ALERT}) ''missing operation''
    | JDict op \<Rightarrow> validate_operation sha policy (phase_str ph) op
    | _ \<Rightarrow> Inl (Refuse ''invalid operation fields''))"

lemma validate_op_field_iff:
  "validate_op_field sha policy ph v = Inr () \<longleftrightarrow>
     (\<exists>p. dec_opt dec_op v = Some p
        \<and> (case p of None \<Rightarrow> ph \<in> {IDLE, ALERT} | Some q \<Rightarrow> wf_operation sha policy ph q))"
proof (cases v)
  case (JDict d)
  then show ?thesis
    by (auto simp: validate_op_field_def validate_operation_iff dec_opt_def)
qed (simp_all add: validate_op_field_def dec_opt_def require_eq_Inr dec_op_def dec_keys_def)

lemma in_strs_phase: "(in_strs j PHASES = Inr True) \<longleftrightarrow> (\<exists>p. j = JStr (phase_str p))"
  unfolding in_strs_True phase_str_PHASES by blast

lemma validate_unfold:
  "validate sha (JDict d) uid policy = Inr () \<longleftrightarrow> has_keys d STATE_KEYS
     \<and> dget ''schema'' d = JInt 1 \<and> dget ''runner'' d = JInt 2 \<and> dget ''uid'' d = JStr uid \<and> wf_text uid
     \<and> dget ''policy'' d = JStr policy \<and> (\<exists>n. dget ''heartbeat'' d = JInt n \<and> 0 \<le> n)
     \<and> (\<exists>ph. dget ''phase'' d = JStr (phase_str ph) \<and> validate_op_field sha policy ph (dget ''operation'' d) = Inr ())
     \<and> validate_gc (dget ''gc_holder'' d) = Inr ()"
proof -
  have hb: "(case dget ''heartbeat'' d of JInt n \<Rightarrow> 0 \<le> n | _ \<Rightarrow> False) \<longleftrightarrow>
      (\<exists>n. dget ''heartbeat'' d = JInt n \<and> 0 \<le> n)"
    by (auto split: jval.splits)
  have gc: "(rbind (validate_gc v) f = Inr y) \<longleftrightarrow> validate_gc v = Inr () \<and> f () = Inr y" for v f and y :: unit
    by (auto simp: rbind_eq_Inr)
  have fld: "(case v of JNull \<Rightarrow> require (JStr (phase_str ph) \<in> {JStr ''IDLE'', JStr ''ALERT''}) ''missing operation''
      | JDict op \<Rightarrow> validate_operation sha policy (str_of (JStr (phase_str ph))) op
      | _ \<Rightarrow> Inl (Refuse ''invalid operation fields'')) = validate_op_field sha policy ph v" for v ph
    by (simp add: validate_op_field_def str_of_def split: jval.split)
  show ?thesis
    unfolding validate_def jval.case require_then checked_then and_then_True in_strs_phase gc hb text_ok_JStr
    by (auto simp only: fld)
qed

lemma validate_iff:
  "validate sha j uid policy = Inr () \<longleftrightarrow> (\<exists>s. decode j = Some s \<and> wf_state sha uid policy s)"
proof (cases j)
  case (JDict d)
  show ?thesis
  proof
    assume "validate sha j uid policy = Inr ()"
    note v = this [unfolded JDict validate_unfold validate_op_field_iff validate_gc_iff]
    then obtain ph n p g where k: "has_keys d STATE_KEYS" "dget ''schema'' d = JInt 1" "dget ''runner'' d = JInt 2"
        "dget ''uid'' d = JStr uid" "wf_text uid" "dget ''policy'' d = JStr policy" "dget ''heartbeat'' d = JInt n"
        "0 \<le> n" "dget ''phase'' d = JStr (phase_str ph)" "dec_opt dec_op (dget ''operation'' d) = Some p"
        "case p of None \<Rightarrow> ph \<in> {IDLE, ALERT} | Some q \<Rightarrow> wf_operation sha policy ph q"
        "dec_opt dec_gc (dget ''gc_holder'' d) = Some g" "\<forall>x. g = Some x \<longrightarrow> wf_gc x" by blast
    define s where "s = \<lparr>ms_schema = 1, ms_uid = uid, ms_policy = policy, ms_runner = 2, ms_heartbeat = n,
       ms_phase = ph, ms_operation = p, ms_gc = g\<rparr>"
    have "decode j = Some s" unfolding JDict decode_iff using k by (simp add: s_def)
    moreover have "wf_state sha uid policy s"
      using k by (simp add: wf_state_def s_def split: option.splits)
    ultimately show "\<exists>s. decode j = Some s \<and> wf_state sha uid policy s" by blast
  next
    assume "\<exists>s. decode j = Some s \<and> wf_state sha uid policy s"
    then show "validate sha j uid policy = Inr ()"
      unfolding JDict validate_unfold validate_op_field_iff validate_gc_iff decode_iff wf_state_def by auto
  qed
qed (simp_all add: validate_def decode_def dec_keys_def)

corollary validate_encode: "validate sha (encode s) uid policy = Inr () \<longleftrightarrow> wf_state sha uid policy s"
  by (simp add: validate_iff)

subsection \<open>The stored text\<close>

text \<open>
  The stored text: \<^const>\<open>encode\<close> lists the keys in the order of \<^verbatim>\<open>sort_keys=True\<close>.
\<close>

lemma enc_opt_all: "P JNull \<Longrightarrow> (\<And>x. P (f x)) \<Longrightarrow> P (enc_opt f x)"
  by (cases x) (simp_all add: enc_opt_def)

lemma enc_plain: "plain (enc_ident i)" "plain (enc_gc g)" "plain (enc_op p)" "plain (encode s)"
proof -
  show i: "plain (enc_ident i)" for i by (simp add: enc_ident_def)
  show g: "plain (enc_gc g)" for g by (simp add: enc_gc_def i)
  show o: "plain (enc_op p)" for p by (simp add: enc_op_def i enc_opt_all)
  show "plain (encode s)" by (simp add: encode_def g o enc_opt_all)
qed

lemma enc_keys_ok: "keys_ok (enc_ident i)" "keys_ok (enc_gc g)" "keys_ok (enc_op p)" "keys_ok (encode s)"
proof -
  show i: "keys_ok (enc_ident i)" for i by (simp add: enc_ident_def)
  show g: "keys_ok (enc_gc g)" for g by (simp add: enc_gc_def i)
  show o: "keys_ok (enc_op p)" for p by (simp add: enc_op_def i enc_opt_all)
  show "keys_ok (encode s)" by (simp add: encode_def g o enc_opt_all)
qed

lemma sort_enc_opt: "(\<And>x. sort_keys (f x) = f x) \<Longrightarrow> sort_keys (enc_opt f x) = enc_opt f x"
  by (cases x) (simp_all add: enc_opt_def)

lemma enc_sorted: "sort_keys (enc_ident i) = enc_ident i" "sort_keys (enc_gc g) = enc_gc g"
    "sort_keys (enc_op p) = enc_op p" "sort_keys (encode s) = encode s"
proof -
  show i: "sort_keys (enc_ident i) = enc_ident i" for i by (simp add: enc_ident_def)
  show g: "sort_keys (enc_gc g) = enc_gc g" for g by (simp add: enc_gc_def i)
  show o: "sort_keys (enc_op p) = enc_op p" for p by (simp add: enc_op_def sort_enc_opt i)
  show "sort_keys (encode s) = encode s" by (simp add: encode_def sort_enc_opt g o)
qed

lemma json_loads_state: "json_loads (json_dumps (encode s)) = Some (encode s)"
  by (simp add: json_loads_dumps enc_plain enc_keys_ok enc_sorted)

end
