(* ===== verification/Kube_Pods.thy ===== *)
theory Kube_Pods
  imports Admission_State
begin

section \<open>Pod snapshots: identities, retirement, schedules\<close>

text \<open>
  The functions of \<^verbatim>\<open>maintenance-admission.py\<close> that read Kubernetes objects: the
  checks of a Pod list (\<open>pods_payload\<close>), a Pod's owner and identity, the proof that a
  Pod is retired (\<open>terminal\<close>), the drain check over CI Pods, and the schedule of a
  CronJob's Job. Pods stay Python values. A Pod that passed \<open>pods_payload\<close> has the three
  dicts that \<open>pmeta\<close>, \<open>pspec\<close> and \<open>pstatus\<close> select.
\<close>

subsection \<open>Access to a Pod\<close>

definition dsub :: "string \<Rightarrow> dict \<Rightarrow> dict" where
  "dsub k d = (case dget k d of JDict e \<Rightarrow> e | _ \<Rightarrow> [])"

definition as_dict :: "jval \<Rightarrow> dict" where
  "as_dict j = (case j of JDict d \<Rightarrow> d | _ \<Rightarrow> [])"

definition pmeta :: "jval \<Rightarrow> dict" where
  "pmeta p = dsub ''metadata'' (as_dict p)"

definition pspec :: "jval \<Rightarrow> dict" where
  "pspec p = dsub ''spec'' (as_dict p)"

definition pstatus :: "jval \<Rightarrow> dict" where
  "pstatus p = dsub ''status'' (as_dict p)"

definition plabels :: "jval \<Rightarrow> dict" where
  "plabels p = dsub ''labels'' (pmeta p)"

definition pod_uid :: "jval \<Rightarrow> string" where
  "pod_uid p = str_of (dget ''uid'' (pmeta p))"

definition pod_ns :: "jval \<Rightarrow> string" where
  "pod_ns p = str_of (dget ''namespace'' (pmeta p))"

definition pod_name :: "jval \<Rightarrow> string" where
  "pod_name p = str_of (dget ''name'' (pmeta p))"

definition pod_phase :: "jval \<Rightarrow> string" where
  "pod_phase p = str_of (dget ''phase'' (pstatus p))"

text \<open>Iteration over a Python value, and \<^verbatim>\<open>len\<close> of it.\<close>

definition iter :: "jval \<Rightarrow> jval list res" where
  "iter j = (case j of JList xs \<Rightarrow> Inr xs | JDict d \<Rightarrow> Inr (map (\<lambda>kv. JStr (fst kv)) d)
     | JStr s \<Rightarrow> Inr (map (\<lambda>c. JStr [c]) s) | _ \<Rightarrow> Inl (PyError ''TypeError''))"

definition hashable :: "jval \<Rightarrow> bool" where
  "hashable j = (\<not> is_list j \<and> \<not> is_dict j)"

subsection \<open>Pod lists\<close>

definition pod_ok :: "string \<Rightarrow> string list \<Rightarrow> jval \<Rightarrow> unit res" where
  "pod_ok ns seen p =
     rbind (require (is_dict p \<and> list_all (\<lambda>k. is_dict (dget k (as_dict p))) [''metadata'', ''spec'', ''status''])
              ''malformed Pod'') (\<lambda>_.
     require (dget ''namespace'' (pmeta p) = JStr ns \<and> text_ok (dget ''uid'' (pmeta p))
              \<and> text_ok (dget ''name'' (pmeta p)) \<and> pod_uid p \<notin> set seen
              \<and> is_dict (dget ''labels'' (pmeta p)) \<and> text_ok (dget ''phase'' (pstatus p))
              \<and> is_str (dget_or ''nodeName'' (JStr []) (pspec p))) ''malformed Pod identity'')"

fun pods_loop :: "string \<Rightarrow> string list \<Rightarrow> jval list \<Rightarrow> unit res" where
  "pods_loop ns seen [] = Inr ()"
| "pods_loop ns seen (p # ps) =
     rbind (pod_ok ns seen p) (\<lambda>_. pods_loop ns (pod_uid p # seen) ps)"

definition pods_payload :: "string \<Rightarrow> jval \<Rightarrow> jval list res" where
  "pods_payload ns v = (case v of
     JDict d \<Rightarrow>
       (case (dget ''items'' d, dget ''metadata'' d) of
          (JList items, JDict meta) \<Rightarrow>
            (if dget_or ''continue'' (JStr []) meta = JStr []
             then rbind (pods_loop ns [] items) (\<lambda>_. Inr items)
             else Inl (Refuse ''incomplete Pod snapshot''))
        | _ \<Rightarrow> Inl (Refuse ''incomplete Pod snapshot''))
   | _ \<Rightarrow> Inl (Refuse ''incomplete Pod snapshot''))"

definition merge_snapshots :: "jval list \<Rightarrow> jval list \<Rightarrow> jval list \<Rightarrow> jval list res" where
  "merge_snapshots ci control worker =
     (let snapshot = ci @ control @ worker in
      rbind (require (distinct (map pod_uid snapshot)) ''duplicate snapshot UID'') (\<lambda>_. Inr snapshot))"

subsection \<open>Owners and identities\<close>

definition owner_ref :: "jval \<Rightarrow> dict res" where
  "owner_ref p =
     (case dget_or ''ownerReferences'' (JList []) (pmeta p) of
        JList refs \<Rightarrow>
          (case filter (\<lambda>v. is_dict v \<and> dget ''controller'' (as_dict v) = JBool True) refs of
             [v] \<Rightarrow> (if dget ''kind'' (as_dict v) = JStr ''Job'' \<and> text_ok (dget ''name'' (as_dict v))
                        \<and> text_ok (dget ''uid'' (as_dict v))
                     then Inr (as_dict v) else Inl (Refuse ''missing native Job owner''))
           | _ \<Rightarrow> Inl (Refuse ''missing native Job owner''))
      | _ \<Rightarrow> Inl (Refuse ''invalid owner references''))"

definition pod_identity :: "jval \<Rightarrow> ident res" where
  "pod_identity p = rbind (owner_ref p) (\<lambda>owner.
     Inr \<lparr>id_ns = pod_ns p, id_name = pod_name p, id_uid = pod_uid p,
          id_job = str_of (dget ''name'' owner), id_job_uid = str_of (dget ''uid'' owner)\<rparr>)"

definition policy_bundle :: "jval \<Rightarrow> string res" where
  "policy_bundle p =
     rbind (jitem ''spec'' p) (\<lambda>spec.
     rbind (jget_or ''volumes'' (JList []) spec) (\<lambda>vs.
     rbind (iter vs) (\<lambda>vols.
     rbind (rfilter (\<lambda>v. rbind (jget ''name'' v) (\<lambda>n. Inr (n = JStr ''policy''))) vols) (\<lambda>volumes.
     rbind (require (length volumes = 1) ''missing policy bundle'') (\<lambda>_.
     rbind (jget_or ''configMap'' (JDict []) (hd volumes)) (\<lambda>cm.
     rbind (jget ''name'' cm) (\<lambda>name.
     (case name of
        JStr s \<Rightarrow> if wf_text s \<and> prefix ''hestia-ci-cache-retention-'' s then Inr s
                  else Inl (Refuse ''wrong policy bundle'')
      | _ \<Rightarrow> Inl (Refuse ''wrong policy bundle'')))))))))"

subsection \<open>Retirement\<close>

text \<open>
  \<^verbatim>\<open>any(type(s.get('state', {}).get('terminated')) is not dict for s in statuses)\<close> looks at the statuses in
  their order and stops at the first that is not terminated; the result here is its negation.
\<close>

fun all_terminated :: "jval list \<Rightarrow> bool res" where
  "all_terminated [] = Inr True"
| "all_terminated (s # ss) =
     rbind (jget_or ''state'' (JDict []) s) (\<lambda>state.
     rbind (jget ''terminated'' state) (\<lambda>t. if is_dict t then all_terminated ss else Inr False))"

text \<open>
  One pass of the loop in \<^verbatim>\<open>terminal\<close>: the containers of one kind, in the spec, and
  their statuses.
\<close>

definition containers_terminated :: "jval \<Rightarrow> string \<Rightarrow> string \<Rightarrow> bool res" where
  "containers_terminated p spec_key status_key =
     rbind (iter (dget_or spec_key (JList []) (pspec p))) (\<lambda>cs.
     rbind (rmap (jitem ''name'') cs) (\<lambda>names.
     rbind (iter (dget_or status_key (JList []) (pstatus p))) (\<lambda>statuses.
     if length statuses \<noteq> length names then Inr False
     else
       rbind (rmap (jget ''name'') statuses) (\<lambda>snames.
       if \<not> list_all hashable (snames @ names) then Inl (PyError ''TypeError'')
       else if set snames \<noteq> set names then Inr False
       else
         all_terminated statuses))))"

definition terminal :: "jval list \<Rightarrow> ident \<Rightarrow> bool res" where
  "terminal snapshot i =
     (case filter (\<lambda>p. pod_ns p = id_ns i \<and> pod_name p = id_name i \<and> pod_uid p = id_uid i) snapshot of
        [p] \<Rightarrow>
          rbind (pod_identity p) (\<lambda>me.
          if me \<noteq> i \<or> pod_phase p \<notin> {''Succeeded'', ''Failed''} then Inr False
          else
            rbind (containers_terminated p ''containers'' ''containerStatuses'') (\<lambda>a.
            if \<not> a then Inr False
            else
              rbind (containers_terminated p ''initContainers'' ''initContainerStatuses'') (\<lambda>b.
              if \<not> b then Inr False
              else
                rbind (containers_terminated p ''ephemeralContainers'' ''ephemeralContainerStatuses'') (\<lambda>c.
                if \<not> c then Inr False else Inr (truthy (dget ''containers'' (pspec p)))))))
      | _ \<Rightarrow> Inr False)"

definition retire_gc :: "mstate \<Rightarrow> jval list \<Rightarrow> (mstate \<times> bool) res" where
  "retire_gc s snapshot = (case ms_gc s of
     None \<Rightarrow> Inr (s, True)
   | Some g \<Rightarrow> rbind (terminal snapshot (gc_ident g)) (\<lambda>t.
       if t then Inr (s\<lparr>ms_gc := None\<rparr>, True) else Inr (s, False)))"

subsection \<open>The drain check over CI Pods\<close>

definition ci_pod_drained :: "jval \<Rightarrow> bool res" where
  "ci_pod_drained p =
     (case dget ''labels'' (pmeta p) of
        JDict labels \<Rightarrow>
          Inr (\<not> (dget ''ci.brmartin.co.uk/job'' labels = JStr ''true''
                \<and> dget ''ci.brmartin.co.uk/maintenance'' labels \<noteq> JStr ''true'')
             \<or> \<not> (truthy (dget ''deletionTimestamp'' (pmeta p))
                \<or> pod_phase p \<notin> {''Running'', ''Pending'', ''Succeeded'', ''Failed''})
               \<and> \<not> (pod_phase p \<in> {''Running'', ''Pending''}
                \<and> dget ''nodeName'' (pspec p) \<notin> {JStr ''heracles'', JStr ''nyx''}))
      | _ \<Rightarrow> Inl (Refuse ''missing Pod labels''))"

fun ci_drained :: "jval list \<Rightarrow> bool res" where
  "ci_drained [] = Inr True"
| "ci_drained (p # ps) = rbind (ci_pod_drained p) (\<lambda>d. if d then ci_drained ps else Inr False)"

subsection \<open>The schedule of a Job\<close>

definition num_at :: "nat \<Rightarrow> nat \<Rightarrow> string \<Rightarrow> int" where
  "num_at i n s = int (read_nat (take n (drop i s)))"

text \<open>The pattern \<^verbatim>\<open>\d{4}-\d\d-\d\dT\d\d:47:00Z\<close>, then \<^verbatim>\<open>strptime\<close>.\<close>

definition schedule_form :: "string \<Rightarrow> bool" where
  "schedule_form s = (length s = 20
     \<and> list_all (\<lambda>i. is_digit (s ! i)) [0, 1, 2, 3, 5, 6, 8, 9, 11, 12]
     \<and> s ! 4 = CHR ''-'' \<and> s ! 7 = CHR ''-'' \<and> s ! 10 = CHR ''T'' \<and> drop 13 s = '':47:00Z'')"

definition parse_schedule :: "jval \<Rightarrow> int res" where
  "parse_schedule a = (case a of
     JStr s \<Rightarrow>
       (if \<not> schedule_form s then Inl (Refuse ''missing exact UTC schedule'')
        else
          let y = num_at 0 4 s; mo = num_at 5 2 s; d = num_at 8 2 s; h = num_at 11 2 s in
          if 1 \<le> y \<and> 1 \<le> mo \<and> mo \<le> 12 \<and> 1 \<le> d \<and> d \<le> days_in_month y mo \<and> h \<le> 23
          then Inr (timestamp y mo d h 47 0) else Inl (PyError ''ValueError''))
   | _ \<Rightarrow> Inl (Refuse ''missing exact UTC schedule''))"

definition ADMISSION_CRON :: string where
  "ADMISSION_CRON = ''hestia-ci-maintenance-admission''"

definition RETENTION_CRON :: string where
  "RETENTION_CRON = ''hestia-ci-cache-retention''"

definition cron_namespace :: "string \<Rightarrow> string" where
  "cron_namespace cron = (if cron = RETENTION_CRON then WORKER_NAMESPACE else CONTROL_NAMESPACE)"

text \<open>The checks of \<^verbatim>\<open>scheduled\<close> on the Job that the API returned.\<close>

definition scheduled_job :: "jval \<Rightarrow> string \<Rightarrow> ident \<Rightarrow> jval \<Rightarrow> int res" where
  "scheduled_job p cron i job =
     rbind (jget_or ''metadata'' (JDict []) job) (\<lambda>jm.
     rbind (jget ''uid'' jm) (\<lambda>ju.
     rbind (jget ''namespace'' jm) (\<lambda>jns.
     rbind (jget ''name'' jm) (\<lambda>jn.
     rbind (require (ju = JStr (id_job_uid i) \<and> jns = JStr (cron_namespace cron) \<and> jn = JStr (id_job i))
              ''Job generation changed'') (\<lambda>_.
     rbind (jget_or ''spec'' (JDict []) job) (\<lambda>jspec.
     rbind (jget_or ''template'' (JDict []) jspec) (\<lambda>template.
     rbind (jget_or ''spec'' (JDict []) template) (\<lambda>tspec.
     rbind (jget ''serviceAccountName'' tspec) (\<lambda>tsa.
     (let sa = (if cron_namespace cron = WORKER_NAMESPACE then ''hestia-ci-maintenance-worker'' else cron) in
     rbind (require (dget ''serviceAccountName'' (pspec p) = JStr sa \<and> tsa = JStr sa)
              ''Job policy or service account changed'') (\<lambda>_.
     rbind (policy_bundle template) (\<lambda>b1.
     rbind (policy_bundle p) (\<lambda>b2.
     rbind (require (b1 = b2) ''Job policy or service account changed'') (\<lambda>_.
     rbind (jget_or ''ownerReferences'' (JList []) jm) (\<lambda>refs.
     rbind (iter refs) (\<lambda>owners.
     rbind (require (length owners = 1) ''not a scheduled native Job'') (\<lambda>_.
     rbind (rmap (\<lambda>k. jget k (hd owners)) [''kind'', ''name'', ''controller'', ''uid'']) (\<lambda>fs.
     rbind (require (fs ! 0 = JStr ''CronJob'' \<and> fs ! 1 = JStr cron \<and> fs ! 2 = JBool True \<and> text_ok (fs ! 3))
              ''not a scheduled native Job'') (\<lambda>_.
     rbind (jget_or ''annotations'' (JDict []) jm) (\<lambda>ann.
     rbind (jget ''batch.kubernetes.io/cronjob-scheduled-timestamp'' ann) (\<lambda>a.
     parse_schedule a)))))))))))))))))))))"

subsection \<open>What an accepted Pod list guarantees\<close>

definition pod_valid :: "string \<Rightarrow> jval \<Rightarrow> bool" where
  "pod_valid ns p = (dget ''namespace'' (pmeta p) = JStr ns \<and> text_ok (dget ''uid'' (pmeta p))
     \<and> text_ok (dget ''name'' (pmeta p)) \<and> is_dict (dget ''labels'' (pmeta p))
     \<and> text_ok (dget ''phase'' (pstatus p)))"

lemma pod_ok_iff: "pod_ok ns seen p = Inr () \<longleftrightarrow>
    is_dict p \<and> list_all (\<lambda>k. is_dict (dget k (as_dict p))) [''metadata'', ''spec'', ''status'']
    \<and> pod_valid ns p \<and> pod_uid p \<notin> set seen \<and> is_str (dget_or ''nodeName'' (JStr []) (pspec p))"
  unfolding pod_ok_def require_then require_eq_Inr pod_valid_def by blast

lemma pods_loop_Inr:
  "pods_loop ns seen ps = Inr () \<Longrightarrow>
     list_all (pod_valid ns) ps \<and> distinct (map pod_uid ps) \<and> set (map pod_uid ps) \<inter> set seen = {}"
proof (induction ps arbitrary: seen)
  case (Cons p ps)
  then have "pod_ok ns seen p = Inr ()" and "pods_loop ns (pod_uid p # seen) ps = Inr ()"
    by (auto simp: rbind_eq_Inr)
  with Cons.IH [of "pod_uid p # seen"] show ?case by (auto simp: pod_ok_iff)
qed simp

lemma pods_payload_Inr:
  assumes "pods_payload ns v = Inr ps"
  shows "list_all (pod_valid ns) ps \<and> distinct (map pod_uid ps)"
proof -
  have "pods_loop ns [] ps = Inr ()"
    using assms by (auto simp: pods_payload_def rbind_eq_Inr split: jval.splits if_splits)
  from pods_loop_Inr [OF this] show ?thesis by blast
qed

lemma pod_valid_ns: "pod_valid ns p \<Longrightarrow> pod_ns p = ns \<and> wf_text (pod_uid p) \<and> wf_text (pod_name p)"
  by (auto simp: pod_valid_def pod_ns_def pod_uid_def pod_name_def str_of_def text_ok_iff dec_str_iff)

lemma owner_ref_Inr:
  "owner_ref p = Inr owner \<Longrightarrow> wf_text (str_of (dget ''name'' owner)) \<and> wf_text (str_of (dget ''uid'' owner))"
  by (auto simp: owner_ref_def str_of_def text_ok_iff dec_str_iff split: jval.splits list.splits if_splits)

lemma pod_identity_wf:
  assumes "pod_valid ns p" and "pod_identity p = Inr i"
    and "ns \<in> {WORKER_NAMESPACE, CONTROL_NAMESPACE}"
  shows "wf_ident i \<and> id_ns i = ns \<and> id_uid i = pod_uid p"
proof -
  obtain owner where o: "owner_ref p = Inr owner"
      "i = \<lparr>id_ns = pod_ns p, id_name = pod_name p, id_uid = pod_uid p,
          id_job = str_of (dget ''name'' owner), id_job_uid = str_of (dget ''uid'' owner)\<rparr>"
    using assms(2) by (auto simp: pod_identity_def rbind_eq_Inr)
  have "wf_text WORKER_NAMESPACE" "wf_text CONTROL_NAMESPACE"
    by (simp_all add: wf_text_def WORKER_NAMESPACE_def CONTROL_NAMESPACE_def)
  with o owner_ref_Inr [OF o(1)] pod_valid_ns [OF assms(1)] assms(3) show ?thesis
    by (auto simp: wf_ident_def)
qed

lemma merge_snapshots_Inr:
  "merge_snapshots a b c = Inr ps \<longleftrightarrow> ps = a @ b @ c \<and> distinct (map pod_uid ps)"
  unfolding merge_snapshots_def Let_def require_then by (auto simp del: distinct_append map_append)

subsection \<open>Retirement and drain\<close>

lemma terminal_matches:
  assumes "terminal snapshot i = Inr True"
  obtains p where
    "filter (\<lambda>p. pod_ns p = id_ns i \<and> pod_name p = id_name i \<and> pod_uid p = id_uid i) snapshot = [p]"
    and "pod_identity p = Inr i" and "pod_phase p \<in> {''Succeeded'', ''Failed''}"
    and "containers_terminated p ''containers'' ''containerStatuses'' = Inr True"
    and "containers_terminated p ''initContainers'' ''initContainerStatuses'' = Inr True"
    and "containers_terminated p ''ephemeralContainers'' ''ephemeralContainerStatuses'' = Inr True"
    and "truthy (dget ''containers'' (pspec p))"
  using assms unfolding terminal_def
  by (auto simp: rbind_eq_Inr split: list.splits if_splits)

lemma terminal_absent:
  "(\<forall>p \<in> set snapshot. pod_uid p \<noteq> id_uid i) \<Longrightarrow> terminal snapshot i = Inr False"
  by (simp add: terminal_def filter_False)

lemma ci_drained_iff:
  "ci_drained snapshot = Inr True \<longleftrightarrow> (\<forall>p \<in> set snapshot. ci_pod_drained p = Inr True)"
  by (induction snapshot) (auto simp: rbind_eq_Inr)

lemma retire_gc_Inr:
  "retire_gc s snapshot = Inr (s', True) \<Longrightarrow> s' = s\<lparr>ms_gc := None\<rparr>"
  "retire_gc s snapshot = Inr (s', False) \<Longrightarrow> s' = s \<and> ms_gc s \<noteq> None"
  by (auto simp: retire_gc_def rbind_eq_Inr split: option.splits if_splits)

lemma parse_schedule_mod: "parse_schedule a = Inr slot \<Longrightarrow> slot mod 3600 = 47 * 60"
proof -
  assume "parse_schedule a = Inr slot"
  then obtain y mo d h where "slot = timestamp y mo d h 47 0"
    by (auto simp: parse_schedule_def Let_def split: jval.splits if_splits)
  then have "slot = 3600 * ((date_ordinal y mo d - 719163) * 24 + h) + 2820"
    by (simp add: timestamp_def)
  then show ?thesis by (simp only: mod_mult_self4) simp
qed

lemma scheduled_job_mod: "scheduled_job p cron i job = Inr slot \<Longrightarrow> slot mod 3600 = 47 * 60"
  unfolding scheduled_job_def Let_def by (elim rbind_InrE) (rule parse_schedule_mod)

end
