(* ===== verification/Prog.thy ===== *)
theory Prog
  imports Prelude
begin

section \<open>Programs that interact with their environment\<close>

text \<open>
  The scripts talk to the Kubernetes API, to GitLab, to the clock and to a file system that
  other programs change at the same time. Such a script is a value of type \<open>prog\<close>: it
  returns, raises, or performs an action of type \<open>'q\<close> and continues with whatever response of
  type \<open>'r\<close> the environment gives. Nothing is assumed about the responses, so a statement about
  all of a program's runs covers every failure, delay and interleaving. \<open>OutOfFuel\<close> ends a
  loop whose iteration budget is used up; the code has no such exit, and where a loop matters it
  is proved that the budget suffices.

  \<open>runs\<close> is the trace semantics; \<open>wp\<close> is a weakest precondition calculus over a ghost
  state that records what the program has seen. The locale \<open>progressing\<close> is the interface between
  the calculus and its users: a ghost state that only moves up in a preorder.
\<close>

datatype ('q, 'r, 'a) prog =
    Ret 'a
  | Fail exn
  | OutOfFuel
  | Act 'q "'r \<Rightarrow> ('q, 'r, 'a) prog"

primrec pbind :: "('q, 'r, 'a) prog \<Rightarrow> ('a \<Rightarrow> ('q, 'r, 'b) prog) \<Rightarrow> ('q, 'r, 'b) prog" where
  "pbind (Ret x) f = f x"
| "pbind (Fail e) f = Fail e"
| "pbind OutOfFuel f = OutOfFuel"
| "pbind (Act q k) f = Act q (\<lambda>r. pbind (k r) f)"

text \<open>\<^verbatim>\<open>try: m except Exception: h\<close>.\<close>

primrec pcatch :: "('q, 'r, 'a) prog \<Rightarrow> (exn \<Rightarrow> ('q, 'r, 'a) prog) \<Rightarrow> ('q, 'r, 'a) prog" where
  "pcatch (Ret x) h = Ret x"
| "pcatch (Fail e) h = h e"
| "pcatch OutOfFuel h = OutOfFuel"
| "pcatch (Act q k) h = Act q (\<lambda>r. pcatch (k r) h)"

definition liftr :: "'a res \<Rightarrow> ('q, 'r, 'a) prog" where
  "liftr m = (case m of Inl e \<Rightarrow> Fail e | Inr x \<Rightarrow> Ret x)"

definition prequire :: "bool \<Rightarrow> string \<Rightarrow> ('q, 'r, unit) prog" where
  "prequire c reason = liftr (require c reason)"

lemma liftr_simps [simp]: "liftr (Inl e) = Fail e" "liftr (Inr x) = Ret x"
  by (simp_all add: liftr_def)

lemma prequire_simps [simp]: "prequire True s = Ret ()" "prequire False s = Fail (Refuse s)"
  by (simp_all add: prequire_def)

text \<open>A list comprehension whose condition may act, and a loop that collects.\<close>

fun pfilter :: "('x \<Rightarrow> ('q, 'r, bool) prog) \<Rightarrow> 'x list \<Rightarrow> ('q, 'r, 'x list) prog" where
  "pfilter c [] = Ret []"
| "pfilter c (x # xs) =
     pbind (c x) (\<lambda>b. pbind (pfilter c xs) (\<lambda>ys. Ret (if b then x # ys else ys)))"

fun pmap :: "('x \<Rightarrow> ('q, 'r, 'y) prog) \<Rightarrow> 'x list \<Rightarrow> ('q, 'r, 'y list) prog" where
  "pmap f [] = Ret []"
| "pmap f (x # xs) = pbind (f x) (\<lambda>y. pbind (pmap f xs) (\<lambda>ys. Ret (y # ys)))"

text \<open>\<^verbatim>\<open>for x in xs: f(x)\<close>.\<close>

fun pfor :: "('x \<Rightarrow> ('q, 'r, unit) prog) \<Rightarrow> 'x list \<Rightarrow> ('q, 'r, unit) prog" where
  "pfor f [] = Ret ()"
| "pfor f (x # xs) = pbind (f x) (\<lambda>_. pfor f xs)"

text \<open>\<^verbatim>\<open>try: m finally: c\<close>: an exception of the clean-up replaces the one of the body.\<close>

primrec pfinally :: "('q, 'r, 'a) prog \<Rightarrow> ('q, 'r, unit) prog \<Rightarrow> ('q, 'r, 'a) prog" where
  "pfinally (Ret x) c = pbind c (\<lambda>_. Ret x)"
| "pfinally (Fail e) c = pbind c (\<lambda>_. Fail e)"
| "pfinally OutOfFuel c = OutOfFuel"
| "pfinally (Act q k) c = Act q (\<lambda>r. pfinally (k r) c)"

text \<open>A loop that threads a state.\<close>

fun pfold :: "('x \<Rightarrow> 's \<Rightarrow> ('q, 'r, 's) prog) \<Rightarrow> 'x list \<Rightarrow> 's \<Rightarrow> ('q, 'r, 's) prog" where
  "pfold f [] s = Ret s"
| "pfold f (x # xs) s = pbind (f x s) (pfold f xs)"

text \<open>A program over one set of actions, run as part of a program over a larger one.\<close>

primrec embed :: "('q \<Rightarrow> 'p) \<Rightarrow> ('s \<Rightarrow> 'r) \<Rightarrow> ('q, 'r, 'a) prog \<Rightarrow> ('p, 's, 'a) prog" where
  "embed f g (Ret x) = Ret x"
| "embed f g (Fail e) = Fail e"
| "embed f g OutOfFuel = OutOfFuel"
| "embed f g (Act q k) = Act (f q) (\<lambda>s. embed f g (k (g s)))"

lemma pbind_assoc: "pbind (pbind m f) h = pbind m (\<lambda>x. pbind (f x) h)"
  by (induction m) auto

lemma pbind_Ret [simp]: "pbind m Ret = m"
  by (induction m) auto

subsection \<open>Traces\<close>

text \<open>
  \<open>runs p t p'\<close>: the program \<open>p\<close> performs the actions of the trace \<open>t\<close>, gets its
  responses, and is then \<open>p'\<close>. A crash or a kill of the process is a run that goes no further.
\<close>

inductive runs :: "('q, 'r, 'a) prog \<Rightarrow> ('q \<times> 'r) list \<Rightarrow> ('q, 'r, 'a) prog \<Rightarrow> bool" where
  Done: "runs p [] p"
| Step: "runs (k r) t p' \<Longrightarrow> runs (Act q k) ((q, r) # t) p'"

inductive_cases runs_ConsE: "runs p (x # t) p'"

inductive_simps runs_Nil [simp]: "runs p [] p'"

lemma runs_Act_Cons [simp]: "runs (Act q k) ((q', r) # t) p' \<longleftrightarrow> q' = q \<and> runs (k r) t p'"
  by (auto intro: runs.Step elim: runs_ConsE)

lemma runs_no_Act [simp]:
  "runs (Ret x) (a # t) p' = False" "runs (Fail e) (a # t) p' = False" "runs OutOfFuel (a # t) p' = False"
  by (auto elim: runs_ConsE)

lemma runs_ended:
  "runs (Ret x) t p' \<longleftrightarrow> t = [] \<and> p' = Ret x" "runs (Fail e) t p' \<longleftrightarrow> t = [] \<and> p' = Fail e"
  "runs OutOfFuel t p' \<longleftrightarrow> t = [] \<and> p' = OutOfFuel"
  by (cases t; auto)+

text \<open>The program after one response, as a function, so that traces can be evaluated.\<close>

fun follow :: "('q, 'r, 'a) prog \<Rightarrow> ('q \<times> 'r) list \<Rightarrow> ('q, 'r, 'a) prog option" where
  "follow p [] = Some p"
| "follow (Act q k) ((q', r) # t) = (if q' = q then follow (k r) t else None)"
| "follow p (x # t) = None"

lemma follow_runs: "follow p t = Some p' \<longleftrightarrow> runs p t p'"
  by (induction p t rule: follow.induct) auto

text \<open>Running a program against an environment that answers every action by a function of its state.\<close>

fun answer :: "('e \<Rightarrow> 'q \<Rightarrow> 'r \<times> 'e) \<Rightarrow> nat \<Rightarrow> 'e \<Rightarrow> ('q, 'r, 'a) prog \<Rightarrow> ('q \<times> 'r) list" where
  "answer env (Suc n) e (Act q k) = (let (r, e') = env e q in (q, r) # answer env n e' (k r))"
| "answer env n e p = []"

lemma answer_runs: "\<exists>p'. runs p (answer env n e p) p'"
proof (induction env n e p rule: answer.induct)
  case (1 env n e q k)
  then show ?case by (auto simp: split_beta Let_def prod_eq_iff)
qed auto

lemma runs_pbind:
  assumes "runs (pbind m f) t p'"
  shows "(\<exists>m'. runs m t m' \<and> p' = pbind m' f) \<or> (\<exists>t1 t2 x. t = t1 @ t2 \<and> runs m t1 (Ret x) \<and> runs (f x) t2 p')"
  using assms
proof (induction m arbitrary: t)
  case (Ret x)
  then have "runs (f x) t p'" by simp
  then show ?case by (intro disjI2 exI [of _ "[]"] exI [of _ t] exI [of _ x]) simp
next
  case (Fail e)
  then have "t = [] \<and> p' = Fail e" by (cases t) auto
  then show ?case by (intro disjI1 exI [of _ "Fail e"]) simp
next
  case OutOfFuel
  then have "t = [] \<and> p' = OutOfFuel" by (cases t) auto
  then show ?case by (intro disjI1 exI [of _ OutOfFuel]) simp
next
  case (Act q k)
  show ?case
  proof (cases t)
    case Nil
    with Act.prems show ?thesis by (intro disjI1 exI [of _ "Act q k"]) simp
  next
    case (Cons a t')
    then obtain r where a: "a = (q, r)" "runs (pbind (k r) f) t' p'"
      using Act.prems by (cases a) auto
    from Act.IH [OF rangeI a(2)] show ?thesis unfolding Cons a(1)
      by (metis append_Cons runs.Step)
  qed
qed

lemma runs_pbind_Ret:
  "runs (pbind m f) t (Ret y) \<Longrightarrow> \<exists>t1 t2 x. t = t1 @ t2 \<and> runs m t1 (Ret x) \<and> runs (f x) t2 (Ret y)"
proof -
  assume "runs (pbind m f) t (Ret y)"
  from runs_pbind [OF this] show ?thesis
  proof
    assume "\<exists>m'. runs m t m' \<and> Ret y = pbind m' f"
    then obtain x where "runs m t (Ret x)" "f x = Ret y" by (metis pbind.simps prog.distinct prog.exhaust)
    then show ?thesis by (metis append_Nil2 runs.Done)
  qed
qed

lemma runs_liftr: "runs (liftr m) t (Ret x) \<longleftrightarrow> t = [] \<and> m = Inr x"
  by (cases m) (auto simp: runs_ended)

text \<open>What every result of a program satisfies.\<close>

definition yields :: "('a \<Rightarrow> bool) \<Rightarrow> ('q, 'r, 'a) prog \<Rightarrow> bool" where
  "yields P p \<longleftrightarrow> (\<forall>t x. runs p t (Ret x) \<longrightarrow> P x)"

lemma yields_pbind: "yields Q m \<Longrightarrow> (\<And>x. Q x \<Longrightarrow> yields P (f x)) \<Longrightarrow> yields P (pbind m f)"
  unfolding yields_def by (meson runs_pbind_Ret)

lemma yields_any: "yields (\<lambda>_. True) p"
  by (simp add: yields_def)

lemma yields_Ret: "P x \<Longrightarrow> yields P (Ret x)"
  by (auto simp: yields_def runs_ended)

lemma yields_liftr: "(\<And>x. m = Inr x \<Longrightarrow> P x) \<Longrightarrow> yields P (liftr m)"
  by (auto simp: yields_def runs_liftr)

lemma yields_pfold: "(\<And>x s. I s \<Longrightarrow> yields I (f x s)) \<Longrightarrow> I s \<Longrightarrow> yields I (pfold f xs s)"
  by (induction xs arbitrary: s) (auto intro: yields_pbind yields_Ret)

lemma runs_prequire: "runs (prequire c s) t (Ret x) \<longleftrightarrow> t = [] \<and> c"
  by (auto simp: prequire_def runs_liftr require_eq_Inr)

lemma runs_pbindI: "runs m t1 (Ret x) \<Longrightarrow> runs (f x) t2 p' \<Longrightarrow> runs (pbind m f) (t1 @ t2) p'"
proof (induction m arbitrary: t1)
  case (Act q k)
  then show ?case by (cases t1) (auto elim!: runs_ConsE)
qed (auto simp: runs_ended)

lemma runs_pure:
  "m = Inr x \<Longrightarrow> runs (f x) t p' \<Longrightarrow> runs (pbind (liftr m) f) t p'"
  "c \<Longrightarrow> runs (h ()) t p' \<Longrightarrow> runs (pbind (prequire c msg) h) t p'"
  by simp_all

subsection \<open>What a program may do at all\<close>

text \<open>
  \<open>acts P p\<close>: every action of every run of \<open>p\<close> satisfies \<open>P\<close>. \<open>fuel_free p\<close>: no run
  of \<open>p\<close> uses up a loop budget.
\<close>

primrec acts :: "('q \<Rightarrow> bool) \<Rightarrow> ('q, 'r, 'a) prog \<Rightarrow> bool" where
  "acts P (Ret x) = True"
| "acts P (Fail e) = True"
| "acts P OutOfFuel = True"
| "acts P (Act q k) = (P q \<and> (\<forall>r. acts P (k r)))"

primrec fuel_free :: "('q, 'r, 'a) prog \<Rightarrow> bool" where
  "fuel_free (Ret x) = True"
| "fuel_free (Fail e) = True"
| "fuel_free OutOfFuel = False"
| "fuel_free (Act q k) = (\<forall>r. fuel_free (k r))"

named_theorems acts_intros "rules for the actions of a program"
named_theorems fuel_intros "rules for programs without loop budgets"

lemma acts_pbind [acts_intros]: "acts P m \<Longrightarrow> (\<And>x. acts P (f x)) \<Longrightarrow> acts P (pbind m f)"
  by (induction m) auto

lemma acts_pcatch [acts_intros]: "acts P m \<Longrightarrow> (\<And>e. acts P (h e)) \<Longrightarrow> acts P (pcatch m h)"
  by (induction m) auto

lemma acts_liftr [acts_intros, simp]: "acts P (liftr m)"
  by (cases m) auto

lemma acts_prequire [acts_intros, simp]: "acts P (prequire c s)"
  by (simp add: prequire_def)

lemma acts_pfilter [acts_intros]: "(\<And>x. acts P (c x)) \<Longrightarrow> acts P (pfilter c xs)"
  by (induction xs) (auto intro!: acts_pbind)

lemma acts_pfor [acts_intros]: "(\<And>x. acts P (f x)) \<Longrightarrow> acts P (pfor f xs)"
  by (induction xs) (auto intro!: acts_pbind)

lemma acts_pfor_in: "list_all (\<lambda>x. acts P (f x)) xs \<Longrightarrow> acts P (pfor f xs)"
  by (induction xs) (simp_all add: acts_pbind)

lemma acts_pfinally [acts_intros]: "acts P m \<Longrightarrow> acts P c \<Longrightarrow> acts P (pfinally m c)"
  by (induction m) (auto intro: acts_pbind)

lemma acts_pfold [acts_intros]: "(\<And>x s. acts P (f x s)) \<Longrightarrow> acts P (pfold f xs s)"
  by (induction xs arbitrary: s) (auto intro: acts_pbind)

lemma acts_pmap [acts_intros]: "(\<And>x. acts P (f x)) \<Longrightarrow> acts P (pmap f xs)"
  by (induction xs) (auto intro!: acts_pbind)

lemma acts_embedI: "acts (\<lambda>q. P (f q)) p \<Longrightarrow> acts P (embed f g p)"
  by (induction p) auto

lemma acts_mono: "acts P p \<Longrightarrow> (\<And>q. P q \<Longrightarrow> P' q) \<Longrightarrow> acts P' p"
  by (induction p) auto

lemma acts_runs: "runs p t p' \<Longrightarrow> acts P p \<Longrightarrow> list_all (\<lambda>(q, _). P q) t \<and> acts P p'"
  by (induction rule: runs.induct) auto

lemma fuel_free_pbind [fuel_intros]: "fuel_free m \<Longrightarrow> (\<And>x. fuel_free (f x)) \<Longrightarrow> fuel_free (pbind m f)"
  by (induction m) auto

lemma fuel_free_pcatch [fuel_intros]: "fuel_free m \<Longrightarrow> (\<And>e. fuel_free (h e)) \<Longrightarrow> fuel_free (pcatch m h)"
  by (induction m) auto

lemma fuel_free_liftr [fuel_intros, simp]: "fuel_free (liftr m)"
  by (cases m) auto

lemma fuel_free_prequire [fuel_intros, simp]: "fuel_free (prequire c s)"
  by (simp add: prequire_def)

lemma fuel_free_pfilter [fuel_intros]: "(\<And>x. fuel_free (c x)) \<Longrightarrow> fuel_free (pfilter c xs)"
  by (induction xs) (auto intro!: fuel_free_pbind)

lemma fuel_free_runs: "runs p t p' \<Longrightarrow> fuel_free p \<Longrightarrow> fuel_free p'"
  by (induction rule: runs.induct) auto

lemma pbind_OutOfFuel: "pbind m f = OutOfFuel \<longleftrightarrow> m = OutOfFuel \<or> (\<exists>x. m = Ret x \<and> f x = OutOfFuel)"
  by (cases m) auto

text \<open>A budget that runs out after a part without budgets runs out in the rest.\<close>

lemma runs_pbind_OutOfFuel:
  assumes "runs (pbind m f) t OutOfFuel" and "fuel_free m"
  shows "\<exists>t1 t2 x. t = t1 @ t2 \<and> runs m t1 (Ret x) \<and> runs (f x) t2 OutOfFuel"
proof -
  have "\<not> runs m t OutOfFuel" for t
    using fuel_free_runs [OF _ assms(2), of t OutOfFuel] by auto
  with runs_pbind [OF assms(1)] show ?thesis
    by (metis append_Nil2 pbind_OutOfFuel runs.Done)
qed

text \<open>\<open>at_most p n\<close>: no run of \<open>p\<close> performs more than \<open>n\<close> actions.\<close>

primrec at_most :: "('q, 'r, 'a) prog \<Rightarrow> nat \<Rightarrow> bool" where
  "at_most (Ret x) n = True"
| "at_most (Fail e) n = True"
| "at_most OutOfFuel n = True"
| "at_most (Act q k) n = (0 < n \<and> (\<forall>r. at_most (k r) (n - 1)))"

lemma at_most_le: "at_most p m \<Longrightarrow> m \<le> n \<Longrightarrow> at_most p n"
proof (induction p arbitrary: m n)
  case (Act q k)
  have "at_most (k r) (n - 1)" for r
    by (rule Act.IH [OF rangeI, of r "m - 1"]) (use Act.prems in auto)
  with Act.prems show ?case by simp
qed simp_all

lemma at_most_pbind: "at_most m a \<Longrightarrow> (\<And>x. at_most (f x) b) \<Longrightarrow> at_most (pbind m f) (a + b)"
proof (induction m arbitrary: a)
  case (Act q k)
  have "at_most (pbind (k r) f) (a - 1 + b)" for r
    by (rule Act.IH [OF rangeI]) (use Act.prems in auto)
  with Act.prems(1) show ?case by (simp add: diff_add_assoc2 [symmetric])
qed (simp_all add: at_most_le [of _ b])

lemma at_most_liftr [simp]: "at_most (liftr m) n" "at_most (prequire c s) n"
  by (cases m; simp) (simp add: prequire_def liftr_def split: sum.split)

lemma at_most_bind_pure:
  "(\<And>x. at_most (f x) n) \<Longrightarrow> at_most (pbind (liftr m) f) n"
  "(\<And>x. at_most (g x) n) \<Longrightarrow> at_most (pbind (prequire c s) g) n"
  using at_most_pbind [of "liftr m" 0 f n] at_most_pbind [of "prequire c s" 0 g n] by simp_all

lemma at_most_runs: "runs p t p' \<Longrightarrow> at_most p n \<Longrightarrow> length t \<le> n"
  by (induction arbitrary: n rule: runs.induct) force+

subsection \<open>Weakest preconditions\<close>

primrec wp :: "('g \<Rightarrow> 'q \<Rightarrow> bool) \<Rightarrow> ('g \<Rightarrow> 'q \<Rightarrow> 'r \<Rightarrow> 'g) \<Rightarrow> ('q, 'r, 'a) prog
    \<Rightarrow> ('a \<Rightarrow> 'g \<Rightarrow> bool) \<Rightarrow> (exn \<Rightarrow> 'g \<Rightarrow> bool) \<Rightarrow> 'g \<Rightarrow> bool" where
  "wp ok upd (Ret x) Q E g = Q x g"
| "wp ok upd (Fail e) Q E g = E e g"
| "wp ok upd OutOfFuel Q E g = True"
| "wp ok upd (Act q k) Q E g = (ok g q \<and> (\<forall>r. wp ok upd (k r) Q E (upd g q r)))"

lemma wp_pbind: "wp ok upd (pbind m f) Q E g = wp ok upd m (\<lambda>x. wp ok upd (f x) Q E) E g"
  by (induction m arbitrary: g) auto

lemma wp_pcatch: "wp ok upd (pcatch m h) Q E g = wp ok upd m Q (\<lambda>e. wp ok upd (h e) Q E) g"
  by (induction m arbitrary: g) auto

lemma wp_ended: "wp ok upd (Ret x) Q E = Q x" "wp ok upd (Fail e) Q E = E e"
  by (simp_all add: fun_eq_iff)

lemma wp_pfinally: "wp ok upd (pfinally m c) Q E g =
    wp ok upd m (\<lambda>x. wp ok upd c (\<lambda>_. Q x) E) (\<lambda>e. wp ok upd c (\<lambda>_. E e) E) g"
  by (induction m arbitrary: g) (auto simp: wp_pbind wp_ended)

lemma wp_liftr: "wp ok upd (liftr m) Q E g = (case m of Inl e \<Rightarrow> E e g | Inr x \<Rightarrow> Q x g)"
  by (cases m) auto

lemma wp_prequire: "wp ok upd (prequire c s) Q E g = (if c then Q () g else E (Refuse s) g)"
  by (simp add: prequire_def wp_liftr require_def)

lemma wp_if: "wp ok upd (if c then p else p') Q E g = (if c then wp ok upd p Q E g else wp ok upd p' Q E g)"
  by simp

lemma wp_conseq:
  assumes "wp ok upd p Q E g"
    and "\<And>x g. Q x g \<Longrightarrow> Q' x g" and "\<And>e g. E e g \<Longrightarrow> E' e g"
  shows "wp ok upd p Q' E' g"
  using assms(1) by (induction p arbitrary: g) (auto intro: assms(2,3))

text \<open>The ghost state at the end of a trace, and the meaning of \<open>wp\<close> on traces.\<close>

definition ghost :: "('g \<Rightarrow> 'q \<Rightarrow> 'r \<Rightarrow> 'g) \<Rightarrow> 'g \<Rightarrow> ('q \<times> 'r) list \<Rightarrow> 'g" where
  "ghost upd g t = foldl (\<lambda>g (q, r). upd g q r) g t"

lemma ghost_simps [simp]:
  "ghost upd g [] = g" "ghost upd g ((q, r) # t) = ghost upd (upd g q r) t"
  "ghost upd g (t @ [(q, r)]) = upd (ghost upd g t) q r"
  by (simp_all add: ghost_def)

lemma wp_runs: "runs p t p' \<Longrightarrow> wp ok upd p Q E g \<Longrightarrow> wp ok upd p' Q E (ghost upd g t)"
  by (induction arbitrary: g rule: runs.induct) auto

lemma wp_action:
  assumes "runs p (t @ (q, r) # t') p'" and "wp ok upd p Q E g"
  shows "ok (ghost upd g t) q"
  using assms
proof (induction t arbitrary: p g)
  case Nil
  then show ?case by (auto elim: runs_ConsE)
next
  case (Cons x t)
  then show ?case by (cases x) (auto elim!: runs_ConsE)
qed

lemma wp_result:
  "runs p t (Ret x) \<Longrightarrow> wp ok upd p Q E g \<Longrightarrow> Q x (ghost upd g t)"
  "runs p t (Fail e) \<Longrightarrow> wp ok upd p Q E g \<Longrightarrow> E e (ghost upd g t)"
  by (auto dest: wp_runs)

subsection \<open>Ghost states that only grow\<close>

text \<open>
  A program that has seen more may do more: when updates only move the ghost state up in a
  preorder, the specification of a program needs to say only what it adds. \<open>spec g p R\<close> says that \<open>p\<close> performs allowed actions only, whatever
  has been seen before, and that a normal result \<open>x\<close> satisfies \<open>R x\<close> of what has been
  seen at the end.
\<close>

locale progressing =
  fixes ok :: "'g \<Rightarrow> 'q \<Rightarrow> bool" and upd :: "'g \<Rightarrow> 'q \<Rightarrow> 'r \<Rightarrow> 'g" and le :: "'g \<Rightarrow> 'g \<Rightarrow> bool"
  assumes upd_le: "le g (upd g q r)" and le_refl [simp, intro]: "le g g" and le_trans: "le g g' \<Longrightarrow> le g' g'' \<Longrightarrow> le g g''"
begin

definition spec :: "'g \<Rightarrow> ('q, 'r, 'a) prog \<Rightarrow> ('a \<Rightarrow> 'g \<Rightarrow> bool) \<Rightarrow> bool" where
  "spec g p R = wp ok upd p (\<lambda>x g'. le g g' \<and> R x g') (\<lambda>_ g'. le g g') g"

lemma wp_grows: "wp ok upd p Q E g \<Longrightarrow> wp ok upd p (\<lambda>x g'. le g g' \<and> Q x g') (\<lambda>e g'. le g g' \<and> E e g') g"
proof (induction p arbitrary: g)
  case (Act q k)
  have "wp ok upd (k r) (\<lambda>x g'. le g g' \<and> Q x g') (\<lambda>e g'. le g g' \<and> E e g') (upd g q r)" for r
  proof -
    have "wp ok upd (k r) Q E (upd g q r)" using Act.prems by simp
    from Act.IH [OF rangeI this]
    show ?thesis by (rule wp_conseq) (use upd_le [of g q r] in \<open>auto intro: le_trans\<close>)
  qed
  with Act.prems show ?case by simp
qed auto

lemma spec_bind:
  assumes "spec g p R" and "\<And>x g'. le g g' \<Longrightarrow> R x g' \<Longrightarrow> spec g' (f x) S"
  shows "spec g (pbind p f) S"
proof -
  have "wp ok upd (f x) (\<lambda>x g'. le g g' \<and> S x g') (\<lambda>_ g'. le g g') g'" if "le g g'" "R x g'" for x g'
    using assms(2) [OF that] unfolding spec_def by (rule wp_conseq) (use that in \<open>auto intro: le_trans\<close>)
  with assms(1) show ?thesis
    unfolding spec_def wp_pbind by (auto intro: wp_conseq)
qed

lemma spec_catch:
  assumes "spec g p R" and "\<And>x g'. le g g' \<Longrightarrow> R x g' \<Longrightarrow> S x g'" and "\<And>e g'. le g g' \<Longrightarrow> spec g' (h e) S"
  shows "spec g (pcatch p h) S"
proof -
  have "wp ok upd (h e) (\<lambda>x g'. le g g' \<and> S x g') (\<lambda>_ g'. le g g') g'" if "le g g'" for e g'
    using assms(3) [OF that] unfolding spec_def by (rule wp_conseq) (use that in \<open>auto intro: le_trans\<close>)
  with assms(1,2) show ?thesis
    unfolding spec_def wp_pcatch by (auto intro: wp_conseq)
qed

lemma spec_finally:
  assumes "spec g m R" and "\<And>x g'. le g g' \<Longrightarrow> R x g' \<Longrightarrow> spec g' c (\<lambda>_. S x)" and "\<And>g'. le g g' \<Longrightarrow> spec g' c (\<lambda>_ _. True)"
  shows "spec g (pfinally m c) S"
proof -
  have "wp ok upd c (\<lambda>_ g'. le g g' \<and> S x g') (\<lambda>_ g'. le g g') g'" if "le g g'" "R x g'" for x g'
    using assms(2) [OF that] unfolding spec_def by (rule wp_conseq) (use that in \<open>auto intro: le_trans\<close>)
  moreover have "wp ok upd c (\<lambda>_ g'. le g g') (\<lambda>_ g'. le g g') g'" if "le g g'" for g'
    using assms(3) [OF that] unfolding spec_def by (rule wp_conseq) (use that in \<open>auto intro: le_trans\<close>)
  ultimately show ?thesis using assms(1)
    unfolding spec_def wp_pfinally by (auto intro: wp_conseq)
qed

lemma spec_Ret [simp]: "spec g (Ret x) R \<longleftrightarrow> R x g"
  by (simp add: spec_def)

lemma spec_Fail [simp]: "spec g (Fail e) R"
  by (simp add: spec_def)

lemma spec_OutOfFuel [simp]: "spec g OutOfFuel R"
  by (simp add: spec_def)

lemma spec_if: "(c \<Longrightarrow> spec g p R) \<Longrightarrow> (\<not> c \<Longrightarrow> spec g p' R) \<Longrightarrow> spec g (if c then p else p') R"
  by simp

lemma spec_liftr: "(\<And>x. m = Inr x \<Longrightarrow> R x g) \<Longrightarrow> spec g (liftr m) R"
  by (cases m) auto

lemma spec_bind_liftr: "(\<And>x. m = Inr x \<Longrightarrow> spec g (f x) R) \<Longrightarrow> spec g (pbind (liftr m) f) R"
  by (cases m) auto

lemma spec_bind_require: "(c \<Longrightarrow> spec g (f ()) R) \<Longrightarrow> spec g (pbind (prequire c s) f) R"
  by (cases c) auto

lemma spec_Act:
  assumes "ok g q" and "\<And>r. spec (upd g q r) (k r) R"
  shows "spec g (Act q k) R"
proof -
  have "wp ok upd (k r) (\<lambda>x g'. le g g' \<and> R x g') (\<lambda>_ g'. le g g') (upd g q r)" for r
    using assms(2) [of r] unfolding spec_def
    by (rule wp_conseq) (use upd_le [of g q r] in \<open>auto intro: le_trans\<close>)
  with assms(1) show ?thesis by (simp add: spec_def)
qed

lemma spec_conseq: "spec g p R \<Longrightarrow> (\<And>x g'. le g g' \<Longrightarrow> R x g' \<Longrightarrow> S x g') \<Longrightarrow> spec g p S"
  unfolding spec_def by (erule wp_conseq) auto

lemma spec_filter:
  assumes "\<And>x g'. le g g' \<Longrightarrow> spec g' (c x) (\<lambda>b g''. b \<longrightarrow> P x)"
  shows "spec g (pfilter c xs) (\<lambda>ys g'. set ys \<subseteq> {x \<in> set xs. P x})"
  using assms
proof (induction xs arbitrary: g)
  case (Cons x xs)
  show ?case unfolding pfilter.simps
  proof (rule spec_bind [where R = "\<lambda>b _. b \<longrightarrow> P x"])
    show "spec g (c x) (\<lambda>b _. b \<longrightarrow> P x)" by (rule Cons.prems) simp
  next
    fix b g' assume g: "le g g'" and b: "b \<longrightarrow> P x"
    have "spec g' (pfilter c xs) (\<lambda>ys g'. set ys \<subseteq> {x \<in> set xs. P x})"
      by (rule Cons.IH) (use Cons.prems g in \<open>blast intro: le_trans\<close>)
    then show "spec g' (pbind (pfilter c xs) (\<lambda>ys. Ret (if b then x # ys else ys)))
        (\<lambda>ys g'. set ys \<subseteq> {y \<in> set (x # xs). P y})"
      by (rule spec_bind) (use b in auto)
  qed
qed simp

lemma spec_fold:
  assumes "\<And>x s g'. x \<in> set xs \<Longrightarrow> le g g' \<Longrightarrow> spec g' (f x s) (\<lambda>_ _. True)"
  shows "spec g (pfold f xs s) (\<lambda>_ _. True)"
  using assms
proof (induction xs arbitrary: g s)
  case (Cons x xs)
  show ?case unfolding pfold.simps
    by (rule spec_bind [where R = "\<lambda>_ _. True"]) (auto intro!: Cons.IH Cons.prems intro: le_trans)
qed simp

lemma spec_fold_inv:
  assumes "\<And>x s g'. x \<in> set xs \<Longrightarrow> le g g' \<Longrightarrow> I s g' \<Longrightarrow> spec g' (f x s) I" and "I s g"
  shows "spec g (pfold f xs s) I"
  using assms
proof (induction xs arbitrary: g s)
  case (Cons x xs)
  show ?case unfolding pfold.simps
  proof (rule spec_bind [where R = I])
    show "spec g (f x s) I" by (rule Cons.prems) (use Cons.prems(2) in auto)
  next
    fix s' g' assume "le g g'" "I s' g'"
    then show "spec g' (pfold f xs s') I" by (intro Cons.IH Cons.prems(1)) (auto intro: le_trans)
  qed
qed simp

lemma spec_for:
  assumes "\<And>x g'. x \<in> set xs \<Longrightarrow> le g g' \<Longrightarrow> spec g' (f x) (\<lambda>_ _. True)"
  shows "spec g (pfor f xs) (\<lambda>_ _. True)"
  using assms
proof (induction xs arbitrary: g)
  case (Cons x xs)
  show ?case unfolding pfor.simps
  proof (rule spec_bind [where R = "\<lambda>_ _. True"])
    show "spec g (f x) (\<lambda>_ _. True)" by (rule Cons.prems) simp_all
  next
    fix y g' assume "le g g'"
    then show "spec g' (pfor f xs) (\<lambda>_ _. True)"
      by (intro Cons.IH Cons.prems) (auto intro: le_trans)
  qed
qed simp

text \<open>A program all of whose actions are allowed from here on.\<close>

lemma spec_acts:
  assumes "acts P p" and "\<And>g' q. le g g' \<Longrightarrow> P q \<Longrightarrow> ok g' q"
  shows "spec g p (\<lambda>_ _. True)"
  using assms
proof (induction p arbitrary: g)
  case (Act q k)
  show ?case
  proof (rule spec_Act)
    fix r show "spec (upd g q r) (k r) (\<lambda>_ _. True)"
      by (rule Act.IH [OF rangeI]) (use Act.prems upd_le [of g q r] in \<open>auto intro: le_trans\<close>)
  qed (use Act.prems in auto)
qed simp_all

lemma acts_trivial: "acts (\<lambda>_. True) p"
  by (induction p) simp_all

lemma spec_unrestricted: "(\<And>g' q. le g g' \<Longrightarrow> ok g' q) \<Longrightarrow> spec g p (\<lambda>_ _. True)"
  by (rule spec_acts [OF acts_trivial]) auto

lemma ghost_grows: "le g (ghost upd g t)"
proof (induction t arbitrary: g)
  case (Cons x t)
  then show ?case by (cases x) (auto intro: le_trans [OF upd_le])
qed simp

text \<open>Every action of every run of a program with a specification was allowed when it happened.\<close>

lemma spec_trace:
  assumes "spec g p R" and "runs p (t @ (q, r) # t') p'"
  shows "ok (ghost upd g t) q"
  by (rule wp_action [OF assms(2) assms(1) [unfolded spec_def]])

lemma spec_returns:
  assumes "spec g p R" and "runs p t (Ret x)"
  shows "R x (ghost upd g t)"
  using wp_result(1) [OF assms(2) assms(1) [unfolded spec_def]] by simp

lemma spec_runs:
  assumes "spec g p R" and "runs p t p'"
  shows "wp ok upd p' (\<lambda>x g'. R x g') (\<lambda>_ _. True) (ghost upd g t)"
  by (rule wp_conseq [OF wp_runs [OF assms(2) assms(1) [unfolded spec_def]]]) auto

end

text \<open>
  The instance in which the ghost state is the whole history, the last action first: what is
  allowed is then a property of all that has happened.
\<close>

definition hist_upd :: "('q \<times> 'r) list \<Rightarrow> 'q \<Rightarrow> 'r \<Rightarrow> ('q \<times> 'r) list" where
  "hist_upd h q r = (q, r) # h"

interpretation history: progressing ok hist_upd suffix for ok
  by unfold_locales (auto simp: hist_upd_def suffix_def)

lemma ghost_hist: "ghost hist_upd h t = rev t @ h"
  by (induction t arbitrary: h) (auto simp: hist_upd_def)

text \<open>Every program meets the specification that its own runs give.\<close>

lemma spec_self:
  assumes "\<And>t q k. runs p t (Act q k) \<Longrightarrow> ok (rev t @ h) q"
  shows "history.spec ok h p (\<lambda>x h'. \<exists>t. h' = rev t @ h \<and> runs p t (Ret x))"
  using assms
proof (induction p arbitrary: h)
  case (Act q k)
  show ?case
  proof (rule history.spec_Act)
    show "ok h q" using Act.prems [of "[]"] by simp
  next
    fix r
    have "history.spec ok (hist_upd h q r) (k r) (\<lambda>x h'. \<exists>t. h' = rev t @ hist_upd h q r \<and> runs (k r) t (Ret x))"
      by (rule Act.IH [OF rangeI]) (use Act.prems [of "(q, r) # _"] in \<open>simp add: hist_upd_def\<close>)
    then show "history.spec ok (hist_upd h q r) (k r) (\<lambda>x h'. \<exists>t. h' = rev t @ h \<and> runs (Act q k) t (Ret x))"
    proof (rule history.spec_conseq)
      fix x h' assume "\<exists>t. h' = rev t @ hist_upd h q r \<and> runs (k r) t (Ret x)"
      then obtain t where "h' = rev t @ hist_upd h q r" "runs (k r) t (Ret x)" by blast
      then show "\<exists>t. h' = rev t @ h \<and> runs (Act q k) t (Ret x)"
        by (intro exI [of _ "(q, r) # t"]) (simp add: hist_upd_def)
    qed
  qed
qed (auto intro: exI [of _ "[]"])

lemma spec_self_acts:
  assumes "acts P p" and "\<And>h q. P q \<Longrightarrow> ok h q"
  shows "history.spec ok h p (\<lambda>x h'. \<exists>t. h' = rev t @ h \<and> runs p t (Ret x))"
  by (rule spec_self) (use acts_runs [OF _ assms(1)] assms(2) in fastforce)

lemma spec_quiet:
  assumes "acts P p" and "\<And>h q. P q \<Longrightarrow> ok h q"
  shows "history.spec ok h p (\<lambda>_ _. True)"
  by (rule history.spec_acts [OF assms(1)]) (use assms(2) in blast)

text \<open>What holds of the history before every action of every run.\<close>

definition always :: "(('q \<times> 'r) list \<Rightarrow> 'q \<Rightarrow> bool) \<Rightarrow> ('q, 'r, 'a) prog \<Rightarrow> bool" where
  "always ok p \<longleftrightarrow> (\<forall>t q r t' p'. runs p (t @ (q, r) # t') p' \<longrightarrow> ok t q)"

lemma wp_weaken: "wp ok upd p Q E g \<Longrightarrow> (\<And>g q. ok g q \<Longrightarrow> ok' g q) \<Longrightarrow> wp ok' upd p Q E g"
  by (induction p arbitrary: g) auto

lemma spec_weaken: "history.spec ok h p R \<Longrightarrow> (\<And>h q. ok h q \<Longrightarrow> ok' h q) \<Longrightarrow> history.spec ok' h p R"
  unfolding history.spec_def by (rule wp_weaken)

lemma spec_always:
  assumes "history.spec ok [] p R" and "\<And>t q. ok (rev t) q \<Longrightarrow> P t q"
  shows "always P p"
  unfolding always_def using history.spec_trace [OF assms(1)] assms(2) by (auto simp: ghost_hist)

lemma runs_pcatch_Ret:
  assumes "runs (pcatch m h) t (Ret x)" and "\<And>e t'. \<not> runs (h e) t' (Ret x)"
  shows "runs m t (Ret x)"
  using assms(1)
proof (induction m arbitrary: t)
  case (Act q k)
  then show ?case by (cases t) (auto elim!: runs_ConsE)
qed (use assms(2) in auto)

lemma runs_embed:
  assumes "runs (embed f g p) t p'"
  shows "\<exists>t0 p0. t = map (\<lambda>(q, s, r). (f q, s)) t0 \<and> list_all (\<lambda>(q, s, r). r = g s) t0
     \<and> runs p (map (\<lambda>(q, s, r). (q, r)) t0) p0 \<and> p' = embed f g p0"
  using assms
proof (induction p arbitrary: t)
  case (Act q k)
  show ?case
  proof (cases t)
    case Nil
    with Act.prems show ?thesis by (intro exI [of _ "[]"] exI [of _ "Act q k"]) simp
  next
    case (Cons a t')
    then obtain s where s: "a = (f q, s)" "runs (embed f g (k (g s))) t' p'" using Act.prems by (cases a) auto
    from Act.IH [OF rangeI s(2)] obtain t0 p0 where "t' = map (\<lambda>(q, s, r). (f q, s)) t0" "list_all (\<lambda>(q, s, r). r = g s) t0"
      "runs (k (g s)) (map (\<lambda>(q, s, r). (q, r)) t0) p0" "p' = embed f g p0" by blast
    with Cons s(1) show ?thesis by (intro exI [of _ "(q, s, g s) # t0"] exI [of _ p0]) simp
  qed
qed (auto simp: runs_ended intro!: exI [of _ "[]"])

text \<open>The instance in which the ghost state is a set of observations.\<close>

locale growing =
  fixes ok :: "'g set \<Rightarrow> 'q \<Rightarrow> bool" and upd :: "'g set \<Rightarrow> 'q \<Rightarrow> 'r \<Rightarrow> 'g set"
  assumes upd_grows: "g \<subseteq> upd g q r"

sublocale growing \<subseteq> progressing ok upd "(\<subseteq>)"
  by unfold_locales (use upd_grows in auto)

end
