(* ===== verification/Admission_Protocol.thy ===== *)
theory Admission_Protocol
  imports Kube_Pods Prog
begin

section \<open>The maintenance protocol: coordinate, recover, claim\<close>

text \<open>
  The effectful half of \<^verbatim>\<open>maintenance-admission.py\<close>, as programs over three
  actions: an HTTP request, a reading of the clock, a sleep. Every action may raise; the alarm
  signal of \<^verbatim>\<open>main\<close> is one such exception. A response body is the text the server
  sent, parsed by \<^const>\<open>json_loads\<close>. Python's \<^verbatim>\<open>Store\<close> object latches the UID
  of the state object at its first read; the programs thread it. After \<open>validate\<close> has accepted
  a state, the programs work on the record \<^typ>\<open>mstate\<close> it decodes to. Times of the clock are
  rationals.
\<close>

subsection \<open>Actions and responses\<close>

datatype kact = Http string string string "jval option" | Now | Sleep int

datatype kresp =
    NetOk string "(string \<times> string) list"
  | NetHttpError int
  | Raised exn
  | Time rat
  | Slept

type_synonym 'a kprog = "(kact, kresp, 'a) prog"

record store =
  st_base :: string
  st_policy :: string
  st_sha :: "string \<Rightarrow> string"

definition STATE :: string where
  "STATE = ''/api/v1/namespaces/ci-maintenance/configmaps/hestia-ci-maintenance-state''"

definition GITLAB :: string where
  "GITLAB = ''https://git.brmartin.co.uk/api/v4''"

definition TOKEN_EXPIRY :: int where
  "TOKEN_EXPIRY = timestamp 2027 11 5 0 0 0"

definition ACTIVE :: "string list" where
  "ACTIVE = [''created'', ''waiting_for_resource'', ''preparing'', ''waiting_for_callback'',
             ''pending'', ''manual'', ''scheduled'', ''running'', ''canceling'']"

definition RUNNER_PATH :: string where
  "RUNNER_PATH = ''/runners/2''"

definition now :: "rat kprog" where
  "now = Act Now (\<lambda>r. case r of Time t \<Rightarrow> Ret t | Raised e \<Rightarrow> Fail e | _ \<Rightarrow> Fail (PyError ''TypeError''))"

definition sleep :: "int \<Rightarrow> unit kprog" where
  "sleep n = Act (Sleep n) (\<lambda>r. case r of Raised e \<Rightarrow> Fail e | _ \<Rightarrow> Ret ())"

text \<open>\<^verbatim>\<open>int(now())\<close>.\<close>

definition int_trunc :: "rat \<Rightarrow> int" where
  "int_trunc t = (if 0 \<le> t then \<lfloor>t\<rfloor> else \<lceil>t\<rceil>)"

subsection \<open>HTTP.request\<close>

definition gitlab_authority :: "string \<Rightarrow> string \<Rightarrow> jval option \<Rightarrow> bool" where
  "gitlab_authority verb path body =
     (verb = ''GET'' \<and> (path = RUNNER_PATH \<or> prefix (RUNNER_PATH @ ''/jobs?'') path)
      \<or> verb = ''PUT'' \<and> path = RUNNER_PATH
        \<and> (case body of Some (JDict d) \<Rightarrow> has_keys d [''paused''] \<and> is_bool (dget ''paused'' d) | _ \<Rightarrow> False))"

definition http_result :: "kresp \<Rightarrow> (jval \<times> (string \<times> string) list) res" where
  "http_result r = (case r of
     NetOk payload headers \<Rightarrow>
       (let data = take 2000001 payload in
        rbind (require (length data \<le> 2000000) ''oversize API response'') (\<lambda>_.
        case json_loads data of
          None \<Rightarrow> Inl (PyError ''JSONDecodeError'')
        | Some v \<Rightarrow> Inr (v, foldl (\<lambda>d kv. AList.update (fst kv) (snd kv) d) [] headers)))
   | NetHttpError code \<Rightarrow>
       (if code = 409 then Inl (Conflict ''state conflict; reread required'')
        else Inl (Refuse ''API HTTP failure''))
   | Raised e \<Rightarrow> Inl e
   | _ \<Rightarrow> Inl (PyError ''TypeError''))"

definition request :: "string \<Rightarrow> string \<Rightarrow> string \<Rightarrow> jval option \<Rightarrow> (jval \<times> (string \<times> string) list) kprog" where
  "request base verb path body =
     pbind (prequire (prefix ''/'' path \<and> \<not> prefix ''//'' path) ''invalid API path'') (\<lambda>_.
     pbind (prequire (base \<noteq> GITLAB \<or> gitlab_authority verb path body) ''GitLab authority refused'') (\<lambda>_.
     Act (Http base verb path body) (\<lambda>r. liftr (http_result r))))"

subsection \<open>Store\<close>

text \<open>\<^verbatim>\<open>json.loads\<close> and \<^verbatim>\<open>validate\<close> on the stored text.\<close>

definition load_state :: "store \<Rightarrow> string \<Rightarrow> jval \<Rightarrow> mstate res" where
  "load_state st uid txt = (case txt of
     JStr s \<Rightarrow>
       (case json_loads s of
          None \<Rightarrow> Inl (PyError ''JSONDecodeError'')
        | Some j \<Rightarrow>
            rbind (validate (st_sha st) j uid (st_policy st)) (\<lambda>_.
            case decode j of None \<Rightarrow> Inl (PyError ''TypeError'') | Some state \<Rightarrow> Inr state))
   | _ \<Rightarrow> Inl (PyError ''TypeError''))"

definition read_cm :: "store \<Rightarrow> string option \<Rightarrow> jval \<Rightarrow> (dict \<times> mstate \<times> string) res" where
  "read_cm st latch v = (case v of
     JDict cm \<Rightarrow>
       rbind (require (dget ''kind'' cm = JStr ''ConfigMap'') ''invalid state object'') (\<lambda>_.
       case dget_or ''metadata'' (JDict []) cm of
         JDict meta \<Rightarrow>
           rbind (require (dget ''name'' meta = JStr ''hestia-ci-maintenance-state''
                    \<and> dget ''namespace'' meta = JStr CONTROL_NAMESPACE
                    \<and> text_ok (dget ''uid'' meta) \<and> text_ok (dget ''resourceVersion'' meta)
                    \<and> \<not> truthy (dget ''deletionTimestamp'' meta)) ''invalid state metadata'') (\<lambda>_.
           (let uid = (case latch of None \<Rightarrow> str_of (dget ''uid'' meta) | Some u \<Rightarrow> u) in
            rbind (require (JStr uid = dget ''uid'' meta) ''state object replaced'') (\<lambda>_.
            rbind (jitem ''data'' v) (\<lambda>data.
            rbind (jitem ''state.json'' data) (\<lambda>txt.
            rbind (load_state st uid txt) (\<lambda>state. Inr (cm, state, uid)))))))
       | _ \<Rightarrow> Inl (PyError ''AttributeError''))
   | _ \<Rightarrow> Inl (Refuse ''invalid state object''))"

definition store_read :: "store \<Rightarrow> string option \<Rightarrow> (dict \<times> mstate \<times> string) kprog" where
  "store_read st latch =
     pbind (request (st_base st) ''GET'' STATE None) (\<lambda>(cm, _). liftr (read_cm st latch cm))"

definition desired :: "dict \<Rightarrow> mstate \<Rightarrow> dict" where
  "desired cm state = AList.update ''data'' (JDict [(''state.json'', JStr (json_dumps (encode state)))]) cm"

definition store_save :: "store \<Rightarrow> string \<Rightarrow> dict \<Rightarrow> mstate \<Rightarrow> mstate kprog" where
  "store_save st uid cm state =
     pbind (liftr (validate (st_sha st) (encode state) uid (st_policy st))) (\<lambda>_.
     pbind (request (st_base st) ''PUT'' STATE (Some (JDict (desired cm state)))) (\<lambda>_.
     pbind (store_read st (Some uid)) (\<lambda>(_, observed, _).
     pbind (prequire (observed = state) ''CAS readback not confirmed'') (\<lambda>_.
     Ret observed))))"

subsection \<open>Pod snapshots and schedules\<close>

definition pods_path :: "string \<Rightarrow> string" where
  "pods_path ns = ''/api/v1/namespaces/'' @ ns @ ''/pods?limit=500''"

definition pods :: "string \<Rightarrow> string \<Rightarrow> jval list kprog" where
  "pods base ns =
     pbind (prequire (ns \<in> {''ci'', CONTROL_NAMESPACE, WORKER_NAMESPACE}) ''invalid observation namespace'') (\<lambda>_.
     pbind (request base ''GET'' (pods_path ns) None) (\<lambda>(v, _). liftr (pods_payload ns v)))"

definition snapshot_all :: "string \<Rightarrow> jval list kprog" where
  "snapshot_all base =
     pbind (pods base ''ci'') (\<lambda>a. pbind (pods base CONTROL_NAMESPACE) (\<lambda>b.
     pbind (pods base WORKER_NAMESPACE) (\<lambda>c. liftr (merge_snapshots a b c))))"

text \<open>\<^verbatim>\<open>urllib.parse.quote(s, safe='')\<close>: UTF-8 bytes, percent-encoded.\<close>

definition hex_upper :: "nat \<Rightarrow> char" where
  "hex_upper n = (if n < 10 then char_of (48 + n) else char_of (55 + n))"

definition quote_char :: "char \<Rightarrow> string" where
  "quote_char c = (let n = (of_char c :: nat) in
     if is_digit c \<or> 65 \<le> n \<and> n \<le> 90 \<or> 97 \<le> n \<and> n \<le> 122 \<or> c \<in> set ''_.-~'' then [c]
     else concat (map (\<lambda>b. [CHR ''%'', hex_upper (b div 16), hex_upper (b mod 16)])
            (if n < 128 then [n] else [192 + n div 64, 128 + n mod 64])))"

definition quote :: "string \<Rightarrow> string" where
  "quote s = concat (map quote_char s)"

definition job_path :: "string \<Rightarrow> string \<Rightarrow> string" where
  "job_path ns job = ''/apis/batch/v1/namespaces/'' @ ns @ ''/jobs/'' @ quote job"

definition scheduled :: "string \<Rightarrow> jval \<Rightarrow> string \<Rightarrow> int kprog" where
  "scheduled base p cron =
     pbind (liftr (pod_identity p)) (\<lambda>i.
     pbind (prequire (id_ns i = cron_namespace cron) ''wrong scheduled namespace'') (\<lambda>_.
     pbind (request base ''GET'' (job_path (id_ns i) (id_job i)) None) (\<lambda>(job, _).
     liftr (scheduled_job p cron i job))))"

subsection \<open>The runner and its accepted jobs\<close>

definition runner_value :: "jval \<Rightarrow> bool res" where
  "runner_value v = (case v of
     JDict d \<Rightarrow> (case (dget ''id'' d, dget ''paused'' d) of
         (JInt i, JBool b) \<Rightarrow> if i = 2 then Inr b else Inl (Refuse ''invalid Runner2 readback'')
       | _ \<Rightarrow> Inl (Refuse ''invalid Runner2 readback''))
   | _ \<Rightarrow> Inl (Refuse ''invalid Runner2 readback''))"

definition runner :: "bool kprog" where
  "runner = pbind (request GITLAB ''GET'' RUNNER_PATH None) (\<lambda>(v, _). liftr (runner_value v))"

definition lower_char :: "char \<Rightarrow> char" where
  "lower_char c = (if 65 \<le> (of_char c :: nat) \<and> (of_char c :: nat) \<le> 90 then char_of ((of_char c :: nat) + 32) else c)"

definition lower_headers :: "(string \<times> string) list \<Rightarrow> (string \<times> string) list" where
  "lower_headers hs = foldl (\<lambda>d kv. AList.update (map lower_char (fst kv)) (snd kv) d) [] hs"

definition page_number :: "string \<Rightarrow> bool" where
  "page_number s = (s \<noteq> [] \<and> list_all is_digit s \<and> hd s \<noteq> CHR ''0'')"

definition job_evidence :: "string \<Rightarrow> int list \<Rightarrow> jval \<Rightarrow> int res" where
  "job_evidence status seen v = (case v of
     JDict d \<Rightarrow> (case dget ''id'' d of
         JInt i \<Rightarrow> rbind (require (0 < i \<and> i \<notin> set seen \<and> dget ''status'' d = JStr status)
              ''invalid accepted-job evidence or ignored status filter'') (\<lambda>_. Inr i)
       | _ \<Rightarrow> Inl (Refuse ''invalid accepted-job evidence or ignored status filter''))
   | _ \<Rightarrow> Inl (Refuse ''invalid accepted-job evidence or ignored status filter''))"

fun jobs_evidence :: "string \<Rightarrow> int list \<Rightarrow> jval list \<Rightarrow> int list res" where
  "jobs_evidence status seen [] = Inr seen"
| "jobs_evidence status seen (v # vs) =
     rbind (job_evidence status seen v) (\<lambda>i. jobs_evidence status (i # seen) vs)"

text \<open>
  The checks on one page of jobs: the result is the number of the next page, and whether the page
  has jobs.
\<close>

definition next_page :: "string list \<Rightarrow> (string \<times> string) list \<Rightarrow> string res" where
  "next_page seen_pages headers =
     (case map_of (lower_headers headers) ''x-next-page'' of
        None \<Rightarrow> Inl (Refuse ''missing pagination evidence'')
      | Some page \<Rightarrow>
          rbind (require (page = [] \<or> page_number page) ''invalid next page'') (\<lambda>_.
          rbind (require (page \<notin> set seen_pages) ''repeated jobs page'') (\<lambda>_. Inr page)))"

definition jobs_path :: "string \<Rightarrow> string \<Rightarrow> string" where
  "jobs_path status page = RUNNER_PATH @ ''/jobs?status='' @ status @ ''&per_page=100&page='' @ page"

text \<open>
  The loop over the pages of one status. The first argument counts the pages that
  \<^verbatim>\<open>len(seen_pages) < 100\<close> still allows. The result is whether the status has no
  job.
\<close>

fun drained_status :: "nat \<Rightarrow> string \<Rightarrow> string \<Rightarrow> string list \<Rightarrow> int list \<Rightarrow> bool kprog" where
  "drained_status 0 status page seen_pages seen_jobs = Fail (Refuse ''unbounded/incomplete jobs pagination'')"
| "drained_status (Suc n) status page seen_pages seen_jobs =
     pbind (prequire (page \<notin> set seen_pages) ''unbounded/incomplete jobs pagination'') (\<lambda>_.
     pbind (request GITLAB ''GET'' (jobs_path status page) None) (\<lambda>(v, headers).
     (case v of
        JList vals \<Rightarrow>
          pbind (liftr (jobs_evidence status seen_jobs vals)) (\<lambda>seen_jobs'.
          pbind (liftr (next_page (page # seen_pages) headers)) (\<lambda>page'.
          if vals \<noteq> [] then Ret False
          else if page' = [] then Ret True
          else drained_status n status page' (page # seen_pages) seen_jobs'))
      | _ \<Rightarrow> Fail (Refuse ''invalid jobs page''))))"

fun drained_all :: "string list \<Rightarrow> bool kprog" where
  "drained_all [] = Ret True"
| "drained_all (status # rest) =
     pbind (drained_status 100 status ''1'' [] []) (\<lambda>b. if b then drained_all rest else Ret False)"

definition drained :: "bool kprog" where
  "drained = drained_all ACTIVE"

subsection \<open>Operations on the state\<close>

definition new_operation :: "(string \<Rightarrow> string) \<Rightarrow> int \<Rightarrow> ident \<Rightarrow> string \<Rightarrow> operation" where
  "new_operation sha slot coord policy =
     \<lparr>op_id = operation_hash sha slot (id_uid coord) policy, op_slot = slot, op_coordinator = coord,
      op_worker = None, op_claimed = False, op_holder = None, op_baseline = False,
      op_restore_required = True, op_write = WPause, op_drain_by = slot + 1200,
      op_cleanup_by = slot + 1800, op_recover_by = slot + 2700,
      op_outcome = ''pause-intent'', op_restored = False\<rparr>"

definition alerted :: "mstate \<Rightarrow> string \<Rightarrow> mstate" where
  "alerted s reason = s\<lparr>ms_phase := ALERT,
     ms_operation := map_option (\<lambda>p. p\<lparr>op_outcome := reason\<rparr>) (ms_operation s)\<rparr>"

definition alert :: "store \<Rightarrow> string \<Rightarrow> dict \<Rightarrow> mstate \<Rightarrow> string \<Rightarrow> 'a kprog" where
  "alert st uid cm s reason = pbind (store_save st uid cm (alerted s reason)) (\<lambda>_. Fail (Refuse reason))"

text \<open>\<^verbatim>\<open>state['operation'][...]\<close> raises when there is no operation.\<close>

definition the_op :: "mstate \<Rightarrow> operation kprog" where
  "the_op s = (case ms_operation s of None \<Rightarrow> Fail (PyError ''TypeError'') | Some p \<Rightarrow> Ret p)"

definition set_op :: "mstate \<Rightarrow> phase \<Rightarrow> operation \<Rightarrow> mstate" where
  "set_op s ph p = s\<lparr>ms_phase := ph, ms_operation := Some p\<rparr>"

text \<open>The \<^verbatim>\<open>except\<close> branch after an attempt to write to GitLab.\<close>

definition unknown_write :: "store \<Rightarrow> string \<Rightarrow> string \<Rightarrow> 'a kprog" where
  "unknown_write st uid reason =
     pbind (store_read st (Some uid)) (\<lambda>(cm, s, _).
     pbind (the_op s) (\<lambda>p.
     alert st uid cm (s\<lparr>ms_operation := Some (p\<lparr>op_write := WUnknown\<rparr>)\<rparr>) reason))"

definition paused_body :: "bool \<Rightarrow> jval option" where
  "paused_body b = Some (JDict [(''paused'', JBool b)])"

definition gitlab_put :: "bool \<Rightarrow> string \<Rightarrow> unit kprog" where
  "gitlab_put b reason =
     pbind (request GITLAB ''PUT'' RUNNER_PATH (paused_body b)) (\<lambda>_.
     pbind runner (\<lambda>paused. prequire (paused = b) reason))"

subsection \<open>coordinate\<close>

text \<open>The condition on a worker Pod in the list comprehension of \<^verbatim>\<open>coordinate\<close>.\<close>

definition worker_candidate :: "store \<Rightarrow> jval \<Rightarrow> int \<Rightarrow> jval \<Rightarrow> bool kprog" where
  "worker_candidate st own slot p =
     (if pod_ns p \<noteq> WORKER_NAMESPACE then Ret False
      else
        pbind (liftr (jget ''app'' (dget_or ''labels'' (JDict []) (pmeta p)))) (\<lambda>app.
        if app \<noteq> JStr ''hestia-ci-cache-retention'' then Ret False
        else
          pbind (liftr (policy_bundle p)) (\<lambda>b1. pbind (liftr (policy_bundle own)) (\<lambda>b2.
          if b1 \<noteq> b2 \<or> pod_phase p \<notin> {''Pending'', ''Running''}
             \<or> truthy (dget ''deletionTimestamp'' (pmeta p)) then Ret False
          else pbind (scheduled (st_base st) p RETENTION_CRON) (\<lambda>slot'. Ret (slot' = slot))))))"

text \<open>\<^verbatim>\<open>retire_gc(..) and runner(..) and drained(..) and ci_drained(..)\<close>.\<close>

definition admissible :: "bool \<Rightarrow> jval list \<Rightarrow> bool kprog" where
  "admissible retired snapshot =
     (if \<not> retired then Ret False
      else pbind runner (\<lambda>paused. if \<not> paused then Ret False
      else pbind drained (\<lambda>idle. if \<not> idle then Ret False
      else liftr (ci_drained snapshot))))"

text \<open>The end of a pass that found the cluster idle: admit the worker of this slot, if there is one.\<close>

definition admit_worker :: "store \<Rightarrow> string \<Rightarrow> jval \<Rightarrow> int \<Rightarrow> jval list \<Rightarrow> dict \<Rightarrow> mstate \<Rightarrow> operation \<Rightarrow> bool kprog" where
  "admit_worker st uid own slot snapshot cm s p =
     pbind (pfilter (worker_candidate st own slot) snapshot) (\<lambda>workers.
     pbind (prequire (length workers \<le> 1) ''ambiguous worker generation'') (\<lambda>_.
     case workers of
       [] \<Rightarrow> Ret False
     | w # _ \<Rightarrow>
         pbind (liftr (pod_identity w)) (\<lambda>i.
         pbind (store_save st uid cm
           (set_op s ADMITTED (p\<lparr>op_worker := Some i, op_outcome := ''admitted''\<rparr>))) (\<lambda>_.
         Ret True))))"

text \<open>
  One pass of the drain loop; the result says whether a worker was admitted, which ends
  \<^verbatim>\<open>coordinate\<close>.
\<close>

definition drain_pass :: "store \<Rightarrow> string \<Rightarrow> jval \<Rightarrow> ident \<Rightarrow> int \<Rightarrow> bool kprog" where
  "drain_pass st uid own me slot =
     pbind (store_read st (Some uid)) (\<lambda>(cm, s, _).
     pbind (prequire (ms_phase s = DRAINING) ''drain ownership sealed'') (\<lambda>_.
     pbind (the_op s) (\<lambda>p.
     pbind (prequire (op_coordinator p = me) ''drain ownership sealed'') (\<lambda>_.
     pbind (snapshot_all (st_base st)) (\<lambda>snapshot.
     pbind (liftr (retire_gc s snapshot)) (\<lambda>(s', retired).
     pbind (admissible retired snapshot) (\<lambda>go.
     if go then admit_worker st uid own slot snapshot cm s' p else Ret False)))))))"

definition drain_timeout :: "store \<Rightarrow> string \<Rightarrow> unit kprog" where
  "drain_timeout st uid =
     pbind (store_read st (Some uid)) (\<lambda>(cm, s, _).
     pbind (prequire (ms_phase s = DRAINING) ''drain already closed'') (\<lambda>_.
     pbind (the_op s) (\<lambda>p.
     pbind (store_save st uid cm (set_op s CLOSING (p\<lparr>op_outcome := ''drain-timeout''\<rparr>))) (\<lambda>_.
     Fail (Refuse ''natural drain deadline; accepted jobs unchanged'')))))"

text \<open>The loop \<^verbatim>\<open>while now() < slot + 1200\<close>; the first argument is the number of passes allowed.\<close>

fun drain_loop :: "nat \<Rightarrow> store \<Rightarrow> string \<Rightarrow> jval \<Rightarrow> ident \<Rightarrow> int \<Rightarrow> unit kprog" where
  "drain_loop 0 st uid own me slot = OutOfFuel"
| "drain_loop (Suc n) st uid own me slot =
     pbind now (\<lambda>t.
     if t < of_int (slot + 1200) then
       pbind (drain_pass st uid own me slot) (\<lambda>admitted.
       if admitted then Ret ()
       else pbind (sleep 5) (\<lambda>_. drain_loop n st uid own me slot))
     else drain_timeout st uid)"

definition previous_retired :: "mstate \<Rightarrow> int \<Rightarrow> jval list \<Rightarrow> unit res" where
  "previous_retired s slot snapshot = (case ms_operation s of
     None \<Rightarrow> Inr ()
   | Some old \<Rightarrow>
       (case op_holder old of
          Some h \<Rightarrow>
            (if op_slot old < slot
             then rbind (terminal snapshot h) (\<lambda>t. require t ''previous restoration holder not retired'')
             else Inl (Refuse ''previous restoration holder not retired''))
        | None \<Rightarrow> Inl (Refuse ''previous restoration holder not retired'')))"

definition confirm_pause :: "store \<Rightarrow> string \<Rightarrow> ident \<Rightarrow> unit kprog" where
  "confirm_pause st uid me =
     pbind (store_read st (Some uid)) (\<lambda>(cm, s, _).
     pbind (prequire (ms_phase s = PAUSE_INTENT) ''pause ownership lost'') (\<lambda>_.
     pbind (the_op s) (\<lambda>p.
     pbind (prequire (op_coordinator p = me) ''pause ownership lost'') (\<lambda>_.
     pbind (store_save st uid cm (set_op s DRAINING (p\<lparr>op_write := WNone\<rparr>))) (\<lambda>_.
     Ret ())))))"

text \<open>From the durable pause intent to the end of \<^verbatim>\<open>coordinate\<close>.\<close>

definition pause_and_drain ::
    "nat \<Rightarrow> store \<Rightarrow> string \<Rightarrow> jval \<Rightarrow> ident \<Rightarrow> int \<Rightarrow> dict \<Rightarrow> mstate \<Rightarrow> unit kprog" where
  "pause_and_drain fuel st uid own me slot cm s =
     pbind (store_save st uid cm (set_op s PAUSE_INTENT (new_operation (st_sha st) slot me (st_policy st)))) (\<lambda>_.
     pbind (pcatch (gitlab_put True ''pause readback failed'')
              (\<lambda>_. unknown_write st uid ''unknown-pause-write'')) (\<lambda>_.
     pbind (confirm_pause st uid me) (\<lambda>_.
     drain_loop fuel st uid own me slot)))"

definition coordinate :: "nat \<Rightarrow> store \<Rightarrow> ident \<Rightarrow> unit kprog" where
  "coordinate fuel st me =
     pbind (snapshot_all (st_base st)) (\<lambda>snapshot.
     (case find (\<lambda>p. pod_uid p = id_uid me) snapshot of
        None \<Rightarrow> Fail (Refuse ''coordinator absent'')
      | Some own \<Rightarrow>
          pbind (liftr (pod_identity own)) (\<lambda>i.
          pbind (prequire (i = me) ''coordinator absent'') (\<lambda>_.
          pbind (scheduled (st_base st) own ADMISSION_CRON) (\<lambda>slot.
          pbind now (\<lambda>t1.
          pbind (prequire (0 \<le> t1 - of_int slot \<and> t1 - of_int slot \<le> 90) ''late/old schedule refused'') (\<lambda>_.
          pbind (store_read st None) (\<lambda>(cm, s, uid).
          pbind (prequire (ms_phase s \<in> {IDLE, DONE}) ''operation not closed'') (\<lambda>_.
          pbind now (\<lambda>t2.
          pbind (prequire (0 \<le> t2 - of_int (ms_heartbeat s) \<and> t2 - of_int (ms_heartbeat s) \<le> 150)
                   ''stale recovery heartbeat or expiring token'') (\<lambda>_.
          pbind now (\<lambda>t3.
          pbind (prequire (t3 + 2700 < of_int TOKEN_EXPIRY) ''stale recovery heartbeat or expiring token'') (\<lambda>_.
          pbind (liftr (previous_retired s slot snapshot)) (\<lambda>_.
          pbind runner (\<lambda>baseline.
          if baseline then Ret ()
          else pause_and_drain fuel st uid own me slot cm s)))))))))))))))"

subsection \<open>recover\<close>

definition terminal_opt :: "jval list \<Rightarrow> ident option \<Rightarrow> bool res" where
  "terminal_opt snapshot i = (case i of
     Some j \<Rightarrow> terminal snapshot j
   | None \<Rightarrow> if snapshot = [] then Inr False else Inl (PyError ''TypeError''))"

definition final_outcome :: "operation \<Rightarrow> jval list \<Rightarrow> string res" where
  "final_outcome p snapshot =
     (if op_claimed p then
        (case op_worker p of
           None \<Rightarrow> Inl (PyError ''TypeError'')
         | Some w \<Rightarrow>
             (case find (\<lambda>q. pod_uid q = id_uid w) snapshot of
                None \<Rightarrow> Inl (PyError ''StopIteration'')
              | Some q \<Rightarrow> Inr (if pod_phase q = ''Succeeded'' then ''cleanup-succeeded'' else ''cleanup-failed'')))
      else if op_outcome p = ''admitted'' then Inr ''worker-unclaimed''
      else if op_outcome p = ''pause-intent'' then Inr ''coordinator-failed''
      else Inr (op_outcome p))"

text \<open>The three retirement checks before a restoration: may it go on?\<close>

definition owners_retired :: "operation \<Rightarrow> jval list \<Rightarrow> bool res" where
  "owners_retired p snapshot =
     rbind (terminal snapshot (op_coordinator p)) (\<lambda>a.
     if \<not> a then Inr False
     else rbind (if op_claimed p then terminal_opt snapshot (op_worker p) else Inr True) (\<lambda>b.
     if \<not> b then Inr False
     else (case op_holder p of None \<Rightarrow> Inr True | Some h \<Rightarrow> terminal snapshot h)))"

definition finish_restore :: "store \<Rightarrow> string \<Rightarrow> ident \<Rightarrow> unit kprog" where
  "finish_restore st uid me =
     pbind (store_read st (Some uid)) (\<lambda>(cm, s, _).
     pbind (prequire (ms_phase s = RESTORING) ''restoration ownership lost'') (\<lambda>_.
     pbind (the_op s) (\<lambda>p.
     pbind (prequire (op_holder p = Some me) ''restoration ownership lost'') (\<lambda>_.
     pbind (store_save st uid cm (set_op s DONE (p\<lparr>op_write := WNone, op_restored := True\<rparr>))) (\<lambda>_.
     Ret ())))))"

definition restore :: "store \<Rightarrow> string \<Rightarrow> ident \<Rightarrow> jval list \<Rightarrow> dict \<Rightarrow> mstate \<Rightarrow> unit kprog" where
  "restore st uid me snapshot cm s =
     pbind (the_op s) (\<lambda>p.
     pbind (liftr (owners_retired p snapshot)) (\<lambda>go.
     if \<not> go then Ret ()
     else if op_write p \<noteq> WNone then alert st uid cm s ''unresolved-remote-write''
     else
       pbind (liftr (final_outcome p snapshot)) (\<lambda>outcome.
       pbind (store_save st uid cm (set_op s RESTORING
         (p\<lparr>op_outcome := outcome, op_holder := Some me, op_write := WRestore\<rparr>))) (\<lambda>_.
       pbind (pcatch (gitlab_put (op_baseline p) ''restore readback failed'')
                (\<lambda>_. unknown_write st uid ''unknown-restore-write'')) (\<lambda>_.
       finish_restore st uid me)))))"

text \<open>Does \<^verbatim>\<open>recover\<close> wait for the current owners? The result is whether it returns.\<close>

definition recover_waits :: "mstate \<Rightarrow> operation \<Rightarrow> jval list \<Rightarrow> bool kprog" where
  "recover_waits s p snapshot =
     (if ms_phase s \<in> {PAUSE_INTENT, DRAINING} then
        pbind now (\<lambda>t.
        if t < of_int (op_drain_by p) then
          pbind (liftr (terminal snapshot (op_coordinator p))) (\<lambda>b. Ret (\<not> b))
        else Ret False)
      else if ms_phase s \<in> {ADMITTED, CLAIMED} then
        pbind now (\<lambda>t.
        if t < of_int (op_cleanup_by p) then
          (if op_claimed p then pbind (liftr (terminal_opt snapshot (op_worker p))) (\<lambda>b. Ret (\<not> b))
           else Ret True)
        else Ret False)
      else Ret False)"

definition recover_operation :: "store \<Rightarrow> string \<Rightarrow> ident \<Rightarrow> dict \<Rightarrow> mstate \<Rightarrow> unit kprog" where
  "recover_operation st uid me cm s =
     (if ms_phase s \<in> {IDLE, DONE} then Ret ()
      else
        pbind (snapshot_all (st_base st)) (\<lambda>snapshot.
        pbind now (\<lambda>t.
        pbind (the_op s) (\<lambda>p.
        if of_int (op_recover_by p) \<le> t then alert st uid cm s ''recovery-horizon-exceeded''
        else
          pbind (recover_waits s p snapshot) (\<lambda>wait.
          if wait then Ret ()
          else if ms_phase s = RESTORING then restore st uid me snapshot cm s
          else
            pbind (store_save st uid cm (s\<lparr>ms_phase := CLOSING\<rparr>)) (\<lambda>_.
            pbind (store_read st (Some uid)) (\<lambda>(cm, s, _).
            restore st uid me snapshot cm s)))))))"

definition recover_gc :: "store \<Rightarrow> string \<Rightarrow> ident \<Rightarrow> dict \<Rightarrow> mstate \<Rightarrow> unit kprog" where
  "recover_gc st uid me cm s = (case ms_gc s of
     None \<Rightarrow> recover_operation st uid me cm s
   | Some g \<Rightarrow>
       pbind (snapshot_all (st_base st)) (\<lambda>snapshot.
       pbind (liftr (retire_gc s snapshot)) (\<lambda>(s', retired).
       if \<not> retired then
         pbind now (\<lambda>t.
         if of_int (gc_claimed_at g + 2700) \<le> t
         then alert st uid cm s ''GC-retirement-horizon-exceeded'' else Ret ())
       else
         pbind (store_save st uid cm s') (\<lambda>_.
         pbind (store_read st (Some uid)) (\<lambda>(cm, s, _). recover_operation st uid me cm s)))))"

definition credential_check :: "unit kprog" where
  "credential_check =
     pbind now (\<lambda>t.
     pbind (prequire (t + 60 < of_int TOKEN_EXPIRY) ''token expired/expiring'') (\<lambda>_.
     pbind runner (\<lambda>_. Ret ())))"

definition recover :: "store \<Rightarrow> ident \<Rightarrow> unit kprog" where
  "recover st me =
     pbind (store_read st None) (\<lambda>(cm, s, uid).
     if ms_phase s = ALERT then Fail (Refuse ''latched ALERT; operator reconciliation required'')
     else
       pbind (pcatch credential_check (\<lambda>e.
         if ms_operation s \<noteq> None \<and> ms_phase s \<noteq> DONE
         then alert st uid cm s ''recovery-api-or-credential-unavailable''
         else Fail e)) (\<lambda>_.
       pbind now (\<lambda>t.
       pbind (store_save st uid cm (s\<lparr>ms_heartbeat := int_trunc t\<rparr>)) (\<lambda>_.
       pbind (store_read st (Some uid)) (\<lambda>(cm, s, _).
       recover_gc st uid me cm s)))))"

subsection \<open>The worker's fence\<close>

definition fence_check :: "store \<Rightarrow> string \<Rightarrow> ident \<Rightarrow> string \<Rightarrow> unit kprog" where
  "fence_check st uid me oid =
     pbind (store_read st (Some uid)) (\<lambda>(_, s, _).
     pbind (prequire (ms_phase s = CLAIMED) ''worker fence revoked'') (\<lambda>_.
     pbind (the_op s) (\<lambda>p.
     pbind (prequire (op_id p = oid \<and> op_worker p = Some me \<and> op_claimed p \<and> op_write p = WNone)
              ''worker fence revoked'') (\<lambda>_.
     pbind now (\<lambda>t. prequire (t < of_int (op_cleanup_by p)) ''worker fence revoked'')))))"

text \<open>
  One pass of the loop in \<^verbatim>\<open>WorkerFence.claim\<close>: the result is the identity of the
  claimed operation, or none when the worker has to wait.
\<close>

definition claim_pass :: "store \<Rightarrow> string option \<Rightarrow> ident \<Rightarrow> (string \<times> string option) kprog" where
  "claim_pass st latch me =
     pbind (store_read st latch) (\<lambda>(cm, s, uid).
     pbind
       (case ms_operation s of
          None \<Rightarrow> Ret None
        | Some p \<Rightarrow>
            if op_worker p = Some me then
              pbind now (\<lambda>t.
              pbind (prequire (t < of_int (op_cleanup_by p)) ''worker deadline expired'') (\<lambda>_.
              if ms_phase s = ADMITTED then
                pbind (prequire (ms_gc s = None) ''GC holder not retired'') (\<lambda>_.
                pbind (store_save st uid cm (set_op s CLAIMED (p\<lparr>op_claimed := True\<rparr>))) (\<lambda>_.
                pbind (fence_check st uid me (op_id p)) (\<lambda>_.
                Ret (Some (op_id p)))))
              else
                pbind (prequire (ms_phase s \<in> {PAUSE_INTENT, DRAINING}) ''worker claim sealed'') (\<lambda>_.
                Ret None)))
            else Ret None)
       (\<lambda>claimed.
        case claimed of
          Some i \<Rightarrow> Ret (uid, Some i)
        | None \<Rightarrow>
            pbind (prequire (ms_phase s \<notin> {ALERT, CLOSING, RESTORING}) ''admission closed'') (\<lambda>_.
            pbind (sleep 2) (\<lambda>_. Ret (uid, None)))))"

fun claim_loop :: "nat \<Rightarrow> store \<Rightarrow> string option \<Rightarrow> ident \<Rightarrow> rat \<Rightarrow> (string \<times> string) kprog" where
  "claim_loop 0 st latch me until = OutOfFuel"
| "claim_loop (Suc n) st latch me until =
     pbind now (\<lambda>t.
     if t < until then
       pbind (claim_pass st latch me) (\<lambda>(uid, claimed).
       case claimed of Some i \<Rightarrow> Ret (uid, i) | None \<Rightarrow> claim_loop n st (Some uid) me until)
     else Fail (Refuse ''worker admission deadline''))"

definition claim :: "nat \<Rightarrow> store \<Rightarrow> ident \<Rightarrow> (string \<times> string) kprog" where
  "claim fuel st me =
     pbind (prequire (id_ns me = WORKER_NAMESPACE) ''wrong worker namespace'') (\<lambda>_.
     pbind now (\<lambda>t. claim_loop fuel st None me (t + 1200)))"

subsection \<open>gc-claim\<close>

fun find_identity :: "ident \<Rightarrow> jval list \<Rightarrow> jval option res" where
  "find_identity me [] = Inr None"
| "find_identity me (p # ps) =
     rbind (pod_identity p) (\<lambda>i. if i = me then Inr (Some p) else find_identity me ps)"

definition gc_job_check :: "jval \<Rightarrow> ident \<Rightarrow> jval \<Rightarrow> unit res" where
  "gc_job_check own me job =
     rbind (jget_or ''metadata'' (JDict []) job) (\<lambda>meta.
     rbind (jget_or ''spec'' (JDict []) job) (\<lambda>jspec.
     rbind (jget_or ''template'' (JDict []) jspec) (\<lambda>template.
     rbind (rmap (\<lambda>k. jget k meta) [''namespace'', ''name'', ''uid'', ''deletionTimestamp'']) (\<lambda>fs.
     rbind (require (fs ! 0 = JStr WORKER_NAMESPACE \<and> fs ! 1 = JStr (id_job me) \<and> fs ! 2 = JStr (id_job_uid me)
              \<and> \<not> truthy (fs ! 3) \<and> dget ''serviceAccountName'' (pspec own) = JStr ''hestia-ci-store-gc'')
              ''GC Job generation or policy changed'') (\<lambda>_.
     rbind (jget_or ''spec'' (JDict []) template) (\<lambda>tspec.
     rbind (jget ''serviceAccountName'' tspec) (\<lambda>tsa.
     rbind (require (tsa = JStr ''hestia-ci-store-gc'') ''GC Job generation or policy changed'') (\<lambda>_.
     rbind (policy_bundle template) (\<lambda>b1.
     rbind (policy_bundle own) (\<lambda>b2.
     require (b1 = b2) ''GC Job generation or policy changed''))))))))))"

definition gc_claim :: "store \<Rightarrow> ident \<Rightarrow> unit kprog \<Rightarrow> unit kprog" where
  "gc_claim st me gate =
     pbind (prequire (id_ns me = WORKER_NAMESPACE) ''wrong GC namespace'') (\<lambda>_.
     pbind (pods (st_base st) WORKER_NAMESPACE) (\<lambda>ps.
     pbind (liftr (find_identity me ps)) (\<lambda>found.
     (case found of
        None \<Rightarrow> Fail (Refuse ''GC identity absent'')
      | Some own \<Rightarrow>
          pbind (prequire (dget ''app'' (plabels own) = JStr ''hestia-ci-store-gc'') ''GC identity absent'') (\<lambda>_.
          pbind (request (st_base st) ''GET'' (job_path WORKER_NAMESPACE (id_job me)) None) (\<lambda>(job, _).
          pbind (liftr (gc_job_check own me job)) (\<lambda>_.
          pbind gate (\<lambda>_.
          pbind (store_read st None) (\<lambda>(cm, s, uid).
          pbind (prequire (ms_phase s \<in> {IDLE, DONE} \<and> ms_gc s = None) ''GC admission closed'') (\<lambda>_.
          pbind now (\<lambda>t.
          pbind (store_save st uid cm (s\<lparr>ms_gc := Some \<lparr>gc_ident = me, gc_claimed_at = int_trunc t\<rparr>\<rparr>)) (\<lambda>_.
          gate))))))))))))"

subsection \<open>Start-up\<close>

text \<open>\<^verbatim>\<open>os.environ[...]\<close> is read, and may be missing, for every Pod of the list.\<close>

definition self_matches :: "(string \<Rightarrow> string option) \<Rightarrow> jval list \<Rightarrow> jval list res" where
  "self_matches env ps = (case env ''POD_UID'' of
     None \<Rightarrow> if ps = [] then Inr [] else Inl (PyError ''KeyError'')
   | Some uid \<Rightarrow>
       (let us = filter (\<lambda>p. pod_uid p = uid) ps in
        case env ''POD_NAME'' of
          None \<Rightarrow> if us = [] then Inr [] else Inl (PyError ''KeyError'')
        | Some name \<Rightarrow> Inr (filter (\<lambda>p. pod_name p = name) us)))"

definition self_identity :: "store \<Rightarrow> (string \<Rightarrow> string option) \<Rightarrow> ident kprog" where
  "self_identity st env = (case env ''POD_NAMESPACE'' of
     None \<Rightarrow> Fail (PyError ''KeyError'')
   | Some ns \<Rightarrow>
       pbind (prequire (ns \<in> {WORKER_NAMESPACE, CONTROL_NAMESPACE}) ''wrong self namespace'') (\<lambda>_.
       pbind (pods (st_base st) ns) (\<lambda>ps.
       pbind (liftr (self_matches env ps)) (\<lambda>matches.
       (case matches of
          [p] \<Rightarrow>
            if truthy (dget ''deletionTimestamp'' (pmeta p)) then Fail (Refuse ''self Pod identity missing'')
            else liftr (pod_identity p)
        | _ \<Rightarrow> Fail (Refuse ''self Pod identity missing''))))))"

text \<open>
  The address of the API server, which \<^verbatim>\<open>kube_store\<close> and the Pod gate build from two environment variables.
\<close>

definition kube_base :: "string \<Rightarrow> string \<Rightarrow> string" where
  "kube_base host port = ''https://'' @ host @ '':'' @ port"

text \<open>
  \<^verbatim>\<open>main\<close>, with the store (\<^verbatim>\<open>kube_store\<close>) and the Pod gate of the
  retention policy as arguments; both are built from files and environment variables.
\<close>

definition admission_main :: "nat \<Rightarrow> store \<Rightarrow> (string \<Rightarrow> string option) \<Rightarrow> unit kprog \<Rightarrow> string list \<Rightarrow> unit kprog" where
  "admission_main fuel st env gate argv =
     pbind (prequire (argv \<in> {[''coordinate''], [''recover''], [''gc-claim'']})
              ''expected coordinate, recover or gc-claim'') (\<lambda>_.
     if argv = [''gc-claim''] then
       pbind (prequire (env ''POD_NAMESPACE'' = Some WORKER_NAMESPACE) ''GC namespace refused'') (\<lambda>_.
       pbind (self_identity st env) (\<lambda>me. gc_claim st me gate))
     else
       pbind (prequire (env ''POD_NAMESPACE'' = Some CONTROL_NAMESPACE) ''control namespace refused'') (\<lambda>_.
       pbind (self_identity st env) (\<lambda>me.
       if argv = [''recover''] then recover st me else coordinate fuel st me)))"

end
