(* ===== verification/Evolution.thy ===== *)
theory Evolution
  imports Main
begin

section \<open>States that evolve while evidence accumulates\<close>

text \<open>
  A protocol whose steps are justified by evidence: a set of facts that only grows, such as
  the Pods whose termination someone has observed. \<open>evolves step\<close> is reachability over pairs of
  evidence and state. The locale \<open>evolving\<close> is the interface of its invariants: a predicate
  that evidence and steps keep, and a preorder on states that every step respects (the latches of
  the protocol). Its lemma gives both for every reachable state.
\<close>

inductive evolves :: "('e set \<Rightarrow> 's \<Rightarrow> 's \<Rightarrow> bool) \<Rightarrow> 'e set \<Rightarrow> 's \<Rightarrow> 'e set \<Rightarrow> 's \<Rightarrow> bool"
  for step where
  Start: "evolves step ev s ev s"
| Grow: "evolves step ev s ev' s' \<Longrightarrow> ev' \<subseteq> ev'' \<Longrightarrow> evolves step ev s ev'' s'"
| Move: "evolves step ev s ev' s' \<Longrightarrow> step ev' s' s'' \<Longrightarrow> evolves step ev s ev' s''"

lemma evolves_evidence: "evolves step ev s ev' s' \<Longrightarrow> ev \<subseteq> ev'"
  by (induction rule: evolves.induct) auto

lemma evolves_trans:
  "evolves step ev' s' ev'' s'' \<Longrightarrow> evolves step ev s ev' s' \<Longrightarrow> evolves step ev s ev'' s''"
  by (induction rule: evolves.induct) (auto intro: evolves.intros)

locale evolving =
  fixes step :: "'e set \<Rightarrow> 's \<Rightarrow> 's \<Rightarrow> bool"
    and inv :: "'e set \<Rightarrow> 's \<Rightarrow> bool"
    and latch :: "'s \<Rightarrow> 's \<Rightarrow> bool"
  assumes inv_grow: "inv ev s \<Longrightarrow> ev \<subseteq> ev' \<Longrightarrow> inv ev' s"
    and inv_step: "inv ev s \<Longrightarrow> step ev s s' \<Longrightarrow> inv ev s'"
    and latch_refl: "latch s s"
    and latch_trans: "latch s s' \<Longrightarrow> latch s' s'' \<Longrightarrow> latch s s''"
    and latch_step: "inv ev s \<Longrightarrow> step ev s s' \<Longrightarrow> latch s s'"
begin

lemma reachable_inv: "evolves step ev s ev' s' \<Longrightarrow> inv ev s \<Longrightarrow> inv ev' s'"
  by (induction rule: evolves.induct) (auto intro: inv_grow inv_step)

lemma reachable_latch: "evolves step ev s ev' s' \<Longrightarrow> inv ev s \<Longrightarrow> latch s s'"
proof (induction rule: evolves.induct)
  case (Move ev s ev' s' s'')
  then show ?case using latch_trans latch_step reachable_inv by blast
qed (auto intro: latch_refl)

end

end
