(* ===== verification/Admission_Spec.thy ===== *)
theory Admission_Spec
  imports Admission_Protocol Evolution
begin

section \<open>What the protocol promises\<close>

text \<open>
  The abstract specification of the maintenance protocol: an \<open>inductive\<close> step relation
  \<open>pstep\<close> on typed states, one rule for every durable write the scripts make, and the
  invariant and the latches that follow from it. A rule may use evidence \<open>ev\<close>: the identities
  that some Pod snapshot has shown to be retired. That the programs make no other writes is
  proved in \<^verbatim>\<open>Admission_Contract\<close>, and that the state object of the API server evolves
  by these steps under every interleaving in \<^verbatim>\<open>Admission_System\<close>.
\<close>

inductive pstep :: "(string \<Rightarrow> string) \<Rightarrow> string \<Rightarrow> ident set \<Rightarrow> mstate \<Rightarrow> mstate \<Rightarrow> bool"
  for sha policy ev where
  Begin: "ms_phase s \<in> {IDLE, DONE} \<Longrightarrow>
     (\<forall>old. ms_operation s = Some old \<longrightarrow> op_slot old < slot \<and> (\<exists>h \<in> ev. op_holder old = Some h)) \<Longrightarrow>
     pstep sha policy ev s (set_op s PAUSE_INTENT (new_operation sha slot me policy))"
| Paused: "ms_phase s = PAUSE_INTENT \<Longrightarrow> ms_operation s = Some p \<Longrightarrow>
     pstep sha policy ev s (set_op s DRAINING (p\<lparr>op_write := WNone\<rparr>))"
| Admit: "ms_phase s = DRAINING \<Longrightarrow> ms_operation s = Some p \<Longrightarrow>
     (\<forall>g. ms_gc s = Some g \<longrightarrow> gc_ident g \<in> ev) \<Longrightarrow>
     pstep sha policy ev s
       (set_op (s\<lparr>ms_gc := None\<rparr>) ADMITTED (p\<lparr>op_worker := Some w, op_outcome := ''admitted''\<rparr>))"
| Timeout: "ms_phase s = DRAINING \<Longrightarrow> ms_operation s = Some p \<Longrightarrow>
     pstep sha policy ev s (set_op s CLOSING (p\<lparr>op_outcome := ''drain-timeout''\<rparr>))"
| Unknown: "ms_operation s = Some p \<Longrightarrow>
     pstep sha policy ev s (alerted (s\<lparr>ms_operation := Some (p\<lparr>op_write := WUnknown\<rparr>)\<rparr>) reason)"
| Alert: "ms_gc s \<noteq> None \<or> ms_operation s \<noteq> None \<and> ms_phase s \<noteq> DONE \<Longrightarrow>
     pstep sha policy ev s (alerted s reason)"
| Heartbeat: "ms_phase s \<noteq> ALERT \<Longrightarrow> pstep sha policy ev s (s\<lparr>ms_heartbeat := t\<rparr>)"
| RetireGC: "ms_gc s = Some g \<Longrightarrow> gc_ident g \<in> ev \<Longrightarrow> pstep sha policy ev s (s\<lparr>ms_gc := None\<rparr>)"
| Seal: "ms_phase s \<notin> {IDLE, DONE, RESTORING} \<Longrightarrow> ms_operation s \<noteq> None \<Longrightarrow>
     pstep sha policy ev s (s\<lparr>ms_phase := CLOSING\<rparr>)"
| Restore: "ms_operation s = Some p \<Longrightarrow> op_write p = WNone \<Longrightarrow> op_coordinator p \<in> ev \<Longrightarrow>
     (op_claimed p \<longrightarrow> (\<exists>w \<in> ev. op_worker p = Some w)) \<Longrightarrow>
     (\<forall>h. op_holder p = Some h \<longrightarrow> h \<in> ev) \<Longrightarrow>
     pstep sha policy ev s (set_op s RESTORING
       (p\<lparr>op_outcome := outcome, op_holder := Some me, op_write := WRestore\<rparr>))"
| Finish: "ms_phase s = RESTORING \<Longrightarrow> ms_operation s = Some p \<Longrightarrow>
     pstep sha policy ev s (set_op s DONE (p\<lparr>op_write := WNone, op_restored := True\<rparr>))"
| Claim: "ms_phase s = ADMITTED \<Longrightarrow> ms_operation s = Some p \<Longrightarrow> ms_gc s = None \<Longrightarrow>
     pstep sha policy ev s (set_op s CLAIMED (p\<lparr>op_claimed := True\<rparr>))"
| ClaimGC: "ms_phase s \<in> {IDLE, DONE} \<Longrightarrow> ms_gc s = None \<Longrightarrow>
     pstep sha policy ev s (s\<lparr>ms_gc := Some \<lparr>gc_ident = me, gc_claimed_at = t\<rparr>\<rparr>)"

lemma pstep_mono: "pstep sha policy ev s s' \<Longrightarrow> ev \<subseteq> ev' \<Longrightarrow> pstep sha policy ev' s s'"
  by (induction rule: pstep.induct) (auto intro!: pstep.intros)

subsection \<open>The invariant\<close>

definition sealed :: "phase \<Rightarrow> bool" where
  "sealed ph = (ph \<in> {CLOSING, RESTORING, DONE, ALERT})"

text \<open>
  \<^item> Nothing is claimed before \<open>CLAIMED\<close>; an admitted or claimed worker excludes a GC holder.
  \<^item> A GC holder beside a claimed operation means the worker has been seen retired.
  \<^item> The recorded write attempt matches the phase; an unknown write is latched.
  \<^item> A restoration has evidence for every owner of the operation.
\<close>

definition op_inv :: "ident set \<Rightarrow> mstate \<Rightarrow> operation \<Rightarrow> bool" where
  "op_inv ev s p \<longleftrightarrow>
     (ms_phase s \<in> {PAUSE_INTENT, DRAINING, ADMITTED} \<longrightarrow> \<not> op_claimed p)
   \<and> (op_claimed p \<and> ms_gc s \<noteq> None \<longrightarrow> (\<exists>w \<in> ev. op_worker p = Some w))
   \<and> (op_write p = WUnknown \<longrightarrow> ms_phase s \<in> {CLOSING, ALERT})
   \<and> (ms_phase s = PAUSE_INTENT \<longrightarrow> op_write p = WPause)
   \<and> (ms_phase s \<in> {DRAINING, ADMITTED, CLAIMED, DONE} \<longrightarrow> op_write p = WNone)
   \<and> (ms_phase s = RESTORING \<longrightarrow> op_write p = WRestore)
   \<and> (ms_phase s \<in> {RESTORING, DONE} \<longrightarrow> op_coordinator p \<in> ev \<and> op_holder p \<noteq> None
        \<and> (op_claimed p \<longrightarrow> (\<exists>w \<in> ev. op_worker p = Some w)))
   \<and> ms_phase s \<noteq> IDLE"

definition state_inv :: "ident set \<Rightarrow> mstate \<Rightarrow> bool" where
  "state_inv ev s \<longleftrightarrow>
     (ms_phase s \<in> {ADMITTED, CLAIMED} \<longrightarrow> ms_gc s = None)
   \<and> (case ms_operation s of None \<Rightarrow> ms_phase s \<in> {IDLE, ALERT} | Some p \<Rightarrow> op_inv ev s p)"

lemma op_inv_grow: "op_inv ev s p \<Longrightarrow> ev \<subseteq> ev' \<Longrightarrow> op_inv ev' s p"
  unfolding op_inv_def by blast

lemma state_inv_grow: "state_inv ev s \<Longrightarrow> ev \<subseteq> ev' \<Longrightarrow> state_inv ev' s"
  by (auto simp: state_inv_def split: option.splits intro: op_inv_grow)

lemmas step_defs = set_op_def new_operation_def alerted_def

lemma op_inv_heartbeat: "op_inv ev (s\<lparr>ms_heartbeat := t\<rparr>) p = op_inv ev s p"
  by (simp add: op_inv_def)

lemma op_inv_alert: "op_inv ev s p \<Longrightarrow> op_inv ev (s\<lparr>ms_phase := ALERT, ms_operation := q\<rparr>) (p\<lparr>op_outcome := reason\<rparr>)"
  by (simp add: op_inv_def)

lemma op_inv_retire: "op_inv ev s p \<Longrightarrow> op_inv ev (s\<lparr>ms_gc := None\<rparr>) p"
  by (simp add: op_inv_def)

lemma op_inv_seal: "op_inv ev s p \<Longrightarrow> op_inv ev (s\<lparr>ms_phase := CLOSING\<rparr>) p"
  by (simp add: op_inv_def)

lemma op_inv_claim_gc: "op_inv ev s p \<Longrightarrow> ms_phase s = DONE \<Longrightarrow> op_inv ev (s\<lparr>ms_gc := Some g\<rparr>) p"
  by (simp add: op_inv_def)

lemmas op_inv_keep = op_inv_alert op_inv_retire op_inv_seal

lemma state_inv_step: "pstep sha policy ev s s' \<Longrightarrow> state_inv ev s \<Longrightarrow> state_inv ev s'"
proof (induction rule: pstep.induct)
  case (ClaimGC s me t)
  then have "ms_operation s = Some p \<Longrightarrow> ms_phase s = DONE" for p
    by (simp add: state_inv_def op_inv_def)
  with ClaimGC show ?case
    by (cases "ms_operation s") (auto simp: state_inv_def intro: op_inv_claim_gc)
next
  case (Alert s reason)
  then show ?case by (cases "ms_operation s") (simp_all add: state_inv_def alerted_def op_inv_keep)
next
  case (Heartbeat s t)
  then show ?case by (cases "ms_operation s") (simp_all add: state_inv_def op_inv_heartbeat)
next
  case (RetireGC s g)
  then show ?case by (cases "ms_operation s") (simp_all add: state_inv_def op_inv_keep)
next
  case (Seal s)
  then show ?case by (cases "ms_operation s") (simp_all add: state_inv_def op_inv_keep)
qed (simp_all add: state_inv_def op_inv_def step_defs)

subsection \<open>The latches\<close>

text \<open>
  The order in which operations may change: a new operation has a later slot; within one
  operation its owners stay, a claim stays, a sealed phase stays sealed; an unknown remote write
  is never forgotten, and no later operation replaces it.
\<close>

definition op_latch :: "operation \<Rightarrow> operation \<Rightarrow> bool" where
  "op_latch p p' \<longleftrightarrow> op_coordinator p' = op_coordinator p \<and> op_id p' = op_id p
     \<and> (op_claimed p \<longrightarrow> op_claimed p' \<and> op_worker p' = op_worker p)
     \<and> (op_restored p \<longrightarrow> op_restored p')"

definition state_latch :: "mstate \<Rightarrow> mstate \<Rightarrow> bool" where
  "state_latch s s' \<longleftrightarrow> (\<forall>p. ms_operation s = Some p \<longrightarrow>
     (\<exists>p'. ms_operation s' = Some p'
        \<and> (op_slot p < op_slot p' \<and> op_write p \<noteq> WUnknown
           \<or> op_slot p = op_slot p' \<and> op_latch p p' \<and> (sealed (ms_phase s) \<longrightarrow> sealed (ms_phase s'))
             \<and> (op_write p = WUnknown \<longrightarrow> op_write p' = WUnknown))))"

lemma state_latch_refl: "state_latch s s"
  by (auto simp: state_latch_def op_latch_def)

lemma op_latch_trans: "op_latch p q \<Longrightarrow> op_latch q r \<Longrightarrow> op_latch p r"
  by (auto simp: op_latch_def)

lemma state_latch_trans:
  assumes "state_latch s s'" and "state_latch s' s''"
  shows "state_latch s s''"
  unfolding state_latch_def
proof (intro allI impI)
  fix p assume "ms_operation s = Some p"
  with assms(1) obtain q where q: "ms_operation s' = Some q"
      "op_slot p < op_slot q \<and> op_write p \<noteq> WUnknown \<or> op_slot p = op_slot q \<and> op_latch p q
         \<and> (sealed (ms_phase s) \<longrightarrow> sealed (ms_phase s')) \<and> (op_write p = WUnknown \<longrightarrow> op_write q = WUnknown)"
    unfolding state_latch_def by blast
  from assms(2) q(1) obtain r where r: "ms_operation s'' = Some r"
      "op_slot q < op_slot r \<and> op_write q \<noteq> WUnknown \<or> op_slot q = op_slot r \<and> op_latch q r
         \<and> (sealed (ms_phase s') \<longrightarrow> sealed (ms_phase s'')) \<and> (op_write q = WUnknown \<longrightarrow> op_write r = WUnknown)"
    unfolding state_latch_def by blast
  from q(2) r(2) have "op_slot p < op_slot r \<and> op_write p \<noteq> WUnknown \<or> op_slot p = op_slot r \<and> op_latch p r
         \<and> (sealed (ms_phase s) \<longrightarrow> sealed (ms_phase s'')) \<and> (op_write p = WUnknown \<longrightarrow> op_write r = WUnknown)"
    using op_latch_trans [of p q r] by auto
  with r(1) show "\<exists>p'. ms_operation s'' = Some p'
        \<and> (op_slot p < op_slot p' \<and> op_write p \<noteq> WUnknown
           \<or> op_slot p = op_slot p' \<and> op_latch p p' \<and> (sealed (ms_phase s) \<longrightarrow> sealed (ms_phase s''))
             \<and> (op_write p = WUnknown \<longrightarrow> op_write p' = WUnknown))" by blast
qed

lemma state_latch_step: "pstep sha policy ev s s' \<Longrightarrow> state_inv ev s \<Longrightarrow> state_latch s s'"
  by (induction rule: pstep.induct)
     (auto simp: state_inv_def op_inv_def state_latch_def op_latch_def step_defs sealed_def)

interpretation admission: evolving "pstep sha policy" state_inv state_latch for sha policy
  by unfold_locales
     (auto intro: state_inv_grow state_inv_step state_latch_refl state_latch_trans state_latch_step)

end
