(* ===== verification/Admission_Contract.thy ===== *)
theory Admission_Contract
  imports Admission_Spec
begin

section \<open>The programs keep the protocol\<close>

text \<open>
  Every write of \<^const>\<open>coordinate\<close>, \<^const>\<open>recover\<close>, \<^const>\<open>claim\<close> and
  \<^const>\<open>gc_claim\<close> is a step of \<^const>\<open>pstep\<close> from a state the program has read, and every
  request to pause or resume the runner follows a durable, read-back intent of the same process.
  The ghost state is the set of the responses a program has got from the Kubernetes API, by path;
  \<open>write_allowed\<close> says which actions that set allows. The calculus is the locale
  \<open>growing\<close>, interpreted as \<open>contract\<close>.
\<close>

definition kupd :: "string \<Rightarrow> (string \<times> jval) set \<Rightarrow> kact \<Rightarrow> kresp \<Rightarrow> (string \<times> jval) set" where
  "kupd base g q r = (case q of
     Http b verb path body \<Rightarrow>
       (if b = base \<and> verb = ''GET'' then (case http_result r of Inr (v, _) \<Rightarrow> insert (path, v) g | Inl _ \<Rightarrow> g) else g)
   | _ \<Rightarrow> g)"

definition state_seen :: "store \<Rightarrow> (string \<times> jval) set \<Rightarrow> string \<Rightarrow> dict \<Rightarrow> mstate \<Rightarrow> bool" where
  "state_seen st g uid cm s \<longleftrightarrow> (\<exists>v latch. (STATE, v) \<in> g \<and> read_cm st latch v = Inr (cm, s, uid))"

definition pods_seen :: "(string \<times> jval) set \<Rightarrow> string \<Rightarrow> jval list \<Rightarrow> bool" where
  "pods_seen g ns ps \<longleftrightarrow> (\<exists>v. (pods_path ns, v) \<in> g \<and> pods_payload ns v = Inr ps)"

definition snapshot_seen :: "(string \<times> jval) set \<Rightarrow> jval list \<Rightarrow> bool" where
  "snapshot_seen g snapshot \<longleftrightarrow> (\<exists>a b c. pods_seen g ''ci'' a \<and> pods_seen g CONTROL_NAMESPACE b
     \<and> pods_seen g WORKER_NAMESPACE c \<and> merge_snapshots a b c = Inr snapshot)"

text \<open>The identities that a snapshot has shown to be retired.\<close>

definition evidence :: "(string \<times> jval) set \<Rightarrow> ident set" where
  "evidence g = {i. \<exists>snapshot. snapshot_seen g snapshot \<and> terminal snapshot i = Inr True}"

definition state_write :: "store \<Rightarrow> (string \<times> jval) set \<Rightarrow> jval option \<Rightarrow> bool" where
  "state_write st g body \<longleftrightarrow> (\<exists>uid cm s s'. state_seen st g uid cm s
     \<and> wf_state (st_sha st) uid (st_policy st) s' \<and> pstep (st_sha st) (st_policy st) (evidence g) s s'
     \<and> body = Some (JDict (desired cm s')))"

definition pause_write :: "store \<Rightarrow> ident \<Rightarrow> (string \<times> jval) set \<Rightarrow> bool" where
  "pause_write st me g \<longleftrightarrow> (\<exists>uid cm s p. state_seen st g uid cm s \<and> ms_operation s = Some p
     \<and> ms_phase s = PAUSE_INTENT \<and> op_coordinator p = me \<and> op_write p = WPause)"

definition restore_write :: "store \<Rightarrow> ident \<Rightarrow> (string \<times> jval) set \<Rightarrow> bool" where
  "restore_write st me g \<longleftrightarrow> (\<exists>uid cm s p. state_seen st g uid cm s \<and> ms_operation s = Some p
     \<and> ms_phase s = RESTORING \<and> op_holder p = Some me \<and> op_write p = WRestore \<and> op_coordinator p \<in> evidence g
     \<and> (op_claimed p \<longrightarrow> (\<exists>w \<in> evidence g. op_worker p = Some w)))"

definition write_allowed :: "store \<Rightarrow> ident \<Rightarrow> (string \<times> jval) set \<Rightarrow> kact \<Rightarrow> bool" where
  "write_allowed st me g q = (case q of
     Http b verb path body \<Rightarrow>
       verb = ''GET''
       \<or> verb = ''PUT'' \<and> b = st_base st \<and> path = STATE \<and> state_write st g body
       \<or> verb = ''PUT'' \<and> b = GITLAB \<and> path = RUNNER_PATH
         \<and> (body = paused_body True \<and> pause_write st me g \<or> body = paused_body False \<and> restore_write st me g)
   | _ \<Rightarrow> True)"

interpretation contract: growing "write_allowed st me" "kupd (st_base st)" for st me
  by unfold_locales (auto simp: kupd_def split: kact.splits sum.splits)

named_theorems mono_facts "facts about what has been seen, kept as more is seen"

lemma state_seen_mono [mono_facts]: "state_seen st g uid cm s \<Longrightarrow> g \<subseteq> g' \<Longrightarrow> state_seen st g' uid cm s"
  unfolding state_seen_def by blast

lemma pods_seen_mono: "pods_seen g ns ps \<Longrightarrow> g \<subseteq> g' \<Longrightarrow> pods_seen g' ns ps"
  unfolding pods_seen_def by blast

lemma snapshot_seen_mono [mono_facts]: "snapshot_seen g ps \<Longrightarrow> g \<subseteq> g' \<Longrightarrow> snapshot_seen g' ps"
  unfolding snapshot_seen_def using pods_seen_mono by blast

lemma evidence_mono: "g \<subseteq> g' \<Longrightarrow> evidence g \<subseteq> evidence g'"
  unfolding evidence_def using snapshot_seen_mono by blast

lemma evidenceI: "snapshot_seen g snapshot \<Longrightarrow> terminal snapshot i = Inr True \<Longrightarrow> i \<in> evidence g"
  unfolding evidence_def by blast

subsection \<open>Requests\<close>

lemma spec_GET:
  "contract.spec st me g (request b ''GET'' path None) (\<lambda>(v, _) g'. b = st_base st \<longrightarrow> (path, v) \<in> g')"
  unfolding request_def
  by (intro contract.spec_bind_require contract.spec_Act contract.spec_liftr)
     (auto simp: write_allowed_def kupd_def)

lemma spec_PUT:
  assumes "write_allowed st me g (Http b ''PUT'' path body)"
  shows "contract.spec st me g (request b ''PUT'' path body) (\<lambda>_ _. True)"
  unfolding request_def
  by (intro contract.spec_bind_require contract.spec_Act contract.spec_liftr) (simp_all add: assms)

lemma spec_now: "contract.spec st me g now (\<lambda>_ _. True)"
  unfolding now_def by (rule contract.spec_Act) (auto simp: write_allowed_def split: kresp.splits)

lemma spec_sleep: "contract.spec st me g (sleep n) (\<lambda>_ _. True)"
  unfolding sleep_def by (rule contract.spec_Act) (auto simp: write_allowed_def split: kresp.splits)

lemma spec_runner: "contract.spec st me g runner (\<lambda>_ _. True)"
  unfolding runner_def
  by (rule contract.spec_bind [OF spec_GET]) (auto simp: split_beta intro: contract.spec_liftr)

lemma spec_drained_status:
  "contract.spec st me g (drained_status n status page seen_pages seen_jobs) (\<lambda>_ _. True)"
proof (induction n arbitrary: g page seen_pages seen_jobs)
  case (Suc n)
  have "contract.spec st me g'
     (case v of JList vals \<Rightarrow> pbind (liftr (jobs_evidence status seen_jobs vals)) (\<lambda>seen_jobs'.
          pbind (liftr (next_page (page # seen_pages) headers)) (\<lambda>page'.
          if vals \<noteq> [] then Ret False else if page' = [] then Ret True
          else drained_status n status page' (page # seen_pages) seen_jobs'))
      | _ \<Rightarrow> Fail (Refuse ''invalid jobs page'')) (\<lambda>_ _. True)" for v headers g'
    by (auto split: jval.split intro!: contract.spec_bind_liftr Suc.IH)
  then show ?case unfolding drained_status.simps
    by (intro contract.spec_bind_require contract.spec_bind [OF spec_GET]) (auto simp: split_beta)
qed simp

lemma spec_drained_all: "contract.spec st me g (drained_all statuses) (\<lambda>_ _. True)"
proof (induction statuses arbitrary: g)
  case (Cons status rest)
  then show ?case unfolding drained_all.simps
    by (intro contract.spec_bind [OF spec_drained_status]) auto
qed simp

lemma spec_drained: "contract.spec st me g drained (\<lambda>_ _. True)"
  unfolding drained_def by (rule spec_drained_all)

subsection \<open>Sequencing\<close>

text \<open>One rule per call that a program may make next.\<close>

lemma bind_GET:
  assumes "\<And>v h g'. g \<subseteq> g' \<Longrightarrow> (b = st_base st \<Longrightarrow> (path, v) \<in> g') \<Longrightarrow> contract.spec st me g' (f v h) R"
  shows "contract.spec st me g (pbind (request b ''GET'' path None) (\<lambda>(v, h). f v h)) R"
  by (rule contract.spec_bind [OF spec_GET]) (use assms in \<open>auto split: prod.splits\<close>)

lemma bind_plain:
  "(\<And>x g'. g \<subseteq> g' \<Longrightarrow> contract.spec st me g' (f x) R) \<Longrightarrow> contract.spec st me g (pbind now f) R"
  "(\<And>x g'. g \<subseteq> g' \<Longrightarrow> contract.spec st me g' (f2 x) R) \<Longrightarrow> contract.spec st me g (pbind (sleep n) f2) R"
  "(\<And>x g'. g \<subseteq> g' \<Longrightarrow> contract.spec st me g' (f3 x) R) \<Longrightarrow> contract.spec st me g (pbind runner f3) R"
  "(\<And>x g'. g \<subseteq> g' \<Longrightarrow> contract.spec st me g' (f3 x) R) \<Longrightarrow> contract.spec st me g (pbind drained f3) R"
  by (auto intro: contract.spec_bind [OF spec_now] contract.spec_bind [OF spec_sleep]
        contract.spec_bind [OF spec_runner] contract.spec_bind [OF spec_drained])

lemmas bind_pure = contract.spec_bind_liftr contract.spec_bind_require

lemma spec_pods: "contract.spec st me g (pods (st_base st) ns) (\<lambda>ps g'. pods_seen g' ns ps)"
  unfolding pods_def
  by (intro bind_pure bind_GET contract.spec_liftr) (auto simp: pods_seen_def)

lemma bind_pods:
  "(\<And>ps g'. g \<subseteq> g' \<Longrightarrow> pods_seen g' ns ps \<Longrightarrow> contract.spec st me g' (f ps) R) \<Longrightarrow>
     contract.spec st me g (pbind (pods (st_base st) ns) f) R"
  by (rule contract.spec_bind [OF spec_pods])

lemma spec_snapshot: "contract.spec st me g (snapshot_all (st_base st)) (\<lambda>ps g'. snapshot_seen g' ps)"
  unfolding snapshot_all_def
  by (intro bind_pods contract.spec_liftr)
     (unfold snapshot_seen_def, meson pods_seen_mono)

lemma bind_snapshot:
  "(\<And>ps g'. g \<subseteq> g' \<Longrightarrow> snapshot_seen g' ps \<Longrightarrow> contract.spec st me g' (f ps) R) \<Longrightarrow>
     contract.spec st me g (pbind (snapshot_all (st_base st)) f) R"
  by (rule contract.spec_bind [OF spec_snapshot])

lemma spec_scheduled: "contract.spec st me g (scheduled (st_base st) p cron) (\<lambda>slot _. slot mod 3600 = 47 * 60)"
  unfolding scheduled_def
  by (intro bind_pure bind_GET contract.spec_liftr) (rule scheduled_job_mod)

lemma bind_scheduled:
  "(\<And>slot g'. g \<subseteq> g' \<Longrightarrow> slot mod 3600 = 47 * 60 \<Longrightarrow> contract.spec st me g' (f slot) R) \<Longrightarrow>
     contract.spec st me g (pbind (scheduled (st_base st) p cron) f) R"
  by (rule contract.spec_bind [OF spec_scheduled])

lemma bind_the_op:
  "(\<And>p. ms_operation s = Some p \<Longrightarrow> contract.spec st me g (f p) R) \<Longrightarrow>
     contract.spec st me g (pbind (the_op s) f) R"
  by (auto simp: the_op_def split: option.splits)

subsection \<open>The store\<close>

lemma load_state_Inr:
  "load_state st uid txt = Inr s \<longleftrightarrow>
     (\<exists>t j. txt = JStr t \<and> json_loads t = Some j \<and> decode j = Some s \<and> wf_state (st_sha st) uid (st_policy st) s)"
proof (cases "txt")
  case (JStr t)
  show ?thesis
  proof (cases "json_loads t")
    case (Some j)
    show ?thesis
      by (cases "decode j") (auto simp: load_state_def JStr Some rbind_eq_Inr validate_iff)
  qed (simp add: load_state_def JStr)
qed (simp_all add: load_state_def)

definition meta_ok :: "dict \<Rightarrow> string \<Rightarrow> bool" where
  "meta_ok meta uid \<longleftrightarrow> dget ''name'' meta = JStr ''hestia-ci-maintenance-state''
     \<and> dget ''namespace'' meta = JStr CONTROL_NAMESPACE \<and> dget ''uid'' meta = JStr uid \<and> wf_text uid
     \<and> text_ok (dget ''resourceVersion'' meta) \<and> \<not> truthy (dget ''deletionTimestamp'' meta)"

lemma read_cm_iff:
  "read_cm st latch v = Inr (cm, s, uid) \<longleftrightarrow> v = JDict cm \<and> dget ''kind'' cm = JStr ''ConfigMap''
     \<and> (\<exists>meta. dget_or ''metadata'' (JDict []) cm = JDict meta \<and> meta_ok meta uid)
     \<and> (latch = None \<or> latch = Some uid)
     \<and> (\<exists>data txt. jitem ''data'' v = Inr data \<and> jitem ''state.json'' data = Inr txt \<and> load_state st uid txt = Inr s)"
proof (cases v)
  case (JDict d)
  show ?thesis
  proof (cases "dget_or ''metadata'' (JDict []) d")
    case (JDict meta)
    have u: "text_ok (dget ''uid'' meta) \<Longrightarrow> JStr (str_of (dget ''uid'' meta)) = dget ''uid'' meta"
      by (auto simp: text_ok_iff dec_str_iff str_of_def)
    have "read_cm st latch v = Inr (cm, s, uid) \<longleftrightarrow> d = cm \<and> dget ''kind'' cm = JStr ''ConfigMap''
        \<and> meta_ok meta uid \<and> (latch = None \<or> latch = Some uid)
        \<and> (\<exists>data txt. jitem ''data'' v = Inr data \<and> jitem ''state.json'' data = Inr txt \<and> load_state st uid txt = Inr s)"
      unfolding read_cm_def \<open>v = JDict d\<close> JDict jval.case require_then Let_def
      by (cases latch; cases "dget ''uid'' meta")
         (auto simp: rbind_eq_Inr meta_ok_def str_of_def text_ok_iff [of JNull] text_ok_def wf_text_def)
    then show ?thesis using JDict \<open>v = JDict d\<close> by auto
  qed (auto simp: read_cm_def \<open>v = JDict d\<close> require_then)
qed (simp_all add: read_cm_def)

lemma read_cm_Inr:
  assumes "read_cm st latch v = Inr (cm, s, uid)"
  shows "v = JDict cm \<and> wf_state (st_sha st) uid (st_policy st) s \<and> (\<forall>u. latch = Some u \<longrightarrow> uid = u)"
  using assms unfolding read_cm_iff load_state_Inr by auto

lemma state_seen_wf: "state_seen st g uid cm s \<Longrightarrow> wf_state (st_sha st) uid (st_policy st) s"
  unfolding state_seen_def by (auto dest: read_cm_Inr)

lemma bind_read:
  assumes "\<And>cm s uid g'. g \<subseteq> g' \<Longrightarrow> state_seen st g' uid cm s \<Longrightarrow> (\<And>u. latch = Some u \<Longrightarrow> uid = u)
     \<Longrightarrow> contract.spec st me g' (f cm s uid) R"
  shows "contract.spec st me g (pbind (store_read st latch) (\<lambda>(cm, s, uid). f cm s uid)) R"
proof -
  have "contract.spec st me g (store_read st latch)
      (\<lambda>(cm, s, uid) g'. state_seen st g' uid cm s \<and> (\<forall>u. latch = Some u \<longrightarrow> uid = u))"
    unfolding store_read_def
    by (intro bind_GET contract.spec_liftr) (auto simp: state_seen_def dest: read_cm_Inr)
  then show ?thesis by (rule contract.spec_bind) (use assms in \<open>auto split: prod.splits\<close>)
qed

lemma spec_save:
  assumes "state_seen st g uid cm s" and "pstep (st_sha st) (st_policy st) (evidence g) s s'"
  shows "contract.spec st me g (store_save st uid cm s') (\<lambda>x g'. x = s' \<and> (\<exists>cm'. state_seen st g' uid cm' s'))"
proof -
  have "write_allowed st me g (Http (st_base st) ''PUT'' STATE (Some (JDict (desired cm s'))))"
    if "wf_state (st_sha st) uid (st_policy st) s'"
    unfolding write_allowed_def state_write_def using that assms by auto
  then show ?thesis unfolding store_save_def
    by (intro bind_pure contract.spec_bind [OF spec_PUT] bind_read) (auto simp: validate_encode)
qed

lemma bind_save:
  assumes "state_seen st g uid cm s" and "pstep (st_sha st) (st_policy st) (evidence g) s s'"
    and "\<And>g' cm'. g \<subseteq> g' \<Longrightarrow> state_seen st g' uid cm' s' \<Longrightarrow> contract.spec st me g' (f s') R"
  shows "contract.spec st me g (pbind (store_save st uid cm s') f) R"
  by (rule contract.spec_bind [OF spec_save [OF assms(1,2)]]) (use assms(3) in auto)

lemma spec_alert:
  assumes "state_seen st g uid cm s" and "pstep (st_sha st) (st_policy st) (evidence g) s (alerted s' reason)"
  shows "contract.spec st me g (alert st uid cm s' reason) R"
  unfolding alert_def by (rule bind_save [OF assms]) simp

lemma spec_unknown_write: "contract.spec st me g (unknown_write st uid reason) R"
  unfolding unknown_write_def
  by (intro bind_read bind_the_op spec_alert) (auto intro: pstep.Unknown)

lemma spec_gitlab_put:
  assumes "if b then pause_write st me g else restore_write st me g"
  shows "contract.spec st me g (gitlab_put b reason) (\<lambda>_ _. True)"
  unfolding gitlab_put_def
proof (rule contract.spec_bind [OF spec_PUT])
  show "write_allowed st me g (Http GITLAB ''PUT'' RUNNER_PATH (paused_body b))"
    using assms by (auto simp: write_allowed_def split: if_splits)
qed (auto intro!: bind_plain contract.spec_liftr simp: prequire_def)

subsection \<open>coordinate\<close>

lemma spec_admissible: "contract.spec st me g (admissible retired snapshot) (\<lambda>go _. go \<longrightarrow> retired)"
  unfolding admissible_def by (auto intro!: bind_plain contract.spec_liftr)

lemma spec_worker_candidate: "contract.spec st me g (worker_candidate st own slot p) (\<lambda>_ _. True)"
  unfolding worker_candidate_def by (auto intro!: bind_pure bind_scheduled)

lemma spec_workers: "contract.spec st me g (pfilter (worker_candidate st own slot) ps) (\<lambda>ws _. set ws \<subseteq> set ps)"
  by (rule contract.spec_conseq [OF contract.spec_filter [where P = "\<lambda>_. True"]])
     (auto intro: contract.spec_conseq [OF spec_worker_candidate])

text \<open>A retired GC slot, as \<^const>\<open>retire_gc\<close> leaves it, comes with its evidence.\<close>

lemma retire_gc_evidence:
  assumes "retire_gc s snapshot = Inr (s', True)" and "snapshot_seen g snapshot"
  shows "s' = s\<lparr>ms_gc := None\<rparr> \<and> (\<forall>x. ms_gc s = Some x \<longrightarrow> gc_ident x \<in> evidence g)"
  using assms
  by (auto simp: retire_gc_def rbind_eq_Inr split: option.splits if_splits intro: evidenceI)

lemma spec_admit_worker:
  assumes seen: "state_seen st g uid cm s" and snap: "snapshot_seen g snapshot" and "ms_phase s = DRAINING"
    and "ms_operation s = Some p" and "retire_gc s snapshot = Inr (s', True)"
  shows "contract.spec st me g (admit_worker st uid own slot snapshot cm s' p) (\<lambda>_ _. True)"
proof -
  have save: "contract.spec st me g' (pbind (store_save st uid cm
      (set_op s' ADMITTED (p\<lparr>op_worker := Some i, op_outcome := ''admitted''\<rparr>))) (\<lambda>_. Ret True)) (\<lambda>_ _. True)"
    if "g \<subseteq> g'" for i g'
  proof (rule bind_save [OF state_seen_mono [OF seen that]])
    show "pstep (st_sha st) (st_policy st) (evidence g') s
        (set_op s' ADMITTED (p\<lparr>op_worker := Some i, op_outcome := ''admitted''\<rparr>))"
      using retire_gc_evidence [OF assms(5) snapshot_seen_mono [OF snap that]] assms(3,4)
      by (auto intro: pstep.Admit)
  qed simp
  show ?thesis unfolding admit_worker_def
    by (intro contract.spec_bind [OF spec_workers] bind_pure) (auto split: list.split intro!: bind_pure save)
qed

lemma spec_drain_pass: "contract.spec st me g (drain_pass st uid own me' slot) (\<lambda>_ _. True)"
proof -
  have "contract.spec st me g2 (case r of (s', retired) \<Rightarrow> pbind (admissible retired snapshot) (\<lambda>go.
      if go then admit_worker st uid own slot snapshot cm s' p else Ret False)) (\<lambda>_ _. True)"
    if "state_seen st g1 uid cm s" "ms_phase s = DRAINING" "ms_operation s = Some p" "g1 \<subseteq> g2"
      "snapshot_seen g2 snapshot" "retire_gc s snapshot = Inr r" for g1 g2 cm s p snapshot r
  proof (cases r)
    case (Pair s' retired)
    show ?thesis unfolding Pair prod.case
    proof (rule contract.spec_bind [OF spec_admissible])
      fix go g3 assume "g2 \<subseteq> g3" and "go \<longrightarrow> retired"
      with that Pair show "contract.spec st me g3
          (if go then admit_worker st uid own slot snapshot cm s' p else Ret False) (\<lambda>_ _. True)"
        using state_seen_mono [of st g1 uid cm s g3] snapshot_seen_mono [of g2 snapshot g3]
        by (auto intro!: spec_admit_worker)
    qed
  qed
  then show ?thesis unfolding drain_pass_def
    by (intro bind_read bind_the_op bind_pure bind_snapshot) blast
qed

lemma spec_drain_timeout: "contract.spec st me g (drain_timeout st uid) (\<lambda>_ _. True)"
  unfolding drain_timeout_def
  by (intro bind_read bind_pure bind_the_op, rule bind_save) (auto intro: pstep.Timeout)

lemma spec_drain_loop: "contract.spec st me g (drain_loop n st uid own me' slot) (\<lambda>_ _. True)"
proof (induction n arbitrary: g)
  case (Suc n)
  have "contract.spec st me g' (pbind (drain_pass st uid own me' slot) (\<lambda>admitted.
       if admitted then Ret () else pbind (sleep 5) (\<lambda>_. drain_loop n st uid own me' slot))) (\<lambda>_ _. True)" for g'
    by (rule contract.spec_bind [OF spec_drain_pass]) (auto intro: bind_plain Suc.IH)
  then show ?case unfolding drain_loop.simps by (intro bind_plain) (auto intro: spec_drain_timeout)
qed simp

lemma spec_confirm_pause: "contract.spec st me g (confirm_pause st uid me') (\<lambda>_ _. True)"
  unfolding confirm_pause_def
  by (intro bind_read bind_pure bind_the_op, rule bind_save) (auto intro: pstep.Paused)

lemma previous_retired_evidence:
  assumes "previous_retired s slot snapshot = Inr u" and "snapshot_seen g snapshot" and "ms_operation s = Some old"
  shows "op_slot old < slot \<and> (\<exists>h \<in> evidence g. op_holder old = Some h)"
  using assms
  by (auto simp: previous_retired_def rbind_eq_Inr require_eq_Inr split: option.splits if_splits intro: evidenceI)

lemma spec_gitlab_attempt:
  "(if b then pause_write st me g else restore_write st me g) \<Longrightarrow>
     contract.spec st me g (pcatch (gitlab_put b r1) (\<lambda>_. unknown_write st uid r2)) (\<lambda>_ _. True)"
  by (rule contract.spec_catch [OF spec_gitlab_put]) (auto intro: spec_unknown_write)

lemma pause_writeI:
  "state_seen st g uid cm s \<Longrightarrow> ms_operation s = Some p \<Longrightarrow> ms_phase s = PAUSE_INTENT \<Longrightarrow>
     op_coordinator p = me \<Longrightarrow> op_write p = WPause \<Longrightarrow> pause_write st me g"
  unfolding pause_write_def by blast

lemma spec_pause_and_drain:
  assumes "state_seen st g uid cm s" and "ms_phase s \<in> {IDLE, DONE}" and "snapshot_seen g snapshot"
    and "previous_retired s slot snapshot = Inr u"
  shows "contract.spec st me g (pause_and_drain n st uid own me slot cm s) (\<lambda>_ _. True)"
  unfolding pause_and_drain_def
proof (rule bind_save [OF assms(1)], goal_cases)
  case 1
  show ?case using assms(2) previous_retired_evidence [OF assms(4,3)] by (intro pstep.Begin) auto
next
  case (2 g' cm')
  have "if True then pause_write st me g' else restore_write st me g'"
    using pause_writeI [OF 2(2), of "new_operation (st_sha st) slot me (st_policy st)"]
    by (simp add: step_defs)
  from spec_gitlab_attempt [OF this] show ?case
    by (rule contract.spec_bind)
       (intro contract.spec_bind [OF spec_confirm_pause] spec_drain_loop)
qed

lemma spec_coordinate: "contract.spec st me g (coordinate n st me) (\<lambda>_ _. True)"
  unfolding coordinate_def
proof (intro bind_snapshot, goal_cases)
  case (1 snapshot g')
  show ?case
  proof (cases "find (\<lambda>p. pod_uid p = id_uid me) snapshot")
    case (Some own)
    show ?thesis unfolding Some option.case
    proof (intro bind_pure bind_plain bind_scheduled bind_read, goal_cases)
      case (1 i slot g1 t1 g2 cm s uid g3 t2 g4 t3 g5 u baseline g6)
      then show ?case
        using snapshot_seen_mono [OF \<open>snapshot_seen g' snapshot\<close>, of g6] state_seen_mono [of st g3 uid cm s g6]
        by (auto intro!: spec_pause_and_drain)
    qed
  qed simp
qed

subsection \<open>recover\<close>

lemma spec_finish_restore: "contract.spec st me g (finish_restore st uid me') (\<lambda>_ _. True)"
  unfolding finish_restore_def
  by (intro bind_read bind_pure bind_the_op, rule bind_save) (auto intro: pstep.Finish)

lemma owners_retired_evidence:
  assumes "owners_retired p snapshot = Inr True" and "snapshot_seen g snapshot"
  shows "op_coordinator p \<in> evidence g" and "op_claimed p \<longrightarrow> (\<exists>w \<in> evidence g. op_worker p = Some w)"
    and "\<forall>h. op_holder p = Some h \<longrightarrow> h \<in> evidence g"
  using assms
  by (auto simp: owners_retired_def terminal_opt_def rbind_eq_Inr split: if_splits option.splits intro: evidenceI)

lemma restore_writeI:
  "state_seen st g uid cm s \<Longrightarrow> ms_operation s = Some p \<Longrightarrow> ms_phase s = RESTORING \<Longrightarrow> op_holder p = Some me \<Longrightarrow>
     op_write p = WRestore \<Longrightarrow> op_coordinator p \<in> evidence g \<Longrightarrow>
     (op_claimed p \<longrightarrow> (\<exists>w \<in> evidence g. op_worker p = Some w)) \<Longrightarrow> restore_write st me g"
  unfolding restore_write_def by blast

lemma wf_baseline: "wf_state sha uid policy s \<Longrightarrow> ms_operation s = Some p \<Longrightarrow> \<not> op_baseline p"
  by (simp add: wf_state_def wf_operation_def)

lemma spec_restore:
  assumes seen: "state_seen st g uid cm s" and snap: "snapshot_seen g snapshot"
  shows "contract.spec st me g (restore st uid me snapshot cm s) (\<lambda>_ _. True)"
proof -
  have alert: "contract.spec st me g (alert st uid cm s ''unresolved-remote-write'') (\<lambda>_ _. True)"
    if "ms_operation s = Some p" "op_write p \<noteq> WNone" for p
  proof (rule spec_alert [OF seen])
    have "ms_phase s \<noteq> DONE"
      using state_seen_wf [OF seen] that by (auto simp: wf_state_def wf_operation_def)
    then show "pstep (st_sha st) (st_policy st) (evidence g) s (alerted s ''unresolved-remote-write'')"
      using that by (intro pstep.Alert) simp
  qed
  have go: "contract.spec st me g (pbind (store_save st uid cm (set_op s RESTORING
         (p\<lparr>op_outcome := outcome, op_holder := Some me, op_write := WRestore\<rparr>))) (\<lambda>_.
       pbind (pcatch (gitlab_put (op_baseline p) ''restore readback failed'')
                (\<lambda>_. unknown_write st uid ''unknown-restore-write'')) (\<lambda>_.
       finish_restore st uid me))) (\<lambda>_ _. True)"
    if p: "ms_operation s = Some p" and w: "op_write p = WNone" and r: "owners_retired p snapshot = Inr True"
    for p outcome
  proof (rule bind_save [OF seen], goal_cases)
    case 1
    show ?case by (rule pstep.Restore [OF p w owners_retired_evidence [OF r snap]])
  next
    case (2 g' cm')
    note ev = owners_retired_evidence [OF r snapshot_seen_mono [OF snap 2(1)]]
    have "if op_baseline p then pause_write st me g' else restore_write st me g'"
      using restore_writeI [OF 2(2), of "p\<lparr>op_outcome := outcome, op_holder := Some me, op_write := WRestore\<rparr>"]
        ev wf_baseline [OF state_seen_wf [OF seen] p] by (simp add: set_op_def)
    from spec_gitlab_attempt [OF this] show ?case
      by (rule contract.spec_bind) (rule spec_finish_restore)
  qed
  show ?thesis unfolding restore_def
    by (intro bind_the_op bind_pure) (auto intro!: alert bind_pure go)
qed

lemma spec_recover_waits: "contract.spec st me g (recover_waits s p snapshot) (\<lambda>_ _. True)"
  unfolding recover_waits_def by (auto intro!: bind_plain bind_pure)

lemma spec_recover_operation:
  assumes seen: "state_seen st g uid cm s"
  shows "contract.spec st me g (recover_operation st uid me cm s) (\<lambda>_ _. True)"
proof (cases "ms_phase s \<in> {IDLE, DONE}")
  case ph: False
  have alert: "contract.spec st me g' (alert st uid cm s ''recovery-horizon-exceeded'') (\<lambda>_ _. True)"
    if "g \<subseteq> g'" "ms_operation s = Some p" for g' p
    using that ph by (intro spec_alert [OF state_seen_mono [OF seen]] pstep.Alert) auto
  have seal: "contract.spec st me g' (pbind (store_save st uid cm (s\<lparr>ms_phase := CLOSING\<rparr>)) (\<lambda>_.
            pbind (store_read st (Some uid)) (\<lambda>(cm, s, _). restore st uid me snapshot cm s))) (\<lambda>_ _. True)"
    if "g \<subseteq> g'" "ms_operation s = Some p" "ms_phase s \<noteq> RESTORING" "snapshot_seen g' snapshot" for g' p snapshot
  proof (rule bind_save [OF state_seen_mono [OF seen that(1)]])
    show "pstep (st_sha st) (st_policy st) (evidence g') s (s\<lparr>ms_phase := CLOSING\<rparr>)"
      using that ph by (intro pstep.Seal) auto
  next
    fix g'' cm' assume "g' \<subseteq> g''"
    with that(4) show "contract.spec st me g''
        (pbind (store_read st (Some uid)) (\<lambda>(cm, s, _). restore st uid me snapshot cm s)) (\<lambda>_ _. True)"
      by (intro bind_read) (auto intro!: spec_restore intro: snapshot_seen_mono)
  qed
  have "contract.spec st me g3 (pbind (recover_waits s p snapshot) (\<lambda>wait.
          if wait then Ret ()
          else if ms_phase s = RESTORING then restore st uid me snapshot cm s
          else pbind (store_save st uid cm (s\<lparr>ms_phase := CLOSING\<rparr>)) (\<lambda>_.
            pbind (store_read st (Some uid)) (\<lambda>(cm, s, _). restore st uid me snapshot cm s)))) (\<lambda>_ _. True)"
    if "g \<subseteq> g3" "ms_operation s = Some p" "snapshot_seen g3 snapshot" for g3 p snapshot
  proof (rule contract.spec_bind [OF spec_recover_waits])
    fix x g4 assume g: "g3 \<subseteq> g4"
    then have "snapshot_seen g4 snapshot" "g \<subseteq> g4" using that snapshot_seen_mono by auto
    with that(2) seal [of g4 p snapshot] state_seen_mono [OF seen, of g4]
    show "contract.spec st me g4 (if x then Ret ()
          else if ms_phase s = RESTORING then restore st uid me snapshot cm s
          else pbind (store_save st uid cm (s\<lparr>ms_phase := CLOSING\<rparr>)) (\<lambda>_.
            pbind (store_read st (Some uid)) (\<lambda>(cm, s, _). restore st uid me snapshot cm s))) (\<lambda>_ _. True)"
      by (auto intro: spec_restore)
  qed
  note tail = this
  show ?thesis unfolding recover_operation_def if_not_P [OF ph]
  proof (intro bind_snapshot bind_plain bind_the_op, goal_cases)
    case (1 snapshot g1 t g2 p)
    then have "g \<subseteq> g2" "snapshot_seen g2 snapshot" using snapshot_seen_mono by auto
    with 1(4) show ?case by (intro contract.spec_if alert tail)
  qed
qed (simp add: recover_operation_def)

lemma spec_recover_gc:
  assumes seen: "state_seen st g uid cm s"
  shows "contract.spec st me g (recover_gc st uid me cm s) (\<lambda>_ _. True)"
proof (cases "ms_gc s")
  case (Some gc)
  have alert: "contract.spec st me g' (alert st uid cm s ''GC-retirement-horizon-exceeded'') (\<lambda>_ _. True)"
    if "g \<subseteq> g'" for g'
    using that Some by (intro spec_alert [OF state_seen_mono [OF seen]] pstep.Alert) auto
  have save: "contract.spec st me g' (pbind (store_save st uid cm s') (\<lambda>_.
         pbind (store_read st (Some uid)) (\<lambda>(cm, s, _). recover_operation st uid me cm s))) (\<lambda>_ _. True)"
    if "g \<subseteq> g'" "snapshot_seen g' snapshot" "retire_gc s snapshot = Inr (s', True)" for g' snapshot s'
  proof (rule bind_save [OF state_seen_mono [OF seen that(1)]])
    show "pstep (st_sha st) (st_policy st) (evidence g') s s'"
      using retire_gc_evidence [OF that(3,2)] Some by (auto intro: pstep.RetireGC)
  qed (auto intro!: bind_read spec_recover_operation)
  have "contract.spec st me g1 (case r of (s', retired) \<Rightarrow>
       if \<not> retired then pbind now (\<lambda>t. if of_int (gc_claimed_at gc + 2700) \<le> t
         then alert st uid cm s ''GC-retirement-horizon-exceeded'' else Ret ())
       else pbind (store_save st uid cm s') (\<lambda>_.
         pbind (store_read st (Some uid)) (\<lambda>(cm, s, _). recover_operation st uid me cm s))) (\<lambda>_ _. True)"
    if g: "g \<subseteq> g1" and "snapshot_seen g1 snapshot" "retire_gc s snapshot = Inr r" for g1 snapshot r
    using that
    by (cases r) (auto simp only: prod.case not_not intro!: contract.spec_if bind_plain alert [OF order_trans [OF g]]
         contract.spec_Ret [THEN iffD2] save)
  then show ?thesis unfolding recover_gc_def Some option.case by (intro bind_snapshot bind_pure)
qed (simp add: recover_gc_def spec_recover_operation [OF seen])

lemma spec_credential_check: "contract.spec st me g credential_check (\<lambda>_ _. True)"
  unfolding credential_check_def by (intro bind_plain bind_pure) simp

lemma spec_recover: "contract.spec st me g (recover st me) (\<lambda>_ _. True)"
  unfolding recover_def
proof (intro bind_read, goal_cases)
  case (1 cm s uid g')
  have alert: "contract.spec st me g'' (if ms_operation s \<noteq> None \<and> ms_phase s \<noteq> DONE
      then alert st uid cm s ''recovery-api-or-credential-unavailable'' else Fail e) (\<lambda>_ _. True)"
    if "g' \<subseteq> g''" for g'' e
    using that by (auto intro!: spec_alert [OF state_seen_mono [OF 1(2)]] pstep.Alert)
  have save: "contract.spec st me g'' (pbind (store_save st uid cm (s\<lparr>ms_heartbeat := int_trunc t\<rparr>)) (\<lambda>_.
      pbind (store_read st (Some uid)) (\<lambda>(cm, s, _). recover_gc st uid me cm s))) (\<lambda>_ _. True)"
    if "g' \<subseteq> g''" "ms_phase s \<noteq> ALERT" for g'' t
    using that
    by (intro bind_save [OF state_seen_mono [OF 1(2) that(1)]])
       (auto intro!: pstep.Heartbeat bind_read spec_recover_gc)
  show ?case
  proof (cases "ms_phase s = ALERT")
    case False
    have "contract.spec st me g' (pcatch credential_check (\<lambda>e. if ms_operation s \<noteq> None \<and> ms_phase s \<noteq> DONE
         then alert st uid cm s ''recovery-api-or-credential-unavailable'' else Fail e)) (\<lambda>_ _. True)"
      by (rule contract.spec_catch [OF spec_credential_check]) (use alert in blast)+
    then show ?thesis unfolding if_not_P [OF False]
      by (rule contract.spec_bind) (use False in \<open>auto intro!: bind_plain save\<close>)
  qed simp
qed

subsection \<open>The worker and the GC\<close>

lemma spec_fence_check: "contract.spec st me g (fence_check st uid me' oid) (\<lambda>_ _. True)"
  unfolding fence_check_def
  by (intro bind_read bind_pure bind_the_op bind_plain) (auto simp: prequire_def intro: contract.spec_liftr)

text \<open>What a passed check has just read.\<close>

definition claim_seen :: "store \<Rightarrow> (string \<times> jval) set \<Rightarrow> string \<Rightarrow> ident \<Rightarrow> string \<Rightarrow> bool" where
  "claim_seen st g uid me oid \<longleftrightarrow> (\<exists>cm s p. state_seen st g uid cm s \<and> ms_phase s = CLAIMED \<and> ms_operation s = Some p
     \<and> op_id p = oid \<and> op_worker p = Some me \<and> op_claimed p \<and> op_write p = WNone)"

lemma spec_fence_check_seen: "contract.spec st me' g (fence_check st uid me oid) (\<lambda>_ g'. claim_seen st g' uid me oid)"
  unfolding fence_check_def
proof (intro bind_read bind_pure bind_the_op bind_plain, goal_cases)
  case (1 cm s uid' g1 p t g2)
  then have "claim_seen st g2 uid me oid"
    using state_seen_mono [of st g1 uid cm s g2] unfolding claim_seen_def by auto
  then show ?case by (auto simp: prequire_def intro: contract.spec_liftr)
qed

lemma spec_claim_pass: "contract.spec st me g (claim_pass st latch me') (\<lambda>_ _. True)"
  unfolding claim_pass_def
proof (intro bind_read, goal_cases)
  case (1 cm s uid g')
  have save: "contract.spec st me g2 (pbind (store_save st uid cm (set_op s CLAIMED (p\<lparr>op_claimed := True\<rparr>))) (\<lambda>_.
      pbind (fence_check st uid me' (op_id p)) (\<lambda>_. Ret (Some (op_id p))))) (\<lambda>_ _. True)"
    if "g' \<subseteq> g2" "ms_operation s = Some p" "ms_phase s = ADMITTED" "ms_gc s = None" for g2 p
    by (rule bind_save [OF state_seen_mono [OF 1(2) that(1)]])
       (use that in \<open>auto intro: pstep.Claim contract.spec_bind [OF spec_fence_check]\<close>)
  show ?case
    by (rule contract.spec_bind [where R = "\<lambda>_ _. True"])
       (auto split: option.split intro!: bind_plain bind_pure save)
qed

lemma spec_claim_loop: "contract.spec st me g (claim_loop n st latch me' until) (\<lambda>_ _. True)"
proof (induction n arbitrary: g latch)
  case (Suc n)
  have "contract.spec st me g' (pbind (claim_pass st latch me') (\<lambda>(uid, claimed).
       case claimed of Some i \<Rightarrow> Ret (uid, i) | None \<Rightarrow> claim_loop n st (Some uid) me' until)) (\<lambda>_ _. True)" for g'
    by (rule contract.spec_bind [OF spec_claim_pass]) (auto split: option.split prod.split intro: Suc.IH)
  then show ?case unfolding claim_loop.simps by (intro bind_plain) auto
qed simp

lemma spec_claim: "contract.spec st me g (claim n st me') (\<lambda>_ _. True)"
  unfolding claim_def by (intro bind_pure bind_plain spec_claim_loop)

text \<open>A gate that only reads is what \<^const>\<open>gc_claim\<close> asks of its argument.\<close>

lemma spec_gc_claim:
  assumes gate: "\<And>g. contract.spec st me g gate (\<lambda>_ _. True)"
  shows "contract.spec st me g (gc_claim st me' gate) (\<lambda>_ _. True)"
proof -
  have save: "contract.spec st me g2 (pbind (store_save st uid cm
      (s\<lparr>ms_gc := Some \<lparr>gc_ident = me', gc_claimed_at = int_trunc t\<rparr>\<rparr>)) (\<lambda>_. gate)) (\<lambda>_ _. True)"
    if "g1 \<subseteq> g2" "state_seen st g1 uid cm s" "ms_phase s \<in> {IDLE, DONE}" "ms_gc s = None" for g1 g2 uid cm s t
    by (rule bind_save [OF state_seen_mono [OF that(2,1)]]) (use that in \<open>auto intro: pstep.ClaimGC gate\<close>)
  have "contract.spec st me g' (pbind gate (\<lambda>_.
          pbind (store_read st None) (\<lambda>(cm, s, uid).
          pbind (prequire (ms_phase s \<in> {IDLE, DONE} \<and> ms_gc s = None) ''GC admission closed'') (\<lambda>_.
          pbind now (\<lambda>t.
          pbind (store_save st uid cm (s\<lparr>ms_gc := Some \<lparr>gc_ident = me', gc_claimed_at = int_trunc t\<rparr>\<rparr>)) (\<lambda>_.
          gate))))) ) (\<lambda>_ _. True)" for g'
    by (intro contract.spec_bind [OF gate] bind_read bind_pure bind_plain save) auto
  then show ?thesis unfolding gc_claim_def
    by (intro bind_pods bind_pure) (auto split: option.split intro!: bind_pure bind_GET)
qed

lemma spec_self_identity: "contract.spec st me g (self_identity st env) (\<lambda>_ _. True)"
  unfolding self_identity_def
  by (auto split: option.split list.split intro!: bind_pure bind_pods contract.spec_liftr)

end
