(* ===== verification/Cas_Object.thy ===== *)
theory Cas_Object
  imports Main
begin

section \<open>Objects with optimistic concurrency\<close>

text \<open>
  The interface of an object that an API server keeps: every committed version carries a version
  stamp, a client builds its write from a version it has read, and the server installs the write
  only when the stamps agree. The laws are the ones the client relies on; the lemma
  \<open>commit\<close> is the compare-and-swap argument, made once: an installed write was built from the
  content that it replaces.
\<close>

locale cas_object =
  fixes stamp :: "'o \<Rightarrow> 'v"
    and content :: "'o \<Rightarrow> 's \<Rightarrow> bool"
    and put :: "'o \<Rightarrow> 's \<Rightarrow> 'o"
    and fits :: "'o \<Rightarrow> 's \<Rightarrow> bool"
    and installs :: "'o \<Rightarrow> 'o \<Rightarrow> bool"
  assumes content_unique: "content x s \<Longrightarrow> content x t \<Longrightarrow> s = t"
    and stamp_write: "stamp (put x s) = stamp x"
    and content_write: "fits x s \<Longrightarrow> installs (put x s) y \<Longrightarrow> content y s"
begin

lemma commit:
  assumes "inj_on stamp V" and "cur \<in> V" and "x \<in> V" and "stamp (put x s') = stamp cur"
    and "content x s" and "content cur t" and "fits x s'" and "installs (put x s') y"
  shows "x = cur \<and> t = s \<and> content y s'"
proof -
  have "x = cur" using assms(1-4) stamp_write by (metis inj_onD)
  with assms(5-8) show ?thesis using content_unique content_write by blast
qed

end

end
