(* ===== verification/Admission_System.thy ===== *)
theory Admission_System
  imports Admission_Contract Cas_Object
begin

section \<open>Many processes and one state object\<close>

text \<open>
  The protocol under concurrency. Any number of coordinators, recoveries, workers and GC Jobs run
  at the same time against one ConfigMap. The API server is modelled by what its documentation
  promises and no more:
  \<^item> a successful GET of the object returns some committed version of it, not necessarily the last;
  \<^item> a PUT is installed only when its UID and resourceVersion are those of the current version; it
    may be installed at any later time, or never, and the response says nothing about that;
  \<^item> every installed version gets a resourceVersion that no earlier version had.
  Every other response is arbitrary. \<open>sys_inv_reachable\<close> shows that the content of the object
  evolves by \<^const>\<open>pstep\<close> only.
\<close>

subsection \<open>The ConfigMap as a versioned object\<close>

definition rv_of :: "dict \<Rightarrow> jval" where
  "rv_of cm = dget ''resourceVersion'' (dsub ''metadata'' cm)"

definition uid_of :: "dict \<Rightarrow> jval" where
  "uid_of cm = dget ''uid'' (dsub ''metadata'' cm)"

definition holds :: "store \<Rightarrow> dict \<Rightarrow> mstate \<Rightarrow> bool" where
  "holds st cm s \<longleftrightarrow> (\<exists>uid data txt. uid_of cm = JStr uid \<and> jitem ''data'' (JDict cm) = Inr data
     \<and> jitem ''state.json'' data = Inr txt \<and> load_state st uid txt = Inr s)"

definition fits :: "store \<Rightarrow> dict \<Rightarrow> mstate \<Rightarrow> bool" where
  "fits st cm s \<longleftrightarrow> (\<exists>uid. uid_of cm = JStr uid \<and> wf_state (st_sha st) uid (st_policy st) s)"

text \<open>What the server may make of a PUT body: the same data under the same UID.\<close>

definition installs :: "dict \<Rightarrow> dict \<Rightarrow> bool" where
  "installs body cm \<longleftrightarrow> map_of cm ''data'' = map_of body ''data'' \<and> uid_of cm = uid_of body"

lemma map_of_desired: "map_of (desired cm s) k =
    (if k = ''data'' then Some (JDict [(''state.json'', JStr (json_dumps (encode s)))]) else map_of cm k)"
  by (simp add: desired_def update_conv')

lemma meta_desired: "dsub ''metadata'' (desired cm s) = dsub ''metadata'' cm"
  by (simp add: dsub_def dget_def map_of_desired)

lemma load_state_dumps: "load_state st uid (JStr (json_dumps (encode s))) = Inr s \<longleftrightarrow> wf_state (st_sha st) uid (st_policy st) s"
  by (simp add: load_state_Inr json_loads_state)

interpretation cm: cas_object rv_of "holds st" desired "fits st" installs for st
proof unfold_locales
  show "holds st x s \<Longrightarrow> holds st x t \<Longrightarrow> s = t" for x s t
    by (auto simp: holds_def)
  show "rv_of (desired x s) = rv_of x" for x s
    by (simp add: rv_of_def meta_desired)
  show "fits st x s \<Longrightarrow> installs (desired x s) y \<Longrightarrow> holds st y s" for x s y
    by (auto simp: fits_def installs_def holds_def uid_of_def meta_desired map_of_desired jitem_JDict load_state_dumps)
qed

lemma state_seen_holds:
  assumes "state_seen st g uid cm s"
  shows "(STATE, JDict cm) \<in> g \<and> holds st cm s \<and> uid_of cm = JStr uid"
proof -
  obtain v latch where v: "(STATE, v) \<in> g" "read_cm st latch v = Inr (cm, s, uid)"
    using assms unfolding state_seen_def by blast
  then obtain meta data "txt" where r: "v = JDict cm" "dget_or ''metadata'' (JDict []) cm = JDict meta" "meta_ok meta uid"
      "jitem ''data'' v = Inr data" "jitem ''state.json'' data = Inr txt" "load_state st uid txt = Inr s"
    unfolding read_cm_iff by blast
  from r(2,3) have "dsub ''metadata'' cm = meta"
    by (auto simp: dsub_def dget_def dget_or_def meta_ok_def split: option.splits)
  with r v show ?thesis by (auto simp: holds_def uid_of_def meta_ok_def)
qed

subsection \<open>The system\<close>

record sys =
  sy_cur :: dict
  sy_versions :: "dict set"
  sy_inflight :: "jval set"
  sy_seen :: "(string \<times> jval) set"
  sy_procs :: "(ident \<times> unit kprog \<times> (string \<times> jval) set) list"

text \<open>The programs of the protocol. A gate is any program that only reads.\<close>

definition reads_only :: "store \<Rightarrow> ident \<Rightarrow> unit kprog \<Rightarrow> bool" where
  "reads_only st me gate \<longleftrightarrow> (\<forall>g. contract.spec st me g gate (\<lambda>_ _. True))"

inductive protocol_program :: "store \<Rightarrow> ident \<Rightarrow> unit kprog \<Rightarrow> bool" for st me where
  Coordinate: "protocol_program st me (coordinate n st me)"
| Recover: "protocol_program st me (recover st me)"
| Claim: "protocol_program st me (pbind (claim n st me) (\<lambda>_. Ret ()))"
| Check: "protocol_program st me (fence_check st uid me oid)"
| GcClaim: "reads_only st me gate \<Longrightarrow> protocol_program st me (gc_claim st me gate)"

lemma protocol_program_spec: "protocol_program st me p \<Longrightarrow> contract.spec st me g p (\<lambda>_ _. True)"
  by (induction rule: protocol_program.induct)
     (auto intro: spec_coordinate spec_recover spec_fence_check spec_gc_claim
        contract.spec_bind [OF spec_claim] simp: reads_only_def)

definition state_put :: "store \<Rightarrow> kact \<Rightarrow> jval set" where
  "state_put st q = (case q of
     Http b verb path (Some body) \<Rightarrow> if b = st_base st \<and> verb = ''PUT'' \<and> path = STATE then {body} else {}
   | _ \<Rightarrow> {})"

definition answer_ok :: "store \<Rightarrow> dict set \<Rightarrow> kact \<Rightarrow> kresp \<Rightarrow> bool" where
  "answer_ok st V q r = (case q of
     Http b verb path body \<Rightarrow>
       b = st_base st \<and> verb = ''GET'' \<and> path = STATE \<longrightarrow>
       (case http_result r of Inr (v, _) \<Rightarrow> v \<in> JDict ` V | Inl _ \<Rightarrow> True)
   | _ \<Rightarrow> True)"

inductive sys_step :: "store \<Rightarrow> sys \<Rightarrow> sys \<Rightarrow> bool" for st where
  Spawn: "protocol_program st me p \<Longrightarrow> sys_step st y (y\<lparr>sy_procs := sy_procs y @ [(me, p, {})]\<rparr>)"
| Talk: "i < length (sy_procs y) \<Longrightarrow> sy_procs y ! i = (me, Act q k, g) \<Longrightarrow>
     answer_ok st (sy_versions y) q r \<Longrightarrow> g' = kupd (st_base st) g q r \<Longrightarrow>
     sys_step st y (y\<lparr>sy_procs := (sy_procs y)[i := (me, k r, g')],
       sy_seen := sy_seen y \<union> g', sy_inflight := sy_inflight y \<union> state_put st q\<rparr>)"
| Commit: "JDict body \<in> sy_inflight y \<Longrightarrow> rv_of body = rv_of (sy_cur y) \<Longrightarrow> uid_of body = uid_of (sy_cur y) \<Longrightarrow>
     installs body cm \<Longrightarrow> rv_of cm \<notin> rv_of ` sy_versions y \<Longrightarrow>
     sys_step st y (y\<lparr>sy_cur := cm, sy_versions := insert cm (sy_versions y)\<rparr>)"

text \<open>
  A start of the system: a state object, nothing running, and the responses on which earlier
  processes based that state. The operator's bootstrap is the case of an idle state and no responses.
\<close>

definition sys_start :: "dict \<Rightarrow> (string \<times> jval) set \<Rightarrow> sys" where
  "sys_start cm seen = \<lparr>sy_cur = cm, sy_versions = {cm}, sy_inflight = {}, sy_seen = seen, sy_procs = []\<rparr>"

inductive sys_reach :: "store \<Rightarrow> dict \<Rightarrow> (string \<times> jval) set \<Rightarrow> sys \<Rightarrow> bool" for st cm0 seen0 where
  Start: "sys_reach st cm0 seen0 (sys_start cm0 seen0)"
| Step: "sys_reach st cm0 seen0 y \<Longrightarrow> sys_step st y y' \<Longrightarrow> sys_reach st cm0 seen0 y'"

subsection \<open>The system refines the protocol\<close>

definition proc_inv :: "store \<Rightarrow> sys \<Rightarrow> ident \<times> unit kprog \<times> (string \<times> jval) set \<Rightarrow> bool" where
  "proc_inv st y = (\<lambda>(me, p, g).
     wp (write_allowed st me) (kupd (st_base st)) p (\<lambda>_ _. True) (\<lambda>_ _. True) g \<and> g \<subseteq> sy_seen y
     \<and> (\<forall>v. (STATE, v) \<in> g \<longrightarrow> v \<in> JDict ` sy_versions y))"

definition write_inv :: "store \<Rightarrow> sys \<Rightarrow> jval \<Rightarrow> bool" where
  "write_inv st y body \<longleftrightarrow> (\<exists>cm \<in> sy_versions y. \<exists>s s'. body = JDict (desired cm s') \<and> holds st cm s \<and> fits st cm s'
     \<and> pstep (st_sha st) (st_policy st) (evidence (sy_seen y)) s s')"

definition sys_inv :: "store \<Rightarrow> ident set \<Rightarrow> mstate \<Rightarrow> sys \<Rightarrow> bool" where
  "sys_inv st ev0 s0 y \<longleftrightarrow> sy_cur y \<in> sy_versions y \<and> inj_on rv_of (sy_versions y)
     \<and> list_all (proc_inv st y) (sy_procs y) \<and> (\<forall>body \<in> sy_inflight y. write_inv st y body)
     \<and> (\<exists>s. holds st (sy_cur y) s
          \<and> evolves (pstep (st_sha st) (st_policy st)) ev0 s0 (evidence (sy_seen y)) s)"

lemma write_allowed_put:
  assumes "write_allowed st me g q" and "body \<in> state_put st q" and "g \<subseteq> sy_seen y"
    and "\<forall>v. (STATE, v) \<in> g \<longrightarrow> v \<in> JDict ` sy_versions y"
  shows "write_inv st y body"
proof -
  from assms(2) obtain b where q: "q = Http (st_base st) ''PUT'' STATE (Some body)"
    by (auto simp: state_put_def split: kact.splits option.splits if_splits)
  have "STATE \<noteq> RUNNER_PATH" by (simp add: STATE_def RUNNER_PATH_def)
  with assms(1) have "state_write st g (Some body)" by (simp add: q write_allowed_def)
  then obtain uid cm s s' where w: "state_seen st g uid cm s" "wf_state (st_sha st) uid (st_policy st) s'"
      "pstep (st_sha st) (st_policy st) (evidence g) s s'" "body = JDict (desired cm s')"
    by (auto simp: state_write_def)
  note h = state_seen_holds [OF w(1)]
  have "cm \<in> sy_versions y" using h assms(4) by blast
  moreover have "fits st cm s'" using h w(2) by (auto simp: fits_def)
  ultimately show ?thesis
    using h w(4) pstep_mono [OF w(3) evidence_mono [OF assms(3)]] by (auto simp: write_inv_def)
qed

lemma sys_inv_talk:
  assumes inv: "sys_inv st ev0 s0 y" and i: "i < length (sy_procs y)" "sy_procs y ! i = (me, Act q k, g)"
    and r: "answer_ok st (sy_versions y) q r" and g': "g' = kupd (st_base st) g q r"
  shows "sys_inv st ev0 s0 (y\<lparr>sy_procs := (sy_procs y)[i := (me, k r, g')],
       sy_seen := sy_seen y \<union> g', sy_inflight := sy_inflight y \<union> state_put st q\<rparr>)" (is "sys_inv st ev0 s0 ?y")
proof -
  have p: "proc_inv st y (me, Act q k, g)"
    using inv i by (auto simp: sys_inv_def list_all_length)
  have new: "proc_inv st ?y (me, k r, g')"
    using p r by (auto simp: proc_inv_def g' kupd_def answer_ok_def split: kact.splits sum.splits if_splits)
  have old: "proc_inv st ?y x" if "proc_inv st y x" for x
    using that by (cases x) (auto simp: proc_inv_def)
  have "list_all (proc_inv st ?y) (sy_procs ?y)"
    using inv new old i by (simp add: sys_inv_def list_all_length nth_list_update)
  moreover have "evidence (sy_seen y) \<subseteq> evidence (sy_seen ?y)"
    by (rule evidence_mono) simp
  moreover have "\<forall>body \<in> sy_inflight ?y. write_inv st ?y body"
  proof
    fix body assume "body \<in> sy_inflight ?y"
    moreover have "write_inv st ?y body" if "body \<in> state_put st q"
      using p by (intro write_allowed_put [OF _ that, of me g]) (auto simp: proc_inv_def)
    moreover have "write_inv st ?y body" if "body \<in> sy_inflight y"
      using inv that pstep_mono [OF _ \<open>evidence (sy_seen y) \<subseteq> evidence (sy_seen ?y)\<close>]
      unfolding sys_inv_def write_inv_def by (simp, blast)
    ultimately show "write_inv st ?y body" by auto
  qed
  ultimately show ?thesis
    using inv unfolding sys_inv_def by (auto intro: evolves.Grow)
qed

lemma sys_inv_commit:
  assumes inv: "sys_inv st ev0 s0 y" and body: "JDict body \<in> sy_inflight y" and rv: "rv_of body = rv_of (sy_cur y)"
    and ins: "installs body cm" and fresh: "rv_of cm \<notin> rv_of ` sy_versions y"
  shows "sys_inv st ev0 s0 (y\<lparr>sy_cur := cm, sy_versions := insert cm (sy_versions y)\<rparr>)" (is "sys_inv st ev0 s0 ?y")
proof -
  obtain x s s' where x: "x \<in> sy_versions y" "body = desired x s'" "holds st x s" "fits st x s'"
      and step: "pstep (st_sha st) (st_policy st) (evidence (sy_seen y)) s s'"
    using inv body by (auto simp: sys_inv_def write_inv_def)
  obtain t where t: "holds st (sy_cur y) t" "evolves (pstep (st_sha st) (st_policy st)) ev0 s0 (evidence (sy_seen y)) t"
    using inv by (auto simp: sys_inv_def)
  have "x = sy_cur y \<and> t = s \<and> holds st cm s'"
    using inv rv ins x t(1)
    by (intro cm.commit [where V = "sy_versions y"]) (auto simp: sys_inv_def)
  with t(2) step have "holds st (sy_cur ?y) s' \<and> evolves (pstep (st_sha st) (st_policy st)) ev0 s0 (evidence (sy_seen y)) s'"
    by (auto intro: evolves.Move)
  moreover have "inj_on rv_of (insert cm (sy_versions y))"
    using inv fresh by (auto simp: sys_inv_def)
  moreover have "list_all (proc_inv st ?y) (sy_procs y)" "\<forall>b \<in> sy_inflight y. write_inv st ?y b"
    using inv by (auto simp: sys_inv_def list_all_iff proc_inv_def write_inv_def)
  ultimately show ?thesis unfolding sys_inv_def by auto
qed

lemma sys_inv_spawn:
  assumes "sys_inv st ev0 s0 y" and "protocol_program st me p"
  shows "sys_inv st ev0 s0 (y\<lparr>sy_procs := sy_procs y @ [(me, p, {})]\<rparr>)" (is "sys_inv st ev0 s0 ?y")
proof -
  have "wp (write_allowed st me) (kupd (st_base st)) p (\<lambda>_ _. True) (\<lambda>_ _. True) {}"
    using protocol_program_spec [OF assms(2), of "{}"] unfolding contract.spec_def by (rule wp_conseq) auto
  then have "proc_inv st ?y (me, p, {})" by (simp add: proc_inv_def)
  moreover have "proc_inv st ?y = proc_inv st y" "write_inv st ?y = write_inv st y"
    by (auto simp: proc_inv_def write_inv_def fun_eq_iff)
  ultimately show ?thesis using assms(1) by (auto simp: sys_inv_def)
qed

lemma sys_inv_step: "sys_step st y y' \<Longrightarrow> sys_inv st ev0 s0 y \<Longrightarrow> sys_inv st ev0 s0 y'"
  by (cases rule: sys_step.cases) (auto intro: sys_inv_spawn sys_inv_talk sys_inv_commit)

lemma sys_inv_start: "holds st cm0 s0 \<Longrightarrow> sys_inv st (evidence seen0) s0 (sys_start cm0 seen0)"
  by (auto simp: sys_start_def sys_inv_def intro: evolves.Start)

lemma sys_inv_reachable: "sys_reach st cm0 seen0 y \<Longrightarrow> holds st cm0 s0 \<Longrightarrow> sys_inv st (evidence seen0) s0 y"
  by (induction rule: sys_reach.induct) (auto intro: sys_inv_start sys_inv_step)

lemma sys_reach_steps: "(sys_step st)\<^sup>*\<^sup>* y y' \<Longrightarrow> sys_reach st cm0 seen0 y \<Longrightarrow> sys_reach st cm0 seen0 y'"
  by (induction rule: rtranclp_induct) (auto intro: sys_reach.Step)

text \<open>The invariant, restarted at a reachable point.\<close>

lemma sys_inv_restart: "sys_inv st ev0 s0 y \<Longrightarrow> holds st (sy_cur y) s \<Longrightarrow> sys_inv st (evidence (sy_seen y)) s y"
  unfolding sys_inv_def by (blast intro: evolves.Start)

lemma sys_inv_steps:
  "(sys_step st)\<^sup>*\<^sup>* y y' \<Longrightarrow> sys_inv st ev0 s0 y \<Longrightarrow> sys_inv st ev0 s0 y'"
  by (induction rule: rtranclp_induct) (auto intro: sys_inv_step)

lemma sys_inv_evolves:
  assumes "sys_inv st ev0 s0 y" and "holds st (sy_cur y) s"
  shows "evolves (pstep (st_sha st) (st_policy st)) ev0 s0 (evidence (sy_seen y)) s"
  using assms cm.content_unique [OF assms(2)] unfolding sys_inv_def by blast

end
