(* ===== verification/Admission_Runs.thy ===== *)
theory Admission_Runs
  imports Admission_System
begin

section \<open>What the maintenance programs may do, and for how long\<close>

text \<open>
  Facts about all runs of the programs that need no knowledge of the responses: which requests
  they can send at all, and that their loops end. The locales give one contract at three
  strengths: a predicate on actions that holds of the reads only, of reads and writes, and of the
  clock as well. Each is interpreted on the predicates the properties use.
\<close>

definition sendable :: "string \<Rightarrow> string \<Rightarrow> string \<Rightarrow> jval option \<Rightarrow> bool" where
  "sendable b verb path body \<longleftrightarrow> b \<noteq> GITLAB \<or> gitlab_authority verb path body"

subsection \<open>Reads\<close>

locale reading =
  fixes P :: "kact \<Rightarrow> bool"
  assumes P_get: "sendable b ''GET'' path None \<Longrightarrow> P (Http b ''GET'' path None)"
begin

lemma get_request: "acts P (request b ''GET'' path None)"
  unfolding request_def prequire_def
  by (auto simp: require_def sendable_def intro: P_get)

lemma reads:
  "acts P runner" "acts P (pods b ns)" "acts P (snapshot_all b)" "acts P (scheduled b p cron)"
  "acts P (store_read st latch)" "acts P (the_op s)"
  unfolding runner_def pods_def snapshot_all_def scheduled_def store_read_def the_op_def
  by (auto intro!: acts_intros get_request split: option.split)

lemma reads_drained_status: "acts P (drained_status n status page sp sj)"
proof (induction n arbitrary: page sp sj)
  case (Suc n)
  then show ?case unfolding drained_status.simps
    by (intro acts_intros get_request) (auto intro!: acts_intros split: prod.split jval.split)
qed simp

lemma reads_drained: "acts P drained"
proof -
  have "acts P (drained_all ss)" for ss
    by (induction ss) (auto intro!: acts_intros reads_drained_status)
  then show ?thesis by (simp add: drained_def)
qed

lemma reads_admission:
  "acts P (admissible retired ps)" "acts P (worker_candidate st own slot p)"
  unfolding admissible_def worker_candidate_def by (auto intro!: acts_intros reads reads_drained)

end

subsection \<open>Writes\<close>

locale acting = reading +
  assumes P_put: "sendable b ''PUT'' path body \<Longrightarrow> P (Http b ''PUT'' path body)"
begin

lemma put_request: "acts P (request b ''PUT'' path body)"
  unfolding request_def prequire_def
  by (auto simp: require_def sendable_def intro: P_put)

lemma writes:
  "acts P (store_save st uid cm s)" "acts P (gitlab_put b r)"
  unfolding store_save_def gitlab_put_def
  by (auto intro!: acts_intros put_request reads split: prod.split)

lemma writes_alert: "acts P (alert st uid cm s r)" "acts P (unknown_write st uid r)"
  unfolding alert_def unknown_write_def by (auto intro!: acts_intros writes reads split: prod.split simp: alert_def)

lemma writes_coordinate:
  "acts P (admit_worker st uid own slot ps cm s p)" "acts P (drain_timeout st uid)" "acts P (confirm_pause st uid me)"
  unfolding admit_worker_def drain_timeout_def confirm_pause_def
  by (auto intro!: acts_intros writes reads reads_admission split: prod.split list.split)

lemma writes_drain_pass: "acts P (drain_pass st uid own me slot)"
  unfolding drain_pass_def
  by (auto intro!: acts_intros writes_coordinate reads reads_admission split: prod.split)

lemma writes_restore: "acts P (finish_restore st uid me)" "acts P (restore st uid me ps cm s)"
proof -
  show f: "acts P (finish_restore st uid me)"
    unfolding finish_restore_def by (auto intro!: acts_intros writes reads split: prod.split)
  show "acts P (restore st uid me ps cm s)"
    unfolding restore_def by (auto intro!: acts_intros writes writes_alert reads f)
qed

end

subsection \<open>The clock\<close>

locale timed = acting +
  assumes P_now: "P Now" and P_sleep: "P (Sleep n)"
begin

lemma clock: "acts P now" "acts P (sleep n)"
  unfolding now_def sleep_def by (auto intro: P_now P_sleep split: kresp.split)

lemma acts_drain_loop: "acts P (drain_loop n st uid own me slot)"
  by (induction n) (auto intro!: acts_intros clock writes_drain_pass writes_coordinate)

lemma acts_coordinate: "acts P (coordinate n st me)"
  unfolding coordinate_def pause_and_drain_def
  by (auto intro!: acts_intros clock reads writes writes_alert writes_coordinate acts_drain_loop
      split: prod.split option.split)

lemma acts_recover_operation: "acts P (recover_operation st uid me cm s)"
  unfolding recover_operation_def recover_waits_def
  by (auto intro!: acts_intros clock reads writes writes_alert writes_restore split: prod.split)

lemma acts_recover: "acts P (recover st me)"
  unfolding recover_def recover_gc_def credential_check_def
  by (auto intro!: acts_intros clock reads writes writes_alert acts_recover_operation split: prod.split option.split)

lemma acts_fence_check: "acts P (fence_check st uid me oid)"
  unfolding fence_check_def by (auto intro!: acts_intros clock reads split: prod.split)

lemma acts_claim: "acts P (claim n st me)"
proof -
  have "acts P (claim_pass st latch me)" for latch
    unfolding claim_pass_def
    by (auto intro!: acts_intros clock reads writes acts_fence_check split: prod.split option.split)
  then have "acts P (claim_loop n st latch me until)" for latch until
    by (induction n arbitrary: latch) (auto intro!: acts_intros clock split: prod.split option.split)
  then show ?thesis unfolding claim_def by (auto intro!: acts_intros clock)
qed

lemma acts_gc_claim: "acts P gate \<Longrightarrow> acts P (gc_claim st me gate)"
  unfolding gc_claim_def
  by (auto intro!: acts_intros clock reads writes get_request split: prod.split option.split)

lemma acts_self_identity: "acts P (self_identity st env)"
  unfolding self_identity_def by (auto intro!: acts_intros reads split: option.split list.split)

lemma acts_main: "acts P gate \<Longrightarrow> acts P (admission_main n st env gate argv)"
  unfolding admission_main_def
  by (auto intro!: acts_intros acts_self_identity acts_coordinate acts_recover acts_gc_claim)

end

subsection \<open>Interpretations\<close>

definition gitlab_ok :: "kact \<Rightarrow> bool" where
  "gitlab_ok q = (case q of Http b verb path body \<Rightarrow> b \<noteq> GITLAB \<or> gitlab_authority verb path body | _ \<Rightarrow> True)"

definition is_write :: "kact \<Rightarrow> bool" where
  "is_write q = (case q of Http b verb path body \<Rightarrow> verb \<noteq> ''GET'' | _ \<Rightarrow> False)"

interpretation authorised: timed gitlab_ok
  by unfold_locales (auto simp: gitlab_ok_def sendable_def)

interpretation unclocked: acting "\<lambda>q. q \<noteq> Now"
  by unfold_locales auto

interpretation quiet: reading "\<lambda>q. \<not> is_write q"
  by unfold_locales (auto simp: is_write_def)

subsection \<open>Loops end\<close>

lemma fuel_request: "fuel_free (request b verb path body)"
  unfolding request_def by (auto intro!: fuel_intros)

lemma fuel_reads:
  "fuel_free now" "fuel_free (sleep n)" "fuel_free runner" "fuel_free (pods b ns)" "fuel_free (snapshot_all b)"
  "fuel_free (scheduled b p cron)" "fuel_free (store_read st latch)" "fuel_free (the_op s)"
  unfolding now_def sleep_def runner_def pods_def snapshot_all_def scheduled_def store_read_def the_op_def
  by (auto intro!: fuel_intros fuel_request split: kresp.split prod.split option.split)

lemma fuel_drained: "fuel_free drained"
proof -
  have s: "fuel_free (drained_status n status page sp sj)" for n status page sp sj
  proof (induction n arbitrary: page sp sj)
    case (Suc n)
    then show ?case unfolding drained_status.simps
      by (intro fuel_intros fuel_request) (auto intro!: fuel_intros split: prod.split jval.split)
  qed simp
  have "fuel_free (drained_all ss)" for ss
    by (induction ss) (auto intro!: fuel_intros s)
  then show ?thesis by (simp add: drained_def)
qed

lemma fuel_writes: "fuel_free (store_save st uid cm s)" "fuel_free (gitlab_put b r)"
  unfolding store_save_def gitlab_put_def
  by (auto intro!: fuel_intros fuel_request fuel_reads split: prod.split)

lemma fuel_alert: "fuel_free (alert st uid cm s r)" "fuel_free (unknown_write st uid r)"
  unfolding alert_def unknown_write_def
  by (auto intro!: fuel_intros fuel_writes fuel_reads split: prod.split simp: alert_def)

lemma fuel_drain_pass: "fuel_free (drain_pass st uid own me slot)"
  unfolding drain_pass_def admit_worker_def admissible_def worker_candidate_def
  by (auto intro!: fuel_intros fuel_reads fuel_writes fuel_drained split: prod.split list.split)

lemma fuel_coordinate_parts: "fuel_free (drain_timeout st uid)" "fuel_free (confirm_pause st uid me)"
  unfolding drain_timeout_def confirm_pause_def
  by (auto intro!: fuel_intros fuel_reads fuel_writes split: prod.split)

text \<open>Every pass of the drain loop that is not the last reads the clock once, before the deadline.\<close>

definition clock_readings :: "(kact \<times> kresp) list \<Rightarrow> rat list" where
  "clock_readings t = concat (map (\<lambda>(q, r). case (q, r) of (Now, Time x) \<Rightarrow> [x] | _ \<Rightarrow> []) t)"

lemma clock_readings_append [simp]: "clock_readings (t @ t') = clock_readings t @ clock_readings t'"
  by (simp add: clock_readings_def)

lemma clock_readings_unclocked: "runs p t p' \<Longrightarrow> acts (\<lambda>q. q \<noteq> Now) p \<Longrightarrow> clock_readings t = []"
  using acts_runs [of p t p' "\<lambda>q. q \<noteq> Now"]
  by (auto simp: clock_readings_def list_all_iff split: kact.splits)

lemma runs_now: "runs now t (Ret x) \<Longrightarrow> clock_readings t = [x]"
  unfolding now_def
  by (cases t) (auto simp: clock_readings_def runs_ended split: kresp.splits)

lemma runs_sleep: "runs (sleep n) t (Ret x) \<Longrightarrow> clock_readings t = []"
  by (rule clock_readings_unclocked) (auto simp: sleep_def split: kresp.split)

lemma drain_loop_readings:
  "runs (drain_loop n st uid own me slot) t OutOfFuel \<Longrightarrow>
     length (clock_readings t) = n \<and> (\<forall>x \<in> set (clock_readings t). x < of_int (slot + 1200))"
proof (induction n arbitrary: t)
  case 0
  then show ?case by (cases t) (simp_all add: clock_readings_def)
next
  case (Suc n)
  obtain t1 t2 x where t: "t = t1 @ t2" "runs now t1 (Ret x)"
      and rest: "runs (if x < of_int (slot + 1200) then
       pbind (drain_pass st uid own me slot) (\<lambda>admitted.
       if admitted then Ret () else pbind (sleep 5) (\<lambda>_. drain_loop n st uid own me slot))
     else drain_timeout st uid) t2 OutOfFuel"
    using runs_pbind_OutOfFuel [OF Suc.prems [unfolded drain_loop.simps] fuel_reads(1)] by blast
  have x: "x < of_int (slot + 1200)"
    using rest fuel_free_runs [of "drain_timeout st uid" t2 OutOfFuel] fuel_coordinate_parts(1) by (auto split: if_splits)
  obtain t3 t4 b where t2: "t2 = t3 @ t4" "runs (drain_pass st uid own me slot) t3 (Ret b)"
      and rest: "runs (if b then Ret () else pbind (sleep 5) (\<lambda>_. drain_loop n st uid own me slot)) t4 OutOfFuel"
    using runs_pbind_OutOfFuel [OF rest [unfolded if_P [OF x]] fuel_drain_pass] by blast
  have "\<not> b" using rest by (auto simp: runs_ended split: if_splits)
  then obtain t5 t6 u where t4: "t4 = t5 @ t6" "runs (sleep 5) t5 (Ret u)" "runs (drain_loop n st uid own me slot) t6 OutOfFuel"
    using runs_pbind_OutOfFuel [OF _ fuel_reads(2), of 5 "\<lambda>_. drain_loop n st uid own me slot" t4] rest by auto
  have "clock_readings t3 = []"
    using t2(2) by (rule clock_readings_unclocked) (rule unclocked.writes_drain_pass)
  with Suc.IH [OF t4(3)] x runs_now [OF t(2)] runs_sleep [OF t4(2)] show ?case
    by (simp add: t(1) t2(1) t4(1))
qed

text \<open>Readings that start at the slot and lie five seconds apart: at most 240 fit before the deadline.\<close>

definition paced :: "rat list \<Rightarrow> bool" where
  "paced xs = (\<forall>i. Suc i < length xs \<longrightarrow> xs ! i + 5 \<le> xs ! Suc i)"

lemma paced_nth:
  assumes "paced xs" and "i < length xs"
  shows "xs ! 0 + 5 * of_nat i \<le> xs ! i"
  using assms(2)
proof (induction i)
  case (Suc i)
  have "xs ! i + 5 \<le> xs ! Suc i" using assms(1) Suc.prems by (simp add: paced_def)
  with Suc show ?case by simp
qed simp

lemma paced_bound:
  assumes "paced xs" and "xs \<noteq> []" and "a \<le> hd xs" and "\<forall>x \<in> set xs. x < a + 1200"
  shows "length xs \<le> 240"
proof (rule ccontr)
  assume "\<not> length xs \<le> 240"
  then have l: "240 < length xs" by simp
  from paced_nth [OF assms(1) l] assms(3) have "a + 1200 \<le> xs ! 240"
    using assms(2) by (simp add: hd_conv_nth)
  moreover have "xs ! 240 < a + 1200" using assms(4) l by simp
  ultimately show False by simp
qed

text \<open>The pagination of the jobs: at most a hundred requests per status.\<close>

lemma request_once: "at_most (request b verb path body) 1"
  unfolding request_def by (intro at_most_bind_pure) simp

lemma drained_status_bound: "at_most (drained_status n status page sp sj) n"
proof (induction n arbitrary: page sp sj)
  case (Suc n)
  have "at_most (case x of (v, headers) \<Rightarrow> (case v of
        JList vals \<Rightarrow>
          pbind (liftr (jobs_evidence status sj vals)) (\<lambda>seen_jobs'.
          pbind (liftr (next_page (page # sp) headers)) (\<lambda>page'.
          if vals \<noteq> [] then Ret False
          else if page' = [] then Ret True
          else drained_status n status page' (page # sp) seen_jobs'))
      | _ \<Rightarrow> Fail (Refuse ''invalid jobs page''))) n" for x
    by (auto intro!: at_most_bind_pure Suc.IH split: prod.split jval.split)
  from at_most_pbind [OF request_once this] show ?case
    unfolding drained_status.simps by (intro at_most_bind_pure) simp
qed simp

lemma drained_bound: "at_most drained 900"
proof -
  have "at_most (drained_all ss) (100 * length ss)" for ss
  proof (induction ss)
    case (Cons status ss)
    have "at_most (if b then drained_all ss else Ret False) (100 * length ss)" for b
      using Cons by simp
    from at_most_pbind [OF drained_status_bound this] show ?case by simp
  qed simp
  from this [of ACTIVE] show ?thesis by (simp add: drained_def ACTIVE_def)
qed

subsection \<open>Drained means exhausted\<close>

text \<open>The last page of a status, in a trace: an empty list, and no page after it.\<close>

definition last_page_empty :: "string \<Rightarrow> (kact \<times> kresp) list \<Rightarrow> bool" where
  "last_page_empty status t \<longleftrightarrow> (\<exists>page r h. (Http GITLAB ''GET'' (jobs_path status page) None, r) \<in> set t
     \<and> http_result r = Inr (JList [], h) \<and> map_of (lower_headers h) ''x-next-page'' = Some [])"

lemma last_page_empty_append: "last_page_empty status t \<or> last_page_empty status t' \<Longrightarrow> last_page_empty status (t @ t')"
  by (auto simp: last_page_empty_def)

lemma runs_request:
  "runs (request b verb path body) t (Ret x) \<Longrightarrow> \<exists>r. t = [(Http b verb path body, r)] \<and> http_result r = Inr x"
  unfolding request_def
  by (cases t) (auto simp: prequire_def require_def runs_ended runs_liftr liftr_def split: if_splits sum.splits)

lemma next_page_Inr: "next_page seen h = Inr page \<Longrightarrow> map_of (lower_headers h) ''x-next-page'' = Some page"
  by (auto simp: next_page_def rbind_eq_Inr split: option.splits)

lemma drained_status_True:
  "runs (drained_status n status page sp sj) t (Ret True) \<Longrightarrow> last_page_empty status t"
proof (induction n arbitrary: page sp sj t)
  case (Suc n)
  obtain t1 t2 v h where t: "t = t1 @ t2" "runs (request GITLAB ''GET'' (jobs_path status page) None) t1 (Ret (v, h))"
    and rest: "runs (case v of
        JList vals \<Rightarrow>
          pbind (liftr (jobs_evidence status sj vals)) (\<lambda>seen_jobs'.
          pbind (liftr (next_page (page # sp) h)) (\<lambda>page'.
          if vals \<noteq> [] then Ret False
          else if page' = [] then Ret True
          else drained_status n status page' (page # sp) seen_jobs'))
      | _ \<Rightarrow> Fail (Refuse ''invalid jobs page'')) t2 (Ret True)"
    using Suc.prems unfolding drained_status.simps
    by (auto dest!: runs_pbind_Ret simp: runs_prequire)
  then obtain vals where v: "v = JList vals" by (cases v) (auto simp: runs_ended)
  obtain sj' page' where p: "next_page (page # sp) h = Inr page'"
    and rest: "runs (if vals \<noteq> [] then Ret False else if page' = [] then Ret True
          else drained_status n status page' (page # sp) sj') t2 (Ret True)"
    using rest [unfolded v jval.case] by (auto dest!: runs_pbind_Ret simp: runs_liftr)
  have "vals = []" using rest by (auto simp: runs_ended split: if_splits)
  show ?case
  proof (cases "page' = []")
    case True
    have "last_page_empty status t1"
      using runs_request [OF t(2)] v \<open>vals = []\<close> next_page_Inr [OF p] True by (auto simp: last_page_empty_def)
    then show ?thesis by (simp add: t(1) last_page_empty_append)
  next
    case False
    with rest \<open>vals = []\<close> Suc.IH have "last_page_empty status t2" by auto
    then show ?thesis by (simp add: t(1) last_page_empty_append)
  qed
qed (simp add: runs_ended)

lemma drained_all_True: "runs (drained_all ss) t (Ret True) \<Longrightarrow> list_all (\<lambda>s. last_page_empty s t) ss"
proof (induction ss arbitrary: t)
  case (Cons s ss)
  obtain t1 t2 where t: "t = t1 @ t2" "runs (drained_status 100 s ''1'' [] []) t1 (Ret True)" "runs (drained_all ss) t2 (Ret True)"
    using runs_pbind_Ret [OF Cons.prems [unfolded drained_all.simps]] by (auto simp: runs_ended split: if_splits)
  from Cons.IH [OF t(3)] drained_status_True [OF t(2)] show ?case
    by (auto simp: t(1) list_all_iff intro: last_page_empty_append)
qed simp

subsection \<open>No write before an unpaused baseline\<close>

definition paused_upd :: "bool set \<Rightarrow> kact \<Rightarrow> kresp \<Rightarrow> bool set" where
  "paused_upd g q r = (if q = Http GITLAB ''GET'' RUNNER_PATH None then
     (case rbind (http_result r) (\<lambda>(v, _). runner_value v) of Inr b \<Rightarrow> insert b g | Inl _ \<Rightarrow> g) else g)"

definition write_needs_unpaused :: "bool set \<Rightarrow> kact \<Rightarrow> bool" where
  "write_needs_unpaused g q \<longleftrightarrow> False \<in> g \<or> \<not> is_write q"

interpretation baseline: growing write_needs_unpaused paused_upd
  by unfold_locales (auto simp: paused_upd_def split: sum.splits)

lemma baseline_quiet: "acts (\<lambda>q. \<not> is_write q) p \<Longrightarrow> baseline.spec g p (\<lambda>_ _. True)"
  by (erule baseline.spec_acts) (simp add: write_needs_unpaused_def)

lemma quiet_now: "acts (\<lambda>q. \<not> is_write q) now"
  by (auto simp: now_def is_write_def split: kresp.split)

lemma baseline_runner: "baseline.spec g runner (\<lambda>b g'. b \<in> g')"
proof -
  have "baseline.spec g (Act (Http GITLAB ''GET'' RUNNER_PATH None) (\<lambda>r. liftr (rbind (http_result r) (\<lambda>(v, _). runner_value v))))
      (\<lambda>b g'. b \<in> g')"
  proof (rule baseline.spec_Act)
    show "write_needs_unpaused g (Http GITLAB ''GET'' RUNNER_PATH None)"
      by (simp add: write_needs_unpaused_def is_write_def)
  qed (rule baseline.spec_liftr, simp add: paused_upd_def)
  moreover have "(pbind (liftr (http_result r)) (\<lambda>(v, _). liftr (runner_value v)) :: bool kprog)
      = liftr (rbind (http_result r) (\<lambda>(v, _). runner_value v))" for r
    by (cases "http_result r") (auto split: prod.split)
  moreover have "\<not> prefix ''//'' RUNNER_PATH \<and> prefix ''/'' RUNNER_PATH \<and> gitlab_authority ''GET'' RUNNER_PATH None"
    by (simp add: RUNNER_PATH_def gitlab_authority_def)
  ultimately show ?thesis by (simp add: runner_def request_def)
qed

lemma baseline_coordinate: "baseline.spec g (coordinate n st me) (\<lambda>_ _. True)"
proof -
  have q: "baseline.spec g (pbind p f) R" if "acts (\<lambda>q. \<not> is_write q) p" "\<And>x g'. baseline.spec g' (f x) R"
    for p :: "'x kprog" and f :: "'x \<Rightarrow> unit kprog" and g R
    by (rule baseline.spec_bind [OF baseline_quiet [OF that(1)]]) (rule that(2))
  have r: "baseline.spec g (pbind runner (\<lambda>baseline. if baseline then Ret ()
      else pause_and_drain n st uid own me slot cm s)) (\<lambda>_ _. True)" for g uid own slot cm s
    by (rule baseline.spec_bind [OF baseline_runner]) (auto intro!: baseline.spec_unrestricted simp: write_needs_unpaused_def)
  show ?thesis unfolding coordinate_def
    by (intro q quiet.reads)
       (auto split: option.split prod.split intro!: q r quiet.reads quiet_now baseline.spec_bind_liftr baseline.spec_bind_require)
qed

lemma paused_ghost: "False \<in> ghost paused_upd {} t \<Longrightarrow>
    \<exists>r v h. (Http GITLAB ''GET'' RUNNER_PATH None, r) \<in> set t \<and> http_result r = Inr (v, h) \<and> runner_value v = Inr False"
proof (induction t rule: rev_induct)
  case (snoc x t)
  then show ?case
    by (cases x) (auto simp: paused_upd_def rbind_eq_Inr split: if_splits sum.splits)
qed simp

end
