(* ===== verification/Admission_Example.thy ===== *)
theory Admission_Example
  imports Admission_Runs
begin

section \<open>A concrete cluster\<close>

text \<open>
  Concrete objects for the witnesses of the protocol's properties: a store, a state object, the
  Pods and the Job of a coordinator, and complete traces of a coordinator that pauses the runner and
  of a recovery that resumes it.
\<close>

definition ex_store :: store where
  "ex_store = \<lparr>st_base = ''https://10.0.0.1:443'', st_policy = ''policy'', st_sha = (\<lambda>_. ''digest'')\<rparr>"

definition ex_idle :: mstate where
  "ex_idle = \<lparr>ms_schema = 1, ms_uid = ''u1'', ms_policy = ''policy'', ms_runner = 2, ms_heartbeat = 1767228400,
     ms_phase = IDLE, ms_operation = None, ms_gc = None\<rparr>"

definition ex_cm :: "string \<Rightarrow> mstate \<Rightarrow> dict" where
  "ex_cm rv s = [(''kind'', JStr ''ConfigMap''),
     (''metadata'', JDict [(''name'', JStr ''hestia-ci-maintenance-state''), (''namespace'', JStr ''ci-maintenance''),
        (''uid'', JStr ''u1''), (''resourceVersion'', JStr rv)]),
     (''data'', JDict [(''state.json'', JStr (json_dumps (encode s)))])]"

lemma ex_holds: "wf_state (st_sha st) ''u1'' (st_policy st) s \<Longrightarrow> holds st (ex_cm rv s) s"
  by (simp add: holds_def ex_cm_def uid_of_def dsub_def jitem_JDict load_state_dumps)

lemma ex_idle_wf: "wf_state (st_sha ex_store) ''u1'' (st_policy ex_store) ex_idle"
  by (simp add: wf_state_def ex_idle_def ex_store_def wf_text_def)

lemma ex_start_holds: "holds ex_store (ex_cm ''1'' ex_idle) ex_idle"
  by (rule ex_holds [OF ex_idle_wf])

subsection \<open>Responses\<close>

text \<open>A bound on the length of a printed value that needs no look at single characters.\<close>

fun jsize :: "jval \<Rightarrow> nat" where
  "jsize (JStr s) = 6 * length s + 2"
| "jsize (JInt i) = length (show_int i)"
| "jsize (JList xs) = 2 + sum_list (map (\<lambda>x. jsize x + 1) xs)"
| "jsize (JDict d) = 2 + sum_list (map (\<lambda>kv. 6 * length (fst kv) + 4 + jsize (snd kv)) d)"
| "jsize j = 5"

lemma length_print_str_le: "length (print_str s) \<le> 6 * length s + 2"
proof -
  have "length (esc_char c) \<le> 6" for c by (simp add: esc_char_def Let_def)
  then have "length (concat (map esc_char s)) \<le> 6 * length s"
    by (induction s) (simp_all add: add_mono)
  then show ?thesis by (simp add: print_str_def)
qed

lemma length_join_sep: "length (join_sep '','' xs) \<le> sum_list (map (\<lambda>x. length x + 1) xs)"
  by (induction "'','' :: string" xs rule: join_sep.induct) simp_all

lemma length_print_json: "plain j \<Longrightarrow> length (print_json j) \<le> jsize j"
proof (induction j)
  case (JList xs)
  have "length (join_sep '','' (map print_json xs)) \<le> sum_list (map (\<lambda>x. length x + 1) (map print_json xs))"
    by (rule length_join_sep)
  also have "\<dots> \<le> sum_list (map (\<lambda>x. jsize x + 1) xs)"
    unfolding map_map o_def using JList by (intro sum_list_mono) (auto simp: list_all_iff)
  finally show ?case by simp
next
  case (JDict d)
  let ?p = "\<lambda>(k, v). print_str k @ '':'' @ print_json v"
  have "length (join_sep '','' (map ?p d)) \<le> sum_list (map (\<lambda>x. length x + 1) (map ?p d))"
    by (rule length_join_sep)
  also have "\<dots> \<le> sum_list (map (\<lambda>kv. 6 * length (fst kv) + 4 + jsize (snd kv)) d)"
    unfolding map_map o_def
  proof (rule sum_list_mono)
    fix kv assume "kv \<in> set d"
    with JDict have "length (print_json (snd kv)) \<le> jsize (snd kv)"
      by (metis list_all_iff plain.simps(3) prod.collapse snds.intros)
    with length_print_str_le [of "fst kv"] show "length (?p kv) + 1 \<le> 6 * length (fst kv) + 4 + jsize (snd kv)"
      by (simp add: split_beta)
  qed
  finally show ?case by simp
qed (use length_print_str_le in auto)

definition reply :: "jval \<Rightarrow> kresp" where
  "reply v = NetOk (print_json v) []"

lemma reply_result:
  assumes "plain v" and "keys_ok v" and "jsize v \<le> 2000000"
  shows "http_result (reply v) = Inr (v, [])"
proof -
  have "length (print_json v) \<le> 2000000" using length_print_json [OF assms(1)] assms(3) by simp
  then show ?thesis
    by (simp add: reply_def http_result_def json_loads_print assms Let_def)
qed

lemma runs_requestI:
  assumes "http_result r = Inr x" and "prefix ''/'' path" and "\<not> prefix ''//'' path"
    and "base \<noteq> GITLAB \<or> gitlab_authority verb path body"
  shows "runs (request base verb path body) [(Http base verb path body, r)] (Ret x)"
  using assms by (simp add: request_def)

definition good :: "jval \<Rightarrow> bool" where
  "good v = (plain v \<and> keys_ok v \<and> jsize v \<le> 2000000)"

lemma good_reply: "good v \<Longrightarrow> http_result (reply v) = Inr (v, [])"
  unfolding good_def by (simp add: reply_result)

lemma runs_nowI: "runs now [(Now, Time x)] (Ret x)"
  by (simp add: now_def)

lemma ex_base: "st_base ex_store \<noteq> GITLAB" "st_base ex_store = ''https://10.0.0.1:443''"
    "st_policy ex_store = ''policy''" "st_sha ex_store x = ''digest''"
  by (simp_all add: ex_store_def GITLAB_def)

lemma runs_podsI:
  assumes "good v" and "pods_payload ns v = Inr ps" and "ns \<in> {''ci'', CONTROL_NAMESPACE, WORKER_NAMESPACE}"
    and "base \<noteq> GITLAB"
  shows "runs (pods base ns) [(Http base ''GET'' (pods_path ns) None, reply v)] (Ret ps)"
proof -
  have "prefix ''/'' (pods_path ns) \<and> \<not> prefix ''//'' (pods_path ns)" by (simp add: pods_path_def)
  with assms show ?thesis
    by (simp add: pods_def request_def good_reply)
qed

lemma runs_readI:
  assumes "good v" and "read_cm st latch v = Inr x" and "st_base st \<noteq> GITLAB"
  shows "runs (store_read st latch) [(Http (st_base st) ''GET'' STATE None, reply v)] (Ret x)"
proof -
  have "prefix ''/'' STATE \<and> \<not> prefix ''//'' STATE" by (simp add: STATE_def)
  with assms show ?thesis by (simp add: store_read_def request_def good_reply)
qed

lemma runs_saveI:
  assumes "good v" and "good v'" and "wf_state (st_sha st) uid (st_policy st) s" and "read_cm st (Some uid) v = Inr (cm', s, uid)"
    and "st_base st \<noteq> GITLAB"
  shows "runs (store_save st uid cm s) [(Http (st_base st) ''PUT'' STATE (Some (JDict (desired cm s))), reply v'),
     (Http (st_base st) ''GET'' STATE None, reply v)] (Ret s)"
proof -
  have "prefix ''/'' STATE \<and> \<not> prefix ''//'' STATE" by (simp add: STATE_def)
  moreover have "validate (st_sha st) (encode s) uid (st_policy st) = Inr ()"
    using assms(3) by (simp add: validate_encode)
  ultimately show ?thesis
    using assms by (simp add: store_save_def store_read_def request_def good_reply)
qed

lemma runs_runnerI:
  assumes "good v" and "runner_value v = Inr b"
  shows "runs runner [(Http GITLAB ''GET'' RUNNER_PATH None, reply v)] (Ret b)"
proof -
  have "\<not> prefix ''//'' RUNNER_PATH \<and> prefix ''/'' RUNNER_PATH \<and> gitlab_authority ''GET'' RUNNER_PATH None"
    by (simp add: RUNNER_PATH_def gitlab_authority_def)
  with assms show ?thesis by (simp add: runner_def request_def good_reply)
qed

lemma length_dumps: "length (json_dumps (encode s)) \<le> jsize (encode s)"
  unfolding json_dumps_def enc_sorted by (rule length_print_json [OF enc_plain(4)])

lemma good_cm: "jsize (encode s) \<le> 300000 \<Longrightarrow> length rv \<le> 10 \<Longrightarrow> good (JDict (ex_cm rv s))"
  using length_dumps [of s] by (simp add: good_def ex_cm_def)

lemma read_ex_cm:
  assumes "wf_state (st_sha st) ''u1'' (st_policy st) s" and "wf_text rv" and "latch = None \<or> latch = Some ''u1''"
  shows "read_cm st latch (JDict (ex_cm rv s)) = Inr (ex_cm rv s, s, ''u1'')"
  unfolding read_cm_iff
  using assms by (auto simp: ex_cm_def jitem_JDict meta_ok_def load_state_dumps CONTROL_NAMESPACE_def wf_text_def)

subsection \<open>A coordinator that pauses the runner\<close>

definition ex_coord :: ident where
  "ex_coord = \<lparr>id_ns = ''ci-maintenance'', id_name = ''coord'', id_uid = ''cu'', id_job = ''cjob'', id_job_uid = ''cju''\<rparr>"

definition ex_volumes :: jval where
  "ex_volumes = JList [JDict [(''name'', JStr ''policy''),
     (''configMap'', JDict [(''name'', JStr ''hestia-ci-cache-retention-1'')])]]"

definition ex_coord_pod :: jval where
  "ex_coord_pod = JDict [
     (''metadata'', JDict [(''namespace'', JStr ''ci-maintenance''), (''uid'', JStr ''cu''), (''name'', JStr ''coord''),
        (''labels'', JDict []), (''ownerReferences'', JList [JDict [(''controller'', JBool True), (''kind'', JStr ''Job''),
           (''name'', JStr ''cjob''), (''uid'', JStr ''cju'')]])]),
     (''spec'', JDict [(''serviceAccountName'', JStr ''hestia-ci-maintenance-admission''), (''volumes'', ex_volumes)]),
     (''status'', JDict [(''phase'', JStr ''Running'')])]"

definition ex_pods :: "jval list \<Rightarrow> jval" where
  "ex_pods ps = JDict [(''metadata'', JDict []), (''items'', JList ps)]"

definition ex_job :: jval where
  "ex_job = JDict [
     (''metadata'', JDict [(''uid'', JStr ''cju''), (''namespace'', JStr ''ci-maintenance''), (''name'', JStr ''cjob''),
        (''ownerReferences'', JList [JDict [(''kind'', JStr ''CronJob''), (''name'', JStr ''hestia-ci-maintenance-admission''),
           (''controller'', JBool True), (''uid'', JStr ''cron'')]]),
        (''annotations'', JDict [(''batch.kubernetes.io/cronjob-scheduled-timestamp'', JStr ''2026-01-01T00:47:00Z'')])]),
     (''spec'', JDict [(''template'', JDict [(''spec'', JDict [
        (''serviceAccountName'', JStr ''hestia-ci-maintenance-admission''), (''volumes'', ex_volumes)])])])]"

lemma ex_good:
  "good (ex_pods [])" "good (ex_pods [ex_coord_pod])" "good ex_job" "good (JDict [(''id'', JInt 2), (''paused'', JBool b)])"
  by (simp_all add: good_def ex_pods_def ex_coord_pod_def ex_job_def ex_volumes_def show_int_def show_nat.simps)

lemmas ex_pod_defs = ex_coord_pod_def pmeta_def pspec_def pstatus_def as_dict_def dsub_def pod_uid_def pod_ns_def pod_name_def
  pod_phase_def str_of_def

lemma ex_pods_empty: "pods_payload ns (ex_pods []) = Inr []"
  by (simp add: pods_payload_def ex_pods_def)

lemma ex_pods_coord: "pods_payload CONTROL_NAMESPACE (ex_pods [ex_coord_pod]) = Inr [ex_coord_pod]"
  by (simp add: pods_payload_def ex_pods_def pod_ok_def ex_pod_defs CONTROL_NAMESPACE_def wf_text_def)

lemma ex_coord_identity: "pod_identity ex_coord_pod = Inr ex_coord"
  by (simp add: pod_identity_def owner_ref_def ex_pod_defs ex_coord_def wf_text_def)

definition ex_slot :: int where
  "ex_slot = 1767228420"

lemma ex_schedule: "parse_schedule (JStr ''2026-01-01T00:47:00Z'') = Inr ex_slot"
  by (simp add: parse_schedule_def schedule_form_def is_digit_def num_at_def read_nat_def digit_val_def Let_def
      days_in_month_def timestamp_def date_ordinal_def days_before_month_def is_leap_def ex_slot_def)

lemma ex_bundle: "policy_bundle ex_coord_pod = Inr ''hestia-ci-cache-retention-1''"
  by (simp add: policy_bundle_def ex_coord_pod_def ex_volumes_def jitem_JDict iter_def wf_text_def)

lemma ex_scheduled_job: "scheduled_job ex_coord_pod ADMISSION_CRON ex_coord ex_job = Inr ex_slot"
  unfolding scheduled_job_def
  by (simp add: ex_bundle ex_schedule ex_job_def ex_coord_def cron_namespace_def ADMISSION_CRON_def RETENTION_CRON_def
      CONTROL_NAMESPACE_def WORKER_NAMESPACE_def ex_coord_pod_def pspec_def dsub_def as_dict_def policy_bundle_def
      jitem_JDict iter_def wf_text_def ex_volumes_def Let_def)

definition ex_snapshot_trace :: "jval list \<Rightarrow> (kact \<times> kresp) list" where
  "ex_snapshot_trace ps =
     [(Http (st_base ex_store) ''GET'' (pods_path ''ci'') None, reply (ex_pods []))] @
     ([(Http (st_base ex_store) ''GET'' (pods_path CONTROL_NAMESPACE) None, reply (ex_pods ps))] @
      ([(Http (st_base ex_store) ''GET'' (pods_path WORKER_NAMESPACE) None, reply (ex_pods []))] @ []))"

lemma runs_snapshotI:
  assumes "good (ex_pods ps)" and "pods_payload CONTROL_NAMESPACE (ex_pods ps) = Inr ps" and "distinct (map pod_uid ps)"
  shows "runs (snapshot_all (st_base ex_store)) (ex_snapshot_trace ps) (Ret ps)"
proof -
  have "merge_snapshots [] ps [] = Inr ps"
    using assms(3) by (simp add: merge_snapshots_Inr)
  then have "runs (liftr (merge_snapshots [] ps [])) [] (Ret ps)" by simp
  then show ?thesis unfolding snapshot_all_def ex_snapshot_trace_def
    by (intro runs_pbindI [OF runs_podsI] assms ex_good ex_base(1)) (simp_all add: ex_pods_empty assms(2))
qed

definition ex_paused :: mstate where
  "ex_paused = set_op ex_idle PAUSE_INTENT (new_operation (st_sha ex_store) ex_slot ex_coord (st_policy ex_store))"

lemma ex_paused_wf: "wf_state (st_sha ex_store) ''u1'' (st_policy ex_store) ex_paused"
  by (simp add: wf_state_def wf_operation_def ex_paused_def ex_idle_def ex_store_def set_op_def new_operation_def
      wf_text_def wf_ident_def ex_coord_def CONTROL_NAMESPACE_def ex_slot_def operation_hash_def)

lemma ex_cms:
  "good (JDict (ex_cm ''1'' ex_idle))" "good (JDict (ex_cm ''2'' ex_paused))"
  by (rule good_cm; simp add: encode_def enc_op_def enc_ident_def enc_opt_def ex_idle_def ex_paused_def set_op_def
        new_operation_def ex_coord_def ex_slot_def operation_hash_def ex_store_def show_int_def show_nat.simps)+

definition ex_pause_trace :: "(kact \<times> kresp) list" where
  "ex_pause_trace = ex_snapshot_trace [ex_coord_pod] @
     ([(Http (st_base ex_store) ''GET'' (job_path ''ci-maintenance'' ''cjob'') None, reply ex_job)] @
     ([(Now, Time 1767228425)] @
     ([(Http (st_base ex_store) ''GET'' STATE None, reply (JDict (ex_cm ''1'' ex_idle)))] @
     ([(Now, Time 1767228426)] @ ([(Now, Time 1767228427)] @
     ([(Http GITLAB ''GET'' RUNNER_PATH None, reply (JDict [(''id'', JInt 2), (''paused'', JBool False)]))] @
     [(Http (st_base ex_store) ''PUT'' STATE (Some (JDict (desired (ex_cm ''1'' ex_idle) ex_paused))), reply (ex_pods [])),
      (Http (st_base ex_store) ''GET'' STATE None, reply (JDict (ex_cm ''2'' ex_paused)))]))))))"

lemma runs_scheduledI:
  "runs (scheduled (st_base ex_store) ex_coord_pod ADMISSION_CRON)
     [(Http (st_base ex_store) ''GET'' (job_path ''ci-maintenance'' ''cjob'') None, reply ex_job)] (Ret ex_slot)"
proof -
  have j: "prefix ''/'' (job_path ''ci-maintenance'' ''cjob'') \<and> \<not> prefix ''//'' (job_path ''ci-maintenance'' ''cjob'')"
    by (simp add: job_path_def)
  have i: "id_ns ex_coord = ''ci-maintenance''" "id_job ex_coord = ''cjob''" by (simp_all add: ex_coord_def)
  have "cron_namespace ADMISSION_CRON = ''ci-maintenance''"
    by (simp add: cron_namespace_def ADMISSION_CRON_def RETENTION_CRON_def CONTROL_NAMESPACE_def)
  with j i ex_base(1) show ?thesis
    by (simp add: scheduled_def ex_coord_identity request_def good_reply [OF ex_good(3)] ex_scheduled_job)
qed

definition ex_pause_put :: kact where
  "ex_pause_put = Http GITLAB ''PUT'' RUNNER_PATH (paused_body True)"

text \<open>After the durable intent the next action is the request to pause.\<close>

lemma ex_pause_next: "\<exists>k. pause_and_drain n ex_store ''u1'' own ex_coord ex_slot (ex_cm ''1'' ex_idle) ex_idle
    = pbind (store_save ex_store ''u1'' (ex_cm ''1'' ex_idle) ex_paused) (\<lambda>_. Act ex_pause_put k)"
proof -
  have "\<not> prefix ''//'' RUNNER_PATH \<and> prefix ''/'' RUNNER_PATH \<and> gitlab_authority ''PUT'' RUNNER_PATH (paused_body True)"
    by (simp add: RUNNER_PATH_def gitlab_authority_def paused_body_def has_keys_def)
  then show ?thesis
    by (auto simp: pause_and_drain_def ex_paused_def gitlab_put_def request_def ex_pause_put_def)
qed

lemma ex_pause_runs: "\<exists>p'. runs (coordinate n ex_store ex_coord) (ex_pause_trace @ [(ex_pause_put, r)]) p'"
proof -
  obtain k where k: "pause_and_drain n ex_store ''u1'' ex_coord_pod ex_coord ex_slot (ex_cm ''1'' ex_idle) ex_idle
    = pbind (store_save ex_store ''u1'' (ex_cm ''1'' ex_idle) ex_paused) (\<lambda>_. Act ex_pause_put k)"
    using ex_pause_next by blast
  have save: "runs (pbind (store_save ex_store ''u1'' (ex_cm ''1'' ex_idle) ex_paused) (\<lambda>_. Act ex_pause_put k))
      ([(Http (st_base ex_store) ''PUT'' STATE (Some (JDict (desired (ex_cm ''1'' ex_idle) ex_paused))), reply (ex_pods [])),
      (Http (st_base ex_store) ''GET'' STATE None, reply (JDict (ex_cm ''2'' ex_paused)))] @ [(ex_pause_put, r)]) (k r)"
    by (rule runs_pbindI [OF runs_saveI [OF ex_cms(2) ex_good(1) ex_paused_wf read_ex_cm [OF ex_paused_wf] ex_base(1)]])
       (simp_all add: wf_text_def)
  have read: "runs (store_read ex_store None) [(Http (st_base ex_store) ''GET'' STATE None, reply (JDict (ex_cm ''1'' ex_idle)))]
      (Ret (ex_cm ''1'' ex_idle, ex_idle, ''u1''))"
    by (rule runs_readI [OF ex_cms(1) read_ex_cm [OF ex_idle_wf] ex_base(1)]) (simp_all add: wf_text_def)
  have snap: "runs (snapshot_all (st_base ex_store)) (ex_snapshot_trace [ex_coord_pod]) (Ret [ex_coord_pod])"
    by (rule runs_snapshotI [OF ex_good(2) ex_pods_coord]) simp
  have base: "runs runner [(Http GITLAB ''GET'' RUNNER_PATH None, reply (JDict [(''id'', JInt 2), (''paused'', JBool False)]))] (Ret False)"
    by (rule runs_runnerI [OF ex_good(4)]) (simp add: runner_value_def)
  have own: "find (\<lambda>p. pod_uid p = id_uid ex_coord) [ex_coord_pod] = Some ex_coord_pod"
    by (simp add: ex_pod_defs ex_coord_def)
  have t: "(1767228427::rat) + 2700 < of_int TOKEN_EXPIRY"
    by (simp add: TOKEN_EXPIRY_def timestamp_def date_ordinal_def days_before_month_def days_in_month_def is_leap_def
        upto.simps)
  have "runs (coordinate n ex_store ex_coord) (ex_pause_trace @ [(ex_pause_put, r)]) (k r)"
    unfolding coordinate_def ex_pause_trace_def append_assoc
    apply (rule runs_pbindI [OF snap])
    apply (simp only: own option.case)
    apply (rule runs_pure(1) [OF ex_coord_identity], rule runs_pure(2), rule refl)
    apply (rule runs_pbindI [OF runs_scheduledI], rule runs_pbindI [OF runs_nowI])
    apply (rule runs_pure(2), simp add: ex_slot_def)
    apply (rule runs_pbindI [OF read], simp only: prod.case)
    apply (rule runs_pure(2), simp add: ex_idle_def)
    apply (rule runs_pbindI [OF runs_nowI], rule runs_pure(2), simp add: ex_idle_def)
    apply (rule runs_pbindI [OF runs_nowI], rule runs_pure(2), rule t)
    apply (rule runs_pure(1) [of _ "()"], simp add: previous_retired_def ex_idle_def)
    apply (rule runs_pbindI [OF base])
    using save by (simp add: k)
  then show ?thesis by blast
qed

subsection \<open>A recovery that resumes the runner\<close>

definition ex_recoverer :: ident where
  "ex_recoverer = \<lparr>id_ns = ''ci-maintenance'', id_name = ''recover'', id_uid = ''ru'', id_job = ''rjob'', id_job_uid = ''rju''\<rparr>"

text \<open>The coordinator's Pod after it has ended.\<close>

definition ex_ended_pod :: jval where
  "ex_ended_pod = JDict [
     (''metadata'', JDict [(''namespace'', JStr ''ci-maintenance''), (''uid'', JStr ''cu''), (''name'', JStr ''coord''),
        (''labels'', JDict []), (''ownerReferences'', JList [JDict [(''controller'', JBool True), (''kind'', JStr ''Job''),
           (''name'', JStr ''cjob''), (''uid'', JStr ''cju'')]])]),
     (''spec'', JDict [(''containers'', JList [JDict [(''name'', JStr ''c'')]])]),
     (''status'', JDict [(''phase'', JStr ''Succeeded''), (''containerStatuses'', JList [JDict [(''name'', JStr ''c''),
        (''state'', JDict [(''terminated'', JDict [])])]])])]"

lemmas ex_ended_defs = ex_ended_pod_def pmeta_def pspec_def pstatus_def as_dict_def dsub_def pod_uid_def pod_ns_def pod_name_def
  pod_phase_def str_of_def

lemma ex_ended_identity: "pod_identity ex_ended_pod = Inr ex_coord"
  by (simp add: pod_identity_def owner_ref_def ex_ended_defs ex_coord_def wf_text_def)

lemma ex_ended_pods: "pods_payload CONTROL_NAMESPACE (ex_pods [ex_ended_pod]) = Inr [ex_ended_pod]"
  by (simp add: pods_payload_def ex_pods_def pod_ok_def ex_ended_defs CONTROL_NAMESPACE_def wf_text_def)

lemma ex_ended_terminal: "terminal [ex_ended_pod] ex_coord = Inr True"
proof -
  have "pod_ns ex_ended_pod = id_ns ex_coord \<and> pod_name ex_ended_pod = id_name ex_coord \<and> pod_uid ex_ended_pod = id_uid ex_coord
      \<and> pod_phase ex_ended_pod = ''Succeeded'' \<and> truthy (dget ''containers'' (pspec ex_ended_pod))"
    by (simp add: ex_ended_defs ex_coord_def)
  moreover have "containers_terminated ex_ended_pod ''containers'' ''containerStatuses'' = Inr True"
      "containers_terminated ex_ended_pod ''initContainers'' ''initContainerStatuses'' = Inr True"
      "containers_terminated ex_ended_pod ''ephemeralContainers'' ''ephemeralContainerStatuses'' = Inr True"
    by (simp_all add: containers_terminated_def ex_ended_defs iter_def jitem_JDict hashable_def)
  ultimately show ?thesis by (simp add: terminal_def ex_ended_identity)
qed

lemma ex_ended_good: "good (ex_pods [ex_ended_pod])"
  by (simp add: good_def ex_pods_def ex_ended_pod_def)

definition ex_operation :: operation where
  "ex_operation = (new_operation (st_sha ex_store) ex_slot ex_coord (st_policy ex_store))
     \<lparr>op_write := WNone, op_outcome := ''drain-timeout''\<rparr>"

definition ex_closing :: mstate where
  "ex_closing = set_op ex_idle CLOSING ex_operation"

definition ex_restoring :: mstate where
  "ex_restoring = set_op ex_closing RESTORING
     (ex_operation\<lparr>op_outcome := ''drain-timeout'', op_holder := Some ex_recoverer, op_write := WRestore\<rparr>)"

lemmas ex_state_defs = ex_closing_def ex_restoring_def ex_operation_def ex_idle_def ex_store_def set_op_def new_operation_def
  ex_coord_def ex_recoverer_def ex_slot_def operation_hash_def

lemma ex_recovery_wf:
  "wf_state (st_sha ex_store) ''u1'' (st_policy ex_store) ex_closing"
  "wf_state (st_sha ex_store) ''u1'' (st_policy ex_store) ex_restoring"
  by (simp_all add: wf_state_def wf_operation_def ex_state_defs wf_text_def wf_ident_def CONTROL_NAMESPACE_def)

lemma ex_recovery_cms: "good (JDict (ex_cm rv ex_closing))" "good (JDict (ex_cm rv ex_restoring))" if "length rv \<le> 10"
  by (rule good_cm [OF _ that]; simp add: encode_def enc_op_def enc_ident_def enc_opt_def ex_state_defs show_int_def show_nat.simps)+

definition ex_get :: "string \<Rightarrow> mstate \<Rightarrow> kact \<times> kresp" where
  "ex_get rv s = (Http (st_base ex_store) ''GET'' STATE None, reply (JDict (ex_cm rv s)))"

definition ex_put :: "string \<Rightarrow> mstate \<Rightarrow> mstate \<Rightarrow> kact \<times> kresp" where
  "ex_put rv s s' = (Http (st_base ex_store) ''PUT'' STATE (Some (JDict (desired (ex_cm rv s) s'))), reply (ex_pods []))"

lemma ex_read_runs:
  assumes "good (JDict (ex_cm rv s))" and "wf_state (st_sha ex_store) ''u1'' (st_policy ex_store) s" and "wf_text rv"
    and "latch = None \<or> latch = Some ''u1''"
  shows "runs (store_read ex_store latch) [ex_get rv s] (Ret (ex_cm rv s, s, ''u1''))"
  unfolding ex_get_def by (rule runs_readI [OF assms(1) read_ex_cm [OF assms(2-4)] ex_base(1)])

lemma ex_save_runs:
  assumes "good (JDict (ex_cm rv' s'))" and "wf_state (st_sha ex_store) ''u1'' (st_policy ex_store) s'" and "wf_text rv'"
  shows "runs (store_save ex_store ''u1'' (ex_cm rv s) s') [ex_put rv s s', ex_get rv' s'] (Ret s')"
  unfolding ex_get_def ex_put_def
  by (rule runs_saveI [OF assms(1) ex_good(1) assms(2) read_ex_cm [OF assms(2,3)] ex_base(1)]) simp

definition ex_resume_put :: kact where
  "ex_resume_put = Http GITLAB ''PUT'' RUNNER_PATH (paused_body False)"

definition ex_credential_trace :: "(kact \<times> kresp) list" where
  "ex_credential_trace = [(Now, Time 1767230000)] @
     ([(Http GITLAB ''GET'' RUNNER_PATH None, reply (JDict [(''id'', JInt 2), (''paused'', JBool True)]))] @ [])"

definition ex_resume_trace :: "(kact \<times> kresp) list" where
  "ex_resume_trace = [ex_get ''3'' ex_closing] @
     (ex_credential_trace @
     ([(Now, Time 1767228400)] @
     ([ex_put ''3'' ex_closing ex_closing, ex_get ''4'' ex_closing] @
     ([ex_get ''4'' ex_closing] @
     (ex_snapshot_trace [ex_ended_pod] @
     ([(Now, Time 1767230001)] @
     ([ex_put ''4'' ex_closing ex_closing, ex_get ''5'' ex_closing] @
     ([ex_get ''5'' ex_closing] @
      [ex_put ''5'' ex_closing ex_restoring, ex_get ''6'' ex_restoring]))))))))"

lemma runs_pcatchI: "runs m t (Ret x) \<Longrightarrow> runs (pcatch m h) t (Ret x)"
proof (induction m arbitrary: t)
  case (Act q k)
  then show ?case by (cases t) (auto elim!: runs_ConsE)
qed (auto simp: runs_ended)

lemma ex_credential_runs:
  "runs credential_check ex_credential_trace (Ret ())"
proof -
  have "(1767230000::rat) + 60 < of_int TOKEN_EXPIRY"
    by (simp add: TOKEN_EXPIRY_def timestamp_def date_ordinal_def days_before_month_def days_in_month_def is_leap_def upto.simps)
  then show ?thesis unfolding credential_check_def ex_credential_trace_def
    by (intro runs_pbindI [OF runs_nowI] runs_pure(2) runs_pbindI [OF runs_runnerI [OF ex_good(4)]])
       (simp_all add: runner_value_def)
qed

text \<open>What is left of the recovery after its durable intent to restore.\<close>

definition ex_resume_rest :: "unit kprog" where
  "ex_resume_rest = pbind (pcatch (gitlab_put False ''restore readback failed'')
     (\<lambda>_. unknown_write ex_store ''u1'' ''unknown-restore-write'')) (\<lambda>_. finish_restore ex_store ''u1'' ex_recoverer)"

lemma ex_restore_eq: "restore ex_store ''u1'' ex_recoverer [ex_ended_pod] (ex_cm ''5'' ex_closing) ex_closing
    = pbind (store_save ex_store ''u1'' (ex_cm ''5'' ex_closing) ex_restoring) (\<lambda>_. ex_resume_rest)"
proof -
  have "ms_operation ex_closing = Some ex_operation" by (simp add: ex_closing_def set_op_def)
  moreover have "op_coordinator ex_operation = ex_coord" "\<not> op_claimed ex_operation" "op_holder ex_operation = None"
      "op_write ex_operation = WNone" "op_outcome ex_operation = ''drain-timeout''" "\<not> op_baseline ex_operation"
    by (simp_all add: ex_operation_def new_operation_def)
  ultimately show ?thesis
    by (simp add: restore_def the_op_def owners_retired_def ex_ended_terminal final_outcome_def ex_resume_rest_def ex_restoring_def)
qed

lemma ex_resume_prefix:
  assumes rest: "runs ex_resume_rest t p'"
  shows "runs (recover ex_store ex_recoverer) (ex_resume_trace @ t) p'"
proof -
  have t: "wf_text ''3'' \<and> wf_text ''4'' \<and> wf_text ''5'' \<and> wf_text ''6''" by (simp add: wf_text_def)
  have rd: "runs (store_read ex_store latch) [ex_get rv ex_closing] (Ret (ex_cm rv ex_closing, ex_closing, ''u1''))"
    if "rv \<in> {''3'', ''4'', ''5''}" "latch = None \<or> latch = Some ''u1''" for rv latch
    using that t by (intro ex_read_runs ex_recovery_cms ex_recovery_wf) auto
  have sv: "runs (store_save ex_store ''u1'' (ex_cm rv ex_closing) ex_closing) [ex_put rv ex_closing ex_closing, ex_get rv' ex_closing] (Ret ex_closing)"
    if "rv' \<in> {''4'', ''5''}" for rv rv'
    using that t by (intro ex_save_runs ex_recovery_cms ex_recovery_wf) auto
  have last: "runs (store_save ex_store ''u1'' (ex_cm ''5'' ex_closing) ex_restoring)
      [ex_put ''5'' ex_closing ex_restoring, ex_get ''6'' ex_restoring] (Ret ex_restoring)"
    using t by (intro ex_save_runs ex_recovery_cms ex_recovery_wf) auto
  have snap: "runs (snapshot_all (st_base ex_store)) (ex_snapshot_trace [ex_ended_pod]) (Ret [ex_ended_pod])"
    by (rule runs_snapshotI [OF ex_ended_good ex_ended_pods]) simp
  have ph: "ms_phase ex_closing = CLOSING" "ms_gc ex_closing = None" "ms_operation ex_closing = Some ex_operation"
      "op_recover_by ex_operation = 1767231120" "ex_closing\<lparr>ms_phase := CLOSING\<rparr> = ex_closing"
      "ex_closing\<lparr>ms_heartbeat := int_trunc 1767228400\<rparr> = ex_closing"
    by (simp_all add: ex_state_defs int_trunc_def)
  have "runs (recover_operation ex_store ''u1'' ex_recoverer (ex_cm ''4'' ex_closing) ex_closing)
      (ex_snapshot_trace [ex_ended_pod] @ ([(Now, Time 1767230001)] @
     ([ex_put ''4'' ex_closing ex_closing, ex_get ''5'' ex_closing] @
     ([ex_get ''5'' ex_closing] @
      ([ex_put ''5'' ex_closing ex_restoring, ex_get ''6'' ex_restoring] @ t))))) p'"
    unfolding recover_operation_def
    apply (simp only: ph phase.distinct insert_iff empty_iff if_False simp_thms)
    apply (rule runs_pbindI [OF snap], rule runs_pbindI [OF runs_nowI])
    apply (simp add: the_op_def ph recover_waits_def)
    by (rule runs_pbindI [OF sv, simplified] runs_pbindI [OF rd, simplified] | simp add: ex_restore_eq runs_pbindI [OF last, simplified] rest)+
  then have op: "runs (recover_gc ex_store ''u1'' ex_recoverer (ex_cm ''4'' ex_closing) ex_closing)
      (ex_snapshot_trace [ex_ended_pod] @ ([(Now, Time 1767230001)] @
     ([ex_put ''4'' ex_closing ex_closing, ex_get ''5'' ex_closing] @
     ([ex_get ''5'' ex_closing] @
      ([ex_put ''5'' ex_closing ex_restoring, ex_get ''6'' ex_restoring] @ t))))) p'"
    by (simp add: recover_gc_def ph)
  show ?thesis
    unfolding recover_def ex_resume_trace_def append_assoc
    apply (rule runs_pbindI [OF rd], simp, simp)
    apply (simp only: prod.case ph phase.distinct if_False)
    apply (rule runs_pbindI [OF runs_pcatchI [OF ex_credential_runs]])
    apply (rule runs_pbindI [OF runs_nowI])
    apply (simp only: ph)
    apply (rule runs_pbindI [OF sv], simp)
    apply (rule runs_pbindI [OF rd], simp, simp)
    using op by simp
qed

text \<open>The next action is the request to resume.\<close>

lemma ex_resume_runs: "\<exists>p'. runs (recover ex_store ex_recoverer) (ex_resume_trace @ [(ex_resume_put, r)]) p'"
proof -
  have "\<not> prefix ''//'' RUNNER_PATH \<and> prefix ''/'' RUNNER_PATH \<and> gitlab_authority ''PUT'' RUNNER_PATH (paused_body False)"
    by (simp add: RUNNER_PATH_def gitlab_authority_def paused_body_def has_keys_def)
  then obtain k where k: "ex_resume_rest = Act ex_resume_put k"
    by (auto simp: ex_resume_rest_def gitlab_put_def request_def ex_resume_put_def)
  have "runs ex_resume_rest [(ex_resume_put, r)] (k r)" unfolding k by (simp add: runs.Done)
  from ex_resume_prefix [OF this] show ?thesis by blast
qed

end
