(* ===== verification/Pod_Gate.thy ===== *)
theory Pod_Gate
  imports Admission_Runs
begin

section \<open>The Pod gate of the retention policy\<close>

text \<open>
  The first part of \<^verbatim>\<open>cache-retention.py\<close>: the decision over a Pod list
  (\<open>pod_gate\<close>), the collection of the lists of two namespaces (\<open>combined_pods\<close>), the bounded
  wait for the own Pod (\<open>wait_for_gate\<close>) and the gate itself (\<open>api_gate\<close>). The gate is also
  an argument of \<^const>\<open>gc_claim\<close>; the lemma \<open>api_gate_reads\<close> shows that it meets what
  \<^const>\<open>gc_claim\<close> asks of it.
\<close>

subsection \<open>The decision over a Pod list\<close>

record gate_state =
  gs_seen :: bool
  gs_pending :: bool
  gs_uids :: "string list"

definition JOB_LABEL :: string where
  "JOB_LABEL = ''ci.brmartin.co.uk/job''"

definition MAINTENANCE_LABEL :: string where
  "MAINTENANCE_LABEL = ''ci.brmartin.co.uk/maintenance''"

definition active_phase :: "string \<Rightarrow> bool" where
  "active_phase ph = (ph \<in> {''Running'', ''Pending''})"

definition final_phase :: "string \<Rightarrow> bool" where
  "final_phase ph = (ph \<in> {''Failed'', ''Succeeded''})"

definition remote_node :: "string \<Rightarrow> bool" where
  "remote_node n = (n \<in> {''heracles'', ''nyx''})"

text \<open>The checks on one Pod after its identity has been read.\<close>

definition gate_decide ::
    "string \<Rightarrow> gate_state \<Rightarrow> dict \<Rightarrow> dict \<Rightarrow> string \<Rightarrow> string \<Rightarrow> string \<Rightarrow> string \<Rightarrow> gate_state res" where
  "gate_decide self_uid g meta labels uid name phase node =
     (let g' = g\<lparr>gs_uids := uid # gs_uids g\<rparr> in
      if uid = self_uid then
        (if gs_seen g \<or> dget MAINTENANCE_LABEL labels \<noteq> JStr ''true'' \<or> dget JOB_LABEL labels \<noteq> JStr ''true''
            \<or> node \<noteq> ''hestia'' \<or> \<not> active_phase phase \<or> truthy (dget ''deletionTimestamp'' meta)
         then Inl (Refuse ''inconsistent maintenance Pod identity'')
         else Inr (g'\<lparr>gs_seen := True, gs_pending := (phase = ''Pending'')\<rparr>))
      else if dget JOB_LABEL labels = JStr ''true'' then
        (if truthy (dget ''deletionTimestamp'' meta) \<or> \<not> (active_phase phase \<or> final_phase phase)
         then Inl (Refuse (''terminating or unknown-phase CI Pod: '' @ name))
         else if active_phase phase \<and> \<not> remote_node node
         then Inl (Refuse (''active CI Pod: '' @ name @ '' ('' @ phase @ '')''))
         else Inr g')
      else Inr g')"

definition gate_pod :: "string \<Rightarrow> gate_state \<Rightarrow> jval \<Rightarrow> gate_state res" where
  "gate_pod self_uid g p =
     rbind (require (is_dict p) ''invalid Pod item'') (\<lambda>_.
     rbind (require (list_all (\<lambda>k. is_dict (dget k (as_dict p))) [''metadata'', ''spec'', ''status'']) ''incomplete Pod identity'') (\<lambda>_.
     (let uid = dget ''uid'' (pmeta p); name = dget ''name'' (pmeta p); labels = dget ''labels'' (pmeta p);
          phase = dget ''phase'' (pstatus p); node = dget_or ''nodeName'' (JStr []) (pspec p) in
      rbind (require (list_all is_str [uid, name, phase, node] \<and> is_dict labels) ''invalid Pod identity types'') (\<lambda>_.
      rbind (require (uid \<noteq> JStr [] \<and> name \<noteq> JStr [] \<and> str_of uid \<notin> set (gs_uids g)) ''empty or duplicate Pod identity'') (\<lambda>_.
      gate_decide self_uid g (pmeta p) (as_dict labels) (str_of uid) (str_of name) (str_of phase) (str_of node))))))"

fun gate_pods :: "string \<Rightarrow> gate_state \<Rightarrow> jval list \<Rightarrow> gate_state res" where
  "gate_pods self_uid g [] = Inr g"
| "gate_pods self_uid g (p # ps) = rbind (gate_pod self_uid g p) (\<lambda>g'. gate_pods self_uid g' ps)"

definition items_of :: "jval \<Rightarrow> jval list" where
  "items_of v = (case dget ''items'' (as_dict v) of JList xs \<Rightarrow> xs | _ \<Rightarrow> [])"

definition pod_gate :: "jval \<Rightarrow> string \<Rightarrow> bool res" where
  "pod_gate payload self_uid =
     rbind (require (is_dict payload \<and> is_list (dget ''items'' (as_dict payload))) ''invalid Pod list'') (\<lambda>_.
     rbind (require (is_dict (dget ''metadata'' (as_dict payload))
              \<and> dget_or ''continue'' (JStr []) (pmeta payload) = JStr []) ''incomplete Pod list'') (\<lambda>_.
     rbind (gate_pods self_uid \<lparr>gs_seen = False, gs_pending = False, gs_uids = []\<rparr> (items_of payload)) (\<lambda>g.
     rbind (require (gs_seen g) ''maintenance Pod absent'') (\<lambda>_.
     Inr (\<not> gs_pending g)))))"

subsection \<open>The lists of two namespaces\<close>

definition listed_pod_ok :: "string \<Rightarrow> string list \<Rightarrow> jval \<Rightarrow> string res" where
  "listed_pod_ok ns seen p =
     rbind (require (is_dict p \<and> is_dict (dget ''metadata'' (as_dict p)) \<and> dget ''namespace'' (pmeta p) = JStr ns
              \<and> is_dict (dget ''spec'' (as_dict p)) \<and> is_dict (dget ''status'' (as_dict p)))
              ''wrong namespace or malformed Pod'') (\<lambda>_.
     rbind (require (list_all (\<lambda>k. is_str (dget k (pmeta p)) \<and> dget k (pmeta p) \<noteq> JStr []) [''uid'', ''name'']
              \<and> pod_uid p \<notin> set seen \<and> is_dict (dget ''labels'' (pmeta p)) \<and> is_str (dget ''phase'' (pstatus p))
              \<and> is_str (dget_or ''nodeName'' (JStr []) (pspec p))) ''invalid namespace Pod identity'') (\<lambda>_.
     Inr (pod_uid p)))"

fun listed_pods_ok :: "string \<Rightarrow> string list \<Rightarrow> jval list \<Rightarrow> unit res" where
  "listed_pods_ok ns seen [] = Inr ()"
| "listed_pods_ok ns seen (p # ps) = rbind (listed_pod_ok ns seen p) (\<lambda>u. listed_pods_ok ns (u # seen) ps)"

definition listed_items :: "string \<Rightarrow> jval \<Rightarrow> jval list res" where
  "listed_items ns payload =
     rbind (require (is_dict payload \<and> is_list (dget ''items'' (as_dict payload)) \<and> is_dict (dget ''metadata'' (as_dict payload))
              \<and> dget_or ''continue'' (JStr []) (pmeta payload) = JStr []) ''incomplete namespace Pod list'') (\<lambda>_.
     rbind (listed_pods_ok ns [] (items_of payload)) (\<lambda>_. Inr (items_of payload)))"

definition combined_pods :: "(string \<Rightarrow> jval kprog) \<Rightarrow> jval kprog" where
  "combined_pods fetch =
     pbind (fetch ''ci'') (\<lambda>v1. pbind (liftr (listed_items ''ci'' v1)) (\<lambda>i1.
     pbind (fetch ''ci-maintenance-worker'') (\<lambda>v2. pbind (liftr (listed_items ''ci-maintenance-worker'' v2)) (\<lambda>i2.
     Ret (JDict [(''metadata'', JDict []), (''items'', JList (i1 @ i2))])))))"

subsection \<open>Waiting\<close>

text \<open>\<^verbatim>\<open>for attempt in range(15)\<close>; the argument counts the attempts that are left.\<close>

fun wait_attempts :: "nat \<Rightarrow> jval kprog \<Rightarrow> string \<Rightarrow> unit kprog" where
  "wait_attempts 0 fetch uid = Fail (Refuse ''maintenance Pod did not become Running'')"
| "wait_attempts (Suc n) fetch uid =
     pbind fetch (\<lambda>payload. pbind (liftr (pod_gate payload uid)) (\<lambda>ready.
     if ready then Ret ()
     else pbind (if n \<noteq> 0 then sleep 2 else Ret ()) (\<lambda>_. wait_attempts n fetch uid)))"

definition wait_for_gate :: "jval kprog \<Rightarrow> string \<Rightarrow> unit kprog" where
  "wait_for_gate fetch uid = wait_attempts 15 fetch uid"

subsection \<open>The gate\<close>

definition load_response :: "kresp \<Rightarrow> jval res" where
  "load_response r = (case r of
     NetOk payload _ \<Rightarrow> (case json_loads payload of None \<Rightarrow> Inl (PyError ''JSONDecodeError'') | Some v \<Rightarrow> Inr v)
   | NetHttpError _ \<Rightarrow> Inl (PyError ''HTTPError'')
   | Raised e \<Rightarrow> Inl e
   | _ \<Rightarrow> Inl (PyError ''TypeError''))"

definition fetch_pods :: "string \<Rightarrow> string \<Rightarrow> jval kprog" where
  "fetch_pods base ns = Act (Http base ''GET'' (pods_path ns) None) (\<lambda>r. liftr (load_response r))"

definition worker_identity_ok :: "(string \<Rightarrow> string option) \<Rightarrow> string \<Rightarrow> jval list \<Rightarrow> bool" where
  "worker_identity_ok env uid items =
     (case filter (\<lambda>p. dget ''uid'' (pmeta p) = JStr uid) items of
        [p] \<Rightarrow> dget ''namespace'' (pmeta p) = JStr ''ci-maintenance-worker''
               \<and> (case env ''POD_NAME'' of None \<Rightarrow> False | Some n \<Rightarrow> dget ''name'' (pmeta p) = JStr n)
      | _ \<Rightarrow> False)"

definition gate_snapshot :: "string \<Rightarrow> (string \<Rightarrow> string option) \<Rightarrow> string \<Rightarrow> jval kprog" where
  "gate_snapshot base env uid =
     pbind (combined_pods (fetch_pods base)) (\<lambda>payload.
     pbind (prequire (worker_identity_ok env uid (items_of payload)) ''wrong worker Pod identity'') (\<lambda>_. Ret payload))"

definition api_gate :: "string \<Rightarrow> (string \<Rightarrow> string option) \<Rightarrow> unit kprog" where
  "api_gate base env =
     (case env ''POD_UID'' of
        Some uid \<Rightarrow>
          if env ''NODE_NAME'' = Some ''hestia'' \<and> uid \<noteq> [] \<and> env ''POD_NAMESPACE'' = Some ''ci-maintenance-worker''
          then wait_for_gate (gate_snapshot base env uid) uid
          else Fail (Refuse ''missing/wrong downward API identity'')
      | None \<Rightarrow> Fail (Refuse ''missing/wrong downward API identity''))"

subsection \<open>What a passed gate guarantees\<close>

text \<open>A Pod that does not touch the caches of this node: not a CI Pod, finished, or on another known node.\<close>

definition harmless :: "jval \<Rightarrow> bool" where
  "harmless p \<longleftrightarrow> dget JOB_LABEL (plabels p) \<noteq> JStr ''true''
     \<or> \<not> truthy (dget ''deletionTimestamp'' (pmeta p))
       \<and> (final_phase (pod_phase p)
          \<or> active_phase (pod_phase p) \<and> remote_node (str_of (dget_or ''nodeName'' (JStr []) (pspec p))))"

definition own_pod :: "string \<Rightarrow> jval \<Rightarrow> bool" where
  "own_pod uid p \<longleftrightarrow> pod_uid p = uid \<and> dget MAINTENANCE_LABEL (plabels p) = JStr ''true''
     \<and> dget_or ''nodeName'' (JStr []) (pspec p) = JStr ''hestia'' \<and> active_phase (pod_phase p)
     \<and> \<not> truthy (dget ''deletionTimestamp'' (pmeta p))"

lemma gate_decide_own:
  assumes "gate_decide uid g meta labels uid name phase node = Inr g'"
  shows "\<not> gs_seen g \<and> dget MAINTENANCE_LABEL labels = JStr ''true'' \<and> node = ''hestia'' \<and> active_phase phase
    \<and> \<not> truthy (dget ''deletionTimestamp'' meta)
    \<and> g' = g\<lparr>gs_uids := uid # gs_uids g, gs_seen := True, gs_pending := (phase = ''Pending'')\<rparr>"
  using assms unfolding gate_decide_def Let_def by (simp only: if_P refl split: if_split_asm) simp_all

lemma gate_decide_other:
  assumes "gate_decide self_uid g meta labels uid name phase node = Inr g'" and "uid \<noteq> self_uid"
  shows "(dget JOB_LABEL labels \<noteq> JStr ''true'' \<or> \<not> truthy (dget ''deletionTimestamp'' meta)
      \<and> (final_phase phase \<or> active_phase phase \<and> remote_node node))
    \<and> g' = g\<lparr>gs_uids := uid # gs_uids g\<rparr>"
  using assms unfolding gate_decide_def Let_def by (simp only: if_not_P split: if_split_asm) (simp_all, blast?)

lemma gate_pod_Inr:
  assumes "gate_pod self_uid g p = Inr g'"
  shows "pod_uid p \<notin> set (gs_uids g) \<and> gs_uids g' = pod_uid p # gs_uids g
     \<and> (if pod_uid p = self_uid
        then \<not> gs_seen g \<and> own_pod self_uid p \<and> gs_seen g' \<and> gs_pending g' = (pod_phase p = ''Pending'')
        else harmless p \<and> gs_seen g' = gs_seen g \<and> gs_pending g' = gs_pending g)"
proof -
  note r = assms [unfolded gate_pod_def Let_def require_then]
  obtain node where n: "dget_or ''nodeName'' (JStr []) (pspec p) = JStr node" using r by (auto simp: is_str_iff)
  have l: "as_dict (dget ''labels'' (pmeta p)) = plabels p" by (simp add: plabels_def dsub_def as_dict_def)
  have dec: "pod_uid p \<notin> set (gs_uids g)"
      "gate_decide self_uid g (pmeta p) (plabels p) (pod_uid p) (pod_name p) (pod_phase p) node = Inr g'"
    using r by (simp_all add: n l pod_uid_def pod_name_def pod_phase_def str_of_def)
  show ?thesis
  proof (cases "pod_uid p = self_uid")
    case True
    with gate_decide_own [OF dec(2) [folded True]] dec(1) show ?thesis by (simp add: own_pod_def n)
  next
    case False
    note o = gate_decide_other [OF dec(2) False]
    then have "harmless p" unfolding harmless_def n by (simp add: str_of_def)
    with o dec(1) False show ?thesis by simp
  qed
qed

lemma gate_pods_Inr:
  assumes "gate_pods self_uid g ps = Inr g'"
  shows "distinct (map pod_uid ps) \<and> set (map pod_uid ps) \<inter> set (gs_uids g) = {}
     \<and> (\<forall>p \<in> set ps. pod_uid p \<noteq> self_uid \<longrightarrow> harmless p)
     \<and> (gs_seen g' \<and> \<not> gs_seen g \<longrightarrow> (\<exists>p \<in> set ps. own_pod self_uid p \<and> gs_pending g' = (pod_phase p = ''Pending'')))
     \<and> (gs_seen g \<longrightarrow> gs_seen g' \<and> gs_pending g' = gs_pending g \<and> (\<forall>p \<in> set ps. pod_uid p \<noteq> self_uid))"
  using assms
proof (induction ps arbitrary: g)
  case (Cons p ps)
  obtain g1 where g1: "gate_pod self_uid g p = Inr g1" "gate_pods self_uid g1 ps = Inr g'"
    using Cons.prems by (auto simp: rbind_eq_Inr)
  note a = gate_pod_Inr [OF g1(1)] and b = Cons.IH [OF g1(2)]
  show ?case
  proof (cases "pod_uid p = self_uid")
    case True
    with a b show ?thesis by auto
  next
    case False
    with a b show ?thesis by auto
  qed
qed auto

lemma pod_gate_Inr:
  assumes "pod_gate payload self_uid = Inr True"
  shows "distinct (map pod_uid (items_of payload))
     \<and> (\<exists>p \<in> set (items_of payload). own_pod self_uid p \<and> pod_phase p = ''Running'')
     \<and> (\<forall>p \<in> set (items_of payload). pod_uid p \<noteq> self_uid \<longrightarrow> harmless p)"
proof -
  obtain g where g: "gate_pods self_uid \<lparr>gs_seen = False, gs_pending = False, gs_uids = []\<rparr> (items_of payload) = Inr g"
      "gs_seen g" "\<not> gs_pending g"
    using assms unfolding pod_gate_def require_then by (auto simp: rbind_eq_Inr require_eq_Inr)
  note b = gate_pods_Inr [OF g(1)]
  then obtain p where p: "p \<in> set (items_of payload)" "own_pod self_uid p" "pod_phase p \<noteq> ''Pending''"
    using g(2,3) by auto
  then have "pod_phase p = ''Running''" by (auto simp: own_pod_def active_phase_def)
  with b p show ?thesis by auto
qed

subsection \<open>The gate as a program\<close>

lemma api_gate_quiet: "acts (\<lambda>q. case q of Http b verb path body \<Rightarrow> b = base \<and> verb = ''GET'' \<and> body = None | Sleep n \<Rightarrow> True | Now \<Rightarrow> False)
    (api_gate base env)"
proof -
  let ?P = "\<lambda>q. case q of Http b verb path body \<Rightarrow> b = base \<and> verb = ''GET'' \<and> body = None | Sleep n \<Rightarrow> True | Now \<Rightarrow> False"
  have f: "acts ?P (fetch_pods base ns)" for ns by (simp add: fetch_pods_def)
  have s: "acts ?P (gate_snapshot base env uid)" for uid
    unfolding gate_snapshot_def combined_pods_def by (intro acts_intros f) simp_all
  have "acts ?P (wait_attempts n (gate_snapshot base env uid) uid)" for n uid
    by (induction n) (auto intro!: acts_intros s simp: sleep_def split: kresp.split)
  then show ?thesis by (auto simp: api_gate_def wait_for_gate_def split: option.split)
qed

lemma api_gate_reads: "reads_only st me (api_gate base env)"
  unfolding reads_only_def
  by (intro allI contract.spec_acts [OF api_gate_quiet]) (auto simp: write_allowed_def split: kact.splits)

lemma at_most_fetch: "at_most (gate_snapshot base env uid) 2"
proof -
  have f: "at_most (fetch_pods base ns) 1" for ns by (simp add: fetch_pods_def)
  have "at_most (combined_pods (fetch_pods base)) (1 + (1 + 0))"
    unfolding combined_pods_def by (intro at_most_pbind [OF f] at_most_bind_pure) simp
  then have "at_most (pbind (combined_pods (fetch_pods base)) (\<lambda>payload. pbind (prequire (c payload) s) (\<lambda>_. Ret payload))) (1 + (1 + 0) + 0)" for c s
    by (rule at_most_pbind) (intro at_most_bind_pure, simp)
  then show ?thesis unfolding gate_snapshot_def by (simp add: numeral_2_eq_2)
qed

lemma at_most_wait: "at_most (wait_attempts n (gate_snapshot base env uid) uid) (3 * n)"
proof (induction n)
  case (Suc n)
  have "at_most (if n \<noteq> 0 then sleep 2 else Ret ()) 1" by (simp add: sleep_def split: kresp.split)
  from at_most_pbind [OF this Suc.IH]
  have "at_most (if ready then Ret () else pbind (if n \<noteq> 0 then sleep 2 else Ret ()) (\<lambda>_. wait_attempts n (gate_snapshot base env uid) uid)) (1 + 3 * n)"
    for ready by simp
  then have "at_most (pbind (liftr (m :: bool res)) (\<lambda>ready. if ready then Ret ()
      else pbind (if n \<noteq> 0 then sleep 2 else Ret ()) (\<lambda>_. wait_attempts n (gate_snapshot base env uid) uid))) (1 + 3 * n)" for m
    by (rule at_most_bind_pure)
  then have "at_most (wait_attempts (Suc n) (gate_snapshot base env uid) uid) (2 + (1 + 3 * n))"
    unfolding wait_attempts.simps by (rule at_most_pbind [OF at_most_fetch])
  then show ?case by (rule at_most_le) simp
qed simp

text \<open>A gate that returns has seen a Pod list that \<^const>\<open>pod_gate\<close> accepts, in its last two responses.\<close>

lemma wait_attempts_Ret:
  "runs (wait_attempts n fetch uid) t (Ret ()) \<Longrightarrow>
     \<exists>t1 t2 payload. t = t1 @ t2 \<and> runs fetch t2 (Ret payload) \<and> pod_gate payload uid = Inr True"
proof (induction n arbitrary: t)
  case (Suc n)
  obtain t1 t2 payload ready where t: "t = t1 @ t2" "runs fetch t1 (Ret payload)" "pod_gate payload uid = Inr ready"
      and rest: "runs (if ready then Ret () else pbind (if n \<noteq> 0 then sleep 2 else Ret ()) (\<lambda>_. wait_attempts n fetch uid)) t2 (Ret ())"
    using Suc.prems by (auto dest!: runs_pbind_Ret simp: runs_liftr)
  show ?case
  proof (cases ready)
    case True
    with rest t show ?thesis by (intro exI [of _ "[]"] exI [of _ t1] exI [of _ payload]) (simp add: runs_ended)
  next
    case False
    then obtain t3 t4 where "t2 = t3 @ t4" "runs (wait_attempts n fetch uid) t4 (Ret ())"
      using rest by (auto dest!: runs_pbind_Ret)
    with Suc.IH [of t4] t(1) show ?thesis by (metis append_assoc)
  qed
qed (simp add: runs_ended)

lemma api_gate_Ret:
  assumes "runs (api_gate base env) t (Ret ())"
  shows "\<exists>uid t1 t2 payload. env ''POD_UID'' = Some uid \<and> t = t1 @ t2 \<and> runs (gate_snapshot base env uid) t2 (Ret payload)
    \<and> pod_gate payload uid = Inr True"
proof (cases "env ''POD_UID''")
  case None
  with assms show ?thesis by (simp add: api_gate_def runs_ended)
next
  case (Some uid)
  let ?c = "env ''NODE_NAME'' = Some ''hestia'' \<and> uid \<noteq> [] \<and> env ''POD_NAMESPACE'' = Some ''ci-maintenance-worker''"
  have r: "runs (if ?c then wait_attempts 15 (gate_snapshot base env uid) uid else Fail (Refuse ''missing/wrong downward API identity'')) t (Ret ())"
    using assms unfolding api_gate_def Some option.case wait_for_gate_def .
  have "?c" by (rule ccontr) (use r in \<open>simp only: if_False runs_ended\<close>, simp)
  from r [unfolded if_P [OF this]] have "runs (wait_attempts 15 (gate_snapshot base env uid) uid) t (Ret ())" .
  from wait_attempts_Ret [OF this] Some show ?thesis by blast
qed

end
