(* ===== verification/Admission_Properties.thy ===== *)
theory Admission_Properties
  imports Admission_Example Pod_Gate
begin

section \<open>The maintenance protocol is safe\<close>

text \<open>
  The properties of \<^verbatim>\<open>maintenance-admission.py\<close>, each with a witness on the concrete
  cluster of \<^verbatim>\<open>Admission_Example\<close>. The properties of the whole system start from any
  consistent state object: an idle one without an operation, as the operator's bootstrap leaves it
  (\<open>bootstrap_consistent\<close>), or one on which earlier processes have worked.
\<close>

definition consistent :: "store \<Rightarrow> dict \<Rightarrow> (string \<times> jval) set \<Rightarrow> mstate \<Rightarrow> bool" where
  "consistent st cm0 seen0 s0 \<longleftrightarrow> holds st cm0 s0 \<and> state_inv (evidence seen0) s0"

lemma bootstrap_consistent:
  "holds st cm0 s0 \<Longrightarrow> ms_phase s0 = IDLE \<Longrightarrow> ms_operation s0 = None \<Longrightarrow> consistent st cm0 seen0 s0"
  by (simp add: consistent_def state_inv_def)

lemma reachable_evolves:
  assumes "sys_reach st cm0 seen0 y" and "consistent st cm0 seen0 s0" and "holds st (sy_cur y) s"
  shows "evolves (pstep (st_sha st) (st_policy st)) (evidence seen0) s0 (evidence (sy_seen y)) s"
  using sys_inv_evolves [OF sys_inv_reachable assms(3)] assms(1,2) by (auto simp: consistent_def)

lemma reachable_state_inv:
  assumes "sys_reach st cm0 seen0 y" and "consistent st cm0 seen0 s0" and "holds st (sy_cur y) s"
  shows "state_inv (evidence (sy_seen y)) s"
  using admission.reachable_inv [OF reachable_evolves [OF assms]] assms(2) by (simp add: consistent_def)

lemma reachable_op_inv:
  assumes "sys_reach st cm0 seen0 y" and "consistent st cm0 seen0 s0" and "holds st (sy_cur y) s"
    and "ms_operation s = Some p"
  shows "op_inv (evidence (sy_seen y)) s p"
  using reachable_state_inv [OF assms(1-3)] assms(4) by (simp add: state_inv_def)

lemma reachable_state_latch:
  assumes "sys_reach st cm0 seen0 y" and "consistent st cm0 seen0 s0" and "holds st (sy_cur y) s"
    and "(sys_step st)\<^sup>*\<^sup>* y y'" and "holds st (sy_cur y') s'"
  shows "state_latch s s'"
proof -
  have "sys_inv st (evidence (sy_seen y)) s y"
    using sys_inv_restart [OF sys_inv_reachable [OF assms(1)] assms(3)] assms(2) by (auto simp: consistent_def)
  from sys_inv_evolves [OF sys_inv_steps [OF assms(4) this] assms(5)] reachable_state_inv [OF assms(1-3)]
  show ?thesis by (rule admission.reachable_latch)
qed

subsection \<open>Systems for the witnesses\<close>

text \<open>A recovery has been started on a given state object.\<close>

definition ex_sys :: "dict \<Rightarrow> (string \<times> jval) set \<Rightarrow> sys" where
  "ex_sys cm seen = (sys_start cm seen)\<lparr>sy_procs := [(ex_recoverer, recover ex_store ex_recoverer, {})]\<rparr>"

lemma ex_sys_step: "sys_step ex_store (sys_start cm seen) (ex_sys cm seen)"
  using sys_step.Spawn [OF protocol_program.Recover, of ex_store "sys_start cm seen" ex_recoverer]
  by (simp add: ex_sys_def sys_start_def)

lemma ex_sys_reach: "sys_reach ex_store cm seen (sys_start cm seen)" "sys_reach ex_store cm seen (ex_sys cm seen)"
  "(sys_step ex_store)\<^sup>*\<^sup>* (sys_start cm seen) (ex_sys cm seen)"
  using ex_sys_step sys_reach.Start sys_reach.Step by blast+

lemma ex_sys_cur [simp]: "sy_cur (sys_start cm seen) = cm" "sy_cur (ex_sys cm seen) = cm"
  "sy_seen (sys_start cm seen) = seen" "sy_seen (ex_sys cm seen) = seen"
  by (simp_all add: ex_sys_def sys_start_def)

lemma ex_consistent: "consistent ex_store (ex_cm ''1'' ex_idle) {} ex_idle"
  by (rule bootstrap_consistent [OF ex_start_holds]) (simp_all add: ex_idle_def)

text \<open>The responses that prove the coordinator retired, and the state of a restoration that rests on them.\<close>

definition ex_seen :: "(string \<times> jval) set" where
  "ex_seen = {(pods_path ''ci'', ex_pods []), (pods_path CONTROL_NAMESPACE, ex_pods [ex_ended_pod]),
     (pods_path WORKER_NAMESPACE, ex_pods [])}"

lemma ex_seen_evidence: "ex_coord \<in> evidence ex_seen"
proof (rule evidenceI [OF _ ex_ended_terminal])
  have "pods_seen ex_seen ''ci'' []" "pods_seen ex_seen CONTROL_NAMESPACE [ex_ended_pod]" "pods_seen ex_seen WORKER_NAMESPACE []"
    using ex_pods_empty ex_ended_pods by (auto simp: pods_seen_def ex_seen_def)
  moreover have "merge_snapshots [] [ex_ended_pod] [] = Inr [ex_ended_pod]" by (simp add: merge_snapshots_Inr)
  ultimately show "snapshot_seen ex_seen [ex_ended_pod]" unfolding snapshot_seen_def by blast
qed

definition ex_restoring_op :: operation where
  "ex_restoring_op = ex_operation\<lparr>op_outcome := ''drain-timeout'', op_holder := Some ex_recoverer, op_write := WRestore\<rparr>"

lemma ex_restoring_consistent:
  "holds ex_store (ex_cm ''6'' ex_restoring) ex_restoring" "consistent ex_store (ex_cm ''6'' ex_restoring) ex_seen ex_restoring"
  "ms_operation ex_restoring = Some ex_restoring_op" "ms_phase ex_restoring = RESTORING"
proof -
  show h: "holds ex_store (ex_cm ''6'' ex_restoring) ex_restoring" by (rule ex_holds [OF ex_recovery_wf(2)])
  show o: "ms_operation ex_restoring = Some ex_restoring_op" "ms_phase ex_restoring = RESTORING"
    by (simp_all add: ex_restoring_def set_op_def ex_restoring_op_def)
  have "op_inv (evidence ex_seen) ex_restoring ex_restoring_op"
    using ex_seen_evidence o by (simp add: op_inv_def ex_restoring_op_def ex_operation_def new_operation_def)
  with h o show "consistent ex_store (ex_cm ''6'' ex_restoring) ex_seen ex_restoring"
    by (simp add: consistent_def state_inv_def)
qed

text \<open>A state whose write to GitLab is unknown.\<close>

definition ex_alert_op :: operation where
  "ex_alert_op = ex_operation\<lparr>op_write := WUnknown, op_outcome := ''unknown-pause-write''\<rparr>"

definition ex_alert :: mstate where
  "ex_alert = set_op ex_idle ALERT ex_alert_op"

lemma ex_alert_consistent:
  "holds ex_store (ex_cm ''7'' ex_alert) ex_alert" "consistent ex_store (ex_cm ''7'' ex_alert) {} ex_alert"
  "ms_operation ex_alert = Some ex_alert_op" "op_write ex_alert_op = WUnknown"
proof -
  have "wf_state (st_sha ex_store) ''u1'' (st_policy ex_store) ex_alert"
    by (simp add: wf_state_def wf_operation_def ex_alert_def ex_alert_op_def ex_state_defs wf_text_def wf_ident_def CONTROL_NAMESPACE_def)
  then show h: "holds ex_store (ex_cm ''7'' ex_alert) ex_alert" by (rule ex_holds)
  show o: "ms_operation ex_alert = Some ex_alert_op" "op_write ex_alert_op = WUnknown"
    by (simp_all add: ex_alert_def set_op_def ex_alert_op_def)
  have "ms_phase ex_alert = ALERT" "ms_gc ex_alert = None" by (simp_all add: ex_alert_def ex_idle_def set_op_def)
  with h o show "consistent ex_store (ex_cm ''7'' ex_alert) {} ex_alert"
    by (simp add: consistent_def state_inv_def op_inv_def)
qed

text \<open>A worker that holds its claim.\<close>

definition ex_worker :: ident where
  "ex_worker = \<lparr>id_ns = ''ci-maintenance-worker'', id_name = ''worker'', id_uid = ''wu'', id_job = ''wjob'', id_job_uid = ''wju''\<rparr>"

definition ex_claimed :: mstate where
  "ex_claimed = set_op ex_idle CLAIMED (ex_operation\<lparr>op_worker := Some ex_worker, op_claimed := True\<rparr>)"

lemma ex_claimed_wf: "wf_state (st_sha ex_store) ''u1'' (st_policy ex_store) ex_claimed"
  by (simp add: wf_state_def wf_operation_def ex_claimed_def ex_worker_def ex_state_defs wf_text_def wf_ident_def
      CONTROL_NAMESPACE_def WORKER_NAMESPACE_def)

lemma ex_claimed_good: "good (JDict (ex_cm ''8'' ex_claimed))"
  by (rule good_cm; simp add: encode_def enc_op_def enc_ident_def enc_opt_def ex_claimed_def ex_worker_def ex_state_defs
      show_int_def show_nat.simps)

lemma ex_claimed_consistent:
  "holds ex_store (ex_cm ''8'' ex_claimed) ex_claimed" "consistent ex_store (ex_cm ''8'' ex_claimed) {} ex_claimed"
  "ms_phase ex_claimed = CLAIMED"
proof -
  show h: "holds ex_store (ex_cm ''8'' ex_claimed) ex_claimed" by (rule ex_holds [OF ex_claimed_wf])
  show p: "ms_phase ex_claimed = CLAIMED" by (simp add: ex_claimed_def set_op_def)
  have "ms_gc ex_claimed = None" "ms_operation ex_claimed = Some (ex_operation\<lparr>op_worker := Some ex_worker, op_claimed := True\<rparr>)"
    "op_write (ex_operation\<lparr>op_worker := Some ex_worker, op_claimed := True\<rparr>) = WNone"
    by (simp_all add: ex_claimed_def ex_idle_def set_op_def ex_operation_def)
  with h p show "consistent ex_store (ex_cm ''8'' ex_claimed) {} ex_claimed"
    by (simp add: consistent_def state_inv_def op_inv_def)
qed

subsection \<open>The system\<close>

text \<open>
  (C1) Under every interleaving of coordinators, recoveries, workers and GC Jobs, with stale reads,
  lost and late writes and arbitrary other responses, the content of the state object evolves from
  its first content by the steps of the protocol only.
\<close>

theorem system_refines_protocol:
  assumes "sys_reach st cm0 seen0 y" and "holds st cm0 s0"
  shows "\<exists>s. holds st (sy_cur y) s
     \<and> evolves (pstep (st_sha st) (st_policy st)) (evidence seen0) s0 (evidence (sy_seen y)) s"
  using sys_inv_reachable [OF assms] unfolding sys_inv_def by blast

theorem system_refines_protocol_witness:
  "\<exists>s. holds ex_store (sy_cur (ex_sys (ex_cm ''1'' ex_idle) {})) s
     \<and> evolves (pstep (st_sha ex_store) (st_policy ex_store)) (evidence {}) ex_idle
         (evidence (sy_seen (ex_sys (ex_cm ''1'' ex_idle) {}))) s"
  by (rule system_refines_protocol [OF ex_sys_reach(2) ex_start_holds])

text \<open>
  (C2) Mutual exclusion of the cache worker and the store GC: while a worker is admitted or has
  claimed, no GC holder is recorded; and a GC holder beside a claimed operation means that a Pod
  snapshot has shown the worker retired.
\<close>

theorem worker_gc_exclusion:
  assumes "sys_reach st cm0 seen0 y" and "consistent st cm0 seen0 s0" and "holds st (sy_cur y) s"
  shows "(ms_phase s = ADMITTED \<or> ms_phase s = CLAIMED \<longrightarrow> ms_gc s = None)
    \<and> (\<forall>p. ms_operation s = Some p \<and> op_claimed p \<and> ms_gc s \<noteq> None \<longrightarrow>
          (\<exists>w \<in> evidence (sy_seen y). op_worker p = Some w))"
  using reachable_state_inv [OF assms] by (cases "ms_operation s") (simp_all add: state_inv_def op_inv_def)

theorem worker_gc_exclusion_witness:
  "sys_reach ex_store (ex_cm ''8'' ex_claimed) {} (ex_sys (ex_cm ''8'' ex_claimed) {})
    \<and> ms_phase ex_claimed = CLAIMED \<and> ms_gc ex_claimed = None"
  using worker_gc_exclusion [OF ex_sys_reach(2) ex_claimed_consistent(2), of ex_claimed] ex_claimed_consistent ex_sys_reach(2)
  by simp

text \<open>
  (C6) The restoration of the runner is recorded only with evidence: in \<open>RESTORING\<close> and
  \<open>DONE\<close> the coordinator, and the worker if it had claimed, have been seen retired; a restoration
  names its holder and its pending write.
\<close>

theorem restoration_has_evidence:
  assumes "sys_reach st cm0 seen0 y" and "consistent st cm0 seen0 s0" and "holds st (sy_cur y) s"
    and "ms_operation s = Some p" and "ms_phase s \<in> {RESTORING, DONE}"
  shows "op_coordinator p \<in> evidence (sy_seen y) \<and> op_holder p \<noteq> None
    \<and> (op_claimed p \<longrightarrow> (\<exists>w \<in> evidence (sy_seen y). op_worker p = Some w))
    \<and> op_write p = (if ms_phase s = RESTORING then WRestore else WNone)"
  using reachable_op_inv [OF assms(1-4)] assms(5) by (elim insertE) (simp_all add: op_inv_def)

theorem restoration_has_evidence_witness:
  "op_coordinator ex_restoring_op \<in> evidence (sy_seen (ex_sys (ex_cm ''6'' ex_restoring) ex_seen))
    \<and> op_holder ex_restoring_op \<noteq> None"
  using restoration_has_evidence [OF ex_sys_reach(2) ex_restoring_consistent(2), of ex_restoring ex_restoring_op]
    ex_restoring_consistent by simp

text \<open>
  (C3) The latches. Between any two points of an execution an operation is replaced only by one
  with a later slot; as long as it stays, its coordinator and identity stay, a claim and its worker
  stay, and once the operation is sealed (\<open>CLOSING\<close>, \<open>RESTORING\<close>, \<open>DONE\<close> or
  \<open>ALERT\<close>) no worker is admitted or claims again.
\<close>

theorem operation_latches:
  assumes "sys_reach st cm0 seen0 y" and "consistent st cm0 seen0 s0" and "holds st (sy_cur y) s"
    and "(sys_step st)\<^sup>*\<^sup>* y y'" and "holds st (sy_cur y') s'" and "ms_operation s = Some p"
  shows "\<exists>p'. ms_operation s' = Some p' \<and> (op_slot p < op_slot p'
    \<or> op_slot p = op_slot p' \<and> op_id p' = op_id p \<and> op_coordinator p' = op_coordinator p
      \<and> (op_claimed p \<longrightarrow> op_claimed p' \<and> op_worker p' = op_worker p)
      \<and> (sealed (ms_phase s) \<longrightarrow> ms_phase s' \<notin> {PAUSE_INTENT, DRAINING, ADMITTED, CLAIMED}))"
proof -
  have "sealed ph \<Longrightarrow> ph \<notin> {PAUSE_INTENT, DRAINING, ADMITTED, CLAIMED}" for ph
    by (cases ph) (simp_all add: sealed_def)
  with reachable_state_latch [OF assms(1-5), unfolded state_latch_def, rule_format, OF assms(6)]
  show ?thesis unfolding op_latch_def by blast
qed

theorem operation_latches_witness:
  "\<exists>p'. ms_operation ex_restoring = Some p' \<and> op_id p' = op_id ex_restoring_op \<and> op_coordinator p' = op_coordinator ex_restoring_op
     \<and> ms_phase ex_restoring \<notin> {PAUSE_INTENT, DRAINING, ADMITTED, CLAIMED}"
proof -
  have "sealed (ms_phase ex_restoring)" by (simp add: ex_restoring_consistent(4) sealed_def)
  with operation_latches [OF ex_sys_reach(1) ex_restoring_consistent(2) _ ex_sys_reach(3),
      of ex_restoring ex_restoring ex_restoring_op] show ?thesis using ex_restoring_consistent(1,3) by auto
qed

text \<open>
  An ambiguous write to GitLab is never forgotten: once an operation records an unknown write,
  it keeps it in every later state, no new operation replaces it, and its phase is \<open>ALERT\<close> or
  \<open>CLOSING\<close>.
\<close>

theorem unknown_write_latched:
  assumes "sys_reach st cm0 seen0 y" and "consistent st cm0 seen0 s0" and "holds st (sy_cur y) s"
    and "(sys_step st)\<^sup>*\<^sup>* y y'" and "holds st (sy_cur y') s'"
    and "ms_operation s = Some p" and "op_write p = WUnknown"
  shows "\<exists>p'. ms_operation s' = Some p' \<and> op_slot p' = op_slot p \<and> op_write p' = WUnknown
    \<and> ms_phase s' \<in> {ALERT, CLOSING}"
proof -
  obtain p' where p': "ms_operation s' = Some p'" "op_slot p' = op_slot p" "op_write p' = WUnknown"
    using reachable_state_latch [OF assms(1-5), unfolded state_latch_def, rule_format, OF assms(6)] assms(7) by auto
  from reachable_op_inv [OF sys_reach_steps [OF assms(4,1)] assms(2,5) p'(1)] p' show ?thesis
    unfolding op_inv_def by blast
qed

theorem unknown_write_latched_witness:
  "\<exists>p'. ms_operation ex_alert = Some p' \<and> op_slot p' = op_slot ex_alert_op \<and> op_write p' = WUnknown
    \<and> ms_phase ex_alert \<in> {ALERT, CLOSING}"
  using unknown_write_latched [OF ex_sys_reach(1) ex_alert_consistent(2) _ ex_sys_reach(3),
      of ex_alert ex_alert ex_alert_op] ex_alert_consistent by simp

subsection \<open>Requests to GitLab\<close>

text \<open>
  (C4) A coordinator asks GitLab to pause the runner only after it has read back its own durable
  pause intent: in every run, before that request it has seen a valid state in phase
  \<open>PAUSE_INTENT\<close> with itself as coordinator and the write recorded as \<open>pause\<close>.
\<close>

theorem pause_after_durable_intent:
  assumes "runs (coordinate n st me) (t @ (Http GITLAB ''PUT'' RUNNER_PATH (paused_body True), r) # t') p'"
  shows "\<exists>uid cm s p. state_seen st (ghost (kupd (st_base st)) {} t) uid cm s \<and> ms_operation s = Some p
     \<and> ms_phase s = PAUSE_INTENT \<and> op_coordinator p = me \<and> op_write p = WPause"
proof -
  have "STATE \<noteq> RUNNER_PATH" "paused_body True \<noteq> paused_body False"
    by (simp_all add: STATE_def RUNNER_PATH_def paused_body_def)
  with contract.spec_trace [OF spec_coordinate assms] show ?thesis
    by (simp add: write_allowed_def pause_write_def)
qed

theorem pause_after_durable_intent_witness:
  "\<exists>uid cm s p. state_seen ex_store (ghost (kupd (st_base ex_store)) {} ex_pause_trace) uid cm s \<and> ms_operation s = Some p
     \<and> ms_phase s = PAUSE_INTENT \<and> op_coordinator p = ex_coord \<and> op_write p = WPause"
  using ex_pause_runs [of 241 Slept] pause_after_durable_intent [of 241 ex_store ex_coord ex_pause_trace Slept "[]"]
  by (auto simp: ex_pause_put_def)

text \<open>
  (C5) A recovery asks GitLab to resume the runner only after it has read back its own durable
  restoration intent, and with Pod snapshots that show the coordinator, and the worker if it had
  claimed, retired.
\<close>

theorem resume_after_evidence:
  assumes "runs (recover st me) (t @ (Http GITLAB ''PUT'' RUNNER_PATH (paused_body False), r) # t') p'"
  shows "\<exists>uid cm s p. state_seen st (ghost (kupd (st_base st)) {} t) uid cm s \<and> ms_operation s = Some p
     \<and> ms_phase s = RESTORING \<and> op_holder p = Some me \<and> op_write p = WRestore
     \<and> op_coordinator p \<in> evidence (ghost (kupd (st_base st)) {} t)
     \<and> (op_claimed p \<longrightarrow> (\<exists>w \<in> evidence (ghost (kupd (st_base st)) {} t). op_worker p = Some w))"
proof -
  have "STATE \<noteq> RUNNER_PATH" "paused_body True \<noteq> paused_body False"
    by (simp_all add: STATE_def RUNNER_PATH_def paused_body_def)
  with contract.spec_trace [OF spec_recover assms] show ?thesis
    by (simp add: write_allowed_def restore_write_def)
qed

theorem resume_after_evidence_witness:
  "\<exists>uid cm s p. state_seen ex_store (ghost (kupd (st_base ex_store)) {} ex_resume_trace) uid cm s \<and> ms_operation s = Some p
     \<and> ms_phase s = RESTORING \<and> op_holder p = Some ex_recoverer
     \<and> op_coordinator p \<in> evidence (ghost (kupd (st_base ex_store)) {} ex_resume_trace)"
  using ex_resume_runs [of Slept] resume_after_evidence [of ex_store ex_recoverer ex_resume_trace Slept "[]"]
  unfolding ex_resume_put_def by blast

text \<open>
  A runner that is already paused is left alone: a coordinator writes to the state object or
  to GitLab only after GitLab has answered that the runner is not paused.
\<close>

theorem paused_baseline_zero_writes:
  assumes "runs (coordinate n st me) (t @ (q, r) # t') p'" and "is_write q"
  shows "\<exists>r v h. (Http GITLAB ''GET'' RUNNER_PATH None, r) \<in> set t \<and> http_result r = Inr (v, h) \<and> runner_value v = Inr False"
  using baseline.spec_trace [OF baseline_coordinate assms(1)] assms(2) paused_ghost
  by (auto simp: write_needs_unpaused_def)

theorem paused_baseline_zero_writes_witness:
  "\<exists>r v h. (Http GITLAB ''GET'' RUNNER_PATH None, r) \<in> set ex_pause_trace \<and> http_result r = Inr (v, h) \<and> runner_value v = Inr False"
  using ex_pause_runs [of 241 Slept] paused_baseline_zero_writes [of 241 ex_store ex_coord ex_pause_trace ex_pause_put Slept "[]"]
  by (auto simp: ex_pause_put_def is_write_def)

lemma kube_base_not_GITLAB: "kube_base host port \<noteq> GITLAB"
proof
  assume "kube_base host port = GITLAB"
  then have "count_list (kube_base host port) CHR '':'' = count_list GITLAB CHR '':''" by simp
  then show False by (simp add: kube_base_def GITLAB_def)
qed

lemma api_gate_authorised: "base \<noteq> GITLAB \<Longrightarrow> acts gitlab_ok (api_gate base env)"
  by (rule acts_mono [OF api_gate_quiet]) (auto simp: gitlab_ok_def split: kact.splits)

text \<open>
  (C9) The GitLab token's authority is confined: whatever the arguments, the environment and the
  responses, every request that \<^verbatim>\<open>main\<close>, with the Pod gate of the retention policy and the address of the
  API server that \<^verbatim>\<open>kube_store\<close> builds, sends to GitLab is a read of runner 2, of its
  jobs, or a write of the single field \<^verbatim>\<open>paused\<close> of runner 2.
\<close>

theorem gitlab_authority_confined:
  assumes "runs (admission_main n st env (api_gate (st_base st) env) argv) t p'" and "st_base st = kube_base host port"
  shows "\<forall>q \<in> set (map fst t). \<forall>verb path body. q = Http GITLAB verb path body \<longrightarrow>
    verb = ''GET'' \<and> (path = RUNNER_PATH \<or> prefix (RUNNER_PATH @ ''/jobs?'') path)
    \<or> verb = ''PUT'' \<and> path = RUNNER_PATH \<and> (\<exists>d b. body = Some (JDict d) \<and> dget ''paused'' d = JBool b \<and> fst ` set d = {''paused''})"
proof -
  have "list_all (\<lambda>(q, _). gitlab_ok q) t"
    using acts_runs [OF assms(1) authorised.acts_main [OF api_gate_authorised]] assms(2) kube_base_not_GITLAB by auto
  then show ?thesis
    by (fastforce simp: list_all_iff gitlab_ok_def gitlab_authority_def has_keys_iff is_bool_iff split: option.splits jval.splits)
qed

definition ex_env :: "string \<Rightarrow> string option" where
  "ex_env = map_of [(''POD_NAMESPACE'', CONTROL_NAMESPACE), (''POD_UID'', ''cu''), (''POD_NAME'', ''coord'')]"

definition ex_main_trace :: "(kact \<times> kresp) list" where
  "ex_main_trace = [(Http (st_base ex_store) ''GET'' (pods_path CONTROL_NAMESPACE) None, reply (ex_pods [ex_coord_pod]))] @
     ([ex_get ''1'' ex_idle] @ [(Now, Time 1767230000), (Http GITLAB ''GET'' RUNNER_PATH None, Slept)])"

lemma ex_self: "runs (self_identity ex_store ex_env)
    [(Http (st_base ex_store) ''GET'' (pods_path CONTROL_NAMESPACE) None, reply (ex_pods [ex_coord_pod]))] (Ret ex_coord)"
proof -
  have "self_matches ex_env [ex_coord_pod] = Inr [ex_coord_pod]" "\<not> truthy (dget ''deletionTimestamp'' (pmeta ex_coord_pod))"
    by (simp_all add: self_matches_def ex_env_def ex_pod_defs)
  moreover have "prefix ''/'' (pods_path CONTROL_NAMESPACE) \<and> \<not> prefix ''//'' (pods_path CONTROL_NAMESPACE)" by (simp add: pods_path_def)
  moreover have "ex_env ''POD_NAMESPACE'' = Some CONTROL_NAMESPACE" by (simp add: ex_env_def)
  ultimately show ?thesis using ex_base(1)
    by (simp add: self_identity_def pods_def request_def good_reply [OF ex_good(2)] ex_pods_coord ex_coord_identity)
qed

lemma ex_main_runs: "\<exists>p'. runs (admission_main 241 ex_store ex_env (api_gate (st_base ex_store) ex_env) [''recover'']) ex_main_trace p'"
proof -
  have rd: "runs (store_read ex_store None) [ex_get ''1'' ex_idle] (Ret (ex_cm ''1'' ex_idle, ex_idle, ''u1''))"
    by (rule ex_read_runs [OF ex_cms(1) ex_idle_wf]) (simp_all add: wf_text_def)
  have "(1767230000::rat) + 60 < of_int TOKEN_EXPIRY"
    by (simp add: TOKEN_EXPIRY_def timestamp_def date_ordinal_def days_before_month_def days_in_month_def is_leap_def upto.simps)
  moreover have "ms_phase ex_idle = IDLE" "ms_operation ex_idle = None" by (simp_all add: ex_idle_def)
  moreover have "\<not> prefix ''//'' RUNNER_PATH \<and> prefix ''/'' RUNNER_PATH \<and> gitlab_authority ''GET'' RUNNER_PATH None"
    by (simp add: RUNNER_PATH_def gitlab_authority_def)
  ultimately have "runs (recover ex_store ex_coord) ([ex_get ''1'' ex_idle] @
      [(Now, Time 1767230000), (Http GITLAB ''GET'' RUNNER_PATH None, Slept)]) (Fail (PyError ''TypeError''))"
    unfolding recover_def
    by (intro runs_pbindI [OF rd]) (simp add: credential_check_def now_def runner_def request_def http_result_def)
  from runs_pbindI [of _ _ _ "recover ex_store", OF ex_self this] show ?thesis
    by (auto simp: admission_main_def ex_main_trace_def ex_env_def)
qed

theorem gitlab_authority_confined_witness:
  "Http GITLAB ''GET'' RUNNER_PATH None \<in> set (map fst ex_main_trace) \<and>
    (''GET'' = ''GET'' \<and> (RUNNER_PATH = RUNNER_PATH \<or> prefix (RUNNER_PATH @ ''/jobs?'') RUNNER_PATH)
    \<or> ''GET'' = ''PUT'' \<and> RUNNER_PATH = RUNNER_PATH \<and> (\<exists>d b. (None :: jval option) = Some (JDict d) \<and> dget ''paused'' d = JBool b \<and> fst ` set d = {''paused''}))"
proof -
  have i: "Http GITLAB ''GET'' RUNNER_PATH None \<in> set (map fst ex_main_trace)" by (simp add: ex_main_trace_def)
  obtain p' where "runs (admission_main 241 ex_store ex_env (api_gate (st_base ex_store) ex_env) [''recover'']) ex_main_trace p'"
    using ex_main_runs by blast
  moreover have "st_base ex_store = kube_base ''10.0.0.1'' ''443''" by (simp add: ex_base(2) kube_base_def)
  ultimately show ?thesis using gitlab_authority_confined i by blast
qed

subsection \<open>Errors and termination\<close>

text \<open>
  A latched alert stops a recovery: when the state it reads first is in \<open>ALERT\<close>, it
  raises at once, having done nothing but that read.
\<close>

theorem alert_stops_recovery:
  assumes "runs (recover st me) ((q, r) # t) p'" and "http_result r = Inr (v, h)"
    and "read_cm st None v = Inr (cm, s, uid)" and "ms_phase s = ALERT"
  shows "t = [] \<and> p' = Fail (Refuse ''latched ALERT; operator reconciliation required'') \<and> q = Http (st_base st) ''GET'' STATE None"
proof -
  have "prefix ''/'' STATE \<and> \<not> prefix ''//'' STATE" by (simp add: STATE_def)
  with assms show ?thesis
    by (auto simp: recover_def store_read_def request_def prequire_def require_def runs_ended split: if_splits)
qed

theorem alert_stops_recovery_witness:
  "\<exists>t p'. runs (recover ex_store ex_recoverer)
      ((Http (st_base ex_store) ''GET'' STATE None, reply (JDict (ex_cm ''7'' ex_alert))) # t) p'
    \<and> t = [] \<and> p' = Fail (Refuse ''latched ALERT; operator reconciliation required'')"
proof -
  have wf: "wf_state (st_sha ex_store) ''u1'' (st_policy ex_store) ex_alert"
    by (simp add: wf_state_def wf_operation_def ex_alert_def ex_alert_op_def ex_state_defs wf_text_def wf_ident_def CONTROL_NAMESPACE_def)
  have g: "good (JDict (ex_cm ''7'' ex_alert))"
    by (rule good_cm; simp add: encode_def enc_op_def enc_ident_def enc_opt_def ex_alert_def ex_alert_op_def ex_state_defs
        show_int_def show_nat.simps)
  have rd: "read_cm ex_store None (JDict (ex_cm ''7'' ex_alert)) = Inr (ex_cm ''7'' ex_alert, ex_alert, ''u1'')"
    by (rule read_ex_cm [OF wf]) (simp_all add: wf_text_def)
  have ph: "ms_phase ex_alert = ALERT" by (simp add: ex_alert_def set_op_def)
  obtain p' where r: "runs (recover ex_store ex_recoverer)
      [(Http (st_base ex_store) ''GET'' STATE None, reply (JDict (ex_cm ''7'' ex_alert)))] p'"
    using good_reply [OF g] rd ph ex_base(1) by (simp add: recover_def store_read_def request_def STATE_def)
  from alert_stops_recovery [OF r good_reply [OF g] rd ph] r show ?thesis by blast
qed

text \<open>
  (C13) The drain loop ends: when the clock starts no earlier than the slot and advances by at least
  five seconds from one reading to the next, 241 passes are never used up.
\<close>

theorem drain_loop_terminates:
  assumes "runs (drain_loop 241 st uid own me slot) t p'" and "paced (clock_readings t)"
    and "clock_readings t \<noteq> [] \<longrightarrow> of_int slot \<le> hd (clock_readings t)"
  shows "p' \<noteq> OutOfFuel"
proof
  assume "p' = OutOfFuel"
  with drain_loop_readings assms(1)
  have r: "length (clock_readings t) = 241" "\<forall>x \<in> set (clock_readings t). x < of_int (slot + 1200)" by blast+
  then have "clock_readings t \<noteq> []" by auto
  from paced_bound [OF assms(2) this, of "of_int slot"] assms(3) r this show False by simp
qed

text \<open>A drain that never becomes idle: two passes find the runner not paused, then the deadline of the slot is reached.\<close>

definition ex_draining :: mstate where
  "ex_draining = set_op ex_idle DRAINING ex_operation"

definition ex_drain_end :: mstate where
  "ex_drain_end = set_op ex_draining CLOSING (ex_operation\<lparr>op_outcome := ''drain-timeout''\<rparr>)"

lemma ex_draining_ok:
  "wf_state (st_sha ex_store) ''u1'' (st_policy ex_store) ex_draining" "good (JDict (ex_cm ''3'' ex_draining))"
  "wf_state (st_sha ex_store) ''u1'' (st_policy ex_store) ex_drain_end" "good (JDict (ex_cm ''4'' ex_drain_end))"
     apply (simp add: wf_state_def wf_operation_def ex_draining_def ex_state_defs wf_text_def wf_ident_def CONTROL_NAMESPACE_def)
    apply (rule good_cm; simp add: encode_def enc_op_def enc_ident_def enc_opt_def ex_draining_def ex_state_defs show_int_def show_nat.simps)
   apply (simp add: wf_state_def wf_operation_def ex_drain_end_def ex_draining_def ex_state_defs wf_text_def wf_ident_def CONTROL_NAMESPACE_def)
  apply (rule good_cm; simp add: encode_def enc_op_def enc_ident_def enc_opt_def ex_drain_end_def ex_draining_def ex_state_defs show_int_def show_nat.simps)
  done

definition ex_pass_trace :: "(kact \<times> kresp) list" where
  "ex_pass_trace = [ex_get ''3'' ex_draining] @ (ex_snapshot_trace [] @
     ([(Http GITLAB ''GET'' RUNNER_PATH None, reply (JDict [(''id'', JInt 2), (''paused'', JBool False)]))] @ []))"

definition ex_drain_trace :: "(kact \<times> kresp) list" where
  "ex_drain_trace = [(Now, Time 1767228430)] @ (ex_pass_trace @ ([(Sleep 5, Slept)] @
     ([(Now, Time 1767228436)] @ (ex_pass_trace @ ([(Sleep 5, Slept)] @
     ([(Now, Time 1767229620)] @ ([ex_get ''3'' ex_draining] @
       ([ex_put ''3'' ex_draining ex_drain_end, ex_get ''4'' ex_drain_end] @ []))))))))"

lemma ex_draining_op: "ms_phase ex_draining = DRAINING" "ms_operation ex_draining = Some ex_operation" "ms_gc ex_draining = None"
  "op_coordinator ex_operation = ex_coord"
  by (simp_all add: ex_draining_def set_op_def ex_idle_def ex_operation_def new_operation_def)

lemma ex_pass_runs: "runs (drain_pass ex_store ''u1'' own ex_coord ex_slot) ex_pass_trace (Ret False)"
proof -
  have rd: "runs (store_read ex_store (Some ''u1'')) [ex_get ''3'' ex_draining] (Ret (ex_cm ''3'' ex_draining, ex_draining, ''u1''))"
    by (rule ex_read_runs [OF ex_draining_ok(2,1)]) (simp_all add: wf_text_def)
  have sn: "runs (snapshot_all (st_base ex_store)) (ex_snapshot_trace []) (Ret [])"
    by (rule runs_snapshotI [OF ex_good(1) ex_pods_empty]) simp
  have rn: "runs runner [(Http GITLAB ''GET'' RUNNER_PATH None, reply (JDict [(''id'', JInt 2), (''paused'', JBool False)]))] (Ret False)"
    by (rule runs_runnerI [OF ex_good(4)]) (simp add: runner_value_def)
  have ad: "runs (admissible True []) ([(Http GITLAB ''GET'' RUNNER_PATH None, reply (JDict [(''id'', JInt 2), (''paused'', JBool False)]))] @ []) (Ret False)"
    unfolding admissible_def by (simp del: append_Nil2 append.simps) (rule runs_pbindI [OF rn], simp)
  have "runs (pbind (snapshot_all (st_base ex_store)) (\<lambda>snapshot. pbind (liftr (retire_gc ex_draining snapshot)) (\<lambda>(s', retired).
      pbind (admissible retired snapshot) (\<lambda>go. if go then admit_worker ex_store ''u1'' own ex_slot snapshot (ex_cm ''3'' ex_draining) s' ex_operation else Ret False))))
      (ex_snapshot_trace [] @ (([(Http GITLAB ''GET'' RUNNER_PATH None, reply (JDict [(''id'', JInt 2), (''paused'', JBool False)]))] @ []) @ [])) (Ret False)"
    using runs_pbindI [OF ad, of "\<lambda>go. if go then admit_worker ex_store ''u1'' own ex_slot [] (ex_cm ''3'' ex_draining) ex_draining ex_operation
        else Ret False" "[]" "Ret False"]
    by (intro runs_pbindI [OF sn]) (simp add: retire_gc_def ex_draining_op)
  then show ?thesis unfolding drain_pass_def ex_pass_trace_def
    by (intro runs_pbindI [OF rd]) (simp add: ex_draining_op the_op_def)
qed

lemma ex_timeout_runs: "runs (drain_timeout ex_store ''u1'') ([ex_get ''3'' ex_draining] @
    ([ex_put ''3'' ex_draining ex_drain_end, ex_get ''4'' ex_drain_end] @ [])) (Fail (Refuse ''natural drain deadline; accepted jobs unchanged''))"
proof -
  have rd: "runs (store_read ex_store (Some ''u1'')) [ex_get ''3'' ex_draining] (Ret (ex_cm ''3'' ex_draining, ex_draining, ''u1''))"
    by (rule ex_read_runs [OF ex_draining_ok(2,1)]) (simp_all add: wf_text_def)
  have sv: "runs (store_save ex_store ''u1'' (ex_cm ''3'' ex_draining) ex_drain_end)
      [ex_put ''3'' ex_draining ex_drain_end, ex_get ''4'' ex_drain_end] (Ret ex_drain_end)"
    by (rule ex_save_runs [OF ex_draining_ok(4,3)]) (simp add: wf_text_def)
  have "runs (pbind (store_save ex_store ''u1'' (ex_cm ''3'' ex_draining) ex_drain_end)
        (\<lambda>_. Fail (Refuse ''natural drain deadline; accepted jobs unchanged'')))
      ([ex_put ''3'' ex_draining ex_drain_end, ex_get ''4'' ex_drain_end] @ []) (Fail (Refuse ''natural drain deadline; accepted jobs unchanged'') :: unit kprog)"
    by (rule runs_pbindI [OF sv]) (rule runs.Done)
  then show ?thesis unfolding drain_timeout_def
    by (intro runs_pbindI [OF rd]) (simp add: ex_draining_op the_op_def ex_drain_end_def)
qed

lemma ex_loop_runs:
  assumes "x < of_int (ex_slot + 1200)" and "runs (drain_loop n ex_store ''u1'' own ex_coord ex_slot) t p'"
  shows "runs (drain_loop (Suc n) ex_store ''u1'' own ex_coord ex_slot) ([(Now, Time x)] @ (ex_pass_trace @ ([(Sleep 5, Slept)] @ t))) p'"
proof -
  have sl: "runs (sleep 5) [(Sleep 5, Slept)] (Ret ())" by (simp add: sleep_def)
  have "runs (pbind (drain_pass ex_store ''u1'' own ex_coord ex_slot) (\<lambda>admitted.
      if admitted then Ret () else pbind (sleep 5) (\<lambda>_. drain_loop n ex_store ''u1'' own ex_coord ex_slot)))
      (ex_pass_trace @ ([(Sleep 5, Slept)] @ t)) p'"
    by (rule runs_pbindI [OF ex_pass_runs], subst if_False, rule runs_pbindI [OF sl], rule assms(2))
  with assms(1) show ?thesis unfolding drain_loop.simps by (intro runs_pbindI [OF runs_nowI]) simp
qed

lemma ex_drain_runs: "runs (drain_loop 241 ex_store ''u1'' own ex_coord ex_slot) ex_drain_trace
    (Fail (Refuse ''natural drain deadline; accepted jobs unchanged''))"
proof -
  have "runs (drain_loop (Suc n) ex_store ''u1'' own ex_coord ex_slot) ([(Now, Time 1767229620)] @ ([ex_get ''3'' ex_draining] @
      ([ex_put ''3'' ex_draining ex_drain_end, ex_get ''4'' ex_drain_end] @ []))) (Fail (Refuse ''natural drain deadline; accepted jobs unchanged''))" for n
    unfolding drain_loop.simps
    by (rule runs_pbindI [OF runs_nowI], subst if_not_P) (use ex_timeout_runs in \<open>simp_all add: ex_slot_def\<close>)
  from ex_loop_runs [OF _ ex_loop_runs [OF _ this]] have "runs (drain_loop (Suc (Suc (Suc n))) ex_store ''u1'' own ex_coord ex_slot) ex_drain_trace
      (Fail (Refuse ''natural drain deadline; accepted jobs unchanged''))" for n
    unfolding ex_drain_trace_def by (simp add: ex_slot_def)
  from this [of 238] show ?thesis by simp
qed

theorem drain_loop_terminates_witness:
  "\<exists>p'. runs (drain_loop 241 ex_store ''u1'' JNull ex_coord ex_slot) ex_drain_trace p'
     \<and> clock_readings ex_drain_trace = [1767228430, 1767228436, 1767229620] \<and> p' \<noteq> OutOfFuel"
proof -
  have "clock_readings ex_pass_trace = []"
    by (simp add: clock_readings_def ex_pass_trace_def ex_get_def ex_snapshot_trace_def)
  moreover have "clock_readings [(Now, Time x)] = [x]" "clock_readings [(Sleep 5, Slept)] = []" "clock_readings [] = []"
    "clock_readings [ex_get rv s] = []" "clock_readings [ex_put rv s s', ex_get rv' s''] = []" for x rv s s' rv' s''
    by (simp_all add: clock_readings_def ex_get_def ex_put_def)
  ultimately have c: "clock_readings ex_drain_trace = [1767228430, 1767228436, 1767229620]"
    unfolding ex_drain_trace_def clock_readings_append by simp
  have "paced (clock_readings ex_drain_trace)" by (simp add: c paced_def less_Suc_eq numeral_eq_Suc)
  moreover have "of_int ex_slot \<le> hd (clock_readings ex_drain_trace)" by (simp add: c ex_slot_def)
  ultimately show ?thesis using drain_loop_terminates [OF ex_drain_runs] ex_drain_runs c by blast
qed

text \<open>
  (C12) The check that GitLab has no accepted job ends after at most 900 requests, whatever GitLab
  answers, and says yes only when for each of the nine active statuses the last page was empty and
  announced no further page.
\<close>

theorem drained_complete_and_bounded:
  assumes "runs drained t p'"
  shows "length t \<le> 900 \<and> p' \<noteq> OutOfFuel \<and> (p' = Ret True \<longrightarrow> (\<forall>status \<in> set ACTIVE. last_page_empty status t))"
proof -
  have "length t \<le> 900" using at_most_runs [OF assms drained_bound] .
  moreover have "p' \<noteq> OutOfFuel" using fuel_free_runs [OF assms fuel_drained] by auto
  moreover have "p' = Ret True \<longrightarrow> (\<forall>status \<in> set ACTIVE. last_page_empty status t)"
    using assms drained_all_True [of ACTIVE t] by (auto simp: drained_def list_all_iff)
  ultimately show ?thesis by blast
qed

text \<open>GitLab answers every status with one empty page that announces no further one.\<close>

definition ex_empty_page :: kresp where
  "ex_empty_page = NetOk ''[]'' [(''X-Next-Page'', [])]"

definition ex_jobs_trace :: "string list \<Rightarrow> (kact \<times> kresp) list" where
  "ex_jobs_trace ss = map (\<lambda>s. (Http GITLAB ''GET'' (jobs_path s ''1'') None, ex_empty_page)) ss"

lemma ex_jobs_runs: "runs (drained_all ss) (ex_jobs_trace ss) (Ret True)"
proof (induction ss)
  case (Cons s ss)
  have r: "http_result ex_empty_page = Inr (JList [], [(''X-Next-Page'', [])])"
  proof -
    have "json_loads ''[]'' = Some (JList [])" by code_simp
    then show ?thesis by (simp add: ex_empty_page_def http_result_def take_all)
  qed
  have n: "next_page [''1''] [(''X-Next-Page'', [])] = Inr []" by code_simp
  have path: "prefix ''/'' (jobs_path s ''1'')" "\<not> prefix ''//'' (jobs_path s ''1'')" "gitlab_authority ''GET'' (jobs_path s ''1'') None"
    by (simp_all add: jobs_path_def RUNNER_PATH_def gitlab_authority_def)
  have "runs (drained_status (Suc m) s ''1'' [] []) [(Http GITLAB ''GET'' (jobs_path s ''1'') None, ex_empty_page)] (Ret True)" for m
    using path by (simp add: request_def r n)
  from this [of 99] have "runs (drained_status 100 s ''1'' [] []) [(Http GITLAB ''GET'' (jobs_path s ''1'') None, ex_empty_page)] (Ret True)"
    by (simp only: Suc_numeral semiring_norm)
  from runs_pbindI [OF this, of "\<lambda>b. if b then drained_all ss else Ret False" "ex_jobs_trace ss" "Ret True"] Cons
  have "runs (drained_all (s # ss)) ([(Http GITLAB ''GET'' (jobs_path s ''1'') None, ex_empty_page)] @ ex_jobs_trace ss) (Ret True)"
    unfolding drained_all.simps by (simp only: if_True)
  then show ?case by (simp add: ex_jobs_trace_def del: drained_all.simps)
qed (simp add: ex_jobs_trace_def)

theorem drained_complete_and_bounded_witness:
  "\<exists>t. runs drained t (Ret True) \<and> length t = 9 \<and> length t \<le> 900 \<and> (\<forall>status \<in> set ACTIVE. last_page_empty status t)"
proof -
  have r: "runs drained (ex_jobs_trace ACTIVE) (Ret True)" unfolding drained_def by (rule ex_jobs_runs)
  have "length (ex_jobs_trace ACTIVE) = 9" by (simp add: ex_jobs_trace_def ACTIVE_def)
  with r drained_complete_and_bounded [OF r] show ?thesis by blast
qed

subsection \<open>The state and its text\<close>

text \<open>
  (C8) The validator accepts exactly the well-formed states: \<^verbatim>\<open>validate\<close> returns for a
  Python value if and only if the value is a dict with the declared fields, of the declared types, that
  decodes to a state whose phase, operation, deadlines, owners and hash fit together; it never raises
  for the encoding of such a state.
\<close>

theorem validate_exact:
  "(validate sha j uid policy = Inr () \<longleftrightarrow> (\<exists>s. decode j = Some s \<and> wf_state sha uid policy s))
   \<and> (validate sha (encode s) uid policy = Inr () \<longleftrightarrow> wf_state sha uid policy s)"
  using validate_iff validate_encode by blast

text \<open>
  (C10) What \<^verbatim>\<open>Store.save\<close> writes, \<^verbatim>\<open>Store.read\<close> reads: the JSON text of a state
  parses back to the same value and decodes to the same state, and the object that \<^verbatim>\<open>save\<close> makes of an object it
  could read (\<^const>\<open>desired\<close>) is read as that state under the latched UID.
\<close>

theorem state_text_roundtrip:
  assumes "wf_state (st_sha st) uid (st_policy st) s"
  shows "json_loads (json_dumps (encode s)) = Some (encode s) \<and> decode (encode s) = Some s
    \<and> load_state st uid (JStr (json_dumps (encode s))) = Inr s
    \<and> (\<forall>cm s0. read_cm st (Some uid) (JDict cm) = Inr (cm, s0, uid) \<longrightarrow>
          read_cm st (Some uid) (JDict (desired cm s)) = Inr (desired cm s, s, uid))"
proof -
  have "read_cm st (Some uid) (JDict (desired cm s)) = Inr (desired cm s, s, uid)"
    if "read_cm st (Some uid) (JDict cm) = Inr (cm, s0, uid)" for cm s0
    using that assms unfolding read_cm_iff by (auto simp: dget_def dget_or_def map_of_desired jitem_JDict load_state_dumps)
  with assms show ?thesis by (simp add: json_loads_state load_state_dumps)
qed

theorem state_text_roundtrip_witness:
  "load_state ex_store ''u1'' (JStr (json_dumps (encode ex_restoring))) = Inr ex_restoring
    \<and> read_cm ex_store (Some ''u1'') (JDict (desired (ex_cm ''5'' ex_closing) ex_restoring))
        = Inr (desired (ex_cm ''5'' ex_closing) ex_restoring, ex_restoring, ''u1'')"
proof -
  have "read_cm ex_store (Some ''u1'') (JDict (ex_cm ''5'' ex_closing)) = Inr (ex_cm ''5'' ex_closing, ex_closing, ''u1'')"
    by (rule read_ex_cm [OF ex_recovery_wf(1)]) (simp_all add: wf_text_def)
  with state_text_roundtrip [OF ex_recovery_wf(2)] show ?thesis by blast
qed

text \<open>
  A Pod counts as retired only by positive evidence: exactly one Pod of the snapshot has the
  namespace, name and UID, it still has the same Job as owner, its phase is final, it has containers,
  and every container, init container and ephemeral container has a status that says terminated. A Pod
  that is absent from the snapshot is not retired.
\<close>

theorem terminal_is_positive_evidence:
  assumes "terminal snapshot i = Inr True"
  shows "\<exists>p. filter (\<lambda>p. pod_ns p = id_ns i \<and> pod_name p = id_name i \<and> pod_uid p = id_uid i) snapshot = [p]
     \<and> pod_identity p = Inr i \<and> pod_phase p \<in> {''Succeeded'', ''Failed''}
     \<and> truthy (dget ''containers'' (pspec p))
     \<and> (\<forall>(spec_key, status_key) \<in> {(''containers'', ''containerStatuses''), (''initContainers'', ''initContainerStatuses''),
           (''ephemeralContainers'', ''ephemeralContainerStatuses'')}.
         containers_terminated p spec_key status_key = Inr True)"
proof -
  from assms obtain p where
    "filter (\<lambda>p. pod_ns p = id_ns i \<and> pod_name p = id_name i \<and> pod_uid p = id_uid i) snapshot = [p]"
    "pod_identity p = Inr i" "pod_phase p \<in> {''Succeeded'', ''Failed''}"
    "containers_terminated p ''containers'' ''containerStatuses'' = Inr True"
    "containers_terminated p ''initContainers'' ''initContainerStatuses'' = Inr True"
    "containers_terminated p ''ephemeralContainers'' ''ephemeralContainerStatuses'' = Inr True"
    "truthy (dget ''containers'' (pspec p))" by (rule terminal_matches)
  then show ?thesis by blast
qed

theorem terminal_is_positive_evidence_witness:
  "\<exists>p. filter (\<lambda>p. pod_ns p = id_ns ex_coord \<and> pod_name p = id_name ex_coord \<and> pod_uid p = id_uid ex_coord) [ex_ended_pod] = [p]
     \<and> pod_identity p = Inr ex_coord"
  using terminal_is_positive_evidence [OF ex_ended_terminal] by blast

text \<open>
  (C11) The worker's fence: when \<^verbatim>\<open>WorkerFence.check\<close> returns, it has just read a state in
  which this worker holds the claim of this operation, in phase \<open>CLAIMED\<close> and with no write to
  GitLab pending; in every other case it raises.
\<close>

theorem fence_check_proves_claim:
  assumes "runs (fence_check st uid me oid) t (Ret ())"
  shows "\<exists>cm s p. state_seen st (ghost (kupd (st_base st)) {} t) uid cm s \<and> ms_phase s = CLAIMED
     \<and> ms_operation s = Some p \<and> op_id p = oid \<and> op_worker p = Some me \<and> op_claimed p \<and> op_write p = WNone"
  using contract.spec_returns [OF spec_fence_check_seen assms] unfolding claim_seen_def .

lemma ex_fence_runs: "runs (fence_check ex_store ''u1'' ex_worker ''digest'') ([ex_get ''8'' ex_claimed] @ ([(Now, Time 1767230000)] @ [])) (Ret ())"
  unfolding fence_check_def
  by (rule runs_pbindI [OF ex_read_runs [OF ex_claimed_good ex_claimed_wf]])
     (simp_all add: wf_text_def ex_claimed_def ex_state_defs the_op_def now_def)

theorem fence_check_proves_claim_witness:
  "\<exists>cm s p. state_seen ex_store (ghost (kupd (st_base ex_store)) {} ([ex_get ''8'' ex_claimed] @ ([(Now, Time 1767230000)] @ []))) ''u1'' cm s
     \<and> ms_phase s = CLAIMED \<and> ms_operation s = Some p \<and> op_worker p = Some ex_worker"
  using fence_check_proves_claim [OF ex_fence_runs] by blast



end
