(* ===== verification/Py_Text.thy ===== *)
theory Py_Text
  imports Json_Text
begin

section \<open>Python's string methods\<close>

text \<open>
  The methods of \<^verbatim>\<open>str\<close> and the patterns of \<^verbatim>\<open>re\<close> that several scripts use, for code points
  below 256.
\<close>

subsection \<open>Exceptions and character classes\<close>

definition value_error :: "string \<Rightarrow> exn" where
  "value_error msg = PyError (''ValueError: '' @ msg)"

definition system_exit :: "string \<Rightarrow> exn" where
  "system_exit msg = PyError (''SystemExit: '' @ msg)"

text \<open>\<^verbatim>\<open>\w\<close>.\<close>

definition word_char :: "char \<Rightarrow> bool" where
  "word_char c = (let n = (of_char c :: nat) in
     is_digit c \<or> 65 \<le> n \<and> n \<le> 90 \<or> 97 \<le> n \<and> n \<le> 122 \<or> n = 95 \<or> n \<in> {170, 178, 179, 181, 185, 186, 188, 189, 190}
     \<or> 192 \<le> n \<and> n \<noteq> 215 \<and> n \<noteq> 247)"

subsection \<open>Splitting and joining\<close>

text \<open>
  \<^verbatim>\<open>str.splitlines\<close> and \<^verbatim>\<open>str.split()\<close> with the separators Python has below code point 256;
  a text file is read with universal newlines, so that a carriage return ends a line by itself.
\<close>

definition line_break :: "char \<Rightarrow> bool" where
  "line_break c = ((of_char c :: nat) \<in> {10, 11, 12, 13, 28, 29, 30, 133})"

definition blank :: "char \<Rightarrow> bool" where
  "blank c = ((of_char c :: nat) \<in> {9, 10, 11, 12, 13, 28, 29, 30, 31, 32, 133, 160})"

fun splitlines_from :: "string \<Rightarrow> string \<Rightarrow> string list" where
  "splitlines_from acc [] = (if acc = [] then [] else [rev acc])"
| "splitlines_from acc (c # cs) = (if line_break c then rev acc # splitlines_from [] cs else splitlines_from (c # acc) cs)"

definition splitlines :: "string \<Rightarrow> string list" where
  "splitlines s = splitlines_from [] s"

fun fields_from :: "string \<Rightarrow> string \<Rightarrow> string list" where
  "fields_from acc [] = (if acc = [] then [] else [rev acc])"
| "fields_from acc (c # cs) =
     (if blank c then (if acc = [] then [] else [rev acc]) @ fields_from [] cs else fields_from (c # acc) cs)"

definition split_fields :: "string \<Rightarrow> string list" where
  "split_fields s = fields_from [] s"

text \<open>\<^verbatim>\<open>str.split(sep)\<close> for one character.\<close>

fun split_on :: "char \<Rightarrow> string \<Rightarrow> string list" where
  "split_on c [] = [[]]"
| "split_on c (x # xs) =
     (if x = c then [] # split_on c xs else (case split_on c xs of [] \<Rightarrow> [[x]] | y # ys \<Rightarrow> (x # y) # ys))"

text \<open>\<^verbatim>\<open>[1-9][0-9]*\<close> and \<^verbatim>\<open>0|[1-9][0-9]*\<close>.\<close>

definition positive_decimal :: "string \<Rightarrow> bool" where
  "positive_decimal s = (s \<noteq> [] \<and> list_all is_digit s \<and> hd s \<noteq> CHR ''0'')"

definition decimal :: "string \<Rightarrow> bool" where
  "decimal s = (s = ''0'' \<or> positive_decimal s)"

definition isdecimal :: "string \<Rightarrow> bool" where
  "isdecimal s = (s \<noteq> [] \<and> list_all is_digit s)"

fun join :: "string \<Rightarrow> string list \<Rightarrow> string" where
  "join sep [] = []"
| "join sep [x] = x"
| "join sep (x # y # xs) = x @ sep @ join sep (y # xs)"

text \<open>\<^verbatim>\<open>str.partition(sep)\<close> for one character: the part before, and the part after if the separator occurs.\<close>

definition partition_on :: "char \<Rightarrow> string \<Rightarrow> string \<times> string option" where
  "partition_on c s = (takeWhile (\<lambda>x. x \<noteq> c) s, case dropWhile (\<lambda>x. x \<noteq> c) s of [] \<Rightarrow> None | _ # b \<Rightarrow> Some b)"

text \<open>\<^verbatim>\<open>str.strip()\<close>, \<^verbatim>\<open>str.lower()\<close>, \<^verbatim>\<open>sub in s\<close>, \<^verbatim>\<open>removeprefix\<close> and \<^verbatim>\<open>removesuffix\<close>.\<close>

definition lstrip :: "string \<Rightarrow> string" where
  "lstrip s = dropWhile blank s"

definition strip :: "string \<Rightarrow> string" where
  "strip s = rev (dropWhile blank (rev (dropWhile blank s)))"

definition lower_char :: "char \<Rightarrow> char" where
  "lower_char c = (let n = (of_char c :: nat) in
     if 65 \<le> n \<and> n \<le> 90 \<or> 192 \<le> n \<and> n \<le> 222 \<and> n \<noteq> 215 then char_of (n + 32) else c)"

definition lower :: "string \<Rightarrow> string" where
  "lower s = map lower_char s"

fun occurs :: "string \<Rightarrow> string \<Rightarrow> bool" where
  "occurs pat [] = (pat = [])"
| "occurs pat (c # cs) = (prefix pat (c # cs) \<or> occurs pat cs)"

text \<open>\<^verbatim>\<open>PurePosixPath(name).parts\<close>: empty components and single dots disappear.\<close>

definition parts :: "string \<Rightarrow> string list" where
  "parts name = filter (\<lambda>c. c \<noteq> [] \<and> c \<noteq> ''.'') (split_on (CHR ''/'') name)"

definition removeprefix :: "string \<Rightarrow> string \<Rightarrow> string" where
  "removeprefix p s = (if prefix p s then drop (length p) s else s)"

definition removesuffix :: "string \<Rightarrow> string \<Rightarrow> string" where
  "removesuffix p s = (if p \<noteq> [] \<and> suffix p s then take (length s - length p) s else s)"

text \<open>\<^verbatim>\<open>repr\<close> of a string.\<close>

definition repr_char :: "char \<Rightarrow> char \<Rightarrow> string" where
  "repr_char q c =
     (let n = (of_char c :: nat) in
      if c = q \<or> n = 92 then [CHR 0x5C, c]
      else if n = 9 then [CHR 0x5C, CHR ''t'']
      else if n = 10 then [CHR 0x5C, CHR ''n'']
      else if n = 13 then [CHR 0x5C, CHR ''r'']
      else if n < 32 \<or> 127 \<le> n \<and> n \<le> 160 \<or> n = 173
      then [CHR 0x5C, CHR ''x'', hex_digit (n div 16), hex_digit (n mod 16)]
      else [c])"

definition repr_str :: "string \<Rightarrow> string" where
  "repr_str s =
     (let q = (if CHR 0x27 \<in> set s \<and> CHR 0x22 \<notin> set s then CHR 0x22 else CHR 0x27)
      in [q] @ concat (map (repr_char q) s) @ [q])"

subsection \<open>Replacing\<close>

text \<open>\<^verbatim>\<open>str.replace\<close> of a pattern that is not empty.\<close>

function replace_all :: "string \<Rightarrow> string \<Rightarrow> string \<Rightarrow> string" where
  "replace_all pat new s =
     (if s = [] then []
      else if pat \<noteq> [] \<and> prefix pat s then new @ replace_all pat new (drop (length pat) s)
      else hd s # replace_all pat new (tl s))"
  by auto
termination by (relation "measure (\<lambda>(pat, new, s). length s)") auto

declare replace_all.simps [simp del]

lemma replace_all_Nil [simp]: "replace_all pat new [] = []"
  by (simp add: replace_all.simps)

lemma replace_all_prefix: "pat \<noteq> [] \<Longrightarrow> replace_all pat new (pat @ s) = new @ replace_all pat new s"
  by (subst replace_all.simps) simp

lemma replace_all_skip: "c \<noteq> hd pat \<Longrightarrow> pat \<noteq> [] \<Longrightarrow> replace_all pat new (c # s) = c # replace_all pat new s"
  by (subst replace_all.simps) (cases pat; simp)

lemma replace_all_other:
  assumes "length tok = length pat" "tok \<noteq> pat" "pat \<noteq> []" "list_all (\<lambda>c. c \<noteq> hd pat) (tl tok)"
  shows "replace_all pat new (tok @ s) = tok @ replace_all pat new s"
proof -
  obtain c cs where tok: "tok = c # cs" using assms(1,3) by (cases tok) auto
  have skip: "list_all (\<lambda>c. c \<noteq> hd pat) cs \<Longrightarrow> replace_all pat new (cs @ s) = cs @ replace_all pat new s" for cs
    by (induction cs) (simp_all add: replace_all_skip assms(3))
  have "\<not> prefix pat (tok @ s)" using assms(1,2) by (auto simp: prefix_def append_eq_append_conv)
  then have "replace_all pat new (tok @ s) = c # replace_all pat new (cs @ s)"
    by (subst replace_all.simps) (simp add: tok)
  with skip [of cs] assms(4) show ?thesis by (simp add: tok)
qed

subsection \<open>Lemmas\<close>

lemma partition_on_None: "c \<notin> set s \<Longrightarrow> partition_on c s = (s, None)"
proof -
  assume "c \<notin> set s"
  then have "dropWhile (\<lambda>x. x \<noteq> c) s = []" "takeWhile (\<lambda>x. x \<noteq> c) s = s"
    by (auto simp: dropWhile_eq_Nil_conv takeWhile_eq_all_conv)
  then show ?thesis by (simp only: partition_on_def list.case)
qed

lemma partition_on_Some: "c \<notin> set a \<Longrightarrow> partition_on c (a @ c # b) = (a, Some b)"
  by (auto simp: partition_on_def takeWhile_append dropWhile_append dropWhile_eq_Nil_conv)

lemma occurs_iff: "occurs pat s \<longleftrightarrow> (\<exists>a b. s = a @ pat @ b)"
proof (induction s)
  case (Cons c s)
  show ?case
  proof
    assume "occurs pat (c # s)"
    then consider "prefix pat (c # s)" | "occurs pat s" by auto
    then show "\<exists>a b. c # s = a @ pat @ b"
    proof cases
      case 1
      then show ?thesis by (metis append_Nil prefixE)
    next
      case 2
      with Cons show ?thesis by (metis append_Cons)
    qed
  next
    assume "\<exists>a b. c # s = a @ pat @ b"
    then obtain a b where ab: "c # s = a @ pat @ b" by blast
    show "occurs pat (c # s)"
    proof (cases a)
      case Nil
      with ab show ?thesis by (metis append_Nil occurs.simps(2) prefixI)
    next
      case (Cons x a')
      with ab have "s = a' @ pat @ b" by simp
      with Cons.IH show ?thesis by auto
    qed
  qed
qed simp

lemma split_on_nonempty [simp]: "split_on c s \<noteq> []"
  by (induction s) (auto split: list.splits)

lemma split_on_no_sep: "x \<in> set (split_on c s) \<Longrightarrow> c \<notin> set x"
  by (induction s arbitrary: x) (fastforce split: list.splits if_splits)+

lemma join_split_on: "join [c] (split_on c s) = s"
proof (induction s)
  case (Cons x s)
  show ?case
  proof (cases "split_on c s")
    case (Cons y ys)
    with Cons.IH show ?thesis by (cases ys) auto
  qed simp
qed simp

lemma split_on_no_char: "c \<notin> set s \<Longrightarrow> split_on c s = [s]"
  by (induction s) auto

lemma split_on_append: "c \<notin> set a \<Longrightarrow> split_on c (a @ c # b) = a # split_on c b"
  by (induction a) auto

subsection \<open>Values as texts and as sequences\<close>

text \<open>
  \<^verbatim>\<open>repr\<close> and \<^verbatim>\<open>str\<close> of a value; the first argument gives the text of a float. Iterating a
  list gives its elements, a dict its keys and a string its characters. \<open>or_empty\<close> is
  \<^verbatim>\<open>v or []\<close> and \<open>or_dict\<close> is \<^verbatim>\<open>v or {}\<close>.
\<close>

fun py_repr :: "(rat \<Rightarrow> string) \<Rightarrow> jval \<Rightarrow> string" where
  "py_repr fl JNull = ''None''"
| "py_repr fl (JBool b) = (if b then ''True'' else ''False'')"
| "py_repr fl (JInt i) = show_int i"
| "py_repr fl (JFloat r) = fl r"
| "py_repr fl (JStr s) = repr_str s"
| "py_repr fl (JList xs) = ''['' @ join '', '' (map (py_repr fl) xs) @ '']''"
| "py_repr fl (JDict d) = ''{'' @ join '', '' (map (\<lambda>(k, v). repr_str k @ '': '' @ py_repr fl v) d) @ ''}''"

definition py_str :: "(rat \<Rightarrow> string) \<Rightarrow> jval \<Rightarrow> string" where
  "py_str fl v = (case v of JStr s \<Rightarrow> s | _ \<Rightarrow> py_repr fl v)"

definition py_iter :: "jval \<Rightarrow> jval list res" where
  "py_iter v = (case v of
      JList xs \<Rightarrow> Inr xs
    | JDict d \<Rightarrow> Inr (map (JStr \<circ> fst) d)
    | JStr s \<Rightarrow> Inr (map (\<lambda>c. JStr [c]) s)
    | _ \<Rightarrow> Inl (PyError ''TypeError''))"

definition or_empty :: "jval \<Rightarrow> jval" where
  "or_empty v = (if truthy v then v else JList [])"

definition or_dict :: "jval \<Rightarrow> jval" where
  "or_dict v = (if truthy v then v else JDict [])"

definition py_items :: "jval \<Rightarrow> dict res" where
  "py_items v = (case v of JDict d \<Rightarrow> Inr d | _ \<Rightarrow> Inl (PyError ''AttributeError''))"

text \<open>The number of a value, where Python calculates with it; a truth value counts as 0 or 1.\<close>

fun number_of :: "jval \<Rightarrow> rat option" where
  "number_of (JBool b) = Some (if b then 1 else 0)"
| "number_of (JInt i) = Some (of_int i)"
| "number_of (JFloat r) = Some r"
| "number_of _ = None"

definition as_num :: "jval \<Rightarrow> rat res" where
  "as_num v = (case number_of v of Some r \<Rightarrow> Inr r | None \<Rightarrow> Inl (PyError ''TypeError''))"

definition py_len :: "jval \<Rightarrow> nat res" where
  "py_len v = (case v of JList xs \<Rightarrow> Inr (length xs) | JDict d \<Rightarrow> Inr (length d) | JStr s \<Rightarrow> Inr (length s) | _ \<Rightarrow> Inl (PyError ''TypeError''))"

text \<open>\<^verbatim>\<open>v[0]\<close>.\<close>

definition py_first :: "jval \<Rightarrow> jval res" where
  "py_first v = (case v of
      JList (x # _) \<Rightarrow> Inr x
    | JList [] \<Rightarrow> Inl (PyError ''IndexError'')
    | JStr (c # _) \<Rightarrow> Inr (JStr [c])
    | JStr [] \<Rightarrow> Inl (PyError ''IndexError'')
    | JDict _ \<Rightarrow> Inl (PyError ''KeyError'')
    | _ \<Rightarrow> Inl (PyError ''TypeError''))"

text \<open>
  \<^verbatim>\<open>int\<close> of a string: blanks around it, a sign, digits with single underscores between them, and no more than
  4300 digits.
\<close>

fun underscored :: "string \<Rightarrow> bool" where
  "underscored [] = False"
| "underscored [c] = is_digit c"
| "underscored (c # d # cs) = (is_digit c \<and> (if d = CHR ''_'' then underscored cs else underscored (d # cs)))"

definition py_int :: "string \<Rightarrow> int res" where
  "py_int s =
     (let t = strip s; signed = prefix ''+'' t \<or> prefix ''-'' t; body = (if signed then tl t else t);
          digits = filter (\<lambda>c. c \<noteq> CHR ''_'') body in
      if underscored body \<and> length digits \<le> 4300
      then Inr (if prefix ''-'' t then - int (read_nat digits) else int (read_nat digits))
      else Inl (PyError ''ValueError''))"

lemma digit_chars: "is_digit c \<Longrightarrow> \<not> blank c \<and> c \<noteq> CHR ''_'' \<and> c \<noteq> CHR ''+'' \<and> c \<noteq> CHR ''-''"
  by (auto simp: is_digit_def blank_def)

lemma underscored_digits: "s \<noteq> [] \<Longrightarrow> list_all is_digit s \<Longrightarrow> underscored s"
  by (induction s rule: underscored.induct) (auto dest: digit_chars)

lemma py_int_digits:
  assumes "isdecimal s" and "length s \<le> 4300"
  shows "py_int s = Inr (int (read_nat s))"
proof -
  have d: "s \<noteq> []" "list_all is_digit s" using assms(1) by (auto simp: isdecimal_def)
  then have "dropWhile blank s = s" by (cases s) (auto dest: digit_chars)
  moreover have "dropWhile blank (rev s) = rev s" using d by (cases s rule: rev_cases) (auto dest: digit_chars)
  ultimately have "strip s = s" by (simp add: strip_def)
  moreover have "\<not> prefix ''+'' s" "\<not> prefix ''-'' s" using d by (cases s, auto dest: digit_chars)+
  moreover have "filter (\<lambda>c. c \<noteq> CHR ''_'') s = s" using d(2) by (auto simp: list_all_iff filter_id_conv dest: digit_chars)
  ultimately show ?thesis using underscored_digits [OF d] assms(2) by (simp add: py_int_def)
qed

text \<open>\<^verbatim>\<open>any(...)\<close> over tests that may raise: it stops at the first test that holds.\<close>

fun any_res :: "('a \<Rightarrow> bool res) \<Rightarrow> 'a list \<Rightarrow> bool res" where
  "any_res p [] = Inr False"
| "any_res p (x # xs) = rbind (p x) (\<lambda>b. if b then Inr True else any_res p xs)"

lemma any_res_True: "any_res p xs = Inr True \<Longrightarrow> \<exists>x \<in> set xs. p x = Inr True"
  by (induction xs) (auto simp: rbind_eq_Inr split: if_splits)

definition runtime_error :: "string \<Rightarrow> exn" where
  "runtime_error msg = PyError (''RuntimeError: '' @ msg)"

end
