(* ===== verification/Retention_Fs.thy ===== *)
theory Retention_Fs
  imports Pod_Gate Py_Text "HOL-Library.Option_ord"
begin

section \<open>The file system part of the retention policy\<close>

text \<open>
  \<^verbatim>\<open>cache-retention.py\<close>: \<open>identity\<close>, \<open>check_entry\<close>, \<open>snapshot\<close> and \<open>remove_tree\<close>. Every
  system call is an action whose response nothing constrains, so other processes may change the
  file system between any two of them. An absolute path is the list of its components and the
  relative path of an entry below a candidate is the list of the names leading to it. Directory
  listings give single names.

  The recursion of the two tree walks is bounded by the interpreter's recursion limit, the
  argument \<open>depth\<close>; a deeper tree raises \<^verbatim>\<open>RecursionError\<close>. A scan of a directory gives
  one entry per \<^verbatim>\<open>NextEntry\<close> action; its iteration budget is an argument of
  \<open>remove_tree\<close> and every statement below holds for all budgets. The times of a
  \<^verbatim>\<open>stat_result\<close> are the rational values of the floating-point numbers. The hash function is a
  parameter; it stands for SHA-256 of the UTF-8 encoding.
\<close>

subsection \<open>Actions\<close>

type_synonym path = "string list"

record fstat =
  st_dev :: int
  st_ino :: int
  st_mode :: int
  st_uid :: int
  st_gid :: int
  st_size :: int
  st_mtime_ns :: int
  st_ctime_ns :: int
  st_mtime :: rat
  st_ctime :: rat

record vfs =
  f_blocks :: int
  f_bavail :: int
  f_frsize :: int
  f_flag :: int

datatype ract =
    Kube kact
  | OpenPath path
  | OpenFile path
  | OpenAt int string
  | StatAt int string
  | Fstat int
  | Listdir int
  | Scandir int
  | NextEntry int
  | CloseDir int
  | CloseFd int
  | Rmdir int string
  | Unlink int string
  | ReadFd int nat
  | StatPath path
  | LstatPath path
  | Iterdir path
  | ReadText path
  | ReadBytes path
  | Statvfs path
  | Clock
  | InitProcess
  | Popen "string list"
  | WaitChild nat
  | ReadChild nat
  | KillChild
  | CloseChild

datatype rresp =
    RKube kresp
  | RFd int
  | RStat fstat
  | RNames "string list"
  | RName "string option"
  | RUnit
  | RVfs vfs
  | RText string
  | RTime rat
  | RBool bool
  | RInt int
  | RRaised exn

type_synonym 'a rprog = "(ract, rresp, 'a) prog"

definition kube_resp :: "rresp \<Rightarrow> kresp" where
  "kube_resp r = (case r of RKube k \<Rightarrow> k | RRaised e \<Rightarrow> Raised e | _ \<Rightarrow> Raised (PyError ''TypeError''))"

definition kube :: "'a kprog \<Rightarrow> 'a rprog" where
  "kube p = embed Kube kube_resp p"

definition got :: "(rresp \<Rightarrow> 'a option) \<Rightarrow> rresp \<Rightarrow> 'a rprog" where
  "got f r = (case f r of Some x \<Rightarrow> Ret x
     | None \<Rightarrow> (case r of RRaised e \<Rightarrow> Fail e | _ \<Rightarrow> Fail (PyError ''TypeError'')))"

definition call_fd :: "ract \<Rightarrow> int rprog" where
  "call_fd q = Act q (got (\<lambda>r. case r of RFd n \<Rightarrow> Some n | _ \<Rightarrow> None))"

definition call_stat :: "ract \<Rightarrow> fstat rprog" where
  "call_stat q = Act q (got (\<lambda>r. case r of RStat s \<Rightarrow> Some s | _ \<Rightarrow> None))"

definition call_names :: "ract \<Rightarrow> string list rprog" where
  "call_names q = Act q (got (\<lambda>r. case r of RNames ns \<Rightarrow> Some ns | _ \<Rightarrow> None))"

definition call_name :: "ract \<Rightarrow> string option rprog" where
  "call_name q = Act q (got (\<lambda>r. case r of RName n \<Rightarrow> Some n | _ \<Rightarrow> None))"

definition call_unit :: "ract \<Rightarrow> unit rprog" where
  "call_unit q = Act q (got (\<lambda>r. case r of RUnit \<Rightarrow> Some () | _ \<Rightarrow> None))"

definition call_text :: "ract \<Rightarrow> string rprog" where
  "call_text q = Act q (got (\<lambda>r. case r of RText s \<Rightarrow> Some s | _ \<Rightarrow> None))"

definition call_vfs :: "ract \<Rightarrow> vfs rprog" where
  "call_vfs q = Act q (got (\<lambda>r. case r of RVfs v \<Rightarrow> Some v | _ \<Rightarrow> None))"

definition call_time :: "ract \<Rightarrow> rat rprog" where
  "call_time q = Act q (got (\<lambda>r. case r of RTime v \<Rightarrow> Some v | _ \<Rightarrow> None))"

definition call_bool :: "ract \<Rightarrow> bool rprog" where
  "call_bool q = Act q (got (\<lambda>r. case r of RBool v \<Rightarrow> Some v | _ \<Rightarrow> None))"

definition call_int :: "ract \<Rightarrow> int rprog" where
  "call_int q = Act q (got (\<lambda>r. case r of RInt v \<Rightarrow> Some v | _ \<Rightarrow> None))"

lemmas call_defs = call_fd_def call_stat_def call_names_def call_name_def call_unit_def call_text_def
  call_vfs_def call_time_def call_bool_def call_int_def

subsection \<open>Entries\<close>

definition S_IFMT :: "int \<Rightarrow> int" where
  "S_IFMT mode = mode div 4096 mod 16"

definition S_ISDIR :: "int \<Rightarrow> bool" where
  "S_ISDIR mode = (S_IFMT mode = 4)"

definition S_ISREG :: "int \<Rightarrow> bool" where
  "S_ISREG mode = (S_IFMT mode = 8)"

definition S_ISLNK :: "int \<Rightarrow> bool" where
  "S_ISLNK mode = (S_IFMT mode = 10)"

type_synonym inode = "int \<times> int"

definition inode_of :: "fstat \<Rightarrow> inode" where
  "inode_of st = (st_dev st, st_ino st)"

definition check_entry :: "fstat \<Rightarrow> int \<Rightarrow> inode list \<Rightarrow> inode list \<Rightarrow> bool \<Rightarrow> unit res" where
  "check_entry st device busy mounted symlink_leaf =
     (if inode_of st \<in> set busy \<or> inode_of st \<in> set mounted then Inl (Refuse ''open/mounted entry'')
      else if st_dev st \<noteq> device \<or> \<not> (S_ISDIR (st_mode st) \<or> S_ISREG (st_mode st) \<or> symlink_leaf \<and> S_ISLNK (st_mode st))
      then Inl (Refuse ''non-ordinary or cross-device entry'')
      else Inr ())"

subsection \<open>The text of a fingerprint entry\<close>

text \<open>\<^verbatim>\<open>repr\<close> of the tuple of an entry.\<close>

definition str_relative :: "path \<Rightarrow> string" where
  "str_relative rel = (if rel = [] then ''.'' else join ''/'' rel)"

definition entry_value :: "fstat \<Rightarrow> string" where
  "entry_value st = ''(('' @ show_int (st_dev st) @ '', '' @ show_int (st_ino st) @ ''), '' @ show_int (st_mode st)
     @ '', '' @ show_int (st_uid st) @ '', '' @ show_int (st_gid st) @ '', '' @ show_int (st_size st)
     @ '', '' @ show_int (st_mtime_ns st) @ '', ''
     @ (if S_ISREG (st_mode st) then ''None'' else show_int (st_ctime_ns st)) @ '')''"

definition entry_repr :: "path \<Rightarrow> fstat \<Rightarrow> string" where
  "entry_repr rel st = ''('' @ repr_str (str_relative rel) @ '', '' @ entry_value st @ '')''"

subsection \<open>snapshot\<close>

text \<open>
  The variables of \<^verbatim>\<open>snapshot\<close> that \<^verbatim>\<open>visit\<close> changes; \<^const>\<open>None\<close> is Python's
  \<^verbatim>\<open>None\<close> for the latest file and minus infinity for the latest directory.
\<close>

record snap =
  sn_text :: string
  sn_file :: "rat option"
  sn_directory :: "rat option"
  sn_root :: "inode option"

record scope =
  sc_device :: int
  sc_mounted :: "inode list"
  sc_busy :: "inode list"
  sc_links :: bool

definition check_in :: "scope \<Rightarrow> bool \<Rightarrow> fstat \<Rightarrow> unit res" where
  "check_in sc nested st = check_entry st (sc_device sc) (sc_busy sc) (sc_mounted sc) (sc_links sc \<and> nested)"

definition note_entry :: "path \<Rightarrow> fstat \<Rightarrow> snap \<Rightarrow> snap" where
  "note_entry rel st s = s\<lparr>sn_root := (if rel = [] then Some (inode_of st) else sn_root s),
     sn_text := sn_text s @ entry_repr rel st\<rparr>"

definition note_directory :: "fstat \<Rightarrow> snap \<Rightarrow> snap" where
  "note_directory st s = s\<lparr>sn_directory := max (sn_directory s) (Some (st_mtime st))\<rparr>"

definition note_file :: "fstat \<Rightarrow> snap \<Rightarrow> snap" where
  "note_file st s =
     (let latest = (if S_ISLNK (st_mode st) then max (st_mtime st) (st_ctime st) else st_mtime st)
      in s\<lparr>sn_file := Some (case sn_file s of None \<Rightarrow> latest | Some l \<Rightarrow> max l latest)\<rparr>)"

fun visit :: "nat \<Rightarrow> scope \<Rightarrow> int \<Rightarrow> string \<Rightarrow> path \<Rightarrow> snap \<Rightarrow> snap rprog" where
  "visit 0 sc parent name rel s = Fail (PyError ''RecursionError'')"
| "visit (Suc depth) sc parent name rel s =
     pbind (call_stat (StatAt parent name)) (\<lambda>st.
     pbind (liftr (check_in sc (rel \<noteq> []) st)) (\<lambda>_.
     if S_ISDIR (st_mode st) then
       pbind (call_fd (OpenAt parent name)) (\<lambda>fd.
       pfinally
         (pbind (call_stat (Fstat fd)) (\<lambda>st'.
          pbind (prequire (inode_of st' = inode_of st) ''directory replaced during snapshot'') (\<lambda>_.
          pbind (call_names (Listdir fd)) (\<lambda>children.
          pfold (\<lambda>child. visit depth sc fd child (rel @ [child])) (sort children)
            (note_directory st (note_entry rel st s))))))
         (call_unit (CloseFd fd)))
     else Ret (note_file st (note_entry rel st s))))"

definition UV_ROOT :: path where
  "UV_ROOT = [''var'', ''lib'', ''ci-cache-nocow'', ''uv'']"

type_synonym proof_value = "string \<times> inode option"

definition latest_of :: "snap \<Rightarrow> rat option" where
  "latest_of s = (case sn_file s of None \<Rightarrow> sn_directory s | Some l \<Rightarrow> Some l)"

text \<open>\<open>sc_links\<close> is \<^verbatim>\<open>workspace or native_uv\<close>.\<close>

definition snapshot :: "(string \<Rightarrow> string) \<Rightarrow> nat \<Rightarrow> path \<Rightarrow> int \<Rightarrow> inode list \<Rightarrow> inode list \<Rightarrow> bool \<Rightarrow> bool
    \<Rightarrow> (proof_value \<times> rat option) rprog" where
  "snapshot sha depth path device mounted busy workspace native_uv =
     pbind (prequire (native_uv \<longrightarrow> path = UV_ROOT) ''wrong UV proof root'') (\<lambda>_.
     pbind (call_fd (OpenPath (butlast path))) (\<lambda>parent.
     pbind (pfinally
       (visit depth \<lparr>sc_device = device, sc_mounted = mounted, sc_busy = busy, sc_links = workspace \<or> native_uv\<rparr>
         parent (last path) [] \<lparr>sn_text = [], sn_file = None, sn_directory = None, sn_root = None\<rparr>)
       (call_unit (CloseFd parent))) (\<lambda>s.
     Ret ((sha (sn_text s), sn_root s), latest_of s))))"

subsection \<open>remove\_tree\<close>

definition same_file :: "fstat \<Rightarrow> fstat \<Rightarrow> bool" where
  "same_file a b \<longleftrightarrow> st_dev a = st_dev b \<and> st_ino a = st_ino b \<and> st_mode a = st_mode b \<and> st_uid a = st_uid b
     \<and> st_gid a = st_gid b \<and> st_size a = st_size b \<and> st_mtime_ns a = st_mtime_ns b \<and> st_ctime_ns a = st_ctime_ns b"

fun each_entry :: "nat \<Rightarrow> int \<Rightarrow> (string \<Rightarrow> unit rprog) \<Rightarrow> unit rprog" where
  "each_entry 0 children f = OutOfFuel"
| "each_entry (Suc budget) children f =
     pbind (call_name (NextEntry children)) (\<lambda>entry.
     case entry of None \<Rightarrow> Ret () | Some name \<Rightarrow> pbind (f name) (\<lambda>_. each_entry budget children f))"

definition scan :: "nat \<Rightarrow> int \<Rightarrow> (string \<Rightarrow> unit rprog) \<Rightarrow> unit rprog" where
  "scan budget fd f =
     pbind (call_fd (Scandir fd)) (\<lambda>children. pfinally (each_entry budget children f) (call_unit (CloseDir children)))"

fun remove :: "nat \<Rightarrow> nat \<Rightarrow> scope \<Rightarrow> int \<Rightarrow> string \<Rightarrow> inode option \<Rightarrow> unit rprog" where
  "remove 0 budget sc parent name expected = Fail (PyError ''RecursionError'')"
| "remove (Suc depth) budget sc parent name expected =
     pbind (call_stat (StatAt parent name)) (\<lambda>st.
     pbind (liftr (check_in sc (expected = None) st)) (\<lambda>_.
     pbind (prequire (expected = None \<or> expected = Some (inode_of st)) ''candidate replaced before deletion'') (\<lambda>_.
     if S_ISDIR (st_mode st) then
       pbind (call_fd (OpenAt parent name)) (\<lambda>fd.
       pbind (pfinally
         (pbind (call_stat (Fstat fd)) (\<lambda>st'.
          pbind (prequire (inode_of st' = inode_of st) ''directory replaced during deletion'') (\<lambda>_.
          scan budget fd (\<lambda>child. remove depth budget sc fd child None))))
         (call_unit (CloseFd fd))) (\<lambda>_.
       pbind (call_stat (StatAt parent name)) (\<lambda>current.
       pbind (liftr (check_in sc False current)) (\<lambda>_.
       pbind (prequire (inode_of current = inode_of st \<and> st_mode current = st_mode st) ''directory replaced during deletion'') (\<lambda>_.
       call_unit (Rmdir parent name))))))
     else
       pbind (call_stat (StatAt parent name)) (\<lambda>current.
       pbind (prequire (same_file current st) ''file changed during deletion'') (\<lambda>_.
       call_unit (Unlink parent name))))))"

definition remove_tree :: "nat \<Rightarrow> nat \<Rightarrow> path \<Rightarrow> int \<Rightarrow> inode list \<Rightarrow> inode list \<Rightarrow> inode option \<Rightarrow> bool \<Rightarrow> unit rprog" where
  "remove_tree depth budget path device busy mounted expected_root workspace =
     pbind (call_fd (OpenPath (butlast path))) (\<lambda>with_fd.
     pfinally
       (remove depth budget \<lparr>sc_device = device, sc_mounted = mounted, sc_busy = busy, sc_links = workspace\<rparr>
         with_fd (last path) expected_root)
       (call_unit (CloseFd with_fd)))"

subsection \<open>What a tree walk may do\<close>

text \<open>
  A descriptor is \<open>held\<close> below a directory when it was opened on the directory itself, or by
  name below a held descriptor on a directory that passed the checks and was found again by
  \<^verbatim>\<open>fstat\<close>. \<open>walk_ok\<close> says what a history allows next: every access is relative to a held
  descriptor, only checked directories are opened, and an entry is deleted right after a second
  look that agrees with the checked first one.
\<close>

type_synonym hist = "(ract \<times> rresp) list"

inductive held :: "scope \<Rightarrow> path \<Rightarrow> hist \<Rightarrow> int \<Rightarrow> bool" for sc pt h where
  Top: "(OpenPath pt, RFd fd) \<in> set h \<Longrightarrow> held sc pt h fd"
| Below: "held sc pt h fd \<Longrightarrow> (StatAt fd name, RStat st) \<in> set h \<Longrightarrow> check_in sc nested st = Inr () \<Longrightarrow> S_ISDIR (st_mode st)
    \<Longrightarrow> (OpenAt fd name, RFd fd') \<in> set h \<Longrightarrow> (Fstat fd', RStat st') \<in> set h \<Longrightarrow> inode_of st' = inode_of st \<Longrightarrow> held sc pt h fd'"

lemma held_suffix: "held sc pt h fd \<Longrightarrow> suffix h h' \<Longrightarrow> held sc pt h' fd"
proof (induction rule: held.induct)
  case (Top fd)
  then show ?case by (auto simp: suffix_def intro: held.Top)
next
  case (Below fd name st nested fd' st')
  from Below.prems have sub: "set h \<subseteq> set h'" by (auto simp: suffix_def)
  with Below.hyps show ?case by (intro held.Below [OF Below.IH [OF Below.prems], of name st nested fd' st']) auto
qed

definition looked :: "hist \<Rightarrow> int \<Rightarrow> string \<Rightarrow> fstat \<Rightarrow> fstat \<Rightarrow> bool" where
  "looked h fd name first again \<longleftrightarrow> (\<exists>h'. h = (StatAt fd name, RStat again) # h' \<and> (StatAt fd name, RStat first) \<in> set h')"

definition walk_ok :: "scope \<Rightarrow> path \<Rightarrow> bool \<Rightarrow> hist \<Rightarrow> ract \<Rightarrow> bool" where
  "walk_ok sc pt deletes h q = (case q of
     OpenPath p \<Rightarrow> p = pt
   | StatAt fd name \<Rightarrow> held sc pt h fd
   | OpenAt fd name \<Rightarrow> held sc pt h fd \<and> (\<exists>st h' nested. h = (StatAt fd name, RStat st) # h'
        \<and> check_in sc nested st = Inr () \<and> S_ISDIR (st_mode st))
   | Unlink fd name \<Rightarrow> deletes \<and> held sc pt h fd \<and> (\<exists>st current nested. looked h fd name st current \<and> same_file current st
        \<and> check_in sc nested st = Inr () \<and> \<not> S_ISDIR (st_mode st))
   | Rmdir fd name \<Rightarrow> deletes \<and> held sc pt h fd \<and> (\<exists>st current. looked h fd name st current \<and> inode_of current = inode_of st
        \<and> check_in sc False current = Inr () \<and> S_ISDIR (st_mode current))
   | Listdir fd \<Rightarrow> held sc pt h fd
   | Scandir fd \<Rightarrow> held sc pt h fd
   | Fstat fd \<Rightarrow> True | NextEntry c \<Rightarrow> True | CloseDir c \<Rightarrow> True | CloseFd fd \<Rightarrow> True
   | _ \<Rightarrow> False)"

text \<open>Steps of the calculus for calls.\<close>

lemma spec_calls:
  "ok h q \<Longrightarrow> (\<And>x. history.spec ok ((q, RFd x) # h) (f x) R) \<Longrightarrow> history.spec ok h (pbind (call_fd q) f) R"
  "ok h q \<Longrightarrow> (\<And>x. history.spec ok ((q, RStat x) # h) (f2 x) R) \<Longrightarrow> history.spec ok h (pbind (call_stat q) f2) R"
  "ok h q \<Longrightarrow> (\<And>x. history.spec ok ((q, RNames x) # h) (f3 x) R) \<Longrightarrow> history.spec ok h (pbind (call_names q) f3) R"
  "ok h q \<Longrightarrow> (\<And>x. history.spec ok ((q, RName x) # h) (f4 x) R) \<Longrightarrow> history.spec ok h (pbind (call_name q) f4) R"
  unfolding call_defs pbind.simps
  by (auto intro!: history.spec_Act simp: got_def hist_upd_def split: rresp.split)

lemma spec_call_unit: "ok h q \<Longrightarrow> history.spec ok h (call_unit q) (\<lambda>_ _. True)"
  unfolding call_defs by (auto intro!: history.spec_Act simp: got_def split: rresp.split)

lemma spec_each_entry:
  assumes "\<And>h c. ok h (NextEntry c)" and "\<And>name h'. suffix h h' \<Longrightarrow> history.spec ok h' (f name) (\<lambda>_ _. True)"
  shows "history.spec ok h (each_entry budget children f) (\<lambda>_ _. True)"
  using assms(2)
proof (induction budget arbitrary: h)
  case (Suc budget)
  have "history.spec ok ((NextEntry children, RName x) # h)
      (case x of None \<Rightarrow> Ret () | Some name \<Rightarrow> pbind (f name) (\<lambda>_. each_entry budget children f)) (\<lambda>_ _. True)" for x
  proof (cases x)
    case (Some name)
    have s: "suffix h ((NextEntry children, RName x) # h)" by (simp add: suffix_ConsI)
    have "history.spec ok ((NextEntry children, RName x) # h) (pbind (f name) (\<lambda>_. each_entry budget children f)) (\<lambda>_ _. True)"
      by (rule history.spec_bind [OF Suc.prems [OF s]])
        (rule Suc.IH, rule Suc.prems, meson s suffix_order.trans)
    with Some show ?thesis by simp
  qed simp
  with assms(1) show ?case unfolding each_entry.simps by (intro spec_calls)
qed simp

lemma walk_visit:
  "held sc pt h parent \<Longrightarrow> history.spec (walk_ok sc pt dl) h (visit depth sc parent name rel s) (\<lambda>_ _. True)"
proof (induction depth arbitrary: h parent name rel s)
  case (Suc depth)
  note held_mono = held_suffix [OF Suc.prems]
  show ?case unfolding visit.simps
  proof (intro spec_calls history.spec_bind_liftr history.spec_if)
    show "walk_ok sc pt dl h (StatAt parent name)" using Suc.prems by (simp add: walk_ok_def)
  next
    fix st u
    let ?h1 = "(StatAt parent name, RStat st) # h"
    assume st: "check_in sc (rel \<noteq> []) st = Inr u" and dir: "S_ISDIR (st_mode st)"
    show "walk_ok sc pt dl ?h1 (OpenAt parent name)"
      using st dir held_mono by (auto simp: walk_ok_def suffix_ConsI)
    fix fd
    let ?h2 = "(OpenAt parent name, RFd fd) # ?h1"
    let ?R = "\<lambda>_ _ :: hist. True"
    show "history.spec (walk_ok sc pt dl) ?h2
      (pfinally (pbind (call_stat (Fstat fd)) (\<lambda>st'. pbind (prequire (inode_of st' = inode_of st) ''directory replaced during snapshot'') (\<lambda>_.
          pbind (call_names (Listdir fd)) (\<lambda>children. pfold (\<lambda>child. visit depth sc fd child (rel @ [child])) (sort children)
            (note_directory st (note_entry rel st s)))))) (call_unit (CloseFd fd))) ?R"
    proof (rule history.spec_finally [where R = ?R])
      show "history.spec (walk_ok sc pt dl) ?h2 (pbind (call_stat (Fstat fd)) (\<lambda>st'. pbind (prequire (inode_of st' = inode_of st) ''directory replaced during snapshot'') (\<lambda>_.
          pbind (call_names (Listdir fd)) (\<lambda>children. pfold (\<lambda>child. visit depth sc fd child (rel @ [child])) (sort children)
            (note_directory st (note_entry rel st s)))))) ?R"
      proof (intro spec_calls history.spec_bind_require history.spec_fold Suc.IH)
        show "walk_ok sc pt dl ?h2 (Fstat fd)" by (simp add: walk_ok_def)
      next
        fix st' assume i: "inode_of st' = inode_of st"
        let ?h3 = "(Fstat fd, RStat st') # ?h2"
        have "suffix h ?h3" by (simp add: suffix_ConsI)
        then have "held sc pt ?h3 parent" by (rule held_mono)
        then have fd: "held sc pt ?h3 fd"
          by (rule held.Below [of _ _ _ _ name st "rel \<noteq> []" _ st']) (use i dir st in auto)
        then show "walk_ok sc pt dl ?h3 (Listdir fd)" by (simp add: walk_ok_def)
        fix names child h4
        assume "suffix ((Listdir fd, RNames names) # ?h3) h4"
        then have "suffix ?h3 h4" by (rule suffix_ConsD)
        with fd show "held sc pt h4 fd" by (rule held_suffix)
      qed
    qed (auto intro!: spec_call_unit simp: walk_ok_def)
  qed simp
qed simp

lemma spec_scan:
  assumes "\<And>h c. ok h (NextEntry c)" and "\<And>h c. ok h (CloseDir c)" and "ok h (Scandir fd)"
    and "\<And>name h'. suffix h h' \<Longrightarrow> history.spec ok h' (f name) (\<lambda>_ _. True)"
  shows "history.spec ok h (scan budget fd f) (\<lambda>_ _. True)"
  unfolding scan_def
proof (rule spec_calls(1), rule assms(3), rule history.spec_finally [where R = "\<lambda>_ _. True"])
  fix c show "history.spec ok ((Scandir fd, RFd c) # h) (each_entry budget c f) (\<lambda>_ _. True)"
    by (rule spec_each_entry [OF assms(1) assms(4)]) (erule suffix_ConsD)
qed (auto intro: spec_call_unit assms(2))

lemma walk_remove:
  "held sc pt h parent \<Longrightarrow> history.spec (walk_ok sc pt True) h (remove depth budget sc parent name expected) (\<lambda>_ _. True)"
proof (induction depth arbitrary: h parent name expected)
  case (Suc depth)
  note held_mono = held_suffix [OF Suc.prems]
  let ?R = "\<lambda>_ _ :: hist. True"
  show ?case unfolding remove.simps
  proof (intro spec_calls history.spec_bind_liftr history.spec_bind_require history.spec_if)
    show "walk_ok sc pt True h (StatAt parent name)" using Suc.prems by (simp add: walk_ok_def)
  next
    fix st u
    let ?h1 = "(StatAt parent name, RStat st) # h"
    assume st: "check_in sc (expected = None) st = Inr u" and dir: "S_ISDIR (st_mode st)"
    show "walk_ok sc pt True ?h1 (OpenAt parent name)"
      using st dir held_mono by (auto simp: walk_ok_def suffix_ConsI)
    fix fd
    let ?h2 = "(OpenAt parent name, RFd fd) # ?h1"
    have body: "history.spec (walk_ok sc pt True) ?h2
      (pfinally (pbind (call_stat (Fstat fd)) (\<lambda>st'. pbind (prequire (inode_of st' = inode_of st) ''directory replaced during deletion'')
         (\<lambda>_. scan budget fd (\<lambda>child. remove depth budget sc fd child None)))) (call_unit (CloseFd fd))) ?R"
    proof (rule history.spec_finally [where R = ?R])
      show "history.spec (walk_ok sc pt True) ?h2 (pbind (call_stat (Fstat fd)) (\<lambda>st'. pbind (prequire (inode_of st' = inode_of st)
         ''directory replaced during deletion'') (\<lambda>_. scan budget fd (\<lambda>child. remove depth budget sc fd child None)))) ?R"
      proof (intro spec_calls history.spec_bind_require spec_scan Suc.IH)
        fix st' assume i: "inode_of st' = inode_of st"
        let ?h3 = "(Fstat fd, RStat st') # ?h2"
        have "suffix h ?h3" by (simp add: suffix_ConsI)
        then have "held sc pt ?h3 parent" by (rule held_mono)
        then have fd: "held sc pt ?h3 fd"
          by (rule held.Below [of _ _ _ _ name st "expected = None" _ st']) (use i dir st in auto)
        then show "walk_ok sc pt True ?h3 (Scandir fd)" by (simp add: walk_ok_def)
        fix h4 assume "suffix ?h3 h4"
        with fd show "held sc pt h4 fd" by (rule held_suffix)
      qed (simp_all add: walk_ok_def)
    qed (auto intro!: spec_call_unit simp: walk_ok_def)
    show "history.spec (walk_ok sc pt True) ?h2 (pbind
      (pfinally (pbind (call_stat (Fstat fd)) (\<lambda>st'. pbind (prequire (inode_of st' = inode_of st) ''directory replaced during deletion'')
         (\<lambda>_. scan budget fd (\<lambda>child. remove depth budget sc fd child None)))) (call_unit (CloseFd fd))) (\<lambda>_.
       pbind (call_stat (StatAt parent name)) (\<lambda>current. pbind (liftr (check_in sc False current)) (\<lambda>_.
       pbind (prequire (inode_of current = inode_of st \<and> st_mode current = st_mode st) ''directory replaced during deletion'') (\<lambda>_.
       call_unit (Rmdir parent name)))))) ?R"
    proof (rule history.spec_bind [OF body], intro spec_calls history.spec_bind_liftr history.spec_bind_require spec_call_unit)
      fix h5 assume h5: "suffix ?h2 h5"
      then have sub: "suffix h h5" by (meson suffix_ConsD)
      then show "walk_ok sc pt True h5 (StatAt parent name)" by (simp add: walk_ok_def held_mono)
      fix current w assume "check_in sc False current = Inr w" "inode_of current = inode_of st \<and> st_mode current = st_mode st"
      moreover have "looked ((StatAt parent name, RStat current) # h5) parent name st current"
        using h5 by (auto simp: looked_def suffix_def)
      moreover have "held sc pt ((StatAt parent name, RStat current) # h5) parent" using sub by (intro held_mono suffix_ConsI)
      ultimately show "walk_ok sc pt True ((StatAt parent name, RStat current) # h5) (Rmdir parent name)"
        using dir by (simp add: walk_ok_def, intro exI [of _ st] exI [of _ current]) simp
    qed
  next
    fix st u
    let ?h1 = "(StatAt parent name, RStat st) # h"
    assume st: "check_in sc (expected = None) st = Inr u" and nodir: "\<not> S_ISDIR (st_mode st)"
    show "walk_ok sc pt True ?h1 (StatAt parent name)" using held_mono by (simp add: walk_ok_def suffix_ConsI)
    fix current assume "same_file current st"
    moreover have "looked ((StatAt parent name, RStat current) # ?h1) parent name st current" by (simp add: looked_def)
    ultimately have "walk_ok sc pt True ((StatAt parent name, RStat current) # ?h1) (Unlink parent name)"
      using st nodir held_mono by (auto simp: walk_ok_def suffix_ConsI)
    then show "history.spec (walk_ok sc pt True) ((StatAt parent name, RStat current) # ?h1) (call_unit (Unlink parent name)) ?R"
      by (rule spec_call_unit)
  qed
qed simp

lemma walk_remove_tree:
  "history.spec (walk_ok \<lparr>sc_device = device, sc_mounted = mounted, sc_busy = busy, sc_links = workspace\<rparr> (butlast path) True) h
     (remove_tree depth budget path device busy mounted expected workspace) (\<lambda>_ _. True)"
  unfolding remove_tree_def
proof (intro spec_calls history.spec_finally [where R = "\<lambda>_ _. True"] walk_remove)
  fix fd show "held \<lparr>sc_device = device, sc_mounted = mounted, sc_busy = busy, sc_links = workspace\<rparr> (butlast path)
     ((OpenPath (butlast path), RFd fd) # h) fd" by (rule held.Top) simp
qed (auto intro!: spec_call_unit simp: walk_ok_def)

lemma walk_snapshot:
  "history.spec (walk_ok \<lparr>sc_device = device, sc_mounted = mounted, sc_busy = busy, sc_links = workspace \<or> native\<rparr> (butlast path) dl) h
     (snapshot sha depth path device mounted busy workspace native) (\<lambda>_ _. True)"
  unfolding snapshot_def
proof (intro history.spec_bind_require spec_calls history.spec_bind [where R = "\<lambda>_ _. True"] history.spec_finally [where R = "\<lambda>_ _. True"] walk_visit)
  fix fd show "held \<lparr>sc_device = device, sc_mounted = mounted, sc_busy = busy, sc_links = workspace \<or> native\<rparr> (butlast path)
     ((OpenPath (butlast path), RFd fd) # h) fd" by (rule held.Top) simp
qed (auto intro!: spec_call_unit simp: walk_ok_def)

end
