(* ===== verification/Proc_Scan.thy ===== *)
theory Proc_Scan
  imports Retention_Fs "HOL-Library.Word"
begin

section \<open>Mounted and open entries, read from the process file system\<close>

text \<open>
  \<^verbatim>\<open>cache-retention.py\<close>: \<open>mount_ids\<close> and \<open>open_ids\<close>. The sets of inodes are lists. An
  exception inside the scan of one process is caught by the code after part of the result has been
  collected; \<open>attempt\<close> turns it into a value, so that the collected part is kept as in the code.
\<close>

definition attempt :: "'a rprog \<Rightarrow> 'a res rprog" where
  "attempt p = pcatch (pbind p (\<lambda>x. Ret (Inr x))) (\<lambda>e. Ret (Inl e))"

definition vanished :: "exn \<Rightarrow> bool" where
  "vanished e = (e \<in> {PyError ''FileNotFoundError'', PyError ''ProcessLookupError''})"

subsection \<open>Device numbers\<close>

text \<open>
  \<^verbatim>\<open>os.makedev\<close>, \<^verbatim>\<open>os.major\<close> and \<^verbatim>\<open>os.minor\<close> on Linux; the arguments are C integers, and a
  larger number raises \<^verbatim>\<open>OverflowError\<close>.
\<close>

unbundle bit_operations_syntax

definition makedev_word :: "64 word \<Rightarrow> 64 word \<Rightarrow> 64 word" where
  "makedev_word major minor =
     push_bit 32 (major AND 0xfffff000) OR push_bit 8 (major AND 0xfff)
     OR push_bit 12 (minor AND 0xffffff00) OR (minor AND 0xff)"

definition major_word :: "64 word \<Rightarrow> 64 word" where
  "major_word dev = drop_bit 8 (dev AND 0xfff00) OR drop_bit 32 (dev AND 0xfffff00000000000)"

definition minor_word :: "64 word \<Rightarrow> 64 word" where
  "minor_word dev = (dev AND 0xff) OR drop_bit 12 (dev AND 0xffffff00000)"

definition makedev :: "nat \<Rightarrow> nat \<Rightarrow> nat res" where
  "makedev major minor =
     (if major < 2 ^ 31 \<and> minor < 2 ^ 31 then Inr (unat (makedev_word (of_nat major) (of_nat minor)))
      else Inl (PyError ''OverflowError''))"

definition dev_major :: "nat \<Rightarrow> nat" where
  "dev_major dev = unat (major_word (of_nat dev))"

definition dev_minor :: "nat \<Rightarrow> nat" where
  "dev_minor dev = unat (minor_word (of_nat dev))"

definition checked_device :: "nat \<Rightarrow> nat \<Rightarrow> nat res" where
  "checked_device major minor =
     (case makedev major minor of
        Inl e \<Rightarrow> Inl (Refuse ''invalid mountinfo device'')
      | Inr dev \<Rightarrow> rbind (require ((dev_major dev, dev_minor dev) = (major, minor)) ''invalid mountinfo device'') (\<lambda>_. Inr dev))"

subsection \<open>Escapes\<close>

text \<open>\<^verbatim>\<open>re.search(r'\\(?!040|011|012|134)', value)\<close> and the four replacements.\<close>

definition backslash :: char where
  "backslash = CHR 0x5C"

definition escapes :: "(string \<times> char) list" where
  "escapes = [(backslash # ''040'', CHR '' ''), (backslash # ''011'', CHR 0x09),
     (backslash # ''012'', CHR 0x0A), (backslash # ''134'', backslash)]"

fun bad_escape :: "string \<Rightarrow> bool" where
  "bad_escape [] = False"
| "bad_escape (c # cs) =
     ((c = backslash \<and> \<not> list_ex (\<lambda>(e, _). prefix e (c # cs)) escapes) \<or> bad_escape cs)"

definition decode_mountpoint :: "string \<Rightarrow> string" where
  "decode_mountpoint s = foldl (\<lambda>s (e, c). replace_all e [c] s) s escapes"

definition mount_path_ok :: "string \<Rightarrow> bool" where
  "mount_path_ok v \<longleftrightarrow> prefix ''/'' v \<and> CHR 0x00 \<notin> set v \<and> \<not> bad_escape v
     \<and> list_all (\<lambda>part. part \<noteq> ''.'' \<and> part \<noteq> ''..'') (split_on (CHR ''/'') v)"

subsection \<open>One record of mountinfo\<close>

text \<open>
  The result is the mount number, and the mountpoint when the record is on the device. Python's
  \<^verbatim>\<open>int\<close> raises \<^verbatim>\<open>ValueError\<close> above 4300 digits.
\<close>

definition device_form :: "string \<Rightarrow> bool" where
  "device_form f = (case split_on (CHR '':'') f of [a, b] \<Rightarrow> decimal a \<and> decimal b | _ \<Rightarrow> False)"

definition record_device :: "string \<Rightarrow> nat res" where
  "record_device f = (case split_on (CHR '':'') f of
     [a, b] \<Rightarrow> if length a \<le> 4300 \<and> length b \<le> 4300 then checked_device (read_nat a) (read_nat b)
               else Inl (PyError ''ValueError'')
   | _ \<Rightarrow> Inl (PyError ''ValueError''))"

definition record_form :: "string list \<Rightarrow> string list \<Rightarrow> bool" where
  "record_form numbers fs \<longleftrightarrow>
     10 \<le> length fs \<and> fs ! (length fs - 4) = ''-'' \<and> ''-'' \<notin> set (take (length fs - 4) fs)
     \<and> positive_decimal (fs ! 0) \<and> decimal (fs ! 1) \<and> fs ! 0 \<notin> set numbers"

definition mount_record :: "int \<Rightarrow> string list \<Rightarrow> string \<Rightarrow> (string \<times> string option) res" where
  "mount_record device numbers line =
     (let fs = split_fields line in
      rbind (require (record_form numbers fs) ''malformed or ambiguous mountinfo record'') (\<lambda>_.
      rbind (require (device_form (fs ! 2)) ''invalid mountinfo device'') (\<lambda>_.
      rbind (record_device (fs ! 2)) (\<lambda>dev.
      rbind (require (list_all mount_path_ok (if int dev = device then [fs ! 3, fs ! 4] else [fs ! 4]))
               ''invalid mountinfo path'') (\<lambda>_.
      Inr (fs ! 0, if int dev = device then Some (decode_mountpoint (fs ! 4)) else None))))))"

subsection \<open>mount\_ids\<close>

text \<open>\<^verbatim>\<open>proc / owner / 'root' / mountpoint.lstrip('/')\<close>: empty components disappear.\<close>

definition below_root :: "path \<Rightarrow> string \<Rightarrow> string \<Rightarrow> path" where
  "below_root proc owner mountpoint = proc @ [owner, ''root''] @ filter (\<lambda>c. c \<noteq> []) (split_on (CHR ''/'') mountpoint)"

definition namespace_path :: "path \<Rightarrow> string \<Rightarrow> path" where
  "namespace_path proc owner = proc @ [owner, ''ns'', ''mnt'']"

fun mount_lines :: "int \<Rightarrow> path \<Rightarrow> string \<Rightarrow> string list \<Rightarrow> string list \<Rightarrow> inode list \<Rightarrow> (inode list \<times> exn option) rprog" where
  "mount_lines device proc owner numbers [] result = Ret (result, None)"
| "mount_lines device proc owner numbers (line # lines) result =
     (case mount_record device numbers line of
        Inl e \<Rightarrow> Ret (result, Some e)
      | Inr (number, None) \<Rightarrow> mount_lines device proc owner (number # numbers) lines result
      | Inr (number, Some mountpoint) \<Rightarrow>
          pbind (attempt (call_stat (StatPath (below_root proc owner mountpoint)))) (\<lambda>r.
          case r of
            Inl e \<Rightarrow> Ret (result, Some e)
          | Inr st \<Rightarrow>
              if st_dev st \<noteq> device then Ret (result, Some (Refuse ''relevant mount device changed''))
              else mount_lines device proc owner (number # numbers) lines (inode_of st # result)))"

text \<open>The \<^verbatim>\<open>try\<close> body for one owner: the namespace to mark as seen, and the exception that was raised.\<close>

definition mount_owner :: "int \<Rightarrow> path \<Rightarrow> string \<Rightarrow> inode list \<Rightarrow> inode list \<Rightarrow> (inode list \<times> inode list \<times> exn option) rprog" where
  "mount_owner device proc owner seen result =
     pbind (attempt (call_stat (StatPath (namespace_path proc owner)))) (\<lambda>r.
     case r of
       Inl e \<Rightarrow> Ret (result, seen, Some e)
     | Inr ns \<Rightarrow>
         if inode_of ns \<in> set seen then Ret (result, seen, None)
         else pbind (attempt (call_text (ReadText (proc @ [owner, ''mountinfo''])))) (\<lambda>r.
           case r of
             Inl e \<Rightarrow> Ret (result, seen, Some e)
           | Inr contents \<Rightarrow>
               if splitlines contents = [] then Ret (result, seen, Some (Refuse ''empty mountinfo''))
               else pbind (mount_lines device proc owner [] (splitlines contents) result) (\<lambda>(result', e).
                 Ret (result', if e = None then inode_of ns # seen else seen, e))))"

text \<open>The \<^verbatim>\<open>except\<close> clause: a process that is gone is skipped, anything else is raised.\<close>

definition owner_gone :: "path \<Rightarrow> string \<Rightarrow> exn \<Rightarrow> unit rprog" where
  "owner_gone proc owner e =
     (if vanished e \<and> owner \<noteq> ''self''
      then pbind (attempt (call_stat (StatPath (namespace_path proc owner)))) (\<lambda>r.
        case r of Inl e' \<Rightarrow> if vanished e' then Ret () else Fail e' | Inr _ \<Rightarrow> Fail e)
      else Fail e)"

fun mount_owners :: "int \<Rightarrow> path \<Rightarrow> string list \<Rightarrow> inode list \<Rightarrow> inode list \<Rightarrow> inode list rprog" where
  "mount_owners device proc [] seen result = Ret result"
| "mount_owners device proc (owner # owners) seen result =
     pbind (mount_owner device proc owner seen result) (\<lambda>(result', seen', e).
     pbind (case e of None \<Rightarrow> Ret () | Some e \<Rightarrow> owner_gone proc owner e) (\<lambda>_.
     mount_owners device proc owners seen' result'))"

definition mount_ids :: "int \<Rightarrow> path \<Rightarrow> inode list rprog" where
  "mount_ids device proc =
     pbind (call_names (Iterdir proc)) (\<lambda>names.
     mount_owners device proc (''self'' # filter isdecimal names) [] [])"

subsection \<open>open\_ids\<close>

fun open_references :: "path list \<Rightarrow> inode list \<Rightarrow> inode list rprog" where
  "open_references [] result = Ret result"
| "open_references (reference # rs) result =
     pbind (attempt (call_stat (StatPath reference))) (\<lambda>r.
     case r of
       Inl e \<Rightarrow> if vanished e then open_references rs result else Fail e
     | Inr st \<Rightarrow> open_references rs (inode_of st # result))"

fun open_processes :: "path \<Rightarrow> string list \<Rightarrow> inode list \<Rightarrow> inode list rprog" where
  "open_processes proc [] result = Ret result"
| "open_processes proc (p # ps) result =
     (if \<not> isdecimal p then open_processes proc ps result
      else pbind (attempt (call_names (Iterdir (proc @ [p, ''fd''])))) (\<lambda>r.
        case r of
          Inl e \<Rightarrow> if vanished e then open_processes proc ps result else Fail e
        | Inr fds \<Rightarrow>
            pbind (open_references ((proc @ [p, ''cwd'']) # map (\<lambda>f. proc @ [p, ''fd'', f]) fds) result) (\<lambda>result'.
            open_processes proc ps result')))"

definition open_ids :: "path \<Rightarrow> inode list rprog" where
  "open_ids proc = pbind (call_names (Iterdir proc)) (\<lambda>names. open_processes proc names [])"

subsection \<open>Device numbers survive the round trip\<close>

lemma device_masks:
  "(0xfffff000 :: 64 word) = push_bit 12 (mask 20)" "(0xfff :: 64 word) = mask 12"
  "(0xffffff00 :: 64 word) = push_bit 8 (mask 24)" "(0xff :: 64 word) = mask 8"
  "(0xfff00 :: 64 word) = push_bit 8 (mask 12)" "(0xfffff00000000000 :: 64 word) = push_bit 44 (mask 20)"
  "(0xffffff00000 :: 64 word) = push_bit 20 (mask 24)"
  by (simp_all add: mask_eq_exp_minus_1 push_bit_eq_mult)

lemma high_bits: "x < 2 ^ 31 \<Longrightarrow> bit (of_nat x :: 64 word) n \<Longrightarrow> n < 32"
proof -
  assume "x < 2 ^ 31" and "bit (of_nat x :: 64 word) n"
  then have "bit (take_bit 31 x) n" by (simp add: take_bit_nat_eq_self bit_of_nat_iff_bit bit_simps)
  then show "n < 32" by (simp add: bit_take_bit_iff)
qed

lemma bit_major_word: "bit (major_word d) n \<longleftrightarrow> (if n < 12 then bit d (n + 8) else n < 32 \<and> bit d (n + 32))"
  by (cases "n < 12"; cases "n < 32"; simp add: major_word_def device_masks bit_simps add.commute less_diff_conv2 not_less del: One_nat_def)

lemma bit_minor_word: "bit (minor_word d) n \<longleftrightarrow> (if n < 8 then bit d n else n < 32 \<and> bit d (n + 12))"
  by (cases "n < 8"; cases "n < 32"; simp add: minor_word_def device_masks bit_simps add.commute less_diff_conv2 not_less del: One_nat_def)

lemma bit_makedev_word:
  "bit (makedev_word a b) n \<longleftrightarrow> (if n < 8 then bit b n else if n < 20 then bit a (n - 8)
     else if n < 44 then bit b (n - 12) else n < 64 \<and> bit a (n - 32))"
  by (cases "n < 8"; cases "n < 20"; cases "n < 44"; simp add: makedev_word_def device_masks bit_simps less_diff_conv2 not_less; auto)

lemma major_makedev: "x < 2 ^ 31 \<Longrightarrow> major_word (makedev_word (of_nat x) b) = of_nat x"
  by (rule bit_word_eqI) (use high_bits [of x] in \<open>auto simp: bit_major_word bit_makedev_word\<close>)

lemma minor_makedev: "x < 2 ^ 31 \<Longrightarrow> minor_word (makedev_word a (of_nat x)) = of_nat x"
  by (rule bit_word_eqI) (use high_bits [of x] in \<open>auto simp: bit_minor_word bit_makedev_word\<close>)

lemma checked_device_eq:
  "checked_device major minor =
     (if major < 2 ^ 31 \<and> minor < 2 ^ 31 then Inr (unat (makedev_word (of_nat major) (of_nat minor)))
      else Inl (Refuse ''invalid mountinfo device''))"
proof (cases "major < 2 ^ 31 \<and> minor < 2 ^ 31")
  case True
  have small: "x < 2 ^ 31 \<Longrightarrow> unat (of_nat x :: 64 word) = x" for x :: nat
    by (simp add: unat_of_nat)
  from True show ?thesis
    by (simp add: checked_device_def makedev_def dev_major_def dev_minor_def major_makedev minor_makedev small)
qed (auto simp: checked_device_def makedev_def)

subsection \<open>Decoding inverts the encoding of the kernel\<close>

text \<open>
  The kernel writes a mountpoint with the four characters escaped. The code undoes this by four
  replacements one after the other, the one of the backslash last; the reference is the character
  by character encoding.
\<close>

definition encode_char :: "char \<Rightarrow> string" where
  "encode_char c = (case find (\<lambda>(e, d). d = c) escapes of None \<Rightarrow> [c] | Some (e, _) \<Rightarrow> e)"

definition encode_mountpoint :: "string \<Rightarrow> string" where
  "encode_mountpoint s = concat (map encode_char s)"

text \<open>The text after the escapes of the characters \<open>D\<close> have been replaced.\<close>

definition partly_decoded :: "char set \<Rightarrow> string \<Rightarrow> string" where
  "partly_decoded D s = concat (map (\<lambda>c. if c \<in> D then [c] else encode_char c) s)"

lemma escape_cases:
  "(e, d) \<in> set escapes \<longleftrightarrow> e = backslash # ''040'' \<and> d = CHR '' '' \<or> e = backslash # ''011'' \<and> d = CHR 0x09
     \<or> e = backslash # ''012'' \<and> d = CHR 0x0A \<or> e = backslash # ''134'' \<and> d = backslash"
  by (simp add: escapes_def)

lemma encode_char_cases: "encode_char c = [c] \<and> c \<noteq> backslash \<or> (encode_char c, c) \<in> set escapes"
  unfolding encode_char_def escapes_def by (simp add: backslash_def)

lemma encode_char_escape: "(e, d) \<in> set escapes \<Longrightarrow> encode_char d = e"
  unfolding escape_cases by (auto simp: encode_char_def escapes_def backslash_def)

lemma escapes_shape:
  assumes "(e, d) \<in> set escapes" and "(e', d') \<in> set escapes"
  shows "length e = length e'" "e \<noteq> []" "hd e = backslash" "list_all (\<lambda>c. c \<noteq> backslash) (tl e')" "e = e' \<longleftrightarrow> d = d'"
  using assms unfolding escape_cases by (auto simp: backslash_def)

lemma replace_step:
  assumes e: "(e, d) \<in> set escapes" and D: "d \<notin> D" "backslash \<notin> D"
  shows "replace_all e [d] (partly_decoded D s) = partly_decoded (insert d D) s"
proof (induction s)
  case (Cons c s)
  let ?tok = "if c \<in> D then [c] else encode_char c"
  have split: "partly_decoded D (c # s) = ?tok @ partly_decoded D s"
    "partly_decoded (insert d D) (c # s) = (if c = d then [d] else ?tok) @ partly_decoded (insert d D) s"
    by (auto simp: partly_decoded_def)
  note sh = escapes_shape [OF e]
  show ?case
  proof (cases "c = d")
    case True
    with e D encode_char_escape [OF e] sh(2) [OF e] Cons show ?thesis
      unfolding split by (simp add: replace_all_prefix)
  next
    case False
    consider "?tok = [c]" "c \<noteq> backslash" | "(?tok, c) \<in> set escapes"
      using encode_char_cases [of c] D(2) by (cases "c \<in> D") auto
    then have "replace_all e [d] (?tok @ partly_decoded D s) = ?tok @ replace_all e [d] (partly_decoded D s)"
    proof cases
      case 1
      have "c \<noteq> hd e" "e \<noteq> []" using sh(2,3) [OF e] 1(2) by auto
      then show ?thesis unfolding 1(1) by (simp add: replace_all_skip)
    next
      case 2
      show ?thesis
        by (rule replace_all_other) (use sh [OF 2] False in auto)
    qed
    with False Cons show ?thesis unfolding split by simp
  qed
qed (simp add: partly_decoded_def)

lemma decode_mount_encode: "decode_mountpoint (encode_mountpoint s) = s"
proof -
  let ?sp = "CHR '' ''" and ?tab = "CHR 0x09" and ?nl = "CHR 0x0A"
  have 0: "encode_mountpoint s = partly_decoded {} s" by (simp add: encode_mountpoint_def partly_decoded_def)
  have 1: "replace_all (backslash # ''040'') [?sp] (partly_decoded {} s) = partly_decoded {?sp} s"
    by (rule replace_step) (simp_all add: escapes_def)
  have 2: "replace_all (backslash # ''011'') [?tab] (partly_decoded {?sp} s) = partly_decoded {?tab, ?sp} s"
    by (rule replace_step) (simp_all add: escapes_def backslash_def)
  have 3: "replace_all (backslash # ''012'') [?nl] (partly_decoded {?tab, ?sp} s) = partly_decoded {?nl, ?tab, ?sp} s"
    by (rule replace_step) (simp_all add: escapes_def backslash_def)
  have 4: "replace_all (backslash # ''134'') [backslash] (partly_decoded {?nl, ?tab, ?sp} s) = partly_decoded {backslash, ?nl, ?tab, ?sp} s"
    by (rule replace_step) (simp_all add: escapes_def backslash_def)
  have "(if c \<in> {backslash, ?nl, ?tab, ?sp} then [c] else encode_char c) = [c]" for c
    using encode_char_cases [of c] by (auto simp: escape_cases)
  then have "partly_decoded {backslash, ?nl, ?tab, ?sp} s = concat (map (\<lambda>c. [c]) s)" by (simp add: partly_decoded_def)
  then have 5: "partly_decoded {backslash, ?nl, ?tab, ?sp} s = s" by simp
  show ?thesis unfolding decode_mountpoint_def escapes_def foldl.simps prod.case 0 1 2 3 4 5 ..
qed

subsection \<open>A scan that returns has accounted for everything\<close>

lemma runs_Act_Ret: "runs (Act q k) t (Ret x) \<Longrightarrow> \<exists>r t'. t = (q, r) # t' \<and> runs (k r) t' (Ret x)"
  by (cases t) auto

lemma got_Some [simp]: "f r = Some x \<Longrightarrow> got f r = Ret x"
  by (simp add: got_def)

lemma runs_got: "runs (got f r) t (Ret x) \<longleftrightarrow> t = [] \<and> f r = Some x"
  by (auto simp: got_def runs_ended split: option.splits rresp.splits)

lemma runs_call_stat: "runs (call_stat q) t (Ret st) \<longleftrightarrow> t = [(q, RStat st)]"
  by (auto simp: call_stat_def runs_got dest!: runs_Act_Ret split: rresp.splits)

lemma runs_call_names: "runs (call_names q) t (Ret ns) \<longleftrightarrow> t = [(q, RNames ns)]"
  by (auto simp: call_names_def runs_got dest!: runs_Act_Ret split: rresp.splits)

lemma runs_call_text: "runs (call_text q) t (Ret s) \<longleftrightarrow> t = [(q, RText s)]"
  by (auto simp: call_text_def runs_got dest!: runs_Act_Ret split: rresp.splits)

lemma attempt_Act: "attempt (Act q k) = Act q (\<lambda>r. attempt (k r))"
  by (simp add: attempt_def)

lemma runs_attempt_got: "runs (attempt (got f r)) t (Ret y) \<longleftrightarrow> t = [] \<and>
    (case y of Inr x \<Rightarrow> f r = Some x | Inl e \<Rightarrow> f r = None \<and> e = (case r of RRaised e \<Rightarrow> e | _ \<Rightarrow> PyError ''TypeError''))"
  by (cases y; cases "f r") (auto simp: attempt_def got_def runs_ended split: rresp.splits)

lemma runs_attempt_stat:
  assumes "runs (attempt (call_stat q)) t (Ret y)"
  shows "case y of Inr st \<Rightarrow> t = [(q, RStat st)] | Inl e \<Rightarrow> vanished e \<longrightarrow> t = [(q, RRaised e)]"
  using assms by (auto simp: call_stat_def attempt_Act runs_attempt_got vanished_def dest!: runs_Act_Ret split: sum.splits rresp.splits)

lemma runs_attempt_text: "runs (attempt (call_text q)) t (Ret (Inr s)) \<Longrightarrow> t = [(q, RText s)]"
  by (auto simp: call_text_def attempt_Act runs_attempt_got dest!: runs_Act_Ret split: rresp.splits)

text \<open>
  A record is accounted for in a set of events when it parses and, if it is on the device, its
  mountpoint was found on the device and is in the result; a namespace is accounted for when all
  records of the mountinfo of one of its processes are.
\<close>

definition record_accounted :: "int \<Rightarrow> path \<Rightarrow> string \<Rightarrow> (ract \<times> rresp) set \<Rightarrow> inode list \<Rightarrow> string \<Rightarrow> bool" where
  "record_accounted device proc owner T result line \<longleftrightarrow> (\<exists>numbers number mp. mount_record device numbers line = Inr (number, mp)
     \<and> (case mp of None \<Rightarrow> True | Some m \<Rightarrow>
         \<exists>st. (StatPath (below_root proc owner m), RStat st) \<in> T \<and> st_dev st = device \<and> inode_of st \<in> set result))"

definition namespace_accounted :: "int \<Rightarrow> path \<Rightarrow> (ract \<times> rresp) set \<Rightarrow> inode list \<Rightarrow> inode \<Rightarrow> bool" where
  "namespace_accounted device proc T result ns \<longleftrightarrow> (\<exists>owner st contents.
     (StatPath (namespace_path proc owner), RStat st) \<in> T \<and> inode_of st = ns
     \<and> (ReadText (proc @ [owner, ''mountinfo'']), RText contents) \<in> T \<and> splitlines contents \<noteq> []
     \<and> list_all (record_accounted device proc owner T result) (splitlines contents))"

definition owner_accounted :: "int \<Rightarrow> path \<Rightarrow> (ract \<times> rresp) set \<Rightarrow> inode list \<Rightarrow> string \<Rightarrow> bool" where
  "owner_accounted device proc T result owner \<longleftrightarrow>
     owner \<noteq> ''self'' \<and> (\<exists>e. vanished e \<and> (StatPath (namespace_path proc owner), RRaised e) \<in> T)
     \<or> (\<exists>st. (StatPath (namespace_path proc owner), RStat st) \<in> T \<and> namespace_accounted device proc T result (inode_of st))"

lemma record_accountedI:
  "mount_record device numbers line = Inr (number, None) \<Longrightarrow> record_accounted device proc owner T result line"
  "mount_record device numbers line = Inr (number, Some m) \<Longrightarrow> (StatPath (below_root proc owner m), RStat st) \<in> T \<Longrightarrow> st_dev st = device
     \<Longrightarrow> inode_of st \<in> set result \<Longrightarrow> record_accounted device proc owner T result line"
  unfolding record_accounted_def
  by (intro exI [of _ numbers] exI [of _ number] exI [of _ None], simp)
     (intro exI [of _ numbers] exI [of _ number] exI [of _ "Some m"], auto)

lemma record_accounted_mono:
  assumes "record_accounted device proc owner T result line" and sub: "T \<subseteq> T'" "set result \<subseteq> set result'"
  shows "record_accounted device proc owner T' result' line"
proof -
  obtain numbers number mp where m: "mount_record device numbers line = Inr (number, mp)"
    "case mp of None \<Rightarrow> True | Some m \<Rightarrow> \<exists>st. (StatPath (below_root proc owner m), RStat st) \<in> T \<and> st_dev st = device \<and> inode_of st \<in> set result"
    using assms(1) unfolding record_accounted_def by blast
  show ?thesis
  proof (cases mp)
    case None
    with m(1) show ?thesis by (simp add: record_accountedI(1))
  next
    case (Some mo)
    with m(2) obtain st where "(StatPath (below_root proc owner mo), RStat st) \<in> T'" "st_dev st = device" "inode_of st \<in> set result'"
      using sub by auto
    with m(1) Some show ?thesis by (intro record_accountedI(2)) simp_all
  qed
qed

lemma namespace_accounted_mono:
  assumes "namespace_accounted device proc T result ns" "T \<subseteq> T'" "set result \<subseteq> set result'"
  shows "namespace_accounted device proc T' result' ns"
  proof -
  obtain owner st contents where n: "(StatPath (namespace_path proc owner), RStat st) \<in> T" "inode_of st = ns"
      "(ReadText (proc @ [owner, ''mountinfo'']), RText contents) \<in> T" "splitlines contents \<noteq> []"
      "list_all (record_accounted device proc owner T result) (splitlines contents)"
    using assms(1) unfolding namespace_accounted_def by blast
  from n(5) have "list_all (record_accounted device proc owner T' result') (splitlines contents)"
    by (rule list.pred_mono_strong) (rule record_accounted_mono [OF _ assms(2,3)])
  with n(1-4) assms(2) show ?thesis unfolding namespace_accounted_def by blast
qed

lemma mount_lines_accounted:
  "runs (mount_lines device proc owner numbers lines result) t (Ret (result', None)) \<Longrightarrow>
     set result \<subseteq> set result' \<and> list_all (record_accounted device proc owner (set t) result') lines"
proof (induction lines arbitrary: numbers result t)
  case (Cons line lines)
  obtain number mp where m: "mount_record device numbers line = Inr (number, mp)"
    using Cons.prems by (cases "mount_record device numbers line") (auto simp: runs_ended)
  show ?case
  proof (cases mp)
    case None
    with Cons.prems Cons.IH [of "number # numbers" result t] m show ?thesis by (simp add: record_accountedI(1))
  next
    case (Some mo)
    from Cons.prems obtain t1 t2 r where t: "t = t1 @ t2" "runs (attempt (call_stat (StatPath (below_root proc owner mo)))) t1 (Ret r)"
      and rest: "runs (case r of Inl e \<Rightarrow> Ret (result, Some e) | Inr st \<Rightarrow> if st_dev st \<noteq> device then Ret (result, Some (Refuse ''relevant mount device changed''))
              else mount_lines device proc owner (number # numbers) lines (inode_of st # result)) t2 (Ret (result', None))"
      unfolding mount_lines.simps m Some by (auto dest!: runs_pbind_Ret)
    from rest obtain st where r: "r = Inr st" "st_dev st = device"
      "runs (mount_lines device proc owner (number # numbers) lines (inode_of st # result)) t2 (Ret (result', None))"
      by (cases r) (auto simp: runs_ended split: if_splits)
    note IH = Cons.IH [OF r(3)]
    from runs_attempt_stat [OF t(2)] r(1) have "t1 = [(StatPath (below_root proc owner mo), RStat st)]" by simp
    with IH r(2) m Some t(1) have "record_accounted device proc owner (set t) result' line"
      by (intro record_accountedI(2) [of _ _ _ number mo _ _ st]) auto
    moreover have "list_all (record_accounted device proc owner (set t) result') lines"
      using IH t(1) by (auto simp: list_all_iff intro: record_accounted_mono)
    ultimately show ?thesis using IH by simp
  qed
qed (simp add: runs_ended)

lemma owner_accountedI:
  "(StatPath (namespace_path proc owner), RStat st) \<in> T \<Longrightarrow> namespace_accounted device proc T result (inode_of st)
    \<Longrightarrow> owner_accounted device proc T result owner"
  unfolding owner_accounted_def by blast

lemma mount_owner_accounted:
  assumes "runs (mount_owner device proc owner seen result) t (Ret (result', seen', None))"
    and "\<And>ns. ns \<in> set seen \<Longrightarrow> namespace_accounted device proc T result ns"
  shows "set result \<subseteq> set result' \<and> (\<forall>ns \<in> set seen'. namespace_accounted device proc (T \<union> set t) result' ns)
    \<and> owner_accounted device proc (T \<union> set t) result' owner"
proof -
  let ?q = "StatPath (namespace_path proc owner)"
  obtain t1 t2 ns where t: "t = t1 @ t2" "runs (attempt (call_stat ?q)) t1 (Ret (Inr ns))"
    and rest: "runs (if inode_of ns \<in> set seen then Ret (result, seen, None)
         else pbind (attempt (call_text (ReadText (proc @ [owner, ''mountinfo''])))) (\<lambda>r.
           case r of Inl e \<Rightarrow> Ret (result, seen, Some e)
           | Inr contents \<Rightarrow>
               if splitlines contents = [] then Ret (result, seen, Some (Refuse ''empty mountinfo''))
               else pbind (mount_lines device proc owner [] (splitlines contents) result) (\<lambda>(result', e).
                 Ret (result', if e = None then inode_of ns # seen else seen, e)))) t2 (Ret (result', seen', None))"
    using assms(1) unfolding mount_owner_def by (auto dest!: runs_pbind_Ret simp: runs_ended split: sum.splits)
  have t1: "t1 = [(?q, RStat ns)]" using runs_attempt_stat [OF t(2)] by simp
  show ?thesis
  proof (cases "inode_of ns \<in> set seen")
    case True
    with rest have r: "result' = result" "seen' = seen" by (auto simp: runs_ended)
    have "namespace_accounted device proc (T \<union> set t) result ns" if "ns \<in> set seen" for ns
      using assms(2) [OF that] by (rule namespace_accounted_mono) auto
    with True t1 t(1) show ?thesis unfolding r by (intro conjI ballI owner_accountedI [of _ _ ns]) simp_all
  next
    case False
    then obtain t3 t4 contents where c: "t2 = t3 @ t4" "runs (attempt (call_text (ReadText (proc @ [owner, ''mountinfo''])))) t3 (Ret (Inr contents))"
        "splitlines contents \<noteq> []"
      and lines: "runs (pbind (mount_lines device proc owner [] (splitlines contents) result) (\<lambda>(result', e).
                 Ret (result', if e = None then inode_of ns # seen else seen, e))) t4 (Ret (result', seen', None))"
      using rest by (auto dest!: runs_pbind_Ret simp: runs_ended split: sum.splits if_splits)
    from lines have l: "runs (mount_lines device proc owner [] (splitlines contents) result) t4 (Ret (result', None))" "seen' = inode_of ns # seen"
      by (auto dest!: runs_pbind_Ret simp: runs_ended split: prod.splits)
    note acc = mount_lines_accounted [OF l(1)]
    have "list_all (record_accounted device proc owner (T \<union> set t) result') (splitlines contents)"
      using acc c(1) t(1) by (auto simp: list_all_iff intro: record_accounted_mono)
    with t1 t(1) c runs_attempt_text [OF c(2)] have new: "namespace_accounted device proc (T \<union> set t) result' (inode_of ns)"
      unfolding namespace_accounted_def by (intro exI [of _ owner] exI [of _ ns] exI [of _ contents]) auto
    have "namespace_accounted device proc (T \<union> set t) result' x" if "x \<in> set seen" for x
      using assms(2) [OF that] by (rule namespace_accounted_mono) (use acc in auto)
    with new acc t1 t(1) show ?thesis unfolding l(2) by (intro conjI ballI owner_accountedI [of _ _ ns]) auto
  qed
qed

lemma mount_owner_grows:
  "runs (mount_owner device proc owner seen result) t (Ret (result', seen', Some e)) \<Longrightarrow> set result \<subseteq> set result' \<and> seen' = seen"
proof -
  have grows: "runs (mount_lines device proc owner numbers lines result) t (Ret (r', e')) \<Longrightarrow> set result \<subseteq> set r'"
    for numbers lines result t r' e'
    by (induction lines arbitrary: numbers result t)
       (force dest!: runs_pbind_Ret simp: runs_ended split: sum.splits option.splits if_splits)+
  assume "runs (mount_owner device proc owner seen result) t (Ret (result', seen', Some e))"
  then show ?thesis unfolding mount_owner_def
    by (auto dest!: runs_pbind_Ret simp: runs_ended split: sum.splits if_splits) (use grows in blast)+
qed

lemma owner_gone_accounted:
  assumes "runs (owner_gone proc owner e) t (Ret ())"
  shows "owner_accounted device proc (T \<union> set t) result owner"
proof -
  have o: "owner \<noteq> ''self''" and r: "runs (pbind (attempt (call_stat (StatPath (namespace_path proc owner)))) (\<lambda>r.
        case r of Inl e' \<Rightarrow> if vanished e' then Ret () else Fail e' | Inr _ \<Rightarrow> Fail e)) t (Ret ())"
    using assms by (auto simp: owner_gone_def runs_ended split: if_splits)
  then obtain t1 t2 e' where "t = t1 @ t2" and t1: "runs (attempt (call_stat (StatPath (namespace_path proc owner)))) t1 (Ret (Inl e'))" "vanished e'"
    by (force dest!: runs_pbind_Ret simp: runs_ended split: sum.splits if_splits)
  moreover have "t1 = [(StatPath (namespace_path proc owner), RRaised e')]" using runs_attempt_stat [OF t1(1)] t1(2) by simp
  ultimately show ?thesis unfolding owner_accounted_def using o t1(2) by (intro disjI1 conjI exI [of _ e']) auto
qed

lemma owner_accounted_mono:
  assumes "owner_accounted device proc T result owner" "T \<subseteq> T'" "set result \<subseteq> set result'"
  shows "owner_accounted device proc T' result' owner"
  using assms namespace_accounted_mono [OF _ assms(2,3)] unfolding owner_accounted_def by blast

lemma mount_owners_accounted:
  assumes "runs (mount_owners device proc owners seen result) t (Ret res)"
    and "\<And>ns. ns \<in> set seen \<Longrightarrow> namespace_accounted device proc T result ns"
  shows "set result \<subseteq> set res \<and> (\<forall>owner \<in> set owners. owner_accounted device proc (T \<union> set t) res owner)"
  using assms
proof (induction owners arbitrary: seen result t T)
  case (Cons owner owners)
  obtain t1 t2 t3 result' seen' e where t: "t = t1 @ t2 @ t3"
    and one: "runs (mount_owner device proc owner seen result) t1 (Ret (result', seen', e))"
    and gone: "runs (case e of None \<Rightarrow> Ret () | Some e \<Rightarrow> owner_gone proc owner e) t2 (Ret ())"
    and rest: "runs (mount_owners device proc owners seen' result') t3 (Ret res)"
    using Cons.prems(1) by (auto dest!: runs_pbind_Ret)
  have "set result \<subseteq> set result' \<and> (\<forall>ns \<in> set seen'. namespace_accounted device proc (T \<union> set t1) result' ns)
      \<and> owner_accounted device proc (T \<union> set t1 \<union> set t2) result' owner"
  proof (cases e)
    case None
    with mount_owner_accounted [OF one [unfolded None] Cons.prems(2)] show ?thesis by (auto intro: owner_accounted_mono)
  next
    case (Some e')
    note g = mount_owner_grows [OF one [unfolded Some]]
    have "\<forall>ns \<in> set seen'. namespace_accounted device proc (T \<union> set t1) result' ns"
      using g Cons.prems(2) by (auto intro: namespace_accounted_mono)
    moreover have "owner_accounted device proc (T \<union> set t1 \<union> set t2) result' owner"
      using gone Some by (auto intro: owner_gone_accounted)
    ultimately show ?thesis using g by simp
  qed
  note a = this
  have "set result' \<subseteq> set res \<and> (\<forall>owner \<in> set owners. owner_accounted device proc (T \<union> set t1 \<union> set t3) res owner)"
    by (rule Cons.IH [OF rest]) (use a in auto)
  with a show ?case unfolding t by (auto intro: owner_accounted_mono)
qed (simp add: runs_ended)

lemma mount_ids_accounted:
  assumes "runs (mount_ids device proc) t (Ret result)"
  shows "\<exists>names. (Iterdir proc, RNames names) \<in> set t
    \<and> (\<forall>owner \<in> {''self''} \<union> {p \<in> set names. isdecimal p}. owner_accounted device proc (set t) result owner)"
proof -
  obtain t1 t2 names where t: "t = t1 @ t2" "runs (call_names (Iterdir proc)) t1 (Ret names)"
    "runs (mount_owners device proc (''self'' # filter isdecimal names) [] []) t2 (Ret result)"
    using runs_pbind_Ret [OF assms [unfolded mount_ids_def]] by blast
  have "\<forall>owner \<in> set (''self'' # filter isdecimal names). owner_accounted device proc ({} \<union> set t2) result owner"
    using mount_owners_accounted [OF t(3), of "{}"] by simp
  moreover have "(Iterdir proc, RNames names) \<in> set t" using t(1,2) by (simp add: runs_call_names)
  ultimately show ?thesis using t(1) by (intro exI [of _ names]) (auto intro: owner_accounted_mono)
qed

text \<open>The same for open files: every reference of every process was resolved, or is gone.\<close>

definition reference_accounted :: "(ract \<times> rresp) set \<Rightarrow> inode list \<Rightarrow> path \<Rightarrow> bool" where
  "reference_accounted T result p \<longleftrightarrow> (\<exists>st. (StatPath p, RStat st) \<in> T \<and> inode_of st \<in> set result)
     \<or> (\<exists>e. vanished e \<and> (StatPath p, RRaised e) \<in> T)"

definition process_accounted :: "path \<Rightarrow> (ract \<times> rresp) set \<Rightarrow> inode list \<Rightarrow> string \<Rightarrow> bool" where
  "process_accounted proc T result p \<longleftrightarrow>
     (\<exists>e. vanished e \<and> (Iterdir (proc @ [p, ''fd'']), RRaised e) \<in> T)
     \<or> (\<exists>fds. (Iterdir (proc @ [p, ''fd'']), RNames fds) \<in> T
          \<and> list_all (reference_accounted T result) ((proc @ [p, ''cwd'']) # map (\<lambda>f. proc @ [p, ''fd'', f]) fds))"

lemma reference_accountedI:
  "(StatPath p, RStat st) \<in> T \<Longrightarrow> inode_of st \<in> set result \<Longrightarrow> reference_accounted T result p"
  "vanished e \<Longrightarrow> (StatPath p, RRaised e) \<in> T \<Longrightarrow> reference_accounted T result p"
  unfolding reference_accounted_def by blast+

lemma reference_accounted_mono:
  "reference_accounted T result p \<Longrightarrow> T \<subseteq> T' \<Longrightarrow> set result \<subseteq> set result' \<Longrightarrow> reference_accounted T' result' p"
  unfolding reference_accounted_def by blast

lemma process_accounted_mono:
  assumes "process_accounted proc T result p" "T \<subseteq> T'" "set result \<subseteq> set result'"
  shows "process_accounted proc T' result' p"
proof -
  have "list_all (reference_accounted T result) xs \<Longrightarrow> list_all (reference_accounted T' result') xs" for xs
    using reference_accounted_mono [OF _ assms(2,3)] by (auto simp: list_all_iff)
  with assms(1,2) show ?thesis unfolding process_accounted_def by blast
qed

lemma open_references_accounted:
  "runs (open_references rs result) t (Ret res) \<Longrightarrow>
     set result \<subseteq> set res \<and> list_all (reference_accounted (set t) res) rs"
proof (induction rs arbitrary: result t)
  case (Cons p rs)
  obtain t1 t2 r where t: "t = t1 @ t2" "runs (attempt (call_stat (StatPath p))) t1 (Ret r)"
    and rest: "runs (case r of Inl e \<Rightarrow> if vanished e then open_references rs result else Fail e
       | Inr st \<Rightarrow> open_references rs (inode_of st # result)) t2 (Ret res)"
    using runs_pbind_Ret [OF Cons.prems [unfolded open_references.simps]] by blast
  note a = runs_attempt_stat [OF t(2)]
  have "set result \<subseteq> set res \<and> list_all (reference_accounted (set t2) res) rs \<and> reference_accounted (set t) res p"
  proof (cases r)
    case (Inl e)
    with rest have "vanished e" "runs (open_references rs result) t2 (Ret res)" by (auto simp: runs_ended split: if_splits)
    with Cons.IH [of result t2] a Inl t(1) show ?thesis by (intro conjI reference_accountedI(2) [of e]) simp_all
  next
    case (Inr st)
    with Cons.IH [of "inode_of st # result" t2] rest a t(1) show ?thesis
      by (intro conjI reference_accountedI(1) [of _ st]) auto
  qed
  with t(1) show ?case by (auto simp: list_all_iff intro: reference_accounted_mono)
qed (simp add: runs_ended)

lemma open_processes_accounted:
  "runs (open_processes proc ps result) t (Ret res) \<Longrightarrow>
     set result \<subseteq> set res \<and> (\<forall>p \<in> set ps. isdecimal p \<longrightarrow> process_accounted proc (set t) res p)"
proof (induction ps arbitrary: result t)
  case (Cons p ps)
  show ?case
  proof (cases "isdecimal p")
    case False
    with Cons show ?thesis by auto
  next
    case True
    let ?q = "Iterdir (proc @ [p, ''fd''])"
    obtain t1 t2 r where t: "t = t1 @ t2" "runs (attempt (call_names ?q)) t1 (Ret r)"
      and rest: "runs (case r of Inl e \<Rightarrow> if vanished e then open_processes proc ps result else Fail e
        | Inr fds \<Rightarrow> pbind (open_references ((proc @ [p, ''cwd'']) # map (\<lambda>f. proc @ [p, ''fd'', f]) fds) result) (\<lambda>result'.
            open_processes proc ps result')) t2 (Ret res)"
      using Cons.prems True by (simp only: open_processes.simps not_True_eq_False if_False) (blast dest: runs_pbind_Ret)
    have a: "case r of Inr fds \<Rightarrow> t1 = [(?q, RNames fds)] | Inl e \<Rightarrow> vanished e \<longrightarrow> t1 = [(?q, RRaised e)]"
      using t(2) by (auto simp: call_names_def attempt_Act runs_attempt_got vanished_def dest!: runs_Act_Ret split: sum.splits rresp.splits)
    have "set result \<subseteq> set res \<and> (\<forall>p \<in> set ps. isdecimal p \<longrightarrow> process_accounted proc (set t) res p) \<and> process_accounted proc (set t) res p"
    proof (cases r)
      case (Inl e)
      with rest have e: "vanished e" "runs (open_processes proc ps result) t2 (Ret res)" by (auto simp: runs_ended split: if_splits)
      note IH = Cons.IH [OF e(2)]
      have "process_accounted proc (set t) res p" unfolding process_accounted_def
        using a Inl e(1) t(1) by (intro disjI1 exI [of _ e]) simp
      with IH t(1) show ?thesis by (auto intro: process_accounted_mono)
    next
      case (Inr fds)
      then obtain t3 t4 result' where u: "t2 = t3 @ t4"
        "runs (open_references ((proc @ [p, ''cwd'']) # map (\<lambda>f. proc @ [p, ''fd'', f]) fds) result) t3 (Ret result')"
        "runs (open_processes proc ps result') t4 (Ret res)"
        using rest by (simp only: sum.case) (blast dest: runs_pbind_Ret)
      note IH = Cons.IH [OF u(3)] and refs = open_references_accounted [OF u(2)]
      have "list_all (reference_accounted (set t) res) ((proc @ [p, ''cwd'']) # map (\<lambda>f. proc @ [p, ''fd'', f]) fds)"
        using conjunct2 [OF refs] by (rule list.pred_mono_strong) (rule reference_accounted_mono, use IH u(1) t(1) in auto)
      then have "process_accounted proc (set t) res p" unfolding process_accounted_def
        using a Inr t(1) by (intro disjI2 exI [of _ fds]) simp
      with IH refs u(1) t(1) show ?thesis by (auto intro: process_accounted_mono)
    qed
    then show ?thesis by auto
  qed
qed (simp add: runs_ended)

lemma open_ids_accounted:
  assumes "runs (open_ids proc) t (Ret result)"
  shows "\<exists>names. (Iterdir proc, RNames names) \<in> set t \<and> (\<forall>p \<in> set names. isdecimal p \<longrightarrow> process_accounted proc (set t) result p)"
proof -
  obtain t1 t2 names where t: "t = t1 @ t2" "runs (call_names (Iterdir proc)) t1 (Ret names)"
    "runs (open_processes proc names []) t2 (Ret result)"
    using runs_pbind_Ret [OF assms [unfolded open_ids_def]] by blast
  with open_processes_accounted [OF t(3)] show ?thesis
    by (intro exI [of _ names]) (auto simp: runs_call_names intro: process_accounted_mono)
qed

end
