(* ===== verification/Retention.thy ===== *)
theory Retention
  imports Proc_Scan "HOL-Library.Product_Lexorder"
begin

section \<open>The retention policy\<close>

text \<open>
  \<^verbatim>\<open>cache-retention.py\<close>: the clean-up of the UV cache (\<open>owned_uv\<close>, \<open>qualify_uv\<close>,
  \<open>uv_proof\<close>, \<open>clean_uv\<close>), \<open>retain\<close> and \<open>main\<close>. The lines printed to the log are left
  out. Percentages and times are exact rationals where the code has floating-point numbers. The
  scans of the process file system, the gate and the two measures of the file system are the
  fields of \<open>hooks\<close>, as they are arguments of \<^verbatim>\<open>retain\<close> in the code. Reading a file to its
  end is one action, and \<open>InitProcess\<close> answers whether the process is PID 1, in its main thread
  and with the default handler for \<^verbatim>\<open>SIGCHLD\<close>.
\<close>

subsection \<open>Constants\<close>

definition WORKSPACE_ROOT :: path where
  "WORKSPACE_ROOT = [''var'', ''lib'', ''ci-builds-nocow'']"

definition ROOTS :: "(path \<times> int) list" where
  "ROOTS = [(WORKSPACE_ROOT, 7), ([''var'', ''lib'', ''ci-cache-nocow''], 30)]"

definition DAY :: int where
  "DAY = 86400"

definition HOST_PROC :: path where
  "HOST_PROC = [''host'', ''proc'']"

definition UV_BINARY :: path where
  "UV_BINARY = [''usr'', ''local'', ''bin'', ''uv'']"

definition UV_SHA256 :: string where
  "UV_SHA256 = ''0c7b00d4f2c10d0bf66b26e4f432388d7782e1071d913f921eae0b8e35cb3c80''"

definition COLD_RESERVE :: int where
  "COLD_RESERVE = 38857516474"

definition CACHE_TAG :: string where
  "CACHE_TAG = ''Signature: 8a477f597d28d172789f06886806bc55''"

definition path_str :: "path \<Rightarrow> string" where
  "path_str p = ''/'' @ join ''/'' p"

subsection \<open>Measures of the file system\<close>

definition usage :: "path \<Rightarrow> rat rprog" where
  "usage p = pbind (call_vfs (Statvfs p)) (\<lambda>fs.
     if f_blocks fs = 0 then Fail (PyError ''ZeroDivisionError'')
     else Ret (100 * (of_int (f_blocks fs) - of_int (f_bavail fs)) / of_int (f_blocks fs)))"

definition free_bytes :: "path \<Rightarrow> int rprog" where
  "free_bytes p = pbind (call_vfs (Statvfs p)) (\<lambda>fs. Ret (f_bavail fs * f_frsize fs))"

subsection \<open>The UV cache\<close>

definition owned_uv :: "string list \<Rightarrow> nat \<Rightarrow> bool \<Rightarrow> (int \<times> string) rprog" where
  "owned_uv argv timeout version =
     pbind (call_bool InitProcess) (\<lambda>init.
     pbind (prequire init ''native UV requires direct Python private PID namespace init'') (\<lambda>_.
     pbind (call_unit (Popen argv)) (\<lambda>_.
     pfinally
       (pcatch
         (pbind (call_int (WaitChild timeout)) (\<lambda>rc.
          pbind (if version then call_text (ReadChild 257) else Ret []) (\<lambda>out.
          pbind (prequire (length out \<le> 256) ''unsupported UV version output'') (\<lambda>_.
          Ret (rc, out)))))
         (\<lambda>primary.
          pbind (attempt (call_unit KillChild)) (\<lambda>_.
          pbind (attempt (call_int (WaitChild 5))) (\<lambda>_.
          Fail primary))))
       (if version then call_unit CloseChild else Ret ()))))"

text \<open>The pattern \<^verbatim>\<open>uv 0\.11\.26(?: \([^\r\n]*\))?\n\<close>.\<close>

definition uv_version_ok :: "string \<Rightarrow> bool" where
  "uv_version_ok out \<longleftrightarrow> prefix ''uv 0.11.26'' out
     \<and> (let rest = drop 10 out in
        rest = [CHR 0x0A]
        \<or> 4 \<le> length rest \<and> prefix '' ('' rest \<and> suffix [CHR '')'', CHR 0x0A] rest
          \<and> list_all (\<lambda>c. c \<noteq> CHR 0x0D \<and> c \<noteq> CHR 0x0A) (butlast rest))"

definition qualify_uv :: "(string \<Rightarrow> string) \<Rightarrow> unit rprog" where
  "qualify_uv sha =
     pbind (call_text (ReadBytes UV_BINARY)) (\<lambda>binary.
     pbind (prequire (sha binary = UV_SHA256) ''unsupported UV binary'') (\<lambda>_.
     pbind (owned_uv [path_str UV_BINARY, ''--version''] 10 True) (\<lambda>(rc, out).
     prequire (rc = 0 \<and> uv_version_ok out) ''unsupported UV version'')))"

type_synonym ancestor = "path \<times> inode \<times> int \<times> int \<times> int"

definition uv_ancestor :: "path \<Rightarrow> ancestor rprog" where
  "uv_ancestor p =
     pbind (call_stat (LstatPath p)) (\<lambda>st.
     pbind (prequire (S_ISDIR (st_mode st)) ''UV ancestor is not an ordinary directory'') (\<lambda>_.
     Ret (p, inode_of st, st_mode st, st_uid st, st_gid st)))"

definition UV_BUCKETS :: "string list" where
  "UV_BUCKETS = [''archive'', ''binaries'', ''builds'', ''environments'', ''flat-index'', ''git'', ''interpreter'',
     ''osv'', ''python'', ''sdists'', ''simple'', ''wheels'']"

definition bucket_name :: "string \<Rightarrow> bool" where
  "bucket_name name = list_ex (\<lambda>b. prefix (b @ ''-v'') name \<and> isdecimal (drop (length b + 2) name)) UV_BUCKETS"

definition uv_entry :: "path \<Rightarrow> string \<Rightarrow> unit rprog" where
  "uv_entry p name =
     pbind (call_stat (LstatPath (p @ [name]))) (\<lambda>st.
     prequire
       (if S_ISDIR (st_mode st) then bucket_name name
        else name \<in> set [''.gitignore'', ''.lock'', ''CACHEDIR.TAG''] \<and> S_ISREG (st_mode st))
       ''UV cache-only role not established'')"

definition uv_marker :: "path \<Rightarrow> unit rprog" where
  "uv_marker p =
     pbind (call_fd (OpenFile (p @ [''CACHEDIR.TAG'']))) (\<lambda>fd.
     pfinally
       (pbind (call_stat (Fstat fd)) (\<lambda>st.
        if \<not> S_ISREG (st_mode st) then Fail (Refuse ''invalid UV cache marker'')
        else pbind (call_text (ReadFd fd (length CACHE_TAG))) (\<lambda>tag.
          prequire (tag = CACHE_TAG) ''invalid UV cache marker'')))
       (call_unit (CloseFd fd)))"

definition uv_proof :: "(string \<Rightarrow> string) \<Rightarrow> nat \<Rightarrow> path \<Rightarrow> int \<Rightarrow> inode list \<Rightarrow> inode list
    \<Rightarrow> (ancestor list \<times> proof_value) rprog" where
  "uv_proof sha depth p device mounted busy =
     pbind (prequire (p = UV_ROOT \<and> butlast p = fst (ROOTS ! 1)) ''wrong UV cache role'') (\<lambda>_.
     pbind (pmap uv_ancestor (map (\<lambda>n. take n (butlast p)) [0 ..< length p])) (\<lambda>ancestors.
     pbind (call_stat (LstatPath (butlast p))) (\<lambda>parent.
     pbind (prequire (st_dev parent = device) ''UV parent filesystem changed'') (\<lambda>_.
     pbind (call_vfs (Statvfs (butlast p))) (\<lambda>fs.
     pbind (prequire (f_flag fs mod 2 = 0) ''UV filesystem is read-only'') (\<lambda>_.
     pbind (call_stat (LstatPath p)) (\<lambda>st.
     pbind (liftr (check_entry st device busy mounted False)) (\<lambda>_.
     pbind (prequire (S_ISDIR (st_mode st)) ''UV root is not an ordinary directory'') (\<lambda>_.
     pbind (call_names (Iterdir p)) (\<lambda>names.
     pbind (pfor (uv_entry p) names) (\<lambda>_.
     pbind (uv_marker p) (\<lambda>_.
     pbind (snapshot sha depth p device mounted busy False True) (\<lambda>(proof_of, _).
     Ret (ancestors, proof_of))))))))))))))"

subsection \<open>Hooks\<close>

record hooks =
  hk_used :: "path \<Rightarrow> rat rprog"
  hk_available :: "path \<Rightarrow> int rprog"
  hk_opened :: "inode list rprog"
  hk_mounts :: "inode list rprog"
  hk_gate :: "unit rprog"

definition UV_CLEAN :: "path \<Rightarrow> string list" where
  "UV_CLEAN p = [path_str UV_BINARY, ''--no-config'', ''--offline'', ''--no-python-downloads'', ''cache'', ''clean'',
     ''--cache-dir'', path_str p]"

definition clean_uv :: "(string \<Rightarrow> string) \<Rightarrow> nat \<Rightarrow> hooks \<Rightarrow> path \<Rightarrow> int \<Rightarrow> inode list \<Rightarrow> inode list \<Rightarrow> unit rprog" where
  "clean_uv sha depth hk p device mounted busy =
     pbind (attempt (call_stat (LstatPath p))) (\<lambda>r.
     case r of
       Inl e \<Rightarrow> if e = PyError ''FileNotFoundError'' then Ret () else Fail e
     | Inr _ \<Rightarrow>
         pbind (uv_proof sha depth p device mounted busy) (\<lambda>proof_of.
         pbind (qualify_uv sha) (\<lambda>_.
         pbind (hk_gate hk) (\<lambda>_.
         pbind (hk_mounts hk) (\<lambda>mounted'.
         pbind (hk_opened hk) (\<lambda>busy'.
         pbind (uv_proof sha depth p device mounted' busy') (\<lambda>current.
         pbind (prequire (current = proof_of) ''UV root/fingerprint changed'') (\<lambda>_.
         pbind (hk_gate hk) (\<lambda>_.
         pbind (owned_uv (UV_CLEAN p) 330 False) (\<lambda>(rc, _).
         prequire (rc = 0) (''UV native clean failed exit='' @ show_int rc)))))))))))"

subsection \<open>retain\<close>

record candidate =
  c_root :: path
  c_days :: int
  c_path :: path
  c_proof :: proof_value
  c_latest :: "rat option"

definition KEPT_NAMES :: "string list" where
  "KEPT_NAMES = [''bun'', ''cargo'', ''tools'', ''python'', ''managed-python'', ''uv-tools'', ''uv-python'']"

definition STORE_NAMES :: "string list" where
  "STORE_NAMES = [''storage'', ''docker'', ''containerd'', ''containers'', ''libpod'']"

text \<open>The body of the candidate loop for one path: \<^verbatim>\<open>Refuse\<close> protects the path, other exceptions are raised.\<close>

definition inspect :: "(string \<Rightarrow> string) \<Rightarrow> nat \<Rightarrow> inode list \<Rightarrow> inode list \<Rightarrow> path \<Rightarrow> fstat \<Rightarrow> string
    \<Rightarrow> (proof_value \<times> rat option) option rprog" where
  "inspect sha depth mounted busy p st name =
     pcatch
       (pbind (call_stat (LstatPath (p @ [name]))) (\<lambda>own.
        pbind (prequire (S_ISDIR (st_mode own)) (''candidate is not an ordinary directory: '' @ path_str (p @ [name]))) (\<lambda>_.
        pbind (prequire (name \<notin> set STORE_NAMES) (''image/runtime store name: '' @ path_str (p @ [name]))) (\<lambda>_.
        pbind (snapshot sha depth (p @ [name]) (st_dev st) mounted busy (p = WORKSPACE_ROOT) False) (\<lambda>proof_of.
        Ret (Some proof_of))))))
       (\<lambda>e. case e of Refuse _ \<Rightarrow> Ret None | _ \<Rightarrow> Fail e)"

definition scan_path :: "(string \<Rightarrow> string) \<Rightarrow> nat \<Rightarrow> inode list \<Rightarrow> inode list \<Rightarrow> (path \<times> int) \<times> fstat \<Rightarrow> string
    \<Rightarrow> candidate list \<Rightarrow> candidate list rprog" where
  "scan_path sha depth mounted busy rt name cs = (case rt of ((p, days), st) \<Rightarrow>
     if p @ [name] = UV_ROOT then Ret cs
     else if p = butlast UV_ROOT \<and> name \<in> set KEPT_NAMES then Ret cs
     else pbind (inspect sha depth mounted busy p st name) (\<lambda>found.
       case found of
         None \<Rightarrow> Ret cs
       | Some (proof_of, latest) \<Rightarrow>
           Ret (cs @ [\<lparr>c_root = p, c_days = days, c_path = p @ [name], c_proof = proof_of, c_latest = latest\<rparr>])))"

definition scan_root :: "(string \<Rightarrow> string) \<Rightarrow> nat \<Rightarrow> inode list \<Rightarrow> inode list \<Rightarrow> (path \<times> int) \<times> fstat
    \<Rightarrow> candidate list \<Rightarrow> candidate list rprog" where
  "scan_root sha depth mounted busy rt cs =
     pbind (call_names (Iterdir (fst (fst rt)))) (\<lambda>names.
     pfold (scan_path sha depth mounted busy rt) (sort names) cs)"

text \<open>The order of deletion: group of the root, then age, then path.\<close>

fun root_index :: "(path \<times> int) list \<Rightarrow> path \<Rightarrow> nat" where
  "root_index [] p = 0"
| "root_index (r # rs) p = (if fst r = p then 0 else Suc (root_index rs p))"

definition order_key :: "(path \<times> int) list \<Rightarrow> candidate \<Rightarrow> nat \<times> rat option \<times> string" where
  "order_key roots c = (root_index roots (c_root c), c_latest c, path_str (c_path c))"

definition delete :: "(string \<Rightarrow> string) \<Rightarrow> nat \<Rightarrow> nat \<Rightarrow> hooks \<Rightarrow> bool \<Rightarrow> int \<Rightarrow> candidate \<Rightarrow> unit rprog" where
  "delete sha depth budget hk execute device c =
     (if \<not> execute then Ret ()
      else
        pbind (hk_gate hk) (\<lambda>_.
        pbind (call_stat (LstatPath (c_root c))) (\<lambda>current_root.
        pbind (prequire (S_ISDIR (st_mode current_root) \<and> st_dev current_root = device) ''retention root filesystem changed'') (\<lambda>_.
        pbind (hk_mounts hk) (\<lambda>mounted.
        pbind (hk_opened hk) (\<lambda>busy.
        pbind (pcatch (snapshot sha depth (c_path c) device mounted busy (c_root c = WORKSPACE_ROOT) False)
          (\<lambda>e. case e of
             Refuse s \<Rightarrow> Fail (Refuse (''candidate changed/open/mounted: '' @ path_str (c_path c) @ '': '' @ s))
           | _ \<Rightarrow> Fail e)) (\<lambda>(current, _).
        pbind (prequire (current = c_proof c) (''candidate changed/open/mounted: '' @ path_str (c_path c))) (\<lambda>_.
        pbind (hk_gate hk) (\<lambda>_.
        remove_tree depth budget (c_path c) device busy mounted (snd current) (c_root c = WORKSPACE_ROOT))))))))))"

definition expired :: "rat \<Rightarrow> candidate \<Rightarrow> bool" where
  "expired t c = (case c_latest c of None \<Rightarrow> True | Some l \<Rightarrow> l \<le> t - of_int (c_days c * DAY))"

text \<open>The two deletion loops.\<close>

definition delete_expired :: "(string \<Rightarrow> string) \<Rightarrow> nat \<Rightarrow> nat \<Rightarrow> hooks \<Rightarrow> bool \<Rightarrow> int \<Rightarrow> rat \<Rightarrow> candidate list
    \<Rightarrow> candidate list rprog" where
  "delete_expired sha depth budget hk execute device t cs =
     pfold (\<lambda>c remaining.
       if expired t c then pbind (delete sha depth budget hk execute device c) (\<lambda>_. Ret remaining)
       else Ret (remaining @ [c])) cs []"

definition delete_pressed :: "(string \<Rightarrow> string) \<Rightarrow> nat \<Rightarrow> nat \<Rightarrow> hooks \<Rightarrow> bool \<Rightarrow> int \<Rightarrow> bool \<Rightarrow> candidate list \<Rightarrow> unit rprog" where
  "delete_pressed sha depth budget hk execute device pressure cs =
     pfor (\<lambda>c.
       if \<not> pressure then Ret ()
       else pbind (hk_used hk (c_root c)) (\<lambda>u.
         if u > 65 then delete sha depth budget hk execute device c else Ret ())) cs"

definition uv_parent_kept :: "(path \<times> int) \<times> fstat \<Rightarrow> unit rprog" where
  "uv_parent_kept rt = (case rt of ((p, _), st) \<Rightarrow>
     if p = butlast UV_ROOT
     then pbind (call_stat (LstatPath p)) (\<lambda>current. prequire (inode_of current = inode_of st) ''UV parent replaced'')
     else Ret ())"

definition root_directory :: "(path \<times> int) \<times> fstat \<Rightarrow> unit rprog" where
  "root_directory rt = prequire (S_ISDIR (st_mode (snd rt))) (''root is not an ordinary directory: '' @ path_str (fst (fst rt)))"

text \<open>The end of \<^verbatim>\<open>retain\<close>, after the age expiry.\<close>

definition relieve :: "(string \<Rightarrow> string) \<Rightarrow> nat \<Rightarrow> nat \<Rightarrow> hooks \<Rightarrow> bool \<Rightarrow> int \<Rightarrow> inode list \<Rightarrow> inode list
    \<Rightarrow> ((path \<times> int) \<times> fstat) list \<Rightarrow> path \<Rightarrow> candidate list \<Rightarrow> unit rprog" where
  "relieve sha depth budget hk execute device mounted busy roots first remaining =
     pbind (hk_used hk first) (\<lambda>u0.
     (let pressure = (67 \<le> u0) in
     pbind (delete_pressed sha depth budget hk execute device pressure remaining) (\<lambda>_.
     pbind (hk_used hk first) (\<lambda>final.
     pbind (if execute \<and> pressure \<and> final > 65
            then pbind (pfor uv_parent_kept roots) (\<lambda>_.
                 pbind (clean_uv sha depth hk UV_ROOT device mounted busy) (\<lambda>_.
                 hk_used hk first))
            else Ret final) (\<lambda>final.
     pbind (prequire (\<not> (execute \<and> pressure \<and> final > 65))
              ''cannot reach 65% within approved idle directories; no scope widening'') (\<lambda>_.
     if execute \<and> pressure
     then pbind (hk_available hk first) (\<lambda>free. prequire (COLD_RESERVE \<le> free) ''cold reserve not reached; no scope widening'')
     else Ret ()))))))"

definition retain :: "(string \<Rightarrow> string) \<Rightarrow> nat \<Rightarrow> nat \<Rightarrow> hooks \<Rightarrow> (path \<times> int) list \<Rightarrow> bool \<Rightarrow> rat option \<Rightarrow> unit rprog" where
  "retain sha depth budget hk roots execute time_given =
     pbind (case time_given of None \<Rightarrow> call_time Clock | Some t \<Rightarrow> Ret t) (\<lambda>t.
     pbind (pmap (\<lambda>r. call_stat (LstatPath (fst r))) roots) (\<lambda>stats.
     (let roots' = zip roots stats in
     pbind (pfor root_directory roots') (\<lambda>_.
     pbind (prequire (length (remdups (map st_dev stats)) = 1) ''retention roots must share the same filesystem'') (\<lambda>_.
     (let device = st_dev (hd stats) in
     pbind (hk_mounts hk) (\<lambda>mounted.
     pbind (hk_opened hk) (\<lambda>busy.
     pbind (pfold (scan_root sha depth mounted busy) roots' []) (\<lambda>candidates.
     pbind (delete_expired sha depth budget hk execute device t (sort_key (order_key roots) candidates)) (\<lambda>remaining.
     relieve sha depth budget hk execute device mounted busy roots' (fst (hd roots)) remaining))))))))))"

subsection \<open>main\<close>

text \<open>
  The store and the environment are arguments, as for the admission programs. The claim returns
  the latched UID of the ConfigMap and the identity of the operation, which the fence checks.
\<close>

definition worker_gate :: "store \<Rightarrow> (string \<Rightarrow> string option) \<Rightarrow> ident \<Rightarrow> string \<times> string \<Rightarrow> unit rprog" where
  "worker_gate st env me claimed =
     pbind (kube (fence_check st (fst claimed) me (snd claimed))) (\<lambda>_. kube (api_gate (st_base st) env))"

definition host_mounts :: "inode list rprog" where
  "host_mounts = pbind (call_stat (LstatPath (fst (hd ROOTS)))) (\<lambda>st. mount_ids (st_dev st) HOST_PROC)"

definition worker_hooks :: "store \<Rightarrow> (string \<Rightarrow> string option) \<Rightarrow> ident \<Rightarrow> string \<times> string \<Rightarrow> hooks" where
  "worker_hooks st env me claimed = \<lparr>hk_used = usage, hk_available = free_bytes, hk_opened = open_ids HOST_PROC,
     hk_mounts = host_mounts, hk_gate = worker_gate st env me claimed\<rparr>"

definition retention_main :: "(string \<Rightarrow> string) \<Rightarrow> nat \<Rightarrow> nat \<Rightarrow> nat \<Rightarrow> store \<Rightarrow> (string \<Rightarrow> string option) \<Rightarrow> string list \<Rightarrow> unit rprog" where
  "retention_main sha depth budget fuel st env argv =
     pbind (prequire (argv \<in> {[], [''--execute'']}) ''usage: cache-retention.py [--execute] (default: dry run)'') (\<lambda>_.
     pbind (kube (self_identity st env)) (\<lambda>me.
     pbind (kube (claim fuel st me)) (\<lambda>claimed.
     pbind (worker_gate st env me claimed) (\<lambda>_.
     retain sha depth budget (worker_hooks st env me claimed) ROOTS (argv = [''--execute'']) None))))"

end
