(* ===== verification/Retention_Spec.thy ===== *)
theory Retention_Spec
  imports Retention
begin

section \<open>When the retention policy deletes\<close>

text \<open>
  Specification of \<^const>\<open>retain\<close> over histories. \<open>guarded\<close> describes the only situation in
  which an entry is removed: inside a run of \<^const>\<open>remove_tree\<close> that follows immediately on a passed
  gate, a snapshot whose root it expects, and fresh scans for mounted and open entries whose
  results it uses. The native clean-up of the UV cache starts right after a passed gate.
  \<open>retain_spec\<close> holds for all hooks that do not delete themselves, and so for the hooks of \<^const>\<open>retention_main\<close>.
\<close>

subsection \<open>Quiet actions\<close>

definition quiet :: "ract \<Rightarrow> bool" where
  "quiet q = (case q of Unlink _ _ \<Rightarrow> False | Rmdir _ _ \<Rightarrow> False | Popen _ \<Rightarrow> False | _ \<Rightarrow> True)"

lemma quiet_simps [simp]:
  "quiet (Kube x)" "quiet (OpenPath p)" "quiet (OpenFile p)" "quiet (OpenAt fd n)" "quiet (StatAt fd n)" "quiet (Fstat fd)"
  "quiet (Listdir fd)" "quiet (Scandir fd)" "quiet (CloseFd fd)" "quiet (ReadFd fd m)" "quiet (StatPath p)" "quiet (LstatPath p)"
  "quiet (Iterdir p)" "quiet (ReadText p)" "quiet (ReadBytes p)" "quiet (Statvfs p)" "quiet Clock" "quiet InitProcess"
  "quiet (WaitChild m)" "quiet (ReadChild m)" "quiet KillChild" "quiet CloseChild"
  by (simp_all add: quiet_def)

lemma acts_got [simp]: "acts P (got f r)"
  by (simp add: got_def split: option.split rresp.split)

lemma acts_call [simp]:
  "acts P (call_fd q) = P q" "acts P (call_stat q) = P q" "acts P (call_names q) = P q" "acts P (call_name q) = P q"
  "acts P (call_unit q) = P q" "acts P (call_text q) = P q" "acts P (call_vfs q) = P q" "acts P (call_time q) = P q"
  "acts P (call_bool q) = P q" "acts P (call_int q) = P q"
  by (simp_all add: call_defs)

lemma acts_attempt [acts_intros]: "acts P p \<Longrightarrow> acts P (attempt p)"
  unfolding attempt_def by (intro acts_intros) simp_all

lemma acts_kube [simp]: "acts quiet (kube p)"
  unfolding kube_def by (rule acts_embedI) (rule acts_mono [OF contract.acts_trivial], simp)

lemma quiet_visit: "acts quiet (visit depth sc parent name rel s)"
  by (induction depth arbitrary: parent name rel s) (auto intro!: acts_intros)

lemma quiet_snapshot: "acts quiet (snapshot sha depth p device mounted busy workspace native)"
  unfolding snapshot_def by (auto intro!: acts_intros quiet_visit)

lemma quiet_usage: "acts quiet (usage p)" "acts quiet (free_bytes p)"
  unfolding usage_def free_bytes_def by (auto intro!: acts_intros)

lemma quiet_mount_ids: "acts quiet (mount_ids device proc)"
proof -
  have lines: "acts quiet (mount_lines device proc owner numbers lines result)" for owner numbers lines result
    by (induction lines arbitrary: numbers result) (auto intro!: acts_intros split: sum.split option.split)
  have "acts quiet (mount_owner device proc owner seen result)" for owner seen result
    unfolding mount_owner_def by (auto intro!: acts_intros lines split: sum.split)
  moreover have "acts quiet (owner_gone proc owner e)" for owner e
    unfolding owner_gone_def by (auto intro!: acts_intros split: sum.split)
  ultimately have "acts quiet (mount_owners device proc owners seen result)" for owners seen result
    by (induction owners arbitrary: seen result) (auto intro!: acts_intros split: option.split)
  then show ?thesis unfolding mount_ids_def by (intro acts_intros) (simp_all del: mount_owners.simps)
qed

lemma quiet_open_ids: "acts quiet (open_ids proc)"
proof -
  have refs: "acts quiet (open_references rs result)" for rs result
    by (induction rs arbitrary: result) (auto intro!: acts_intros split: sum.split)
  have "acts quiet (open_processes proc ps result)" for ps result
    by (induction ps arbitrary: result) (auto intro!: acts_intros refs split: sum.split simp del: open_references.simps)
  then show ?thesis unfolding open_ids_def by (intro acts_intros) simp_all
qed

lemma quiet_uv_proof: "acts quiet (uv_proof sha depth p device mounted busy)"
  unfolding uv_proof_def uv_marker_def uv_entry_def uv_ancestor_def
  by (auto intro!: acts_intros quiet_snapshot)

subsection \<open>The allowed situations\<close>

text \<open>
  What the scan of the roots says of a candidate: it is a child of one of the roots, with the age limit of this root, not one of
  the reserved names, and its fingerprint and the time of its latest file are the result of a snapshot of its tree
  that was taken before.
\<close>

definition scanned :: "(string \<Rightarrow> string) \<Rightarrow> nat \<Rightarrow> (path \<times> int) list \<Rightarrow> candidate \<Rightarrow> hist \<Rightarrow> bool" where
  "scanned sha depth roots c h \<longleftrightarrow> (\<exists>name device mounted busy ts h1. (c_root c, c_days c) \<in> set roots \<and> c_path c = c_root c @ [name]
     \<and> c_path c \<noteq> UV_ROOT \<and> name \<notin> set STORE_NAMES \<and> (c_root c = butlast UV_ROOT \<longrightarrow> name \<notin> set KEPT_NAMES)
     \<and> suffix (rev ts @ h1) h
     \<and> runs (snapshot sha depth (c_path c) device mounted busy (c_root c = WORKSPACE_ROOT) False) ts (Ret (c_proof c, c_latest c)))"

text \<open>
  A candidate of the scan may go when it is older than its root allows, by a time that was read, or when the
  measure of its root, read directly before, is above the target and the measure of the first
  root has been at or above the trigger.
\<close>

definition known_time :: "rat option \<Rightarrow> hist \<Rightarrow> rat \<Rightarrow> bool" where
  "known_time given h t \<longleftrightarrow> given = Some t \<or> given = None \<and> (Clock, RTime t) \<in> set h"

definition pressed :: "hooks \<Rightarrow> path \<Rightarrow> hist \<Rightarrow> bool" where
  "pressed hk first h \<longleftrightarrow> (\<exists>h1 tu u. suffix (rev tu @ h1) h \<and> runs (hk_used hk first) tu (Ret u) \<and> 67 \<le> u)"

definition entitled :: "(string \<Rightarrow> string) \<Rightarrow> nat \<Rightarrow> rat option \<Rightarrow> hooks \<Rightarrow> (path \<times> int) list \<Rightarrow> candidate \<Rightarrow> hist \<Rightarrow> bool" where
  "entitled sha depth given hk roots c h \<longleftrightarrow> scanned sha depth roots c h \<and> ((\<exists>t. known_time given h t \<and> expired t c)
     \<or> (\<exists>h1 tu u. h = rev tu @ h1 \<and> runs (hk_used hk (c_root c)) tu (Ret u) \<and> 65 < u \<and> pressed hk (fst (hd roots)) h1))"

definition guarded :: "(string \<Rightarrow> string) \<Rightarrow> nat \<Rightarrow> nat \<Rightarrow> hooks \<Rightarrow> (path \<times> int) list \<Rightarrow> rat option \<Rightarrow> hist \<Rightarrow> ract \<Rightarrow> bool" where
  "guarded sha depth budget hk roots given h q \<longleftrightarrow> (\<exists>c h0 tg0 st tm tb ts tg tr device busy mounted latest k.
     h = rev tr @ rev tg @ rev ts @ rev tb @ rev tm @ [(LstatPath (c_root c), RStat st)] @ rev tg0 @ h0
     \<and> entitled sha depth given hk roots c h0
     \<and> runs (hk_gate hk) tg0 (Ret ()) \<and> S_ISDIR (st_mode st) \<and> st_dev st = device
     \<and> runs (hk_mounts hk) tm (Ret mounted) \<and> runs (hk_opened hk) tb (Ret busy)
     \<and> runs (snapshot sha depth (c_path c) device mounted busy (c_root c = WORKSPACE_ROOT) False) ts (Ret (c_proof c, latest))
     \<and> runs (hk_gate hk) tg (Ret ())
     \<and> runs (remove_tree depth budget (c_path c) device busy mounted (snd (c_proof c)) (c_root c = WORKSPACE_ROOT)) tr (Act q k))"

definition after_gate :: "hooks \<Rightarrow> hist \<Rightarrow> bool" where
  "after_gate hk h \<longleftrightarrow> (\<exists>tg h0. h = (InitProcess, RBool True) # rev tg @ h0 \<and> runs (hk_gate hk) tg (Ret ()))"

definition retain_ok :: "(string \<Rightarrow> string) \<Rightarrow> nat \<Rightarrow> nat \<Rightarrow> hooks \<Rightarrow> (path \<times> int) list \<Rightarrow> rat option \<Rightarrow> bool \<Rightarrow> hist \<Rightarrow> ract \<Rightarrow> bool" where
  "retain_ok sha depth budget hk roots given execute h q = (case q of
     Unlink _ _ \<Rightarrow> execute \<and> guarded sha depth budget hk roots given h q
   | Rmdir _ _ \<Rightarrow> execute \<and> guarded sha depth budget hk roots given h q
   | Popen argv \<Rightarrow> execute \<and> (argv = [path_str UV_BINARY, ''--version''] \<or> argv = UV_CLEAN UV_ROOT \<and> after_gate hk h)
   | _ \<Rightarrow> True)"

lemma retain_ok_quiet: "quiet q \<Longrightarrow> retain_ok sha depth budget hk roots given execute h q"
  by (cases q) (simp_all add: retain_ok_def quiet_def)

lemma spec_calm: "acts quiet p \<Longrightarrow> history.spec (retain_ok sha depth budget hk roots given execute) h p (\<lambda>_ _. True)"
  by (rule spec_quiet [OF _ retain_ok_quiet])

lemma spec_then:
  assumes "acts quiet p" and "\<And>x t. runs p t (Ret x) \<Longrightarrow> history.spec (retain_ok sha depth budget hk roots given execute) (rev t @ h) (f x) R"
  shows "history.spec (retain_ok sha depth budget hk roots given execute) h (pbind p f) R"
  by (rule history.spec_bind [OF spec_self_acts [where P = quiet, OF assms(1) retain_ok_quiet]]) (use assms(2) in auto)

text \<open>A quiet part whose run does not matter.\<close>

lemma spec_past:
  "acts quiet p \<Longrightarrow> (\<And>x h'. history.spec (retain_ok sha depth budget hk roots given execute) h' (f x) R)
    \<Longrightarrow> history.spec (retain_ok sha depth budget hk roots given execute) h (pbind p f) R"
  by (rule spec_then)

definition quiet_hooks :: "hooks \<Rightarrow> bool" where
  "quiet_hooks hk \<longleftrightarrow> (\<forall>p. acts quiet (hk_used hk p)) \<and> (\<forall>p. acts quiet (hk_available hk p)) \<and> acts quiet (hk_opened hk)
     \<and> acts quiet (hk_mounts hk) \<and> acts quiet (hk_gate hk)"

subsection \<open>delete\<close>

lemma not_quiet_remove:
  assumes "runs (remove_tree depth budget p device busy mounted expected workspace) t (Act q k)"
  shows "(\<forall>argv. q \<noteq> Popen argv)"
proof -
  have n: "acts (\<lambda>q. \<forall>argv. q \<noteq> Popen argv) (each_entry b c f)" if "\<And>x. acts (\<lambda>q. \<forall>argv. q \<noteq> Popen argv) (f x)" for b c f
    using that by (induction b) (auto intro!: acts_intros split: option.split)
  have "acts (\<lambda>q. \<forall>argv. q \<noteq> Popen argv) (remove depth budget sc parent name expected)" for sc parent name expected
    by (induction depth arbitrary: parent name expected) (auto intro!: acts_intros n simp: scan_def)
  then have "acts (\<lambda>q. \<forall>argv. q \<noteq> Popen argv) (remove_tree depth budget p device busy mounted expected workspace)"
    unfolding remove_tree_def by (auto intro!: acts_intros)
  from acts_runs [OF assms this] show ?thesis by simp
qed

lemma spec_delete:
  assumes hk: "quiet_hooks hk" and ent: "entitled sha depth given hk roots c h"
  shows "history.spec (retain_ok sha depth budget hk roots given execute) h (delete sha depth budget hk execute device c) (\<lambda>_ _. True)"
proof (cases execute)
  case True
  let ?ws = "c_root c = WORKSPACE_ROOT"
  let ?spec = "history.spec (retain_ok sha depth budget hk roots given True)"
  have q: "acts quiet (hk_gate hk)" "acts quiet (hk_mounts hk)" "acts quiet (hk_opened hk)" using hk by (auto simp: quiet_hooks_def)
  let ?snap = "\<lambda>mounted busy. pcatch (snapshot sha depth (c_path c) device mounted busy ?ws False)
      (\<lambda>e. case e of Refuse s \<Rightarrow> Fail (Refuse (''candidate changed/open/mounted: '' @ path_str (c_path c) @ '': '' @ s)) | _ \<Rightarrow> Fail e)"
  have quiet_snap: "acts quiet (?snap mounted busy)" for mounted busy
    by (intro acts_pcatch quiet_snapshot) (auto split: exn.split)
  have snap: "runs (?snap mounted busy) t (Ret x) \<Longrightarrow> runs (snapshot sha depth (c_path c) device mounted busy ?ws False) t (Ret x)"
    for mounted busy t x by (erule runs_pcatch_Ret) (auto simp: runs_ended split: exn.splits)
  have rem: "?spec (rev tg @ rev ts @ rev tb @ rev tm @ (LstatPath (c_root c), RStat st) # rev tg0 @ h)
      (remove_tree depth budget (c_path c) device busy mounted (snd (fst sn)) ?ws) (\<lambda>_ _. True)"
    if "runs (hk_gate hk) tg0 (Ret ())" "S_ISDIR (st_mode st) \<and> st_dev st = device"
      "runs (hk_mounts hk) tm (Ret mounted)" "runs (hk_opened hk) tb (Ret busy)"
      "runs (?snap mounted busy) ts (Ret sn)" "fst sn = c_proof c" "runs (hk_gate hk) tg (Ret ())"
    for tg0 st tm tb ts tg mounted busy sn
  proof (rule history.spec_conseq [OF spec_self])
    fix tr qa k assume run: "runs (remove_tree depth budget (c_path c) device busy mounted (snd (fst sn)) ?ws) tr (Act qa k)"
    have sn: "runs (snapshot sha depth (c_path c) device mounted busy ?ws False) ts (Ret (c_proof c, snd sn))"
      using snap [OF that(5)] that(6) by (cases sn) simp
    have "guarded sha depth budget hk roots given (rev tr @ rev tg @ rev ts @ rev tb @ rev tm @ (LstatPath (c_root c), RStat st) # rev tg0 @ h) qa"
      unfolding guarded_def
      by (rule exI [of _ c], rule exI [of _ h], rule exI [of _ tg0], rule exI [of _ st], rule exI [of _ tm], rule exI [of _ tb], rule exI [of _ ts], rule exI [of _ tg], rule exI [of _ tr], rule exI [of _ device], rule exI [of _ busy], rule exI [of _ mounted], rule exI [of _ "snd sn"], rule exI [of _ k],
          intro conjI ent that(1) conjunct1 [OF that(2)] conjunct2 [OF that(2)] that(3,4,7) sn run [unfolded that(6)]) simp
    with not_quiet_remove [OF run] show "retain_ok sha depth budget hk roots given True
        (rev tr @ rev tg @ rev ts @ rev tb @ rev tm @ (LstatPath (c_root c), RStat st) # rev tg0 @ h) qa"
      by (cases qa) (simp_all add: retain_ok_def)
  qed simp
  have "?spec h (pbind (hk_gate hk) (\<lambda>_. pbind (call_stat (LstatPath (c_root c))) (\<lambda>current_root.
        pbind (prequire (S_ISDIR (st_mode current_root) \<and> st_dev current_root = device) ''retention root filesystem changed'') (\<lambda>_.
        pbind (hk_mounts hk) (\<lambda>mounted. pbind (hk_opened hk) (\<lambda>busy. pbind (?snap mounted busy) (\<lambda>(current, _).
        pbind (prequire (current = c_proof c) (''candidate changed/open/mounted: '' @ path_str (c_path c))) (\<lambda>_.
        pbind (hk_gate hk) (\<lambda>_. remove_tree depth budget (c_path c) device busy mounted (snd current) ?ws)))))))))
      (\<lambda>_ _. True)"
    unfolding split_beta
    apply (rule spec_then [OF q(1)], rule spec_calls(2), simp add: retain_ok_quiet, rule history.spec_bind_require)
    apply (rule spec_then [OF q(2)], rule spec_then [OF q(3)], rule spec_then [OF quiet_snap], rule history.spec_bind_require, rule spec_then [OF q(1)])
    subgoal premises p for _ tg0 st mounted tm busy tb sn ts _ tg by (rule rem) (use p in simp_all)
    done
  with True show ?thesis by (simp add: delete_def)
qed (simp add: delete_def)

subsection \<open>The UV cache\<close>

lemma spec_owned_uv:
  assumes "retain_ok sha depth budget hk roots given execute ((InitProcess, RBool True) # h) (Popen argv)"
  shows "history.spec (retain_ok sha depth budget hk roots given execute) h (owned_uv argv timeout version) (\<lambda>_ _. True)"
proof -
  let ?ok = "retain_ok sha depth budget hk roots given execute"
  have tail: "acts quiet (pfinally (pcatch (pbind (call_int (WaitChild timeout)) (\<lambda>rc.
          pbind (if version then call_text (ReadChild 257) else Ret []) (\<lambda>out.
          pbind (prequire (length out \<le> 256) ''unsupported UV version output'') (\<lambda>_. Ret (rc, out)))))
         (\<lambda>primary. pbind (attempt (call_unit KillChild)) (\<lambda>_. pbind (attempt (call_int (WaitChild 5))) (\<lambda>_. Fail primary))))
       (if version then call_unit CloseChild else Ret ()))"
    by (auto intro!: acts_intros)
  have start: "history.spec ?ok ((InitProcess, RBool True) # h) (pbind (call_unit (Popen argv)) f) (\<lambda>_ _. True)"
    if "\<And>h'. history.spec ?ok h' (f ()) (\<lambda>_ _. True)" for f :: "unit \<Rightarrow> (int \<times> string) rprog"
    unfolding call_unit_def pbind.simps
    by (rule history.spec_Act) (use assms that in \<open>auto simp: got_def split: rresp.split\<close>)
  show ?thesis unfolding owned_uv_def call_bool_def pbind.simps
  proof (rule history.spec_Act)
    show "?ok h InitProcess" by (simp add: retain_ok_quiet)
  next
    fix r
    show "history.spec ?ok (hist_upd h InitProcess r) (pbind (got (\<lambda>r. case r of RBool v \<Rightarrow> Some v | _ \<Rightarrow> None) r) (\<lambda>init.
       pbind (prequire init ''native UV requires direct Python private PID namespace init'') (\<lambda>_.
       pbind (call_unit (Popen argv)) (\<lambda>_.
       pfinally (pcatch (pbind (call_int (WaitChild timeout)) (\<lambda>rc.
          pbind (if version then call_text (ReadChild 257) else Ret []) (\<lambda>out.
          pbind (prequire (length out \<le> 256) ''unsupported UV version output'') (\<lambda>_. Ret (rc, out)))))
         (\<lambda>primary. pbind (attempt (call_unit KillChild)) (\<lambda>_. pbind (attempt (call_int (WaitChild 5))) (\<lambda>_. Fail primary))))
       (if version then call_unit CloseChild else Ret ()))))) (\<lambda>_ _. True)"
    proof (cases "r = RBool True")
      case True
      show ?thesis unfolding True hist_upd_def [of h] got_def rresp.case option.case pbind.simps prequire_simps
        by (rule start) (rule spec_calm [OF tail])
    next
      case False
      then show ?thesis by (cases r) (simp_all add: got_def)
    qed
  qed
qed

lemma spec_qualify_uv: "history.spec (retain_ok sha' depth budget hk roots given True) h (qualify_uv sha) (\<lambda>_ _. True)"
  unfolding qualify_uv_def
proof (rule spec_past, simp, rule history.spec_bind_require, rule history.spec_bind [OF spec_owned_uv])
  show "retain_ok sha' depth budget hk roots given True ((InitProcess, RBool True) # h) (Popen [path_str UV_BINARY, ''--version''])" for h
    by (simp add: retain_ok_def)
qed (auto intro: spec_calm)

lemma spec_clean_uv:
  assumes hk: "quiet_hooks hk"
  shows "history.spec (retain_ok sha depth budget hk roots given True) h (clean_uv sha depth hk UV_ROOT device mounted busy) (\<lambda>_ _. True)"
proof -
  let ?spec = "history.spec (retain_ok sha depth budget hk roots given True)"
  have q: "acts quiet (hk_gate hk)" "acts quiet (hk_mounts hk)" "acts quiet (hk_opened hk)" using hk by (auto simp: quiet_hooks_def)
  have fin: "?spec (rev tg @ h') (pbind (owned_uv (UV_CLEAN UV_ROOT) 330 False) (\<lambda>(rc, _).
         prequire (rc = 0) (''UV native clean failed exit='' @ show_int rc))) (\<lambda>_ _. True)"
    if "runs (hk_gate hk) tg (Ret ())" for tg h'
  proof (rule history.spec_bind [OF spec_owned_uv])
    have "after_gate hk ((InitProcess, RBool True) # rev tg @ h')" using that unfolding after_gate_def by blast
    then show "retain_ok sha depth budget hk roots given True ((InitProcess, RBool True) # rev tg @ h') (Popen (UV_CLEAN UV_ROOT))"
      by (simp add: retain_ok_def)
  qed (auto intro: spec_calm)
  have "?spec h' (pbind (uv_proof sha depth UV_ROOT device mounted busy) (\<lambda>proof_of.
         pbind (qualify_uv sha) (\<lambda>_. pbind (hk_gate hk) (\<lambda>_. pbind (hk_mounts hk) (\<lambda>mounted'. pbind (hk_opened hk) (\<lambda>busy'.
         pbind (uv_proof sha depth UV_ROOT device mounted' busy') (\<lambda>current.
         pbind (prequire (current = proof_of) ''UV root/fingerprint changed'') (\<lambda>_.
         pbind (hk_gate hk) (\<lambda>_.
         pbind (owned_uv (UV_CLEAN UV_ROOT) 330 False) (\<lambda>(rc, _).
         prequire (rc = 0) (''UV native clean failed exit='' @ show_int rc)))))))))))
       (\<lambda>_ _. True)" for h'
    apply (rule spec_past [OF quiet_uv_proof], rule history.spec_bind [OF spec_qualify_uv])
    apply (rule spec_past [OF q(1)], rule spec_past [OF q(2)], rule spec_past [OF q(3)], rule spec_past [OF quiet_uv_proof])
    apply (rule history.spec_bind_require, rule spec_then [OF q(1)])
    by (rule fin) simp
  note body = this
  show ?thesis unfolding clean_uv_def
  proof (rule spec_past)
    fix r :: "fstat res" and h'
    show "?spec h' (case r of Inl e \<Rightarrow> if e = PyError ''FileNotFoundError'' then Ret () else Fail e
       | Inr _ \<Rightarrow> pbind (uv_proof sha depth UV_ROOT device mounted busy) (\<lambda>proof_of.
         pbind (qualify_uv sha) (\<lambda>_. pbind (hk_gate hk) (\<lambda>_. pbind (hk_mounts hk) (\<lambda>mounted'. pbind (hk_opened hk) (\<lambda>busy'.
         pbind (uv_proof sha depth UV_ROOT device mounted' busy') (\<lambda>current.
         pbind (prequire (current = proof_of) ''UV root/fingerprint changed'') (\<lambda>_.
         pbind (hk_gate hk) (\<lambda>_.
         pbind (owned_uv (UV_CLEAN UV_ROOT) 330 False) (\<lambda>(rc, _).
         prequire (rc = 0) (''UV native clean failed exit='' @ show_int rc)))))))))))
       (\<lambda>_ _. True)"
    proof (cases r)
      case (Inr st)
      show ?thesis unfolding Inr sum.case by (rule body)
    qed simp
  qed (simp add: acts_attempt)
qed

subsection \<open>retain and main\<close>

lemma quiet_inspect: "acts quiet (inspect sha depth mounted busy p st name)"
  unfolding inspect_def by (auto intro!: acts_intros quiet_snapshot split: exn.split)

lemma quiet_scan_path: "acts quiet (scan_path sha depth mounted busy rt name cs)"
  unfolding scan_path_def by (auto intro!: acts_intros quiet_inspect split: prod.split option.split)

lemma quiet_scan_root: "acts quiet (scan_root sha depth mounted busy rt cs)"
  unfolding scan_root_def by (auto intro!: acts_intros quiet_scan_path)

lemma known_time_suffix: "known_time given h t \<Longrightarrow> suffix h h' \<Longrightarrow> known_time given h' t"
  by (auto simp: known_time_def suffix_def)

lemma pressed_suffix: "pressed hk first h \<Longrightarrow> suffix h h' \<Longrightarrow> pressed hk first h'"
  unfolding pressed_def by (meson suffix_order.trans)

lemma scanned_suffix: "scanned sha depth roots c h \<Longrightarrow> suffix h h' \<Longrightarrow> scanned sha depth roots c h'"
  unfolding scanned_def by (meson suffix_order.trans)

lemma inspect_snapshot:
  assumes "runs (inspect sha depth mounted busy p st name) t (Ret (Some found))"
  shows "name \<notin> set STORE_NAMES \<and> (\<exists>t1 ts. t = t1 @ ts
     \<and> runs (snapshot sha depth (p @ [name]) (st_dev st) mounted busy (p = WORKSPACE_ROOT) False) ts (Ret found))"
proof -
  let ?body = "pbind (prequire (name \<notin> set STORE_NAMES) (''image/runtime store name: '' @ path_str (p @ [name]))) (\<lambda>_.
        pbind (snapshot sha depth (p @ [name]) (st_dev st) mounted busy (p = WORKSPACE_ROOT) False) (\<lambda>proof_of. Ret (Some proof_of)))"
  have "runs (pbind (call_stat (LstatPath (p @ [name]))) (\<lambda>own.
        pbind (prequire (S_ISDIR (st_mode own)) (''candidate is not an ordinary directory: '' @ path_str (p @ [name]))) (\<lambda>_. ?body))) t (Ret (Some found))"
    using assms unfolding inspect_def by (rule runs_pcatch_Ret) (auto simp: runs_ended split: exn.splits)
  from runs_pbind_Ret [OF this] obtain t1 t2 own where "t = t1 @ t2" "runs (call_stat (LstatPath (p @ [name]))) t1 (Ret own)" "runs (pbind (prequire (S_ISDIR (st_mode own))
      (''candidate is not an ordinary directory: '' @ path_str (p @ [name]))) (\<lambda>_. ?body)) t2 (Ret (Some found))"
    by (elim exE conjE) (rule that)
  then have "t = t1 @ t2" "name \<notin> set STORE_NAMES" "runs (pbind (snapshot sha depth (p @ [name]) (st_dev st) mounted busy (p = WORKSPACE_ROOT) False)
      (\<lambda>proof_of. Ret (Some proof_of))) t2 (Ret (Some found))"
    by (simp_all add: prequire_def require_def runs_ended split: if_splits)
  then have "t = t1 @ t2" "name \<notin> set STORE_NAMES"
    "runs (snapshot sha depth (p @ [name]) (st_dev st) mounted busy (p = WORKSPACE_ROOT) False) t2 (Ret found)"
    by (auto simp: runs_ended dest!: runs_pbind_Ret)
  then show ?thesis by blast
qed

lemma spec_scan_path:
  assumes "fst rt \<in> set roots" and "\<forall>c \<in> set cs. scanned sha depth roots c h"
  shows "history.spec (retain_ok sha depth budget hk roots given execute) h (scan_path sha depth mounted busy rt name cs)
    (\<lambda>cs' h'. \<forall>c \<in> set cs'. scanned sha depth roots c h')"
proof -
  obtain p days st where rt: "rt = ((p, days), st)" by (metis prod.exhaust)
  let ?new = "\<lambda>found. \<lparr>c_root = p, c_days = days, c_path = p @ [name], c_proof = fst found, c_latest = snd found\<rparr>"
  have old: "scanned sha depth roots c (rev t @ h)" if "c \<in> set cs" for c t
    using assms(2) that by (blast intro: scanned_suffix suffixI)
  have new: "scanned sha depth roots (?new found) (rev t @ h)"
    if run: "runs (inspect sha depth mounted busy p st name) t (Ret (Some found))" and free: "p @ [name] \<noteq> UV_ROOT"
      "\<not> (p = butlast UV_ROOT \<and> name \<in> set KEPT_NAMES)" for t found
  proof -
    obtain t1 ts where t: "t = t1 @ ts" "name \<notin> set STORE_NAMES"
      "runs (snapshot sha depth (p @ [name]) (st_dev st) mounted busy (p = WORKSPACE_ROOT) False) ts (Ret (fst found, snd found))"
      using inspect_snapshot [OF run] by auto
    moreover have "suffix (rev ts @ rev t1 @ h) (rev t @ h)" by (simp add: t(1))
    ultimately show ?thesis using free assms(1) rt unfolding scanned_def by fastforce
  qed
  show ?thesis unfolding scan_path_def rt prod.case
    by (intro history.spec_if spec_then [OF quiet_inspect])
       (use assms(2) old new in \<open>auto split: option.split\<close>)
qed

lemma spec_scan_root:
  assumes "fst rt \<in> set roots" and "\<forall>c \<in> set cs. scanned sha depth roots c h"
  shows "history.spec (retain_ok sha depth budget hk roots given execute) h (scan_root sha depth mounted busy rt cs)
    (\<lambda>cs' h'. \<forall>c \<in> set cs'. scanned sha depth roots c h')"
  unfolding scan_root_def
proof (rule spec_then)
  fix names t
  show "history.spec (retain_ok sha depth budget hk roots given execute) (rev t @ h)
      (pfold (scan_path sha depth mounted busy rt) (sort names) cs) (\<lambda>cs' h'. \<forall>c \<in> set cs'. scanned sha depth roots c h')"
    by (rule history.spec_fold_inv [OF spec_scan_path [OF assms(1)]]) (use assms(2) in \<open>blast intro: scanned_suffix suffixI\<close>)+
qed simp

lemma spec_delete_expired:
  assumes hk: "quiet_hooks hk" and t: "known_time given h t" and cs: "\<forall>c \<in> set cs. scanned sha depth roots c h"
  shows "history.spec (retain_ok sha depth budget hk roots given execute) h
     (delete_expired sha depth budget hk execute device t cs) (\<lambda>cs' h'. set cs' \<subseteq> set cs)"
  unfolding delete_expired_def
proof (rule history.spec_fold_inv)
  fix c remaining h' assume c: "c \<in> set cs" "suffix h h'" and r: "set remaining \<subseteq> set cs"
  have "entitled sha depth given hk roots c h'" if "expired t c"
    using that known_time_suffix [OF t c(2)] scanned_suffix [OF _ c(2)] cs c(1) by (auto simp: entitled_def)
  with c r show "history.spec (retain_ok sha depth budget hk roots given execute) h'
      (if expired t c then pbind (delete sha depth budget hk execute device c) (\<lambda>_. Ret remaining) else Ret (remaining @ [c]))
      (\<lambda>cs' h'. set cs' \<subseteq> set cs)"
    by (auto intro: history.spec_bind [OF spec_delete [OF hk]])
qed simp

lemma spec_delete_pressed:
  assumes hk: "quiet_hooks hk" and p: "pressure \<Longrightarrow> pressed hk (fst (hd roots)) h" and cs: "\<forall>c \<in> set cs. scanned sha depth roots c h"
  shows "history.spec (retain_ok sha depth budget hk roots given execute) h
     (delete_pressed sha depth budget hk execute device pressure cs) (\<lambda>_ _. True)"
proof -
  have q: "acts quiet (hk_used hk p)" for p using hk by (auto simp: quiet_hooks_def)
  have one: "history.spec (retain_ok sha depth budget hk roots given execute) h'
      (if \<not> pressure then Ret () else pbind (hk_used hk (c_root c)) (\<lambda>u. if u > 65 then delete sha depth budget hk execute device c else Ret ()))
      (\<lambda>_ _. True)" if "suffix h h'" "c \<in> set cs" for h' c
  proof (cases pressure)
    case True
    have "history.spec (retain_ok sha depth budget hk roots given execute) h'
        (pbind (hk_used hk (c_root c)) (\<lambda>u. if u > 65 then delete sha depth budget hk execute device c else Ret ())) (\<lambda>_ _. True)"
    proof (rule spec_then [OF q], rule history.spec_if)
      fix u tu assume u: "runs (hk_used hk (c_root c)) tu (Ret u)" "65 < u"
      have "scanned sha depth roots c (rev tu @ h')" using cs that by (blast intro: scanned_suffix suffixI)
      with u pressed_suffix [OF p [OF True] that(1)] have "entitled sha depth given hk roots c (rev tu @ h')" by (auto simp: entitled_def)
      then show "history.spec (retain_ok sha depth budget hk roots given execute) (rev tu @ h') (delete sha depth budget hk execute device c) (\<lambda>_ _. True)"
        by (rule spec_delete [OF hk])
    qed simp
    with True show ?thesis by simp
  qed simp
  show ?thesis unfolding delete_pressed_def by (rule history.spec_for) (rule one)
qed

lemma spec_relieve:
  assumes hk: "quiet_hooks hk" and cs: "\<forall>c \<in> set remaining. scanned sha depth roots c h"
  shows "history.spec (retain_ok sha depth budget hk roots given execute) h
     (relieve sha depth budget hk execute device mounted busy rts (fst (hd roots)) remaining) (\<lambda>_ _. True)"
proof -
  let ?first = "fst (hd roots)"
  have q: "acts quiet (hk_used hk p)" "acts quiet (hk_available hk p)" for p using hk by (auto simp: quiet_hooks_def)
  have kept: "acts quiet (pfor uv_parent_kept rts)" unfolding uv_parent_kept_def
    by (auto intro!: acts_intros split: prod.split)
  have uv: "history.spec (retain_ok sha depth budget hk roots given execute) h' (if execute \<and> pressure \<and> final > 65
            then pbind (pfor uv_parent_kept rts) (\<lambda>_. pbind (clean_uv sha depth hk UV_ROOT device mounted busy) (\<lambda>_. hk_used hk ?first))
            else Ret final) (\<lambda>_ _. True)" for h' pressure final
    by (cases execute; simp; intro impI spec_past [OF kept]) (rule history.spec_bind [OF spec_clean_uv [OF hk]], rule spec_calm [OF q(1)])
  have p: "pressed hk ?first (rev tu @ h)" if "runs (hk_used hk ?first) tu (Ret u)" "67 \<le> u" for tu u
    using that unfolding pressed_def by blast
  have c: "\<forall>c \<in> set remaining. scanned sha depth roots c (rev tu @ h)" for tu
    using cs by (blast intro: scanned_suffix suffixI)
  show ?thesis unfolding relieve_def Let_def
    by (rule spec_then [OF q(1)], rule history.spec_bind [OF spec_delete_pressed [OF hk _ c]], erule p, assumption, rule spec_past [OF q(1)],
        rule history.spec_bind [OF uv]) (auto intro!: spec_calm acts_intros q)
qed

lemma retain_spec:
  assumes hk: "quiet_hooks hk"
  shows "history.spec (retain_ok sha depth budget hk roots given execute) h (retain sha depth budget hk roots execute given) (\<lambda>_ _. True)"
proof -
  let ?spec = "history.spec (retain_ok sha depth budget hk roots given execute)"
  have q: "acts quiet (hk_mounts hk)" "acts quiet (hk_opened hk)" using hk by (auto simp: quiet_hooks_def)
  have s: "acts quiet (pmap (\<lambda>r. call_stat (LstatPath (fst r))) roots)" by (intro acts_pmap) simp
  have d: "acts quiet (pfor root_directory xs)" for xs by (intro acts_pfor) (simp add: root_directory_def)
  have r: "?spec h' (pfold (scan_root sha depth mounted busy) (zip roots stats) []) (\<lambda>cs h'. \<forall>c \<in> set cs. scanned sha depth roots c h')"
    for mounted busy stats h'
    by (rule history.spec_fold_inv [OF spec_scan_root]) (auto dest: set_zip_leftD)
  have time: "?spec h (case given of None \<Rightarrow> call_time Clock | Some t \<Rightarrow> Ret t) (\<lambda>t h'. known_time given h' t)"
  proof (cases given)
    case None
    then show ?thesis
      by (auto simp: call_time_def known_time_def got_def hist_upd_def retain_ok_quiet intro!: history.spec_Act split: rresp.split)
  qed (simp add: known_time_def)
  have body: "?spec h' (pbind (pmap (\<lambda>r. call_stat (LstatPath (fst r))) roots) (\<lambda>stats.
     pbind (pfor root_directory (zip roots stats)) (\<lambda>_.
     pbind (prequire (length (remdups (map st_dev stats)) = 1) ''retention roots must share the same filesystem'') (\<lambda>_.
     pbind (hk_mounts hk) (\<lambda>mounted. pbind (hk_opened hk) (\<lambda>busy.
     pbind (pfold (scan_root sha depth mounted busy) (zip roots stats) []) (\<lambda>candidates.
     pbind (delete_expired sha depth budget hk execute (st_dev (hd stats)) t (sort_key (order_key roots) candidates)) (\<lambda>remaining.
     relieve sha depth budget hk execute (st_dev (hd stats)) mounted busy (zip roots stats) (fst (hd roots)) remaining)))))))) (\<lambda>_ _. True)"
    if "known_time given h' t" for h' t
    apply (rule spec_then [OF s], rule spec_then [OF d], rule history.spec_bind_require, rule spec_then [OF q(1)],
        rule spec_then [OF q(2)], rule history.spec_bind [OF r], rule history.spec_bind [OF spec_delete_expired [OF hk]])
      apply (rule known_time_suffix [OF that], (drule suffix_appendD)+, assumption)
     apply simp
    subgoal premises p by (rule spec_relieve [OF hk], intro ballI, rule scanned_suffix [OF _ p(8)]) (use p in \<open>simp add: subset_iff\<close>)
    done
  show ?thesis unfolding retain_def Let_def by (rule history.spec_bind [OF time]) (rule body)
qed

lemma quiet_worker_hooks: "quiet_hooks (worker_hooks st env me claimed)"
proof -
  have "acts quiet host_mounts" unfolding host_mounts_def by (intro acts_pbind quiet_mount_ids) simp
  then show ?thesis unfolding quiet_hooks_def worker_hooks_def
    by (auto intro!: acts_intros quiet_usage quiet_open_ids simp: worker_gate_def)
qed

text \<open>The part of a trace that is exchanged with the Kubernetes API.\<close>

definition kube_part :: "(ract \<times> rresp) list \<Rightarrow> (kact \<times> kresp) list" where
  "kube_part t = concat (map (\<lambda>(q, r). case q of Kube k \<Rightarrow> [(k, kube_resp r)] | _ \<Rightarrow> []) t)"

lemma kube_part_append [simp]: "kube_part (t @ t') = kube_part t @ kube_part t'"
  by (simp add: kube_part_def)

lemma runs_kube: "runs (kube p) t (Ret x) \<Longrightarrow> runs p (kube_part t) (Ret x)"
proof -
  assume "runs (kube p) t (Ret x)"
  then obtain t0 p0 where t0: "t = map (\<lambda>(q, s, r). (Kube q, s)) t0" "list_all (\<lambda>(q, s, r). r = kube_resp s) t0"
    "runs p (map (\<lambda>(q, s, r). (q, r)) t0) p0" "Ret x = embed Kube kube_resp p0"
    unfolding kube_def using runs_embed [of Kube kube_resp p t "Ret x"] by blast
  have "p0 = Ret x" using t0(4) by (cases p0) auto
  moreover have "kube_part t = map (\<lambda>(q, s, r). (q, r)) t0"
    unfolding t0(1) using t0(2) by (induction t0) (auto simp: kube_part_def)
  ultimately show ?thesis using t0(3) by simp
qed

text \<open>A gate that was passed has seen the claim of this worker, then an acceptable Pod list.\<close>

definition gate_evidence :: "store \<Rightarrow> (string \<Rightarrow> string option) \<Rightarrow> ident \<Rightarrow> string \<times> string \<Rightarrow> (kact \<times> kresp) list \<Rightarrow> bool" where
  "gate_evidence st env me claimed t \<longleftrightarrow> (\<exists>t1 t2 t3 uid payload. t = t1 @ t2 @ t3
     \<and> claim_seen st (ghost (kupd (st_base st)) {} t1) (fst claimed) me (snd claimed)
     \<and> env ''POD_UID'' = Some uid \<and> runs (gate_snapshot (st_base st) env uid) t3 (Ret payload) \<and> pod_gate payload uid = Inr True)"

lemma worker_gate_evidence:
  assumes "runs (worker_gate st env me claimed) t (Ret ())"
  shows "gate_evidence st env me claimed (kube_part t)"
proof -
  obtain t1 t2 where t: "t = t1 @ t2" "runs (kube (fence_check st (fst claimed) me (snd claimed))) t1 (Ret ())"
    "runs (kube (api_gate (st_base st) env)) t2 (Ret ())"
    using runs_pbind_Ret [OF assms [unfolded worker_gate_def]] by (metis (full_types) old.unit.exhaust)
  have c: "claim_seen st (ghost (kupd (st_base st)) {} (kube_part t1)) (fst claimed) me (snd claimed)"
    using contract.spec_returns [OF spec_fence_check_seen runs_kube [OF t(2)]] .
  from api_gate_Ret [OF runs_kube [OF t(3)]] obtain uid t3 t4 payload where w: "env ''POD_UID'' = Some uid" "kube_part t2 = t3 @ t4"
    "runs (gate_snapshot (st_base st) env uid) t4 (Ret payload)" "pod_gate payload uid = Inr True" by blast
  show ?thesis unfolding gate_evidence_def
    by (intro exI [of _ "kube_part t1"] exI [of _ t3] exI [of _ t4] exI [of _ uid] exI [of _ payload] conjI c w) (simp add: t(1) w(2))
qed

end
