(* ===== verification/Retention_Properties.thy ===== *)
theory Retention_Properties
  imports Retention_Spec
begin

section \<open>Properties of the retention policy\<close>

text \<open>
  The main results on \<^verbatim>\<open>cache-retention.py\<close>: when it deletes, what it deletes, what its gate and
  its scans of the process file system guarantee.
\<close>

subsection \<open>When it deletes\<close>

definition removal :: "ract \<Rightarrow> bool" where
  "removal q = (case q of Unlink _ _ \<Rightarrow> True | Rmdir _ _ \<Rightarrow> True | _ \<Rightarrow> False)"

text \<open>
  The situation in which an entry may be removed, given everything that happened before in the
  run: the tree is that of a candidate that the scan found and that is entitled to go (\<^const>\<open>entitled\<close>),
  the last gate was passed with the evidence of \<^const>\<open>gate_evidence\<close>, before it a second snapshot of
  the tree was taken with fresh scans for mounted and open entries and gave the fingerprint of the first one,
  and what followed the gate is a run of \<^const>\<open>remove_tree\<close> with the results of these scans.
\<close>

definition removal_situation :: "(string \<Rightarrow> string) \<Rightarrow> nat \<Rightarrow> nat \<Rightarrow> store \<Rightarrow> (string \<Rightarrow> string option)
    \<Rightarrow> (ract \<times> rresp) list \<Rightarrow> ract \<Rightarrow> bool" where
  "removal_situation sha depth budget st env t q \<longleftrightarrow>
     (\<exists>me claimed c before first_gate tm tb ts tg tr device busy mounted latest k.
        t = before @ first_gate @ tm @ tb @ ts @ tg @ tr
        \<and> entitled sha depth None (worker_hooks st env me claimed) ROOTS c (rev before)
        \<and> runs host_mounts tm (Ret mounted) \<and> runs (open_ids HOST_PROC) tb (Ret busy)
        \<and> runs (snapshot sha depth (c_path c) device mounted busy (c_root c = WORKSPACE_ROOT) False) ts (Ret (c_proof c, latest))
        \<and> runs (worker_gate st env me claimed) tg (Ret ()) \<and> gate_evidence st env me claimed (kube_part tg)
        \<and> runs (remove_tree depth budget (c_path c) device busy mounted (snd (c_proof c)) (c_root c = WORKSPACE_ROOT)) tr (Act q k))"

definition removal_authorised :: "(string \<Rightarrow> string) \<Rightarrow> nat \<Rightarrow> nat \<Rightarrow> store \<Rightarrow> (string \<Rightarrow> string option) \<Rightarrow> string list
    \<Rightarrow> (ract \<times> rresp) list \<Rightarrow> ract \<Rightarrow> bool" where
  "removal_authorised sha depth budget st env argv t q =
     (if removal q then argv = [''--execute''] \<and> removal_situation sha depth budget st env t q else True)"

lemma guarded_situation:
  assumes "guarded sha depth budget (worker_hooks st env me claimed) ROOTS None (rev t) q"
  shows "removal_situation sha depth budget st env t q"
proof -
  obtain c h0 tg0 sr tm tb ts tg tr device busy mounted latest k where
    "rev t = rev tr @ rev tg @ rev ts @ rev tb @ rev tm @ [(LstatPath (c_root c), RStat sr)] @ rev tg0 @ h0"
    and e: "entitled sha depth None (worker_hooks st env me claimed) ROOTS c h0"
    and r: "runs host_mounts tm (Ret mounted)" "runs (open_ids HOST_PROC) tb (Ret busy)"
     "runs (snapshot sha depth (c_path c) device mounted busy (c_root c = WORKSPACE_ROOT) False) ts (Ret (c_proof c, latest))"
     "runs (worker_gate st env me claimed) tg (Ret ())"
     "runs (remove_tree depth budget (c_path c) device busy mounted (snd (c_proof c)) (c_root c = WORKSPACE_ROOT)) tr (Act q k)"
    using assms unfolding guarded_def
    by (elim exE conjE) (simp only: worker_hooks_def hooks.simps; blast)
  then have "rev (rev t) = rev (rev tr @ rev tg @ rev ts @ rev tb @ rev tm @ [(LstatPath (c_root c), RStat sr)] @ rev tg0 @ h0)" by simp
  then have t: "t = rev h0 @ (tg0 @ [(LstatPath (c_root c), RStat sr)]) @ tm @ tb @ ts @ tg @ tr" by simp
  have "entitled sha depth None (worker_hooks st env me claimed) ROOTS c (rev (rev h0))" using e by simp
  with r worker_gate_evidence [OF r(4)] t show ?thesis unfolding removal_situation_def by blast
qed

lemma spec_main:
  "history.spec (\<lambda>h q. if quiet q then True else \<exists>me claimed. retain_ok sha depth budget (worker_hooks st env me claimed) ROOTS None (argv = [''--execute'']) h q)
     h (retention_main sha depth budget fuel st env argv) (\<lambda>_ _. True)"
  (is "history.spec ?ok _ _ _")
proof -
  have calm: "acts quiet p \<Longrightarrow> history.spec ?ok h' p (\<lambda>_ _. True)" for p :: "'x rprog" and h'
    by (erule spec_quiet) simp
  have ret: "history.spec ?ok h' (retain sha depth budget (worker_hooks st env me claimed) ROOTS (argv = [''--execute'']) None) (\<lambda>_ _. True)"
    for h' me claimed
    using retain_spec [OF quiet_worker_hooks, of sha depth budget st env me claimed ROOTS None "argv = [''--execute'']" h']
    by (rule spec_weaken) (simp del: split_paired_Ex, blast)
  have g: "acts quiet (worker_gate st env me claimed)" for me claimed
    using quiet_worker_hooks [of st env me claimed] by (simp add: quiet_hooks_def worker_hooks_def)
  show ?thesis unfolding retention_main_def
    by (rule history.spec_bind_require, rule history.spec_bind [OF calm], simp, rule history.spec_bind [OF calm], simp,
        rule history.spec_bind [OF calm [OF g]], rule ret)
qed

text \<open>
  (C15) Deletion under the fence. In every run of the retention job, whatever the API server, the
  file system and other processes do, an entry is unlinked or a directory removed only with
  \<^verbatim>\<open>--execute\<close>, and only in the tree of a candidate of the scan: a child of one of the two roots, not one of the reserved
  names, whose latest file, by the snapshot the scan took of it, is older than the limit of its root (7 or 30 days) at a time read from the clock,
  or, with the file system at 67% or more earlier, directly before which the file system was above 65%. The entry is removed
  only inside a run of \<^verbatim>\<open>remove_tree\<close> that begins right after a passed
  gate, with the mounted and open entries of fresh scans, and after a second snapshot, taken
  since the previous gate, gave the fingerprint of the first one. Passing the gate means that the state was read with the phase
  \<open>CLAIMED\<close>, claimed by this worker for this operation, and that afterwards a complete Pod list
  without other active CI Pods on this node was seen.
\<close>

theorem retention_deletes_under_fence:
  "always (removal_authorised sha depth budget st env argv) (retention_main sha depth budget fuel st env argv)"
proof (rule spec_always [OF spec_main])
  fix t q
  assume ok: "if quiet q then True
    else \<exists>me claimed. retain_ok sha depth budget (worker_hooks st env me claimed) ROOTS None (argv = [''--execute'']) (rev t) q"
  show "removal_authorised sha depth budget st env argv t q"
  proof (cases "removal q")
    case True
    then have "\<not> quiet q" by (cases q) (auto simp: removal_def quiet_def)
    with ok obtain me claimed where "retain_ok sha depth budget (worker_hooks st env me claimed) ROOTS None (argv = [''--execute'']) (rev t) q" by auto
    with True have "argv = [''--execute'']" "guarded sha depth budget (worker_hooks st env me claimed) ROOTS None (rev t) q"
      by (cases q; simp add: retain_ok_def removal_def)+
    with True guarded_situation show ?thesis by (simp add: removal_authorised_def)
  qed (simp add: removal_authorised_def)
qed

definition ex_env :: "string \<Rightarrow> string option" where
  "ex_env = map_of [(''POD_NAMESPACE'', ''ci-maintenance-worker''), (''POD_NAME'', ''retention''), (''POD_UID'', ''uid-w''),
     (''NODE_NAME'', ''hestia'')]"

text \<open>
  A dry run changes nothing: without \<^verbatim>\<open>--execute\<close> no run of the retention job removes an
  entry or starts a process.
\<close>

theorem dry_run_changes_nothing:
  assumes "argv \<noteq> [''--execute'']" and "runs (retention_main sha depth budget fuel st env argv) (t @ (q, r) # t') p'"
  shows "\<not> removal q \<and> (\<forall>command. q \<noteq> Popen command)"
proof -
  have "quiet q \<or> (\<exists>me claimed. retain_ok sha depth budget (worker_hooks st env me claimed) ROOTS None (argv = [''--execute'']) (rev t) q)"
    using history.spec_trace [OF spec_main [of sha depth budget st env argv "[]" fuel] assms(2)] unfolding ghost_hist by (simp split: if_splits)
  with assms(1) show ?thesis by (cases q) (auto simp: quiet_def retain_ok_def removal_def)
qed

theorem dry_run_changes_nothing_witness:
  "\<not> removal (Kube (Http ''https://k'' ''GET'' (pods_path WORKER_NAMESPACE) None))"
proof -
  let ?st = "\<lparr>st_base = ''https://k'', st_policy = ''p'', st_sha = id\<rparr>"
  have "\<exists>p'. runs (retention_main id 9 9 9 ?st ex_env []) ([] @ (Kube (Http ''https://k'' ''GET'' (pods_path WORKER_NAMESPACE) None), RUnit) # []) p'"
    by (simp add: retention_main_def self_identity_def ex_env_def WORKER_NAMESPACE_def pods_def pods_path_def request_def GITLAB_def kube_def)
  then show ?thesis using dry_run_changes_nothing [of "[]"] by blast
qed

definition uv_clean_authorised :: "store \<Rightarrow> (string \<Rightarrow> string option) \<Rightarrow> (ract \<times> rresp) list \<Rightarrow> ract \<Rightarrow> bool" where
  "uv_clean_authorised st env t q = (case q of
     Popen command \<Rightarrow> command = [path_str UV_BINARY, ''--version'']
       \<or> command = UV_CLEAN UV_ROOT
         \<and> (\<exists>before tg me claimed. t = before @ tg @ [(InitProcess, RBool True)] \<and> gate_evidence st env me claimed (kube_part tg))
   | _ \<Rightarrow> True)"

text \<open>
  The only processes the retention job starts are the version query of UV and its cache
  clean-up of the fixed cache directory; the clean-up starts directly after a passed gate, with only the
  check that the process is PID 1 of its namespace in between.
\<close>

theorem uv_clean_under_fence:
  "always (uv_clean_authorised st env) (retention_main sha depth budget fuel st env argv)"
proof (rule spec_always [OF spec_main])
  fix t q
  assume ok: "if quiet q then True
    else \<exists>me claimed. retain_ok sha depth budget (worker_hooks st env me claimed) ROOTS None (argv = [''--execute'']) (rev t) q"
  show "uv_clean_authorised st env t q"
  proof (cases "\<exists>command. q = Popen command")
    case True
    then obtain command where q: "q = Popen command" by blast
    with ok obtain me claimed where r: "command = [path_str UV_BINARY, ''--version''] \<or> command = UV_CLEAN UV_ROOT \<and> after_gate (worker_hooks st env me claimed) (rev t)"
      by (auto simp: quiet_def retain_ok_def)
    have "\<exists>before tg. t = before @ tg @ [(InitProcess, RBool True)] \<and> gate_evidence st env me claimed (kube_part tg)"
      if "after_gate (worker_hooks st env me claimed) (rev t)"
    proof -
      obtain tg h0 where "rev t = (InitProcess, RBool True) # rev tg @ h0" "runs (worker_gate st env me claimed) tg (Ret ())"
        using \<open>after_gate (worker_hooks st env me claimed) (rev t)\<close> unfolding after_gate_def worker_hooks_def hooks.simps by blast
      then have "t = rev h0 @ tg @ [(InitProcess, RBool True)]" by (metis append.assoc rev.simps(2) rev_append rev_rev_ident)
      with worker_gate_evidence [OF \<open>runs (worker_gate st env me claimed) tg (Ret ())\<close>] show ?thesis by blast
    qed
    with r show ?thesis unfolding uv_clean_authorised_def q ract.case by blast
  qed (cases q; simp add: uv_clean_authorised_def)
qed

subsection \<open>What it deletes\<close>

lemma held_rev: "held sc pt (rev h) fd = held sc pt h fd"
proof -
  have "held sc pt h fd \<Longrightarrow> set h = set h' \<Longrightarrow> held sc pt h' fd" for h h' fd
  proof (induction rule: held.induct)
    case (Below fd name st nested fd' st')
    then show ?case by (intro held.Below [of sc pt h' fd name st nested fd' st']) simp_all
  qed (auto intro: held.Top)
  then show ?thesis by (metis set_rev)
qed

lemma check_in_Inr:
  "check_in sc nested st = Inr u \<longleftrightarrow> inode_of st \<notin> set (sc_busy sc) \<union> set (sc_mounted sc) \<and> st_dev st = sc_device sc
     \<and> (S_ISDIR (st_mode st) \<or> S_ISREG (st_mode st) \<or> sc_links sc \<and> nested \<and> S_ISLNK (st_mode st))"
  by (auto simp: check_in_def check_entry_def)

lemma remove_tree_trace:
  assumes "runs (remove_tree depth budget p device busy mounted expected workspace) (t @ (q, r) # t') p'"
  shows "walk_ok \<lparr>sc_device = device, sc_mounted = mounted, sc_busy = busy, sc_links = workspace\<rparr> (butlast p) True (rev t) q"
  using history.spec_trace [OF walk_remove_tree [of device mounted busy workspace p "[]"] assms] by (simp add: ghost_hist)

text \<open>
  (C16) What is unlinked. \<^verbatim>\<open>remove_tree\<close> unlinks a name only directly after a look at it that
  agrees, in identity, mode, owner, size and both times, with an earlier look in the same run; the
  entry is on the device, is neither open nor a mount point, and is a regular file, or a symbolic
  link where links are allowed. The descriptor is held: the opened parent, or a chain of checked
  directories below it, opened one name at a time and without following links.
\<close>

theorem unlink_only_checked_leaf:
  assumes "runs (remove_tree depth budget p device busy mounted expected workspace) (t @ (Unlink fd name, r) # t') p'"
  shows "\<exists>before first again. t = before @ [(StatAt fd name, RStat again)] \<and> (StatAt fd name, RStat first) \<in> set before
    \<and> same_file again first \<and> inode_of again \<notin> set busy \<union> set mounted \<and> st_dev again = device
    \<and> (S_ISREG (st_mode again) \<or> workspace \<and> S_ISLNK (st_mode again))
    \<and> held \<lparr>sc_device = device, sc_mounted = mounted, sc_busy = busy, sc_links = workspace\<rparr> (butlast p) t fd"
proof -
  obtain st current nested h where w: "rev t = (StatAt fd name, RStat current) # h" "(StatAt fd name, RStat st) \<in> set h"
    "same_file current st" "check_in \<lparr>sc_device = device, sc_mounted = mounted, sc_busy = busy, sc_links = workspace\<rparr> nested st = Inr ()"
    "\<not> S_ISDIR (st_mode st)" "held \<lparr>sc_device = device, sc_mounted = mounted, sc_busy = busy, sc_links = workspace\<rparr> (butlast p) t fd"
    using remove_tree_trace [OF assms] by (auto simp: walk_ok_def looked_def held_rev)
  have t: "t = rev h @ [(StatAt fd name, RStat current)]" using w(1) by (metis rev.simps(2) rev_rev_ident)
  have s: "inode_of current = inode_of st" "st_mode current = st_mode st" "st_dev current = st_dev st"
    using w(3) by (auto simp: same_file_def inode_of_def)
  from w(4,5) s have c: "inode_of current \<notin> set busy \<union> set mounted \<and> st_dev current = device
      \<and> (S_ISREG (st_mode current) \<or> workspace \<and> S_ISLNK (st_mode current))" by (auto simp: check_in_Inr)
  from t w(2,3,6) c show ?thesis by (intro exI [of _ "rev h"] exI [of _ st] exI [of _ current]) auto
qed

text \<open>A directory with one file, and what a walk over it sees.\<close>

definition ex_file :: fstat where
  "ex_file = \<lparr>st_dev = 1, st_ino = 11, st_mode = 33188, st_uid = 0, st_gid = 0, st_size = 5, st_mtime_ns = 1000, st_ctime_ns = 1000,
     st_mtime = 1, st_ctime = 1\<rparr>"

definition ex_dir :: fstat where
  "ex_dir = \<lparr>st_dev = 1, st_ino = 10, st_mode = 16877, st_uid = 0, st_gid = 0, st_size = 5, st_mtime_ns = 1000, st_ctime_ns = 1000,
     st_mtime = 1, st_ctime = 1\<rparr>"

lemma ex_modes [simp]: "S_ISDIR 16877" "\<not> S_ISDIR 33188" "S_ISREG 33188"
  by (simp_all add: S_ISDIR_def S_ISREG_def S_IFMT_def)

definition ex_walk :: "(ract \<times> rresp) list" where
  "ex_walk = [(OpenPath [''a''], RFd 3), (StatAt 3 ''d'', RStat ex_dir), (OpenAt 3 ''d'', RFd 4), (Fstat 4, RStat ex_dir),
     (Scandir 4, RFd 5), (NextEntry 5, RName (Some ''f'')), (StatAt 4 ''f'', RStat ex_file), (StatAt 4 ''f'', RStat ex_file)]"

definition ex_walk_end :: "(ract \<times> rresp) list" where
  "ex_walk_end = [(NextEntry 5, RName None), (CloseDir 5, RUnit), (CloseFd 4, RUnit), (StatAt 3 ''d'', RStat ex_dir)]"

lemmas ex_walk_defs = ex_walk_def ex_walk_end_def remove_tree_def call_defs got_def scan_def check_in_def check_entry_def
  inode_of_def ex_dir_def ex_file_def same_file_def numeral_2_eq_2 numeral_3_eq_3

lemma ex_remove_runs:
  "\<exists>p'. runs (remove_tree 2 3 [''a'', ''d''] 1 [] [] (Some (1, 10)) False) (ex_walk @ (Unlink 4 ''f'', RUnit) # []) p'"
  by (simp add: ex_walk_defs)

theorem unlink_only_checked_leaf_witness:
  "held \<lparr>sc_device = 1, sc_mounted = [], sc_busy = [], sc_links = False\<rparr> [''a''] ex_walk 4"
  using ex_remove_runs unlink_only_checked_leaf [of 2 3 "[''a'', ''d'']" 1 "[]" "[]" "Some (1, 10)" False ex_walk 4 "''f''" RUnit "[]"]
  by auto

text \<open>
  What is removed as a directory: \<^verbatim>\<open>remove_tree\<close> removes a directory only directly after
  a look that shows a directory on the device, neither open nor a mount point, with the identity
  of an earlier look in the same run.
\<close>

theorem rmdir_only_checked_directory:
  assumes "runs (remove_tree depth budget p device busy mounted expected workspace) (t @ (Rmdir fd name, r) # t') p'"
  shows "\<exists>before first again. t = before @ [(StatAt fd name, RStat again)] \<and> (StatAt fd name, RStat first) \<in> set before
    \<and> inode_of again = inode_of first \<and> inode_of again \<notin> set busy \<union> set mounted \<and> st_dev again = device \<and> S_ISDIR (st_mode again)
    \<and> held \<lparr>sc_device = device, sc_mounted = mounted, sc_busy = busy, sc_links = workspace\<rparr> (butlast p) t fd"
proof -
  obtain st current h where w: "rev t = (StatAt fd name, RStat current) # h" "(StatAt fd name, RStat st) \<in> set h"
    "inode_of current = inode_of st" "check_in \<lparr>sc_device = device, sc_mounted = mounted, sc_busy = busy, sc_links = workspace\<rparr> False current = Inr ()"
    "S_ISDIR (st_mode current)" "held \<lparr>sc_device = device, sc_mounted = mounted, sc_busy = busy, sc_links = workspace\<rparr> (butlast p) t fd"
    using remove_tree_trace [OF assms] by (auto simp: walk_ok_def looked_def held_rev)
  have t: "t = rev h @ [(StatAt fd name, RStat current)]" using w(1) by (metis rev.simps(2) rev_rev_ident)
  from t w show ?thesis by (intro exI [of _ "rev h"] exI [of _ st] exI [of _ current]) (auto simp: check_in_Inr)
qed

lemma ex_remove_dir_runs:
  "\<exists>p'. runs (remove_tree 2 3 [''a'', ''d''] 1 [] [] (Some (1, 10)) False)
     ((ex_walk @ (Unlink 4 ''f'', RUnit) # ex_walk_end) @ (Rmdir 3 ''d'', RUnit) # []) p'"
  by (simp add: ex_walk_defs)

theorem rmdir_only_checked_directory_witness:
  "held \<lparr>sc_device = 1, sc_mounted = [], sc_busy = [], sc_links = False\<rparr> [''a''] (ex_walk @ (Unlink 4 ''f'', RUnit) # ex_walk_end) 3"
  using ex_remove_dir_runs rmdir_only_checked_directory [of 2 3 "[''a'', ''d'']" 1 "[]" "[]" "Some (1, 10)" False
    "ex_walk @ (Unlink 4 ''f'', RUnit) # ex_walk_end" 3 "''d''" RUnit "[]"]
  by auto

subsection \<open>The gate\<close>

text \<open>
  (C17) What an accepted Pod list means: no UID occurs twice; the own Pod is in it, labelled,
  running on \<^verbatim>\<open>hestia\<close> and not being deleted; and every other Pod is harmless, that is, not a
  CI Pod, or finished, or active on one of the two known remote nodes, and not being deleted.
\<close>

theorem pod_gate_excludes_ci:
  assumes "pod_gate payload self_uid = Inr True"
  shows "distinct (map pod_uid (items_of payload))
     \<and> (\<exists>p. p \<in> set (items_of payload) \<and> own_pod self_uid p \<and> pod_phase p = ''Running'')
     \<and> list_all (\<lambda>p. pod_uid p = self_uid \<or> harmless p) (items_of payload)"
  using pod_gate_Inr [OF assms] by (auto simp: list_all_iff)

definition ex_own_pod :: jval where
  "ex_own_pod = JDict [(''metadata'', JDict [(''uid'', JStr ''u''), (''name'', JStr ''n''),
       (''labels'', JDict [(''ci.brmartin.co.uk/job'', JStr ''true''), (''ci.brmartin.co.uk/maintenance'', JStr ''true'')])]),
     (''spec'', JDict [(''nodeName'', JStr ''hestia'')]), (''status'', JDict [(''phase'', JStr ''Running'')])]"

lemma ex_pod_gate: "pod_gate (JDict [(''metadata'', JDict []), (''items'', JList [ex_own_pod])]) ''u'' = Inr True"
  by (simp add: pod_gate_def gate_pod_def gate_decide_def ex_own_pod_def items_of_def as_dict_def pmeta_def pspec_def pstatus_def
      dsub_def str_of_def JOB_LABEL_def MAINTENANCE_LABEL_def active_phase_def)

theorem pod_gate_excludes_ci_witness:
  "\<exists>p. p \<in> set [ex_own_pod] \<and> own_pod ''u'' p"
  using pod_gate_excludes_ci [OF ex_pod_gate] by (auto simp: items_of_def as_dict_def)

text \<open>
  The gate is bounded and only reads: no run of \<^verbatim>\<open>api_gate\<close> has more than 45 actions (15
  attempts of two requests and one pause), and all of them are GET requests to the API server or
  pauses.
\<close>

theorem gate_bounded_and_reads:
  "at_most (api_gate base env) 45
     \<and> acts (\<lambda>q. case q of Http b verb path body \<Rightarrow> b = base \<and> verb = ''GET'' \<and> body = None | Sleep n \<Rightarrow> True | Now \<Rightarrow> False)
         (api_gate base env)"
proof
  have "at_most (wait_attempts 15 (gate_snapshot base env uid) uid) 45" for uid
    using at_most_wait [of 15 base env uid] by simp
  then show "at_most (api_gate base env) 45"
    unfolding api_gate_def wait_for_gate_def by (simp del: wait_attempts.simps split: option.split)
qed (rule api_gate_quiet)

subsection \<open>The scans\<close>

text \<open>
  (C18) A scan for mounts is complete when it returns. For the scanning process and every process
  listed in the process file system there is evidence in the run: either its mount namespace
  is gone (never for the scanning process), or the namespace was identified, the mount table of a
  process in it was read and not empty, every record of the table was well formed, and every record
  on the device had its mountpoint found on the device and put into the result.
\<close>

theorem mount_scan_complete:
  assumes "runs (mount_ids device proc) t (Ret result)"
  shows "\<exists>names. (Iterdir proc, RNames names) \<in> set t
    \<and> list_all (owner_accounted device proc (set t) result) (''self'' # filter isdecimal names)"
  using mount_ids_accounted [OF assms] by (auto simp: list_all_iff)

text \<open>
  The same for open files: when the scan returns, every listed process either had no
  descriptor directory any more, or its working directory and every descriptor in the listing
  were resolved into the result or were gone. A denied access is never taken for absence.
\<close>

theorem open_scan_complete:
  assumes "runs (open_ids proc) t (Ret result)"
  shows "\<exists>names. (Iterdir proc, RNames names) \<in> set t \<and> list_all (process_accounted proc (set t) result) (filter isdecimal names)"
  using open_ids_accounted [OF assms] by (auto simp: list_all_iff)

definition ex_open_trace :: "(ract \<times> rresp) list" where
  "ex_open_trace = [(Iterdir [''proc''], RNames [''7'', ''x'']), (Iterdir [''proc'', ''7'', ''fd''], RNames [''0'']),
     (StatPath [''proc'', ''7'', ''cwd''], RStat ex_dir), (StatPath [''proc'', ''7'', ''fd'', ''0''], RRaised (PyError ''FileNotFoundError''))]"

lemma ex_open_runs: "runs (open_ids [''proc'']) ex_open_trace (Ret [(1, 10)])"
  by (simp add: ex_open_trace_def open_ids_def isdecimal_def is_digit_def attempt_def call_defs got_def vanished_def inode_of_def ex_dir_def)

theorem open_scan_complete_witness: "process_accounted [''proc''] (set ex_open_trace) [(1, 10)] ''7''"
proof -
  from open_scan_complete [OF ex_open_runs] obtain names where
    "(Iterdir [''proc''], RNames names) \<in> set ex_open_trace" "list_all (process_accounted [''proc''] (set ex_open_trace) [(1, 10)]) (filter isdecimal names)"
    by blast
  then show ?thesis by (auto simp: ex_open_trace_def isdecimal_def is_digit_def list_all_iff)
qed

definition ex_mountinfo :: string where
  "ex_mountinfo = ''36 35 98:0 / /mnt rw master:1 - ext3 /dev/root rw''"

definition ex_mount :: fstat where
  "ex_mount = ex_dir\<lparr>st_dev := 25088\<rparr>"

definition ex_mount_trace :: "(ract \<times> rresp) list" where
  "ex_mount_trace = [(Iterdir [''proc''], RNames [''x'']), (StatPath [''proc'', ''self'', ''ns'', ''mnt''], RStat ex_dir),
     (ReadText [''proc'', ''self'', ''mountinfo''], RText ex_mountinfo), (StatPath [''proc'', ''self'', ''root'', ''mnt''], RStat ex_mount)]"

lemma ex_record: "mount_record 25088 [] ex_mountinfo = Inr (''36'', Some ''/mnt'')"
proof -
  have f: "split_fields ex_mountinfo = [''36'', ''35'', ''98:0'', ''/'', ''/mnt'', ''rw'', ''master:1'', ''-'', ''ext3'', ''/dev/root'', ''rw'']"
    by (simp add: split_fields_def ex_mountinfo_def blank_def)
  have n: "read_nat ''98'' = 98" "read_nat ''0'' = 0" by (simp_all add: read_nat_def digit_val_def)
  have "unat (makedev_word 98 0) = 25088" by (simp add: makedev_word_def)
  then have d: "checked_device 98 0 = Inr 25088" by (simp add: checked_device_eq)
  have e: "decode_mountpoint ''/mnt'' = ''/mnt''"
    using decode_mount_encode [of "''/mnt''"] by (simp add: encode_mountpoint_def encode_char_def escapes_def backslash_def)
  have r: "record_form [] (split_fields ex_mountinfo)" unfolding f
    by (simp add: record_form_def positive_decimal_def decimal_def is_digit_def)
  have dev: "device_form ''98:0''" "record_device ''98:0'' = Inr 25088"
    by (simp_all add: device_form_def record_device_def decimal_def positive_decimal_def is_digit_def n d)
  have p: "mount_path_ok ''/''" "mount_path_ok ''/mnt''"
    by (simp_all add: mount_path_ok_def backslash_def)
  show ?thesis unfolding mount_record_def Let_def using r dev p e by (simp add: f)
qed

lemma ex_mount_runs: "runs (mount_ids 25088 [''proc'']) ex_mount_trace (Ret [(25088, 10)])"
proof -
  have l: "splitlines ex_mountinfo = [ex_mountinfo]" by (simp add: splitlines_def ex_mountinfo_def line_break_def)
  show ?thesis
    by (simp add: ex_mount_trace_def mount_ids_def mount_owner_def namespace_path_def below_root_def isdecimal_def is_digit_def attempt_def
        call_defs got_def l ex_record inode_of_def ex_mount_def ex_dir_def)
qed

theorem mount_scan_complete_witness: "owner_accounted 25088 [''proc''] (set ex_mount_trace) [(25088, 10)] ''self''"
  using mount_scan_complete [OF ex_mount_runs] by auto

text \<open>
  (C19) Mountpoints are decoded right: the four replacements, applied one after the other, invert the
  kernel's escaping of spaces, tabs, newlines and backslashes for every path, also where decoded
  and literal backslashes meet digits.
\<close>

theorem mountpoint_decoding_inverts: "decode_mountpoint (encode_mountpoint p) = p"
  by (rule decode_mount_encode)

text \<open>
  (C20) Device numbers: the check that a device number survives packing into 64 bits and unpacking refuses
  nothing that fits the arguments of \<^verbatim>\<open>makedev\<close>; every other pair of numbers is refused as an
  invalid record.
\<close>

theorem device_numbers_exact:
  "checked_device major minor =
     (if major < 2 ^ 31 \<and> minor < 2 ^ 31 then Inr (unat (makedev_word (of_nat major) (of_nat minor)))
      else Inl (Refuse ''invalid mountinfo device''))"
  by (rule checked_device_eq)

end
