(* ===== verification/Nas_Export.thy ===== *)
theory Nas_Export
  imports Prog Py_Text "HOL-Library.Product_Lexorder"
begin

section \<open>The backup export to the NAS\<close>

text \<open>
  \<^verbatim>\<open>apps/gitlab-helm/files/nas-export.py\<close>: it runs the native backup, checks the archive of
  that run, copies it to the NAS, publishes it by a rename and only then prunes old exports. The
  file system, the native tool, the clock, the tar and gzip readers are actions with unconstrained
  responses. \<^verbatim>\<open>require\<close> raises \<^verbatim>\<open>ValueError\<close> here. A digest is one action, and so is
  reading a stream to its end; the iteration over the members of an archive has a budget, and every
  statement below holds for all budgets. The three paths from the environment are
  arguments. A path is the list of its components.
\<close>

subsection \<open>Actions\<close>

record nstat =
  n_mode :: int
  n_uid :: int
  n_gid :: int
  n_size :: int
  n_mtime_ns :: int

record member =
  m_name :: string
  m_size :: int
  m_file :: bool
  m_dir :: bool

datatype nact =
    Lstat "string list" | Stat "string list" | Exists "string list" | IsSymlink "string list" | IsDir "string list"
  | IsFile "string list" | Mkdir "string list" | Digest "string list" | OpenSync "string list" | Fsync int | Close int
  | Native "string list" | LogWrite string | LogSync | LogRead | TimeNs | Iterdir "string list" | ReadText "string list"
  | WriteText "string list" string | Copyfile "string list" "string list" | Mkdtemp "string list" string string
  | Rename "string list" "string list" | Unlink "string list" | Rmdir "string list" | Rmtree "string list"
  | Umask int | Ids | OpenLock "string list" | Flock int | TempLog "string list" | CloseLog
  | TarTail "string list" | TarNext | Extract | ReadStream | InnerNext | Consume

datatype nresp =
    RStat nstat | RBool bool | RText string | RUnit | RInt int | RNames "string list" | RMember "member option" | RRaised exn

type_synonym 'a nprog = "(nact, nresp, 'a) prog"

definition ask :: "(nresp \<Rightarrow> 'a option) \<Rightarrow> nact \<Rightarrow> 'a nprog" where
  "ask f q = Act q (\<lambda>r. case f r of Some x \<Rightarrow> Ret x
     | None \<Rightarrow> (case r of RRaised e \<Rightarrow> Fail e | _ \<Rightarrow> Fail (PyError ''TypeError'')))"

definition ask_stat :: "nact \<Rightarrow> nstat nprog" where
  "ask_stat = ask (\<lambda>r. case r of RStat s \<Rightarrow> Some s | _ \<Rightarrow> None)"

definition ask_bool :: "nact \<Rightarrow> bool nprog" where
  "ask_bool = ask (\<lambda>r. case r of RBool b \<Rightarrow> Some b | _ \<Rightarrow> None)"

definition ask_text :: "nact \<Rightarrow> string nprog" where
  "ask_text = ask (\<lambda>r. case r of RText s \<Rightarrow> Some s | _ \<Rightarrow> None)"

definition ask_unit :: "nact \<Rightarrow> unit nprog" where
  "ask_unit = ask (\<lambda>r. case r of RUnit \<Rightarrow> Some () | _ \<Rightarrow> None)"

definition ask_int :: "nact \<Rightarrow> int nprog" where
  "ask_int = ask (\<lambda>r. case r of RInt i \<Rightarrow> Some i | _ \<Rightarrow> None)"

definition ask_names :: "nact \<Rightarrow> string list nprog" where
  "ask_names = ask (\<lambda>r. case r of RNames ns \<Rightarrow> Some ns | _ \<Rightarrow> None)"

definition ask_member :: "nact \<Rightarrow> member option nprog" where
  "ask_member = ask (\<lambda>r. case r of RMember x \<Rightarrow> Some x | _ \<Rightarrow> None)"

lemmas ask_defs = ask_stat_def ask_bool_def ask_text_def ask_unit_def ask_int_def ask_names_def ask_member_def ask_def

definition nrequire :: "bool \<Rightarrow> string \<Rightarrow> unit nprog" where
  "nrequire ok reason = (if ok then Ret () else Fail (PyError (''ValueError: '' @ reason)))"

subsection \<open>Names\<close>

text \<open>
  The pattern \<^verbatim>\<open>(\d{10})_\d{4}_\d{2}_\d{2}_(\d+\.\d+\.\d+)_gitlab_backup\.tar\<close>; the result is the pair of
  its groups.
\<close>

definition BACKUP_SUFFIX :: string where
  "BACKUP_SUFFIX = ''_gitlab_backup.tar''"

definition triple_ok :: "(string \<Rightarrow> bool) \<Rightarrow> string \<Rightarrow> bool" where
  "triple_ok p s = (case split_on (CHR ''.'') s of [a, b, c] \<Rightarrow> p a \<and> p b \<and> p c | _ \<Rightarrow> False)"

definition backup_stamp :: "string \<Rightarrow> bool" where
  "backup_stamp s = (length s = 22 \<and> list_all (\<lambda>i. is_digit (s ! i)) ([0..<10] @ [11..<15] @ [16, 17, 19, 20])
     \<and> s ! 10 = CHR ''_'' \<and> s ! 15 = CHR ''_'' \<and> s ! 18 = CHR ''_'' \<and> s ! 21 = CHR ''_'')"

definition NAME :: "string \<Rightarrow> (string \<times> string) option" where
  "NAME s =
     (let rest = drop 22 s; version = take (length rest - length BACKUP_SUFFIX) rest in
      if backup_stamp (take 22 s) \<and> suffix BACKUP_SUFFIX rest \<and> triple_ok isdecimal version
      then Some (take 10 s, version) else None)"

definition BLOBS :: "string list" where
  "BLOBS = [''registry'', ''uploads'', ''artifacts'', ''lfs'', ''packages'']"

definition DISABLED :: string where
  "DISABLED = ''external_diffs,terraform_state,pages,ci_secure_files,agent_plan_content,ci_catalog_bundles''"

subsection \<open>Helpers\<close>

definition private_entry :: "string list \<Rightarrow> bool \<Rightarrow> unit nprog" where
  "private_entry p directory =
     pbind (ask_stat (Lstat p)) (\<lambda>st.
     nrequire ((if directory then n_mode st div 4096 mod 16 = 4 else n_mode st div 4096 mod 16 = 8)
         \<and> n_uid st = 1000 \<and> n_gid st = 1000 \<and> n_mode st mod 4096 = (if directory then 448 else 384))
       ''unsafe owned namespace permissions/type'')"

text \<open>\<^verbatim>\<open>not path.exists() and not path.is_symlink()\<close>.\<close>

definition absent :: "string list \<Rightarrow> bool nprog" where
  "absent p = pbind (ask_bool (Exists p)) (\<lambda>e. if e then Ret False
     else pbind (ask_bool (IsSymlink p)) (\<lambda>l. Ret (\<not> l)))"

definition namespace :: "string list \<Rightarrow> string list nprog" where
  "namespace p =
     pbind (absent p) (\<lambda>missing.
     pbind (if missing then ask_unit (Mkdir p) else Ret ()) (\<lambda>_.
     pbind (private_entry p True) (\<lambda>_.
     Ret p)))"

definition sync :: "string list \<Rightarrow> unit nprog" where
  "sync p = pbind (ask_int (OpenSync p)) (\<lambda>fd. pfinally (ask_unit (Fsync fd)) (ask_unit (Close fd)))"

definition native :: "string list \<Rightarrow> unit nprog" where
  "native args =
     pbind (ask_int (Native (''backup-utility'' # args))) (\<lambda>rc.
     pbind (ask_unit (LogWrite ([CHR 0x0A] @ ''Producer exit status: '' @ show_int rc @ [CHR 0x0A]))) (\<lambda>_.
     pbind (ask_unit LogSync) (\<lambda>_.
     nrequire (rc = 0) ''native backup/cleanup failed'')))"

subsection \<open>produce\<close>

text \<open>\<^verbatim>\<open>re.sub(r'\x1b\[[0-9;]*m', '', s)\<close>; the first argument bounds the recursion by the length.\<close>

fun strip_ansi :: "nat \<Rightarrow> string \<Rightarrow> string" where
  "strip_ansi 0 s = s"
| "strip_ansi (Suc n) [] = []"
| "strip_ansi (Suc n) (c # cs) =
     (let tail = dropWhile (\<lambda>x. is_digit x \<or> x = CHR '';'') (drop 1 cs) in
      if c = CHR 0x1B \<and> cs \<noteq> [] \<and> hd cs = CHR ''['' \<and> tail \<noteq> [] \<and> hd tail = CHR ''m''
      then strip_ansi n (tl tail) else c # strip_ansi n cs)"

text \<open>A line \<^verbatim>\<open>Dumping NAME ...\<close>.\<close>

definition dumping :: "string \<Rightarrow> string option" where
  "dumping line =
     (let name = take (length line - 12) (drop 8 line) in
      if prefix ''Dumping '' line \<and> suffix '' ...'' line \<and> 12 < length line \<and> list_all word_char name then Some name else None)"

fun outcomes :: "string list \<Rightarrow> (string \<times> string) list" where
  "outcomes (l1 # l2 # ls) =
     (case dumping l1 of
        Some name \<Rightarrow> if l2 = ''empty'' \<or> l2 = ''done'' then (name, l2) # outcomes ls else outcomes (l2 # ls)
      | None \<Rightarrow> outcomes (l2 # ls))"
| "outcomes ls = []"

definition DONE_PREFIX :: string where
  "DONE_PREFIX = ''[DONE] Backup can be found at s3://gitlab-backups/''"

definition published :: "string list \<Rightarrow> string list" where
  "published lines = map (drop (length DONE_PREFIX))
     (filter (\<lambda>l. prefix DONE_PREFIX l \<and> length DONE_PREFIX < length l \<and> list_all (\<lambda>c. \<not> blank c) (drop (length DONE_PREFIX) l)) lines)"

text \<open>What the text of the native log says: the empty components and the published name.\<close>

definition log_result :: "string \<Rightarrow> (string list \<times> string) res" where
  "log_result text_read =
     (let out = strip_ansi (length text_read) text_read; lines = split_on (CHR 0x0A) out;
          os = outcomes lines; ps = published lines;
          bad = (\<lambda>reason. PyError (''ValueError: '' @ reason)) in
      if occurs ''Unable to check existence of bucket '' out then Inl (bad ''native silent bucket-check failure'')
      else if length os \<noteq> length BLOBS \<or> set (map fst os) \<noteq> set BLOBS
      then Inl (bad ''native enabled component output changed/incomplete'')
      else if length ps \<noteq> 1 then Inl (bad ''native publication output changed/incomplete'')
      else Inr (map fst (filter (\<lambda>x. snd x = ''empty'') os), hd ps))"

definition accept_archive :: "string list \<Rightarrow> string \<Rightarrow> int \<Rightarrow> string \<Rightarrow> (string list \<times> string list) nprog" where
  "accept_archive work version started out =
     pbind (liftr (log_result out)) (\<lambda>(vacant, name).
     pbind
       (case NAME name of
          Some (stamp, v) \<Rightarrow>
            if v = version \<and> started div 10 ^ 9 \<le> int (read_nat stamp)
            then pbind (ask_int TimeNs) (\<lambda>t. Ret (int (read_nat stamp) \<le> t div 10 ^ 9)) else Ret False
        | None \<Rightarrow> Ret False) (\<lambda>own.
     pbind (nrequire own ''archive does not belong to this native invocation'') (\<lambda>_.
     (let p = work @ [''backup_tars'', name] in
     pbind (ask_bool (IsFile p)) (\<lambda>file.
     pbind (if file then ask_bool (IsSymlink p) else Ret True) (\<lambda>link.
     pbind (if file \<and> \<not> link then pbind (ask_stat (Stat p)) (\<lambda>st. Ret (started \<le> n_mtime_ns st)) else Ret False) (\<lambda>fresh.
     pbind (nrequire fresh ''missing/fresh native local archive required'') (\<lambda>_.
     Ret (p, vacant)))))))))"

definition produce :: "string list \<Rightarrow> string \<Rightarrow> (string list \<times> string list) nprog" where
  "produce work version =
     pbind (ask_int TimeNs) (\<lambda>started.
     pbind (native [''--skip'', DISABLED, ''--skip-cleanup'']) (\<lambda>_.
     pbind (ask_text LogRead) (\<lambda>out.
     accept_archive work version started out)))"

subsection \<open>inspect\_archive\<close>

definition rstrip_slash :: "string \<Rightarrow> string" where
  "rstrip_slash s = rev (dropWhile (\<lambda>c. c = CHR ''/'') (rev s))"

definition safe_member :: "member \<Rightarrow> string res" where
  "safe_member x =
     (let name = m_name x in
      if \<not> prefix ''/'' name \<and> ''..'' \<notin> set (parts name) \<and> CHR 0x5C \<notin> set name
         \<and> list_all (\<lambda>c. 32 \<le> (of_char c :: nat)) name \<and> (m_file x \<or> m_dir x)
      then Inr (rstrip_slash (removeprefix ''./'' name)) else Inl (PyError ''ValueError: unsafe tar member''))"

definition METADATA :: string where
  "METADATA = ''backup_information.yml''"

definition DATABASE :: string where
  "DATABASE = ''db/database.sql.gz''"

definition component :: "string \<Rightarrow> bool" where
  "component key = (CHR ''/'' \<notin> set key \<and> suffix ''.tar.gz'' key)"

record archive_state =
  ar_seen :: "string list"
  ar_files :: "string list"
  ar_metadata :: "string option"

fun inner_members :: "nat \<Rightarrow> unit nprog" where
  "inner_members 0 = OutOfFuel"
| "inner_members (Suc n) =
     pbind (ask_member InnerNext) (\<lambda>x.
     case x of
       None \<Rightarrow> Ret ()
     | Some item \<Rightarrow>
         pbind (liftr (safe_member item)) (\<lambda>_.
         pbind (if m_file item then pbind (ask_int Consume) (\<lambda>_. Ret ()) else Ret ()) (\<lambda>_.
         inner_members n)))"

definition read_member :: "nat \<Rightarrow> member \<Rightarrow> string \<Rightarrow> archive_state \<Rightarrow> archive_state nprog" where
  "read_member budget x key s =
     pbind (ask_bool Extract) (\<lambda>readable.
     pbind (nrequire readable ''unreadable regular member'') (\<lambda>_.
     if key = METADATA then
       pbind (nrequire (m_size x \<le> 16384) ''oversized metadata'') (\<lambda>_.
       pbind (ask_text ReadStream) (\<lambda>text_read. Ret (s\<lparr>ar_metadata := Some text_read\<rparr>)))
     else if component key then
       pbind (inner_members budget) (\<lambda>_. pbind (ask_int Consume) (\<lambda>_. Ret s))
     else if prefix ''db/'' key \<and> suffix ''.sql.gz'' key then
       pbind (ask_int Consume) (\<lambda>n. pbind (nrequire (0 < n) ''empty database payload'') (\<lambda>_. Ret s))
     else pbind (ask_int Consume) (\<lambda>_. Ret s)))"

definition archive_member :: "nat \<Rightarrow> member \<Rightarrow> archive_state \<Rightarrow> archive_state nprog" where
  "archive_member budget x s =
     pbind (liftr (safe_member x)) (\<lambda>key.
     pbind (nrequire (key \<notin> set (ar_seen s)) ''duplicate tar member'') (\<lambda>_.
     (let s' = s\<lparr>ar_seen := key # ar_seen s\<rparr> in
     pbind (nrequire (\<not> (component key \<or> key = DATABASE \<or> key = METADATA) \<or> m_file x \<and> 0 < m_size x)
              ''native payload must be a nonempty regular file'') (\<lambda>_.
     if \<not> m_file x then Ret s'
     else read_member budget x key (s'\<lparr>ar_files := key # ar_files s'\<rparr>)))))"

fun archive_members :: "nat \<Rightarrow> nat \<Rightarrow> archive_state \<Rightarrow> archive_state nprog" where
  "archive_members 0 budget s = OutOfFuel"
| "archive_members (Suc n) budget s =
     pbind (ask_member TarNext) (\<lambda>x.
     case x of None \<Rightarrow> Ret s | Some item \<Rightarrow> pbind (archive_member budget item s) (archive_members n budget))"

definition inspect_archive :: "nat \<Rightarrow> string list \<Rightarrow> string list \<Rightarrow> string nprog" where
  "inspect_archive budget p vacant =
     pbind (ask_stat (Stat p)) (\<lambda>st.
     pbind (if 1024 \<le> n_size st then pbind (ask_stat (Stat p)) (\<lambda>st'. Ret (n_size st' mod 512 = 0)) else Ret False) (\<lambda>whole.
     pbind (nrequire whole ''truncated tar'') (\<lambda>_.
     pbind (ask_text (TarTail p)) (\<lambda>tail.
     pbind (nrequire (tail = replicate 1024 (CHR 0x00)) ''missing native tar end blocks'') (\<lambda>_.
     pbind (archive_members budget budget \<lparr>ar_seen = [], ar_files = [], ar_metadata = None\<rparr>) (\<lambda>s.
     case ar_metadata s of
       None \<Rightarrow> Fail (PyError ''ValueError: missing native metadata/main DB'')
     | Some metadata \<Rightarrow>
         pbind (nrequire (DATABASE \<in> set (ar_files s)) ''missing native metadata/main DB'') (\<lambda>_.
         pbind (nrequire (list_all (\<lambda>b. b \<in> set vacant \<or> b @ ''.tar.gz'' \<in> set (ar_files s)) BLOBS)
                  ''missing enabled nonempty component'') (\<lambda>_.
         Ret metadata))))))))"

subsection \<open>Completed exports\<close>

text \<open>
  \<^verbatim>\<open>completed\<close> and \<^verbatim>\<open>completed_db_archives\<close> share the checks on one owned directory: exact contents,
  private files, and a checksum file that names the digest of the archive.
\<close>

definition exact_contents :: "string list \<Rightarrow> string list \<Rightarrow> string \<Rightarrow> unit nprog" where
  "exact_contents p expected reason =
     pbind (private_entry p True) (\<lambda>_.
     pbind (ask_names (Iterdir p)) (\<lambda>names.
     pbind (nrequire (set names = set expected) reason) (\<lambda>_.
     pbind (ask_names (Iterdir p)) (\<lambda>names.
     pfor (\<lambda>file. private_entry (p @ [file]) False) names))))"

definition checksum_line :: "string \<Rightarrow> string \<Rightarrow> string" where
  "checksum_line d name = d @ ''  '' @ name @ [CHR 0x0A]"

definition readback :: "string list \<Rightarrow> string \<Rightarrow> string \<Rightarrow> bool nprog" where
  "readback p sumfile name =
     pbind (ask_text (ReadText (p @ [sumfile]))) (\<lambda>line. pbind (ask_text (Digest (p @ [name]))) (\<lambda>d.
     Ret (line = checksum_line d name)))"

definition completed_entry :: "string list \<Rightarrow> string \<Rightarrow> (int \<times> string list) list \<Rightarrow> (int \<times> string list) list nprog" where
  "completed_entry directory entry found =
     (let p = directory @ [entry]; name = entry @ BACKUP_SUFFIX in
      case NAME name of
        None \<Rightarrow> Ret found
      | Some (stamp, _) \<Rightarrow>
          pbind (ask_bool (IsDir p)) (\<lambda>dir.
          pbind (if dir then ask_bool (IsSymlink p) else Ret True) (\<lambda>link.
          if \<not> dir \<or> link then Ret found
          else
            pbind (exact_contents p [name, ''archive.sha256'', METADATA] ''unexpected completed export contents'') (\<lambda>_.
            pbind (readback p ''archive.sha256'' name) (\<lambda>good.
            pbind (nrequire good ''retained export readback failed'') (\<lambda>_.
            Ret (found @ [(int (read_nat stamp), p)])))))))"

definition completed :: "string list \<Rightarrow> (int \<times> string list) list nprog" where
  "completed directory =
     pbind (ask_names (Iterdir directory)) (\<lambda>entries.
     pbind (pfold (completed_entry directory) entries []) (\<lambda>found. Ret (sort found)))"

text \<open>\<^verbatim>\<open>strptime\<close> with the format \<^verbatim>\<open>observed_at=%Y-%m-%dT%H:%M:%SZ\<close>; letters match in both cases.\<close>

definition cut :: "string \<Rightarrow> string \<Rightarrow> string \<times> string" where
  "cut seps s = (takeWhile (\<lambda>c. c \<notin> set seps) s, dropWhile (\<lambda>c. c \<notin> set seps) s)"

definition field_in :: "nat \<Rightarrow> nat \<Rightarrow> string \<Rightarrow> bool" where
  "field_in lo hi s = (isdecimal s \<and> length s \<le> 2 \<and> lo \<le> read_nat s \<and> read_nat s \<le> hi)"

definition day_field :: "string \<Rightarrow> string" where
  "day_field s = (if length s = 2 \<and> hd s = CHR '' '' then tl s else s)"

definition observed_time :: "string \<Rightarrow> (int \<times> int \<times> int \<times> int \<times> int \<times> int) res" where
  "observed_time s =
     (let b = drop 12 s; y = take 4 b;
          (mo, r1) = cut ''-'' (drop 5 b); (d, r2) = cut ''Tt'' (drop 1 r1); (h, r3) = cut '':'' (drop 1 r2);
          (mi, r4) = cut '':'' (drop 1 r3); (sec, r5) = cut ''Zz'' (drop 1 r4); n = (\<lambda>x. int (read_nat x)) in
      if length y = 4 \<and> isdecimal y \<and> prefix ''-'' (drop 4 b) \<and> r1 \<noteq> [] \<and> r2 \<noteq> [] \<and> r3 \<noteq> [] \<and> r4 \<noteq> [] \<and> length r5 = 1
         \<and> field_in 1 12 mo \<and> field_in 1 31 (day_field d) \<and> field_in 0 23 h \<and> field_in 0 59 mi \<and> field_in 0 59 sec
         \<and> 1 \<le> read_nat y \<and> n (day_field d) \<le> days_in_month (n y) (n mo)
      then Inr (n y, n mo, n (day_field d), n h, n mi, n sec) else Inl (PyError ''ValueError''))"

definition alphanumeric :: "char \<Rightarrow> bool" where
  "alphanumeric c = (let n = (of_char c :: nat) in is_digit c \<or> 65 \<le> n \<and> n \<le> 90 \<or> 97 \<le> n \<and> n \<le> 122)"

definition admission_name :: "string \<Rightarrow> bool" where
  "admission_name s = (prefix ''admission.'' s \<and> length s = 22 \<and> list_all alphanumeric (drop 10 s))"

type_synonym observed = "int \<times> int \<times> int \<times> int \<times> int \<times> int"

definition positive_size :: "string list \<Rightarrow> bool nprog" where
  "positive_size p = pbind (ask_stat (Stat p)) (\<lambda>st. Ret (0 < n_size st))"

definition admission_entry :: "string list \<Rightarrow> string \<Rightarrow> (observed \<times> string list) list \<Rightarrow> (observed \<times> string list) list nprog" where
  "admission_entry directory entry found =
     (let p = directory @ [entry] in
      if \<not> admission_name entry then Ret found
      else
        pbind (exact_contents p [''database.dump'', ''database.sha256'', ''archive.list'', ''admission.txt'']
          ''unknown completed admission contents'') (\<lambda>_.
        pbind (readback p ''database.sha256'' ''database.dump'') (\<lambda>good.
        pbind (if good then positive_size (p @ [''database.dump'']) else Ret False) (\<lambda>good.
        pbind (if good then positive_size (p @ [''archive.list'']) else Ret False) (\<lambda>good.
        pbind (nrequire good ''retained admission readback failed'') (\<lambda>_.
        pbind (ask_text (ReadText (p @ [''admission.txt'']))) (\<lambda>text_read.
        (let lines = splitlines text_read in
        pbind (nrequire (length lines = 6 \<and> prefix ''observed_at='' (lines ! 4)) ''unknown admission metadata'') (\<lambda>_.
        pbind (liftr (observed_time (lines ! 4))) (\<lambda>t.
        Ret (found @ [(t, p)])))))))))))"

definition completed_db_archives :: "string list \<Rightarrow> (observed \<times> string list) list nprog" where
  "completed_db_archives recovery =
     (let directory = recovery @ [''db-archives''] in
      pbind (absent directory) (\<lambda>missing.
      if missing then Ret []
      else
        pbind (private_entry directory True) (\<lambda>_.
        pbind (ask_names (Iterdir directory)) (\<lambda>entries.
        pbind (pfold (admission_entry directory) entries []) (\<lambda>found. Ret (sort found))))))"

subsection \<open>Pruning\<close>

text \<open>\<^verbatim>\<open>completions[:-keep]\<close> for a positive number.\<close>

definition pruned :: "'a list \<Rightarrow> nat \<Rightarrow> 'a list" where
  "pruned completions keep = take (length completions - keep) completions"

definition remove_export :: "string list \<Rightarrow> unit nprog" where
  "remove_export old =
     pbind (ask_names (Iterdir old)) (\<lambda>names.
     pbind (pfor (\<lambda>name. ask_unit (Unlink (old @ [name]))) names) (\<lambda>_.
     ask_unit (Rmdir old)))"

definition prune_owned :: "('t \<times> string list) list \<Rightarrow> nat \<Rightarrow> unit nprog" where
  "prune_owned completions keep = pfor (\<lambda>c. remove_export (snd c)) (pruned completions keep)"

subsection \<open>main\<close>

definition stable_version :: "string \<Rightarrow> bool" where
  "stable_version v = triple_ok decimal v"

text \<open>The part of \<^verbatim>\<open>main\<close> after the stage directory exists, up to and including the published readback.\<close>

definition publish :: "string list \<Rightarrow> string list \<Rightarrow> string list \<Rightarrow> string list \<Rightarrow> string \<Rightarrow> string \<Rightarrow> string \<Rightarrow> unit nprog" where
  "publish exports stage target source name checksum metadata =
     (let archive = stage @ [name] in
     pbind (ask_unit (Copyfile source archive)) (\<lambda>_.
     pbind (private_entry archive False) (\<lambda>_.
     pbind (ask_text (Digest archive)) (\<lambda>d.
     pbind (nrequire (d = checksum) ''local/NAS archive mismatch'') (\<lambda>_.
     pbind (ask_unit (WriteText (stage @ [METADATA]) metadata)) (\<lambda>_.
     pbind (ask_unit (WriteText (stage @ [''archive.sha256'']) (checksum_line checksum name))) (\<lambda>_.
     pbind (ask_names (Iterdir stage)) (\<lambda>names.
     pbind (pfor (\<lambda>f. pbind (private_entry (stage @ [f]) False) (\<lambda>_. sync (stage @ [f]))) names) (\<lambda>_.
     pbind (ask_text (Digest archive)) (\<lambda>d.
     pbind (nrequire (d = checksum) ''private archive readback failed'') (\<lambda>_.
     pbind (sync stage) (\<lambda>_.
     pbind (ask_unit (Rename stage target)) (\<lambda>_.
     pbind (sync exports) (\<lambda>_.
     pbind (ask_text (Digest (target @ [name]))) (\<lambda>d.
     nrequire (d = checksum) ''published archive readback failed'')))))))))))))))"

definition retention :: "string list \<Rightarrow> string list \<Rightarrow> (int \<times> string list) list \<Rightarrow> (observed \<times> string list) list
    \<Rightarrow> int \<times> string list \<Rightarrow> unit nprog" where
  "retention recovery exports retained db_retained new =
     pbind (prune_owned (sort (retained @ [new])) 7) (\<lambda>_.
     pbind (prune_owned db_retained 14) (\<lambda>_.
     pbind (if db_retained \<noteq> [] then sync (recovery @ [''db-archives'']) else Ret ()) (\<lambda>_.
     pbind (sync exports) (\<lambda>_.
     native [''--cleanup'', ''--maximum-backups'', ''7'']))))"

text \<open>The part of \<^verbatim>\<open>main\<close> under the lock and with the log open.\<close>

definition export :: "nat \<Rightarrow> string list \<Rightarrow> string list \<Rightarrow> string list \<Rightarrow> string \<Rightarrow> unit nprog" where
  "export budget recovery exports work version =
     pbind (produce work version) (\<lambda>(source, vacant).
     (let name = last source in
     pbind (inspect_archive budget source vacant) (\<lambda>metadata.
     pbind (ask_text (Digest source)) (\<lambda>checksum.
     (let target = exports @ [removesuffix BACKUP_SUFFIX name] in
     pbind (absent target) (\<lambda>free.
     pbind (nrequire free ''publication collision'') (\<lambda>_.
     pbind (completed exports) (\<lambda>retained.
     pbind (completed_db_archives recovery) (\<lambda>db_retained.
     pbind (ask_text (Mkdtemp exports (''.'' @ last target @ ''.'') ''.partial'')) (\<lambda>tmp.
     (let stage = exports @ [tmp] in
     pfinally
       (pbind (publish exports stage target source name checksum metadata) (\<lambda>_.
        retention recovery exports retained db_retained (int (read_nat (take 10 name)), target)))
       (pbind (ask_bool (Exists stage)) (\<lambda>left. if left then ask_unit (Rmtree stage) else Ret ())))))))))))))"

definition nas_main :: "nat \<Rightarrow> string list \<Rightarrow> string list \<Rightarrow> string list \<Rightarrow> unit nprog" where
  "nas_main budget recovery work version_file =
     pbind (ask_unit (Umask 63)) (\<lambda>_.
     pbind (ask_bool Ids) (\<lambda>ids.
     pbind (nrequire ids ''requires UID/GID1000'') (\<lambda>_.
     pbind (ask_bool (IsDir recovery)) (\<lambda>dir.
     pbind (if dir then ask_bool (IsSymlink recovery) else Ret True) (\<lambda>link.
     pbind (nrequire (dir \<and> \<not> link) ''recovery mount missing/unsafe'') (\<lambda>_.
     pbind (namespace (recovery @ [''gitlab-exports''])) (\<lambda>exports.
     pbind (ask_int (OpenLock exports)) (\<lambda>lock.
     pfinally
       (pbind (ask_unit (Flock lock)) (\<lambda>_.
        pbind (ask_text (ReadText version_file)) (\<lambda>text_read.
        (let version = strip text_read in
        pbind (nrequire (stable_version version) ''native image requires a stable numeric version'') (\<lambda>_.
        pbind (ask_unit (TempLog work)) (\<lambda>_.
        pfinally (export budget recovery exports work version) (ask_unit CloseLog)))))))
       (ask_unit (Close lock))))))))))"

end
