(* ===== verification/Nas_Properties.thy ===== *)
theory Nas_Properties
  imports Nas_Export "HOL-Library.Multiset"
begin

section \<open>Properties of the backup export\<close>

text \<open>
  Nothing is pruned before the new export is published and read back; only verified exports are pruned,
  and never the newest ones; an accepted archive belongs to the run that made it and has safe members.
\<close>

type_synonym nhist = "(nact \<times> nresp) list"

subsection \<open>Steps of the calculus\<close>

lemma spec_ask:
  "ok h q \<Longrightarrow> (\<And>x. history.spec ok ((q, RStat x) # h) (f x) R) \<Longrightarrow> history.spec ok h (pbind (ask_stat q) f) R"
  "ok h q \<Longrightarrow> (\<And>x. history.spec ok ((q, RBool x) # h) (f2 x) R) \<Longrightarrow> history.spec ok h (pbind (ask_bool q) f2) R"
  "ok h q \<Longrightarrow> (\<And>x. history.spec ok ((q, RText x) # h) (f3 x) R) \<Longrightarrow> history.spec ok h (pbind (ask_text q) f3) R"
  "ok h q \<Longrightarrow> history.spec ok ((q, RUnit) # h) (f4 ()) R \<Longrightarrow> history.spec ok h (pbind (ask_unit q) f4) R"
  "ok h q \<Longrightarrow> (\<And>x. history.spec ok ((q, RInt x) # h) (f5 x) R) \<Longrightarrow> history.spec ok h (pbind (ask_int q) f5) R"
  "ok h q \<Longrightarrow> (\<And>x. history.spec ok ((q, RNames x) # h) (f6 x) R) \<Longrightarrow> history.spec ok h (pbind (ask_names q) f6) R"
  unfolding ask_defs pbind.simps
  by (auto intro!: history.spec_Act simp: hist_upd_def split: nresp.split)

lemma spec_ask_end: "ok h q \<Longrightarrow> history.spec ok h (ask_unit q) (\<lambda>_ _. True)"
  unfolding ask_defs by (auto intro!: history.spec_Act split: nresp.split)

lemma spec_nrequire: "(c \<Longrightarrow> history.spec ok h (f ()) R) \<Longrightarrow> history.spec ok h (pbind (nrequire c s) f) R"
  by (simp add: nrequire_def)

lemma acts_ask [simp]:
  "acts P (ask_stat q) = P q" "acts P (ask_bool q) = P q" "acts P (ask_text q) = P q" "acts P (ask_unit q) = P q"
  "acts P (ask_int q) = P q" "acts P (ask_names q) = P q" "acts P (ask_member q) = P q" "acts P (nrequire c s)"
  by (auto simp: ask_defs nrequire_def split: option.split nresp.split)

subsection \<open>Pruning needs a published export\<close>

text \<open>
  A removal is justified by the history when an export was published in it and read back with the digest
  of the native archive, and the removed directory is an export whose checksum file was found to agree
  with its archive, or the published directory itself.
\<close>

definition published_good :: "nhist \<Rightarrow> string list \<Rightarrow> bool" where
  "published_good h target \<longleftrightarrow> (\<exists>h1 stage name source c.
     suffix ((Digest (target @ [name]), RText c) # h1) h \<and> (Rename stage target, RUnit) \<in> set h1 \<and> (Digest source, RText c) \<in> set h1)"

definition verified :: "nhist \<Rightarrow> string list \<Rightarrow> bool" where
  "verified h p \<longleftrightarrow> (\<exists>sumfile name d. (ReadText (p @ [sumfile]), RText (checksum_line d name)) \<in> set h \<and> (Digest (p @ [name]), RText d) \<in> set h)"

definition prunable :: "nhist \<Rightarrow> string list \<Rightarrow> bool" where
  "prunable h p \<longleftrightarrow> (\<exists>target. published_good h target \<and> (p = target \<or> verified h p))"

definition prune_ok :: "nhist \<Rightarrow> nact \<Rightarrow> bool" where
  "prune_ok h q = (case q of
     Unlink p \<Rightarrow> prunable h (butlast p)
   | Rmdir p \<Rightarrow> prunable h p
   | Rmtree p \<Rightarrow> (\<exists>dir prefix_name suffix_name tmp. (Mkdtemp dir prefix_name suffix_name, RText tmp) \<in> set h \<and> p = dir @ [tmp])
   | _ \<Rightarrow> True)"

definition harmless_act :: "nact \<Rightarrow> bool" where
  "harmless_act q = (case q of Unlink _ \<Rightarrow> False | Rmdir _ \<Rightarrow> False | Rmtree _ \<Rightarrow> False | _ \<Rightarrow> True)"

lemma harmless_ok: "harmless_act q \<Longrightarrow> prune_ok h q"
  by (cases q) (simp_all add: harmless_act_def prune_ok_def)

lemma calm: "acts harmless_act p \<Longrightarrow> history.spec prune_ok h p (\<lambda>_ _. True)"
  by (rule spec_quiet [OF _ harmless_ok])

lemma calm_then:
  "acts harmless_act p \<Longrightarrow> (\<And>x h'. suffix h h' \<Longrightarrow> history.spec prune_ok h' (f x) R) \<Longrightarrow> history.spec prune_ok h (pbind p f) R"
  by (rule history.spec_bind [OF calm])

lemma verified_suffix: "verified h p \<Longrightarrow> suffix h h' \<Longrightarrow> verified h' p"
  unfolding verified_def suffix_def by fastforce

lemma published_suffix: "published_good h target \<Longrightarrow> suffix h h' \<Longrightarrow> published_good h' target"
  unfolding published_good_def by (meson suffix_order.trans)

lemma prunable_suffix: "prunable h p \<Longrightarrow> suffix h h' \<Longrightarrow> prunable h' p"
  unfolding prunable_def using verified_suffix published_suffix by blast

lemma spec_sync: "history.spec prune_ok h (sync p) (\<lambda>_ _. True)"
  by (rule calm) (auto simp: sync_def harmless_act_def intro!: acts_intros)

lemma acts_private [simp]: "acts harmless_act (private_entry p d)"
  by (auto simp: private_entry_def harmless_act_def intro!: acts_intros)

lemma acts_absent [simp]: "acts harmless_act (absent p)"
  by (auto simp: absent_def harmless_act_def intro!: acts_intros)

lemma spec_publish:
  assumes "(Digest source, RText checksum) \<in> set h"
  shows "history.spec prune_ok h (publish exports stage target source name checksum metadata) (\<lambda>_ h'. published_good h' target)"
proof -
  have src: "(Digest source, RText checksum) \<in> set h'" if "suffix h h'" for h'
    using assms that by (auto simp: suffix_def)
  have each: "acts harmless_act (pfor (\<lambda>f. pbind (private_entry (stage @ [f]) False) (\<lambda>_. sync (stage @ [f]))) names)" for names
    by (auto simp: sync_def harmless_act_def intro!: acts_intros)
  have fin: "history.spec prune_ok h' (pbind (sync exports) (\<lambda>_. pbind (ask_text (Digest (target @ [name]))) (\<lambda>d.
      nrequire (d = checksum) ''published archive readback failed''))) (\<lambda>_ h'. published_good h' target)"
    if "(Rename stage target, RUnit) \<in> set h'" "(Digest source, RText checksum) \<in> set h'" for h'
  proof (rule history.spec_bind [OF spec_sync], rule spec_ask(3))
    fix h'' d assume "suffix h' h''"
    with that have "(Rename stage target, RUnit) \<in> set h''" "(Digest source, RText checksum) \<in> set h''" by (auto simp: suffix_def)
    then have "d = checksum \<Longrightarrow> published_good ((Digest (target @ [name]), RText d) # h'') target"
      unfolding published_good_def by (metis suffix_order.refl)
    then show "history.spec prune_ok ((Digest (target @ [name]), RText d) # h'') (nrequire (d = checksum) ''published archive readback failed'')
        (\<lambda>_ h'. published_good h' target)" by (simp add: nrequire_def)
  qed (simp add: prune_ok_def)
  show ?thesis unfolding publish_def Let_def
    apply (rule calm_then, simp add: harmless_act_def, rule calm_then, simp add: harmless_act_def, rule calm_then, simp add: harmless_act_def, rule calm_then, simp add: harmless_act_def)
    apply (rule calm_then, simp add: harmless_act_def, rule calm_then, simp add: harmless_act_def, rule calm_then, simp add: harmless_act_def)
    apply (rule calm_then, rule each)
    apply (rule calm_then, simp add: harmless_act_def, rule calm_then, simp add: harmless_act_def)
    apply (rule history.spec_bind [OF spec_sync])
    apply (rule spec_ask(4), simp add: prune_ok_def)
    apply (rule fin, simp, simp)
    apply (rule src)
    apply (meson suffix_order.trans)
    done
qed

lemma spec_exact: "history.spec prune_ok h (exact_contents p expected reason) (\<lambda>_ _. True)"
  by (rule calm) (auto simp: exact_contents_def harmless_act_def intro!: acts_intros)

lemma spec_readback: "history.spec prune_ok h (readback p sumfile name) (\<lambda>good h'. good \<longrightarrow> verified h' p)"
  unfolding readback_def
proof (rule spec_ask(3), simp add: prune_ok_def, rule spec_ask(3), simp add: prune_ok_def)
  fix line d
  have "line = checksum_line d name \<Longrightarrow> verified ((Digest (p @ [name]), RText d) # (ReadText (p @ [sumfile]), RText line) # h) p"
    unfolding verified_def by (intro exI [of _ sumfile] exI [of _ name] exI [of _ d]) simp
  then show "history.spec prune_ok ((Digest (p @ [name]), RText d) # (ReadText (p @ [sumfile]), RText line) # h)
      (Ret (line = checksum_line d name)) (\<lambda>good h'. good \<longrightarrow> verified h' p)" by simp
qed

definition all_verified :: "('t \<times> string list) list \<Rightarrow> nhist \<Rightarrow> bool" where
  "all_verified found h \<longleftrightarrow> list_all (\<lambda>c. verified h (snd c)) found"

lemma all_verified_suffix: "all_verified found h \<Longrightarrow> suffix h h' \<Longrightarrow> all_verified found h'"
  by (auto simp: all_verified_def list_all_iff intro: verified_suffix)

lemma spec_completed_entry:
  assumes "all_verified found h"
  shows "history.spec prune_ok h (completed_entry directory entry found) all_verified"
proof (cases "NAME (entry @ BACKUP_SUFFIX)")
  case (Some sv)
  obtain stamp v where sv: "sv = (stamp, v)" by (cases sv)
  let ?p = "directory @ [entry]" and ?name = "entry @ BACKUP_SUFFIX"
  have body: "history.spec prune_ok h' (pbind (exact_contents ?p [?name, ''archive.sha256'', METADATA] ''unexpected completed export contents'') (\<lambda>_.
      pbind (readback ?p ''archive.sha256'' ?name) (\<lambda>good. pbind (nrequire good ''retained export readback failed'') (\<lambda>_.
      Ret (found @ [(int (read_nat stamp), ?p)]))))) all_verified" if "suffix h h'" for h'
  proof (rule history.spec_bind [OF spec_exact], rule history.spec_bind [OF spec_readback], rule spec_nrequire)
    fix h1 h2 good assume "suffix h' h1" "suffix h1 h2" "good \<longrightarrow> verified h2 ?p" good
    moreover from this that have "all_verified found h2" by (meson all_verified_suffix assms suffix_order.trans)
    ultimately show "history.spec prune_ok h2 (Ret (found @ [(int (read_nat stamp), ?p)])) all_verified" by (simp add: all_verified_def)
  qed
  show ?thesis unfolding completed_entry_def Let_def Some sv option.case prod.case
    apply (rule calm_then, simp add: harmless_act_def, rule calm_then, simp add: harmless_act_def)
    apply (rule history.spec_if)
     apply (simp, meson all_verified_suffix assms suffix_order.trans)
    apply (rule body, meson suffix_order.trans)
    done
qed (simp add: completed_entry_def assms)

lemma all_verified_sort: "all_verified (sort found) h = all_verified found h"
  by (simp add: all_verified_def list_all_iff)

lemma spec_completed: "history.spec prune_ok h (completed directory) all_verified"
  unfolding completed_def
proof (rule spec_ask(6), simp add: prune_ok_def, rule history.spec_bind)
  fix entries
  show "history.spec prune_ok ((Iterdir directory, RNames entries) # h) (pfold (completed_entry directory) entries []) all_verified"
    by (rule history.spec_fold_inv) (auto intro: spec_completed_entry simp: all_verified_def)
qed (simp add: all_verified_sort)

lemma spec_admission_entry:
  assumes "all_verified found h"
  shows "history.spec prune_ok h (admission_entry directory entry found) all_verified"
proof (cases "admission_name entry")
  case True
  let ?p = "directory @ [entry]"
  have size: "acts harmless_act (if g then positive_size x else Ret False)" for g x
    by (auto simp: positive_size_def harmless_act_def intro!: acts_intros)
  have tail: "history.spec prune_ok h' (pbind (ask_text (ReadText (?p @ [''admission.txt'']))) (\<lambda>text_read.
        pbind (nrequire (length (splitlines text_read) = 6 \<and> prefix ''observed_at='' (splitlines text_read ! 4)) ''unknown admission metadata'') (\<lambda>_.
        pbind (liftr (observed_time (splitlines text_read ! 4))) (\<lambda>t. Ret (found @ [(t, ?p)]))))) all_verified"
    if "suffix h h'" "verified h' ?p" for h'
  proof (rule spec_ask(3), simp add: prune_ok_def, rule spec_nrequire, rule history.spec_bind_liftr)
    fix tx t
    let ?h = "(ReadText (?p @ [''admission.txt'']), RText tx) # h'"
    have s: "suffix h' ?h" by (simp add: suffix_ConsI)
    with that have "all_verified found ?h" "verified ?h ?p"
      by (auto intro: all_verified_suffix [OF assms] verified_suffix suffix_order.trans)
    then show "history.spec prune_ok ?h (Ret (found @ [(t, ?p)])) all_verified" by (simp add: all_verified_def)
  qed
  show ?thesis unfolding admission_entry_def Let_def
    apply (simp only: True not_True_eq_False if_False)
    apply (rule history.spec_bind [OF spec_exact], rule history.spec_bind [OF spec_readback])
    apply (rule history.spec_bind [where R = "\<lambda>g h'. g \<longrightarrow> verified h' ?p"])
    subgoal premises p for _ h1 good h2
      by (cases good) (use p in \<open>auto intro!: history.spec_conseq [OF calm] acts_intros simp: positive_size_def harmless_act_def intro: verified_suffix\<close>)
    apply (rule history.spec_bind [where R = "\<lambda>g h'. g \<longrightarrow> verified h' ?p"])
    subgoal premises p for _ h1 good h2 good2 h3
      by (cases good2) (use p in \<open>auto intro!: history.spec_conseq [OF calm] acts_intros simp: positive_size_def harmless_act_def intro: verified_suffix\<close>)
    apply (rule spec_nrequire, rule tail)
     apply (meson suffix_order.trans)
    apply simp
    done
qed (simp add: admission_entry_def assms)

lemma spec_completed_db: "history.spec prune_ok h (completed_db_archives recovery) all_verified"
proof -
  let ?d = "recovery @ [''db-archives'']"
  have one: "history.spec prune_ok h' (pbind (private_entry ?d True) (\<lambda>_. pbind (ask_names (Iterdir ?d)) (\<lambda>entries.
        pbind (pfold (admission_entry ?d) entries []) (\<lambda>found. Ret (sort found))))) all_verified" for h'
  proof (rule calm_then, simp, rule spec_ask(6), simp add: prune_ok_def, rule history.spec_bind)
    fix h1 entries
    show "history.spec prune_ok ((Iterdir ?d, RNames entries) # h1) (pfold (admission_entry ?d) entries []) all_verified"
      by (rule history.spec_fold_inv) (auto intro: spec_admission_entry simp: all_verified_def)
  qed (simp add: all_verified_sort)
  show ?thesis unfolding completed_db_archives_def Let_def
    by (rule calm_then, simp, rule history.spec_if) (simp add: all_verified_def, rule one)
qed

lemma spec_prune:
  assumes "\<And>c. c \<in> set completions \<Longrightarrow> prunable h (snd c)"
  shows "history.spec prune_ok h (prune_owned completions keep) (\<lambda>_ _. True)"
proof -
  have files: "history.spec prune_ok h' (pfor (\<lambda>name. ask_unit (Unlink (p @ [name]))) names) (\<lambda>_ _. True)" if "prunable h' p" for h' p names
    by (rule history.spec_for) (use that prunable_suffix in \<open>auto intro!: spec_ask_end simp: prune_ok_def\<close>)
  have "history.spec prune_ok h' (remove_export p) (\<lambda>_ _. True)" if "prunable h' p" for h' p
    unfolding remove_export_def
    apply (rule spec_ask(6), simp add: prune_ok_def)
    apply (rule history.spec_bind [OF files], rule prunable_suffix [OF that], simp add: suffix_ConsI)
    apply (rule spec_ask_end, simp add: prune_ok_def)
    apply (rule prunable_suffix [OF that], meson suffix_ConsD)
    done
  moreover have "set (pruned completions keep) \<subseteq> set completions" by (simp add: pruned_def set_take_subset)
  ultimately show ?thesis unfolding prune_owned_def
    by (intro history.spec_for) (use assms prunable_suffix in blast)
qed

lemma acts_native [simp]: "acts harmless_act (native args)"
  by (auto simp: native_def harmless_act_def intro!: acts_intros)

lemma acts_sync: "acts harmless_act (sync p)"
  by (auto simp: sync_def harmless_act_def intro!: acts_intros)

lemma spec_retention:
  assumes new: "published_good h (snd new)" and ret: "all_verified retained h" "all_verified db h"
  shows "history.spec prune_ok h (retention recovery exports retained db new) (\<lambda>_ _. True)"
proof -
  have p: "prunable h' (snd c)" if "suffix h h'" "c \<in> set (sort (retained @ [new]))" for c h'
    using that new ret(1) published_suffix [OF new that(1)] verified_suffix [OF _ that(1)]
    unfolding prunable_def all_verified_def list_all_iff by auto
  have d: "prunable h' (snd c)" if "suffix h h'" "c \<in> set db" for c h'
    using that new ret(2) published_suffix [OF new that(1)] verified_suffix [OF _ that(1)]
    unfolding prunable_def all_verified_def list_all_iff by auto
  show ?thesis unfolding retention_def
    apply (rule history.spec_bind [OF spec_prune], rule p, simp, assumption)
    apply (rule history.spec_bind [OF spec_prune], rule d, assumption, assumption)
    apply (rule calm_then, simp add: acts_sync, rule calm_then, rule acts_sync, rule calm, rule acts_native)
    done
qed

lemma acts_inspect: "acts harmless_act (inspect_archive budget p vacant)"
proof -
  have i: "acts harmless_act (inner_members n)" for n
    by (induction n) (auto intro!: acts_intros simp: harmless_act_def split: option.split)
  have r: "acts harmless_act (archive_member b x s)" for b x s
    unfolding archive_member_def read_member_def Let_def by (auto intro!: acts_intros i simp: harmless_act_def)
  have "acts harmless_act (archive_members n b s)" for n b s
    by (induction n arbitrary: s) (auto intro!: acts_intros r simp: harmless_act_def split: option.split)
  then show ?thesis unfolding inspect_archive_def
    by (auto intro!: acts_intros simp: harmless_act_def split: option.split)
qed

lemma acts_produce: "acts harmless_act (produce work version)"
  unfolding produce_def accept_archive_def Let_def
  by (auto intro!: acts_intros simp: harmless_act_def split: option.split prod.split)

lemma spec_export: "history.spec prune_ok h (export budget recovery exports work version) (\<lambda>_ _. True)"
proof -
  have work: "history.spec prune_ok h' (pfinally
       (pbind (publish exports stage target source name checksum metadata) (\<lambda>_.
        retention recovery exports retained db (stamp, target)))
       (pbind (ask_bool (Exists stage)) (\<lambda>left. if left then ask_unit (Rmtree stage) else Ret ()))) (\<lambda>_ _. True)"
    if h': "(Digest source, RText checksum) \<in> set h'" "all_verified retained h'" "all_verified db h'"
      "(Mkdtemp exports pre suf, RText tmp) \<in> set h'" "stage = exports @ [tmp]"
    for h' stage target source name checksum metadata retained db stamp pre suf tmp
  proof (rule history.spec_finally [where R = "\<lambda>_ _. True"])
    show "history.spec prune_ok h' (pbind (publish exports stage target source name checksum metadata) (\<lambda>_.
        retention recovery exports retained db (stamp, target))) (\<lambda>_ _. True)"
      by (rule history.spec_bind [OF spec_publish [OF h'(1)]], rule spec_retention)
         (use h'(2,3) all_verified_suffix in auto)
  next
    have "history.spec prune_ok h'' (pbind (ask_bool (Exists stage)) (\<lambda>left. if left then ask_unit (Rmtree stage) else Ret ())) (\<lambda>_ _. True)"
      if "suffix h' h''" for h''
    proof (rule spec_ask(2), simp add: prune_ok_def, rule history.spec_if, rule spec_ask_end)
      fix left
      show "prune_ok ((Exists stage, RBool left) # h'') (Rmtree stage)"
        using that h'(4,5) by (auto simp: prune_ok_def suffix_def) blast+
    qed simp
    then show "\<And>x g'. suffix h' g' \<Longrightarrow> True \<Longrightarrow> history.spec prune_ok g' (pbind (ask_bool (Exists stage)) (\<lambda>left. if left then ask_unit (Rmtree stage) else Ret ())) (\<lambda>_ _. True)"
      "\<And>g'. suffix h' g' \<Longrightarrow> history.spec prune_ok g' (pbind (ask_bool (Exists stage)) (\<lambda>left. if left then ask_unit (Rmtree stage) else Ret ())) (\<lambda>_ _. True)"
      by blast+
  qed
  show ?thesis unfolding export_def Let_def split_beta
    apply (rule calm_then, rule acts_produce, rule calm_then, rule acts_inspect)
    apply (rule spec_ask(3), simp add: prune_ok_def)
    apply (rule calm_then, simp, rule calm_then, simp)
    apply (rule history.spec_bind [OF spec_completed], rule history.spec_bind [OF spec_completed_db])
    apply (rule spec_ask(3), simp add: prune_ok_def)
    apply (rule work)
        apply (force simp: suffix_def)
       apply (erule all_verified_suffix, meson suffix_ConsI)
      apply (erule all_verified_suffix, meson suffix_ConsI suffix_order.refl)
     apply (rule list.set_intros)
    apply (rule refl)
    done
qed

lemma spec_nas_main: "history.spec prune_ok h (nas_main budget recovery work version_file) (\<lambda>_ _. True)"
proof -
  have close: "history.spec prune_ok h' (ask_unit (Close l)) (\<lambda>_ _. True)" "history.spec prune_ok h' (ask_unit CloseLog) (\<lambda>_ _. True)" for h' l
    by (rule spec_ask_end, simp add: prune_ok_def)+
  have ns: "acts harmless_act (namespace p)" for p
    by (auto simp: namespace_def intro!: acts_intros simp: harmless_act_def)
  show ?thesis unfolding nas_main_def Let_def
    apply (rule calm_then, simp add: harmless_act_def, rule calm_then, simp add: harmless_act_def, rule calm_then, simp)
    apply (rule calm_then, simp add: harmless_act_def, rule calm_then, simp add: harmless_act_def, rule calm_then, simp)
    apply (rule calm_then, rule ns, rule calm_then, simp add: harmless_act_def)
    apply (rule history.spec_finally [where R = "\<lambda>_ _. True"])
      apply (rule calm_then, simp add: harmless_act_def, rule calm_then, simp add: harmless_act_def, rule calm_then, simp, rule calm_then, simp add: harmless_act_def)
      apply (rule history.spec_finally [where R = "\<lambda>_ _. True"], rule spec_export, rule close(2), rule close(2))
     apply (rule close(1))+
    done
qed

subsection \<open>Properties\<close>

text \<open>
  (C21) The new export exists before anything is removed. In every run of the exporter, an export or
  admission archive loses a file or its directory only after a stage was renamed to its target
  and the published archive was read back with the digest of the native archive; and what is
  removed is a directory whose checksum file was found to agree with its archive in this run, or the
  published one. A tree is removed only when it is the private stage of this run.
\<close>

theorem nas_prunes_after_publication:
  "always (\<lambda>t. prune_ok (rev t)) (nas_main budget recovery work version_file)"
  by (rule spec_always [OF spec_nas_main])

text \<open>
  Retention keeps the newest completions: \<^verbatim>\<open>prune_owned\<close> on a sorted list keeps its last
  entries, as many as it should or all there are, and everything it removes is at most as new as
  everything it keeps.
\<close>

theorem prune_keeps_newest:
  "\<exists>kept. sort cs = pruned (sort cs) keep @ kept \<and> length kept = min keep (length cs)
     \<and> list_all (\<lambda>p. list_all (\<lambda>c. p \<le> c) kept) (pruned (sort cs) keep)"
proof -
  let ?n = "length cs - keep"
  have "sorted (take ?n (sort cs) @ drop ?n (sort cs))" by (simp only: append_take_drop_id sorted_sort)
  then have "\<forall>p \<in> set (take ?n (sort cs)). \<forall>c \<in> set (drop ?n (sort cs)). p \<le> c" by (simp only: sorted_append) blast
  then show ?thesis unfolding pruned_def length_sort
    by (intro exI [of _ "drop ?n (sort cs)"]) (auto simp: list_all_iff)
qed

text \<open>
  The export just published survives its own retention, provided no retained export has a
  later stamp: then it is the newest entry of the sorted list.
\<close>

theorem new_export_survives:
  fixes new :: "int \<times> string list"
  assumes "list_all (\<lambda>c. c < new) retained" and "0 < keep"
  shows "new \<notin> set (pruned (sort (retained @ [new])) keep)"
proof -
  have "sort (retained @ [new]) = sort retained @ [new]"
  proof (rule properties_for_sort)
    show "sorted (sort retained @ [new])" using assms(1) by (auto simp: sorted_append list_all_iff)
  qed simp
  moreover have "new \<notin> set retained" using assms(1) by (auto simp: list_all_iff)
  ultimately show ?thesis using assms(2) by (auto simp: pruned_def dest!: in_set_takeD)
qed

theorem new_export_survives_witness:
  "(9, [''b'']) \<notin> set (pruned (sort ([(3, [''a'']), (5, [''c''])] @ [(9 :: int, [''b''])])) 1)"
  by (rule new_export_survives) simp_all

lemma runs_ask:
  "runs (ask_stat q) t (Ret a) \<longleftrightarrow> t = [(q, RStat a)]" "runs (ask_bool q) t (Ret b) \<longleftrightarrow> t = [(q, RBool b)]"
  "runs (ask_text q) t (Ret c) \<longleftrightarrow> t = [(q, RText c)]" "runs (ask_int q) t (Ret d) \<longleftrightarrow> t = [(q, RInt d)]"
  "runs (ask_member q) t (Ret m) \<longleftrightarrow> t = [(q, RMember m)]"
  by (cases t; auto simp: ask_defs runs_ended split: nresp.splits; cases "tl t"; auto simp: runs_ended split: nresp.splits)+

lemma runs_nrequire: "runs (nrequire c s) t (Ret x) \<longleftrightarrow> t = [] \<and> c"
  by (auto simp: nrequire_def runs_ended)

lemma runs_accept:
  assumes "runs (accept_archive work version started out) t (Ret (p, vacant))"
  shows "\<exists>name stamp later st. log_result out = Inr (vacant, name) \<and> NAME name = Some (stamp, version)
    \<and> started div 10 ^ 9 \<le> int (read_nat stamp) \<and> int (read_nat stamp) \<le> later div 10 ^ 9 \<and> started \<le> n_mtime_ns st
    \<and> p = work @ [''backup_tars'', name]
    \<and> t = [(TimeNs, RInt later), (IsFile p, RBool True), (IsSymlink p, RBool False), (Stat p, RStat st)]"
  using assms unfolding accept_archive_def Let_def
  by (auto simp: runs_ask runs_nrequire runs_liftr runs_ended dest!: runs_pbind_Ret split: option.splits prod.splits if_splits)

text \<open>
  The archive belongs to this run. When \<^verbatim>\<open>produce\<close> returns a path, the native log named
  exactly this archive, with the version of the image and with a stamp between the time read before the
  native run and a time read after it; the file was found as a regular file, not a link, and not
  older than the start.
\<close>

theorem archive_belongs_to_run:
  assumes "runs (produce work version) t (Ret (p, vacant))"
  shows "\<exists>started middle out name stamp later st.
    t = (TimeNs, RInt started) # middle @ [(LogRead, RText out), (TimeNs, RInt later), (IsFile p, RBool True), (IsSymlink p, RBool False), (Stat p, RStat st)]
    \<and> log_result out = Inr (vacant, name) \<and> NAME name = Some (stamp, version)
    \<and> started div 10 ^ 9 \<le> int (read_nat stamp) \<and> int (read_nat stamp) \<le> later div 10 ^ 9 \<and> started \<le> n_mtime_ns st
    \<and> p = work @ [''backup_tars'', name]"
proof -
  obtain t1 t2 started where a: "t = t1 @ t2" "runs (ask_int TimeNs) t1 (Ret started)"
    and r1: "runs (pbind (native [''--skip'', DISABLED, ''--skip-cleanup'']) (\<lambda>_. pbind (ask_text LogRead) (\<lambda>out.
      accept_archive work version started out))) t2 (Ret (p, vacant))"
    using runs_pbind_Ret [OF assms [unfolded produce_def]] by blast
  obtain t3 t4 where b: "t2 = t3 @ t4"
    and r2: "runs (pbind (ask_text LogRead) (\<lambda>out. accept_archive work version started out)) t4 (Ret (p, vacant))"
    using runs_pbind_Ret [OF r1] by blast
  obtain t5 t6 out where c: "t4 = t5 @ t6" "runs (ask_text LogRead) t5 (Ret out)" "runs (accept_archive work version started out) t6 (Ret (p, vacant))"
    using runs_pbind_Ret [OF r2] by blast
  obtain name stamp later st where d: "log_result out = Inr (vacant, name)" "NAME name = Some (stamp, version)"
    "started div 10 ^ 9 \<le> int (read_nat stamp)" "int (read_nat stamp) \<le> later div 10 ^ 9" "started \<le> n_mtime_ns st"
    "p = work @ [''backup_tars'', name]" "t6 = [(TimeNs, RInt later), (IsFile p, RBool True), (IsSymlink p, RBool False), (Stat p, RStat st)]"
    using runs_accept [OF c(3)] by blast
  have "t = (TimeNs, RInt started) # t3 @ [(LogRead, RText out), (TimeNs, RInt later), (IsFile p, RBool True), (IsSymlink p, RBool False), (Stat p, RStat st)]"
    using a b c(1,2) d(7) by (simp add: runs_ask)
  with d(1-6) show ?thesis by blast
qed

definition ex_backup :: string where
  "ex_backup = ''1700000000_2023_11_14_17.5.1_gitlab_backup.tar''"

definition ex_log_lines :: "string list" where
  "ex_log_lines = [''Dumping registry ...'', ''done'', ''Dumping uploads ...'', ''empty'', ''Dumping artifacts ...'', ''done'',
     ''Dumping lfs ...'', ''done'', ''Dumping packages ...'', ''done'', DONE_PREFIX @ ex_backup]"

lemma ex_name: "NAME ex_backup = Some (''1700000000'', ''17.5.1'')"
  by (simp add: NAME_def ex_backup_def backup_stamp_def BACKUP_SUFFIX_def triple_ok_def isdecimal_def is_digit_def suffix_to_prefix upt_rec Let_def)

lemma ex_log: "log_result (join [CHR 0x0A] ex_log_lines) = Inr ([''uploads''], ex_backup)"
  by code_simp

definition ex_archive :: "string list" where
  "ex_archive = [''w'', ''backup_tars'', ex_backup]"

definition ex_produce_trace :: "(nact \<times> nresp) list" where
  "ex_produce_trace = [(TimeNs, RInt 1699999999000000000), (Native (''backup-utility'' # [''--skip'', DISABLED, ''--skip-cleanup'']), RInt 0),
     (LogWrite ([CHR 0x0A] @ ''Producer exit status: '' @ show_int 0 @ [CHR 0x0A]), RUnit), (LogSync, RUnit),
     (LogRead, RText (join [CHR 0x0A] ex_log_lines)), (TimeNs, RInt 1700000001000000000), (IsFile ex_archive, RBool True),
     (IsSymlink ex_archive, RBool False),
     (Stat ex_archive, RStat \<lparr>n_mode = 33152, n_uid = 1000, n_gid = 1000, n_size = 10240, n_mtime_ns = 1700000000500000000\<rparr>)]"

lemma ex_produce_runs: "runs (produce [''w''] ''17.5.1'') ex_produce_trace (Ret (ex_archive, [''uploads'']))"
proof -
  have n: "read_nat ''1700000000'' = 1700000000" by (simp add: read_nat_def digit_val_def)
  show ?thesis
    by (simp add: ex_produce_trace_def produce_def native_def ask_defs nrequire_def accept_archive_def ex_log ex_name n ex_archive_def Let_def)
qed

theorem archive_belongs_to_run_witness:
  "\<exists>name stamp. NAME name = Some (stamp, ''17.5.1'') \<and> ex_archive = [''w''] @ [''backup_tars'', name]"
  using archive_belongs_to_run [OF ex_produce_runs] by blast

subsection \<open>The archive is complete\<close>

definition good_payload :: "(nact \<times> nresp) set \<Rightarrow> string \<Rightarrow> bool" where
  "good_payload T key \<longleftrightarrow> (\<exists>x. (TarNext, RMember (Some x)) \<in> T \<and> safe_member x = Inr key \<and> m_file x
     \<and> (component key \<or> key = DATABASE \<or> key = METADATA \<longrightarrow> 0 < m_size x))"

text \<open>The members that the reader delivered, in their order.\<close>

definition members :: "(nact \<times> nresp) list \<Rightarrow> member list" where
  "members t = concat (map (\<lambda>(q, r). case (q, r) of (TarNext, RMember (Some x)) \<Rightarrow> [x] | _ \<Rightarrow> []) t)"

lemma members_simps [simp]: "members [] = []" "members (t @ t') = members t @ members t'"
  "members ((TarNext, RMember (Some x)) # t) = x # members t" "members ((TarNext, RMember None) # t) = members t"
  "q \<noteq> TarNext \<Longrightarrow> members ((q, r) # t) = members t"
  by (simp_all add: members_def split: nact.split)

lemma members_quiet: "list_all (\<lambda>(q, _). q \<noteq> TarNext) t \<Longrightarrow> members t = []"
  by (induction t) auto

definition archive_facts :: "(nact \<times> nresp) list \<Rightarrow> archive_state \<Rightarrow> bool" where
  "archive_facts t s \<longleftrightarrow> (\<forall>k \<in> set (ar_files s). good_payload (set t) k) \<and> distinct (ar_seen s)
     \<and> (ar_metadata s \<noteq> None \<longrightarrow> good_payload (set t) METADATA)
     \<and> map safe_member (members t) = map Inr (rev (ar_seen s))"

lemma good_payload_mono: "good_payload T k \<Longrightarrow> T \<subseteq> T' \<Longrightarrow> good_payload T' k"
  unfolding good_payload_def by blast

lemma read_member_state:
  assumes "runs (read_member budget x key s) t (Ret s')"
  shows "ar_seen s' = ar_seen s \<and> ar_files s' = ar_files s \<and> (ar_metadata s' = ar_metadata s \<or> key = METADATA)"
  using assms unfolding read_member_def
  by (auto simp: runs_ask runs_nrequire runs_ended dest!: runs_pbind_Ret split: if_splits)

lemma read_member_quiet: "acts (\<lambda>q. q \<noteq> TarNext) (read_member budget x key s)"
proof -
  have "acts (\<lambda>q. q \<noteq> TarNext) (inner_members n)" for n
    by (induction n) (auto intro!: acts_intros split: option.split)
  then show ?thesis unfolding read_member_def by (auto intro!: acts_intros)
qed

lemma archive_member_facts:
  assumes run: "runs (archive_member budget x s) t (Ret s')" and T: "archive_facts t0 s"
  shows "archive_facts (t0 @ (TarNext, RMember (Some x)) # t) s'"
proof -
  obtain key where key: "safe_member x = Inr key" "key \<notin> set (ar_seen s)"
      "\<not> (component key \<or> key = DATABASE \<or> key = METADATA) \<or> m_file x \<and> 0 < m_size x"
    and rest: "runs (if \<not> m_file x then Ret (s\<lparr>ar_seen := key # ar_seen s\<rparr>)
        else read_member budget x key (s\<lparr>ar_seen := key # ar_seen s, ar_files := key # ar_files s\<rparr>)) t (Ret s')"
    using run unfolding archive_member_def Let_def
    by (auto simp: runs_nrequire runs_liftr dest!: runs_pbind_Ret split: if_splits)
  let ?t = "t0 @ (TarNext, RMember (Some x)) # t"
  have mono: "good_payload (set t0) k \<Longrightarrow> good_payload (set ?t) k" for k by (rule good_payload_mono) auto
  have own: "m_file x \<Longrightarrow> good_payload (set ?t) key" using key unfolding good_payload_def by (intro exI [of _ x]) auto
  show ?thesis
  proof (cases "m_file x")
    case False
    with rest have "s' = s\<lparr>ar_seen := key # ar_seen s\<rparr>" "t = []" by (auto simp: runs_ended)
    with T key(1,2) mono show ?thesis by (auto simp: archive_facts_def)
  next
    case True
    with rest have r: "runs (read_member budget x key (s\<lparr>ar_seen := key # ar_seen s, ar_files := key # ar_files s\<rparr>)) t (Ret s')" by simp
    note f = read_member_state [OF r]
    have "members t = []" using acts_runs [OF r read_member_quiet] by (intro members_quiet) auto
    with f T key(1,2) mono own [OF True] show ?thesis by (auto simp: archive_facts_def)
  qed
qed

lemma archive_members_facts:
  "runs (archive_members n budget s) t (Ret s') \<Longrightarrow> archive_facts t0 s \<Longrightarrow> archive_facts (t0 @ t) s'"
proof (induction n arbitrary: s t t0)
  case (Suc n)
  obtain t1 t2 x where a: "t = t1 @ t2" "runs (ask_member TarNext) t1 (Ret x)"
    and rest: "runs (case x of None \<Rightarrow> Ret s | Some item \<Rightarrow> pbind (archive_member budget item s) (archive_members n budget)) t2 (Ret s')"
    using runs_pbind_Ret [OF Suc.prems(1) [unfolded archive_members.simps]] by blast
  have t1: "t1 = [(TarNext, RMember x)]" using a(2) by (simp add: runs_ask)
  show ?case
  proof (cases x)
    case None
    with rest have "t2 = []" "s' = s" by (auto simp: runs_ended)
    with Suc.prems(2) a(1) t1 None show ?thesis
      by (auto simp: archive_facts_def intro: good_payload_mono)
  next
    case (Some item)
    then obtain t3 t4 s1 where b: "t2 = t3 @ t4" "runs (archive_member budget item s) t3 (Ret s1)" "runs (archive_members n budget s1) t4 (Ret s')"
      using rest by (simp only: option.case) (blast dest: runs_pbind_Ret)
    from Suc.IH [OF b(3) archive_member_facts [OF b(2) Suc.prems(2)]] show ?thesis by (simp add: a(1) b(1) t1 Some)
  qed
qed (simp add: runs_ended)

lemma runs_inspect:
  assumes "runs (inspect_archive budget p vacant) t (Ret metadata)"
  shows "\<exists>st st' tail t2 s. t = (Stat p, RStat st) # (Stat p, RStat st') # (TarTail p, RText tail) # t2
    \<and> runs (archive_members budget budget \<lparr>ar_seen = [], ar_files = [], ar_metadata = None\<rparr>) t2 (Ret s)
    \<and> ar_metadata s = Some metadata \<and> DATABASE \<in> set (ar_files s)
    \<and> list_all (\<lambda>b. b \<in> set vacant \<or> b @ ''.tar.gz'' \<in> set (ar_files s)) BLOBS"
  using assms unfolding inspect_archive_def
  by (auto simp: runs_ask runs_nrequire runs_ended simp del: archive_members.simps dest!: runs_pbind_Ret split: option.splits if_splits) blast

text \<open>
  (C22) The archive is complete and safe. When \<^verbatim>\<open>inspect_archive\<close> returns, every member the reader
  delivered passed the name checks, the names of the members, in the order of delivery, are pairwise distinct, and the metadata,
  the main database and every enabled component that was not reported empty were among them as nonempty regular files.
\<close>

theorem archive_complete_and_safe:
  assumes "runs (inspect_archive budget p vacant) t (Ret metadata)"
  shows "good_payload (set t) METADATA \<and> good_payload (set t) DATABASE
    \<and> list_all (\<lambda>b. b \<in> set vacant \<or> good_payload (set t) (b @ ''.tar.gz'')) BLOBS
    \<and> (\<exists>keys. map safe_member (members t) = map Inr keys \<and> distinct keys)"
proof -
  obtain st st' tail t2 s where t: "t = (Stat p, RStat st) # (Stat p, RStat st') # (TarTail p, RText tail) # t2"
    and m: "runs (archive_members budget budget \<lparr>ar_seen = [], ar_files = [], ar_metadata = None\<rparr>) t2 (Ret s)"
    and md: "ar_metadata s = Some metadata" and db: "DATABASE \<in> set (ar_files s)"
    and bl: "list_all (\<lambda>b. b \<in> set vacant \<or> b @ ''.tar.gz'' \<in> set (ar_files s)) BLOBS"
    using runs_inspect [OF assms] by blast
  have "archive_facts [] \<lparr>ar_seen = [], ar_files = [], ar_metadata = None\<rparr>" by (simp add: archive_facts_def)
  from archive_members_facts [OF m this] have f: "archive_facts t2 s" by simp
  have mono: "good_payload (set t2) k \<Longrightarrow> good_payload (set t) k" for k by (rule good_payload_mono) (auto simp: t)
  have "members t = members t2" by (simp add: t)
  with f have "map safe_member (members t) = map Inr (rev (ar_seen s)) \<and> distinct (rev (ar_seen s))" by (simp add: archive_facts_def)
  with f mono md db bl show ?thesis unfolding archive_facts_def
    by (intro conjI exI [of _ "rev (ar_seen s)"]) (auto simp: list_all_iff)
qed

definition ex_member :: "string \<Rightarrow> member" where
  "ex_member name = \<lparr>m_name = name, m_size = 7, m_file = True, m_dir = False\<rparr>"

definition ex_archive_trace :: "(nact \<times> nresp) list" where
  "ex_archive_trace =
     [(Stat [''a''], RStat \<lparr>n_mode = 33152, n_uid = 1000, n_gid = 1000, n_size = 10240, n_mtime_ns = 0\<rparr>),
      (Stat [''a''], RStat \<lparr>n_mode = 33152, n_uid = 1000, n_gid = 1000, n_size = 10240, n_mtime_ns = 0\<rparr>),
      (TarTail [''a''], RText (replicate 1024 (CHR 0x00))),
      (TarNext, RMember (Some (ex_member METADATA))), (Extract, RBool True), (ReadStream, RText ''m''),
      (TarNext, RMember (Some (ex_member DATABASE))), (Extract, RBool True), (Consume, RInt 9),
      (TarNext, RMember (Some (ex_member ''lfs.tar.gz''))), (Extract, RBool True),
      (InnerNext, RMember (Some (ex_member ''lfs/a''))), (Consume, RInt 7), (InnerNext, RMember None), (Consume, RInt 0),
      (TarNext, RMember None)]"

lemma ex_safe: "safe_member (ex_member METADATA) = Inr METADATA" "safe_member (ex_member DATABASE) = Inr DATABASE"
  "safe_member (ex_member ''lfs.tar.gz'') = Inr ''lfs.tar.gz''" "safe_member (ex_member ''lfs/a'') = Inr ''lfs/a''"
  by code_simp+

definition ex_vacant :: "string list" where
  "ex_vacant = remove1 ''lfs'' BLOBS"

lemma ex_archive_runs: "runs (inspect_archive 4 [''a''] ex_vacant) ex_archive_trace (Ret ''m'')"
proof -
  have k: "\<not> component METADATA" "\<not> component DATABASE" "DATABASE \<noteq> METADATA" "METADATA \<noteq> DATABASE" "prefix ''db/'' DATABASE" "suffix ''.sql.gz'' DATABASE"
    "component ''lfs.tar.gz''" "''lfs.tar.gz'' \<noteq> METADATA" "''lfs.tar.gz'' \<noteq> DATABASE" "m_file (ex_member x)" "m_size (ex_member x) = 7" for x
    by code_simp+
  have v: "list_all (\<lambda>b. b \<in> set ex_vacant \<or> b @ ''.tar.gz'' \<in> set [''lfs.tar.gz'', DATABASE, METADATA]) BLOBS" by code_simp
  show ?thesis
    using v by (simp add: inspect_archive_def ex_archive_trace_def numeral_eq_Suc archive_member_def read_member_def ask_defs nrequire_def ex_safe k
        Let_def del: replicate.simps)
qed

theorem archive_complete_and_safe_witness:
  "good_payload (set ex_archive_trace) DATABASE \<and> good_payload (set ex_archive_trace) (''lfs'' @ ''.tar.gz'')
    \<and> (\<exists>keys. map safe_member (members ex_archive_trace) = map Inr keys \<and> distinct keys)"
proof -
  have "''lfs'' \<in> set BLOBS" "''lfs'' \<notin> set ex_vacant" by code_simp+
  with archive_complete_and_safe [OF ex_archive_runs] show ?thesis unfolding list_all_iff by blast
qed

end
