(* ===== verification/Migration_Jobs.thy ===== *)
theory Migration_Jobs
  imports Py_Text "HOL-Library.Product_Lexorder"
begin

section \<open>Versioned migration jobs\<close>

text \<open>
  \<^verbatim>\<open>scripts/validate_versioned_migration_jobs.py\<close>. The YAML parser and the programs that render a
  Kustomization are parameters: \<open>load\<close> gives the document of a text or the message of a YAML error, and
  \<open>run\<close> gives the outcome of a command. The text of the Kustomization, or the error of reading it, is an
  argument. An exception carries its class and its message. Progress lines are left out.
\<close>

subsection \<open>Mappings without duplicate keys\<close>

text \<open>
  \<^verbatim>\<open>construct_unique_mapping\<close> on the constructed keys and values of a node, where a construction may
  itself raise. Keys are compared as Python compares them: numbers and truth values across types.
\<close>

definition key_eq :: "jval \<Rightarrow> jval \<Rightarrow> bool" where
  "key_eq a b = (a = b \<or> number_of a \<noteq> None \<and> number_of a = number_of b)"

definition hashable :: "jval \<Rightarrow> bool" where
  "hashable k = (\<not> is_list k \<and> \<not> is_dict k)"

fun construct_unique_mapping :: "(jval \<times> jval) list \<Rightarrow> (jval res \<times> jval res) list \<Rightarrow> (jval \<times> jval) list res" where
  "construct_unique_mapping mapping [] = Inr mapping"
| "construct_unique_mapping mapping ((key, val) # nodes) =
     rbind key (\<lambda>k.
     if \<not> hashable k then Inl (PyError ''ConstructorError: found unhashable key'')
     else if list_ex (\<lambda>kv. key_eq k (fst kv)) mapping then Inl (PyError ''ConstructorError: duplicate mapping key'')
     else rbind val (\<lambda>v. construct_unique_mapping (mapping @ [(k, v)]) nodes))"

subsection \<open>The versions of a release\<close>

fun release_generators :: "nat \<Rightarrow> jval list \<Rightarrow> dict list res" where
  "release_generators index [] = Inr []"
| "release_generators index (g # gs) =
     (case g of
        JDict d \<Rightarrow>
          (case dget ''name'' d of
             JStr name \<Rightarrow>
               rbind (release_generators (Suc index) gs) (\<lambda>rest. Inr (if name = ''gitlab-release'' then d # rest else rest))
           | _ \<Rightarrow> Inl (value_error (''configMapGenerator['' @ show_nat index @ ''].name must be a string'')))
      | _ \<Rightarrow> Inl (value_error (''configMapGenerator['' @ show_nat index @ ''] must be a mapping'')))"

fun literal_values :: "nat \<Rightarrow> jval list \<Rightarrow> (string list \<times> string list) res" where
  "literal_values index [] = Inr ([], [])"
| "literal_values index (l # ls) =
     (case l of
        JStr literal \<Rightarrow>
          rbind (literal_values (Suc index) ls) (\<lambda>(apps, migrations).
          Inr (case partition_on (CHR ''='') literal of
                 (key, Some val) \<Rightarrow>
                   if key = ''appVersion'' then (val # apps, migrations)
                   else if key = ''migrationVersion'' then (apps, val # migrations) else (apps, migrations)
               | (key, None) \<Rightarrow> (apps, migrations)))
      | _ \<Rightarrow> Inl (value_error (''gitlab-release literals['' @ show_nat index @ ''] must be a string'')))"

definition parse_gitlab_release_versions :: "(string \<Rightarrow> string + jval) \<Rightarrow> string \<Rightarrow> (string \<times> string) res" where
  "parse_gitlab_release_versions load kustomization =
     (case load kustomization of
        Inl e \<Rightarrow> Inl (value_error (''invalid Kustomization YAML: '' @ e))
      | Inr (JDict document) \<Rightarrow>
          (case dget ''configMapGenerator'' document of
             JList generators \<Rightarrow>
               rbind (release_generators 0 generators) (\<lambda>found.
               (case found of
                  [g] \<Rightarrow>
                    (case dget ''literals'' g of
                       JList literals \<Rightarrow>
                         rbind (literal_values 0 literals) (\<lambda>(apps, migrations).
                         if length apps \<noteq> 1
                         then Inl (value_error (''expected exactly one appVersion literal, found '' @ show_nat (length apps)))
                         else if length migrations \<noteq> 1
                         then Inl (value_error (''expected exactly one migrationVersion literal, found '' @ show_nat (length migrations)))
                         else Inr (hd apps, hd migrations))
                     | _ \<Rightarrow> Inl (value_error ''gitlab-release literals must be a list''))
                | _ \<Rightarrow> Inl (value_error (''expected exactly one configMapGenerator named 'gitlab-release', found ''
                         @ show_nat (length found)))))
           | _ \<Rightarrow> Inl (value_error ''expected configMapGenerator to be a list''))
      | Inr _ \<Rightarrow> Inl (value_error ''expected Kustomization to be a mapping''))"

text \<open>The pattern \<^verbatim>\<open>v([1-9]\d*)\.([0-9]|1[01])\.(0|[1-9]\d*)\<close>; \<^verbatim>\<open>int\<close> refuses more than 4300 digits.\<close>

definition minor_ok :: "string \<Rightarrow> bool" where
  "minor_ok s = (length s = 1 \<and> list_all is_digit s \<or> s = ''10'' \<or> s = ''11'')"

definition invalid_version :: "string \<Rightarrow> exn" where
  "invalid_version version = value_error (''invalid GitLab version '' @ repr_str version @ ''; expected v<major>.<minor>.<patch>'')"

definition parse_gitlab_version :: "string \<Rightarrow> (nat \<times> nat \<times> nat) res" where
  "parse_gitlab_version version =
     (case split_on (CHR ''.'') (drop 1 version) of
        [a, b, c] \<Rightarrow>
          if prefix ''v'' version \<and> positive_decimal a \<and> minor_ok b \<and> decimal c then
            if length a \<le> 4300 \<and> length c \<le> 4300 then Inr (read_nat a, read_nat b, read_nat c)
            else Inl (value_error ''Exceeds the limit (4300 digits) for integer string conversion'')
          else Inl (invalid_version version)
      | _ \<Rightarrow> Inl (invalid_version version))"

definition validate_gitlab_version_drift :: "string \<Rightarrow> string \<Rightarrow> unit res" where
  "validate_gitlab_version_drift app_version migration_version =
     rbind (parse_gitlab_version app_version) (\<lambda>app.
     rbind (parse_gitlab_version migration_version) (\<lambda>migration.
     if migration < app
     then Inl (value_error (''migrationVersion '' @ repr_str migration_version @ '' is behind appVersion '' @ repr_str app_version))
     else
       (let (a0, a1, _) = app; (m0, m1, _) = migration;
            one_minor_ahead = ((m0, m1) = (a0, a1 + 1) \<or> a1 = 11 \<and> (m0, m1) = (a0 + 1, 0)) in
        if (m0, m1) = (a0, a1) \<or> one_minor_ahead then Inr ()
        else Inl (value_error (''migrationVersion '' @ repr_str migration_version @ '' is more than one minor release ahead of appVersion ''
               @ repr_str app_version)))))"

subsection \<open>Rendering\<close>

datatype outcome = NotFound | Failed string string string | Output string

text \<open>\<open>Failed\<close> carries the standard error, the standard output and the text of the exception.\<close>

fun render_with :: "(string list \<Rightarrow> outcome) \<Rightarrow> string list list \<Rightarrow> string res" where
  "render_with run [] = Inl (system_exit ''kustomize or kubectl is required'')"
| "render_with run (command # commands) =
     (case run command of
        NotFound \<Rightarrow> render_with run commands
      | Failed err out msg \<Rightarrow> Inl (system_exit (if err \<noteq> [] then err else if out \<noteq> [] then out else msg))
      | Output out \<Rightarrow> Inr out)"

definition render :: "(string list \<Rightarrow> outcome) \<Rightarrow> string \<Rightarrow> string res" where
  "render run p = render_with run [[''kustomize'', ''build'', p], [''kubectl'', ''kustomize'', p]]"

subsection \<open>Jobs in the rendered text\<close>

text \<open>\<^verbatim>\<open>str.split('---')\<close>.\<close>

fun split_dashes :: "string \<Rightarrow> string \<Rightarrow> string list" where
  "split_dashes acc [] = [rev acc]"
| "split_dashes acc (c # cs) =
     (if prefix ''---'' (c # cs) then rev acc # split_dashes [] (drop 2 cs) else split_dashes (c # acc) cs)"

record doc_state =
  ds_kind :: string
  ds_name :: string
  ds_image :: string
  ds_metadata :: bool

text \<open>\<^verbatim>\<open>line.split(':', 1)[1].strip()\<close>, where the line contains a colon.\<close>

definition after_colon :: "string \<Rightarrow> string" where
  "after_colon line = (case partition_on (CHR '':'') line of (_, Some rest) \<Rightarrow> strip rest | (_, None) \<Rightarrow> [])"

definition job_line :: "doc_state \<Rightarrow> string \<Rightarrow> doc_state" where
  "job_line s line =
     (if strip line = [] then s
      else
        (let s = (if prefix '' '' line then s else s\<lparr>ds_metadata := False\<rparr>) in
         if prefix ''kind:'' line then s\<lparr>ds_kind := after_colon line\<rparr>
         else if line = ''metadata:'' then s\<lparr>ds_metadata := True\<rparr>
         else if ds_metadata s \<and> prefix ''  name:'' line \<and> ds_name s = [] then s\<lparr>ds_name := after_colon line\<rparr>
         else if prefix ''image:'' (lstrip line) \<and> ds_image s = [] then s\<lparr>ds_image := after_colon line\<rparr>
         else s))"

definition job_document :: "string \<Rightarrow> (string \<times> string) list" where
  "job_document document =
     (let s = foldl job_line \<lparr>ds_kind = [], ds_name = [], ds_image = [], ds_metadata = False\<rparr> (splitlines document) in
      if ds_kind s = ''Job'' \<and> ds_name s \<noteq> [] \<and> ds_image s \<noteq> [] then [(ds_name s, ds_image s)] else [])"

definition parse_job_documents :: "string \<Rightarrow> (string \<times> string) list" where
  "parse_job_documents rendered = concat (map job_document (split_dashes [] rendered))"

text \<open>\<^verbatim>\<open>image.rsplit(':', 1)[1]\<close>.\<close>

definition image_tag :: "string \<Rightarrow> string" where
  "image_tag img = rev (takeWhile (\<lambda>c. c \<noteq> CHR '':'') (rev img))"

definition validate_job_name_matches_image :: "string \<Rightarrow> string \<Rightarrow> unit res" where
  "validate_job_name_matches_image name img =
     (if CHR '':'' \<notin> set img then Inl (system_exit (name @ '': image '' @ repr_str img @ '' is missing a tag''))
      else if occurs (''-'' @ image_tag img @ ''-'') name \<or> suffix (''-'' @ image_tag img) name then Inr ()
      else Inl (system_exit (name @ '': rendered job name does not contain image tag '' @ repr_str (image_tag img) @ '' from '' @ repr_str img)))"

subsection \<open>main\<close>

definition TARGETS :: "string list" where
  "TARGETS = [''apps/gitlab'', ''apps/feedback'']"

definition check_target :: "(string list \<Rightarrow> outcome) \<Rightarrow> string \<Rightarrow> unit res" where
  "check_target run p =
     rbind (render run p) (\<lambda>rendered.
     (let jobs = parse_job_documents rendered in
      if jobs = [] then Inl (system_exit (p @ '': no rendered Job found''))
      else rbind (rmap (\<lambda>(name, img). validate_job_name_matches_image name img) jobs) (\<lambda>_. Inr ())))"

definition migration_main :: "string res \<Rightarrow> (string \<Rightarrow> string + jval) \<Rightarrow> (string list \<Rightarrow> outcome) \<Rightarrow> int res" where
  "migration_main kustomization load run =
     (case rbind kustomization (\<lambda>txt. rbind (parse_gitlab_release_versions load txt) (\<lambda>(a, b). validate_gitlab_version_drift a b)) of
        Inl (PyError e) \<Rightarrow> Inl (system_exit (''apps/gitlab/kustomization.yaml: '' @ removeprefix ''ValueError: '' e))
      | Inl e \<Rightarrow> Inl e
      | Inr _ \<Rightarrow> rbind (rmap (check_target run) TARGETS) (\<lambda>_. Inr 0))"

subsection \<open>Versions as release numbers\<close>

text \<open>A release is a major and a minor number with twelve minors to a major, so releases are numbered consecutively.\<close>

definition release_index :: "nat \<times> nat \<times> nat \<Rightarrow> nat" where
  "release_index v = 12 * fst v + fst (snd v)"

definition print_version :: "nat \<times> nat \<times> nat \<Rightarrow> string" where
  "print_version v = ''v'' @ show_nat (fst v) @ ''.'' @ show_nat (fst (snd v)) @ ''.'' @ show_nat (snd (snd v))"

definition valid_version :: "nat \<times> nat \<times> nat \<Rightarrow> bool" where
  "valid_version v \<longleftrightarrow> 1 \<le> fst v \<and> fst (snd v) \<le> 11"

lemma minor_ok_le: "minor_ok b \<Longrightarrow> read_nat b \<le> 11"
proof -
  assume m: "minor_ok b"
  have "digit_val c \<le> 9" if "is_digit c" for c using that unfolding is_digit_def digit_val_def by linarith
  then show "read_nat b \<le> 11" using m
    by (cases b) (fastforce simp: minor_ok_def read_nat_def digit_val_def)+
qed

lemma read_nat_positive: "positive_decimal a \<Longrightarrow> 1 \<le> read_nat a"
proof -
  have grow: "n \<le> foldl (\<lambda>n c. 10 * n + digit_val c) n s" for n s
    by (induction s arbitrary: n) (simp, metis (no_types, lifting) foldl_Cons le_add1 le_trans mult_le_mono1 nat_mult_1 one_le_numeral trans_le_add1)
  assume p: "positive_decimal a"
  then obtain c cs where a: "a = c # cs" "is_digit c" "c \<noteq> CHR ''0''" by (cases a) (auto simp: positive_decimal_def)
  have "digit_val c \<noteq> 0"
  proof
    assume "digit_val c = 0"
    with a(2) have "(of_char c :: nat) = 48" by (simp add: is_digit_def digit_val_def)
    then have "(of_char c :: nat) = of_char (CHR ''0'')" by simp
    then have "c = CHR ''0''" by (simp only: of_char_eq_iff)
    with a(3) show False by simp
  qed
  with grow [of "digit_val c" cs] show ?thesis by (simp add: a(1) read_nat_def)
qed

lemma parse_version_valid: "parse_gitlab_version s = Inr v \<Longrightarrow> valid_version v"
proof -
  assume "parse_gitlab_version s = Inr v"
  then obtain a b c where "positive_decimal a" "minor_ok b" "v = (read_nat a, read_nat b, read_nat c)"
    by (auto simp: parse_gitlab_version_def split: list.splits if_splits)
  then show ?thesis using minor_ok_le read_nat_positive by (simp add: valid_version_def)
qed

lemma show_nat_no_dot: "CHR ''.'' \<notin> set (show_nat n)"
  using show_nat_digits [of n] by (auto simp: list_all_iff is_digit_def)

lemma show_nat_decimal: "decimal (show_nat n)" "n \<noteq> 0 \<Longrightarrow> positive_decimal (show_nat n)"
proof -
  have "show_nat 0 = ''0''" by code_simp
  then show "decimal (show_nat n)"
    using show_nat_digits [of n] show_nat_hd [of n] show_nat_nonempty [of n] by (cases "n = 0") (auto simp: decimal_def positive_decimal_def)
  show "n \<noteq> 0 \<Longrightarrow> positive_decimal (show_nat n)"
    using show_nat_digits [of n] show_nat_hd [of n] show_nat_nonempty [of n] by (simp add: positive_decimal_def)
qed

lemma minor_ok_show: "n \<le> 11 \<Longrightarrow> minor_ok (show_nat n)"
proof (cases "n < 10")
  case True
  then show ?thesis by (simp add: minor_ok_def show_nat.simps [of n])
next
  case False
  assume "n \<le> 11"
  with False have "n = 10 \<or> n = 11" by auto
  moreover have "show_nat 10 = ''10''" "show_nat 11 = ''11''" by code_simp+
  ultimately show ?thesis by (auto simp: minor_ok_def)
qed

lemma parse_print_version:
  assumes "valid_version (a, b, c)" and "length (show_nat a) \<le> 4300" and "length (show_nat c) \<le> 4300"
  shows "parse_gitlab_version (print_version (a, b, c)) = Inr (a, b, c)"
proof -
  have "split_on (CHR ''.'') (show_nat a @ ''.'' @ show_nat b @ ''.'' @ show_nat c) = [show_nat a, show_nat b, show_nat c]"
    by (simp add: split_on_append split_on_no_char show_nat_no_dot)
  moreover have "positive_decimal (show_nat a)" "minor_ok (show_nat b)" "decimal (show_nat c)"
    using assms(1) by (auto simp: valid_version_def show_nat_decimal minor_ok_show)
  ultimately show ?thesis using assms(2,3) by (simp add: parse_gitlab_version_def print_version_def read_show_nat)
qed

lemma drift_index:
  assumes "valid_version (a0, a1, a2)" and "valid_version (m0, m1, m2)" and "(a0, a1, a2) \<le> (m0, m1, m2)"
  shows "(m0 = a0 \<and> m1 = a1 \<or> m0 = a0 \<and> m1 = a1 + 1 \<or> a1 = 11 \<and> m0 = a0 + 1 \<and> m1 = 0)
    \<longleftrightarrow> release_index (m0, m1, m2) \<le> release_index (a0, a1, a2) + 1"
proof -
  have b: "a1 \<le> 11" "m1 \<le> 11" using assms(1,2) by (auto simp: valid_version_def)
  have o: "a0 < m0 \<or> a0 = m0 \<and> a1 \<le> m1" using assms(3) by auto
  show ?thesis using b o by (auto simp: release_index_def)
qed

end
