(* ===== verification/Py_Pattern.thy ===== *)
theory Py_Pattern
  imports Py_Text
begin

section \<open>Patterns with one group of digits\<close>

text \<open>
  The patterns that the validators search in texts are sequences of these elements, with one group of
  digits. Spaces, digits and quotes never overlap with what follows them, so that a greedy match needs
  no backtracking.
\<close>

datatype pat = Lit string | Spaces | Spaces1 | Quote | Digits | Boundary

text \<open>The result is the digits of the group and the rest of the text. \<open>prev\<close> is the character before the position.\<close>

fun match_at :: "pat list \<Rightarrow> char option \<Rightarrow> string \<Rightarrow> string \<Rightarrow> (string \<times> string) option" where
  "match_at [] prev grp s = Some (grp, s)"
| "match_at (Lit l # ps) prev grp s =
     (if prefix l s then match_at ps (if l = [] then prev else Some (last l)) grp (drop (length l) s) else None)"
| "match_at (Spaces # ps) prev grp s =
     match_at ps (if s \<noteq> [] \<and> blank (hd s) then Some (CHR '' '') else prev) grp (dropWhile blank s)"
| "match_at (Spaces1 # ps) prev grp s =
     (if s \<noteq> [] \<and> blank (hd s) then match_at ps (Some (CHR '' '')) grp (dropWhile blank s) else None)"
| "match_at (Quote # ps) prev grp s =
     (if s \<noteq> [] \<and> hd s = CHR 0x27 then match_at ps (Some (CHR 0x27)) grp (tl s) else match_at ps prev grp s)"
| "match_at (Digits # ps) prev grp s =
     (if s \<noteq> [] \<and> is_digit (hd s) then match_at ps (Some (CHR ''0'')) (takeWhile is_digit s) (dropWhile is_digit s) else None)"
| "match_at (Boundary # ps) prev grp s =
     (if (prev \<noteq> None \<and> word_char (the prev)) \<noteq> (s \<noteq> [] \<and> word_char (hd s)) then match_at ps prev grp s else None)"

text \<open>\<^verbatim>\<open>re.search\<close> and \<^verbatim>\<open>re.findall\<close>.\<close>

fun search :: "pat list \<Rightarrow> char option \<Rightarrow> string \<Rightarrow> string option" where
  "search ps prev [] = (case match_at ps prev [] [] of None \<Rightarrow> None | Some (g, _) \<Rightarrow> Some g)"
| "search ps prev (c # cs) =
     (case match_at ps prev [] (c # cs) of Some (g, _) \<Rightarrow> Some g | None \<Rightarrow> search ps (Some c) cs)"

fun find_all :: "nat \<Rightarrow> pat list \<Rightarrow> char option \<Rightarrow> string \<Rightarrow> string list" where
  "find_all 0 ps prev s = []"
| "find_all (Suc n) ps prev [] = []"
| "find_all (Suc n) ps prev (c # cs) =
     (case match_at ps prev [] (c # cs) of
        Some (g, rest) \<Rightarrow> g # find_all n ps (Some (last g)) rest
      | None \<Rightarrow> find_all n ps (Some c) cs)"

definition to_int :: "string \<Rightarrow> int res" where
  "to_int digits = (if length digits \<le> 4300 then Inr (int (read_nat digits)) else Inl (PyError ''ValueError''))"

lemma search_finds:
  "search ps prev s = Some g \<Longrightarrow> \<exists>a b prev' rest. s = a @ b \<and> match_at ps prev' [] b = Some (g, rest)"
proof (induction ps prev s rule: search.induct)
  case (1 ps prev)
  then show ?case by (intro exI [of _ "[]"] exI [of _ "[]"]) (auto split: option.splits)
next
  case (2 ps prev c cs)
  show ?case
  proof (cases "match_at ps prev [] (c # cs)")
    case None
    with 2 obtain a b prev' rest where "cs = a @ b" "match_at ps prev' [] b = Some (g, rest)" by auto
    then show ?thesis by (intro exI [of _ "c # a"] exI [of _ b]) auto
  next
    case (Some x)
    with 2(2) show ?thesis by (intro exI [of _ "[]"] exI [of _ "c # cs"]) (auto split: prod.splits)
  qed
qed

end
