(* ===== verification/Postgres_Budget.thy ===== *)
theory Postgres_Budget
  imports Py_Pattern
begin

section \<open>The connection budget of the shared PostgreSQL server\<close>

text \<open>
  \<^verbatim>\<open>scripts/validate_shared_postgres_budget.py\<close>. The files of the repository are arguments: \<open>files\<close>
  lists the YAML files the two globs give, with their texts, and \<open>read_file\<close> reads one file. \<open>helm\<close> is
  the exit status of the GitLab Helm validator, which runs as a separate process. The result is
  the exit status. The lines printed are left out.
\<close>

definition SHARED_POSTGRES_MAX_CONNECTIONS :: int where
  "SHARED_POSTGRES_MAX_CONNECTIONS = 100"

definition SUPERUSER_RESERVED_CONNECTIONS :: int where
  "SUPERUSER_RESERVED_CONNECTIONS = 3"

definition UNBUDGETED_HEADROOM :: int where
  "UNBUDGETED_HEADROOM = 25"

definition expect_int :: "pat list \<Rightarrow> string \<Rightarrow> string \<Rightarrow> int res" where
  "expect_int pattern contents description =
     (case search pattern None contents of
        None \<Rightarrow> Inl (PyError (''ValueError: could not find '' @ description))
      | Some g \<Rightarrow> to_int g)"

subsection \<open>Consumers\<close>

definition DB_MARKERS :: "string list" where
  "DB_MARKERS = [''postgresql://'', ''jdbc:postgresql'', ''POSTGRES_HOST'', ''DB_TYPE'', ''DB_MAX_CONNS'', ''KC_DB'', ''database:'',
     ''adapter: postgresql'']"

definition consumer_text :: "string \<Rightarrow> bool" where
  "consumer_text contents = (occurs ''192.168.1.10'' contents \<and> list_ex (\<lambda>m. occurs m contents) DB_MARKERS)"

definition find_shared_postgres_consumers :: "(string \<times> string) list \<Rightarrow> string list" where
  "find_shared_postgres_consumers files = map fst (filter (\<lambda>f. consumer_text (snd f)) files)"

subsection \<open>main\<close>

definition FILER :: string where
  "FILER = ''infrastructure/storage/seaweedfs/core/configmap-default-seaweedfs-filer-config.yaml''"

definition RAILS :: string where
  "RAILS = ''apps/gitlab/configmap-default-gitlab-config-templates.yaml''"

definition SYNAPSE :: string where
  "SYNAPSE = ''apps/matrix/configmap-default-synapse-config.yaml''"

definition MAS :: string where
  "MAS = ''apps/matrix/configmap-default-mas-config-template.yaml''"

definition IRIS :: string where
  "IRIS = ''apps/iris/deployment-default-iris.yaml''"

definition HELM_CANDIDATE :: string where
  "HELM_CANDIDATE = ''apps/gitlab-helm/helmrelease.yaml''"

definition EXPECTED_FILES :: "string list" where
  "EXPECTED_FILES = [RAILS, ''apps/keycloak/deployment-default-keycloak.yaml'', MAS, SYNAPSE,
     ''apps/nextcloud/deployment-default-nextcloud.yaml'', ''apps/seerr/deployment-default-seerr.yaml'']"

text \<open>The pools in the order of the dictionary.\<close>

definition budgeted_components :: "(string \<Rightarrow> string res) \<Rightarrow> int list res" where
  "budgeted_components read_file =
     rbind (read_file FILER) (\<lambda>t1.
     rbind (expect_int [Lit ''connection_max_open'', Spaces, Lit ''='', Spaces, Digits] t1 ''SeaweedFS filer connection_max_open'') (\<lambda>filer.
     rbind (read_file RAILS) (\<lambda>t2.
     rbind (rmap to_int (find_all (length t2) [Boundary, Lit ''pool:'', Spaces, Digits] None t2)) (\<lambda>pools.
     rbind (read_file SYNAPSE) (\<lambda>t3.
     rbind (expect_int [Boundary, Lit ''cp_max:'', Spaces, Digits] t3 ''Synapse cp_max'') (\<lambda>synapse.
     rbind (read_file MAS) (\<lambda>t4.
     rbind (expect_int [Boundary, Lit ''max_connections:'', Spaces, Digits] t4 ''MAS max_connections'') (\<lambda>mas.
     rbind (read_file IRIS) (\<lambda>t5.
     rbind (expect_int [Lit ''- name: DB_MAX_CONNS'', Spaces1, Lit ''value:'', Spaces1, Quote, Digits, Quote] t5 ''Iris DB_MAX_CONNS'') (\<lambda>iris.
     Inr [filer, sum_list pools, synapse, mas, iris]))))))))))"

definition safe_budget :: int where
  "safe_budget = SHARED_POSTGRES_MAX_CONNECTIONS - SUPERUSER_RESERVED_CONNECTIONS - UNBUDGETED_HEADROOM"

text \<open>The end of \<^verbatim>\<open>main\<close>: consumers and budget against what is expected.\<close>

definition budget_verdict :: "string list \<Rightarrow> string list \<Rightarrow> int list \<Rightarrow> int" where
  "budget_verdict expected discovered pools =
     (let unexpected = filter (\<lambda>f. f \<notin> set expected) discovered; missing = filter (\<lambda>f. f \<notin> set discovered) expected in
      if unexpected \<noteq> [] then 1
      else if missing \<noteq> [] then 1
      else if sum_list pools > safe_budget then 1
      else 0)"

definition budget_main :: "(string \<Rightarrow> string res) \<Rightarrow> (string \<times> string) list \<Rightarrow> int \<Rightarrow> int res" where
  "budget_main read_file files helm =
     rbind (budgeted_components read_file) (\<lambda>pools.
     (let discovered = find_shared_postgres_consumers files in
      if HELM_CANDIDATE \<in> set discovered then
        (if helm \<noteq> 0 then Inr helm else Inr (budget_verdict (HELM_CANDIDATE # EXPECTED_FILES) discovered pools))
      else Inr (budget_verdict EXPECTED_FILES discovered pools)))"

end
