(* ===== verification/Validator_Properties.thy ===== *)
theory Validator_Properties
  imports Migration_Jobs Postgres_Budget
begin

section \<open>Properties of the validators of versions and budgets\<close>

text \<open>
  What acceptance by the validators of migration jobs and of the PostgreSQL budget means, and that the
  version parser is exact.
\<close>

subsection \<open>Decimal texts without leading zeros\<close>

lemma digit_digit_val: "is_digit c \<Longrightarrow> digit (digit_val c) = c"
  unfolding is_digit_def digit_val_def digit_def by simp

lemma digit_val_less: "is_digit c \<Longrightarrow> digit_val c < 10"
  unfolding is_digit_def digit_val_def by linarith

lemma read_nat_snoc: "read_nat (s @ [c]) = 10 * read_nat s + digit_val c"
  by (simp add: read_nat_def)

lemma show_read_positive: "positive_decimal s \<Longrightarrow> show_nat (read_nat s) = s"
proof (induction s rule: rev_induct)
  case (snoc c s)
  have c: "is_digit c" using snoc.prems by (simp add: positive_decimal_def)
  show ?case
  proof (cases "s = []")
    case True
    with c show ?thesis by (simp add: read_nat_def show_nat.simps [of "digit_val c"] digit_val_less digit_digit_val)
  next
    case False
    with snoc.prems have p: "positive_decimal s" by (simp add: positive_decimal_def)
    have r: "1 \<le> read_nat s" by (rule read_nat_positive [OF p])
    have "read_nat (s @ [c]) div 10 = read_nat s" "read_nat (s @ [c]) mod 10 = digit_val c"
      using digit_val_less [OF c] by (simp_all add: read_nat_snoc)
    moreover have "\<not> read_nat (s @ [c]) < 10" using r by (simp add: read_nat_snoc)
    ultimately show ?thesis using snoc.IH [OF p] by (simp add: show_nat.simps [of "read_nat (s @ [c])"] digit_digit_val c)
  qed
qed (simp add: positive_decimal_def)

lemma show_read_decimal: "decimal s \<Longrightarrow> show_nat (read_nat s) = s"
proof -
  have "show_nat (read_nat ''0'') = ''0''" by code_simp
  then show "decimal s \<Longrightarrow> ?thesis" using show_read_positive by (auto simp: decimal_def)
qed

lemma minor_ok_decimal: "minor_ok s \<Longrightarrow> decimal s"
proof -
  have "decimal ''10''" "decimal ''11''" by code_simp+
  then show "minor_ok s \<Longrightarrow> ?thesis"
    by (cases s) (auto simp: minor_ok_def decimal_def positive_decimal_def)
qed

lemma print_parsed:
  assumes "parse_gitlab_version s = Inr v"
  shows "s = print_version v \<and> length (show_nat (fst v)) \<le> 4300 \<and> length (show_nat (snd (snd v))) \<le> 4300"
proof -
  obtain a b c where abc: "split_on (CHR ''.'') (drop 1 s) = [a, b, c]" "prefix ''v'' s" "positive_decimal a" "minor_ok b" "decimal c"
      "v = (read_nat a, read_nat b, read_nat c)" "length a \<le> 4300" "length c \<le> 4300"
    using assms by (auto simp: parse_gitlab_version_def split: list.splits if_splits)
  have "drop 1 s = a @ ''.'' @ b @ ''.'' @ c" using join_split_on [of "CHR ''.''" "drop 1 s"] unfolding abc(1) by simp
  moreover have "s = ''v'' @ drop 1 s" using abc(2) by (auto simp: prefix_def)
  ultimately show ?thesis
    using abc(3-8) by (simp add: print_version_def show_read_positive show_read_decimal minor_ok_decimal)
qed

subsection \<open>Versions\<close>

text \<open>
  (C24) The version parser is exact: it accepts precisely the texts that the printer gives for valid
  versions, that is with a positive major, a minor of at most eleven, no leading zeros and numbers
  within the interpreter's limit of 4300 digits, and it returns the version printed.
\<close>

theorem version_parser_exact:
  "parse_gitlab_version s = Inr v \<longleftrightarrow>
     s = print_version v \<and> valid_version v \<and> length (show_nat (fst v)) \<le> 4300 \<and> length (show_nat (snd (snd v))) \<le> 4300"
  using print_parsed [of s v] parse_version_valid [of s v] parse_print_version [of "fst v" "fst (snd v)" "snd (snd v)"] by auto

lemma drift_exact:
  "validate_gitlab_version_drift a m = Inr () \<longleftrightarrow>
     (\<exists>va vm. parse_gitlab_version a = Inr va \<and> parse_gitlab_version m = Inr vm
        \<and> va \<le> vm \<and> release_index vm \<le> release_index va + 1)"
proof -
  have core: "rbind (if vm < va then Inl e else f) g = Inr () \<longleftrightarrow> va \<le> vm \<and> rbind f g = Inr ()"
    for e :: exn and f :: "unit res" and g :: "unit \<Rightarrow> unit res" and va vm :: "nat \<times> nat \<times> nat"
    by (auto simp: rbind_def not_less)
  show ?thesis
  proof (cases "parse_gitlab_version a")
    case (Inl e)
    then show ?thesis by (simp add: validate_gitlab_version_drift_def rbind_def)
  next
    case (Inr va)
    note a = this
    show ?thesis
    proof (cases "parse_gitlab_version m")
      case (Inl e)
      with a show ?thesis by (simp add: validate_gitlab_version_drift_def rbind_def)
    next
      case (Inr vm)
      obtain a0 a1 a2 m0 m1 m2 where v: "va = (a0, a1, a2)" "vm = (m0, m1, m2)" by (metis prod_cases3)
      have "valid_version (a0, a1, a2)" "valid_version (m0, m1, m2)" using parse_version_valid a Inr v by auto
      note d = drift_index [OF this]
      show ?thesis
      proof (cases "va \<le> vm")
        case True
        with d [OF True [unfolded v]] a Inr v show ?thesis
          by (auto simp: validate_gitlab_version_drift_def rbind_def not_less [symmetric])
      next
        case False
        with a Inr show ?thesis by (auto simp: validate_gitlab_version_drift_def rbind_def not_le)
      qed
    qed
  qed
qed

subsection \<open>Jobs\<close>

text \<open>A name carries a tag: the tag follows a hyphen and ends the name or precedes another hyphen.\<close>

definition carries_tag :: "string \<Rightarrow> string \<Rightarrow> bool" where
  "carries_tag name tag \<longleftrightarrow> (\<exists>a b. name = a @ ''-'' @ tag @ b \<and> (b = [] \<or> hd b = CHR ''-''))"

lemma name_matches_exact:
  "validate_job_name_matches_image name img = Inr () \<longleftrightarrow> (\<exists>repo tag. img = repo @ '':'' @ tag \<and> CHR '':'' \<notin> set tag \<and> carries_tag name tag)"
proof -
  have tag: "image_tag (repo @ '':'' @ t) = t" if "CHR '':'' \<notin> set t" for repo t
  proof -
    have "takeWhile (\<lambda>c. c \<noteq> CHR '':'') (rev t) = rev t" using that by (auto simp: takeWhile_eq_all_conv)
    with that show ?thesis by (simp add: image_tag_def takeWhile_append)
  qed
  have car: "occurs (''-'' @ t @ ''-'') name \<or> suffix (''-'' @ t) name \<longleftrightarrow> carries_tag name t" for t
    unfolding occurs_iff suffix_def carries_tag_def
  proof (safe, goal_cases)
    case (1 a b) then show ?case by (intro exI [of _ a] exI [of _ "''-'' @ b"]) simp
  next
    case (2 zs) then show ?case by (intro exI [of _ zs] exI [of _ "[]"]) simp
  next
    case (3 a b) then show ?case by simp
  next
    case (4 a b) then show ?case by (cases b) auto
  qed
  have "CHR '':'' \<in> set img \<longleftrightarrow> (\<exists>repo t. img = repo @ '':'' @ t \<and> CHR '':'' \<notin> set t)"
    using split_list_last [of "CHR '':''" img] by auto
  then have "CHR '':'' \<in> set img \<and> carries_tag name (image_tag img) \<longleftrightarrow>
      (\<exists>repo t. img = repo @ '':'' @ t \<and> CHR '':'' \<notin> set t \<and> carries_tag name t)"
    using tag by metis
  then show ?thesis unfolding validate_job_name_matches_image_def car by (auto split: if_split_asm)
qed


text \<open>
  (C23) The migration validator ends with status 0 exactly when the two versions of the Kustomization are
  valid, the migration version is not behind the application version and its release is at most one
  ahead (with releases numbered consecutively, twelve minors to a major), and each of the two targets
  renders to at least one Job, the name of each of them carrying the tag of its image between
  hyphens or at the end.
\<close>

theorem migration_accepts_exactly:
  "migration_main kustomization load run = Inr 0 \<longleftrightarrow>
     (\<exists>txt va vm. kustomization = Inr txt
        \<and> parse_gitlab_release_versions load txt = Inr (print_version va, print_version vm)
        \<and> parse_gitlab_version (print_version va) = Inr va \<and> parse_gitlab_version (print_version vm) = Inr vm
        \<and> va \<le> vm \<and> release_index vm \<le> release_index va + 1)
   \<and> list_all (\<lambda>p. \<exists>rendered. render run p = Inr rendered \<and> parse_job_documents rendered \<noteq> []
        \<and> list_all (\<lambda>(name, img). \<exists>repo tag. img = repo @ '':'' @ tag \<and> CHR '':'' \<notin> set tag \<and> carries_tag name tag)
            (parse_job_documents rendered)) TARGETS"
proof -
  have target: "check_target run p = Inr u \<longleftrightarrow>
      (\<exists>rendered. render run p = Inr rendered \<and> parse_job_documents rendered \<noteq> []
        \<and> list_all (\<lambda>(name, img). \<exists>repo tag. img = repo @ '':'' @ tag \<and> CHR '':'' \<notin> set tag \<and> carries_tag name tag)
            (parse_job_documents rendered))" for p u
    unfolding check_target_def Let_def rbind_eq_Inr name_matches_exact [symmetric]
    by (auto simp: rbind_eq_Inr rmap_total split_def)
  have versions: "rbind kustomization (\<lambda>txt. rbind (parse_gitlab_release_versions load txt) (\<lambda>(a, b). validate_gitlab_version_drift a b)) = Inr u
      \<longleftrightarrow> (\<exists>txt va vm. kustomization = Inr txt
        \<and> parse_gitlab_release_versions load txt = Inr (print_version va, print_version vm)
        \<and> parse_gitlab_version (print_version va) = Inr va \<and> parse_gitlab_version (print_version vm) = Inr vm
        \<and> va \<le> vm \<and> release_index vm \<le> release_index va + 1)" for u
  proof -
    have "validate_gitlab_version_drift a m = Inr () \<longleftrightarrow>
        (\<exists>va vm. a = print_version va \<and> m = print_version vm \<and> parse_gitlab_version (print_version va) = Inr va
          \<and> parse_gitlab_version (print_version vm) = Inr vm \<and> va \<le> vm \<and> release_index vm \<le> release_index va + 1)" for a m
      unfolding drift_exact using print_parsed by metis
    then show ?thesis unfolding rbind_eq_Inr split_def by (simp del: split_paired_Ex) (metis prod.collapse fst_conv snd_conv)
  qed
  have main: "migration_main kustomization load run = Inr 0 \<longleftrightarrow>
      (\<exists>u. rbind kustomization (\<lambda>txt. rbind (parse_gitlab_release_versions load txt) (\<lambda>(a, b). validate_gitlab_version_drift a b)) = Inr u)
      \<and> list_all (\<lambda>p. \<exists>u. check_target run p = Inr u) TARGETS"
    unfolding migration_main_def by (auto simp: rbind_eq_Inr rmap_total split: sum.splits exn.splits)
  show ?thesis unfolding main target versions by simp
qed

text \<open>
  Splitting the rendered text at every occurrence of three hyphens also cuts a Job that has them inside,
  say in an annotation or in an argument, and then the Job is not seen at all: here one with a tag
  that its name does not carry.
\<close>

definition dashed_manifest :: string where
  "dashed_manifest = join [CHR 0x0A] [''kind: Job'', ''metadata:'', ''  annotations:'', ''    note: before --- after'',
     ''  name: migrate-v1'', ''spec:'', ''  image: repo:v2'']"

theorem dashed_job_is_missed:
  "parse_job_documents dashed_manifest = []"
  "parse_job_documents (replace_all '' --- '' '', '' dashed_manifest) = [(''migrate-v1'', ''repo:v2'')]"
  by code_simp+

subsection \<open>Mappings\<close>

text \<open>
  The loader accepts a mapping exactly when every key and value can be constructed, every key is hashable and
  no key equals an earlier one in the sense of Python, and then the mapping is the list of its entries.
\<close>

theorem unique_mapping_exact:
  "construct_unique_mapping [] nodes = Inr mapping \<longleftrightarrow>
     nodes = map (\<lambda>(k, v). (Inr k, Inr v)) mapping \<and> list_all (\<lambda>(k, v). hashable k) mapping
     \<and> sorted_wrt (\<lambda>(k1, _) (k2, _). \<not> key_eq k2 k1) mapping"
proof -
  have "construct_unique_mapping before nodes = Inr mapping \<longleftrightarrow>
     (\<exists>rest. mapping = before @ rest \<and> nodes = map (\<lambda>(k, v). (Inr k, Inr v)) rest \<and> list_all (\<lambda>(k, v). hashable k) rest
     \<and> sorted_wrt (\<lambda>(k1, _) (k2, _). \<not> key_eq k2 k1) rest
     \<and> list_all (\<lambda>(k2, _). list_all (\<lambda>(k1, _). \<not> key_eq k2 k1) before) rest)" for before
  proof (induction nodes arbitrary: before)
    case (Cons n nodes)
    obtain key val where n: "n = (key, val)" by (cases n)
    show ?case
      unfolding n construct_unique_mapping.simps rbind_eq_Inr
      by (auto simp: Cons.IH rbind_eq_Inr list_ex_iff list_all_iff split_def Cons_eq_map_conv) (rule exI, auto)
  qed auto
  from this [of "[]"] show ?thesis by (auto simp: list_all_iff)
qed

subsection \<open>The PostgreSQL budget\<close>

text \<open>
  (C25) The budget validator ends with status 0 exactly when all pools can be read and their sum is at
  most 72, and one of two cases holds for the set of files that mention the shared server: it does not contain the Helm
  candidate \<^verbatim>\<open>apps/gitlab-helm/helmrelease.yaml\<close> and is exactly the set of expected files, or it is exactly
  the expected files together with the candidate, and the validator of the candidate ended with status 0.
\<close>

theorem budget_accepts_exactly:
  "budget_main read_file files helm = Inr 0 \<longleftrightarrow>
     (\<exists>pools. budgeted_components read_file = Inr pools \<and> sum_list pools \<le> 72
       \<and> (let found = set (find_shared_postgres_consumers files) in
          if HELM_CANDIDATE \<in> found then helm = 0 \<and> found = set (HELM_CANDIDATE # EXPECTED_FILES)
          else found = set EXPECTED_FILES))"
proof -
  have b: "safe_budget = 72"
    by (simp add: safe_budget_def SHARED_POSTGRES_MAX_CONNECTIONS_def SUPERUSER_RESERVED_CONNECTIONS_def UNBUDGETED_HEADROOM_def)
  have v: "budget_verdict expected discovered pools = 0 \<longleftrightarrow> set discovered = set expected \<and> sum_list pools \<le> 72"
    for expected discovered pools
    unfolding budget_verdict_def Let_def filter_empty_conv b by auto
  show ?thesis
    unfolding budget_main_def Let_def rbind_eq_Inr by (auto simp: v split: if_splits)
qed

end
