(* ===== verification/Py_Base64.thy ===== *)
theory Py_Base64
  imports Py_Text
begin

section \<open>Base64\<close>

text \<open>
  \<^verbatim>\<open>base64.b64decode\<close> without validation: characters outside the alphabet are skipped, and enough
  padding after two or three characters of a group ends the text. The state has the position in the
  group, the bits left over and the number of padding characters seen in a row. Text that is not ASCII and text
  that ends within a group raise, which is \<open>None\<close> here.
\<close>

definition b64_val :: "char \<Rightarrow> nat option" where
  "b64_val c = (let n = (of_char c :: nat) in
     if 65 \<le> n \<and> n \<le> 90 then Some (n - 65)
     else if 97 \<le> n \<and> n \<le> 122 then Some (n - 71)
     else if 48 \<le> n \<and> n \<le> 57 then Some (n + 4)
     else if n = 43 then Some 62 else if n = 47 then Some 63 else None)"

fun a2b_base64 :: "nat \<Rightarrow> nat \<Rightarrow> nat \<Rightarrow> string \<Rightarrow> string option" where
  "a2b_base64 quad_pos left pads [] = (if quad_pos = 0 then Some [] else None)"
| "a2b_base64 quad_pos left pads (c # cs) =
     (if c = CHR ''='' then
        if 2 \<le> quad_pos then
          if 4 \<le> quad_pos + pads + 1 then Some [] else a2b_base64 quad_pos left (pads + 1) cs
        else a2b_base64 quad_pos left pads cs
      else
        (case b64_val c of
           None \<Rightarrow> a2b_base64 quad_pos left pads cs
         | Some v \<Rightarrow>
             if quad_pos = 0 then a2b_base64 1 v 0 cs
             else if quad_pos = 1 then map_option ((#) (char_of (left * 4 + v div 16))) (a2b_base64 2 (v mod 16) 0 cs)
             else if quad_pos = 2 then map_option ((#) (char_of (left * 16 + v div 4))) (a2b_base64 3 (v mod 4) 0 cs)
             else map_option ((#) (char_of (left * 64 + v))) (a2b_base64 0 0 0 cs)))"

definition b64decode :: "jval \<Rightarrow> string option" where
  "b64decode v = (case v of
      JStr s \<Rightarrow> if list_all (\<lambda>c. (of_char c :: nat) < 128) s then a2b_base64 0 0 0 s else None
    | _ \<Rightarrow> None)"

subsection \<open>A reference encoder\<close>

text \<open>With padding; the decoder inverts it.\<close>

definition b64_char :: "nat \<Rightarrow> char" where
  "b64_char v = char_of (if v < 26 then v + 65 else if v < 52 then v + 71 else if v < 62 then v - 4 else if v = 62 then 43 else 47)"

definition byte :: "char \<Rightarrow> nat" where
  "byte c = of_char c"

fun b64encode :: "string \<Rightarrow> string" where
  "b64encode [] = []"
| "b64encode [x] = [b64_char (byte x div 4), b64_char (byte x mod 4 * 16)] @ ''==''"
| "b64encode [x, y] = [b64_char (byte x div 4), b64_char (byte x mod 4 * 16 + byte y div 16), b64_char (byte y mod 16 * 4)] @ ''=''"
| "b64encode (x # y # z # s) =
     [b64_char (byte x div 4), b64_char (byte x mod 4 * 16 + byte y div 16), b64_char (byte y mod 16 * 4 + byte z div 64), b64_char (byte z mod 64)]
     @ b64encode s"

lemma of_b64_char: "v < 64 \<Longrightarrow> (of_char (b64_char v) :: nat) =
    (if v < 26 then v + 65 else if v < 52 then v + 71 else if v < 62 then v - 4 else if v = 62 then 43 else 47)"
  unfolding b64_char_def by (simp only: of_char_of) (simp add: mod_less)

lemma b64_char_props [simp]:
  assumes "v < 64"
  shows "b64_val (b64_char v) = Some v" "b64_char v \<noteq> CHR ''=''" "(of_char (b64_char v) :: nat) < 128"
proof -
  show "b64_val (b64_char v) = Some v" "(of_char (b64_char v) :: nat) < 128"
    using assms unfolding b64_val_def Let_def of_b64_char [OF assms] by (simp_all, presburger+)
  show "b64_char v \<noteq> CHR ''=''"
  proof
    assume "b64_char v = CHR ''=''"
    then have "(of_char (b64_char v) :: nat) = of_char (CHR ''='')" by simp
    with assms show False unfolding of_b64_char [OF assms] by (simp split: if_splits)
  qed
qed

lemma byte_less [simp]: "byte c < 256"
  unfolding byte_def by simp

lemma char_of_byte [simp]: "char_of (byte c) = c"
  by (simp add: byte_def)

lemma byte_bounds:
  "byte x div 4 < 64" "byte x mod 4 * 16 + byte y div 16 < 64" "byte y mod 16 * 4 + byte z div 64 < 64" "byte z mod 64 < 64"
  "byte x mod 4 * 16 < 64" "byte y mod 16 * 4 < 64"
proof -
  have d: "byte x div 4 < 64" "byte y div 16 < 16" "byte z div 64 < 4"
    using byte_less [of x] byte_less [of y] byte_less [of z] by (simp_all add: less_mult_imp_div_less del: byte_less)
  have m: "byte x mod 4 < 4" "byte y mod 16 < 16" "byte z mod 64 < 64" by simp_all
  show "byte x div 4 < 64" "byte x mod 4 * 16 + byte y div 16 < 64" "byte y mod 16 * 4 + byte z div 64 < 64" "byte z mod 64 < 64"
    "byte x mod 4 * 16 < 64" "byte y mod 16 * 4 < 64"
    using d m by linarith+
qed

lemma byte_div: "byte y div 16 mod 16 = byte y div 16" "byte z div 64 mod 4 = byte z div 64" "byte y div 16 div 16 = 0" "byte z div 64 div 4 = 0"
  using byte_less [of y] byte_less [of z] by (simp_all add: div_mult2_eq [symmetric] less_mult_imp_div_less del: byte_less)

lemmas bytes_arith = byte_bounds byte_div

lemma a2b_encode: "a2b_base64 0 0 0 (b64encode s) = Some s"
  by (induction s rule: b64encode.induct) (simp_all add: bytes_arith)

lemma encode_ascii: "list_all (\<lambda>c. (of_char c :: nat) < 128) (b64encode s)"
  by (induction s rule: b64encode.induct) (simp_all add: bytes_arith)

end
