(* ===== verification/Bucket_Audit.thy ===== *)
theory Bucket_Audit
  imports Py_Pattern Py_Base64
begin

section \<open>The audit of the SeaweedFS buckets\<close>

text \<open>
  \<^verbatim>\<open>scripts/audit_seaweedfs_buckets.py\<close>. The world outside the script is a record of functions: the
  outcome of a command (its exit status, output and error output, or an exception), what a path of the
  repository is, the text of a file (\<open>None\<close> when it is not UTF-8), the UTF-8 decoder that drops invalid bytes
  (strings of the model end at code point 255), and the text of a float. Every command is run once with its
  input. Paths are relative to the root of the repository, as lists of components.
\<close>

record command_result =
  returncode :: int
  stdout :: string
  stderr :: string

datatype node = Missing | RegularFile | Directory "(string list \<times> bool) list"

text \<open>A directory comes with all paths below it and whether each is a file.\<close>

record world =
  w_run :: "string list \<Rightarrow> string option \<Rightarrow> command_result res"
  w_probe :: "string list \<Rightarrow> node"
  w_read_text :: "string list \<Rightarrow> string option res"
  w_decode :: "string \<Rightarrow> string"
  w_float :: "rat \<Rightarrow> string"

subsection \<open>Constants\<close>

definition DEFAULT_REPO_SEARCH_PATHS :: "string list" where
  "DEFAULT_REPO_SEARCH_PATHS = [''apps'', ''infrastructure'', ''clusters'']"

definition DEFAULT_DOC_SEARCH_PATHS :: "string list" where
  "DEFAULT_DOC_SEARCH_PATHS = [''docs/seaweedfs-s3-identities.md'']"

definition DEFAULT_EXTERNAL_BUCKET_REFS :: "(string \<times> string list) list" where
  "DEFAULT_EXTERNAL_BUCKET_REFS = [(''renovate-cache'',
     [''GitLab project infrastructure/renovate-runner uses RENOVATE_REPOSITORY_CACHE_TYPE=s3://renovate-cache via protected CI variables''])]"

definition DEFAULT_OBJECT_TYPES :: "string list" where
  "DEFAULT_OBJECT_TYPES = [''deploy'', ''statefulset'', ''daemonset'', ''cronjob'', ''job'', ''configmap'', ''secret'']"

definition TEXT_EXTENSIONS :: "string list" where
  "TEXT_EXTENSIONS = [''.json'', ''.md'', ''.py'', ''.sh'', ''.tf'', ''.toml'', ''.txt'', ''.yaml'', ''.yml'']"

definition CONTEXT_HINTS :: "string list" where
  "CONTEXT_HINTS = [''bucket'', ''bucketname'', ''bucketnames'', ''litestream'', ''minio'', ''s3'', ''seaweed'']"

definition LOGICAL_SIZE_RE :: "pat list" where
  "LOGICAL_SIZE_RE = [Lit ''logical size:'', Spaces, Digits]"

subsection \<open>Reports on buckets\<close>

record BucketReport =
  b_name :: string
  logical_size :: int
  repo_refs :: "string list"
  live_refs :: "string list"
  external_refs :: "string list"
  docs_refs :: "string list"

definition status :: "BucketReport \<Rightarrow> string" where
  "status b = (if repo_refs b \<noteq> [] \<or> live_refs b \<noteq> [] \<or> external_refs b \<noteq> [] then ''active'' else ''abandoned-candidate'')"

subsection \<open>Commands\<close>

definition run_command :: "world \<Rightarrow> string list \<Rightarrow> string option \<Rightarrow> string res" where
  "run_command w args input_text =
     rbind (w_run w args input_text) (\<lambda>result.
     if returncode result \<noteq> 0 then
       (let err = strip (stderr result); out = strip (stdout result);
            detail = (if err \<noteq> [] then err else if out \<noteq> [] then out else ''exit status '' @ show_int (returncode result)) in
        Inl (runtime_error (join '' '' args @ '' failed: '' @ detail)))
     else Inr (stdout result))"

text \<open>
  The pattern \<^verbatim>\<open>(?<![A-Za-z0-9_-])BUCKET(?![A-Za-z0-9_-])\<close>, searched from left to right; \<open>prev\<close> is the
  character before the position.
\<close>

definition token_char :: "char \<Rightarrow> bool" where
  "token_char c = (let n = (of_char c :: nat) in 65 \<le> n \<and> n \<le> 90 \<or> 97 \<le> n \<and> n \<le> 122 \<or> 48 \<le> n \<and> n \<le> 57 \<or> n = 95 \<or> n = 45)"

definition token_here :: "string \<Rightarrow> char option \<Rightarrow> string \<Rightarrow> bool" where
  "token_here bucket prev s =
     ((prev = None \<or> \<not> token_char (the prev)) \<and> prefix bucket s
      \<and> (drop (length bucket) s = [] \<or> \<not> token_char (hd (drop (length bucket) s))))"

fun search_token :: "string \<Rightarrow> char option \<Rightarrow> string \<Rightarrow> bool" where
  "search_token bucket prev [] = token_here bucket prev []"
| "search_token bucket prev (c # cs) = (token_here bucket prev (c # cs) \<or> search_token bucket (Some c) cs)"

definition contains_bucket_token :: "string \<Rightarrow> string \<Rightarrow> bool" where
  "contains_bucket_token txt bucket = search_token bucket None txt"

text \<open>\<^verbatim>\<open>str.isdigit\<close> also accepts the superscripts.\<close>

definition isdigit_char :: "char \<Rightarrow> bool" where
  "isdigit_char c = (is_digit c \<or> (of_char c :: nat) \<in> {178, 179, 185})"

definition log_line :: "string \<Rightarrow> bool" where
  "log_line s = (s \<noteq> [] \<and> hd s \<in> set ''IWE'' \<and> 4 < length s \<and> list_all isdigit_char (take 4 (drop 1 s)))"

definition weed_line :: "string \<Rightarrow> string list" where
  "weed_line line =
     (let stripped = strip line in
      if stripped = [] then []
      else if log_line stripped then []
      else if prefix ''master:'' stripped then []
      else if stripped = ''>'' then []
      else (let stripped = (if prefix ''> '' stripped then drop 2 stripped else stripped) in
            if stripped \<noteq> [] then [stripped] else []))"

definition strip_weed_shell_output :: "string \<Rightarrow> string list" where
  "strip_weed_shell_output raw = concat (map weed_line (splitlines raw))"

definition weed_shell :: "world \<Rightarrow> string list \<Rightarrow> string \<Rightarrow> string \<Rightarrow> string \<Rightarrow> string list res" where
  "weed_shell w commands namespace pod master =
     rbind (run_command w [''kubectl'', ''exec'', ''-i'', ''-n'', namespace, pod, ''--'', ''sh'', ''-c'', ''weed shell -master='' @ master]
       (Some (join [CHR 0x0A] commands @ [CHR 0x0A]))) (\<lambda>raw.
     Inr (strip_weed_shell_output raw))"

definition list_bucket_entries :: "world \<Rightarrow> string \<Rightarrow> string \<Rightarrow> string \<Rightarrow> string list res" where
  "list_bucket_entries w namespace pod master = weed_shell w [''fs.ls /buckets''] namespace pod master"

fun first_size :: "string list \<Rightarrow> int res option" where
  "first_size [] = None"
| "first_size (line # lines) = (case search LOGICAL_SIZE_RE None line of Some digits \<Rightarrow> Some (to_int digits) | None \<Rightarrow> first_size lines)"

definition get_bucket_logical_size :: "world \<Rightarrow> string \<Rightarrow> string \<Rightarrow> string \<Rightarrow> string \<Rightarrow> int res" where
  "get_bucket_logical_size w bucket namespace pod master =
     rbind (weed_shell w [''fs.du /buckets/'' @ bucket] namespace pod master) (\<lambda>lines.
     case first_size lines of
       Some n \<Rightarrow> n
     | None \<Rightarrow> Inl (runtime_error (''unable to parse logical size for bucket '' @ bucket)))"

subsection \<open>Volumes\<close>

definition loads :: "string \<Rightarrow> jval res" where
  "loads raw = (case json_loads raw of Some v \<Rightarrow> Inr v | None \<Rightarrow> Inl (PyError ''JSONDecodeError''))"

definition bound_handle :: "jval \<Rightarrow> jval list res" where
  "bound_handle item =
     rbind (jget_or ''status'' (JDict []) item) (\<lambda>st.
     rbind (jget ''phase'' st) (\<lambda>phase.
     if phase \<noteq> JStr ''Bound'' then Inr []
     else
       rbind (jget_or ''spec'' (JDict []) item) (\<lambda>spec.
       rbind (jget ''storageClassName'' spec) (\<lambda>cls.
       if cls \<noteq> JStr ''seaweedfs'' then Inr []
       else
         rbind (jget_or ''csi'' (JDict []) spec) (\<lambda>csi.
         rbind (jget ''volumeHandle'' csi) (\<lambda>handle.
         Inr (if truthy handle then [handle] else [])))))))"

text \<open>A handle that is not a string raises a \<^verbatim>\<open>TypeError\<close>, in \<^verbatim>\<open>sorted\<close> or in \<^verbatim>\<open>Path\<close>.\<close>

definition as_str :: "jval \<Rightarrow> string res" where
  "as_str v = (case v of JStr s \<Rightarrow> Inr s | _ \<Rightarrow> Inl (PyError ''TypeError''))"

definition get_bound_seaweedfs_handles :: "world \<Rightarrow> string list res" where
  "get_bound_seaweedfs_handles w =
     rbind (run_command w [''kubectl'', ''get'', ''pv'', ''-o'', ''json''] None) (\<lambda>raw.
     rbind (loads raw) (\<lambda>data.
     rbind (jget_or ''items'' (JList []) data) (\<lambda>its.
     rbind (py_iter its) (\<lambda>items.
     rbind (rmap bound_handle items) (\<lambda>found.
     rbind (rmap as_str (concat found)) (\<lambda>handles.
     Inr (sort handles)))))))"

definition path_name :: "string \<Rightarrow> string" where
  "path_name p = (if parts p = [] then [] else last (parts p))"

definition normalize_pvc_handle :: "string \<Rightarrow> string option" where
  "normalize_pvc_handle handle =
     (if handle = ''/buckets'' then None
      else (let name = path_name handle in if prefix ''pvc-'' name then Some name else None))"

definition load_live_objects :: "world \<Rightarrow> string list \<Rightarrow> jval res" where
  "load_live_objects w object_types =
     rbind (run_command w [''kubectl'', ''get'', join '','' object_types, ''-A'', ''-o'', ''json''] None) (\<lambda>raw.
     rbind (loads raw) (\<lambda>data.
     jget_or ''items'' (JList []) data))"

subsection \<open>Files of the repository\<close>

text \<open>\<^verbatim>\<open>PurePath.suffix\<close> of a final component.\<close>

definition path_suffix :: "string \<Rightarrow> string" where
  "path_suffix name =
     (let ext = takeWhile (\<lambda>c. c \<noteq> CHR ''.'') (rev name); i = length name - length ext in
      if CHR ''.'' \<in> set name \<and> 1 < i \<and> ext \<noteq> [] then ''.'' @ rev ext else [])"

definition text_candidate :: "string list \<times> bool \<Rightarrow> bool" where
  "text_candidate c = (snd c \<and> fst c \<noteq> [] \<and> lower (path_suffix (last (fst c))) \<in> set TEXT_EXTENSIONS)"

definition text_files_of :: "world \<Rightarrow> string list \<Rightarrow> string list list" where
  "text_files_of w p =
     (case w_probe w p of
        Missing \<Rightarrow> []
      | RegularFile \<Rightarrow> [p]
      | Directory below \<Rightarrow> map fst (filter text_candidate below))"

definition iter_text_files :: "world \<Rightarrow> string list list \<Rightarrow> string list list" where
  "iter_text_files w paths = sort (concat (map (text_files_of w) paths))"

definition has_context_hint :: "string \<Rightarrow> bool" where
  "has_context_hint txt = list_ex (\<lambda>hint. occurs hint (lower txt)) CONTEXT_HINTS"

text \<open>\<^verbatim>\<open>lines[max(0, idx - 1) : min(len(lines), idx + 2)]\<close>.\<close>

definition window :: "string list \<Rightarrow> nat \<Rightarrow> string" where
  "window lines idx = join [CHR 0x0A] (take (idx + 2 - (idx - 1)) (drop (idx - 1) lines))"

definition counts_as_reference :: "string list \<Rightarrow> string \<Rightarrow> bool \<Rightarrow> nat \<Rightarrow> bool" where
  "counts_as_reference lines bucket require_context idx =
     (let line = lines ! idx; stripped = strip line in
      if \<not> contains_bucket_token line bucket then False
      else if require_context then
        if \<not> has_context_hint (window lines idx) then False
        else if prefix ''name:'' stripped then False
        else if list_ex (\<lambda>p. prefix p stripped) [''image:'', ''mountPath:'', ''subPath:''] \<and> \<not> has_context_hint stripped then False
        else True
      else True)"

definition file_references :: "world \<Rightarrow> string \<Rightarrow> bool \<Rightarrow> string list \<Rightarrow> string list res" where
  "file_references w bucket require_context p =
     rbind (w_read_text w p) (\<lambda>contents.
     case contents of
       None \<Rightarrow> Inr []
     | Some txt \<Rightarrow>
         (let lines = splitlines txt in
          Inr (map (\<lambda>idx. join ''/'' p @ '':'' @ show_nat (idx + 1) @ '': '' @ strip (lines ! idx))
                (filter (counts_as_reference lines bucket require_context) [0..<length lines]))))"

definition search_text_paths :: "world \<Rightarrow> string list list \<Rightarrow> string \<Rightarrow> bool \<Rightarrow> string list res" where
  "search_text_paths w paths bucket require_context =
     rbind (rmap (file_references w bucket require_context) (iter_text_files w paths)) (\<lambda>matches. Inr (concat matches))"

subsection \<open>Objects of the cluster\<close>

definition contains_value :: "jval \<Rightarrow> string \<Rightarrow> bool res" where
  "contains_value v bucket = (case v of JStr s \<Rightarrow> Inr (contains_bucket_token s bucket) | _ \<Rightarrow> Inl (PyError ''TypeError''))"

definition env_hit :: "world \<Rightarrow> string \<Rightarrow> jval \<Rightarrow> string list" where
  "env_hit w bucket item =
     (case item of
        JDict d \<Rightarrow>
          (let name = py_str (w_float w) (dget_or ''name'' (JStr []) d); val = py_str (w_float w) (dget_or ''value'' (JStr []) d) in
           if contains_bucket_token val bucket \<and> (has_context_hint name \<or> has_context_hint val) then [''env.value''] else [])
      | _ \<Rightarrow> [])"

definition live_env_hits :: "world \<Rightarrow> string \<Rightarrow> jval \<Rightarrow> string list res" where
  "live_env_hits w bucket env = rbind (py_iter env) (\<lambda>items. Inr (concat (map (env_hit w bucket) items)))"

definition word_hits :: "string \<Rightarrow> dict \<Rightarrow> string \<Rightarrow> string list" where
  "word_hits bucket container key =
     (case or_empty (dget key container) of
        JList vs \<Rightarrow> concat (map (\<lambda>v. case v of
            JStr s \<Rightarrow> if contains_bucket_token s bucket \<and> has_context_hint s then [key] else []
          | _ \<Rightarrow> []) vs)
      | _ \<Rightarrow> [])"

definition live_container_hits :: "world \<Rightarrow> string \<Rightarrow> jval \<Rightarrow> string list res" where
  "live_container_hits w bucket container =
     rbind (py_items container) (\<lambda>d.
     rbind (live_env_hits w bucket (or_empty (dget ''env'' d))) (\<lambda>hits.
     Inr (hits @ concat (map (word_hits bucket d) [''args'', ''command'']))))"

definition container_refs :: "world \<Rightarrow> string \<Rightarrow> string \<Rightarrow> string \<Rightarrow> string \<Rightarrow> jval \<Rightarrow> string list res" where
  "container_refs w bucket owner place key pod_spec =
     rbind (jget key pod_spec) (\<lambda>v.
     rbind (py_iter (or_empty v)) (\<lambda>containers.
     rbind (rmap (live_container_hits w bucket) containers) (\<lambda>hits.
     Inr (map (\<lambda>hit. owner @ '' '' @ place @ ''.'' @ key @ ''.'' @ hit) (concat hits)))))"

definition pod_spec_refs :: "world \<Rightarrow> string \<Rightarrow> string \<Rightarrow> string \<Rightarrow> jval \<Rightarrow> string list res" where
  "pod_spec_refs w bucket owner place pod_spec =
     rbind (container_refs w bucket owner place ''containers'' pod_spec) (\<lambda>refs.
     rbind (container_refs w bucket owner place ''initContainers'' pod_spec) (\<lambda>more.
     Inr (refs @ more)))"

definition config_ref :: "string \<Rightarrow> string \<Rightarrow> string \<times> jval \<Rightarrow> string list res" where
  "config_ref bucket owner kv =
     rbind (contains_value (snd kv) bucket) (\<lambda>found.
     Inr (if found \<and> (case snd kv of JStr s \<Rightarrow> has_context_hint s | _ \<Rightarrow> False) then [owner @ '' data.'' @ fst kv] else []))"

definition secret_ref :: "world \<Rightarrow> string \<Rightarrow> string \<Rightarrow> string \<times> jval \<Rightarrow> string list" where
  "secret_ref w bucket owner kv =
     (case b64decode (snd kv) of
        None \<Rightarrow> []
      | Some bytes \<Rightarrow>
          (let decoded = w_decode w bytes in
           if occurs ''bucket'' (lower (fst kv)) \<and> strip decoded = bucket
              \<or> contains_bucket_token decoded bucket \<and> has_context_hint decoded
           then [owner @ '' data.'' @ fst kv] else []))"

definition workload_refs :: "world \<Rightarrow> string \<Rightarrow> string \<Rightarrow> bool \<Rightarrow> jval \<Rightarrow> string list res" where
  "workload_refs w bucket owner cron item =
     rbind (jget ''spec'' item) (\<lambda>v.
     (let spec = or_dict v in
     rbind (jget_or ''template'' (JDict []) spec) (\<lambda>template.
     rbind (jget_or ''spec'' (JDict []) template) (\<lambda>pod_spec.
     rbind (pod_spec_refs w bucket owner ''spec.template.spec'' pod_spec) (\<lambda>refs.
     if \<not> cron then Inr refs
     else
       rbind (jget_or ''jobTemplate'' (JDict []) spec) (\<lambda>job_template.
       rbind (jget_or ''spec'' (JDict []) job_template) (\<lambda>job_spec.
       rbind (jget_or ''template'' (JDict []) job_spec) (\<lambda>template.
       rbind (jget_or ''spec'' (JDict []) template) (\<lambda>job_pod_spec.
       rbind (pod_spec_refs w bucket owner ''spec.jobTemplate.spec.template.spec'' job_pod_spec) (\<lambda>more.
       Inr (refs @ more)))))))))))"

definition object_refs :: "world \<Rightarrow> string \<Rightarrow> jval \<Rightarrow> string list res" where
  "object_refs w bucket item =
     rbind (jget_or ''kind'' (JStr ''Unknown'') item) (\<lambda>kind.
     rbind (jget_or ''metadata'' (JDict []) item) (\<lambda>metadata.
     rbind (jget_or ''namespace'' (JStr ''-'') metadata) (\<lambda>namespace.
     rbind (jget_or ''name'' (JStr ''unknown'') metadata) (\<lambda>name.
     (let owner = py_str (w_float w) kind @ ''/'' @ py_str (w_float w) namespace @ ''/'' @ py_str (w_float w) name in
      if kind = JStr ''ConfigMap'' then
        rbind (jget ''data'' item) (\<lambda>data.
        rbind (py_items (or_dict data)) (\<lambda>items.
        rbind (rmap (config_ref bucket owner) items) (\<lambda>refs. Inr (concat refs))))
      else if kind = JStr ''Secret'' then
        rbind (jget ''data'' item) (\<lambda>data.
        rbind (py_items (or_dict data)) (\<lambda>items.
        Inr (concat (map (secret_ref w bucket owner) items))))
      else workload_refs w bucket owner (kind = JStr ''CronJob'') item)))))"

definition search_live_objects :: "world \<Rightarrow> string \<Rightarrow> jval \<Rightarrow> string list res" where
  "search_live_objects w bucket objects =
     rbind (py_iter objects) (\<lambda>items.
     rbind (rmap (object_refs w bucket) items) (\<lambda>refs.
     Inr (sort (remdups (concat refs)))))"

subsection \<open>External references\<close>

fun setdefault_append :: "string \<Rightarrow> string \<Rightarrow> (string \<times> string list) list \<Rightarrow> (string \<times> string list) list" where
  "setdefault_append bucket ref [] = [(bucket, [ref])]"
| "setdefault_append bucket ref ((b, rs) # refs) =
     (if b = bucket then (b, rs @ [ref]) # refs else (b, rs) # setdefault_append bucket ref refs)"

fun add_external_refs :: "(string \<times> string list) list \<Rightarrow> string list \<Rightarrow> (string \<times> string list) list res" where
  "add_external_refs refs [] = Inr refs"
| "add_external_refs refs (v # vs) =
     (case partition_on (CHR ''='') v of
        (_, None) \<Rightarrow> Inl (runtime_error (''--external-bucket-ref must use BUCKET=REF format: '' @ v))
      | (b, Some r) \<Rightarrow>
          (let bucket = strip b; ref = strip r in
           if bucket = [] \<or> ref = [] then Inl (runtime_error (''--external-bucket-ref must use non-empty BUCKET=REF values: '' @ v))
           else add_external_refs (setdefault_append bucket ref refs) vs))"

definition parse_external_bucket_refs :: "string list \<Rightarrow> (string \<times> string list) list res" where
  "parse_external_bucket_refs vs = add_external_refs DEFAULT_EXTERNAL_BUCKET_REFS vs"

subsection \<open>The report\<close>

record audit_args =
  arg_namespace :: string
  master_pod :: string
  weed_master :: string
  object_types :: "string list"
  repo_paths :: "string list"
  doc_paths :: "string list"
  external_bucket_ref :: "string list"
  arg_json :: bool
  fail_on_findings :: bool

definition default_args :: audit_args where
  "default_args = \<lparr>arg_namespace = ''default'', master_pod = ''seaweedfs-master-0'', weed_master = ''seaweedfs-master:9333'',
     object_types = DEFAULT_OBJECT_TYPES, repo_paths = DEFAULT_REPO_SEARCH_PATHS, doc_paths = DEFAULT_DOC_SEARCH_PATHS,
     external_bucket_ref = [], arg_json = False, fail_on_findings = False\<rparr>"

record summary =
  s_pvc_dirs :: nat
  s_bound_handles :: nat
  s_non_pvc_bound_handles :: nat
  s_orphaned_pvc_dirs :: nat
  s_missing_live_pvc_dirs :: nat
  s_named_buckets :: nat
  s_active_named_buckets :: nat
  s_abandoned_named_buckets :: nat

record audit_report =
  r_summary :: summary
  r_dirs :: "string list"
  r_bound_handles :: "string list"
  r_non_pvc_bound_handles :: "string list"
  r_orphaned_dirs :: "string list"
  r_missing_live_dirs :: "string list"
  r_named_buckets :: "BucketReport list"

definition bucket_report :: "world \<Rightarrow> audit_args \<Rightarrow> jval \<Rightarrow> (string \<times> string list) list \<Rightarrow> string \<Rightarrow> BucketReport res" where
  "bucket_report w a live_objects external bucket =
     rbind (get_bucket_logical_size w bucket (arg_namespace a) (master_pod a) (weed_master a)) (\<lambda>size.
     rbind (search_text_paths w (map parts (repo_paths a)) bucket True) (\<lambda>repo.
     rbind (search_live_objects w bucket live_objects) (\<lambda>live.
     rbind (search_text_paths w (map parts (doc_paths a)) bucket False) (\<lambda>docs.
     Inr \<lparr>b_name = bucket, logical_size = size, repo_refs = repo, live_refs = live,
          external_refs = (case map_of external bucket of None \<Rightarrow> [] | Some refs \<Rightarrow> refs), docs_refs = docs\<rparr>))))"

text \<open>\<^verbatim>\<open>sorted(set(xs) - set(ys))\<close>.\<close>

definition sorted_difference :: "string list \<Rightarrow> string list \<Rightarrow> string list" where
  "sorted_difference xs ys = sort (remdups (filter (\<lambda>x. x \<notin> set ys) xs))"

definition make_report :: "string list \<Rightarrow> string list \<Rightarrow> BucketReport list \<Rightarrow> audit_report" where
  "make_report entries raw_bound_handles named =
     (let pvc_dirs = sort (filter (prefix ''pvc-'') entries);
          pvc_bound_handles = sort (List.map_filter normalize_pvc_handle raw_bound_handles);
          non_pvc = sort (filter (\<lambda>raw. normalize_pvc_handle raw = None) raw_bound_handles);
          orphaned = sorted_difference pvc_dirs pvc_bound_handles;
          missing = sorted_difference pvc_bound_handles pvc_dirs in
      \<lparr>r_summary = \<lparr>s_pvc_dirs = length pvc_dirs, s_bound_handles = length pvc_bound_handles, s_non_pvc_bound_handles = length non_pvc,
          s_orphaned_pvc_dirs = length orphaned, s_missing_live_pvc_dirs = length missing, s_named_buckets = length named,
          s_active_named_buckets = length (filter (\<lambda>b. status b = ''active'') named),
          s_abandoned_named_buckets = length (filter (\<lambda>b. status b \<noteq> ''active'') named)\<rparr>,
       r_dirs = pvc_dirs, r_bound_handles = pvc_bound_handles, r_non_pvc_bound_handles = non_pvc,
       r_orphaned_dirs = orphaned, r_missing_live_dirs = missing, r_named_buckets = named\<rparr>)"

definition build_report :: "world \<Rightarrow> audit_args \<Rightarrow> audit_report res" where
  "build_report w a =
     rbind (list_bucket_entries w (arg_namespace a) (master_pod a) (weed_master a)) (\<lambda>entries.
     rbind (get_bound_seaweedfs_handles w) (\<lambda>raw_bound_handles.
     rbind (load_live_objects w (object_types a)) (\<lambda>live_objects.
     rbind (parse_external_bucket_refs (external_bucket_ref a)) (\<lambda>external.
     rbind (rmap (bucket_report w a live_objects external) (sort (filter (\<lambda>e. \<not> prefix ''pvc-'' e) entries))) (\<lambda>named.
     Inr (make_report entries raw_bound_handles named))))))"

subsection \<open>Output and exit status\<close>

definition bullets :: "string \<Rightarrow> string \<Rightarrow> string list \<Rightarrow> string list" where
  "bullets title indent names = (if names = [] then [] else title # map (\<lambda>name. indent @ ''- '' @ name) names)"

definition bucket_lines :: "BucketReport \<Rightarrow> string list" where
  "bucket_lines b =
     [[], ''- '' @ b_name b @ '' ['' @ status b @ ''] logical_size='' @ show_int (logical_size b)]
     @ bullets ''  repo refs:'' ''    '' (repo_refs b) @ bullets ''  live refs:'' ''    '' (live_refs b)
     @ bullets ''  external refs:'' ''    '' (external_refs b) @ bullets ''  docs refs:'' ''    '' (docs_refs b)"

definition render_text :: "audit_report \<Rightarrow> string" where
  "render_text r =
     (let s = r_summary r in
      join [CHR 0x0A]
        ([''SeaweedFS /buckets audit'', [],
          ''PVC-backed filer dirs: '' @ show_nat (s_pvc_dirs s) @ '' live, '' @ show_nat (s_bound_handles s) @ '' bound handles, ''
            @ show_nat (s_orphaned_pvc_dirs s) @ '' orphaned, '' @ show_nat (s_missing_live_pvc_dirs s) @ '' missing'']
         @ (if s_non_pvc_bound_handles s \<noteq> 0
            then ''Non-pvc SeaweedFS volume handles not compared against /buckets/pvc-*:'' # map (\<lambda>name. ''  - '' @ name) (r_non_pvc_bound_handles r)
            else [])
         @ bullets ''Orphaned pvc dirs:'' ''  '' (r_orphaned_dirs r)
         @ bullets ''Missing live pvc dirs:'' ''  '' (r_missing_live_dirs r)
         @ [[], ''Named buckets: '' @ show_nat (s_named_buckets s) @ '' total, '' @ show_nat (s_active_named_buckets s) @ '' active, ''
            @ show_nat (s_abandoned_named_buckets s) @ '' abandoned candidates'']
         @ concat (map bucket_lines (r_named_buckets r))))"

text \<open>The first component is what is printed: the report as JSON or its text.\<close>

definition audit_main :: "world \<Rightarrow> audit_args \<Rightarrow> ((audit_report + string) \<times> int) res" where
  "audit_main w a =
     rbind (build_report w a) (\<lambda>r.
     (let s = r_summary r; output = (if arg_json a then Inl r else Inr (render_text r)) in
      if fail_on_findings a \<and> (s_orphaned_pvc_dirs s \<noteq> 0 \<or> s_missing_live_pvc_dirs s \<noteq> 0 \<or> s_abandoned_named_buckets s \<noteq> 0)
      then Inr (output, 2) else Inr (output, 0)))"

end
