(* ===== verification/Audit_Properties.thy ===== *)
theory Audit_Properties
  imports Bucket_Audit
begin

section \<open>Properties of the bucket audit\<close>

text \<open>
  The token search against its declarative meaning, the decoding of Secrets against a reference encoder,
  and the verdict of the audit.
\<close>

subsection \<open>The token search\<close>

lemma search_token_iff:
  "search_token bucket prev s \<longleftrightarrow>
     (\<exists>a b. s = a @ bucket @ b \<and> (if a = [] then prev = None \<or> \<not> token_char (the prev) else \<not> token_char (last a))
        \<and> (b = [] \<or> \<not> token_char (hd b)))"
proof (induction bucket prev s rule: search_token.induct)
  case (1 bucket prev)
  then show ?case by (auto simp: token_here_def)
next
  case (2 bucket prev c cs)
  have here: "token_here bucket p s \<longleftrightarrow> (\<exists>b. s = bucket @ b \<and> (p = None \<or> \<not> token_char (the p)) \<and> (b = [] \<or> \<not> token_char (hd b)))" for p s
    by (auto simp: token_here_def prefix_def)
  show ?case (is "?l \<longleftrightarrow> (\<exists>a b. ?p a b)")
  proof
    assume ?l
    then consider b where "c # cs = bucket @ b" "prev = None \<or> \<not> token_char (the prev)" "b = [] \<or> \<not> token_char (hd b)"
      | a b where "cs = a @ bucket @ b" "if a = [] then Some c = None \<or> \<not> token_char (the (Some c)) else \<not> token_char (last a)"
          "b = [] \<or> \<not> token_char (hd b)"
      unfolding search_token.simps here 2 by blast
    then show "\<exists>a b. ?p a b"
    proof cases
      case (1 b)
      then show ?thesis by (intro exI [of _ "[]"] exI [of _ b]) simp
    next
      case (2 a b)
      then show ?thesis by (intro exI [of _ "c # a"] exI [of _ b]) auto
    qed
  next
    assume "\<exists>a b. ?p a b"
    then obtain a b where ab: "?p a b" by blast
    show ?l
    proof (cases a)
      case Nil
      with ab have "token_here bucket prev (c # cs)" unfolding here by auto
      then show ?thesis by simp
    next
      case (Cons x a')
      with ab have "search_token bucket (Some c) cs" unfolding 2 by (intro exI [of _ a'] exI [of _ b]) (auto split: if_splits)
      then show ?thesis by simp
    qed
  qed
qed

text \<open>
  (C27) The token search finds a bucket name exactly where it stands as a whole token: the name occurs in
  the text, and the characters before and after it, if there are any, are not letters, digits,
  underscores or hyphens.
\<close>

theorem token_search_exact:
  "contains_bucket_token txt bucket \<longleftrightarrow>
     (\<exists>a b. txt = a @ bucket @ b \<and> \<not> (a \<noteq> [] \<and> token_char (last a)) \<and> \<not> (b \<noteq> [] \<and> token_char (hd b)))"
  unfolding contains_bucket_token_def search_token_iff by auto

subsection \<open>Values of Secrets\<close>

text \<open>Decoding the base64 text of any bytes, with its padding, gives these bytes.\<close>

theorem secret_value_round_trip: "b64decode (JStr (b64encode bytes)) = Some bytes"
  by (simp add: b64decode_def encode_ascii a2b_encode)

subsection \<open>The verdict\<close>

text \<open>The names of the volumes that are bound, a bucket nobody refers to, and the findings of an audit.\<close>

definition bound_names :: "string list \<Rightarrow> string set" where
  "bound_names handles = {name. \<exists>h \<in> set handles. normalize_pvc_handle h = Some name}"

definition unreferenced :: "BucketReport \<Rightarrow> bool" where
  "unreferenced b \<longleftrightarrow> repo_refs b = [] \<and> live_refs b = [] \<and> external_refs b = []"

definition audit_findings :: "string list \<Rightarrow> string list \<Rightarrow> BucketReport list \<Rightarrow> bool" where
  "audit_findings entries handles named \<longleftrightarrow>
     (\<exists>e \<in> set entries. prefix ''pvc-'' e \<and> e \<notin> bound_names handles)
     \<or> (\<exists>name \<in> bound_names handles. name \<notin> set entries)
     \<or> (\<exists>b \<in> set named. unreferenced b)"

lemma status_unreferenced: "status b \<noteq> ''active'' \<longleftrightarrow> unreferenced b"
  by (simp add: status_def unreferenced_def)

lemma set_bound: "set (List.map_filter normalize_pvc_handle handles) = bound_names handles"
  by (force simp: bound_names_def map_filter_def)

lemma bound_names_prefix: "name \<in> bound_names handles \<Longrightarrow> prefix ''pvc-'' name"
  by (auto simp: bound_names_def normalize_pvc_handle_def Let_def split: if_splits)

lemma set_sorted_difference [simp]: "set (sorted_difference xs ys) = set xs - set ys"
  by (auto simp: sorted_difference_def)

lemma length_zero_set: "length xs \<noteq> 0 \<longleftrightarrow> (\<exists>x. x \<in> set xs)"
  by (cases xs) auto

definition has_findings :: "audit_report \<Rightarrow> bool" where
  "has_findings r \<longleftrightarrow>
     s_orphaned_pvc_dirs (r_summary r) \<noteq> 0 \<or> s_missing_live_pvc_dirs (r_summary r) \<noteq> 0 \<or> s_abandoned_named_buckets (r_summary r) \<noteq> 0"

lemma make_report_findings: "has_findings (make_report entries handles named) \<longleftrightarrow> audit_findings entries handles named"
  unfolding make_report_def audit_findings_def has_findings_def Let_def
  by (simp only: audit_report.simps summary.simps length_zero_set set_sorted_difference set_sort set_filter set_bound status_unreferenced)
    (use bound_names_prefix in blast)

lemma audit_main_findings:
  "audit_main w a = rbind (build_report w a) (\<lambda>r.
     Inr (if arg_json a then Inl r else Inr (render_text r), if fail_on_findings a \<and> has_findings r then 2 else 0))"
  unfolding audit_main_def has_findings_def Let_def by (rule arg_cong [where f = "rbind _"]) auto

text \<open>
  (C26) The verdict of the audit. The audit ends normally exactly when the list of entries, the bound handles,
  the objects, the external references and a report for every entry that is not a volume could be obtained; it
  then prints the report made of them, and its status is 2 when findings should fail it and there is one: a
  volume directory without bound volume, a bound volume without directory, or a bucket without any reference
  in the repository, in the cluster or outside. Otherwise the status is 0.
\<close>

theorem audit_verdict_exact:
  "audit_main w a = Inr (output, code) \<longleftrightarrow>
     (\<exists>entries handles objects external named.
        list_bucket_entries w (arg_namespace a) (master_pod a) (weed_master a) = Inr entries
        \<and> get_bound_seaweedfs_handles w = Inr handles \<and> load_live_objects w (object_types a) = Inr objects
        \<and> parse_external_bucket_refs (external_bucket_ref a) = Inr external
        \<and> list_all2 (\<lambda>bucket b. bucket_report w a objects external bucket = Inr b) (sort (filter (\<lambda>e. \<not> prefix ''pvc-'' e) entries)) named
        \<and> output = (if arg_json a then Inl (make_report entries handles named) else Inr (render_text (make_report entries handles named)))
        \<and> code = (if fail_on_findings a \<and> audit_findings entries handles named then 2 else 0))"
  unfolding audit_main_findings build_report_def rbind_eq_Inr rmap_eq_Inr
  by (simp only: sum.inject prod.inject make_report_findings [symmetric]) blast

end
