(* ===== verification/Runner_Templates.thy ===== *)
theory Runner_Templates
  imports Py_Text
begin

section \<open>The templates of the GitLab runners\<close>

text \<open>
  \<^verbatim>\<open>scripts/validate_gitlab_runner_templates.py\<close>. The TOML parser is a parameter, and so are the fragments and
  fixtures on disk. An error is a value with what its message shows. Floats, which only occur for memory
  sizes, are exact rationals. The lines printed are left out.
\<close>

subsection \<open>Fragments and quantities\<close>

text \<open>A fragment has a file name and a text; sorting by name is stable, so a fragment of the base comes first.\<close>

definition load_template :: "(string \<times> string) list \<Rightarrow> (string \<times> string) list \<Rightarrow> string" where
  "load_template base variant = concat (map snd (sort_key fst (base @ variant)))"

text \<open>A value that is not a string has no \<^verbatim>\<open>endswith\<close>.\<close>

definition quantity :: "jval \<Rightarrow> string res" where
  "quantity v = (case v of JStr s \<Rightarrow> Inr s | _ \<Rightarrow> Inl (PyError ''AttributeError''))"

definition cpu_millicores :: "jval \<Rightarrow> int res" where
  "cpu_millicores v =
     rbind (quantity v) (\<lambda>s.
     if suffix ''m'' s then py_int (butlast s) else rbind (py_int s) (\<lambda>n. Inr (n * 1000)))"

definition memory_mebibytes :: "jval \<Rightarrow> rat res" where
  "memory_mebibytes v =
     rbind (quantity v) (\<lambda>s.
     if suffix ''Gi'' s then rbind (py_int (removesuffix ''Gi'' s)) (\<lambda>n. Inr (of_int n * 1024))
     else if suffix ''Mi'' s then rbind (py_int (removesuffix ''Mi'' s)) (\<lambda>n. Inr (of_int n))
     else if suffix ''Ki'' s then rbind (py_int (removesuffix ''Ki'' s)) (\<lambda>n. Inr (of_int n / 1024))
     else rbind (py_int s) (\<lambda>n. Inr (of_int n / (1024 * 1024))))"

subsection \<open>The capacity contract\<close>

datatype capacity_error =
    CpuExceedsHeadroom rat rat
  | PollTimeoutTooShort rat rat
  | NoAntiAffinity string
  | Amd64NotSelected
  | Arm64NotSelected

definition kubernetes_of :: "jval \<Rightarrow> jval res" where
  "kubernetes_of template = rbind (jitem ''runners'' template) (\<lambda>rs. rbind (py_first rs) (jitem ''kubernetes''))"

definition template_of :: "dict \<Rightarrow> jval \<Rightarrow> jval res" where
  "template_of templates key = (case key of
      JStr k \<Rightarrow> jitem k (JDict templates)
    | JList _ \<Rightarrow> Inl (PyError ''TypeError'')
    | JDict _ \<Rightarrow> Inl (PyError ''TypeError'')
    | _ \<Rightarrow> Inl (PyError ''KeyError''))"

definition CI_NAMESPACES :: jval where
  "CI_NAMESPACES = JList [JStr ''ci'', JStr ''ci-maintenance-worker'']"

definition JOB_KEY :: string where
  "JOB_KEY = ''ci.brmartin.co.uk/job''"

definition hostname_term :: "jval \<Rightarrow> bool res" where
  "hostname_term t =
     rbind (jget ''topology_key'' t) (\<lambda>topology.
     if topology \<noteq> JStr ''kubernetes.io/hostname'' then Inr False
     else rbind (jget ''namespaces'' t) (\<lambda>ns. Inr (ns = CI_NAMESPACES)))"

definition isolating_term :: "jval \<Rightarrow> bool res" where
  "isolating_term t =
     rbind (hostname_term t) (\<lambda>host.
     if \<not> host then Inr False
     else
       rbind (jget_or ''label_selector'' (JDict []) t) (\<lambda>selector.
       rbind (jget_or ''match_labels'' (JDict []) selector) (\<lambda>labels.
       rbind (jget JOB_KEY labels) (\<lambda>v. Inr (v = JStr ''true'')))))"

definition anti_affinity_terms :: "jval \<Rightarrow> jval list res" where
  "anti_affinity_terms kubernetes =
     rbind (jget_or ''affinity'' (JDict []) kubernetes) (\<lambda>affinity.
     rbind (jget_or ''pod_anti_affinity'' (JDict []) affinity) (\<lambda>anti.
     rbind (jget_or ''required_during_scheduling_ignored_during_execution'' (JList []) anti) (\<lambda>terms.
     py_iter terms)))"

definition variant_errors :: "string \<times> jval \<Rightarrow> capacity_error list res" where
  "variant_errors vt =
     rbind (kubernetes_of (snd vt)) (\<lambda>kubernetes.
     rbind (anti_affinity_terms kubernetes) (\<lambda>terms.
     rbind (any_res isolating_term terms) (\<lambda>isolated.
     Inr (if isolated then [] else [NoAntiAffinity (fst vt)]))))"

definition arch_selector :: "string \<Rightarrow> jval" where
  "arch_selector arch = JDict [(''kubernetes.io/arch'', JStr arch)]"

definition headroom :: "jval \<Rightarrow> rat res" where
  "headroom incident =
     rbind (jitem ''amd64_node'' incident) (\<lambda>node.
     rbind (jitem ''allocatable_cpu_m'' node) (\<lambda>a.
     rbind (jitem ''steady_non_ci_cpu_request_m'' node) (\<lambda>b.
     rbind (as_num a) (\<lambda>x. rbind (as_num b) (\<lambda>y. Inr (x - y))))))"

definition scheduler_request :: "jval \<Rightarrow> int res" where
  "scheduler_request amd64 =
     rbind (jitem ''cpu_request'' amd64) (\<lambda>v1. rbind (cpu_millicores v1) (\<lambda>build.
     rbind (jitem ''helper_cpu_request'' amd64) (\<lambda>v2. rbind (cpu_millicores v2) (\<lambda>helper.
     rbind (jget_or ''services'' (JList []) amd64) (\<lambda>sv. rbind (py_len sv) (\<lambda>services.
     rbind (jitem ''service_cpu_request'' amd64) (\<lambda>v3. rbind (cpu_millicores v3) (\<lambda>service.
     Inr (build + helper + int services * service)))))))))"

definition wait_horizon :: "jval \<Rightarrow> rat res" where
  "wait_horizon incident =
     rbind (jitem ''capacity_wait'' incident) (\<lambda>wait.
     rbind (jitem ''competing_job_active_deadline_seconds'' wait) (\<lambda>a.
     rbind (jitem ''scheduling_margin_seconds'' wait) (\<lambda>b.
     rbind (as_num a) (\<lambda>x. rbind (as_num b) (\<lambda>y. Inr (x + y))))))"

definition validate_capacity_contract :: "dict \<Rightarrow> jval \<Rightarrow> capacity_error list res" where
  "validate_capacity_contract templates incident =
     rbind (jitem ''runner_variants'' incident) (\<lambda>variants.
     rbind (jitem ''architecture_bound'' variants) (\<lambda>bound.
     rbind (template_of templates bound) (\<lambda>template.
     rbind (kubernetes_of template) (\<lambda>amd64.
     rbind (headroom incident) (\<lambda>headroom_m.
     rbind (scheduler_request amd64) (\<lambda>request_m.
     rbind (wait_horizon incident) (\<lambda>required_poll_timeout.
     rbind (jitem ''poll_timeout'' amd64) (\<lambda>pv.
     rbind (as_num pv) (\<lambda>poll_timeout.
     rbind (rmap variant_errors templates) (\<lambda>isolation.
     rbind (jget ''node_selector'' amd64) (\<lambda>selector.
     rbind (jitem ''arm64'' (JDict templates)) (\<lambda>arm64_template.
     rbind (kubernetes_of arm64_template) (\<lambda>arm64.
     rbind (jget ''node_selector'' arm64) (\<lambda>arm64_selector.
     Inr ((if of_int request_m > headroom_m then [CpuExceedsHeadroom (of_int request_m) headroom_m] else [])
       @ (if poll_timeout < required_poll_timeout then [PollTimeoutTooShort poll_timeout required_poll_timeout] else [])
       @ concat isolation
       @ (if selector \<noteq> arch_selector ''amd64'' then [Amd64NotSelected] else [])
       @ (if arm64_selector \<noteq> arch_selector ''arm64'' then [Arm64NotSelected] else []))))))))))))))))"

subsection \<open>The pool contract\<close>

datatype pool_error =
    OneManagerRequired
  | WrongConcurrency
  | TwoRegistrationsRequired
  | EscapesArchitecture string
  | CpuQuota string
  | IsolationChanged string
  | MemoryEnvelopeChanged string
  | ServicesUnaccounted string
  | WrongTopology string
  | WrongLimit string
  | TooFewSlots string nat nat

definition exact_term :: "jval \<Rightarrow> bool res" where
  "exact_term t =
     rbind (hostname_term t) (\<lambda>host.
     if \<not> host then Inr False
     else
       rbind (jget_or ''label_selector'' (JDict []) t) (\<lambda>selector.
       rbind (jget ''match_labels'' selector) (\<lambda>labels. Inr (labels = JDict [(JOB_KEY, JStr ''true'')]))))"

definition isolated_job :: "jval \<Rightarrow> bool res" where
  "isolated_job k =
     rbind (anti_affinity_terms k) (\<lambda>terms.
     rbind (jget_or ''pod_labels'' (JDict []) k) (\<lambda>labels.
     rbind (jget JOB_KEY labels) (\<lambda>v.
     if v \<noteq> JStr ''true'' then Inr False else any_res exact_term terms)))"

definition MEMORY_ENVELOPE :: "(string \<times> string) list" where
  "MEMORY_ENVELOPE = [(''memory_request'', ''512Mi''), (''memory_limit'', ''6Gi''), (''helper_memory_request'', ''128Mi''), (''helper_memory_limit'', ''256Mi'')]"

text \<open>The service request, its CPU in millicores and whether services are accounted for.\<close>

definition service_cpu :: "dict \<Rightarrow> int res" where
  "service_cpu k = cpu_millicores (dget_or ''service_cpu_request'' (JStr ''0'') k)"

definition services_accounted :: "dict \<Rightarrow> bool res" where
  "services_accounted k =
     (if dget ''service_memory_request'' k \<noteq> JStr ''64Mi'' then Inr False
      else rbind (service_cpu k) (\<lambda>cpu. Inr (0 < cpu)))"

definition service_count :: "dict \<Rightarrow> jval \<Rightarrow> string \<Rightarrow> rat res" where
  "service_count k fixture arch =
     rbind (py_len (dget_or ''services'' (JList []) k)) (\<lambda>declared.
     rbind (jitem ''max_declared_services'' fixture) (\<lambda>limits.
     rbind (jitem arch limits) (\<lambda>v.
     rbind (as_num v) (\<lambda>extra. Inr (of_nat declared + extra)))))"

definition cpu_request :: "dict \<Rightarrow> rat \<Rightarrow> rat res" where
  "cpu_request k services =
     rbind (jitem ''cpu_request'' (JDict k)) (\<lambda>v1. rbind (cpu_millicores v1) (\<lambda>build.
     rbind (jitem ''helper_cpu_request'' (JDict k)) (\<lambda>v2. rbind (cpu_millicores v2) (\<lambda>helper.
     rbind (service_cpu k) (\<lambda>service.
     Inr (of_int build + of_int helper + services * of_int service))))))"

definition memory_request :: "dict \<Rightarrow> rat \<Rightarrow> rat res" where
  "memory_request k services =
     rbind (jitem ''memory_request'' (JDict k)) (\<lambda>v1. rbind (memory_mebibytes v1) (\<lambda>build.
     rbind (jitem ''helper_memory_request'' (JDict k)) (\<lambda>v2. rbind (memory_mebibytes v2) (\<lambda>helper.
     rbind (jitem ''service_memory_request'' (JDict k)) (\<lambda>v3. rbind (memory_mebibytes v3) (\<lambda>service.
     Inr (build + helper + services * service)))))))"

text \<open>A node fits when its CPU and its memory do; the memory is looked at only when the CPU fits.\<close>

definition node_fits :: "rat \<Rightarrow> rat \<Rightarrow> jval \<times> jval \<Rightarrow> bool res" where
  "node_fits required_cpu required_memory n =
     rbind (as_num (fst n)) (\<lambda>cpu.
     if cpu < required_cpu then Inr False
     else rbind (as_num (snd n)) (\<lambda>memory. Inr (required_memory \<le> memory)))"

text \<open>\<^verbatim>\<open>zip(..., strict=True)\<close> raises after the common part when the lengths differ.\<close>

definition count_slots :: "rat \<Rightarrow> rat \<Rightarrow> jval \<Rightarrow> nat res" where
  "count_slots required_cpu required_memory pool =
     rbind (jitem ''nodes'' pool) (\<lambda>v1.
     rbind (jitem ''headroom_cpu_m'' pool) (\<lambda>v2.
     rbind (jitem ''headroom_memory_mi'' pool) (\<lambda>v3.
     rbind (py_iter v1) (\<lambda>nodes. rbind (py_iter v2) (\<lambda>cpus. rbind (py_iter v3) (\<lambda>memories.
     rbind (rmap (node_fits required_cpu required_memory) (map snd (zip nodes (zip cpus memories)))) (\<lambda>fits.
     if length nodes = length cpus \<and> length cpus = length memories then Inr (length (filter id fits))
     else Inl (PyError ''ValueError'')))))))) "

definition expected_slots :: "string \<Rightarrow> nat" where
  "expected_slots arch = (if arch = ''amd64'' then 1 else 2)"

definition margin :: "string \<Rightarrow> jval \<Rightarrow> rat res" where
  "margin key fixture = rbind (jitem key fixture) as_num"

text \<open>The checks of one registration in the order of the loop body.\<close>

definition required_cpu :: "rat \<Rightarrow> rat \<Rightarrow> rat \<Rightarrow> rat" where
  "required_cpu overhead margin_cpu request = max (overhead + margin_cpu) (request + overhead + margin_cpu)"

definition runner_errors :: "rat \<Rightarrow> rat \<Rightarrow> jval \<Rightarrow> string \<times> jval \<Rightarrow> pool_error list res" where
  "runner_errors overhead memory_overhead fixture ar =
     (let arch = fst ar; runner = snd ar in
     rbind (margin ''margin_cpu_m'' fixture) (\<lambda>margin_cpu.
     rbind (margin ''margin_memory_mi'' fixture) (\<lambda>margin_memory.
     rbind (jitem ''kubernetes'' runner) (\<lambda>kv.
     rbind (py_items kv) (\<lambda>k.
     rbind (isolated_job kv) (\<lambda>isolated.
     rbind (services_accounted k) (\<lambda>accounted.
     rbind (service_count k fixture arch) (\<lambda>services.
     rbind (cpu_request k services) (\<lambda>request.
     rbind (memory_request k services) (\<lambda>mem_request.
     rbind (jitem ''pools'' fixture) (\<lambda>pools.
     rbind (jitem arch pools) (\<lambda>pool.
     rbind (count_slots (required_cpu overhead margin_cpu request) (required_cpu memory_overhead margin_memory mem_request) pool) (\<lambda>slots.
     rbind (jitem ''slots'' pool) (\<lambda>configured.
     rbind (jitem ''limit'' runner) (\<lambda>limit.
     Inr ((if dget ''node_selector'' k \<noteq> arch_selector arch then [EscapesArchitecture arch] else [])
       @ (if list_ex (\<lambda>key. truthy (dget key k)) [''cpu_limit'', ''helper_cpu_limit'', ''service_cpu_limit''] then [CpuQuota arch] else [])
       @ (if \<not> isolated then [IsolationChanged arch] else [])
       @ (if list_ex (\<lambda>(key, v). dget key k \<noteq> JStr v) MEMORY_ENVELOPE then [MemoryEnvelopeChanged arch] else [])
       @ (if \<not> accounted then [ServicesUnaccounted arch] else [])
       @ (if number_of configured \<noteq> Some (of_nat (expected_slots arch)) then [WrongTopology arch] else [])
       @ (if number_of limit \<noteq> Some (of_nat (expected_slots arch)) then [WrongLimit arch] else [])
       @ (if slots < expected_slots arch then [TooFewSlots arch slots (expected_slots arch)] else [])))))))))))))))))"

definition sum_requests :: "string \<Rightarrow> (jval \<Rightarrow> rat res) \<Rightarrow> dict \<Rightarrow> rat res" where
  "sum_requests key f requests =
     rbind (rmap (\<lambda>r. rbind (jitem key (snd r)) f) requests) (\<lambda>ns. Inr (sum_list ns))"

definition validate_pool_contract :: "dict \<Rightarrow> dict \<Rightarrow> jval \<Rightarrow> pool_error list res" where
  "validate_pool_contract configs manager_requests fixture =
     (if set (map fst configs) \<noteq> {''architecture''} \<or> set (map fst manager_requests) \<noteq> {''architecture''} then Inr [OneManagerRequired]
      else
        (let config = dget ''architecture'' configs in
        rbind (jitem ''concurrent'' config) (\<lambda>concurrent.
        (let errors = (if number_of concurrent \<noteq> Some 3 then [WrongConcurrency] else []) in
        rbind (jitem ''runners'' config) (\<lambda>rv.
        rbind (py_iter rv) (\<lambda>runners.
        rbind (rmap (jitem ''name'') runners) (\<lambda>names.
        if names \<noteq> [JStr ''k8s-amd64'', JStr ''k8s-arm64''] then Inr (errors @ [TwoRegistrationsRequired])
        else
          rbind (sum_requests ''cpu'' (\<lambda>v. rbind (cpu_millicores v) (\<lambda>n. Inr (of_int n))) manager_requests) (\<lambda>overhead.
          rbind (sum_requests ''memory'' memory_mebibytes manager_requests) (\<lambda>memory_overhead.
          rbind (rmap (runner_errors overhead memory_overhead fixture) (zip [''amd64'', ''arm64''] runners)) (\<lambda>found.
          Inr (errors @ concat found)))))))))))"

subsection \<open>main\<close>

text \<open>The exit status; the variants are directories with their fragments, the incidents fixtures with their texts.\<close>

fun load_variants :: "(string \<Rightarrow> jval option) \<Rightarrow> (string \<times> string) list \<Rightarrow> (string \<times> (string \<times> string) list) list \<Rightarrow> dict option" where
  "load_variants toml base [] = Some []"
| "load_variants toml base (v # vs) =
     (case toml (load_template base (snd v)) of
        None \<Rightarrow> None
      | Some t \<Rightarrow> map_option ((#) (fst v, t)) (load_variants toml base vs))"

definition incident_errors :: "dict \<Rightarrow> string \<times> string \<Rightarrow> capacity_error list res" where
  "incident_errors templates inc =
     (case json_loads (snd inc) of
        None \<Rightarrow> Inl (PyError ''JSONDecodeError'')
      | Some incident \<Rightarrow> validate_capacity_contract templates incident)"

definition templates_main :: "(string \<Rightarrow> jval option) \<Rightarrow> (string \<times> string) list \<Rightarrow> (string \<times> (string \<times> string) list) list \<Rightarrow> (string \<times> string) list \<Rightarrow> int res" where
  "templates_main toml base variants incidents =
     (case load_variants toml base (sort_key fst variants) of
        None \<Rightarrow> Inr 1
      | Some templates \<Rightarrow>
          if incidents = [] then Inr 1
          else
            rbind (rmap (incident_errors templates) (sort_key fst incidents)) (\<lambda>found.
            Inr (if list_ex (\<lambda>errors. errors \<noteq> []) found then 1 else 0)))"

end
