(* ===== verification/Runner_Properties.thy ===== *)
theory Runner_Properties
  imports Runner_Templates
begin

section \<open>Properties of the runner templates\<close>

text \<open>What acceptance by the pool contract and by the capacity contract guarantees.\<close>

subsection \<open>Pools\<close>

text \<open>The nodes of a pool on which a Pod with these requirements fits, by CPU and memory of the same node.\<close>

definition fitting_nodes :: "rat \<Rightarrow> rat \<Rightarrow> jval list \<Rightarrow> jval list \<Rightarrow> nat set" where
  "fitting_nodes cpu memory cpus memories = {i. i < length cpus \<and> i < length memories
     \<and> (\<exists>c m. number_of (cpus ! i) = Some c \<and> number_of (memories ! i) = Some m \<and> cpu \<le> c \<and> memory \<le> m)}"

lemma node_fits_True:
  "node_fits cpu memory n = Inr True \<longleftrightarrow>
     (\<exists>c m. number_of (fst n) = Some c \<and> number_of (snd n) = Some m \<and> cpu \<le> c \<and> memory \<le> m)"
  by (auto simp: node_fits_def as_num_def rbind_eq_Inr not_less split: option.splits if_splits)

lemma count_slots_fitting:
  assumes "count_slots cpu memory pool = Inr slots"
  shows "\<exists>d cpus memories. pool = JDict d \<and> py_iter (dget ''headroom_cpu_m'' d) = Inr cpus
    \<and> py_iter (dget ''headroom_memory_mi'' d) = Inr memories \<and> slots = card (fitting_nodes cpu memory cpus memories)"
proof -
  obtain d cv mv cpus memories fits and nodes :: "jval list" where q: "map_of d ''headroom_cpu_m'' = Some cv" "map_of d ''headroom_memory_mi'' = Some mv"
      and p: "pool = JDict d" "py_iter cv = Inr cpus" "py_iter mv = Inr memories"
      "rmap (node_fits cpu memory) (map snd (zip nodes (zip cpus memories))) = Inr fits"
      "length nodes = length cpus" "length cpus = length memories" "slots = length (filter id fits)"
    using assms unfolding count_slots_def rbind_eq_Inr jitem_eq_Inr
    by (auto simp del: map_snd_zip zip_map2 split: if_split_asm)
  have "map snd (zip nodes (zip cpus memories)) = zip cpus memories" using p(5,6) by simp
  with p(4) have l: "list_all2 (\<lambda>n b. node_fits cpu memory n = Inr b) (zip cpus memories) fits" by (simp add: rmap_eq_Inr)
  then have len: "length fits = length cpus" using p(6) by (auto dest: list_all2_lengthD)
  have "length (filter id fits) = card {i. i < length fits \<and> fits ! i}" by (simp add: length_filter_conv_card)
  also have "{i. i < length fits \<and> fits ! i} = fitting_nodes cpu memory cpus memories"
  proof -
    have "fits ! i \<longleftrightarrow> node_fits cpu memory (cpus ! i, memories ! i) = Inr True" if "i < length cpus" for i
      using list_all2_nthD [OF l, of i] that p(6) len by auto
    then show ?thesis unfolding fitting_nodes_def using len p(6) by (auto simp: node_fits_True)
  qed
  finally show ?thesis using p dget_map_of [OF q(1)] dget_map_of [OF q(2)] by metis
qed

text \<open>
  A registration is isolated: its Pods carry the label of a job, and a hard anti-affinity term keeps them, by host name and
  over the two namespaces of the jobs, away from every Pod with exactly this label.
\<close>

definition isolated_registration :: "dict \<Rightarrow> bool" where
  "isolated_registration k \<longleftrightarrow>
     (\<exists>labels terms hard selector. dget_or ''pod_labels'' (JDict []) k = JDict labels \<and> dget JOB_KEY labels = JStr ''true''
        \<and> anti_affinity_terms (JDict k) = Inr terms \<and> JDict hard \<in> set terms
        \<and> dget ''topology_key'' hard = JStr ''kubernetes.io/hostname'' \<and> dget ''namespaces'' hard = CI_NAMESPACES
        \<and> dget_or ''label_selector'' (JDict []) hard = JDict selector
        \<and> dget ''match_labels'' selector = JDict [(JOB_KEY, JStr ''true'')])"

lemma isolated_job_True:
  assumes "isolated_job (JDict k) = Inr True"
  shows "isolated_registration k"
proof -
  obtain terms labels chosen where t: "anti_affinity_terms (JDict k) = Inr terms" "chosen \<in> set terms" "exact_term chosen = Inr True"
    and l: "jget_or ''pod_labels'' (JDict []) (JDict k) = Inr labels" "jget JOB_KEY labels = Inr (JStr ''true'')"
    using assms unfolding isolated_job_def rbind_eq_Inr by (auto split: if_split_asm dest: any_res_True)
  obtain hard selector where "chosen = JDict hard" "dget ''topology_key'' hard = JStr ''kubernetes.io/hostname''"
      "dget ''namespaces'' hard = CI_NAMESPACES" "dget_or ''label_selector'' (JDict []) hard = JDict selector"
      "dget ''match_labels'' selector = JDict [(JOB_KEY, JStr ''true'')]"
    using t(3) unfolding exact_term_def hostname_term_def rbind_eq_Inr
    by (fastforce simp: jget_eq_Inr jget_or_eq_Inr rbind_eq_Inr split: if_split_asm)
  moreover obtain d where "dget_or ''pod_labels'' (JDict []) k = JDict d" "dget JOB_KEY d = JStr ''true''"
    using l by (auto simp: jget_eq_Inr jget_or_eq_Inr)
  ultimately show ?thesis unfolding isolated_registration_def using t(1,2) by blast
qed

text \<open>
  What the contract promises of one registration: it stays on its architecture, has no CPU quota, is isolated from other
  jobs, has the fixed memory envelope and accounts for its services, its limit and the configured slots of its pool
  are the number of slots, and at least as many nodes of its pool fit the whole request together with the manager and
  the margins.
\<close>

definition registration_ok :: "rat \<Rightarrow> rat \<Rightarrow> jval \<Rightarrow> string \<times> jval \<Rightarrow> bool" where
  "registration_ok overhead memory_overhead fixture ar \<longleftrightarrow>
     (\<exists>runner k f pools pool cpus memories services request mem_request margin_cpu margin_memory.
        snd ar = JDict runner \<and> map_of runner ''kubernetes'' = Some (JDict k) \<and> fixture = JDict f
        \<and> dget ''pools'' f = JDict pools \<and> dget (fst ar) pools = JDict pool
        \<and> margin ''margin_cpu_m'' fixture = Inr margin_cpu \<and> margin ''margin_memory_mi'' fixture = Inr margin_memory
        \<and> dget ''node_selector'' k = arch_selector (fst ar)
        \<and> list_all (\<lambda>key. \<not> truthy (dget key k)) [''cpu_limit'', ''helper_cpu_limit'', ''service_cpu_limit'']
        \<and> list_all (\<lambda>(key, v). dget key k = JStr v) MEMORY_ENVELOPE
        \<and> isolated_registration k
        \<and> number_of (dget ''slots'' pool) = Some (of_nat (expected_slots (fst ar)))
        \<and> services_accounted k = Inr True \<and> service_count k fixture (fst ar) = Inr services
        \<and> cpu_request k services = Inr request \<and> memory_request k services = Inr mem_request
        \<and> number_of (dget ''limit'' runner) = Some (of_nat (expected_slots (fst ar)))
        \<and> py_iter (dget ''headroom_cpu_m'' pool) = Inr cpus \<and> py_iter (dget ''headroom_memory_mi'' pool) = Inr memories
        \<and> expected_slots (fst ar) \<le> card (fitting_nodes (overhead + margin_cpu + max 0 request)
             (memory_overhead + margin_memory + max 0 mem_request) cpus memories))"

lemma required_cpu_max: "required_cpu a b c = a + b + max 0 c"
  unfolding required_cpu_def by (simp add: max_def)

lemma runner_errors_none:
  assumes "runner_errors overhead memory_overhead fixture ar = Inr []"
  shows "registration_ok overhead memory_overhead fixture ar"
proof -
  obtain margin_cpu margin_memory runner k services request mem_request f pools pool slots limit configured where q:
      "map_of f ''pools'' = Some (JDict pools)" "map_of pools (fst ar) = Some pool" "map_of runner ''limit'' = Some limit"
    and r:
      "margin ''margin_cpu_m'' fixture = Inr margin_cpu" "margin ''margin_memory_mi'' fixture = Inr margin_memory"
      "snd ar = JDict runner" "map_of runner ''kubernetes'' = Some (JDict k)"
      "isolated_job (JDict k) = Inr True" "services_accounted k = Inr True" "service_count k fixture (fst ar) = Inr services"
      "cpu_request k services = Inr request" "memory_request k services = Inr mem_request"
      "fixture = JDict f"
      "count_slots (required_cpu overhead margin_cpu request) (required_cpu memory_overhead margin_memory mem_request) pool = Inr slots"
      "dget ''node_selector'' k = arch_selector (fst ar)"
      "list_all (\<lambda>key. \<not> truthy (dget key k)) [''cpu_limit'', ''helper_cpu_limit'', ''service_cpu_limit'']"
      "list_all (\<lambda>(key, v). dget key k = JStr v) MEMORY_ENVELOPE"
      "number_of limit = Some (of_nat (expected_slots (fst ar)))"
      "expected_slots (fst ar) \<le> slots" "jitem ''slots'' pool = Inr configured" "number_of configured = Some (of_nat (expected_slots (fst ar)))"
    using assms unfolding runner_errors_def Let_def rbind_eq_Inr jitem_eq_Inr
    by (clarsimp simp: not_less list_ex_iff list_all_iff py_items_def split: if_split_asm jval.splits) blast
  note d = dget_map_of [OF q(1)] dget_map_of [OF q(2)] dget_map_of [OF q(3)]
  note t = isolated_job_True [OF r(5)]
  from count_slots_fitting [OF r(11)] obtain d cpus memories where c: "pool = JDict d" "py_iter (dget ''headroom_cpu_m'' d) = Inr cpus"
      "py_iter (dget ''headroom_memory_mi'' d) = Inr memories"
      "slots = card (fitting_nodes (required_cpu overhead margin_cpu request) (required_cpu memory_overhead margin_memory mem_request) cpus memories)"
    by blast
  have "number_of (dget ''slots'' d) = Some (of_nat (expected_slots (fst ar)))"
    using r(17,18) c(1) by (auto simp: jitem_eq_Inr dget_map_of)
  then show ?thesis unfolding registration_ok_def using r t c d unfolding required_cpu_max by blast
qed

lemma rmap_concat_Nil: "rmap f xs = Inr ys \<Longrightarrow> concat ys = [] \<Longrightarrow> list_all (\<lambda>x. f x = Inr []) xs"
  by (induction xs arbitrary: ys) (auto simp: rbind_eq_Inr)

text \<open>
  (C28) Acceptance by the pool contract means capacity: there is one manager with exactly the two native
  registrations, named \<^verbatim>\<open>k8s-amd64\<close> and \<^verbatim>\<open>k8s-arm64\<close> in this order, the global bound is 3, and each registration
  keeps its promise (\<open>registration_ok\<close>), isolation by label and hard anti-affinity included. In particular at least one
  amd64 node and two arm64 nodes have, each by itself, enough CPU and enough memory for the build, the helper, all
  services, the manager and the margins.
\<close>

theorem pool_contract_sound:
  assumes "validate_pool_contract configs manager_requests fixture = Inr []"
  shows "\<exists>config runners overhead memory_overhead.
    set (map fst configs) = {''architecture''} \<and> set (map fst manager_requests) = {''architecture''} \<and> dget ''architecture'' configs = JDict config
    \<and> number_of (dget ''concurrent'' config) = Some 3 \<and> py_iter (dget ''runners'' config) = Inr runners
    \<and> map (jitem ''name'') runners = [Inr (JStr ''k8s-amd64''), Inr (JStr ''k8s-arm64'')]
    \<and> sum_requests ''cpu'' (\<lambda>v. rbind (cpu_millicores v) (\<lambda>n. Inr (of_int n))) manager_requests = Inr overhead
    \<and> sum_requests ''memory'' memory_mebibytes manager_requests = Inr memory_overhead
    \<and> list_all (registration_ok overhead memory_overhead fixture) (zip [''amd64'', ''arm64''] runners)"
proof -
  obtain config runners overhead memory_overhead found cv rv where q: "map_of config ''concurrent'' = Some cv" "map_of config ''runners'' = Some rv"
    and v: "set (map fst configs) = {''architecture''} \<and> set (map fst manager_requests) = {''architecture''}" "dget ''architecture'' configs = JDict config" "number_of cv = Some 3" "py_iter rv = Inr runners"
      "rmap (jitem ''name'') runners = Inr [JStr ''k8s-amd64'', JStr ''k8s-arm64'']"
      "sum_requests ''cpu'' (\<lambda>v. rbind (cpu_millicores v) (\<lambda>n. Inr (of_int n))) manager_requests = Inr overhead"
      "sum_requests ''memory'' memory_mebibytes manager_requests = Inr memory_overhead"
      "rmap (runner_errors overhead memory_overhead fixture) (zip [''amd64'', ''arm64''] runners) = Inr found" "concat found = []"
    using assms unfolding validate_pool_contract_def Let_def rbind_eq_Inr jitem_eq_Inr
    by (simp only: if_distrib [where f = "\<lambda>x. x = Inr _"] rbind_eq_Inr) (auto simp: rbind_eq_Inr jitem_eq_Inr split: if_split_asm)
  have "map (jitem ''name'') runners = [Inr (JStr ''k8s-amd64''), Inr (JStr ''k8s-arm64'')]"
    using v(5) by (auto simp: rmap_eq_Inr list_all2_Cons2)
  moreover have "list_all (registration_ok overhead memory_overhead fixture) (zip [''amd64'', ''arm64''] runners)"
    using rmap_concat_Nil [OF v(8,9)] runner_errors_none by (simp only: list_all_iff) blast
  ultimately show ?thesis using v dget_map_of [OF q(1)] dget_map_of [OF q(2)]
    by (intro exI [of _ config] exI [of _ runners] exI [of _ overhead] exI [of _ memory_overhead]) (simp only: simp_thms)
qed

text \<open>A configuration with the fixture of the repository, for which the contract holds.\<close>

definition ex_kubernetes :: "string \<Rightarrow> dict" where
  "ex_kubernetes arch =
     [(''node_selector'', arch_selector arch), (''cpu_request'', JStr ''250m''), (''helper_cpu_request'', JStr ''100m''),
      (''service_cpu_request'', JStr ''50m''), (''memory_request'', JStr ''512Mi''), (''memory_limit'', JStr ''6Gi''),
      (''helper_memory_request'', JStr ''128Mi''), (''helper_memory_limit'', JStr ''256Mi''), (''service_memory_request'', JStr ''64Mi''),
      (''pod_labels'', JDict [(JOB_KEY, JStr ''true'')]), (''services'', JList [JDict []]),
      (''affinity'', JDict [(''pod_anti_affinity'', JDict [(''required_during_scheduling_ignored_during_execution'',
         JList [JDict [(''topology_key'', JStr ''kubernetes.io/hostname''), (''namespaces'', CI_NAMESPACES),
           (''label_selector'', JDict [(''match_labels'', JDict [(JOB_KEY, JStr ''true'')])])]])])])]"

definition ex_runner :: "string \<Rightarrow> int \<Rightarrow> jval" where
  "ex_runner arch limit = JDict [(''name'', JStr (''k8s-'' @ arch)), (''limit'', JInt limit), (''kubernetes'', JDict (ex_kubernetes arch))]"

definition ex_configs :: dict where
  "ex_configs = [(''architecture'', JDict [(''concurrent'', JInt 3), (''runners'', JList [ex_runner ''amd64'' 1, ex_runner ''arm64'' 2])])]"

definition ex_requests :: dict where
  "ex_requests = [(''architecture'', JDict [(''cpu'', JStr ''100m''), (''memory'', JStr ''128Mi'')])]"

definition ex_fixture :: jval where
  "ex_fixture = JDict
     [(''pools'', JDict
         [(''amd64'', JDict [(''slots'', JInt 1), (''nodes'', JList [JStr ''amd-a'']), (''headroom_cpu_m'', JList [JInt 1000]),
            (''headroom_memory_mi'', JList [JInt 2048])]),
          (''arm64'', JDict [(''slots'', JInt 2), (''nodes'', JList [JStr ''arm-a'', JStr ''arm-b'']), (''headroom_cpu_m'', JList [JInt 1000, JInt 1000]),
            (''headroom_memory_mi'', JList [JInt 2048, JInt 2048])])]),
      (''margin_cpu_m'', JInt 125), (''margin_memory_mi'', JInt 128), (''max_declared_services'', JDict [(''amd64'', JInt 2), (''arm64'', JInt 2)])]"

lemma ex_pool_accepted: "validate_pool_contract ex_configs ex_requests ex_fixture = Inr []"
proof -
  have n: "isdecimal ''250''" "isdecimal ''100''" "isdecimal ''50''" "isdecimal ''512''" "isdecimal ''128''" "isdecimal ''64''"
    "read_nat ''250'' = 250" "read_nat ''100'' = 100" "read_nat ''50'' = 50" "read_nat ''512'' = 512" "read_nat ''128'' = 128" "read_nat ''64'' = 64"
    by (simp_all add: isdecimal_def is_digit_def read_nat_def digit_val_def)
  have p: "py_int ''250'' = Inr 250" "py_int ''100'' = Inr 100" "py_int ''50'' = Inr 50" "py_int ''512'' = Inr 512" "py_int ''128'' = Inr 128"
      "py_int ''64'' = Inr 64"
    by (simp_all add: py_int_digits n)
  have c: "cpu_millicores (JStr (s @ ''m'')) = py_int s" for s by (simp add: cpu_millicores_def quantity_def)
  have m: "memory_mebibytes (JStr (s @ ''Mi'')) = rbind (py_int s) (\<lambda>n. Inr (of_int n))" for s
    by (simp add: memory_mebibytes_def quantity_def removesuffix_def suffix_def)
  have q: "cpu_millicores (JStr ''250m'') = Inr 250" "cpu_millicores (JStr ''100m'') = Inr 100" "cpu_millicores (JStr ''50m'') = Inr 50"
      "memory_mebibytes (JStr ''512Mi'') = Inr 512" "memory_mebibytes (JStr ''128Mi'') = Inr 128" "memory_mebibytes (JStr ''64Mi'') = Inr 64"
    using c [of "''250''"] c [of "''100''"] c [of "''50''"] m [of "''512''"] m [of "''128''"] m [of "''64''"] by (simp_all add: p)
  have iso: "isolated_job (JDict (ex_kubernetes arch)) = Inr True" for arch
    by (simp add: isolated_job_def ex_kubernetes_def anti_affinity_terms_def py_iter_def exact_term_def hostname_term_def)
  have k: "services_accounted (ex_kubernetes arch) = Inr True" "cpu_request (ex_kubernetes arch) 3 = Inr 500" "memory_request (ex_kubernetes arch) 3 = Inr 832"
      "dget ''node_selector'' (ex_kubernetes arch) = arch_selector arch"
      "dget ''cpu_limit'' (ex_kubernetes arch) = JNull" "dget ''helper_cpu_limit'' (ex_kubernetes arch) = JNull"
      "dget ''service_cpu_limit'' (ex_kubernetes arch) = JNull"
      "list_ex (\<lambda>(key, v). dget key (ex_kubernetes arch) \<noteq> JStr v) MEMORY_ENVELOPE = False" for arch
    by (simp_all add: services_accounted_def service_cpu_def cpu_request_def memory_request_def jitem_JDict ex_kubernetes_def q MEMORY_ENVELOPE_def)
  have s: "service_count (ex_kubernetes arch) ex_fixture arch = Inr 3" if "arch = ''amd64'' \<or> arch = ''arm64''" for arch
    using that by (auto simp: ex_kubernetes_def service_count_def ex_fixture_def py_len_def jitem_JDict as_num_def)
  have r: "runner_errors 100 128 ex_fixture (''amd64'', ex_runner ''amd64'' 1) = Inr []" "runner_errors 100 128 ex_fixture (''arm64'', ex_runner ''arm64'' 2) = Inr []"
    unfolding runner_errors_def ex_runner_def
    by (simp_all add: Let_def jitem_JDict py_items_def iso k s margin_def)
      (simp_all add: ex_fixture_def jitem_JDict as_num_def count_slots_def py_iter_def node_fits_def required_cpu_def expected_slots_def)
  have nm: "jitem ''name'' (ex_runner arch n) = Inr (JStr (''k8s-'' @ arch))" for arch n by (simp add: ex_runner_def jitem_JDict)
  show ?thesis
    unfolding validate_pool_contract_def ex_configs_def ex_requests_def
    by (simp add: jitem_JDict [of _ "_ # _"] py_iter_def sum_requests_def q r nm)
qed

theorem pool_contract_sound_witness:
  "\<exists>config runners overhead memory_overhead.
    set (map fst ex_configs) = {''architecture''} \<and> set (map fst ex_requests) = {''architecture''} \<and> dget ''architecture'' ex_configs = JDict config
    \<and> number_of (dget ''concurrent'' config) = Some 3 \<and> py_iter (dget ''runners'' config) = Inr runners
    \<and> map (jitem ''name'') runners = [Inr (JStr ''k8s-amd64''), Inr (JStr ''k8s-arm64'')]
    \<and> sum_requests ''cpu'' (\<lambda>v. rbind (cpu_millicores v) (\<lambda>n. Inr (of_int n))) ex_requests = Inr overhead
    \<and> sum_requests ''memory'' memory_mebibytes ex_requests = Inr memory_overhead
    \<and> list_all (registration_ok overhead memory_overhead ex_fixture) (zip [''amd64'', ''arm64''] runners)"
  by (rule pool_contract_sound [OF ex_pool_accepted])

subsection \<open>Capacity\<close>

text \<open>
  What the capacity contract promises for a recorded incident: the request of the amd64 template fits the
  recorded headroom, the poll timeout covers the wait for a slot, every template has a hard term that keeps other jobs
  away, and the two native templates select their architecture.
\<close>

definition isolating_template :: "jval \<Rightarrow> bool" where
  "isolating_template template \<longleftrightarrow>
     (\<exists>kubernetes terms. kubernetes_of template = Inr kubernetes \<and> anti_affinity_terms kubernetes = Inr terms
        \<and> any_res isolating_term terms = Inr True)"

definition native_template :: "dict \<Rightarrow> jval \<Rightarrow> jval \<Rightarrow> bool" where
  "native_template templates incident amd64 \<longleftrightarrow>
     (\<exists>variants bound template. jitem ''runner_variants'' incident = Inr variants \<and> jitem ''architecture_bound'' variants = Inr bound
        \<and> template_of templates bound = Inr template \<and> kubernetes_of template = Inr amd64)"

definition capacity_ok :: "dict \<Rightarrow> jval \<Rightarrow> bool" where
  "capacity_ok templates incident \<longleftrightarrow>
     (\<exists>amd64 headroom_m request_m horizon pv poll_timeout arm64_template arm64.
        native_template templates incident amd64
        \<and> headroom incident = Inr headroom_m \<and> scheduler_request amd64 = Inr request_m \<and> of_int request_m \<le> headroom_m
        \<and> wait_horizon incident = Inr horizon \<and> jitem ''poll_timeout'' amd64 = Inr pv \<and> as_num pv = Inr poll_timeout \<and> horizon \<le> poll_timeout
        \<and> list_all (\<lambda>vt. isolating_template (snd vt)) templates
        \<and> jget ''node_selector'' amd64 = Inr (arch_selector ''amd64'')
        \<and> jitem ''arm64'' (JDict templates) = Inr arm64_template \<and> kubernetes_of arm64_template = Inr arm64
        \<and> jget ''node_selector'' arm64 = Inr (arch_selector ''arm64''))"

lemma variant_errors_Nil: "variant_errors vt = Inr [] \<longleftrightarrow> isolating_template (snd vt)"
  unfolding variant_errors_def isolating_template_def rbind_eq_Inr by (auto split: if_split_asm)

lemma rmap_all_Nil:
  "(\<exists>ys. rmap f xs = Inr ys \<and> concat ys = []) \<longleftrightarrow> list_all (\<lambda>x. f x = Inr []) xs"
proof
  assume "list_all (\<lambda>x. f x = Inr []) xs"
  then have "rmap f xs = Inr (map (\<lambda>_. []) xs)" by (induction xs) auto
  then show "\<exists>ys. rmap f xs = Inr ys \<and> concat ys = []" by auto
qed (use rmap_concat_Nil in blast)

lemma if_Nil: "(if b then [x] else []) = [] \<longleftrightarrow> \<not> b"
  by simp

lemma capacity_contract_exact: "validate_capacity_contract templates incident = Inr [] \<longleftrightarrow> capacity_ok templates incident"
proof -
  have iso: "list_all (\<lambda>vt. isolating_template (snd vt)) templates \<longleftrightarrow> (\<exists>ys. rmap variant_errors templates = Inr ys \<and> concat ys = [])"
    unfolding rmap_all_Nil variant_errors_Nil by (rule refl)
  show ?thesis
    unfolding validate_capacity_contract_def capacity_ok_def native_template_def iso rbind_eq_Inr sum.inject append_is_Nil_conv if_Nil not_less not_not
    by blast
qed

text \<open>
  The template validator ends with status 0 exactly when every variant parses, there is at least one
  recorded incident, every incident parses, and the capacity contract holds for every incident.
\<close>

theorem templates_accept_exactly:
  "templates_main toml base variants incidents = Inr 0 \<longleftrightarrow>
     incidents \<noteq> [] \<and> (\<exists>templates. load_variants toml base (sort_key fst variants) = Some templates
       \<and> list_all (\<lambda>inc. \<exists>incident. json_loads (snd inc) = Some incident \<and> capacity_ok templates incident) incidents)"
proof -
  have one: "incident_errors templates inc = Inr [] \<longleftrightarrow> (\<exists>incident. json_loads (snd inc) = Some incident \<and> capacity_ok templates incident)" for templates inc
    by (auto simp: incident_errors_def capacity_contract_exact split: option.splits)
  have any: "\<not> list_ex (\<lambda>errors. errors \<noteq> []) found \<longleftrightarrow> concat found = []" for found :: "capacity_error list list"
    by (induction found) auto
  have "rbind (rmap f xs) (\<lambda>found. Inr (if list_ex (\<lambda>errors. errors \<noteq> []) found then 1 else 0)) = Inr (0 :: int)
      \<longleftrightarrow> list_all (\<lambda>x. f x = Inr []) xs" for f :: "string \<times> string \<Rightarrow> capacity_error list res" and xs
    unfolding rmap_all_Nil [symmetric] rbind_eq_Inr any [symmetric] by auto
  then show ?thesis
    unfolding templates_main_def one [symmetric] by (auto simp: list_all_iff split: option.splits)
qed

end
