(* ===== verification/Resource_Strip.thy ===== *)
theory Resource_Strip
  imports Py_Text
begin

section \<open>Desired state from live resources\<close>

text \<open>
  The pure part of \<^verbatim>\<open>scripts/export_to_kustomize.py\<close>: \<^verbatim>\<open>strip_resource\<close> turns a live resource into desired state. A
  resource comes from the API server as YAML with strings as keys, so that its way through JSON text does
  not change it. Changes in place are functions from the old to the new value. A set of keys is a
  list.
\<close>

subsection \<open>Constants\<close>

definition NAMESPACED_TYPES :: "string list" where
  "NAMESPACED_TYPES = [''deployments.apps'',
     ''statefulsets.apps'',
     ''daemonsets.apps'',
     ''services'',
     ''configmaps'',
     ''persistentvolumeclaims'',
     ''serviceaccounts'',
     ''roles.rbac.authorization.k8s.io'',
     ''rolebindings.rbac.authorization.k8s.io'',
     ''cronjobs.batch'',
     ''ingresses.networking.k8s.io'',
     ''ingressroutes.traefik.io'',
     ''middlewares.traefik.io'',
     ''certificates.cert-manager.io'',
     ''verticalpodautoscalers.autoscaling.k8s.io'',
     ''ciliumnetworkpolicies.cilium.io'',
     ''resourceclaims.resource.k8s.io'']"

definition CLUSTER_TYPES :: "string list" where
  "CLUSTER_TYPES = [''clusterroles.rbac.authorization.k8s.io'',
     ''clusterrolebindings.rbac.authorization.k8s.io'',
     ''storageclasses.storage.k8s.io'',
     ''customresourcedefinitions.apiextensions.k8s.io'',
     ''mutatingwebhookconfigurations.admissionregistration.k8s.io'',
     ''validatingwebhookconfigurations.admissionregistration.k8s.io'',
     ''apiservices.apiregistration.k8s.io'',
     ''deviceclasses.resource.k8s.io'',
     ''persistentvolumes'']"

definition RUNTIME_METADATA_KEYS :: "string list" where
  "RUNTIME_METADATA_KEYS = [''creationTimestamp'',
     ''deletionGracePeriodSeconds'',
     ''deletionTimestamp'',
     ''generation'',
     ''managedFields'',
     ''resourceVersion'',
     ''selfLink'',
     ''uid'']"

definition RUNTIME_ANNOTATIONS :: "string list" where
  "RUNTIME_ANNOTATIONS = [''deployment.kubernetes.io/revision'',
     ''kubectl.kubernetes.io/last-applied-configuration'',
     ''kubectl.kubernetes.io/restartedAt'',
     ''reloader.stakater.com/last-reloaded-from'',
     ''pv.kubernetes.io/bind-completed'',
     ''pv.kubernetes.io/bound-by-controller'',
     ''volume.beta.kubernetes.io/storage-provisioner'',
     ''volume.kubernetes.io/storage-provisioner'']"

definition MANAGED_BY_LABEL_KEYS :: "string list" where
  "MANAGED_BY_LABEL_KEYS = [''managed-by'',
     ''app.kubernetes.io/managed-by'']"

definition RUNTIME_LABELS :: "string list" where
  "RUNTIME_LABELS = [''kustomize.toolkit.fluxcd.io/name'',
     ''kustomize.toolkit.fluxcd.io/namespace'']"

definition STRING_REPLACEMENTS :: "(string \<times> string) list" where
  "STRING_REPLACEMENTS = [(''Managed by Terraform'', ''Managed in cluster-state'')]"

definition GITLAB_CNG_IMAGES :: "(string \<times> string) list" where
  "GITLAB_CNG_IMAGES = [(''gitlab-gitaly'', ''registry.gitlab.com/gitlab-org/build/cng/gitaly''),
     (''gitlab-registry'', ''registry.gitlab.com/gitlab-org/build/cng/gitlab-container-registry''),
     (''gitlab-sidekiq'', ''registry.gitlab.com/gitlab-org/build/cng/gitlab-sidekiq-ce''),
     (''gitlab-webservice'', ''registry.gitlab.com/gitlab-org/build/cng/gitlab-webservice-ce''),
     (''gitlab-workhorse'', ''registry.gitlab.com/gitlab-org/build/cng/gitlab-workhorse-ce'')]"

subsection \<open>Changing dictionaries\<close>

text \<open>\<^verbatim>\<open>d.pop(k, None)\<close> and \<^verbatim>\<open>d.setdefault(k, v)\<close>; \<^verbatim>\<open>d[k] = v\<close> is the update of association lists.\<close>

definition dpop :: "string \<Rightarrow> dict \<Rightarrow> dict" where
  "dpop k d = filter (\<lambda>kv. fst kv \<noteq> k) d"

definition dpops :: "string list \<Rightarrow> dict \<Rightarrow> dict" where
  "dpops ks d = filter (\<lambda>kv. fst kv \<notin> set ks) d"

definition setdefault :: "string \<Rightarrow> jval \<Rightarrow> dict \<Rightarrow> dict" where
  "setdefault k v d = (if map_of d k = None then d @ [(k, v)] else d)"

text \<open>
  What a chain of \<^verbatim>\<open>.get(k, {})\<close> reaches is changed in place; where a key is missing the chain ends in a fresh
  object and nothing changes.
\<close>

fun at_path :: "string list \<Rightarrow> (jval \<Rightarrow> jval res) \<Rightarrow> jval \<Rightarrow> jval res" where
  "at_path [] f v = f v"
| "at_path (k # ks) f v =
     (case v of
        JDict d \<Rightarrow> (case map_of d k of
            None \<Rightarrow> Inr v
          | Some x \<Rightarrow> rbind (at_path ks f x) (\<lambda>y. Inr (JDict (AList.update k y d))))
      | _ \<Rightarrow> Inl (PyError ''AttributeError''))"

definition on_dict :: "(dict \<Rightarrow> dict res) \<Rightarrow> jval \<Rightarrow> jval res" where
  "on_dict f v = rbind (py_items v) (\<lambda>d. rbind (f d) (\<lambda>d'. Inr (JDict d')))"

subsection \<open>Walking through a resource\<close>

definition replace_strings :: "string \<Rightarrow> string" where
  "replace_strings s = foldl (\<lambda>s r. replace_all (fst r) (snd r) s) s STRING_REPLACEMENTS"

fun normalize_embedded_strings :: "jval \<Rightarrow> jval" where
  "normalize_embedded_strings (JDict d) = JDict (map (\<lambda>(k, v). (k, normalize_embedded_strings v)) d)"
| "normalize_embedded_strings (JList xs) = JList (map normalize_embedded_strings xs)"
| "normalize_embedded_strings (JStr s) = JStr (replace_strings s)"
| "normalize_embedded_strings v = v"

definition managed_selector :: "string \<Rightarrow> jval \<Rightarrow> bool" where
  "managed_selector k v =
     (k \<in> set [''selector'', ''matchLabels''] \<and> (case v of JDict d \<Rightarrow> list_ex (\<lambda>l. map_of d l \<noteq> None) MANAGED_BY_LABEL_KEYS | _ \<Rightarrow> False))"

fun requires_managed_by_labels :: "jval \<Rightarrow> bool" where
  "requires_managed_by_labels (JDict d) = list_ex (\<lambda>(k, v). managed_selector k v \<or> requires_managed_by_labels v) d"
| "requires_managed_by_labels (JList xs) = list_ex requires_managed_by_labels xs"
| "requires_managed_by_labels _ = False"

definition EMPTIED_KEYS :: "string list" where
  "EMPTIED_KEYS = [''annotations'', ''labels'', ''matchLabels'']"

definition dropped :: "bool \<Rightarrow> string \<Rightarrow> jval \<Rightarrow> bool" where
  "dropped preserve_managed_by k v =
     (k \<in> set RUNTIME_LABELS \<or> (\<not> preserve_managed_by \<and> k \<in> set MANAGED_BY_LABEL_KEYS \<and> v = JStr ''terraform'') \<or> k \<in> set RUNTIME_ANNOTATIONS)"

fun scrub_runtime_fields :: "bool \<Rightarrow> jval \<Rightarrow> jval" where
  "scrub_runtime_fields p (JDict d) =
     JDict (concat (map (\<lambda>(k, v).
       if dropped p k v then []
       else (let v' = scrub_runtime_fields p v in if k \<in> set EMPTIED_KEYS \<and> v' = JDict [] then [] else [(k, v')])) d))"
| "scrub_runtime_fields p (JList xs) = JList (map (scrub_runtime_fields p) xs)"
| "scrub_runtime_fields p v = v"

subsection \<open>Labels of volume claims\<close>

definition kept_labels :: "jval \<Rightarrow> (jval \<times> dict) res" where
  "kept_labels template =
     rbind (jget_or ''metadata'' (JDict []) template) (\<lambda>metadata.
     rbind (jget ''name'' metadata) (\<lambda>name.
     rbind (jget_or ''labels'' (JDict []) metadata) (\<lambda>labels.
     rbind (py_items (or_dict labels)) (\<lambda>items.
     if is_list name \<or> is_dict name then Inl (PyError ''TypeError'')
     else Inr (name, filter (\<lambda>kv. fst kv \<in> set MANAGED_BY_LABEL_KEYS) items)))))"

definition labelled_template :: "(jval \<times> dict) list \<Rightarrow> jval \<Rightarrow> jval res" where
  "labelled_template original_by_name template =
     rbind (py_items template) (\<lambda>t.
     (let t = setdefault ''metadata'' (JDict []) t in
     rbind (py_items (dget ''metadata'' t)) (\<lambda>metadata.
     (let name = dget ''name'' metadata in
      if is_list name \<or> is_dict name then Inl (PyError ''TypeError'')
      else
        (case map_of (rev original_by_name) name of
           None \<Rightarrow> Inr (JDict t)
         | Some [] \<Rightarrow> Inr (JDict t)
         | Some managed \<Rightarrow>
             rbind (py_items (dget_or ''labels'' (JDict []) metadata)) (\<lambda>labels.
             Inr (JDict (AList.update ''metadata'' (JDict (AList.update ''labels'' (JDict (foldl (\<lambda>l kv. AList.update (fst kv) (snd kv) l) labels managed))
               metadata)) t))))))))"

definition label_templates :: "(jval \<times> dict) list \<Rightarrow> jval \<Rightarrow> jval res" where
  "label_templates original_by_name templates =
     (case templates of
        JList ts \<Rightarrow> rbind (rmap (labelled_template original_by_name) ts) (\<lambda>ts'. Inr (JList ts'))
      | _ \<Rightarrow> rbind (py_iter templates) (\<lambda>ts. if ts = [] then Inr templates else Inl (PyError ''AttributeError'')))"

definition restore_statefulset_volume_claim_labels :: "jval \<Rightarrow> jval \<Rightarrow> jval res" where
  "restore_statefulset_volume_claim_labels resource original =
     rbind (jget ''kind'' resource) (\<lambda>kind.
     if kind \<noteq> JStr ''StatefulSet'' then Inr resource
     else
       rbind (jget_or ''spec'' (JDict []) original) (\<lambda>spec.
       rbind (jget_or ''volumeClaimTemplates'' (JList []) spec) (\<lambda>tv.
       rbind (py_iter tv) (\<lambda>original_templates.
       rbind (rmap kept_labels original_templates) (\<lambda>original_by_name.
       at_path [''spec'', ''volumeClaimTemplates''] (label_templates original_by_name) resource)))))"

subsection \<open>strip\_resource\<close>

text \<open>
  The changes to the metadata: runtime keys go, then annotations of the runtime and labels of Terraform, and what
  is left empty by this goes too.
\<close>

definition strip_annotations :: "dict \<Rightarrow> dict res" where
  "strip_annotations metadata =
     (let annotations = dget ''annotations'' metadata in
      if \<not> truthy annotations then Inr metadata
      else
        rbind (py_items annotations) (\<lambda>a.
        (let a' = dpops RUNTIME_ANNOTATIONS a in
         Inr (if a' = [] then dpop ''annotations'' metadata else AList.update ''annotations'' (JDict a') metadata))))"

definition strip_labels :: "dict \<Rightarrow> dict res" where
  "strip_labels metadata =
     (let labels = dget ''labels'' metadata in
      if \<not> truthy labels then Inr metadata
      else
        rbind (py_items labels) (\<lambda>l.
        (let l' = filter (\<lambda>kv. \<not> (fst kv \<in> set MANAGED_BY_LABEL_KEYS \<and> snd kv = JStr ''terraform'')) l in
         Inr (if l' = [] then dpop ''labels'' metadata else AList.update ''labels'' (JDict l') metadata))))"

definition strip_metadata :: "dict \<Rightarrow> dict res" where
  "strip_metadata metadata = rbind (strip_annotations (dpops RUNTIME_METADATA_KEYS metadata)) strip_labels"

definition strip_service :: "dict \<Rightarrow> dict res" where
  "strip_service spec =
     (let spec = (if dget ''clusterIP'' spec \<noteq> JStr ''None'' then dpops [''clusterIP'', ''clusterIPs''] spec else spec);
          spec = dpops [''healthCheckNodePort'', ''ipFamilies'', ''ipFamilyPolicy''] spec in
      Inr (if \<not> truthy (dget ''sessionAffinityConfig'' spec) then dpop ''sessionAffinityConfig'' spec else spec))"

text \<open>A resource reduced to its name and labels.\<close>

definition reduced :: "string \<Rightarrow> jval \<Rightarrow> jval \<Rightarrow> jval" where
  "reduced kind name labels =
     JDict [(''apiVersion'', JStr ''v1''), (''kind'', JStr kind), (''metadata'', JDict [(''name'', name), (''labels'', labels)])]"

definition strip_kind :: "dict \<Rightarrow> dict \<Rightarrow> jval res" where
  "strip_kind metadata resource =
     (let kind = dget ''kind'' resource in
      if kind = JStr ''Service'' then at_path [''spec''] (on_dict strip_service) (JDict resource)
      else if kind = JStr ''PersistentVolumeClaim'' then at_path [''spec''] (on_dict (\<lambda>d. Inr (dpop ''volumeName'' d))) (JDict resource)
      else if kind = JStr ''PersistentVolume'' then at_path [''spec''] (on_dict (\<lambda>d. Inr (dpop ''claimRef'' d))) (JDict resource)
      else if kind = JStr ''ServiceAccount'' then Inr (JDict (dpop ''secrets'' resource))
      else if kind = JStr ''Namespace'' then
        rbind (jitem ''name'' (JDict metadata)) (\<lambda>name. Inr (reduced ''Namespace'' name (dget_or ''labels'' (JDict []) metadata)))
      else if kind = JStr ''Node'' then
        rbind (py_items (dget_or ''labels'' (JDict []) metadata)) (\<lambda>labels.
        rbind (jitem ''name'' (JDict metadata)) (\<lambda>name.
        Inr (reduced ''Node'' name (JDict (filter (\<lambda>kv. fst kv = ''nvidia.com/gpu.present'') labels)))))
      else Inr (JDict resource))"

definition strip_resource :: "dict \<Rightarrow> jval res" where
  "strip_resource original =
     (let preserve_managed_by = requires_managed_by_labels (JDict original);
          resource = scrub_runtime_fields preserve_managed_by (normalize_embedded_strings (JDict original)) in
      rbind (py_items resource) (\<lambda>r.
      (let r = setdefault ''metadata'' (JDict []) r in
      rbind (py_items (dget ''metadata'' r)) (\<lambda>metadata.
      rbind (strip_metadata metadata) (\<lambda>metadata.
      rbind (strip_kind metadata (dpop ''status'' (AList.update ''metadata'' (JDict metadata) r))) (\<lambda>resource.
      restore_statefulset_volume_claim_labels resource (JDict original)))))))"

subsection \<open>Names of resources\<close>

definition resource_key :: "jval \<Rightarrow> (jval \<times> jval \<times> jval \<times> jval) res" where
  "resource_key resource =
     rbind (jget_or ''metadata'' (JDict []) resource) (\<lambda>metadata.
     rbind (jget_or ''apiVersion'' (JStr []) resource) (\<lambda>api_version.
     rbind (jget_or ''kind'' (JStr []) resource) (\<lambda>kind.
     rbind (jget_or ''namespace'' (JStr []) metadata) (\<lambda>namespace.
     rbind (jget_or ''name'' (JStr []) metadata) (\<lambda>name.
     Inr (api_version, kind, namespace, name))))))"

definition str_method :: "jval \<Rightarrow> string res" where
  "str_method v = (case v of JStr s \<Rightarrow> Inr s | _ \<Rightarrow> Inl (PyError ''AttributeError''))"

definition filename_for :: "(rat \<Rightarrow> string) \<Rightarrow> jval \<Rightarrow> string res" where
  "filename_for fl resource =
     rbind (jitem ''kind'' resource) (\<lambda>kv.
     rbind (str_method kv) (\<lambda>kind.
     rbind (jitem ''metadata'' resource) (\<lambda>metadata.
     rbind (jitem ''name'' metadata) (\<lambda>nv.
     rbind (jget ''namespace'' metadata) (\<lambda>namespace.
     rbind (str_method nv) (\<lambda>name.
     (let safe_name = replace_all '':'' ''-'' (replace_all ''/'' ''-'' name) in
      Inr (if truthy namespace then lower kind @ ''-'' @ py_str fl namespace @ ''-'' @ safe_name @ ''.yaml''
           else lower kind @ ''-'' @ safe_name @ ''.yaml''))))))))"

definition split_image_tag :: "string \<Rightarrow> (string \<times> string) res" where
  "split_image_tag img =
     (if CHR ''@'' \<in> set img then Inl (runtime_error (''image digests are not supported for GitLab CNG version management: '' @ img))
      else
        (let tag = rev (takeWhile (\<lambda>c. c \<noteq> CHR '':'') (rev img)); name = take (length img - length tag - 1) img in
         if CHR '':'' \<notin> set img \<or> name = [] \<or> tag = [] then Inl (runtime_error (''image is missing a tag: '' @ img))
         else Inr (name, tag)))"

subsection \<open>Lookup in changed dictionaries\<close>

lemma map_of_dpop: "map_of (dpop k d) k' = (if k' = k then None else map_of d k')"
  unfolding dpop_def by (induction d) auto

lemma map_of_dpops: "map_of (dpops ks d) k = (if k \<in> set ks then None else map_of d k)"
  unfolding dpops_def by (induction d) auto

lemma update_other [simp]: "k \<noteq> k' \<Longrightarrow> map_of (AList.update k v d) k' = map_of d k'"
  by (simp add: update_conv')

end
