(* ===== verification/Kustomize_Export.thy ===== *)
theory Kustomize_Export
  imports Resource_Strip Prog Py_Base64 "HOL-Library.Product_Lexorder"
begin

section \<open>The export of the cluster to Kustomize\<close>

text \<open>
  \<^verbatim>\<open>scripts/export_to_kustomize.py\<close>: it deletes the two output trees, fetches the resources of every
  component with \<^verbatim>\<open>kubectl\<close>, strips them, and writes them with a Kustomization. Commands and file operations are actions
  with unconstrained responses; paths are relative to the root of the repository. The YAML library and the decoder of
  UTF-8 are parameters. The sort key of a resource consists of strings.
\<close>

datatype xact =
    XRun "string list"
  | XWrite string string
  | XRead string
  | XMkdir string
  | XExists string
  | XRmtree string

datatype xresp = XResult int string string | XText string | XBool bool | XUnit | XRaised exn

type_synonym 'a xprog = "(xact, xresp, 'a) prog"

record library =
  y_load :: "string \<Rightarrow> jval res"
  y_dump :: "jval \<Rightarrow> string"
  y_utf8 :: "string \<Rightarrow> string res"
  y_float :: "rat \<Rightarrow> string"

definition xask :: "(xresp \<Rightarrow> 'a option) \<Rightarrow> xact \<Rightarrow> 'a xprog" where
  "xask f q = Act q (\<lambda>r. case f r of Some x \<Rightarrow> Ret x
     | None \<Rightarrow> (case r of XRaised e \<Rightarrow> Fail e | _ \<Rightarrow> Fail (PyError ''TypeError'')))"

definition xrun :: "string list \<Rightarrow> (int \<times> string \<times> string) xprog" where
  "xrun cmd = xask (\<lambda>r. case r of XResult rc out err \<Rightarrow> Some (rc, out, err) | _ \<Rightarrow> None) (XRun cmd)"

definition xwrite :: "string \<Rightarrow> string \<Rightarrow> unit xprog" where
  "xwrite p s = xask (\<lambda>r. case r of XUnit \<Rightarrow> Some () | _ \<Rightarrow> None) (XWrite p s)"

definition xread :: "string \<Rightarrow> string xprog" where
  "xread p = xask (\<lambda>r. case r of XText s \<Rightarrow> Some s | _ \<Rightarrow> None) (XRead p)"

definition xmkdir :: "string \<Rightarrow> unit xprog" where
  "xmkdir p = xask (\<lambda>r. case r of XUnit \<Rightarrow> Some () | _ \<Rightarrow> None) (XMkdir p)"

definition xexists :: "string \<Rightarrow> bool xprog" where
  "xexists p = xask (\<lambda>r. case r of XBool b \<Rightarrow> Some b | _ \<Rightarrow> None) (XExists p)"

definition xrmtree :: "string \<Rightarrow> unit xprog" where
  "xrmtree p = xask (\<lambda>r. case r of XUnit \<Rightarrow> Some () | _ \<Rightarrow> None) (XRmtree p)"

lemmas x_defs = xrun_def xwrite_def xread_def xmkdir_def xexists_def xrmtree_def xask_def

subsection \<open>Components\<close>

record ExplicitResource =
  resource_type :: string
  names :: "string list"
  er_namespace :: "string option"

record Component =
  c_path :: string
  selectors :: "(string \<times> string) list"
  explicit_namespaced :: "ExplicitResource list"
  explicit_cluster :: "ExplicitResource list"
  postprocess :: "string option"

subsection \<open>Fetching\<close>

definition run_kubectl :: "string list \<Rightarrow> string xprog" where
  "run_kubectl args =
     (let cmd = ''kubectl'' # args in
     pbind (xrun cmd) (\<lambda>(rc, out, err).
     if rc \<noteq> 0 then Fail (runtime_error (join '' '' cmd @ '' failed: '' @ strip err)) else Ret out))"

definition option_args :: "string \<Rightarrow> string option \<Rightarrow> string list" where
  "option_args flag v = (case v of None \<Rightarrow> [] | Some s \<Rightarrow> if s = [] then [] else [flag, s])"

definition get_yaml :: "library \<Rightarrow> string \<Rightarrow> string option \<Rightarrow> string option \<Rightarrow> string list \<Rightarrow> jval list xprog" where
  "get_yaml lib rtype namespace selector ns =
     pbind (run_kubectl ([''get'', rtype] @ ns @ option_args ''-n'' namespace @ option_args ''-l'' selector
       @ [''-o'', ''yaml'', ''--ignore-not-found=true''])) (\<lambda>raw.
     if strip raw = [] then Ret []
     else
       pbind (liftr (y_load lib raw)) (\<lambda>data.
       if \<not> truthy data then Ret []
       else
         liftr (rbind (jget ''kind'' data) (\<lambda>kind.
           if kind = JStr ''List''
           then rbind (jget_or ''items'' (JList []) data) (\<lambda>v. rbind (py_iter v) (\<lambda>items. Inr (filter truthy items)))
           else Inr [data]))))"

type_synonym rkey = "jval \<times> jval \<times> jval \<times> jval"

definition key_hashable :: "rkey \<Rightarrow> bool" where
  "key_hashable k = (case k of (a, b, c, d) \<Rightarrow> list_all (\<lambda>v. \<not> is_list v \<and> \<not> is_dict v) [a, b, c, d])"

fun add_resources :: "rkey list \<times> jval list \<Rightarrow> jval list \<Rightarrow> (rkey list \<times> jval list) res" where
  "add_resources s [] = Inr s"
| "add_resources s (resource # resources) =
     rbind (py_items resource) (\<lambda>r.
     rbind (strip_resource r) (\<lambda>stripped.
     rbind (resource_key stripped) (\<lambda>key.
     if \<not> key_hashable key then Inl (PyError ''TypeError'')
     else if key \<in> set (fst s) then add_resources s resources
     else add_resources (fst s @ [key], snd s @ [stripped]) resources)))"

text \<open>The calls of \<^verbatim>\<open>get_yaml\<close> in their order: type, namespace, selector and names.\<close>

definition requests :: "Component \<Rightarrow> (string \<times> string option \<times> string option \<times> string list) list" where
  "requests c =
     concat (map (\<lambda>(namespace, selector).
       map (\<lambda>t. (t, Some namespace, Some selector, [])) NAMESPACED_TYPES @ map (\<lambda>t. (t, None, Some selector, [])) CLUSTER_TYPES) (selectors c))
     @ map (\<lambda>e. (resource_type e, er_namespace e, None, names e)) (explicit_namespaced c)
     @ map (\<lambda>e. (resource_type e, None, None, names e)) (explicit_cluster c)"

definition generated_config :: "jval \<Rightarrow> bool res" where
  "generated_config resource =
     rbind (jitem ''kind'' resource) (\<lambda>kind.
     if kind \<noteq> JStr ''ConfigMap'' then Inr False
     else
       rbind (jitem ''metadata'' resource) (\<lambda>metadata.
       rbind (jitem ''name'' metadata) (\<lambda>name.
       in_strs name [''grafana-alerting'', ''grafana-datasources''])))"

definition fetch_component_resources :: "library \<Rightarrow> Component \<Rightarrow> jval list xprog" where
  "fetch_component_resources lib c =
     pbind (pfold (\<lambda>(t, namespace, selector, ns) s.
        pbind (get_yaml lib t namespace selector ns) (\<lambda>resources. liftr (add_resources s resources))) (requests c) ([], [])) (\<lambda>(seen, collected).
     if postprocess c = Some ''grafana''
     then liftr (rfilter (\<lambda>r. rbind (generated_config r) (\<lambda>g. Inr (\<not> g))) collected)
     else Ret collected)"

subsection \<open>Kustomizations\<close>

definition kustomization :: "string list \<Rightarrow> jval" where
  "kustomization resources =
     JDict [(''apiVersion'', JStr ''kustomize.config.k8s.io/v1beta1''), (''kind'', JStr ''Kustomization''), (''resources'', JList (map JStr resources))]"

definition write_aggregate :: "library \<Rightarrow> string \<Rightarrow> string list \<Rightarrow> unit xprog" where
  "write_aggregate lib p children =
     pbind (xmkdir p) (\<lambda>_. xwrite (p @ ''/kustomization.yaml'') (y_dump lib (kustomization children)))"

text \<open>\<^verbatim>\<open>v[k] = x\<close>.\<close>

definition set_item :: "string \<Rightarrow> jval \<Rightarrow> jval \<Rightarrow> jval res" where
  "set_item k x v = (case v of JDict d \<Rightarrow> Inr (JDict (AList.update k x d)) | _ \<Rightarrow> Inl (PyError ''TypeError''))"

subsection \<open>Grafana\<close>

definition LOKI_FILE :: "jval" where
  "LOKI_FILE =
     JDict [(''apiVersion'', JInt 1),
      (''datasources'', JList [JDict [(''access'', JStr ''proxy''),
         (''editable'', JBool True),
         (''isDefault'', JBool False),
         (''jsonData'', JDict [(''maxLines'', JInt 1000), (''timeout'', JInt 60)]),
         (''name'', JStr ''Loki''),
         (''type'', JStr ''loki''),
         (''uid'', JStr ''loki''),
         (''url'', JStr ''http://loki.default.svc.cluster.local:3100''),
         (''version'', JInt 1)]])]"

definition PROMETHEUS_FILE :: "jval" where
  "PROMETHEUS_FILE =
     JDict [(''apiVersion'', JInt 1),
      (''datasources'', JList [JDict [(''access'', JStr ''proxy''),
         (''editable'', JBool False),
         (''isDefault'', JBool True),
         (''name'', JStr ''Prometheus''),
         (''type'', JStr ''prometheus''),
         (''uid'', JStr ''prometheus''),
         (''url'', JStr ''http://victoriametrics.default.svc.cluster.local:8428'')]])]"

definition CONTACTPOINTS_FILE :: "jval" where
  "CONTACTPOINTS_FILE =
     JDict [(''apiVersion'', JInt 1),
      (''contactPoints'', JList [JDict [(''name'', JStr ''email''),
         (''orgId'', JInt 1),
         (''receivers'', JList [JDict [(''settings'', JDict [(''addresses'', JStr ''${GF_ALERT_EMAIL_TO}'')]),
            (''type'', JStr ''email''),
            (''uid'', JStr ''email-alerts'')]])]])]"

definition POLICIES_FILE :: "jval" where
  "POLICIES_FILE =
     JDict [(''apiVersion'', JInt 1), (''policies'', JList [JDict [(''orgId'', JInt 1), (''receiver'', JStr ''email'')]])]"

definition GRAFANA_GENERATORS :: "jval" where
  "GRAFANA_GENERATORS =
     JList [JDict [(''name'', JStr ''grafana-datasources''),
       (''files'', JList [JStr ''loki.yaml=files/loki.yaml'', JStr ''prometheus.yaml=files/prometheus.yaml''])],
      JDict [(''name'', JStr ''grafana-alerting''),
       (''files'', JList [JStr ''contactpoints.yaml=files/contactpoints.yaml'', JStr ''policies.yaml=files/policies.yaml'', JStr ''rules.yaml=_grafana_alert_rules.yaml''])]]"

definition generated_volume :: "jval \<Rightarrow> jval res" where
  "generated_volume volume =
     rbind (py_items volume) (\<lambda>v.
     (let config_map = dget ''configMap'' v in
      if \<not> truthy config_map then Inr volume
      else
        rbind (py_items config_map) (\<lambda>m.
        rbind (str_method (dget_or ''name'' (JStr []) m)) (\<lambda>name.
        (let named = (\<lambda>n. JDict (AList.update ''configMap'' (JDict (AList.update ''name'' (JStr n) m)) v)) in
         Inr (if prefix ''grafana-datasources'' name then named ''grafana-datasources''
              else if prefix ''grafana-alerting'' name then named ''grafana-alerting'' else volume))))))"

definition generated_volumes :: "jval \<Rightarrow> jval res" where
  "generated_volumes volumes =
     (case volumes of
        JList vs \<Rightarrow> rbind (rmap generated_volume vs) (\<lambda>vs'. Inr (JList vs'))
      | _ \<Rightarrow> rbind (py_iter volumes) (\<lambda>vs. if vs = [] then Inr volumes else Inl (PyError ''AttributeError'')))"

definition RULES_URL :: string where
  "RULES_URL = ''https://grafana.brmartin.co.uk/api/v1/provisioning/alert-rules/export?format=yaml''"

definition admin_password :: "library \<Rightarrow> string \<Rightarrow> string res" where
  "admin_password lib password_b64 =
     (case b64decode (JStr password_b64) of
        None \<Rightarrow> Inl (PyError ''ValueError'')
      | Some bytes \<Rightarrow> rbind (y_utf8 lib bytes) (\<lambda>s. Inr (strip s)))"

definition write_grafana_files :: "library \<Rightarrow> string \<Rightarrow> unit xprog" where
  "write_grafana_files lib dir =
     pbind (xmkdir dir) (\<lambda>_.
     pbind (xmkdir (dir @ ''/files'')) (\<lambda>_.
     pbind (xwrite (dir @ ''/files/loki.yaml'') (y_dump lib LOKI_FILE)) (\<lambda>_.
     pbind (xwrite (dir @ ''/files/prometheus.yaml'') (y_dump lib PROMETHEUS_FILE)) (\<lambda>_.
     pbind (xwrite (dir @ ''/files/contactpoints.yaml'') (y_dump lib CONTACTPOINTS_FILE)) (\<lambda>_.
     pbind (xwrite (dir @ ''/files/policies.yaml'') (y_dump lib POLICIES_FILE)) (\<lambda>_.
     pbind (run_kubectl [''get'', ''secret'', ''grafana-secrets'', ''-n'', ''default'', ''-o'', ''jsonpath={.data.GF_SECURITY_ADMIN_PASSWORD}'']) (\<lambda>password_b64.
     pbind (liftr (admin_password lib password_b64)) (\<lambda>password.
     pbind (xrun [''curl'', ''-fsS'', ''-u'', ''admin:'' @ password, RULES_URL]) (\<lambda>(rc, out, err).
     if rc \<noteq> 0 then Fail (runtime_error (''failed to export Grafana alert rules: '' @ strip err))
     else
       pbind (xwrite (dir @ ''/_grafana_alert_rules.yaml'') out) (\<lambda>_.
       pbind (xread (dir @ ''/deployment-default-grafana.yaml'')) (\<lambda>text_read.
       pbind (liftr (rbind (y_load lib text_read) (at_path [''spec'', ''template'', ''spec'', ''volumes''] generated_volumes))) (\<lambda>deployment.
       pbind (xwrite (dir @ ''/deployment-default-grafana.yaml'') (y_dump lib deployment)) (\<lambda>_.
       pbind (xread (dir @ ''/kustomization.yaml'')) (\<lambda>text_read.
       pbind (liftr (rbind (y_load lib text_read) (\<lambda>k. rbind (set_item ''namespace'' (JStr ''default'') k) (set_item ''configMapGenerator'' GRAFANA_GENERATORS)))) (\<lambda>k.
       xwrite (dir @ ''/kustomization.yaml'') (y_dump lib k))))))))))))))))"

subsection \<open>GitLab\<close>

definition MIGRATION_ENV :: "jval" where
  "MIGRATION_ENV =
     JList [JDict [(''name'', JStr ''CONFIG_TEMPLATE_DIRECTORY''), (''value'', JStr ''/var/opt/gitlab/config/templates'')],
      JDict [(''name'', JStr ''CONFIG_DIRECTORY''), (''value'', JStr ''/srv/gitlab/config'')],
      JDict [(''name'', JStr ''GITLAB_HOST''), (''value'', JStr ''git.brmartin.co.uk'')],
      JDict [(''name'', JStr ''GITLAB_PORT''), (''value'', JStr ''443'')],
      JDict [(''name'', JStr ''GITLAB_HTTPS''), (''value'', JStr ''true'')],
      JDict [(''name'', JStr ''ENABLE_BOOTSNAP''), (''value'', JStr ''1'')],
      JDict [(''name'', JStr ''ACTION_CABLE_IN_APP''), (''value'', JStr ''true'')],
      JDict [(''name'', JStr ''GITALY_TOKEN''),
       (''valueFrom'', JDict [(''secretKeyRef'', JDict [(''key'', JStr ''token''), (''name'', JStr ''gitlab-gitaly''), (''optional'', JBool False)])])],
      JDict [(''name'', JStr ''GITLAB_SMTP_USERNAME''),
       (''valueFrom'', JDict [(''secretKeyRef'', JDict [(''key'', JStr ''SMTP_USERNAME''), (''name'', JStr ''gitlab-smtp-secret''), (''optional'', JBool False)])])],
      JDict [(''name'', JStr ''GITLAB_SMTP_PASSWORD''),
       (''valueFrom'', JDict [(''secretKeyRef'', JDict [(''key'', JStr ''SMTP_PASSWORD''), (''name'', JStr ''gitlab-smtp-secret''), (''optional'', JBool False)])])]]"

definition MIGRATION_MOUNTS :: "jval" where
  "MIGRATION_MOUNTS =
     JList [JDict [(''mountPath'', JStr ''/var/opt/gitlab/config/templates''), (''name'', JStr ''config-templates'')],
      JDict [(''mountPath'', JStr ''/srv/gitlab/public/uploads''),
       (''mountPropagation'', JStr ''HostToContainer''),
       (''name'', JStr ''uploads'')],
      JDict [(''mountPath'', JStr ''/srv/gitlab/shared''),
       (''mountPropagation'', JStr ''HostToContainer''),
       (''name'', JStr ''shared'')],
      JDict [(''mountPath'', JStr ''/etc/gitlab/postgres''), (''name'', JStr ''db-password''), (''readOnly'', JBool True)],
      JDict [(''mountPath'', JStr ''/srv/gitlab/config/secrets.yml''),
       (''name'', JStr ''rails-secret''),
       (''readOnly'', JBool True),
       (''subPath'', JStr ''secrets.yml'')],
      JDict [(''mountPath'', JStr ''/etc/gitlab/gitlab-workhorse''),
       (''name'', JStr ''workhorse-secret''),
       (''readOnly'', JBool True)],
      JDict [(''mountPath'', JStr ''/etc/gitlab/gitlab-shell''),
       (''name'', JStr ''shell-secret''),
       (''readOnly'', JBool True)],
      JDict [(''mountPath'', JStr ''/etc/gitlab/registry''),
       (''name'', JStr ''registry-auth''),
       (''readOnly'', JBool True)],
      JDict [(''mountPath'', JStr ''/srv/gitlab/config/initializers/smtp_settings.rb''),
       (''name'', JStr ''smtp-config''),
       (''readOnly'', JBool True),
       (''subPath'', JStr ''smtp_settings.rb'')]]"

definition MIGRATION_CONTAINERS :: "jval" where
  "MIGRATION_CONTAINERS =
     JList [JDict [(''name'', JStr ''migrations''),
       (''image'', JStr (''registry.gitlab.com/gitlab-org/build/cng/gitlab-webservice-ce'' @ '':placeholder'')),
       (''imagePullPolicy'', JStr ''IfNotPresent''),
       (''args'', JList [JStr ''/scripts/db-migrate'']),
       (''env'', MIGRATION_ENV),
       (''resources'', JDict [(''limits'', JDict [(''memory'', JStr ''3Gi'')]),
         (''requests'', JDict [(''cpu'', JStr ''75m''), (''memory'', JStr ''2100Mi'')])]),
       (''volumeMounts'', MIGRATION_MOUNTS)]]"

definition MIGRATION_VOLUMES :: "jval" where
  "MIGRATION_VOLUMES =
     JList [JDict [(''configMap'', JDict [(''defaultMode'', JInt 420), (''name'', JStr ''gitlab-config-templates''), (''optional'', JBool False)]),
       (''name'', JStr ''config-templates'')],
      JDict [(''name'', JStr ''uploads''),
       (''persistentVolumeClaim'', JDict [(''claimName'', JStr ''gitlab-uploads-sw'')])],
      JDict [(''name'', JStr ''shared''), (''persistentVolumeClaim'', JDict [(''claimName'', JStr ''gitlab-shared-sw'')])],
      JDict [(''name'', JStr ''db-password''),
       (''secret'', JDict [(''defaultMode'', JInt 420),
         (''items'', JList [JDict [(''key'', JStr ''db_password''), (''path'', JStr ''password'')]]),
         (''optional'', JBool False),
         (''secretName'', JStr ''gitlab-secrets'')])],
      JDict [(''name'', JStr ''rails-secret''),
       (''secret'', JDict [(''defaultMode'', JInt 420), (''optional'', JBool False), (''secretName'', JStr ''gitlab-rails-secret'')])],
      JDict [(''name'', JStr ''workhorse-secret''),
       (''secret'', JDict [(''defaultMode'', JInt 420), (''optional'', JBool False), (''secretName'', JStr ''gitlab-workhorse'')])],
      JDict [(''name'', JStr ''shell-secret''),
       (''secret'', JDict [(''defaultMode'', JInt 420), (''optional'', JBool False), (''secretName'', JStr ''gitlab-shell'')])],
      JDict [(''name'', JStr ''registry-auth''),
       (''secret'', JDict [(''defaultMode'', JInt 420), (''optional'', JBool False), (''secretName'', JStr ''gitlab-registry-auth'')])],
      JDict [(''configMap'', JDict [(''defaultMode'', JInt 420), (''name'', JStr ''gitlab-smtp-config''), (''optional'', JBool False)]),
       (''name'', JStr ''smtp-config'')]]"

definition MIGRATION_JOB :: "jval" where
  "MIGRATION_JOB =
     JDict [(''apiVersion'', JStr ''batch/v1''),
      (''kind'', JStr ''Job''),
      (''metadata'', JDict [(''name'', JStr ''gitlab-migrations-placeholder''),
        (''namespace'', JStr ''default''),
        (''labels'', JDict [(''app'', JStr ''gitlab''), (''component'', JStr ''migrations'')])]),
      (''spec'', JDict [(''backoffLimit'', JInt 6),
        (''template'', JDict [(''metadata'', JDict [(''annotations'', JDict [(''elastic.co/dataset'', JStr ''kubernetes.container_logs.gitlab'')]),
            (''labels'', JDict [(''app'', JStr ''gitlab''), (''component'', JStr ''migrations'')])]),
          (''spec'', JDict [(''automountServiceAccountToken'', JBool True),
            (''containers'', MIGRATION_CONTAINERS),
            (''dnsPolicy'', JStr ''ClusterFirst''),
            (''enableServiceLinks'', JBool True),
            (''restartPolicy'', JStr ''OnFailure''),
            (''schedulerName'', JStr ''default-scheduler''),
            (''securityContext'', JDict [(''fsGroup'', JInt 1000),
              (''runAsGroup'', JInt 1000),
              (''runAsNonRoot'', JBool False),
              (''runAsUser'', JInt 1000)]),
            (''shareProcessNamespace'', JBool False),
            (''terminationGracePeriodSeconds'', JInt 30),
            (''volumes'', MIGRATION_VOLUMES)])])])]"

definition release_generator :: "string \<Rightarrow> jval" where
  "release_generator gitlab_version =
     JList [JDict [(''name'', JStr ''gitlab-release''),
       (''literals'', JList [JStr (''appVersion='' @ gitlab_version),
         JStr (''migrationVersion='' @ gitlab_version)])]]"

definition GITLAB_REPLACEMENTS :: "jval" where
  "GITLAB_REPLACEMENTS =
     JList [JDict [(''source'', JDict [(''kind'', JStr ''ConfigMap''),
         (''name'', JStr ''gitlab-release''),
         (''fieldPath'', JStr ''data.migrationVersion'')]),
       (''targets'', JList [JDict [(''select'', JDict [(''kind'', JStr ''Job''), (''labelSelector'', JStr ''app=gitlab,component=migrations'')]),
          (''fieldPaths'', JList [JStr ''metadata.name'']),
          (''options'', JDict [(''delimiter'', JStr ''-''), (''index'', JInt 2)])],
         JDict [(''select'', JDict [(''kind'', JStr ''Job''), (''labelSelector'', JStr ''app=gitlab,component=migrations'')]),
          (''fieldPaths'', JList [JStr ''spec.template.spec.containers.0.image'']),
          (''options'', JDict [(''delimiter'', JStr '':''), (''index'', JInt 1)])]])],
      JDict [(''source'', JDict [(''kind'', JStr ''ConfigMap''),
         (''name'', JStr ''gitlab-release''),
         (''fieldPath'', JStr ''data.appVersion'')]),
       (''targets'', JList [JDict [(''select'', JDict [(''kind'', JStr ''Deployment''), (''name'', JStr ''gitlab-gitaly'')]),
          (''fieldPaths'', JList [JStr ''spec.template.spec.containers.0.image'']),
          (''options'', JDict [(''delimiter'', JStr '':''), (''index'', JInt 1)])],
         JDict [(''select'', JDict [(''kind'', JStr ''Deployment''), (''name'', JStr ''gitlab-registry'')]),
          (''fieldPaths'', JList [JStr ''spec.template.spec.containers.0.image'']),
          (''options'', JDict [(''delimiter'', JStr '':''), (''index'', JInt 1)])],
         JDict [(''select'', JDict [(''kind'', JStr ''Deployment''), (''name'', JStr ''gitlab-sidekiq'')]),
          (''fieldPaths'', JList [JStr ''spec.template.spec.containers.0.image'']),
          (''options'', JDict [(''delimiter'', JStr '':''), (''index'', JInt 1)])],
         JDict [(''select'', JDict [(''kind'', JStr ''Deployment''), (''name'', JStr ''gitlab-webservice'')]),
          (''fieldPaths'', JList [JStr ''spec.template.spec.containers.0.image'']),
          (''options'', JDict [(''delimiter'', JStr '':''), (''index'', JInt 1)])],
         JDict [(''select'', JDict [(''kind'', JStr ''Deployment''), (''name'', JStr ''gitlab-workhorse'')]),
          (''fieldPaths'', JList [JStr ''spec.template.spec.containers.0.image'']),
          (''options'', JDict [(''delimiter'', JStr '':''), (''index'', JInt 1)])]])]]"

text \<open>The Deployments by name; a later one with the same name replaces an earlier one.\<close>

definition deployments_of :: "jval list \<Rightarrow> (jval \<times> jval) list res" where
  "deployments_of resources =
     rbind (rfilter (\<lambda>r. rbind (jget ''kind'' r) (\<lambda>kind. Inr (kind = JStr ''Deployment''))) resources) (\<lambda>ds.
     rmap (\<lambda>r. rbind (jitem ''metadata'' r) (\<lambda>metadata. rbind (jitem ''name'' metadata) (\<lambda>name.
       if is_list name \<or> is_dict name then Inl (PyError ''TypeError'') else Inr (name, r)))) ds)"

definition image_text :: "jval \<Rightarrow> string res" where
  "image_text v = (case v of JStr s \<Rightarrow> Inr s | JList _ \<Rightarrow> Inl (PyError ''AttributeError'') | JDict _ \<Rightarrow> Inl (PyError ''AttributeError'')
     | _ \<Rightarrow> Inl (PyError ''TypeError''))"

definition deployment_version :: "(jval \<times> jval) list \<Rightarrow> string \<times> string \<Rightarrow> (string \<times> string) res" where
  "deployment_version deployments di =
     (case map_of (rev deployments) (JStr (fst di)) of
        None \<Rightarrow> Inl (runtime_error (''missing GitLab deployment for migrations postprocess: '' @ fst di))
      | Some deployment \<Rightarrow>
          rbind (jget_or ''spec'' (JDict []) deployment) (\<lambda>spec.
          rbind (jget_or ''template'' (JDict []) spec) (\<lambda>template.
          rbind (jget_or ''spec'' (JDict []) template) (\<lambda>pod_spec.
          rbind (jget_or ''containers'' (JList []) pod_spec) (\<lambda>containers.
          rbind (py_len containers) (\<lambda>n.
          if n \<noteq> 1 then Inl (runtime_error (''expected a single container in '' @ fst di @ '', found '' @ show_nat n))
          else
            rbind (py_first containers) (\<lambda>container.
            rbind (jitem ''image'' container) (\<lambda>iv.
            rbind (image_text iv) (\<lambda>img.
            rbind (split_image_tag img) (\<lambda>(image_name, image_tag).
            if image_name \<noteq> snd di
            then Inl (runtime_error (''unexpected image for '' @ fst di @ '': expected '' @ snd di @ '', found '' @ image_name))
            else Inr (fst di, image_tag)))))))))))"

definition gitlab_version :: "jval list \<Rightarrow> string res" where
  "gitlab_version resources =
     rbind (deployments_of resources) (\<lambda>deployments.
     rbind (rmap (deployment_version deployments) GITLAB_CNG_IMAGES) (\<lambda>versions.
     (case remdups (map snd versions) of
        [v] \<Rightarrow> Inr v
      | _ \<Rightarrow> Inl (runtime_error (''GitLab CNG images do not share a single version: ''
               @ py_repr (\<lambda>_. []) (JDict (map (\<lambda>(k, v). (k, JStr v)) versions)))))))"

definition JOB_FILENAME :: string where
  "JOB_FILENAME = ''job-default-gitlab-migrations.yaml''"

text \<open>\<^verbatim>\<open>if job_filename not in resources: resources.append(job_filename)\<close>.\<close>

definition with_job :: "jval \<Rightarrow> jval res" where
  "with_job resources = (case resources of
      JList xs \<Rightarrow> Inr (if JStr JOB_FILENAME \<in> set xs then JList xs else JList (xs @ [JStr JOB_FILENAME]))
    | JDict d \<Rightarrow> if map_of d JOB_FILENAME \<noteq> None then Inr resources else Inl (PyError ''AttributeError'')
    | JStr s \<Rightarrow> if occurs JOB_FILENAME s then Inr resources else Inl (PyError ''AttributeError'')
    | _ \<Rightarrow> Inl (PyError ''TypeError''))"

definition gitlab_kustomization :: "string \<Rightarrow> jval \<Rightarrow> jval res" where
  "gitlab_kustomization version k =
     rbind (set_item ''namespace'' (JStr ''default'') k) (\<lambda>k.
     rbind (py_items k) (\<lambda>d.
     (let d = setdefault ''resources'' (JList []) d in
     rbind (with_job (dget ''resources'' d)) (\<lambda>resources.
     rbind (set_item ''resources'' resources (JDict d)) (\<lambda>k.
     rbind (set_item ''generatorOptions'' (JDict [(''disableNameSuffixHash'', JBool True)]) k) (\<lambda>k.
     rbind (set_item ''configMapGenerator'' (release_generator version) k) (\<lambda>k.
     set_item ''replacements'' GITLAB_REPLACEMENTS k)))))))"

definition write_gitlab_files :: "library \<Rightarrow> string \<Rightarrow> jval list \<Rightarrow> unit xprog" where
  "write_gitlab_files lib dir resources =
     pbind (liftr (gitlab_version resources)) (\<lambda>version.
     pbind (xwrite (dir @ ''/'' @ JOB_FILENAME) (y_dump lib MIGRATION_JOB)) (\<lambda>_.
     pbind (xread (dir @ ''/kustomization.yaml'')) (\<lambda>text_read.
     pbind (liftr (rbind (y_load lib text_read) (gitlab_kustomization version))) (\<lambda>k.
     xwrite (dir @ ''/kustomization.yaml'') (y_dump lib k)))))"

subsection \<open>Writing a component\<close>

definition sort_text :: "jval \<Rightarrow> string res" where
  "sort_text v = (case v of JStr s \<Rightarrow> Inr s | _ \<Rightarrow> Inl (PyError ''TypeError''))"

definition order_of :: "jval \<Rightarrow> (string \<times> string \<times> string) res" where
  "order_of resource =
     rbind (jitem ''kind'' resource) (\<lambda>kind.
     rbind (jitem ''metadata'' resource) (\<lambda>metadata.
     rbind (jget_or ''namespace'' (JStr []) metadata) (\<lambda>namespace.
     rbind (jitem ''name'' metadata) (\<lambda>name.
     rbind (sort_text kind) (\<lambda>a. rbind (sort_text namespace) (\<lambda>b. rbind (sort_text name) (\<lambda>c.
     Inr (a, b, c))))))))"

definition sorted_resources :: "jval list \<Rightarrow> jval list res" where
  "sorted_resources resources =
     rbind (rmap order_of resources) (\<lambda>keys. Inr (map snd (sort_key fst (zip keys resources))))"

definition write_component :: "library \<Rightarrow> Component \<Rightarrow> jval list \<Rightarrow> unit xprog" where
  "write_component lib c resources =
     pbind (xmkdir (c_path c)) (\<lambda>_.
     pbind (liftr (sorted_resources resources)) (\<lambda>ordered.
     pbind (pmap (\<lambda>resource.
        pbind (liftr (filename_for (y_float lib) resource)) (\<lambda>filename.
        pbind (xwrite (c_path c @ ''/'' @ filename) (y_dump lib resource)) (\<lambda>_. Ret filename))) ordered) (\<lambda>filenames.
     pbind (xwrite (c_path c @ ''/kustomization.yaml'') (y_dump lib (kustomization filenames))) (\<lambda>_.
     if postprocess c = Some ''grafana'' then write_grafana_files lib (c_path c)
     else if postprocess c = Some ''gitlab'' then write_gitlab_files lib (c_path c) resources
     else Ret ()))))"

subsection \<open>main\<close>

definition OUTPUTS :: "string list" where
  "OUTPUTS = [''apps'', ''infrastructure'']"

definition clean_outputs :: "unit xprog" where
  "clean_outputs = pfor (\<lambda>p. pbind (xexists p) (\<lambda>e. if e then xrmtree p else Ret ())) OUTPUTS"

definition INFRASTRUCTURE_COMPONENTS :: "Component list" where
  "INFRASTRUCTURE_COMPONENTS =
    [\<lparr>c_path = ''infrastructure/storage/local-path-retain'', selectors = [],
      explicit_namespaced = [],
      explicit_cluster = [\<lparr>resource_type = ''storageclasses.storage.k8s.io'', names = [''local-path-retain''], er_namespace = None\<rparr>], postprocess = None\<rparr>,
     \<lparr>c_path = ''infrastructure/storage/seaweedfs'', selectors = [(''default'', ''app=seaweedfs'')],
      explicit_namespaced = [],
      explicit_cluster = [\<lparr>resource_type = ''storageclasses.storage.k8s.io'', names = [''seaweedfs''], er_namespace = None\<rparr>], postprocess = None\<rparr>,
     \<lparr>c_path = ''infrastructure/storage/restic-backup'', selectors = [(''default'', ''app=restic-backup'')],
      explicit_namespaced = [],
      explicit_cluster = [\<lparr>resource_type = ''persistentvolumes'', names = [''restic-seaweedfs-filer-root''], er_namespace = None\<rparr>], postprocess = None\<rparr>,
     \<lparr>c_path = ''infrastructure/platform/cert-manager'', selectors = [(''cert-manager'', ''app.kubernetes.io/instance=cert-manager''), (''kube-system'', ''app.kubernetes.io/instance=cert-manager''), (''default'', ''app=cert-manager'')],
      explicit_namespaced = [\<lparr>resource_type = ''certificates.cert-manager.io'', names = [''wildcard-brmartin-tls''], er_namespace = Some ''kube-system''\<rparr>],
      explicit_cluster = [\<lparr>resource_type = ''namespaces'', names = [''cert-manager''], er_namespace = None\<rparr>,
        \<lparr>resource_type = ''clusterissuers.cert-manager.io'', names = [''letsencrypt-cloudflare''], er_namespace = None\<rparr>], postprocess = None\<rparr>,
     \<lparr>c_path = ''infrastructure/platform/reloader'', selectors = [(''reloader'', ''app.kubernetes.io/instance=reloader'')],
      explicit_namespaced = [],
      explicit_cluster = [\<lparr>resource_type = ''namespaces'', names = [''reloader''], er_namespace = None\<rparr>], postprocess = None\<rparr>,
     \<lparr>c_path = ''infrastructure/platform/goldilocks'', selectors = [(''kube-system'', ''app=goldilocks'')],
      explicit_namespaced = [\<lparr>resource_type = ''ingressroutes.traefik.io'', names = [''goldilocks-dashboard''], er_namespace = Some ''kube-system''\<rparr>],
      explicit_cluster = [\<lparr>resource_type = ''namespaces'', names = [''default'', ''kube-system''], er_namespace = None\<rparr>], postprocess = None\<rparr>,
     \<lparr>c_path = ''infrastructure/platform/hubble-ui'', selectors = [],
      explicit_namespaced = [\<lparr>resource_type = ''ingresses.networking.k8s.io'', names = [''hubble-ui''], er_namespace = Some ''kube-system''\<rparr>],
      explicit_cluster = [], postprocess = None\<rparr>,
     \<lparr>c_path = ''infrastructure/platform/headlamp'', selectors = [(''kube-system'', ''app.kubernetes.io/instance=headlamp'')],
      explicit_namespaced = [],
      explicit_cluster = [], postprocess = None\<rparr>,
     \<lparr>c_path = ''infrastructure/platform/rpi5-dra-driver'', selectors = [(''kube-system'', ''app=rpi5-dra-driver'')],
      explicit_namespaced = [],
      explicit_cluster = [], postprocess = None\<rparr>,
     \<lparr>c_path = ''infrastructure/platform/nvidia-dra-driver'', selectors = [(''nvidia-dra-driver'', ''app.kubernetes.io/instance=nvidia-dra-driver-gpu'')],
      explicit_namespaced = [],
      explicit_cluster = [\<lparr>resource_type = ''deviceclasses.resource.k8s.io'', names = [''compute-domain-daemon.nvidia.com'', ''compute-domain-default-channel.nvidia.com'', ''gpu.nvidia.com'', ''mig.nvidia.com'', ''vfio.gpu.nvidia.com''], er_namespace = None\<rparr>,
        \<lparr>resource_type = ''nodes'', names = [''hestia''], er_namespace = None\<rparr>,
        \<lparr>resource_type = ''namespaces'', names = [''nvidia-dra-driver''], er_namespace = None\<rparr>], postprocess = None\<rparr>,
     \<lparr>c_path = ''infrastructure/platform/device-classes'', selectors = [],
      explicit_namespaced = [\<lparr>resource_type = ''resourceclaims.resource.k8s.io'', names = [''hestia-gpu''], er_namespace = Some ''default''\<rparr>],
      explicit_cluster = [\<lparr>resource_type = ''deviceclasses.resource.k8s.io'', names = [''nvidia-gpu'', ''iris-transcode-hw''], er_namespace = None\<rparr>], postprocess = None\<rparr>,
     \<lparr>c_path = ''infrastructure/platform/rpi-throttle-monitor'', selectors = [(''default'', ''app.kubernetes.io/instance=rpi-throttle-monitor'')],
      explicit_namespaced = [],
      explicit_cluster = [], postprocess = None\<rparr>,
     \<lparr>c_path = ''infrastructure/shared-services/valkey'', selectors = [(''default'', ''app=valkey'')],
      explicit_namespaced = [],
      explicit_cluster = [], postprocess = None\<rparr>,
     \<lparr>c_path = ''infrastructure/shared-services/ollama'', selectors = [(''default'', ''app=ollama'')],
      explicit_namespaced = [],
      explicit_cluster = [], postprocess = None\<rparr>,
     \<lparr>c_path = ''infrastructure/shared-services/gitlab-runner'', selectors = [(''default'', ''app=gitlab-runner'')],
      explicit_namespaced = [],
      explicit_cluster = [], postprocess = None\<rparr>,
     \<lparr>c_path = ''infrastructure/observability-core/alloy'', selectors = [(''default'', ''app.kubernetes.io/instance=alloy'')],
      explicit_namespaced = [],
      explicit_cluster = [], postprocess = None\<rparr>,
     \<lparr>c_path = ''infrastructure/observability-core/loki'', selectors = [(''default'', ''app.kubernetes.io/instance=loki'')],
      explicit_namespaced = [],
      explicit_cluster = [], postprocess = None\<rparr>,
     \<lparr>c_path = ''infrastructure/observability-core/victoriametrics'', selectors = [(''default'', ''app.kubernetes.io/instance=victoriametrics'')],
      explicit_namespaced = [],
      explicit_cluster = [], postprocess = None\<rparr>,
     \<lparr>c_path = ''infrastructure/observability-core/node-exporter'', selectors = [(''default'', ''app.kubernetes.io/instance=node-exporter'')],
      explicit_namespaced = [],
      explicit_cluster = [], postprocess = None\<rparr>,
     \<lparr>c_path = ''infrastructure/observability-core/kube-state-metrics'', selectors = [(''default'', ''app.kubernetes.io/instance=kube-state-metrics'')],
      explicit_namespaced = [],
      explicit_cluster = [], postprocess = None\<rparr>,
     \<lparr>c_path = ''infrastructure/observability-ui/grafana'', selectors = [(''default'', ''app.kubernetes.io/instance=grafana'')],
      explicit_namespaced = [],
      explicit_cluster = [], postprocess = Some ''grafana''\<rparr>,
     \<lparr>c_path = ''infrastructure/observability-ui/meshery'', selectors = [(''default'', ''app.kubernetes.io/instance=meshery'')],
      explicit_namespaced = [],
      explicit_cluster = [], postprocess = None\<rparr>]"

definition APP_COMPONENTS :: "Component list" where
  "APP_COMPONENTS =
    [\<lparr>c_path = ''apps/athenaeum'', selectors = [(''default'', ''app=athenaeum'')],
      explicit_namespaced = [],
      explicit_cluster = [], postprocess = None\<rparr>,
     \<lparr>c_path = ''apps/glitchtip'', selectors = [(''default'', ''app=glitchtip'')],
      explicit_namespaced = [],
      explicit_cluster = [], postprocess = None\<rparr>,
     \<lparr>c_path = ''apps/jayne-martin-counselling'', selectors = [(''default'', ''app=jayne-martin-counselling'')],
      explicit_namespaced = [\<lparr>resource_type = ''verticalpodautoscalers.autoscaling.k8s.io'', names = [''jayne-martin-counselling-vpa''], er_namespace = Some ''default''\<rparr>],
      explicit_cluster = [], postprocess = None\<rparr>,
     \<lparr>c_path = ''apps/keycloak'', selectors = [(''default'', ''app=keycloak'')],
      explicit_namespaced = [],
      explicit_cluster = [], postprocess = None\<rparr>,
     \<lparr>c_path = ''apps/lldap'', selectors = [(''default'', ''app=lldap'')],
      explicit_namespaced = [\<lparr>resource_type = ''ciliumnetworkpolicies.cilium.io'', names = [''lldap''], er_namespace = Some ''default''\<rparr>],
      explicit_cluster = [], postprocess = None\<rparr>,
     \<lparr>c_path = ''apps/mail'', selectors = [(''default'', ''app in (mail-redis,rspamd,postfix,dovecot,sogo)'')],
      explicit_namespaced = [\<lparr>resource_type = ''ciliumnetworkpolicies.cilium.io'', names = [''mail-redis'', ''rspamd'', ''dovecot'', ''postfix'', ''sogo''], er_namespace = Some ''default''\<rparr>],
      explicit_cluster = [], postprocess = None\<rparr>,
     \<lparr>c_path = ''apps/matrix'', selectors = [(''default'', ''app=matrix'')],
      explicit_namespaced = [\<lparr>resource_type = ''configmaps'', names = [''synapse-config'', ''matrix-nginx-config'', ''element-config'', ''cinny-config''], er_namespace = Some ''default''\<rparr>,
        \<lparr>resource_type = ''middlewares.traefik.io'', names = [''mas-cors'', ''synapse-buffering'', ''synapse-headers'', ''wellknown-cors''], er_namespace = Some ''default''\<rparr>],
      explicit_cluster = [], postprocess = None\<rparr>,
     \<lparr>c_path = ''apps/media-centre'', selectors = [(''default'', ''app=media-centre'')],
      explicit_namespaced = [],
      explicit_cluster = [\<lparr>resource_type = ''persistentvolumes'', names = [''media-synology-docker'', ''media-synology-share''], er_namespace = None\<rparr>], postprocess = None\<rparr>,
     \<lparr>c_path = ''apps/nextcloud'', selectors = [(''default'', ''app=nextcloud'')],
      explicit_namespaced = [\<lparr>resource_type = ''middlewares.traefik.io'', names = [''nextcloud-webdav-redirect''], er_namespace = Some ''default''\<rparr>],
      explicit_cluster = [], postprocess = None\<rparr>,
     \<lparr>c_path = ''apps/nginx-sites'', selectors = [(''default'', ''app=nginx-sites'')],
      explicit_namespaced = [],
      explicit_cluster = [], postprocess = None\<rparr>,
     \<lparr>c_path = ''apps/open-webui'', selectors = [(''default'', ''app=open-webui'')],
      explicit_namespaced = [],
      explicit_cluster = [], postprocess = None\<rparr>,
     \<lparr>c_path = ''apps/seerr'', selectors = [(''default'', ''app=seerr'')],
      explicit_namespaced = [\<lparr>resource_type = ''verticalpodautoscalers.autoscaling.k8s.io'', names = [''seerr-vpa''], er_namespace = Some ''default''\<rparr>],
      explicit_cluster = [], postprocess = None\<rparr>,
     \<lparr>c_path = ''apps/searxng'', selectors = [(''default'', ''app=searxng'')],
      explicit_namespaced = [],
      explicit_cluster = [], postprocess = None\<rparr>,
     \<lparr>c_path = ''apps/vaultwarden'', selectors = [(''default'', ''app=vaultwarden'')],
      explicit_namespaced = [],
      explicit_cluster = [], postprocess = None\<rparr>,
     \<lparr>c_path = ''apps/gitlab'', selectors = [(''default'', ''app=gitlab'')],
      explicit_namespaced = [],
      explicit_cluster = [], postprocess = Some ''gitlab''\<rparr>,
     \<lparr>c_path = ''apps/iris'', selectors = [(''default'', ''app=iris'')],
      explicit_namespaced = [\<lparr>resource_type = ''resourceclaims.resource.k8s.io'', names = [''iris-transcode''], er_namespace = Some ''default''\<rparr>],
      explicit_cluster = [\<lparr>resource_type = ''persistentvolumes'', names = [''iris-synology-media''], er_namespace = None\<rparr>], postprocess = None\<rparr>]"

definition AGGREGATES :: "(string \<times> string list) list" where
  "AGGREGATES =
    [(''infrastructure/storage'', [''local-path-retain'', ''seaweedfs'', ''restic-backup'']),
     (''infrastructure/platform'', [''cert-manager'', ''reloader'', ''goldilocks'', ''hubble-ui'', ''headlamp'', ''rpi5-dra-driver'', ''nvidia-dra-driver'', ''device-classes'', ''rpi-throttle-monitor'']),
     (''infrastructure/shared-services'', [''valkey'', ''ollama'', ''gitlab-runner'']),
     (''infrastructure/observability-core'', [''alloy'', ''loki'', ''victoriametrics'', ''node-exporter'', ''kube-state-metrics'']),
     (''infrastructure/observability-ui'', [''grafana'', ''meshery'']),
     (''apps'', [''athenaeum'', ''glitchtip'', ''jayne-martin-counselling'', ''keycloak'', ''lldap'', ''mail'', ''matrix'', ''media-centre'', ''nextcloud'', ''nginx-sites'', ''open-webui'', ''seerr'', ''searxng'', ''vaultwarden'', ''gitlab'', ''iris''])]"

definition export_main :: "library \<Rightarrow> int xprog" where
  "export_main lib =
     pbind clean_outputs (\<lambda>_.
     pbind (pfor (\<lambda>c. pbind (fetch_component_resources lib c) (write_component lib c)) (INFRASTRUCTURE_COMPONENTS @ APP_COMPONENTS)) (\<lambda>_.
     pbind (pfor (\<lambda>(p, children). write_aggregate lib p children) AGGREGATES) (\<lambda>_.
     Ret 0)))"

end
