(* ===== verification/Export_Properties.thy ===== *)
theory Export_Properties
  imports Kustomize_Export Migration_Jobs
begin

section \<open>Properties of the export to Kustomize\<close>

text \<open>
  What \<^verbatim>\<open>strip_resource\<close> leaves out, the identities of what is collected, what the exporter does to the cluster and to the
  file system, and that the Kustomization it writes for GitLab is one the migration validator accepts.
\<close>

subsection \<open>No runtime state\<close>

definition runtime_key :: "string \<Rightarrow> bool" where
  "runtime_key k \<longleftrightarrow> k \<in> set RUNTIME_LABELS \<or> k \<in> set RUNTIME_ANNOTATIONS"

text \<open>No dictionary in the value has a runtime key; what stands under a managed-by label is left aside.\<close>

fun no_runtime :: "jval \<Rightarrow> bool" where
  "no_runtime (JDict d) = list_all (\<lambda>(k, v). \<not> runtime_key k \<and> (k \<in> set MANAGED_BY_LABEL_KEYS \<or> no_runtime v)) d"
| "no_runtime (JList xs) = list_all no_runtime xs"
| "no_runtime _ = True"

definition clean_entry :: "string \<times> jval \<Rightarrow> bool" where
  "clean_entry kv \<longleftrightarrow> \<not> runtime_key (fst kv) \<and> (fst kv \<in> set MANAGED_BY_LABEL_KEYS \<or> no_runtime (snd kv))"

lemma no_runtime_JDict: "no_runtime (JDict d) \<longleftrightarrow> list_all clean_entry d"
  unfolding no_runtime.simps by (rule arg_cong [where f = "\<lambda>P. list_all P d"]) (auto simp: clean_entry_def fun_eq_iff)

lemma no_runtime_Nil [simp]: "no_runtime (JDict [])"
  by simp

declare no_runtime.simps(1) [simp del]

lemma plain_keys [simp]:
  "\<not> runtime_key ''metadata''" "\<not> runtime_key ''labels''" "\<not> runtime_key ''annotations''" "\<not> runtime_key ''name''"
  "\<not> runtime_key ''kind''" "\<not> runtime_key ''apiVersion''"
  "''metadata'' \<notin> set MANAGED_BY_LABEL_KEYS" "''spec'' \<notin> set MANAGED_BY_LABEL_KEYS" "''volumeClaimTemplates'' \<notin> set MANAGED_BY_LABEL_KEYS"
  "''labels'' \<notin> set MANAGED_BY_LABEL_KEYS" "''annotations'' \<notin> set MANAGED_BY_LABEL_KEYS"
  by code_simp+

lemma managed_not_runtime: "k \<in> set MANAGED_BY_LABEL_KEYS \<Longrightarrow> \<not> runtime_key k"
proof -
  have "list_all (\<lambda>k. \<not> runtime_key k) MANAGED_BY_LABEL_KEYS" by code_simp
  then show "k \<in> set MANAGED_BY_LABEL_KEYS \<Longrightarrow> ?thesis" by (auto simp: list_all_iff)
qed

lemma scrub_clean: "no_runtime (scrub_runtime_fields p v)"
proof (induction p v rule: scrub_runtime_fields.induct)
  case (1 p d)
  have "clean_entry kv" if kv: "kv \<in> set (concat (map (\<lambda>(k, v).
       if dropped p k v then []
       else (let v' = scrub_runtime_fields p v in if k \<in> set EMPTIED_KEYS \<and> v' = JDict [] then [] else [(k, v')])) d))" for kv
  proof -
    from kv obtain k v where "(k, v) \<in> set d" "\<not> dropped p k v" "kv = (k, scrub_runtime_fields p v)"
      by (auto simp: Let_def split: if_split_asm)
    with 1 show ?thesis by (auto simp: clean_entry_def dropped_def runtime_key_def)
  qed
  then show ?case by (auto simp: no_runtime_JDict list_all_iff)
qed (auto simp: list_all_iff)

lemma update_clean:
  "no_runtime (JDict d) \<Longrightarrow> \<not> runtime_key k \<Longrightarrow> k \<in> set MANAGED_BY_LABEL_KEYS \<or> no_runtime v \<Longrightarrow> no_runtime (JDict (AList.update k v d))"
  unfolding no_runtime_JDict by (induction d) (auto simp: clean_entry_def)

lemma filter_clean: "no_runtime (JDict d) \<Longrightarrow> no_runtime (JDict (filter P d))"
  by (auto simp: no_runtime_JDict list_all_iff)

lemma map_of_clean: "no_runtime (JDict d) \<Longrightarrow> map_of d k = Some v \<Longrightarrow> \<not> runtime_key k \<and> (k \<in> set MANAGED_BY_LABEL_KEYS \<or> no_runtime v)"
  by (auto simp: no_runtime_JDict list_all_iff clean_entry_def dest!: map_of_SomeD)

lemma dget_clean: "no_runtime (JDict d) \<Longrightarrow> k \<notin> set MANAGED_BY_LABEL_KEYS \<Longrightarrow> no_runtime (dget k d)"
  by (auto simp: dget_def dest: map_of_clean split: option.split)

lemma dget_or_clean: "no_runtime (JDict d) \<Longrightarrow> k \<notin> set MANAGED_BY_LABEL_KEYS \<Longrightarrow> no_runtime v \<Longrightarrow> no_runtime (dget_or k v d)"
  by (auto simp: dget_or_def dest: map_of_clean split: option.split)

lemma setdefault_clean: "no_runtime (JDict d) \<Longrightarrow> \<not> runtime_key k \<Longrightarrow> no_runtime v \<Longrightarrow> no_runtime (JDict (setdefault k v d))"
  by (auto simp: setdefault_def no_runtime_JDict clean_entry_def)

lemmas clean_intros = update_clean filter_clean dget_clean dget_or_clean setdefault_clean

lemma at_path_clean:
  assumes "\<And>x y. no_runtime x \<Longrightarrow> f x = Inr y \<Longrightarrow> no_runtime y"
  shows "list_all (\<lambda>k. k \<notin> set MANAGED_BY_LABEL_KEYS) ks \<Longrightarrow> at_path ks f v = Inr w \<Longrightarrow> no_runtime v \<Longrightarrow> no_runtime w"
proof (induction ks arbitrary: v w)
  case (Cons k ks)
  then obtain d where d: "v = JDict d" by (cases v) auto
  show ?case
  proof (cases "map_of d k")
    case None
    with Cons d show ?thesis by simp
  next
    case (Some x)
    with Cons.prems d obtain y where y: "at_path ks f x = Inr y" "w = JDict (AList.update k y d)" by (auto simp: rbind_eq_Inr)
    have "\<not> runtime_key k" "no_runtime x" using map_of_clean [OF _ Some] Cons.prems d by auto
    with Cons y d show ?thesis by (auto intro!: update_clean)
  qed
qed (use assms in auto)

lemma py_items_eq: "py_items v = Inr d \<longleftrightarrow> v = JDict d"
  by (auto simp: py_items_def split: jval.splits)

lemma fold_update_clean:
  "list_all (\<lambda>kv. fst kv \<in> set MANAGED_BY_LABEL_KEYS) kvs \<Longrightarrow> no_runtime (JDict d)
    \<Longrightarrow> no_runtime (JDict (foldl (\<lambda>l kv. AList.update (fst kv) (snd kv) l) d kvs))"
  by (induction kvs arbitrary: d) (simp_all add: update_clean managed_not_runtime)

lemma labelled_template_clean:
  assumes "labelled_template kept x = Inr y" and "no_runtime x" and "list_all (\<lambda>nd. list_all (\<lambda>kv. fst kv \<in> set MANAGED_BY_LABEL_KEYS) (snd nd)) kept"
  shows "no_runtime y"
proof -
  obtain t metadata where t: "x = JDict t" "dget ''metadata'' (setdefault ''metadata'' (JDict []) t) = JDict metadata"
    using assms(1) unfolding labelled_template_def Let_def rbind_eq_Inr py_items_eq by auto
  let ?t = "setdefault ''metadata'' (JDict []) t"
  have c: "no_runtime (JDict ?t)" using assms(2) t(1) by (auto intro!: setdefault_clean)
  then have m: "no_runtime (JDict metadata)" using dget_clean [OF c, of "''metadata''"] t(2) by simp
  show ?thesis
  proof (cases "y = JDict ?t")
    case False
    then obtain managed labels where l: "(dget ''name'' metadata, managed) \<in> set kept" "dget_or ''labels'' (JDict []) metadata = JDict labels"
        "y = JDict (AList.update ''metadata'' (JDict (AList.update ''labels'' (JDict (foldl (\<lambda>l kv. AList.update (fst kv) (snd kv) l) labels managed)) metadata)) ?t)"
      using assms(1) t unfolding labelled_template_def Let_def rbind_eq_Inr py_items_eq
      by (auto simp: rbind_eq_Inr py_items_eq simp del: foldl_Cons split: if_split_asm option.splits list.splits dest!: map_of_SomeD) blast
    have "no_runtime (JDict labels)" using dget_or_clean [OF m, of "''labels''" "JDict []"] l(2) by simp
    moreover have "list_all (\<lambda>kv. fst kv \<in> set MANAGED_BY_LABEL_KEYS) managed" using assms(3) l(1) by (auto simp: list_all_iff)
    ultimately show ?thesis unfolding l(3) using m c by (intro update_clean disjI2 fold_update_clean) auto
  qed (use c in simp)
qed

lemma kept_labels_managed:
  assumes "rmap kept_labels templates = Inr kept"
  shows "list_all (\<lambda>nd. list_all (\<lambda>kv. fst kv \<in> set MANAGED_BY_LABEL_KEYS) (snd nd)) kept"
proof -
  have one: "kept_labels template = Inr nd \<Longrightarrow> list_all (\<lambda>kv. fst kv \<in> set MANAGED_BY_LABEL_KEYS) (snd nd)" for template nd
    unfolding kept_labels_def rbind_eq_Inr by (auto simp: list_all_iff split: if_split_asm)
  show ?thesis using assms by (induction templates arbitrary: kept) (auto simp: rbind_eq_Inr dest: one)
qed

lemma restore_clean:
  assumes "restore_statefulset_volume_claim_labels r original = Inr r'" and "no_runtime r"
  shows "no_runtime r'"
proof (cases "r' = r")
  case False
  then obtain templates kept where k: "rmap kept_labels templates = Inr kept"
      "at_path [''spec'', ''volumeClaimTemplates''] (label_templates kept) r = Inr r'"
    using assms(1) unfolding restore_statefulset_volume_claim_labels_def rbind_eq_Inr by (auto simp: rbind_eq_Inr split: if_split_asm)
  have each: "no_runtime y" if "no_runtime x" "label_templates kept x = Inr y" for x y
  proof (cases x)
    case (JList ts)
    with that obtain ts' where ts': "rmap (labelled_template kept) ts = Inr ts'" "y = JList ts'" by (auto simp: label_templates_def rbind_eq_Inr)
    have "list_all no_runtime ts'" using ts'(1) that(1) unfolding JList
      by (induction ts arbitrary: ts') (auto simp: rbind_eq_Inr dest: labelled_template_clean [OF _ _ kept_labels_managed [OF k(1)]])
    with ts'(2) show ?thesis by simp
  qed (use that in \<open>auto simp: label_templates_def rbind_eq_Inr split: if_split_asm\<close>)
  show ?thesis by (rule at_path_clean [OF each _ k(2) assms(2)]) simp_all
qed (use assms in simp)

lemma strip_metadata_clean:
  assumes "strip_metadata m = Inr m'" and "no_runtime (JDict m)"
  shows "no_runtime (JDict m')"
proof -
  have g: "no_runtime (JDict d)" if "dget k x = JDict d" "no_runtime (JDict x)" "k \<notin> set MANAGED_BY_LABEL_KEYS" for d k x
    using dget_clean [OF that(2,3)] that(1) by simp
  have a: "no_runtime (JDict y)" if "strip_annotations x = Inr y" "no_runtime (JDict x)" for x y
  proof -
    have "no_runtime (JDict d)" if "dget ''annotations'' x = JDict d" for d by (rule g [OF that \<open>no_runtime (JDict x)\<close>]) simp
    then show ?thesis using that unfolding strip_annotations_def Let_def rbind_eq_Inr dpop_def dpops_def
      by (auto simp: rbind_eq_Inr py_items_eq intro!: update_clean filter_clean split: if_split_asm)
  qed
  have l: "no_runtime (JDict y)" if "strip_labels x = Inr y" "no_runtime (JDict x)" for x y
  proof -
    have "no_runtime (JDict d)" if "dget ''labels'' x = JDict d" for d by (rule g [OF that \<open>no_runtime (JDict x)\<close>]) simp
    then show ?thesis using that unfolding strip_labels_def Let_def rbind_eq_Inr dpop_def dpops_def
      by (auto simp: rbind_eq_Inr py_items_eq intro!: update_clean filter_clean split: if_split_asm)
  qed
  show ?thesis using assms unfolding strip_metadata_def rbind_eq_Inr dpops_def by (auto intro: l [OF _ a [OF _ filter_clean]])
qed

lemma strip_kind_clean:
  assumes "strip_kind m r = Inr v" and "no_runtime (JDict m)" and "no_runtime (JDict r)"
  shows "no_runtime v"
proof -
  have path: "no_runtime w" if "at_path [''spec''] (on_dict f) (JDict r) = Inr w" "\<And>d d'. no_runtime (JDict d) \<Longrightarrow> f d = Inr d' \<Longrightarrow> no_runtime (JDict d')" for f w
    by (rule at_path_clean [OF _ _ that(1) assms(3)]) (use that(2) in \<open>auto simp: on_dict_def rbind_eq_Inr py_items_eq\<close>)
  have lab: "no_runtime (dget_or ''labels'' (JDict []) m)" by (rule dget_or_clean [OF assms(2)]) simp_all
  have nm: "no_runtime name" if "map_of m ''name'' = Some name" for name
  proof -
    have "''name'' \<notin> set MANAGED_BY_LABEL_KEYS" by code_simp
    with map_of_clean [OF assms(2) that] show ?thesis by simp
  qed
  have red: "no_runtime (reduced kind name labels)" if "no_runtime name" "no_runtime labels" for kind name labels
    using that by (simp add: reduced_def no_runtime_JDict clean_entry_def)
  have service: "no_runtime (JDict d')" if "no_runtime (JDict d)" "strip_service d = Inr d'" for d d'
    using that by (auto simp: strip_service_def Let_def dpop_def dpops_def intro!: filter_clean split: if_split_asm)
  have pop: "no_runtime w" if "at_path [''spec''] (on_dict (\<lambda>d. Inr (dpop k d))) (JDict r) = Inr w" for k w
    by (rule path [OF that]) (auto simp: dpop_def intro: filter_clean)
  show ?thesis using assms(1,3) lab unfolding strip_kind_def Let_def
    by (auto simp: rbind_eq_Inr jitem_eq_Inr py_items_eq dpop_def [of "''secrets''"] simp del: at_path.simps
        intro!: red filter_clean intro: nm pop path [OF _ service] split: if_split_asm)
qed

text \<open>What strip\_resource gives: no runtime keys anywhere, no status, and metadata without runtime fields.\<close>

definition desired_state :: "jval \<Rightarrow> bool" where
  "desired_state v \<longleftrightarrow> no_runtime v \<and> (\<exists>r m. v = JDict r \<and> map_of r ''status'' = None \<and> dget ''metadata'' r = JDict m
     \<and> list_all (\<lambda>k. map_of m k = None) RUNTIME_METADATA_KEYS)"

lemma strip_metadata_keys:
  assumes "strip_metadata m = Inr m'"
  shows "list_all (\<lambda>k. map_of m' k = None) RUNTIME_METADATA_KEYS"
proof -
  have ne: "''annotations'' \<notin> set RUNTIME_METADATA_KEYS" "''labels'' \<notin> set RUNTIME_METADATA_KEYS" by code_simp+
  have a: "map_of y k = None" if "strip_annotations x = Inr y" "map_of x k = None" "k \<noteq> ''annotations''" for x y k
    using that unfolding strip_annotations_def Let_def by (auto simp: rbind_eq_Inr map_of_dpop split: if_split_asm)
  have l: "map_of y k = None" if "strip_labels x = Inr y" "map_of x k = None" "k \<noteq> ''labels''" for x y k
    using that unfolding strip_labels_def Let_def by (auto simp: rbind_eq_Inr map_of_dpop split: if_split_asm)
  show ?thesis unfolding list_all_iff
  proof
    fix k assume k: "k \<in> set RUNTIME_METADATA_KEYS"
    then have "map_of (dpops RUNTIME_METADATA_KEYS m) k = None" by (simp add: map_of_dpops)
    moreover have "k \<noteq> ''annotations''" "k \<noteq> ''labels''" using k ne by auto
    ultimately show "map_of m' k = None" using assms unfolding strip_metadata_def rbind_eq_Inr by (blast intro: a l)
  qed
qed

text \<open>The part of a resource that is not below its specification.\<close>

definition same_outside :: "jval \<Rightarrow> jval \<Rightarrow> bool" where
  "same_outside v w \<longleftrightarrow> (\<exists>a b. v = JDict a \<and> w = JDict b \<and> (\<forall>k. k = ''spec'' \<or> map_of b k = map_of a k))"

lemma same_outsideE:
  assumes "same_outside (JDict a) w"
  obtains b where "w = JDict b" "map_of b ''status'' = map_of a ''status''" "dget ''metadata'' b = dget ''metadata'' a"
proof -
  from assms obtain b where b: "w = JDict b" "\<And>k. k = ''spec'' \<or> map_of b k = map_of a k" unfolding same_outside_def by blast
  show thesis by (rule that [OF b(1)]) (use b(2) [of "''status''"] b(2) [of "''metadata''"] in \<open>simp_all add: dget_def\<close>)
qed

lemma at_path_outside: "at_path (''spec'' # ks) f (JDict a) = Inr w \<Longrightarrow> same_outside (JDict a) w"
  by (auto simp: same_outside_def rbind_eq_Inr update_conv' split: option.splits)

lemma restore_outside:
  assumes "restore_statefulset_volume_claim_labels (JDict a) original = Inr w"
  shows "same_outside (JDict a) w"
  using assms unfolding restore_statefulset_volume_claim_labels_def rbind_eq_Inr
  by (auto simp: rbind_eq_Inr same_outside_def [of "JDict a" "JDict a"] simp del: at_path.simps split: if_split_asm dest: at_path_outside)

lemma strip_kind_cases:
  assumes "strip_kind m r = Inr v"
  obtains "same_outside (JDict r) v" | "v = JDict (dpop ''secrets'' r)" | kind name labels where "v = reduced kind name labels"
proof -
  have refl: "same_outside (JDict r) (JDict r)" by (simp add: same_outside_def)
  show thesis
  proof (cases "dget ''kind'' r \<in> {JStr ''Namespace'', JStr ''Node'', JStr ''ServiceAccount''}")
    case True
    with assms that(2,3) show ?thesis unfolding strip_kind_def Let_def by (auto simp: rbind_eq_Inr split: if_split_asm)
  next
    case False
    with assms have "same_outside (JDict r) v" unfolding strip_kind_def Let_def
      by (auto simp: refl simp del: at_path.simps split: if_split_asm dest!: at_path_outside)
    then show ?thesis by (rule that(1))
  qed
qed

lemma strip_kind_metadata:
  assumes "strip_kind m r = Inr v" and "map_of r ''status'' = None" and "dget ''metadata'' r = JDict m"
    and "list_all (\<lambda>k. map_of m k = None) RUNTIME_METADATA_KEYS"
  shows "\<exists>r' m'. v = JDict r' \<and> map_of r' ''status'' = None \<and> dget ''metadata'' r' = JDict m' \<and> list_all (\<lambda>k. map_of m' k = None) RUNTIME_METADATA_KEYS"
  using assms(1)
proof (cases rule: strip_kind_cases)
  case 1
  then obtain b where "v = JDict b" "map_of b ''status'' = map_of r ''status''" "dget ''metadata'' b = dget ''metadata'' r"
    by (rule same_outsideE)
  with assms(2-4) show ?thesis by auto
next
  case 2
  have "dget ''metadata'' (dpop ''secrets'' r) = JDict m" using assms(3) by (simp add: dget_def map_of_dpop)
  with 2 assms(2,4) show ?thesis by (auto simp: map_of_dpop)
next
  case (3 kind name labels)
  then show ?thesis by (simp add: reduced_def RUNTIME_METADATA_KEYS_def)
qed

lemma strip_resource_desired: "strip_resource r = Inr v \<Longrightarrow> desired_state v"
proof -
  assume "strip_resource r = Inr v"
  then obtain s m m' w where s: "scrub_runtime_fields (requires_managed_by_labels (JDict r)) (normalize_embedded_strings (JDict r)) = JDict s"
      "dget ''metadata'' (setdefault ''metadata'' (JDict []) s) = JDict m" "strip_metadata m = Inr m'"
      "strip_kind m' (dpop ''status'' (AList.update ''metadata'' (JDict m') (setdefault ''metadata'' (JDict []) s))) = Inr w"
      "restore_statefulset_volume_claim_labels w (JDict r) = Inr v"
    unfolding strip_resource_def Let_def rbind_eq_Inr py_items_eq by blast
  let ?s = "setdefault ''metadata'' (JDict []) s" and ?r = "dpop ''status'' (AList.update ''metadata'' (JDict m') (setdefault ''metadata'' (JDict []) s))"
  have c: "no_runtime (JDict ?s)" using scrub_clean [of "requires_managed_by_labels (JDict r)" "normalize_embedded_strings (JDict r)"] s(1)
    by (auto intro: setdefault_clean)
  have m: "no_runtime (JDict m')" using strip_metadata_clean [OF s(3)] dget_clean [OF c, of "''metadata''"] s(2) by simp
  have r: "no_runtime (JDict ?r)" unfolding dpop_def using c m by (auto intro!: filter_clean update_clean)
  have meta: "map_of ?r ''status'' = None" "dget ''metadata'' ?r = JDict m'"
    by (simp_all add: map_of_dpop dget_def update_conv')
  from strip_kind_metadata [OF s(4) meta strip_metadata_keys [OF s(3)]] obtain a ma where w: "w = JDict a" "map_of a ''status'' = None"
      "dget ''metadata'' a = JDict ma" "list_all (\<lambda>k. map_of ma k = None) RUNTIME_METADATA_KEYS" by blast
  obtain b where b: "v = JDict b" "map_of b ''status'' = map_of a ''status''" "dget ''metadata'' b = dget ''metadata'' a"
    by (rule same_outsideE [OF restore_outside [OF s(5) [unfolded w(1)]]])
  have "no_runtime v" by (rule restore_clean [OF s(5) strip_kind_clean [OF s(4) m r]])
  then show ?thesis using w b unfolding desired_state_def by auto
qed

subsection \<open>What is collected\<close>

definition collected_ok :: "rkey list \<times> jval list \<Rightarrow> bool" where
  "collected_ok s \<longleftrightarrow> list_all desired_state (snd s) \<and> rmap resource_key (snd s) = Inr (fst s) \<and> distinct (fst s)"

lemma rmap_snoc: "rmap f xs = Inr ys \<Longrightarrow> f x = Inr y \<Longrightarrow> rmap f (xs @ [x]) = Inr (ys @ [y])"
  by (induction xs arbitrary: ys) (auto simp: rbind_eq_Inr)

lemma add_resources_ok: "add_resources s rs = Inr s' \<Longrightarrow> collected_ok s \<Longrightarrow> collected_ok s'"
proof (induction s rs rule: add_resources.induct)
  case (2 s resource resources)
  obtain r stripped key where k: "py_items resource = Inr r" "strip_resource r = Inr stripped" "resource_key stripped = Inr key" "key_hashable key"
    using 2(3) by (auto simp: rbind_eq_Inr split: if_split_asm)
  show ?case
  proof (cases "key \<in> set (fst s)")
    case True
    with 2 k show ?thesis by simp
  next
    case False
    have "collected_ok (fst s @ [key], snd s @ [stripped])"
      using 2(4) False k unfolding collected_ok_def by (simp add: rmap_snoc strip_resource_desired)
    with 2 k False show ?thesis by simp
  qed
qed simp

lemma rfilter_keys:
  "rfilter p xs = Inr ys \<Longrightarrow> rmap f xs = Inr ks \<Longrightarrow> distinct ks \<Longrightarrow> \<exists>ks'. rmap f ys = Inr ks' \<and> set ks' \<subseteq> set ks \<and> distinct ks'"
proof (induction xs arbitrary: ys ks)
  case (Cons x xs)
  from Cons.prems obtain b zs k ks2 where h: "rfilter p xs = Inr zs" "ys = (if b then x # zs else zs)" "f x = Inr k" "rmap f xs = Inr ks2" "ks = k # ks2"
    by (auto simp: rbind_eq_Inr)
  with Cons obtain ks' where "rmap f zs = Inr ks'" "set ks' \<subseteq> set ks2" "distinct ks'" by fastforce
  with h Cons.prems(3) show ?case by (cases b) (auto simp: rbind_eq_Inr)
qed auto

text \<open>
  (C29) Everything a component fetches is desired state and is collected once: whatever the cluster answers, a list that
  is returned has no runtime label or annotation at any depth (a managed-by label aside), no status, no runtime
  field in the metadata, and no two of its resources have the same API version, kind, namespace and name.
\<close>

theorem fetched_is_desired_state:
  "yields (\<lambda>rs. list_all desired_state rs \<and> (\<exists>keys. rmap resource_key rs = Inr keys \<and> distinct keys)) (fetch_component_resources lib c)"
  unfolding fetch_component_resources_def
proof (rule yields_pbind)
  show "yields collected_ok (pfold (\<lambda>(t, namespace, selector, ns) s. pbind (get_yaml lib t namespace selector ns)
      (\<lambda>resources. liftr (add_resources s resources))) (requests c) ([], []))"
  proof (rule yields_pfold)
    fix x s assume s: "collected_ok s"
    show "yields collected_ok ((\<lambda>(t, namespace, selector, ns) s.
        pbind (get_yaml lib t namespace selector ns) (\<lambda>resources. liftr (add_resources s resources))) x s)"
      by (cases x) (simp add: yields_pbind [OF yields_any yields_liftr [OF add_resources_ok [OF _ s]]])
  qed (simp add: collected_ok_def)
next
  fix s assume s: "collected_ok s"
  have "list_all desired_state ys \<and> (\<exists>keys. rmap resource_key ys = Inr keys \<and> distinct keys)" if "rfilter p (snd s) = Inr ys" for p ys
    using rfilter_set [OF that] s rfilter_keys [OF that, of resource_key "fst s"] unfolding collected_ok_def list_all_iff by blast
  moreover have "list_all desired_state (snd s) \<and> (\<exists>keys. rmap resource_key (snd s) = Inr keys \<and> distinct keys)"
    using s unfolding collected_ok_def by blast
  ultimately show "yields (\<lambda>rs. list_all desired_state rs \<and> (\<exists>keys. rmap resource_key rs = Inr keys \<and> distinct keys))
      (case s of (seen, collected) \<Rightarrow> if postprocess c = Some ''grafana''
        then liftr (rfilter (\<lambda>r. rbind (generated_config r) (\<lambda>g. Inr (\<not> g))) collected) else Ret collected)"
    by (cases s) (simp add: yields_Ret yields_liftr)
qed

subsection \<open>What the exporter does\<close>

text \<open>
  A relative path below one of the two output trees that does not go up. \<^verbatim>\<open>filename_for\<close> replaces the slashes of the name of a
  resource but not those of its kind and namespace; for a resource where these contain one, nothing is said of the path.
\<close>

definition below_output :: "string \<Rightarrow> bool" where
  "below_output p \<longleftrightarrow> parts p \<noteq> [] \<and> hd (parts p) \<in> set OUTPUTS \<and> ''..'' \<notin> set (parts p) \<and> \<not> prefix ''/'' p"

definition slashed :: "(rat \<Rightarrow> string) \<Rightarrow> jval \<Rightarrow> bool" where
  "slashed fl resource \<longleftrightarrow> (\<exists>r m. resource = JDict r \<and> dget ''metadata'' r = JDict m
     \<and> ((\<exists>kind. dget ''kind'' r = JStr kind \<and> CHR ''/'' \<in> set kind) \<or> CHR ''/'' \<in> set (py_str fl (dget ''namespace'' m))))"

definition export_act_ok :: "library \<Rightarrow> xact \<Rightarrow> bool" where
  "export_act_ok lib q = (case q of
     XRun cmd \<Rightarrow> prefix [''kubectl'', ''get''] cmd \<or> (\<exists>password. cmd = [''curl'', ''-fsS'', ''-u'', ''admin:'' @ password, RULES_URL])
   | XWrite p _ \<Rightarrow> below_output p
       \<or> (\<exists>dir resource f. p = dir @ ''/'' @ f \<and> filename_for (y_float lib) resource = Inr f \<and> slashed (y_float lib) resource)
   | XMkdir p \<Rightarrow> below_output p
   | XRmtree p \<Rightarrow> p \<in> set OUTPUTS
   | _ \<Rightarrow> True)"










lemma acts_x [simp]:
  "acts P (xrun cmd) = P (XRun cmd)" "acts P (xwrite p t) = P (XWrite p t)" "acts P (xread p) = P (XRead p)" "acts P (xmkdir p) = P (XMkdir p)"
  "acts P (xexists p) = P (XExists p)" "acts P (xrmtree p) = P (XRmtree p)"
  by (auto simp: x_defs split: option.split xresp.split)

lemma ok_reads [simp]: "export_act_ok lib (XRead p)" "export_act_ok lib (XExists p)"
  by (simp_all add: export_act_ok_def)





lemma fixed_parts [simp]: "''..'' \<notin> set (parts ''kustomization.yaml'')" "''..'' \<notin> set (parts ''files'')" "''..'' \<notin> set (parts ''files/loki.yaml'')"
  "''..'' \<notin> set (parts ''files/prometheus.yaml'')" "''..'' \<notin> set (parts ''files/contactpoints.yaml'')" "''..'' \<notin> set (parts ''files/policies.yaml'')"
  "''..'' \<notin> set (parts ''_grafana_alert_rules.yaml'')" "''..'' \<notin> set (parts ''deployment-default-grafana.yaml'')" "''..'' \<notin> set (parts JOB_FILENAME)"
  by code_simp+









subsection \<open>The Kustomization of GitLab\<close>

lemma set_item_Inr: "set_item k x v = Inr w \<longleftrightarrow> (\<exists>d. v = JDict d \<and> w = JDict (AList.update k x d))"
  by (auto simp: set_item_def split: jval.splits)

lemma gitlab_kustomization_generators:
  assumes "gitlab_kustomization version k = Inr k'"
  shows "\<exists>d. k' = JDict d \<and> dget ''configMapGenerator'' d = release_generator version"
  using assms unfolding gitlab_kustomization_def Let_def rbind_eq_Inr set_item_Inr
  by (auto simp: dget_def update_conv')

text \<open>
  (C31) The exporter and the migration validator agree. When the exporter finds a single version and the Kustomization it
  writes is read back, the validator extracts this version twice, so that there is no drift between them; it accepts them
  exactly if the version is valid.
\<close>

theorem exported_release_validates:
  assumes "gitlab_kustomization version k = Inr k'" and "load txt = Inr k'"
  shows "parse_gitlab_release_versions load txt = Inr (version, version)
    \<and> (validate_gitlab_version_drift version version = Inr () \<longleftrightarrow> (\<exists>v. parse_gitlab_version version = Inr v))"
proof -
  obtain d where d: "k' = JDict d" "dget ''configMapGenerator'' d = release_generator version"
    using gitlab_kustomization_generators [OF assms(1)] by blast
  have "literal_values 0 [JStr (''appVersion='' @ version), JStr (''migrationVersion='' @ version)] = Inr ([version], [version])"
    by (simp add: partition_on_def)
  then have "parse_gitlab_release_versions load txt = Inr (version, version)"
    unfolding parse_gitlab_release_versions_def assms(2) d(1) by (simp add: d(2) release_generator_def)
  moreover have "validate_gitlab_version_drift version version = Inr () \<longleftrightarrow> (\<exists>v. parse_gitlab_version version = Inr v)"
    by (cases "parse_gitlab_version version") (auto simp: validate_gitlab_version_drift_def split: prod.split)
  ultimately show ?thesis ..
qed

theorem exported_release_validates_witness:
  "\<exists>k'. gitlab_kustomization ''v17.5.1'' (kustomization []) = Inr k'
     \<and> parse_gitlab_release_versions (\<lambda>_. Inr k') [] = Inr (''v17.5.1'', ''v17.5.1'')"
proof -
  obtain k' where k: "gitlab_kustomization ''v17.5.1'' (kustomization []) = Inr k'"
    by (simp add: gitlab_kustomization_def kustomization_def set_item_def py_items_def setdefault_def with_job_def Let_def)
  then show ?thesis using exported_release_validates [OF k, of "\<lambda>_. Inr k'"] by blast
qed

subsection \<open>Names of files\<close>

text \<open>
  Two resources with different identities can get the same file name, since a colon and a slash in a name become a hyphen:
  the second then replaces the first in the output, and the Kustomization lists the file twice.
\<close>

definition cluster_role :: "string \<Rightarrow> jval" where
  "cluster_role name = JDict [(''apiVersion'', JStr ''rbac.authorization.k8s.io/v1''), (''kind'', JStr ''ClusterRole''),
     (''metadata'', JDict [(''name'', JStr name)])]"

theorem filenames_collide:
  "filename_for fl (cluster_role ''hubble:ui'') = Inr ''clusterrole-hubble-ui.yaml''"
  "filename_for fl (cluster_role ''hubble-ui'') = Inr ''clusterrole-hubble-ui.yaml''"
  "resource_key (cluster_role ''hubble:ui'') \<noteq> resource_key (cluster_role ''hubble-ui'')"
proof -
  have l: "lower ''ClusterRole'' = ''clusterrole''" by code_simp
  have r: "replace_all '':'' ''-'' (replace_all ''/'' ''-'' ''hubble:ui'') = ''hubble-ui''"
    "replace_all '':'' ''-'' (replace_all ''/'' ''-'' ''hubble-ui'') = ''hubble-ui''" by code_simp+
  show "filename_for fl (cluster_role ''hubble:ui'') = Inr ''clusterrole-hubble-ui.yaml''"
    "filename_for fl (cluster_role ''hubble-ui'') = Inr ''clusterrole-hubble-ui.yaml''"
    by (simp_all add: filename_for_def cluster_role_def jitem_JDict str_method_def l r)
  show "resource_key (cluster_role ''hubble:ui'') \<noteq> resource_key (cluster_role ''hubble-ui'')"
    by (simp add: resource_key_def cluster_role_def)
qed

end
