(* ===== verification/Manifest_Checks.thy ===== *)
theory Manifest_Checks
  imports Migration_Jobs
begin

section \<open>Checks on rendered manifests\<close>

text \<open>
  What the manifest validators share: the comparison that distinguishes types, the class \<^verbatim>\<open>Checks\<close> that
  collects error texts, the search for one resource, rendering with \<^verbatim>\<open>kustomize\<close>, and the tests on texts. A
  check is the list of errors it adds; \<open>in_order\<close> runs checks one after the other, and an exception ends all of
  them. The argument \<open>fl\<close> is the text of a float, which only occurs in messages.
\<close>

named_theorems check_simps "what it means that a check adds no error"

subsection \<open>Equality that distinguishes types\<close>

text \<open>
  In Python \<^verbatim>\<open>True == 1 == 1.0\<close>; the validators compare types first, at every level. The keys of a dict are
  compared as a set.
\<close>

lemma size_snd_member: "(k, v) \<in> set e \<Longrightarrow> size v < Suc (size_list (size_prod (\<lambda>x. 0) size) e)"
  by (induction e) auto

lemma size_zip_member: "p \<in> set (zip a e) \<Longrightarrow> size (snd p) < Suc (size_list size e)"
  by (induction a e rule: list_induct2') auto

function strict_equal :: "jval \<Rightarrow> jval \<Rightarrow> bool" where
  "strict_equal actual expected =
     (case (actual, expected) of
        (JDict a, JDict e) \<Rightarrow>
          set (map fst a) = set (map fst e) \<and> list_all (\<lambda>kv. strict_equal (dget (fst kv) a) (snd kv)) e
      | (JList a, JList e) \<Rightarrow> length a = length e \<and> list_all (\<lambda>p. strict_equal (fst p) (snd p)) (zip a e)
      | (JNull, JNull) \<Rightarrow> True
      | (JBool a, JBool e) \<Rightarrow> a = e
      | (JInt a, JInt e) \<Rightarrow> a = e
      | (JFloat a, JFloat e) \<Rightarrow> a = e
      | (JStr a, JStr e) \<Rightarrow> a = e
      | _ \<Rightarrow> False)"
  by pat_completeness auto

termination
  by (relation "measure (\<lambda>(a, e). size e)") (auto dest: size_snd_member size_zip_member)

declare strict_equal.simps [simp del]

lemma strict_equal_scalars [simp]:
  "strict_equal a JNull \<longleftrightarrow> a = JNull" "strict_equal a (JBool b) \<longleftrightarrow> a = JBool b" "strict_equal a (JInt i) \<longleftrightarrow> a = JInt i"
  "strict_equal a (JFloat r) \<longleftrightarrow> a = JFloat r" "strict_equal a (JStr s) \<longleftrightarrow> a = JStr s"
  by (cases a; simp add: strict_equal.simps)+

lemma strict_equal_JDict:
  "strict_equal a (JDict e) \<longleftrightarrow>
     (\<exists>d. a = JDict d \<and> set (map fst d) = set (map fst e) \<and> list_all (\<lambda>kv. strict_equal (dget (fst kv) d) (snd kv)) e)"
  by (subst strict_equal.simps) (cases a; simp)

lemma strict_equal_JList: "strict_equal a (JList e) \<longleftrightarrow> (\<exists>xs. a = JList xs \<and> list_all2 strict_equal xs e)"
  by (subst strict_equal.simps) (cases a; auto simp: list_all2_iff list_all_iff)

subsection \<open>Checks\<close>

definition check_equal :: "(rat \<Rightarrow> string) \<Rightarrow> jval \<Rightarrow> jval \<Rightarrow> string \<Rightarrow> string list" where
  "check_equal fl actual expected path =
     (if strict_equal actual expected then []
      else [path @ '': expected '' @ py_repr fl expected @ '', got '' @ py_repr fl actual])"

definition check_true :: "bool \<Rightarrow> string \<Rightarrow> string list" where
  "check_true condition message = (if condition then [] else [message])"

definition named :: "string \<Rightarrow> string \<Rightarrow> jval \<Rightarrow> bool res" where
  "named kind name resource =
     rbind (jget ''kind'' resource) (\<lambda>k.
     if k \<noteq> JStr kind then Inr False
     else
       rbind (jget_or ''metadata'' (JDict []) resource) (\<lambda>metadata.
       rbind (jget ''name'' metadata) (\<lambda>n. Inr (n = JStr name))))"

definition check_one :: "jval list \<Rightarrow> string \<Rightarrow> string \<Rightarrow> (jval \<times> string list) res" where
  "check_one resources kind name =
     rbind (rfilter (named kind name) resources) (\<lambda>matches.
     Inr (case matches of
        [r] \<Rightarrow> (r, [])
      | _ \<Rightarrow> (JDict [], [''expected exactly one '' @ kind @ ''/'' @ name @ '', got '' @ show_nat (length matches)])))"

text \<open>\<^verbatim>\<open>v.get(k1, {}).get(k2, {}) ... .get(kn)\<close>, and the same with a default at the end.\<close>

fun get_at :: "string list \<Rightarrow> jval \<Rightarrow> jval res" where
  "get_at [] v = Inr v"
| "get_at [k] v = jget k v"
| "get_at (k # ks) v = rbind (jget_or k (JDict []) v) (get_at ks)"

fun sub_at :: "string list \<Rightarrow> jval \<Rightarrow> jval res" where
  "sub_at [] v = Inr v"
| "sub_at (k # ks) v = rbind (jget_or k (JDict []) v) (sub_at ks)"

definition in_order :: "string list res list \<Rightarrow> string list res" where
  "in_order checks = rbind (rmap id checks) (\<lambda>errors. Inr (concat errors))"

definition equal_at :: "(rat \<Rightarrow> string) \<Rightarrow> jval \<Rightarrow> string list \<times> jval \<times> string \<Rightarrow> string list res" where
  "equal_at fl v c = (case c of (ks, expected, path) \<Rightarrow> rbind (get_at ks v) (\<lambda>actual. Inr (check_equal fl actual expected path)))"

definition equal_all :: "(rat \<Rightarrow> string) \<Rightarrow> jval \<Rightarrow> (string list \<times> jval \<times> string) list \<Rightarrow> string list res" where
  "equal_all fl v checks = in_order (map (equal_at fl v) checks)"

subsection \<open>Files, commands and YAML\<close>

text \<open>
  What a validator sees of the repository. A file is a text, cannot be opened, or is not UTF-8; a command exits with a
  status and its two outputs, writes something that is not UTF-8, or cannot be started; YAML is loaded, is not
  YAML, or has a scalar without a value. Paths are relative to the root of the repository.
\<close>

datatype file_result = FileText string | OsError string | Undecodable string

datatype run_result = Exited int string string | UndecodableOutput string | NotStarted string

datatype 'a yaml = Loaded 'a | YamlError string | BadScalar string

record repo =
  r_which :: "string \<Rightarrow> string option"
  r_run :: "string list \<Rightarrow> run_result"
  r_read :: "string \<Rightarrow> file_result"
  r_yaml :: "string \<Rightarrow> jval yaml"
  r_yaml_all :: "string \<Rightarrow> jval list yaml"
  r_float :: "rat \<Rightarrow> string"

text \<open>
  Rendering as the GC and the Temporal validator do it. A \<open>Caught\<close> result is an exception that the callers
  catch, a \<^verbatim>\<open>ValueError\<close> or a \<^verbatim>\<open>yaml.YAMLError\<close>, with its text.
\<close>

datatype 'a attempt = Got 'a | Caught string | Escapes exn

definition render_command :: "'a repo_scheme \<Rightarrow> string \<Rightarrow> string list" where
  "render_command r relative = (case r_which r ''kustomize'' of
      Some executable \<Rightarrow> if executable \<noteq> [] then [executable, ''build'', relative] else [''kubectl'', ''kustomize'', relative]
    | None \<Rightarrow> [''kubectl'', ''kustomize'', relative])"

definition render_docs :: "'a repo_scheme \<Rightarrow> string \<Rightarrow> jval list attempt" where
  "render_docs r relative =
     (case r_run r (render_command r relative) of
        NotStarted msg \<Rightarrow> Escapes (PyError (''OSError: '' @ msg))
      | UndecodableOutput msg \<Rightarrow> Caught msg
      | Exited code out err \<Rightarrow>
          if code \<noteq> 0 then Caught (''render '' @ relative @ '': '' @ strip err)
          else (case r_yaml_all r out of
              Loaded docs \<Rightarrow> Got (filter is_dict docs)
            | YamlError msg \<Rightarrow> Caught msg
            | BadScalar msg \<Rightarrow> Caught msg))"

subsection \<open>Tests on texts\<close>

text \<open>\<^verbatim>\<open>s.count(pat)\<close> for a pattern that is not empty, and \<^verbatim>\<open>" ".join(s.split())\<close> of a string.\<close>

function count_of :: "string \<Rightarrow> string \<Rightarrow> nat" where
  "count_of pat s =
     (if s = [] then 0
      else if pat \<noteq> [] \<and> prefix pat s then Suc (count_of pat (drop (length pat) s))
      else count_of pat (tl s))"
  by auto
termination by (relation "measure (\<lambda>(pat, s). length s)") auto

declare count_of.simps [simp del]

definition normalized :: "jval \<Rightarrow> string" where
  "normalized v = (case v of JStr s \<Rightarrow> join '' '' (split_fields s) | _ \<Rightarrow> [])"

definition unlines :: "string list \<Rightarrow> string" where
  "unlines ls = concat (map (\<lambda>l. l @ [CHR 0x0A]) ls)"

subsection \<open>When a check adds no error\<close>

lemma check_equal_Nil [check_simps]: "check_equal fl a e p = [] \<longleftrightarrow> strict_equal a e"
  by (simp add: check_equal_def)

lemma check_true_Nil [check_simps]: "check_true c m = [] \<longleftrightarrow> c"
  by (simp add: check_true_def)

lemma in_order_Nil [check_simps]: "in_order cs = Inr [] \<longleftrightarrow> list_all (\<lambda>c. c = Inr []) cs"
proof -
  have "in_order cs = Inr [] \<longleftrightarrow> (\<exists>es. rmap id cs = Inr es \<and> concat es = [])"
    by (auto simp: in_order_def rbind_eq_Inr)
  also have "\<dots> \<longleftrightarrow> list_all (\<lambda>c. c = Inr []) cs"
    by (induction cs) (auto simp: rbind_eq_Inr)
  finally show ?thesis .
qed

lemma equal_at_Nil [check_simps]:
  "equal_at fl v (ks, e, p) = Inr [] \<longleftrightarrow> (\<exists>a. get_at ks v = Inr a \<and> strict_equal a e)"
  by (auto simp: equal_at_def rbind_eq_Inr check_simps)

lemma equal_all_Nil [check_simps]:
  "equal_all fl v cs = Inr [] \<longleftrightarrow> list_all (\<lambda>(ks, e, p). \<exists>a. get_at ks v = Inr a \<and> strict_equal a e) cs"
  by (auto simp: equal_all_def check_simps list_all_iff)

lemma rbind_append_Nil [check_simps]:
  "rbind m (\<lambda>x. rbind (f x) (\<lambda>y. Inr (x @ y))) = Inr [] \<longleftrightarrow> m = Inr [] \<and> f [] = Inr []"
  by (auto simp: rbind_eq_Inr)

text \<open>Exactly one resource has the kind and the name, and the others could be looked at.\<close>

definition unique_resource :: "jval list \<Rightarrow> string \<Rightarrow> string \<Rightarrow> jval \<Rightarrow> bool" where
  "unique_resource resources kind name r \<longleftrightarrow> (\<exists>before after. resources = before @ r # after \<and> named kind name r = Inr True
     \<and> list_all (\<lambda>x. named kind name x = Inr False) (before @ after))"

lemma rfilter_Nil: "rfilter p xs = Inr [] \<longleftrightarrow> list_all (\<lambda>x. p x = Inr False) xs"
  by (induction xs) (auto simp: rbind_eq_Inr split: if_splits)

lemma rfilter_single:
  "rfilter p xs = Inr [r] \<longleftrightarrow> (\<exists>before after. xs = before @ r # after \<and> p r = Inr True
     \<and> list_all (\<lambda>x. p x = Inr False) (before @ after))"
proof (induction xs)
  case (Cons x xs)
  have "rfilter p (x # xs) = Inr [r] \<longleftrightarrow>
      p x = Inr False \<and> rfilter p xs = Inr [r] \<or> p x = Inr True \<and> x = r \<and> rfilter p xs = Inr []"
    by (auto simp: rbind_eq_Inr split: if_splits)
  also have "\<dots> \<longleftrightarrow> (\<exists>before after. x # xs = before @ r # after \<and> p r = Inr True
     \<and> list_all (\<lambda>x. p x = Inr False) (before @ after))" (is "?l \<longleftrightarrow> (\<exists>before after. ?split before after)")
  proof
    assume ?l
    then show "\<exists>before after. ?split before after"
    proof
      assume "p x = Inr False \<and> rfilter p xs = Inr [r]"
      then obtain before after where "xs = before @ r # after" "p r = Inr True" "p x = Inr False"
          "list_all (\<lambda>x. p x = Inr False) (before @ after)" unfolding Cons.IH by blast
      then have "?split (x # before) after" by simp
      then show ?thesis by blast
    next
      assume "p x = Inr True \<and> x = r \<and> rfilter p xs = Inr []"
      then have "?split [] xs" by (auto simp: rfilter_Nil)
      then show ?thesis by blast
    qed
  next
    assume "\<exists>before after. ?split before after"
    then obtain before after where s: "?split before after" by blast
    then show ?l
    proof (cases before)
      case Nil
      with s show ?thesis by (simp add: rfilter_Nil)
    next
      case (Cons y ys)
      with s have "p x = Inr False" "rfilter p xs = Inr [r]" unfolding Cons.IH by auto
      then show ?thesis by simp
    qed
  qed
  finally show ?case .
qed simp

lemma check_one_Nil [check_simps]:
  "check_one resources kind name = Inr (r, []) \<longleftrightarrow> unique_resource resources kind name r"
proof -
  have "check_one resources kind name = Inr (r, []) \<longleftrightarrow> rfilter (named kind name) resources = Inr [r]"
    unfolding check_one_def by (cases "rfilter (named kind name) resources") (auto split: list.splits)
  then show ?thesis by (simp add: unique_resource_def rfilter_single)
qed

end
