(* ===== verification/Gc_Alert.thy ===== *)
theory Gc_Alert
  imports Manifest_Checks
begin

section \<open>The validator of the GC Job and its alerts\<close>

text \<open>
  \<^verbatim>\<open>scripts/validate_hestia_ci_store_gc_alert.py\<close> renders the shared services, checks the CronJob that runs
  the garbage collection of the Podman store, its RBAC and the two Grafana alerts, and checks that the validator itself is
  called by the CI. The comparisons of one object with fixed values are tables of paths, values and labels in the order of
  the code; the rest follows the control flow of the functions. Files, commands and YAML are the \<^typ>\<open>repo\<close> argument.
\<close>

subsection \<open>Constants\<close>

definition GC_IMAGE :: string where
  "GC_IMAGE = ''quay.io/podman/stable@sha256:c6c3feef40a5c825a98e62a11c8ed4c36ec603327d56eb629230a671e527c3dd''"

definition GC_HOST_PATH :: string where
  "GC_HOST_PATH = ''/var/lib/ci-containers-nocow/storage''"

definition GC_MOUNT_PATH :: string where
  "GC_MOUNT_PATH = ''/var/lib/ci-containers-nocow/storage''"

definition GC_TMPDIR :: string where
  "GC_TMPDIR = ''/tmp''"

definition GC_RUNROOT_PATH :: string where
  "GC_RUNROOT_PATH = ''/run/ci-containers-prune''"

definition GC_LIBPOD_TMP_PATH :: string where
  "GC_LIBPOD_TMP_PATH = ''/run/libpod''"

definition GC_RUN_LOCK_PATH :: string where
  "GC_RUN_LOCK_PATH = ''/run/lock''"

definition GC_SHM_PATH :: string where
  "GC_SHM_PATH = ''/dev/shm''"

definition GC_JOB_LABEL :: string where
  "GC_JOB_LABEL = ''ci.brmartin.co.uk/job''"

definition GC_MAINTENANCE_LABEL :: string where
  "GC_MAINTENANCE_LABEL = ''ci.brmartin.co.uk/maintenance''"

definition FORBIDDEN_HOST_PATHS :: "string list" where
  "FORBIDDEN_HOST_PATHS = [''/var/lib/ci-cache-nocow'', ''/var/lib/ci-builds-nocow'', ''/var/lib/rancher/k3s'', ''/var/lib/containerd'']"

definition GC_SCRIPT_LINES :: "string list" where
  "GC_SCRIPT_LINES =
    [''set -euo pipefail'',
     [],
     ''python3 -B /policy/maintenance-admission.py gc-claim'',
     [],
     ''podman_store=('',
     ''  podman'',
     ''  --tmpdir=/tmp/libpod'',
     ''  --root='' @ GC_MOUNT_PATH,
     ''  --runroot='' @ GC_RUNROOT_PATH,
     ''  --storage-driver=overlay'',
     '')'',
     ''\"${podman_store[@]}\" container prune --force --filter until=168h'',
     ''\"${podman_store[@]}\" ps -a --external --filter until=168h --format json > /tmp/external-containers.json'',
     (''python3 - <<'' @ [CHR 0x27] @ ''PY'' @ [CHR 0x27] @ '' > /tmp/external-container-ids''),
     ''import json'',
     ''import re'',
     ''import time'',
     [],
     ''with open(\"/tmp/external-containers.json\", \"rb\") as stream:'',
     ''    containers = json.load(stream)'',
     ''if type(containers) is not list:'',
     ''    raise SystemExit(\"Podman external-container list has an invalid shape; refusing cleanup\")'',
     ''cutoff = int(time.time()) - 168 * 60 * 60'',
     ''for container in containers:'',
     ''    if type(container) is not dict:'',
     ''        raise SystemExit(\"Podman external-container list has an invalid item; refusing cleanup\")'',
     ''    container_id = container.get(\"Id\")'',
     ''    created = container.get(\"Created\")'',
     ''    if type(container_id) is not str or re.fullmatch(r\"[0-9a-f]{64}\", container_id) is None or type(created) is not int:'',
     ''        raise SystemExit(\"Podman external-container identity is invalid; refusing cleanup\")'',
     ''    if created > cutoff:'',
     ''        raise SystemExit(\"Podman returned a recent external container through the 168h filter; refusing cleanup\")'',
     ''    print(container_id)'',
     ''PY'',
     ''mapfile -t stale_external_ids < /tmp/external-container-ids'',
     ''if (( ${#stale_external_ids[@]} )); then'',
     ''  \"${podman_store[@]}\" rm --force \"${stale_external_ids[@]}\"'',
     ''fi'',
     ''\"${podman_store[@]}\" image prune --all --force --filter until=168h'']"

definition GC_SCRIPT :: string where
  "GC_SCRIPT = unlines GC_SCRIPT_LINES"

definition ALERT_EXPR :: string where
  "ALERT_EXPR = unlines
    [[],
     ''('',
     ''  label_replace('',
     ''    min by(instance) ('',
     ''      ('',
     ''        node_filesystem_avail_bytes{job=\"kubernetes-service-endpoints\",app_kubernetes_io_name=\"node-exporter\",mountpoint=\"/srv/noisy\",fstype=\"xfs\"}'',
     ''        /'',
     ''        node_filesystem_size_bytes{job=\"kubernetes-service-endpoints\",app_kubernetes_io_name=\"node-exporter\",mountpoint=\"/srv/noisy\",fstype=\"xfs\"}'',
     ''      ) * 100'',
     ''    ),'',
     ''    \"internal_ip\", \"$1\", \"instance\", \"(.*):.*\"'',
     ''  )'',
     ''  * on(internal_ip) group_left(node)'',
     ''    max by(internal_ip, node) (kube_node_info{node=\"hestia\"})'',
     '')'',
     ''or'',
     ''('',
     ''  label_replace('',
     ''    0 * max by(internal_ip, node) (kube_node_info{node=\"hestia\"}),'',
     ''    \"instance\", \"$1:9100\", \"internal_ip\", \"(.*)\"'',
     ''  )'',
     ''  unless on(node)'',
     ''  ('',
     ''    label_replace('',
     ''      min by(instance) ('',
     ''        ('',
     ''          node_filesystem_avail_bytes{job=\"kubernetes-service-endpoints\",app_kubernetes_io_name=\"node-exporter\",mountpoint=\"/srv/noisy\",fstype=\"xfs\"}'',
     ''          /'',
     ''          node_filesystem_size_bytes{job=\"kubernetes-service-endpoints\",app_kubernetes_io_name=\"node-exporter\",mountpoint=\"/srv/noisy\",fstype=\"xfs\"}'',
     ''        ) * 100'',
     ''      ),'',
     ''      \"internal_ip\", \"$1\", \"instance\", \"(.*):.*\"'',
     ''    )'',
     ''    * on(internal_ip) group_left(node)'',
     ''      max by(internal_ip, node) (kube_node_info{node=\"hestia\"})'',
     ''  )'',
     '')'']"

definition ALERT_DESCRIPTION :: string where
  "ALERT_DESCRIPTION =
     ''The canonical node-exporter service-endpoint series reports {{ $values.A.Value }}% available on {{ '' @
     ''$values.A.Labels.node }} {{ $values.A.Labels.instance }} for /srv/noisy, or the expected series is missing '' @
     ''and represented as 0%. Use ci-maintenance-worker/hestia-ci-store-gc for Podman images and '' @
     ''ci-maintenance-worker/hestia-ci-cache-retention for bounded idle cache/workspace retention; never delete '' @
     ''k3s/containerd, Docker, or PVC state.''"

definition ALERT_SUMMARY :: string where
  "ALERT_SUMMARY = ''Hestia /srv/noisy is below 15% available or its canonical metric is missing''"

subsection \<open>Tables\<close>

definition CRONJOB_CHECKS :: "(string list \<times> jval \<times> string) list" where
  "CRONJOB_CHECKS =
    [([''metadata'', ''namespace''], JStr ''ci-maintenance-worker'', ''CronJob namespace''),
     ([''spec'', ''schedule''], JStr ''17 4 * * *'', ''CronJob schedule''),
     ([''spec'', ''concurrencyPolicy''], JStr ''Forbid'', ''CronJob concurrencyPolicy''),
     ([''spec'', ''startingDeadlineSeconds''], JInt 1800, ''CronJob startingDeadlineSeconds''),
     ([''spec'', ''successfulJobsHistoryLimit''], JInt 1, ''CronJob successfulJobsHistoryLimit''),
     ([''spec'', ''failedJobsHistoryLimit''], JInt 3, ''CronJob failedJobsHistoryLimit''),
     ([''spec'', ''suspend''], JBool False, ''CronJob suspend''),
     ([''spec'', ''jobTemplate'', ''spec'', ''backoffLimit''], JInt 0, ''CronJob backoffLimit''),
     ([''spec'', ''jobTemplate'', ''spec'', ''activeDeadlineSeconds''], JInt 1800, ''CronJob activeDeadlineSeconds''),
     ([''spec'', ''jobTemplate'', ''spec'', ''template'', ''metadata'', ''labels''], JDict [(''app'', JStr ''hestia-ci-store-gc''), (GC_JOB_LABEL, JStr ''true''), (GC_MAINTENANCE_LABEL, JStr ''true'')], ''GC Pod labels'')]"

definition POD_CHECKS :: "(string list \<times> jval \<times> string) list" where
  "POD_CHECKS =
    [([''serviceAccountName''], JStr ''hestia-ci-store-gc'', ''GC serviceAccountName''),
     ([''automountServiceAccountToken''], JBool True, ''GC automountServiceAccountToken''),
     ([''nodeSelector''], JDict [(''kubernetes.io/arch'', JStr ''amd64''), (''kubernetes.io/hostname'', JStr ''hestia'')], ''GC nodeSelector''),
     ([''restartPolicy''], JStr ''Never'', ''GC restartPolicy''),
     ([''enableServiceLinks''], JBool True, ''GC enableServiceLinks''),
     ([''affinity''], JDict [(''podAntiAffinity'', JDict [(''requiredDuringSchedulingIgnoredDuringExecution'', JList [JDict [(''labelSelector'', JDict [(''matchLabels'', JDict [(GC_JOB_LABEL, JStr ''true'')])]),
                        (''namespaces'', JList [JStr ''ci'', JStr ''ci-maintenance-worker'']),
                        (''topologyKey'', JStr ''kubernetes.io/hostname'')]])])], ''GC scheduler exclusion'')]"

definition CONTAINER_CHECKS :: "(string list \<times> jval \<times> string) list" where
  "CONTAINER_CHECKS =
    [([''name''], JStr ''podman-gc'', ''GC container name''),
     ([''image''], JStr GC_IMAGE, ''GC image''),
     ([''imagePullPolicy''], JStr ''IfNotPresent'', ''GC imagePullPolicy''),
     ([''command''], JList [JStr ''/bin/bash'', JStr ''-ceu'', JStr ''--''], ''GC command''),
     ([''args''], JList [JStr GC_SCRIPT], ''GC script''),
     ([''env''], JList [JDict [(''name'', JStr ''NODE_NAME''),
                (''valueFrom'', JDict [(''fieldRef'', JDict [(''fieldPath'', JStr ''spec.nodeName'')])])],
         JDict [(''name'', JStr ''POD_UID''),
                (''valueFrom'', JDict [(''fieldRef'', JDict [(''fieldPath'', JStr ''metadata.uid'')])])],
         JDict [(''name'', JStr ''TMPDIR''), (''value'', JStr GC_TMPDIR)],
         JDict [(''name'', JStr ''POD_NAME''),
                (''valueFrom'', JDict [(''fieldRef'', JDict [(''fieldPath'', JStr ''metadata.name'')])])],
         JDict [(''name'', JStr ''POD_NAMESPACE''),
                (''valueFrom'', JDict [(''fieldRef'', JDict [(''fieldPath'', JStr ''metadata.namespace'')])])]], ''GC container environment'')]"

definition SCRIPT_TEXTS :: "(string \<times> string) list" where
  "SCRIPT_TEXTS =
    [(''--filter until=168h'', ''GC operations must be age-bounded at 168h''),
     (''\"${podman_store[@]}\" rm --force \"${stale_external_ids[@]}\"'', (''GC must remove stale external containers through Podman'' @ [CHR 0x27] @ ''s documented force path'')),
     (''image prune --all --force'', ''GC must prune unused images through Podman''),
     (''python3 -B /policy/maintenance-admission.py gc-claim'', ''GC must use shared named-CAS admission''),
     (''recent external container through the 168h filter'', ''GC must independently reject recent external containers'')]"

definition SANDBOX_CHECKS :: "(string list \<times> jval \<times> string) list" where
  "SANDBOX_CHECKS =
    [([''securityContext''], JDict [(''allowPrivilegeEscalation'', JBool True),
         (''privileged'', JBool True),
         (''readOnlyRootFilesystem'', JBool True),
         (''runAsGroup'', JInt 0),
         (''runAsNonRoot'', JBool False),
         (''runAsUser'', JInt 0)], ''GC securityContext''),
     ([''resources''], JDict [(''requests'', JDict [(''cpu'', JStr ''10m''), (''memory'', JStr ''64Mi'')]),
         (''limits'', JDict [(''cpu'', JStr ''500m''), (''memory'', JStr ''512Mi'')])], ''GC resources''),
     ([''volumeMounts''], JList [JDict [(''mountPath'', JStr GC_MOUNT_PATH), (''name'', JStr ''podman-storage'')],
         JDict [(''mountPath'', JStr ''/run/containers''), (''name'', JStr ''run'')],
         JDict [(''mountPath'', JStr GC_RUNROOT_PATH), (''name'', JStr ''podman-runroot'')],
         JDict [(''mountPath'', JStr GC_LIBPOD_TMP_PATH), (''name'', JStr ''libpod-tmp'')],
         JDict [(''mountPath'', JStr GC_RUN_LOCK_PATH), (''name'', JStr ''run-lock'')],
         JDict [(''mountPath'', JStr ''/tmp''), (''name'', JStr ''tmp'')],
         JDict [(''mountPath'', JStr GC_SHM_PATH), (''name'', JStr ''dev-shm'')],
         JDict [(''mountPath'', JStr ''/policy''), (''name'', JStr ''policy''), (''readOnly'', JBool True)]], ''GC volumeMounts'')]"

definition gc_volumes :: "jval \<Rightarrow> jval" where
  "gc_volumes policy = JList
    [JDict [(''hostPath'', JDict [(''path'', JStr GC_HOST_PATH), (''type'', JStr ''Directory'')]),
       (''name'', JStr ''podman-storage'')],
     JDict [(''emptyDir'', JDict []), (''name'', JStr ''run'')],
     JDict [(''emptyDir'', JDict []), (''name'', JStr ''podman-runroot'')],
     JDict [(''emptyDir'', JDict []), (''name'', JStr ''libpod-tmp'')],
     JDict [(''emptyDir'', JDict [(''medium'', JStr ''Memory'')]), (''name'', JStr ''run-lock'')],
     JDict [(''emptyDir'', JDict []), (''name'', JStr ''tmp'')],
     JDict [(''emptyDir'', JDict [(''medium'', JStr ''Memory''), (''sizeLimit'', JStr ''64Mi'')]),
       (''name'', JStr ''dev-shm'')],
     JDict [(''configMap'', JDict [(''name'', policy), (''defaultMode'', JInt 292)]), (''name'', JStr ''policy'')]]"

definition ACCOUNT_CHECKS :: "(string list \<times> jval \<times> string) list" where
  "ACCOUNT_CHECKS =
    [([''metadata'', ''namespace''], JStr ''ci-maintenance-worker'', ''GC ServiceAccount namespace''),
     ([''automountServiceAccountToken''], JBool True, ''GC ServiceAccount token policy'')]"

definition ROLE_CHECKS :: "(string list \<times> jval \<times> string) list" where
  "ROLE_CHECKS =
    [([''metadata'', ''namespace''], JStr ''ci'', ''GC Role namespace''),
     ([''rules''], JList [JDict [(''apiGroups'', JList [JStr []]), (''resources'', JList [JStr ''pods'']), (''verbs'', JList [JStr ''list''])]], ''GC Role rules'')]"

definition BINDING_CHECKS :: "(string list \<times> jval \<times> string) list" where
  "BINDING_CHECKS =
    [([''metadata'', ''namespace''], JStr ''ci'', ''GC RoleBinding namespace''),
     ([''roleRef''], JDict [(''apiGroup'', JStr ''rbac.authorization.k8s.io''),
         (''kind'', JStr ''Role''),
         (''name'', JStr ''hestia-ci-store-gc'')], ''GC RoleBinding roleRef''),
     ([''subjects''], JList [JDict [(''kind'', JStr ''ServiceAccount''),
                (''name'', JStr ''hestia-ci-store-gc''),
                (''namespace'', JStr ''ci-maintenance-worker'')]], ''GC RoleBinding subjects'')]"

subsection \<open>The GC Job\<close>

definition pod_spec :: "jval \<Rightarrow> jval res" where
  "pod_spec cronjob = sub_at [''spec'', ''jobTemplate'', ''spec'', ''template'', ''spec''] cronjob"

text \<open>
  The pattern for commands that delete files directly, at the start of the text or after a newline. Blanks, \<^verbatim>\<open>sudo\<close>
  and the commands begin with different characters, so that no backtracking is needed.
\<close>

definition recursive_flag :: "string \<Rightarrow> bool" where
  "recursive_flag s \<longleftrightarrow>
     prefix ''-'' s \<and> CHR ''r'' \<in> set (takeWhile (\<lambda>c. c \<noteq> CHR 0x0A \<and> c \<noteq> CHR '' '') (tl s)) \<or> prefix ''--recursive'' s"

definition word_at :: "string \<Rightarrow> string \<Rightarrow> bool" where
  "word_at w s \<longleftrightarrow> prefix w s \<and> (case drop (length w) s of [] \<Rightarrow> True | c # _ \<Rightarrow> \<not> word_char c)"

definition blank_first :: "string \<Rightarrow> bool" where
  "blank_first s = (case s of [] \<Rightarrow> False | c # _ \<Rightarrow> blank c)"

definition delete_command :: "string \<Rightarrow> bool" where
  "delete_command s =
     (let t = dropWhile blank s;
          u = (if prefix ''sudo'' t \<and> blank_first (drop 4 t) then dropWhile blank (drop 4 t) else t) in
      prefix ''rm'' u \<and> blank_first (drop 2 u) \<and> recursive_flag (dropWhile blank (drop 2 u))
      \<or> word_at ''unlink'' u \<or> word_at ''rmdir'' u
      \<or> prefix ''find'' u \<and> (case takeWhile (\<lambda>c. c \<noteq> CHR 0x0A) (drop 4 u) of [] \<Rightarrow> False | _ # rest \<Rightarrow> occurs ''-delete'' rest))"

fun line_starts :: "string \<Rightarrow> string list" where
  "line_starts [] = []"
| "line_starts (c # cs) = (if c = CHR 0x0A then cs # line_starts cs else line_starts cs)"

definition raw_delete :: "string \<Rightarrow> bool" where
  "raw_delete s = list_ex delete_command (s # line_starts s)"

definition actual_script :: "jval \<Rightarrow> string" where
  "actual_script arguments = (case arguments of JList [JStr s] \<Rightarrow> s | _ \<Rightarrow> [])"

definition script_checks :: "string \<Rightarrow> string list" where
  "script_checks script =
     concat (map (\<lambda>(text, message). check_true (occurs text script) message) SCRIPT_TEXTS)
     @ check_true (\<not> raw_delete script) ''GC must not raw-delete storage''
     @ concat (map (\<lambda>p. check_true (\<not> occurs p script) (''GC script must not reference '' @ p)) FORBIDDEN_HOST_PATHS)"

text \<open>The first ConfigMap of the worker namespace that carries the policy scripts.\<close>

definition starts_with :: "string \<Rightarrow> jval \<Rightarrow> bool res" where
  "starts_with p v = (case v of JStr s \<Rightarrow> Inr (prefix p s) | _ \<Rightarrow> Inl (PyError ''AttributeError''))"

definition policy_map :: "jval \<Rightarrow> bool res" where
  "policy_map o1 =
     rbind (jget ''kind'' o1) (\<lambda>kind.
     if kind \<noteq> JStr ''ConfigMap'' then Inr False
     else
       rbind (jitem ''metadata'' o1) (\<lambda>metadata.
       rbind (jget ''namespace'' metadata) (\<lambda>ns.
       if ns \<noteq> JStr ''ci-maintenance-worker'' then Inr False
       else rbind (jitem ''name'' metadata) (starts_with ''hestia-ci-cache-retention-''))))"

fun first_policy_name :: "jval list \<Rightarrow> jval res" where
  "first_policy_name [] = Inr JNull"
| "first_policy_name (o1 # os) =
     rbind (policy_map o1) (\<lambda>found.
     if found then rbind (jitem ''metadata'' o1) (jitem ''name'') else first_policy_name os)"

definition cluster_scoped :: "jval \<Rightarrow> bool res" where
  "cluster_scoped r =
     rbind (jget ''kind'' r) (\<lambda>kind.
     rbind (in_strs kind [''ClusterRole'', ''ClusterRoleBinding'']) (\<lambda>rbac.
     if \<not> rbac then Inr False
     else
       rbind (jget_or ''metadata'' (JDict []) r) (\<lambda>metadata.
       rbind (jget ''name'' metadata) (\<lambda>name. Inr (name = JStr ''hestia-ci-store-gc'')))))"

definition container_checks :: "(rat \<Rightarrow> string) \<Rightarrow> jval list \<Rightarrow> jval \<Rightarrow> jval \<Rightarrow> string list res" where
  "container_checks fl resources pod container = in_order
     [equal_all fl container CONTAINER_CHECKS,
      rbind (jget ''args'' container) (\<lambda>arguments. Inr (script_checks (actual_script arguments))),
      equal_all fl container SANDBOX_CHECKS,
      rbind (jget ''volumes'' pod) (\<lambda>volumes.
        rbind (first_policy_name resources) (\<lambda>policy. Inr (check_equal fl volumes (gc_volumes policy) ''GC volumes'')))]"

definition single :: "jval \<Rightarrow> jval option" where
  "single v = (case v of JList [x] \<Rightarrow> Some x | _ \<Rightarrow> None)"

definition cronjob_checks :: "(rat \<Rightarrow> string) \<Rightarrow> jval list \<Rightarrow> jval \<Rightarrow> jval \<Rightarrow> jval \<Rightarrow> jval \<Rightarrow> string list res" where
  "cronjob_checks fl resources cronjob service_account role binding =
     rbind (equal_all fl cronjob CRONJOB_CHECKS) (\<lambda>e1.
     rbind (pod_spec cronjob) (\<lambda>pod.
     rbind (equal_all fl pod POD_CHECKS) (\<lambda>e2.
     rbind (jget ''containers'' pod) (\<lambda>containers.
     case single containers of
       Some container \<Rightarrow>
         rbind (in_order
           [container_checks fl resources pod container,
            equal_all fl service_account ACCOUNT_CHECKS,
            equal_all fl role ROLE_CHECKS,
            equal_all fl binding BINDING_CHECKS]) (\<lambda>e3. Inr (e1 @ e2 @ e3))
     | None \<Rightarrow> Inr (e1 @ e2 @ [''GC must have exactly one container''])))))"

definition validate_gc_job :: "(rat \<Rightarrow> string) \<Rightarrow> jval list \<Rightarrow> string list res" where
  "validate_gc_job fl resources =
     rbind (check_one resources ''CronJob'' ''hestia-ci-store-gc'') (\<lambda>(cronjob, e1).
     rbind (check_one resources ''ServiceAccount'' ''hestia-ci-store-gc'') (\<lambda>(service_account, e2).
     rbind (check_one resources ''Role'' ''hestia-ci-store-gc'') (\<lambda>(role, e3).
     rbind (check_one resources ''RoleBinding'' ''hestia-ci-store-gc'') (\<lambda>(binding, e4).
     rbind (any_res cluster_scoped resources) (\<lambda>cluster.
     (let found = e1 @ e2 @ e3 @ e4 @ check_true (\<not> cluster) ''GC must not receive cluster-scoped RBAC'' in
      if \<not> truthy cronjob then Inr found
      else rbind (cronjob_checks fl resources cronjob service_account role binding) (\<lambda>errors. Inr (found @ errors))))))))"

subsection \<open>The disk space alert\<close>

definition RULE_CHECKS :: "(string list \<times> jval \<times> string) list" where
  "RULE_CHECKS =
    [([''title''], JStr ''Hestia Noisy Disk Space Low'', ''alert title''),
     ([''condition''], JStr ''C'', ''alert condition''),
     ([''noDataState''], JStr ''Alerting'', ''alert noDataState''),
     ([''execErrState''], JStr ''OK'', ''alert execErrState''),
     ([''for''], JStr ''5m'', ''alert for''),
     ([''labels''], JDict [(''severity'', JStr ''critical'')], ''alert labels''),
     ([''isPaused''], JBool False, ''alert isPaused''),
     ([''annotations''], JDict [(''description'', JStr ALERT_DESCRIPTION), (''summary'', JStr ALERT_SUMMARY)], ''alert annotations'')]"

definition EXPRESSION_COUNTS :: "(string \<times> int \<times> string) list" where
  "EXPRESSION_COUNTS =
    [(''mountpoint=\"/srv/noisy\"'', 4, ''alert canonical mount selector count''),
     (''fstype=\"xfs\"'', 4, ''alert filesystem type selector count''),
     (''min by(instance)'', 2, ''alert scrape-series deduplication count''),
     (''max by(internal_ip, node)'', 3, ''alert node-series deduplication count''),
     (''unless on(node)'', 1, ''alert missing-series fallback count'')]"

definition disk_rules :: "jval \<Rightarrow> jval list res" where
  "disk_rules document =
     rbind (jget_or ''groups'' (JList []) document) (\<lambda>gv. rbind (py_iter gv) (\<lambda>groups.
     rbind (rmap (\<lambda>group.
         rbind (jget_or ''rules'' (JList []) group) (\<lambda>rv. rbind (py_iter rv) (\<lambda>rules.
         Inr (filter (\<lambda>rule. case rule of JDict d \<Rightarrow> dget ''uid'' d = JStr ''hestia-noisy-disk-space-low-api'' | _ \<Rightarrow> False) rules))))
       (filter is_dict groups)) (\<lambda>found. Inr (concat found))))"

definition expression_checks :: "(rat \<Rightarrow> string) \<Rightarrow> jval \<Rightarrow> string list" where
  "expression_checks fl expression =
     check_equal fl (JStr (normalized expression)) (JStr (normalized (JStr ALERT_EXPR))) ''alert PromQL''
     @ (case expression of
          JStr s \<Rightarrow>
            concat (map (\<lambda>(text, n, label). check_equal fl (JInt (int (count_of text s))) (JInt n) label) EXPRESSION_COUNTS)
            @ check_true (\<not> occurs ''mountpoint=\"/\"'' s \<and> \<not> occurs ''kubernetes-pods'' s)
                ''alert must not admit root, pod, or bind-mount series''
        | _ \<Rightarrow> [])"

definition THRESHOLD_CHECKS :: "(string list \<times> jval \<times> string) list" where
  "THRESHOLD_CHECKS =
    [([''model'', ''conditions''], JList [JDict [(''evaluator'', JDict [(''params'', JList [JInt 15]), (''type'', JStr ''lt'')])]], ''alert threshold conditions''),
     ([''model'', ''expression''], JStr ''A'', ''alert threshold expression''),
     ([''model'', ''type''], JStr ''threshold'', ''alert threshold type'')]"

definition two_queries :: "jval \<Rightarrow> (dict \<times> dict) option" where
  "two_queries data = (case data of
      JList [JDict a, JDict c] \<Rightarrow> if dget ''refId'' a = JStr ''A'' \<and> dget ''refId'' c = JStr ''C'' then Some (a, c) else None
    | _ \<Rightarrow> None)"

definition validate_alert :: "(rat \<Rightarrow> string) \<Rightarrow> jval \<Rightarrow> string list res" where
  "validate_alert fl document =
     rbind (disk_rules document) (\<lambda>rules.
     case rules of
       [rule] \<Rightarrow>
         rbind (equal_all fl rule RULE_CHECKS) (\<lambda>e1.
         rbind (jget ''data'' rule) (\<lambda>data.
         case two_queries data of
           None \<Rightarrow> Inr (e1 @ [''alert data must contain exactly A and C''])
         | Some (query, threshold) \<Rightarrow>
             rbind (get_at [''model'', ''expr''] (JDict query)) (\<lambda>expression.
             rbind (equal_all fl (JDict threshold) THRESHOLD_CHECKS) (\<lambda>e2.
             Inr (e1 @ expression_checks fl expression @ e2)))))
     | _ \<Rightarrow> Inr [''expected exactly one hestia-noisy-disk-space-low-api alert, got '' @ show_nat (length rules)])"

subsection \<open>The maintenance alert\<close>

definition MAINTENANCE_CHECKS :: "(string list \<times> jval \<times> string) list" where
  "MAINTENANCE_CHECKS =
    [([''labels''], JDict [(''severity'', JStr ''warning'')], ''maintenance notify-only severity''),
     ([''noDataState''], JStr ''Alerting'', ''maintenance missing metrics''),
     ([''execErrState''], JStr ''Alerting'', ''maintenance query errors''),
     ([''isPaused''], JBool False, ''maintenance warning enabled''),
     ([''for''], JStr ''1m'', ''maintenance warning delay'')]"

definition MAINTENANCE_TEXTS :: "string list" where
  "MAINTENANCE_TEXTS =
    [''max by(namespace, job_name) (kube_job_status_failed'',
     ''max by(namespace, job_name, owner_name) (kube_job_owner'',
     ''owner_is_controller=\"true\"'',
     ''job=\"kubernetes-service-endpoints\"'',
     ''kube_cronjob_status_last_successful_time'',
     ''namespace=\"ci-maintenance\"'',
     ''cronjob=\"hestia-ci-maintenance-recovery\"'',
     ''or vector(1000000)'',
     ''> bool 180'']"

definition maintenance_rules :: "jval \<Rightarrow> jval list res" where
  "maintenance_rules document =
     rbind (jget_or ''groups'' (JList []) document) (\<lambda>gv. rbind (py_iter gv) (\<lambda>groups.
     rbind (rmap (\<lambda>g.
         rbind (jget_or ''rules'' (JList []) g) (\<lambda>rv. rbind (py_iter rv) (\<lambda>rules.
         rfilter (\<lambda>r. rbind (jget ''uid'' r) (\<lambda>uid. Inr (uid = JStr ''hestia-ci-maintenance-recovery-api''))) rules)))
       groups) (\<lambda>found. Inr (concat found))))"

definition maintenance_expression :: "(rat \<Rightarrow> string) \<Rightarrow> string \<Rightarrow> string list" where
  "maintenance_expression fl expression =
     check_equal fl (JInt (int (count_of ''namespace=~\"ci|ci-maintenance|ci-maintenance-worker\"'' expression))) (JInt 2)
       ''maintenance worker and controller namespace coverage''
     @ concat (map (\<lambda>text. check_true (occurs text expression) (''maintenance warning missing '' @ text)) MAINTENANCE_TEXTS)"

definition WARNING_CONDITIONS :: jval where
  "WARNING_CONDITIONS = JList [JDict [(''evaluator'', JDict [(''params'', JList [JInt 0]), (''type'', JStr ''gt'')])]]"

definition validate_maintenance_alert :: "(rat \<Rightarrow> string) \<Rightarrow> jval \<Rightarrow> string list res" where
  "validate_maintenance_alert fl document =
     rbind (maintenance_rules document) (\<lambda>rules.
     case rules of
       [rule] \<Rightarrow>
         rbind (equal_all fl rule MAINTENANCE_CHECKS) (\<lambda>e1.
         rbind (jget_or ''data'' (JList []) rule) (\<lambda>dv. rbind (py_iter dv) (\<lambda>data.
         rbind (rmap (jget ''refId'') data) (\<lambda>ids.
         (let e2 = check_equal fl (JList ids) (JList [JStr ''A'', JStr ''C'']) ''maintenance warning data'' in
          case data of
            [a, c] \<Rightarrow>
              rbind (get_at [''model'', ''expr''] a) (\<lambda>expression.
              rbind (equal_at fl c ([''model'', ''conditions''], WARNING_CONDITIONS, ''maintenance warning threshold'')) (\<lambda>e3.
              Inr (e1 @ e2 @ maintenance_expression fl (normalized expression) @ e3)))
          | _ \<Rightarrow> Inr (e1 @ e2))))))
     | _ \<Rightarrow> Inr (check_equal fl (JInt (int (length rules))) (JInt 1) ''maintenance warning rule count''))"

subsection \<open>The wiring of the validator\<close>

definition CI_LINES :: "(string \<times> int \<times> string) list" where
  "CI_LINES =
    [(''- scripts/validate_hestia_ci_store_gc_alert.py'', 2, ''GitLab CI GC/alert validator change-rule count''),
     (''- scripts/validate_hestia_ci_store_gc_alert.py.lock'', 2, ''GitLab CI GC/alert validator lock change-rule count''),
     (''- scripts/test_validate_hestia_ci_store_gc_alert.py'', 2, ''GitLab CI GC/alert test change-rule count''),
     (''- scripts/test_validate_hestia_ci_store_gc_alert.py.lock'', 2, ''GitLab CI GC/alert test lock change-rule count'')]"

definition validator_call :: string where
  "validator_call = ''uv --no-config run --locked --script \"${repo_root}/scripts/validate_hestia_ci_store_gc_alert.py\"''"

definition test_call :: string where
  "test_call = ''uv --no-config run --locked --script \"${repo_root}/scripts/test_validate_hestia_ci_store_gc_alert.py\"''"

definition wiring_checks :: "(rat \<Rightarrow> string) \<Rightarrow> string \<Rightarrow> string \<Rightarrow> string \<Rightarrow> string list" where
  "wiring_checks fl wrapper gitlab_ci runner_affinity =
     (let ci_lines = map strip (splitlines gitlab_ci); n = (\<lambda>k. JInt (int k)) in
      check_equal fl (n (count_of validator_call wrapper)) (JInt 1) ''validate_kustomize GC/alert validator call count''
      @ check_equal fl (n (count_of test_call wrapper)) (JInt 1) ''validate_kustomize GC/alert test call count''
      @ concat (map (\<lambda>(line, k, label). check_equal fl (n (count_list ci_lines line)) (JInt k) label) CI_LINES)
      @ check_equal fl (n (count_of (''\"'' @ GC_JOB_LABEL @ ''\" = \"true\"'') runner_affinity)) (JInt 2) ''runner job label/scheduler-lock count''
      @ check_true (occurs ''topology_key = \"kubernetes.io/hostname\"'' runner_affinity) ''runner jobs must retain hostname scheduler exclusion'')"

text \<open>The files are read first; the first one that cannot be opened is reported.\<close>

fun read_all :: "repo \<Rightarrow> string list \<Rightarrow> (string + string list) res" where
  "read_all r [] = Inr (Inr [])"
| "read_all r (p # ps) =
     (case r_read r p of
        FileText t \<Rightarrow> rbind (read_all r ps) (\<lambda>rest. Inr (case rest of Inl m \<Rightarrow> Inl m | Inr ts \<Rightarrow> Inr (t # ts)))
      | OsError m \<Rightarrow> Inr (Inl m)
      | Undecodable m \<Rightarrow> Inl (PyError (''UnicodeDecodeError: '' @ m)))"

definition validate_wiring :: "repo \<Rightarrow> string list res" where
  "validate_wiring r =
     rbind (read_all r [''scripts/validate_kustomize.sh'', ''.gitlab-ci.yml'',
         ''infrastructure/shared-services/gitlab-runner/runner-base/fragments/70-pod-labels-affinity.toml'']) (\<lambda>texts.
     Inr (case texts of
        Inl m \<Rightarrow> [''read validation wiring: '' @ m]
      | Inr ts \<Rightarrow> wiring_checks (r_float r) (ts ! 0) (ts ! 1) (ts ! 2)))"

subsection \<open>The whole validator\<close>

definition alert_checks :: "repo \<Rightarrow> string list res" where
  "alert_checks r =
     (case r_read r ''infrastructure/observability-ui/grafana/_grafana_alert_rules.yaml'' of
        OsError m \<Rightarrow> Inr [''read Grafana alert rules: '' @ m]
      | Undecodable m \<Rightarrow> Inl (PyError (''UnicodeDecodeError: '' @ m))
      | FileText t \<Rightarrow>
          (case r_yaml r t of
             YamlError m \<Rightarrow> Inr [''read Grafana alert rules: '' @ m]
           | BadScalar m \<Rightarrow> Inl (value_error m)
           | Loaded document \<Rightarrow>
               if \<not> is_dict document then Inr [''Grafana alert rules must be a mapping'']
               else
                 rbind (validate_alert (r_float r) document) (\<lambda>e1.
                 rbind (validate_maintenance_alert (r_float r) document) (\<lambda>e2. Inr (e1 @ e2)))))"

definition validate_gc_alert :: "repo \<Rightarrow> string list res" where
  "validate_gc_alert r =
     (case render_docs r ''infrastructure/shared-services'' of
        Escapes e \<Rightarrow> Inl e
      | Caught m \<Rightarrow> in_order [Inr [m], validate_gc_job (r_float r) [], alert_checks r, validate_wiring r]
      | Got resources \<Rightarrow> in_order [validate_gc_job (r_float r) resources, alert_checks r, validate_wiring r])"

text \<open>The exit status with the lines of the standard error output.\<close>

definition gc_alert_main :: "repo \<Rightarrow> (int \<times> string list) res" where
  "gc_alert_main r =
     rbind (validate_gc_alert r) (\<lambda>errors.
     Inr (if errors \<noteq> [] then (1, map (\<lambda>e. ''ERROR: '' @ e) errors) else (0, [])))"

end
