(* ===== verification/Script_Text.thy ===== *)
theory Script_Text
  imports Gc_Alert
begin

section \<open>The script of the GC Job\<close>

text \<open>
  Tests on a text that is given by its lines, and the lemma that the GC script passes every test of
  \<^const>\<open>script_checks\<close>: it has the required commands, names no forbidden path and deletes no file directly.
\<close>

subsection \<open>Texts by lines\<close>

lemma unlines_simps [simp]: "unlines [] = []" "unlines (l # ls) = l @ CHR 0x0A # unlines ls"
  by (simp_all add: unlines_def)

lemma prefix_before: "c \<notin> set t \<Longrightarrow> prefix t (a @ c # b) \<longleftrightarrow> prefix t a"
proof (induction t arbitrary: a)
  case (Cons x t)
  then show ?case by (cases a) auto
qed simp

lemma occurs_before: "c \<notin> set t \<Longrightarrow> t \<noteq> [] \<Longrightarrow> occurs t (a @ c # b) \<longleftrightarrow> occurs t a \<or> occurs t b"
proof (induction a)
  case Nil
  then show ?case by (cases t) auto
next
  case (Cons x a)
  then show ?case using prefix_before [of c t "x # a" b] by simp
qed

lemma occurs_unlines: "CHR 0x0A \<notin> set t \<Longrightarrow> t \<noteq> [] \<Longrightarrow> occurs t (unlines ls) \<longleftrightarrow> list_ex (occurs t) ls"
  by (induction ls) (simp_all add: occurs_before)

lemma line_starts_before: "CHR 0x0A \<notin> set l \<Longrightarrow> line_starts (l @ CHR 0x0A # s) = s # line_starts s"
  by (induction l) auto

text \<open>A line after which no deletion starts, whatever follows; a blank line is skipped by the pattern.\<close>

definition quiet_line :: "string \<Rightarrow> bool" where
  "quiet_line l \<longleftrightarrow> CHR 0x0A \<notin> set l \<and> (list_all blank l \<or> (\<forall>s. \<not> delete_command (l @ CHR 0x0A # s)))"

lemma delete_command_blank: "list_all blank l \<Longrightarrow> delete_command (l @ s) = delete_command s"
  unfolding delete_command_def by (simp add: dropWhile_append list_all_iff)

lemma quiet_lines_no_command: "list_all quiet_line ls \<Longrightarrow> \<not> delete_command (unlines ls)"
proof (induction ls)
  case Nil
  show ?case by (simp add: delete_command_def word_at_def Let_def)
next
  case (Cons l ls)
  then show ?case using delete_command_blank [of "l @ [CHR 0x0A]" "unlines ls"]
    by (auto simp: quiet_line_def blank_def)
qed

lemma quiet_lines: "list_all quiet_line ls \<Longrightarrow> \<not> raw_delete (unlines ls)"
proof (induction ls)
  case Nil
  show ?case by (simp add: raw_delete_def delete_command_def word_at_def Let_def)
next
  case (Cons l ls)
  then show ?case using quiet_lines_no_command [OF Cons.prems]
    by (simp add: raw_delete_def quiet_line_def line_starts_before)
qed

lemma quiet_line_words:
  assumes "CHR 0x0A \<notin> set l" "list_all (\<lambda>w. \<not> prefix w (dropWhile blank l)) [''sudo'', ''rm'', ''unlink'', ''rmdir'', ''find'']"
  shows "quiet_line l"
proof (cases "dropWhile blank l")
  case Nil
  with assms(1) show ?thesis by (simp add: quiet_line_def dropWhile_eq_Nil_conv list_all_iff)
next
  case (Cons c t)
  then have d: "dropWhile blank (l @ s) = dropWhile blank l @ s" for s
    by (metis dropWhile_append1 dropWhile_eq_Nil_conv list.distinct(1))
  have "\<not> delete_command (l @ CHR 0x0A # s)" for s
    using assms(2) unfolding delete_command_def d word_at_def Let_def by (simp add: prefix_before)
  with assms(1) show ?thesis by (simp add: quiet_line_def)
qed

lemma gc_script_quiet: "\<not> raw_delete GC_SCRIPT"
proof -
  have "list_all (\<lambda>l. CHR 0x0A \<notin> set l \<and> list_all (\<lambda>w. \<not> prefix w (dropWhile blank l)) [''sudo'', ''rm'', ''unlink'', ''rmdir'', ''find''])
      GC_SCRIPT_LINES"
    by (simp add: GC_SCRIPT_LINES_def GC_MOUNT_PATH_def GC_RUNROOT_PATH_def blank_def)
  then have "list_all quiet_line GC_SCRIPT_LINES" by (rule list.pred_mono_strong) (blast intro: quiet_line_words)
  then show ?thesis by (simp add: GC_SCRIPT_def quiet_lines)
qed

lemma occurs_line: "i < length ls \<Longrightarrow> occurs t (ls ! i) \<Longrightarrow> CHR 0x0A \<notin> set t \<Longrightarrow> t \<noteq> [] \<Longrightarrow> occurs t (unlines ls)"
  by (auto simp: occurs_unlines list_ex_iff intro: nth_mem)

lemma gc_script_texts: "list_all (\<lambda>(text, message). occurs text GC_SCRIPT) SCRIPT_TEXTS"
proof -
  note line = occurs_line [where ls = GC_SCRIPT_LINES, folded GC_SCRIPT_def]
  have "occurs ''--filter until=168h'' GC_SCRIPT" by (rule line [of 11]) (simp_all add: GC_SCRIPT_LINES_def)
  moreover have "occurs ''\"${podman_store[@]}\" rm --force \"${stale_external_ids[@]}\"'' GC_SCRIPT"
    by (rule line [of 36]) (simp_all add: GC_SCRIPT_LINES_def)
  moreover have "occurs ''image prune --all --force'' GC_SCRIPT" by (rule line [of 38]) (simp_all add: GC_SCRIPT_LINES_def)
  moreover have "occurs ''python3 -B /policy/maintenance-admission.py gc-claim'' GC_SCRIPT"
    by (rule line [of 2]) (simp_all add: GC_SCRIPT_LINES_def)
  moreover have "occurs ''recent external container through the 168h filter'' GC_SCRIPT"
    by (rule line [of 31]) (simp_all add: GC_SCRIPT_LINES_def)
  ultimately show ?thesis by (simp add: SCRIPT_TEXTS_def del: occurs.simps)
qed

text \<open>Only one line of the script has both characters that every forbidden path has.\<close>

lemma occurs_chars: "occurs t l \<Longrightarrow> set t \<subseteq> set l"
  by (auto simp: occurs_iff)

lemma gc_script_paths: "list_all (\<lambda>p. \<not> occurs p GC_SCRIPT) FORBIDDEN_HOST_PATHS"
proof -
  define root where "root = ''  --root='' @ GC_MOUNT_PATH"
  have lines: "list_all (\<lambda>l. l = root \<or> CHR ''/'' \<notin> set l \<or> CHR ''v'' \<notin> set l) GC_SCRIPT_LINES"
    by (simp add: GC_SCRIPT_LINES_def root_def GC_RUNROOT_PATH_def)
  have only: "\<not> occurs p GC_SCRIPT" if chars: "CHR 0x0A \<notin> set p" "CHR ''/'' \<in> set p" "CHR ''v'' \<in> set p" "\<not> occurs p root" for p
  proof
    assume "occurs p GC_SCRIPT"
    moreover have "p \<noteq> []" using chars(2) by auto
    ultimately obtain l where "l \<in> set GC_SCRIPT_LINES" "occurs p l"
      using chars(1) by (auto simp: GC_SCRIPT_def occurs_unlines list_ex_iff)
    with lines occurs_chars [of p l] chars show False by (auto simp: list_all_iff)
  qed
  have "list_all (\<lambda>p. CHR 0x0A \<notin> set p \<and> CHR ''/'' \<in> set p \<and> CHR ''v'' \<in> set p \<and> \<not> occurs p root) FORBIDDEN_HOST_PATHS"
    by (simp add: FORBIDDEN_HOST_PATHS_def root_def GC_MOUNT_PATH_def)
  with only show ?thesis by (simp only: list_all_iff) blast
qed

lemma gc_script_accepted: "script_checks GC_SCRIPT = []"
  using gc_script_quiet gc_script_texts gc_script_paths
  by (auto simp: script_checks_def check_true_def list_all_iff split: prod.splits)

end
