(* ===== verification/Manifest_Lemmas.thy ===== *)
theory Manifest_Lemmas
  imports Manifest_Checks
begin

section \<open>Reasoning about manifest checks\<close>

text \<open>
  The comparison of the validators is equality up to the order of keys, it commutes with reading a path, and a table of
  comparisons that adds no error is a conjunction.
\<close>

subsection \<open>Equality up to the order of keys\<close>

lemma map_of_sort_keys: "map_of (map (\<lambda>(k, v). (k, sort_keys v)) d) k = map_option sort_keys (map_of d k)"
  by (induction d) auto

lemma sorted_dicts_equal:
  assumes "distinct (map fst a)" "distinct (map fst b)"
  shows "sort_key fst a = sort_key fst b \<longleftrightarrow> map_of a = map_of b"
proof
  assume "sort_key fst a = sort_key fst b"
  then have "set a = set b" by (metis set_sort)
  then show "map_of a = map_of b" using assms by (simp add: map_of_inject_set)
next
  assume "map_of a = map_of b"
  then have s: "set a = set b" using assms by (simp add: map_of_inject_set)
  have d: "distinct (map fst (sort_key fst a))" "distinct (map fst (sort_key fst b))"
    using assms by (simp_all add: distinct_map)
  have i: "inj_on fst (set (sort_key fst a) \<union> set (sort_key fst b))"
    using assms(1) s by (simp add: distinct_map)
  show "sort_key fst a = sort_key fst b"
    by (rule map_sorted_distinct_set_unique [OF i]) (simp_all add: d assms s)
qed

lemma strict_equal_maps:
  assumes "distinct (map fst es)"
  shows "strict_equal (JDict ds) (JDict es) \<longleftrightarrow> (\<forall>k. rel_option strict_equal (map_of ds k) (map_of es k))"
proof
  assume "strict_equal (JDict ds) (JDict es)"
  then have l: "fst ` set ds = fst ` set es" "\<And>k v. (k, v) \<in> set es \<Longrightarrow> strict_equal (dget k ds) v"
    by (auto simp: strict_equal_JDict list_all_iff)
  show "\<forall>k. rel_option strict_equal (map_of ds k) (map_of es k)"
  proof
    fix k
    show "rel_option strict_equal (map_of ds k) (map_of es k)"
    proof (cases "map_of es k")
      case None
      then have "map_of ds k = None" using l(1) by (simp add: map_of_eq_None_iff)
      with None show ?thesis by simp
    next
      case (Some v)
      then obtain v' where "map_of ds k = Some v'" using l(1) by (metis map_of_eq_None_iff not_Some_eq)
      with Some l(2) [OF map_of_SomeD [OF Some]] show ?thesis by (auto simp: dget_def)
    qed
  qed
next
  assume r: "\<forall>k. rel_option strict_equal (map_of ds k) (map_of es k)"
  then have "dom (map_of ds) = dom (map_of es)" by (auto simp: dom_def) (metis option.rel_distinct not_Some_eq)+
  then have "fst ` set ds = fst ` set es" by (simp add: dom_map_of_conv_image_fst)
  moreover have "strict_equal (dget k ds) v" if "(k, v) \<in> set es" for k v
    using r [rule_format, of k] that assms by (auto simp: dget_def option_rel_Some2)
  ultimately show "strict_equal (JDict ds) (JDict es)" by (auto simp: strict_equal_JDict list_all_iff)
qed

lemma sort_keys_scalars:
  "sort_keys a = JNull \<longleftrightarrow> a = JNull" "sort_keys a = JBool b \<longleftrightarrow> a = JBool b" "sort_keys a = JInt i \<longleftrightarrow> a = JInt i"
  "sort_keys a = JFloat r \<longleftrightarrow> a = JFloat r" "sort_keys a = JStr s \<longleftrightarrow> a = JStr s"
  by (cases a; simp)+

text \<open>
  (C33) The comparison of the validators is the right one: two values with distinct keys are accepted as equal exactly when
  they become the same value after the keys of all dicts are sorted. So integers, floats and truth values are never confused,
  the order of a list counts, and the order of the keys does not.
\<close>

theorem strict_equal_exact:
  assumes "keys_ok a" and "keys_ok e"
  shows "strict_equal a e \<longleftrightarrow> sort_keys a = sort_keys e"
  using assms
proof (induction e arbitrary: a)
  case (JList es)
  have l: "map sort_keys xs = map sort_keys es \<longleftrightarrow> list_all2 strict_equal xs es" if "list_all keys_ok xs" for xs
    using that JList by (induction xs es rule: list_induct2') auto
  show ?case
  proof (cases a)
    case (JList xs)
    with l JList.prems(1) show ?thesis by (simp add: strict_equal_JList)
  qed (simp_all add: strict_equal_JList)
next
  case (JDict es)
  show ?case
  proof (cases a)
    case (JDict ds)
    let ?f = "map (\<lambda>(k, v). (k, sort_keys v))"
    have fst: "map fst (?f d) = map fst d" for d by (induction d) auto
    have dist: "distinct (map fst ds)" "distinct (map fst es)" using JDict.prems JDict by simp_all
    have ok: "keys_ok v" if "map_of d k = Some v" "keys_ok (JDict d)" for d k v
      using that by (fastforce simp: list_all_iff dest: map_of_SomeD)
    have ih: "sort_keys v' = sort_keys v \<longleftrightarrow> strict_equal v' v" if "map_of es k = Some v" "map_of ds k = Some v'" for k v v'
      using JDict.IH [of "(k, v)" v v'] map_of_SomeD [OF that(1)] ok that JDict.prems JDict by (auto simp: snds.simps)
    have "sort_keys a = sort_keys (JDict es) \<longleftrightarrow> map_of (?f ds) = map_of (?f es)"
      using sorted_dicts_equal [of "?f ds" "?f es", unfolded fst, OF dist] JDict by simp
    also have "\<dots> \<longleftrightarrow> (\<forall>k. map_option sort_keys (map_of ds k) = map_option sort_keys (map_of es k))"
      by (simp add: fun_eq_iff map_of_sort_keys)
    also have "\<dots> \<longleftrightarrow> (\<forall>k. rel_option strict_equal (map_of ds k) (map_of es k))"
    proof -
      have "map_option sort_keys (map_of ds k) = map_option sort_keys (map_of es k) \<longleftrightarrow> rel_option strict_equal (map_of ds k) (map_of es k)" for k
        using ih by (cases "map_of ds k"; cases "map_of es k") auto
      then show ?thesis by simp
    qed
    finally show ?thesis using JDict dist by (simp add: strict_equal_maps)
  qed (simp_all add: strict_equal_JDict)
qed (simp_all add: sort_keys_scalars)

subsection \<open>Paths of equal values\<close>

lemma strict_equal_refl: "keys_ok a \<Longrightarrow> strict_equal a a"
proof (induction a)
  case (JList xs)
  then show ?case by (simp add: strict_equal_JList list_all2_same list_all_iff)
next
  case (JDict d)
  have "strict_equal v v" if "(k, v) \<in> set d" for k v
    using JDict.IH [OF that, of v] JDict.prems that by (auto simp: snds.simps list_all_iff)
  then show ?case using JDict.prems by (auto simp: strict_equal_JDict list_all_iff dget_def)
qed simp_all

lemma strict_equal_dget:
  assumes "strict_equal (JDict a) (JDict e)" "distinct (map fst e)"
  shows "strict_equal (dget k a) (dget k e)" "strict_equal (dget_or k (JDict []) a) (dget_or k (JDict []) e)"
  using assms(1) unfolding strict_equal_maps [OF assms(2)]
  by (auto simp: dget_def dget_or_def strict_equal_JDict elim!: allE [of _ k] split: option.splits)

lemma keys_ok_dget:
  assumes "keys_ok (JDict e)"
  shows "distinct (map fst e)" "keys_ok (dget_or k (JDict []) e)"
  using assms by (auto simp: dget_or_def list_all_iff split: option.splits dest!: map_of_SomeD)

lemma strict_equal_get_at:
  "strict_equal a e \<Longrightarrow> keys_ok e \<Longrightarrow> get_at ks e = Inr v \<Longrightarrow> \<exists>a'. get_at ks a = Inr a' \<and> strict_equal a' v"
proof (induction ks e arbitrary: a rule: get_at.induct)
  case (2 k e)
  then obtain d d' where "e = JDict d" "a = JDict d'" "v = dget k d" by (auto simp: jget_eq_Inr strict_equal_JDict)
  with 2 strict_equal_dget(1) [of d' d k] keys_ok_dget(1) show ?case by (simp del: keys_ok.simps)
next
  case (3 k k' ks e)
  then obtain d d' where d: "e = JDict d" "a = JDict d'" by (auto simp: jget_or_eq_Inr rbind_eq_Inr strict_equal_JDict)
  have ok: "keys_ok (JDict d)" using 3(3) d(1) by (simp only:)
  show ?case using 3(4) 3(1) [OF _ strict_equal_dget(2) [of d' d k]] 3(2) keys_ok_dget [OF ok] d
    by (simp del: keys_ok.simps)
qed auto

theorem strict_equal_exact_witness:
  "strict_equal (JDict [(''a'', JInt 1), (''b'', JBool True)]) (JDict [(''b'', JBool True), (''a'', JInt 1)])
   \<and> \<not> strict_equal (JDict [(''a'', JInt 1)]) (JDict [(''a'', JBool True)])"
  using strict_equal_exact [of "JDict [(''a'', JInt 1), (''b'', JBool True)]" "JDict [(''b'', JBool True), (''a'', JInt 1)]"]
    strict_equal_exact [of "JDict [(''a'', JInt 1)]" "JDict [(''a'', JBool True)]"]
  by simp

subsection \<open>Tables\<close>

text \<open>Every comparison of a table holds of a value.\<close>

definition satisfies :: "jval \<Rightarrow> (string list \<times> jval \<times> string) list \<Rightarrow> bool" where
  "satisfies v table \<longleftrightarrow> list_all (\<lambda>(ks, e, p). \<exists>a. get_at ks v = Inr a \<and> strict_equal a e) table"

lemma equal_all_satisfies: "equal_all fl v table = Inr [] \<longleftrightarrow> satisfies v table"
  by (simp add: equal_all_Nil satisfies_def)

lemma satisfies_row: "satisfies v table \<Longrightarrow> i < length table \<Longrightarrow> table ! i = (ks, e, p) \<Longrightarrow> \<exists>a. get_at ks v = Inr a \<and> strict_equal a e"
  by (auto simp: satisfies_def list_all_length)

text \<open>A dict with the values that a table of single keys asks for.\<close>

definition from_table :: "(string list \<times> jval \<times> string) list \<Rightarrow> dict" where
  "from_table table = map (\<lambda>(ks, e, p). (last ks, e)) table"

end
