(* ===== verification/Gc_Properties.thy ===== *)
theory Gc_Properties
  imports Script_Text Manifest_Lemmas Pod_Gate
begin

section \<open>Properties of the GC validator\<close>

text \<open>
  The checks on the script text follow from the comparison with the whole script, so that acceptance is a conjunction of
  comparisons. A Pod of an accepted Job is one the gates of the maintenance scripts recognise.
\<close>

subsection \<open>Acceptance of the GC Job\<close>

lemma satisfies_script: "satisfies container CONTAINER_CHECKS \<Longrightarrow> jget ''args'' container = Inr (JList [JStr GC_SCRIPT])"
  by (simp add: satisfies_def CONTAINER_CHECKS_def strict_equal_JList list_all2_Cons2)

lemma container_accepts:
  "container_checks fl resources pod container = Inr [] \<longleftrightarrow>
     satisfies container CONTAINER_CHECKS \<and> satisfies container SANDBOX_CHECKS
     \<and> (\<exists>volumes policy. jget ''volumes'' pod = Inr volumes \<and> first_policy_name resources = Inr policy \<and> strict_equal volumes (gc_volumes policy))"
proof -
  have v: "rbind (jget ''volumes'' pod) (\<lambda>volumes. rbind (first_policy_name resources)
      (\<lambda>policy. Inr (check_equal fl volumes (gc_volumes policy) ''GC volumes''))) = Inr [] \<longleftrightarrow>
     (\<exists>volumes policy. jget ''volumes'' pod = Inr volumes \<and> first_policy_name resources = Inr policy \<and> strict_equal volumes (gc_volumes policy))"
    by (auto simp: rbind_eq_Inr check_equal_Nil)
  have a: "rbind (jget ''args'' container) (\<lambda>arguments. Inr (script_checks (actual_script arguments))) = Inr []"
    if "satisfies container CONTAINER_CHECKS"
    using satisfies_script [OF that] by (simp add: actual_script_def gc_script_accepted)
  show ?thesis by (simp only: container_checks_def in_order_Nil list.pred_inject equal_all_satisfies v) (use a in blast)
qed

text \<open>What the whole check of the Job, its account and its permissions asks for.\<close>

definition gc_job_ok :: "jval list \<Rightarrow> jval \<Rightarrow> jval \<Rightarrow> jval \<Rightarrow> bool" where
  "gc_job_ok resources cronjob pod container \<longleftrightarrow>
     satisfies cronjob CRONJOB_CHECKS \<and> pod_spec cronjob = Inr pod \<and> satisfies pod POD_CHECKS
     \<and> jget ''containers'' pod = Inr (JList [container])
     \<and> satisfies container CONTAINER_CHECKS \<and> satisfies container SANDBOX_CHECKS
     \<and> (\<exists>volumes policy. jget ''volumes'' pod = Inr volumes \<and> first_policy_name resources = Inr policy \<and> strict_equal volumes (gc_volumes policy))"

lemma single_Some: "single v = Some x \<longleftrightarrow> v = JList [x]"
  by (auto simp: single_def split: jval.splits list.splits)

lemma cronjob_accepts:
  "cronjob_checks fl resources cronjob account role binding = Inr [] \<longleftrightarrow>
     (\<exists>pod container. gc_job_ok resources cronjob pod container)
     \<and> satisfies account ACCOUNT_CHECKS \<and> satisfies role ROLE_CHECKS \<and> satisfies binding BINDING_CHECKS"
proof
  assume "cronjob_checks fl resources cronjob account role binding = Inr []"
  then show "(\<exists>pod container. gc_job_ok resources cronjob pod container)
     \<and> satisfies account ACCOUNT_CHECKS \<and> satisfies role ROLE_CHECKS \<and> satisfies binding BINDING_CHECKS"
    unfolding cronjob_checks_def
    by (auto simp: rbind_eq_Inr in_order_Nil equal_all_satisfies container_accepts gc_job_ok_def single_Some split: option.splits)
next
  assume "(\<exists>pod container. gc_job_ok resources cronjob pod container)
     \<and> satisfies account ACCOUNT_CHECKS \<and> satisfies role ROLE_CHECKS \<and> satisfies binding BINDING_CHECKS"
  then obtain pod container where ok: "gc_job_ok resources cronjob pod container" "satisfies account ACCOUNT_CHECKS"
      "satisfies role ROLE_CHECKS" "satisfies binding BINDING_CHECKS" by blast
  have "container_checks fl resources pod container = Inr []" using ok(1) by (auto simp: gc_job_ok_def container_accepts)
  with ok show "cronjob_checks fl resources cronjob account role binding = Inr []"
    by (simp add: cronjob_checks_def gc_job_ok_def equal_all_satisfies [of fl, symmetric] in_order_def single_def)
qed

lemma named_truthy: "named kind name r = Inr True \<Longrightarrow> truthy r"
  by (auto simp: named_def rbind_eq_Inr jget_eq_Inr split: if_splits)

lemma validate_gc_job_accepts:
  "validate_gc_job fl resources = Inr [] \<longleftrightarrow>
     (\<exists>cronjob account role binding pod container.
        unique_resource resources ''CronJob'' ''hestia-ci-store-gc'' cronjob
        \<and> unique_resource resources ''ServiceAccount'' ''hestia-ci-store-gc'' account
        \<and> unique_resource resources ''Role'' ''hestia-ci-store-gc'' role
        \<and> unique_resource resources ''RoleBinding'' ''hestia-ci-store-gc'' binding
        \<and> any_res cluster_scoped resources = Inr False
        \<and> gc_job_ok resources cronjob pod container
        \<and> satisfies account ACCOUNT_CHECKS \<and> satisfies role ROLE_CHECKS \<and> satisfies binding BINDING_CHECKS)"
  (is "_ \<longleftrightarrow> ?ok")
proof
  assume "validate_gc_job fl resources = Inr []"
  then obtain cronjob account role binding where one:
      "check_one resources ''CronJob'' ''hestia-ci-store-gc'' = Inr (cronjob, [])"
      "check_one resources ''ServiceAccount'' ''hestia-ci-store-gc'' = Inr (account, [])"
      "check_one resources ''Role'' ''hestia-ci-store-gc'' = Inr (role, [])"
      "check_one resources ''RoleBinding'' ''hestia-ci-store-gc'' = Inr (binding, [])"
      "any_res cluster_scoped resources = Inr False"
      "truthy cronjob \<longrightarrow> cronjob_checks fl resources cronjob account role binding = Inr []"
    unfolding validate_gc_job_def Let_def rbind_eq_Inr
    by (auto simp: rbind_eq_Inr check_true_def split: if_split_asm)
  have "truthy cronjob" using one(1) by (auto simp: check_one_Nil unique_resource_def dest: named_truthy)
  then have "cronjob_checks fl resources cronjob account role binding = Inr []" using one(6) by blast
  with one(1-5) show ?ok unfolding check_one_Nil cronjob_accepts by blast
next
  assume ?ok
  then obtain cronjob account role binding where one:
      "check_one resources ''CronJob'' ''hestia-ci-store-gc'' = Inr (cronjob, [])"
      "check_one resources ''ServiceAccount'' ''hestia-ci-store-gc'' = Inr (account, [])"
      "check_one resources ''Role'' ''hestia-ci-store-gc'' = Inr (role, [])"
      "check_one resources ''RoleBinding'' ''hestia-ci-store-gc'' = Inr (binding, [])"
      "any_res cluster_scoped resources = Inr False"
      "cronjob_checks fl resources cronjob account role binding = Inr []"
    unfolding check_one_Nil cronjob_accepts by blast
  then show "validate_gc_job fl resources = Inr []" by (simp add: validate_gc_job_def check_true_def Let_def)
qed

subsection \<open>Pods of an accepted Job at the gates\<close>

text \<open>
  A Pod that carries the labels of a template, and the environment that Kubernetes builds for a container: a variable with
  a \<^verbatim>\<open>fieldRef\<close> has the value of that field of the Pod.
\<close>

definition carries :: "dict \<Rightarrow> jval \<Rightarrow> bool" where
  "carries labels p \<longleftrightarrow> (\<forall>k v. map_of labels k = Some v \<longrightarrow> dget k (plabels p) = v)"

definition field_env :: "jval list \<Rightarrow> (string \<Rightarrow> string option) \<Rightarrow> (string \<Rightarrow> string option) \<Rightarrow> bool" where
  "field_env items field env \<longleftrightarrow> (\<forall>item \<in> set items. \<forall>name path. get_at [''name''] item = Inr (JStr name)
     \<longrightarrow> get_at [''valueFrom'', ''fieldRef'', ''fieldPath''] item = Inr (JStr path) \<longrightarrow> env name = field path)"

definition TEMPLATE_LABELS :: "string list" where
  "TEMPLATE_LABELS = [''spec'', ''jobTemplate'', ''spec'', ''template'', ''metadata'', ''labels'']"

lemma strict_equal_key: "strict_equal (JDict d) (JDict e) \<Longrightarrow> map_of e k = Some (JStr s) \<Longrightarrow> map_of d k = Some (JStr s)"
  by (auto simp: strict_equal_JDict list_all_iff dest!: map_of_SomeD bspec [of "set e" _ "(k, JStr s)"] intro!: dget_not_null)

lemma accepted_labels:
  assumes "satisfies cronjob CRONJOB_CHECKS"
  shows "\<exists>labels. get_at TEMPLATE_LABELS cronjob = Inr (JDict labels) \<and> map_of labels JOB_LABEL = Some (JStr ''true'')
    \<and> map_of labels MAINTENANCE_LABEL = Some (JStr ''true'') \<and> map_of labels ''app'' = Some (JStr ''hestia-ci-store-gc'')"
proof -
  let ?e = "[(''app'', JStr ''hestia-ci-store-gc''), (GC_JOB_LABEL, JStr ''true''), (GC_MAINTENANCE_LABEL, JStr ''true'')]"
  have "9 < length CRONJOB_CHECKS" "CRONJOB_CHECKS ! 9 = (TEMPLATE_LABELS, JDict ?e, ''GC Pod labels'')"
    by (simp_all add: CRONJOB_CHECKS_def TEMPLATE_LABELS_def)
  from satisfies_row [OF assms this] obtain labels where "get_at TEMPLATE_LABELS cronjob = Inr (JDict labels)" "strict_equal (JDict labels) (JDict ?e)"
    by (auto simp: strict_equal_JDict)
  then show ?thesis using strict_equal_key [of labels ?e JOB_LABEL] strict_equal_key [of labels ?e MAINTENANCE_LABEL]
      strict_equal_key [of labels ?e "''app''"]
    by (auto simp: JOB_LABEL_def MAINTENANCE_LABEL_def GC_JOB_LABEL_def GC_MAINTENANCE_LABEL_def)
qed

lemma accepted_env:
  assumes "satisfies container CONTAINER_CHECKS"
  shows "\<exists>items. get_at [''env''] container = Inr (JList items) \<and> (\<forall>field env. field_env items field env \<longrightarrow>
    env ''NODE_NAME'' = field ''spec.nodeName'' \<and> env ''POD_UID'' = field ''metadata.uid''
    \<and> env ''POD_NAME'' = field ''metadata.name'' \<and> env ''POD_NAMESPACE'' = field ''metadata.namespace'')"
proof -
  let ?i = "\<lambda>name path. JDict [(''name'', JStr name), (''valueFrom'', JDict [(''fieldRef'', JDict [(''fieldPath'', JStr path)])])]"
  obtain a b c d e where i: "get_at [''env''] container = Inr (JList [a, b, c, d, e])"
      "strict_equal a (?i ''NODE_NAME'' ''spec.nodeName'')" "strict_equal b (?i ''POD_UID'' ''metadata.uid'')"
      "strict_equal d (?i ''POD_NAME'' ''metadata.name'')" "strict_equal e (?i ''POD_NAMESPACE'' ''metadata.namespace'')"
    using assms by (auto simp: satisfies_def CONTAINER_CHECKS_def strict_equal_JList list_all2_Cons2)
  have p: "get_at [''name''] x = Inr (JStr name) \<and> get_at [''valueFrom'', ''fieldRef'', ''fieldPath''] x = Inr (JStr path)"
    if "strict_equal x (?i name path)" for x name path
    using strict_equal_get_at [OF that, of "[''name'']"] strict_equal_get_at [OF that, of "[''valueFrom'', ''fieldRef'', ''fieldPath'']"]
    by simp
  show ?thesis using i(1) p [OF i(2)] p [OF i(3)] p [OF i(4)] p [OF i(5)]
    by (intro exI [of _ "[a, b, c, d, e]"]) (simp add: field_env_def del: get_at.simps)
qed

lemma accepted_pod_closes_gate:
  assumes "map_of labels JOB_LABEL = Some (JStr ''true'')" "p \<in> set (items_of payload)" "carries labels p"
    "dget_or ''nodeName'' (JStr []) (pspec p) = JStr ''hestia''" "active_phase (pod_phase p)" "pod_uid p \<noteq> uid"
  shows "\<exists>e. pod_gate payload uid = Inl e"
proof (rule ccontr)
  assume "\<nexists>e. pod_gate payload uid = Inl e"
  then obtain b where "pod_gate payload uid = Inr b" by (cases "pod_gate payload uid") auto
  then obtain g where "gate_pods uid \<lparr>gs_seen = False, gs_pending = False, gs_uids = []\<rparr> (items_of payload) = Inr g"
    unfolding pod_gate_def by (auto simp: rbind_eq_Inr)
  with assms(2,6) have "harmless p" by (auto dest: gate_pods_Inr)
  moreover have "dget JOB_LABEL (plabels p) = JStr ''true''" using assms(1,3) by (auto simp: carries_def)
  ultimately show False using assms(4,5) by (auto simp: harmless_def active_phase_def final_phase_def remote_node_def str_of_def)
qed

text \<open>
  (C32) An accepted GC Job takes part in the maintenance protocol. Its Pod template has the label of a job, the label of
  maintenance and its own application label; its only container runs exactly the reviewed script (\<open>GC_SCRIPT\<close>, line by line
  the text of the validator), which claims
  admission before any other command; every Pod that carries the labels of its template and may run on the node keeps the
  gate of the retention Job and of other GC Pods closed; and in the environment that its variables describe the gate of
  \<^verbatim>\<open>gc-claim\<close> does not stop at the check of the Pod's identity.
\<close>

theorem gc_job_recognised:
  assumes "validate_gc_job fl resources = Inr []"
  shows "\<exists>cronjob labels pod container items.
    unique_resource resources ''CronJob'' ''hestia-ci-store-gc'' cronjob
    \<and> get_at TEMPLATE_LABELS cronjob = Inr (JDict labels) \<and> map_of labels JOB_LABEL = Some (JStr ''true'')
    \<and> map_of labels MAINTENANCE_LABEL = Some (JStr ''true'') \<and> map_of labels ''app'' = Some (JStr ''hestia-ci-store-gc'')
    \<and> pod_spec cronjob = Inr pod \<and> jget ''containers'' pod = Inr (JList [container])
    \<and> jget ''args'' container = Inr (JList [JStr GC_SCRIPT])
    \<and> (\<exists>commands. GC_SCRIPT = unlines (''set -euo pipefail'' # [] # ''python3 -B /policy/maintenance-admission.py gc-claim'' # commands))
    \<and> (\<forall>payload p uid. p \<in> set (items_of payload) \<longrightarrow> carries labels p \<longrightarrow> dget_or ''nodeName'' (JStr []) (pspec p) = JStr ''hestia''
         \<longrightarrow> active_phase (pod_phase p) \<longrightarrow> pod_uid p \<noteq> uid \<longrightarrow> (\<exists>e. pod_gate payload uid = Inl e))
    \<and> get_at [''env''] container = Inr (JList items)
    \<and> (\<forall>base field env uid. field_env items field env \<longrightarrow> field ''spec.nodeName'' = Some ''hestia'' \<longrightarrow> field ''metadata.uid'' = Some uid
         \<longrightarrow> uid \<noteq> [] \<longrightarrow> field ''metadata.namespace'' = Some ''ci-maintenance-worker''
         \<longrightarrow> api_gate base env = wait_for_gate (gate_snapshot base env uid) uid)"
proof -
  obtain cronjob pod container where c: "unique_resource resources ''CronJob'' ''hestia-ci-store-gc'' cronjob"
      and ok: "gc_job_ok resources cronjob pod container"
    using assms unfolding validate_gc_job_accepts by blast
  have t: "satisfies cronjob CRONJOB_CHECKS" "satisfies container CONTAINER_CHECKS" and p: "pod_spec cronjob = Inr pod" "jget ''containers'' pod = Inr (JList [container])"
    using ok by (auto simp: gc_job_ok_def)
  obtain labels where l: "get_at TEMPLATE_LABELS cronjob = Inr (JDict labels)" "map_of labels JOB_LABEL = Some (JStr ''true'')"
      "map_of labels MAINTENANCE_LABEL = Some (JStr ''true'')" "map_of labels ''app'' = Some (JStr ''hestia-ci-store-gc'')"
    using accepted_labels [OF t(1)] by blast
  obtain items where e: "get_at [''env''] container = Inr (JList items)"
      "\<And>field env. field_env items field env \<Longrightarrow> env ''NODE_NAME'' = field ''spec.nodeName'' \<and> env ''POD_UID'' = field ''metadata.uid''
        \<and> env ''POD_NAMESPACE'' = field ''metadata.namespace''"
    using accepted_env [OF t(2)] by blast
  have s: "GC_SCRIPT = unlines (''set -euo pipefail'' # [] # ''python3 -B /policy/maintenance-admission.py gc-claim'' # drop 3 GC_SCRIPT_LINES)"
    by (simp add: GC_SCRIPT_def GC_SCRIPT_LINES_def del: unlines_simps)
  have gate: "api_gate base env = wait_for_gate (gate_snapshot base env uid) uid"
    if "field_env items field env" "field ''spec.nodeName'' = Some ''hestia''" "field ''metadata.uid'' = Some uid" "uid \<noteq> []"
      "field ''metadata.namespace'' = Some ''ci-maintenance-worker''" for base field env uid
    using e(2) [OF that(1)] that(2-5) by (simp add: api_gate_def)
  show ?thesis using c l p satisfies_script [OF t(2)] s accepted_pod_closes_gate [OF l(2)] e(1) gate by blast
qed

text \<open>Resources that are accepted: each object is built from the table it is compared with.\<close>

definition ex_gc_container :: jval where
  "ex_gc_container = JDict (from_table (CONTAINER_CHECKS @ SANDBOX_CHECKS))"

definition ex_policy :: jval where
  "ex_policy = JDict [(''kind'', JStr ''ConfigMap''), (''metadata'', JDict [(''name'', JStr ''hestia-ci-cache-retention-abc''), (''namespace'', JStr ''ci-maintenance-worker'')])]"

definition ex_gc_pod :: jval where
  "ex_gc_pod = JDict (from_table POD_CHECKS @ [(''containers'', JList [ex_gc_container]), (''volumes'', gc_volumes (JStr ''hestia-ci-cache-retention-abc''))])"

definition ex_cronjob :: jval where
  "ex_cronjob = JDict
     [(''kind'', JStr ''CronJob''), (''metadata'', JDict [(''name'', JStr ''hestia-ci-store-gc''), (''namespace'', JStr ''ci-maintenance-worker'')]),
      (''spec'', JDict
        [(''schedule'', JStr ''17 4 * * *''), (''concurrencyPolicy'', JStr ''Forbid''), (''startingDeadlineSeconds'', JInt 1800),
         (''successfulJobsHistoryLimit'', JInt 1), (''failedJobsHistoryLimit'', JInt 3), (''suspend'', JBool False),
         (''jobTemplate'', JDict [(''spec'', JDict [(''backoffLimit'', JInt 0), (''activeDeadlineSeconds'', JInt 1800),
           (''template'', JDict
             [(''metadata'', JDict [(''labels'', JDict [(GC_JOB_LABEL, JStr ''true''), (GC_MAINTENANCE_LABEL, JStr ''true''), (''app'', JStr ''hestia-ci-store-gc'')])]),
              (''spec'', ex_gc_pod)])])])])]"

definition ex_object :: "string \<Rightarrow> string \<Rightarrow> dict \<Rightarrow> jval" where
  "ex_object kind ns d = JDict ((''kind'', JStr kind) # (''metadata'', JDict [(''name'', JStr ''hestia-ci-store-gc''), (''namespace'', JStr ns)]) # d)"

definition ex_gc_resources :: "jval list" where
  "ex_gc_resources = [ex_policy, ex_cronjob, ex_object ''ServiceAccount'' ''ci-maintenance-worker'' (from_table (tl ACCOUNT_CHECKS)),
     ex_object ''Role'' ''ci'' (from_table (tl ROLE_CHECKS)), ex_object ''RoleBinding'' ''ci'' (from_table (tl BINDING_CHECKS))]"

lemma ex_gc_accepted: "validate_gc_job fl ex_gc_resources = Inr []"
proof -
  have p: "pod_spec ex_cronjob = Inr ex_gc_pod" "jget ''containers'' ex_gc_pod = Inr (JList [ex_gc_container])"
      "jget ''volumes'' ex_gc_pod = Inr (gc_volumes (JStr ''hestia-ci-cache-retention-abc''))"
    by (simp_all add: pod_spec_def ex_cronjob_def ex_gc_pod_def from_table_def POD_CHECKS_def)
  have v: "strict_equal (gc_volumes (JStr s)) (gc_volumes (JStr s))" for s
    by (rule strict_equal_refl) (simp add: gc_volumes_def)
  have cron: "satisfies ex_cronjob CRONJOB_CHECKS"
    by (simp add: satisfies_def CRONJOB_CHECKS_def ex_cronjob_def strict_equal_JDict GC_JOB_LABEL_def GC_MAINTENANCE_LABEL_def insert_commute)
  have pod: "satisfies ex_gc_pod POD_CHECKS"
    by (simp add: satisfies_def POD_CHECKS_def ex_gc_pod_def from_table_def strict_equal_refl)
  have con: "satisfies ex_gc_container CONTAINER_CHECKS" "satisfies ex_gc_container SANDBOX_CHECKS"
    by (simp_all add: satisfies_def CONTAINER_CHECKS_def SANDBOX_CHECKS_def ex_gc_container_def from_table_def strict_equal_refl)
  have names: "named k n ex_policy = Inr (k = ''ConfigMap'' \<and> n = ''hestia-ci-cache-retention-abc'')"
      "named k n ex_cronjob = Inr (k = ''CronJob'' \<and> n = ''hestia-ci-store-gc'')"
      "named k n (ex_object kind ns d) = Inr (k = kind \<and> n = ''hestia-ci-store-gc'')" for k n kind ns d
    by (auto simp: named_def ex_policy_def ex_cronjob_def ex_object_def)
  have one: "unique_resource ex_gc_resources ''CronJob'' ''hestia-ci-store-gc'' ex_cronjob"
      "unique_resource ex_gc_resources ''ServiceAccount'' ''hestia-ci-store-gc'' (ex_object ''ServiceAccount'' ''ci-maintenance-worker'' (from_table (tl ACCOUNT_CHECKS)))"
      "unique_resource ex_gc_resources ''Role'' ''hestia-ci-store-gc'' (ex_object ''Role'' ''ci'' (from_table (tl ROLE_CHECKS)))"
      "unique_resource ex_gc_resources ''RoleBinding'' ''hestia-ci-store-gc'' (ex_object ''RoleBinding'' ''ci'' (from_table (tl BINDING_CHECKS)))"
    unfolding check_one_Nil [symmetric] check_one_def ex_gc_resources_def by (simp_all add: names)
  have cluster: "any_res cluster_scoped ex_gc_resources = Inr False"
    by (simp add: ex_gc_resources_def cluster_scoped_def ex_policy_def ex_cronjob_def ex_object_def)
  have policy: "first_policy_name ex_gc_resources = Inr (JStr ''hestia-ci-cache-retention-abc'')"
    by (simp add: ex_gc_resources_def policy_map_def ex_policy_def jitem_JDict starts_with_def)
  have rbac: "satisfies (ex_object ''ServiceAccount'' ''ci-maintenance-worker'' (from_table (tl ACCOUNT_CHECKS))) ACCOUNT_CHECKS"
      "satisfies (ex_object ''Role'' ''ci'' (from_table (tl ROLE_CHECKS))) ROLE_CHECKS"
      "satisfies (ex_object ''RoleBinding'' ''ci'' (from_table (tl BINDING_CHECKS))) BINDING_CHECKS"
    by (simp_all add: satisfies_def ex_object_def from_table_def ACCOUNT_CHECKS_def ROLE_CHECKS_def BINDING_CHECKS_def strict_equal_refl)
  have "gc_job_ok ex_gc_resources ex_cronjob ex_gc_pod ex_gc_container"
    unfolding gc_job_ok_def using p v cron pod con policy by blast
  then show ?thesis unfolding validate_gc_job_accepts using one cluster rbac by blast
qed

theorem gc_job_recognised_witness:
  "\<exists>cronjob labels pod container. unique_resource ex_gc_resources ''CronJob'' ''hestia-ci-store-gc'' cronjob
    \<and> get_at TEMPLATE_LABELS cronjob = Inr (JDict labels) \<and> map_of labels MAINTENANCE_LABEL = Some (JStr ''true'')
    \<and> pod_spec cronjob = Inr pod \<and> jget ''containers'' pod = Inr (JList [container])
    \<and> jget ''args'' container = Inr (JList [JStr GC_SCRIPT])"
  using gc_job_recognised [OF ex_gc_accepted [of "\<lambda>_. []"]] by (elim exE conjE, intro exI conjI) assumption+

end
