(* ===== verification/Py_Compare.thy ===== *)
theory Py_Compare
  imports Manifest_Checks
begin

section \<open>Comparisons, sets and joins of Python values\<close>

text \<open>
  What the validators of Temporal, GitLab and Factorio use of Python beyond \<^verbatim>\<open>Checks\<close>: equality, which compares numbers and
  truth values across types, membership, sets and dicts built by comprehensions, \<^verbatim>\<open>join\<close>, and \<^verbatim>\<open>re.sub\<close> with a
  pattern of an opening text, as few characters of one line as possible, and a closing text.
\<close>

subsection \<open>Equality\<close>

function py_eq :: "jval \<Rightarrow> jval \<Rightarrow> bool" where
  "py_eq a b =
     (case (a, b) of
        (JDict d, JDict e) \<Rightarrow> set (map fst d) = set (map fst e) \<and> list_all (\<lambda>kv. py_eq (dget (fst kv) d) (snd kv)) e
      | (JList xs, JList ys) \<Rightarrow> length xs = length ys \<and> list_all (\<lambda>p. py_eq (fst p) (snd p)) (zip xs ys)
      | _ \<Rightarrow> key_eq a b)"
  by pat_completeness auto

termination
  by (relation "measure (\<lambda>(a, e). size e)") (auto dest: size_snd_member size_zip_member)

declare py_eq.simps [simp del]

lemma py_eq_scalars [simp]:
  "py_eq a JNull \<longleftrightarrow> a = JNull" "py_eq a (JStr s) \<longleftrightarrow> a = JStr s"
  by (cases a; simp add: py_eq.simps key_eq_def)+

lemma py_eq_JDict:
  "py_eq a (JDict e) \<longleftrightarrow>
     (\<exists>d. a = JDict d \<and> set (map fst d) = set (map fst e) \<and> list_all (\<lambda>kv. py_eq (dget (fst kv) d) (snd kv)) e)"
  by (subst py_eq.simps) (cases a; auto simp: key_eq_def)

lemma py_eq_JList: "py_eq a (JList e) \<longleftrightarrow> (\<exists>xs. a = JList xs \<and> list_all2 py_eq xs e)"
  by (subst py_eq.simps) (cases a; auto simp: key_eq_def list_all2_iff list_all_iff)

subsection \<open>Membership, sets, dicts and joins\<close>

text \<open>\<^verbatim>\<open>k in v\<close> for a string \<open>k\<close>, and Python's \<^verbatim>\<open>or\<close> when its right side may raise.\<close>

definition py_in :: "string \<Rightarrow> jval \<Rightarrow> bool res" where
  "py_in k v = (case v of
      JDict d \<Rightarrow> Inr (k \<in> set (map fst d))
    | JList xs \<Rightarrow> Inr (JStr k \<in> set xs)
    | JStr s \<Rightarrow> Inr (occurs k s)
    | _ \<Rightarrow> Inl (PyError ''TypeError''))"

definition or_else :: "bool \<Rightarrow> bool res \<Rightarrow> bool res" where
  "or_else b m = (if b then Inr True else m)"

text \<open>A set that is built from values, \<^verbatim>\<open>set(v)\<close>, and the comparison of a set with a set of strings.\<close>

definition hash_set :: "jval list \<Rightarrow> jval list res" where
  "hash_set xs = (if list_all hashable xs then Inr xs else Inl (PyError ''TypeError''))"

definition set_of :: "jval \<Rightarrow> jval list res" where
  "set_of v = rbind (py_iter v) hash_set"

definition same_set :: "jval list \<Rightarrow> string list \<Rightarrow> bool" where
  "same_set xs names \<longleftrightarrow> set xs = JStr ` set names"

text \<open>A dict with values as keys: an assignment, \<^verbatim>\<open>{item.get("name"): item for item in v}\<close> and \<^verbatim>\<open>m.get(k, {})\<close>.\<close>

fun put_key :: "jval \<Rightarrow> jval \<Rightarrow> (jval \<times> jval) list \<Rightarrow> (jval \<times> jval) list" where
  "put_key k v [] = [(k, v)]"
| "put_key k v ((k', v') # rest) = (if key_eq k k' then (k', v) # rest else (k', v') # put_key k v rest)"

fun put_named :: "(jval \<times> jval) list \<Rightarrow> jval list \<Rightarrow> (jval \<times> jval) list res" where
  "put_named acc [] = Inr acc"
| "put_named acc (item # items) =
     rbind (jget ''name'' item) (\<lambda>n.
     if hashable n then put_named (put_key n item acc) items else Inl (PyError ''TypeError''))"

definition name_map :: "jval \<Rightarrow> (jval \<times> jval) list res" where
  "name_map v = rbind (py_iter v) (put_named [])"

definition map_get :: "string \<Rightarrow> (jval \<times> jval) list \<Rightarrow> jval" where
  "map_get k entries = (case map_of entries (JStr k) of None \<Rightarrow> JDict [] | Some v \<Rightarrow> v)"

definition py_join :: "string \<Rightarrow> jval \<Rightarrow> string res" where
  "py_join sep v = rbind (py_iter v) (\<lambda>xs.
     if list_all is_str xs then Inr (join sep (map (\<lambda>x. case x of JStr s \<Rightarrow> s | _ \<Rightarrow> []) xs)) else Inl (PyError ''TypeError''))"

subsection \<open>Replacing spans of a line\<close>

fun after_close :: "string \<Rightarrow> string \<Rightarrow> string option" where
  "after_close cl [] = (if cl = [] then Some [] else None)"
| "after_close cl (c # cs) =
     (if prefix cl (c # cs) then Some (drop (length cl) (c # cs)) else if c = CHR 0x0A then None else after_close cl cs)"

lemma after_close_length: "after_close cl s = Some rest \<Longrightarrow> length rest \<le> length s"
  by (induction cl s rule: after_close.induct) (auto split: if_splits)

lemma after_close_shorter: "op \<noteq> [] \<Longrightarrow> after_close cl (drop (length op) (c # cs)) = Some rest \<Longrightarrow> length rest < Suc (length cs)"
  using after_close_length [of cl "drop (length op) (c # cs)" rest] by (cases op) auto

function sub_spans :: "string \<Rightarrow> string \<Rightarrow> string \<Rightarrow> string \<Rightarrow> string" where
  "sub_spans op cl new [] = []"
| "sub_spans op cl new (c # cs) =
     (if op \<noteq> [] \<and> prefix op (c # cs)
      then (case after_close cl (drop (length op) (c # cs)) of
          Some rest \<Rightarrow> new @ sub_spans op cl new rest
        | None \<Rightarrow> c # sub_spans op cl new cs)
      else c # sub_spans op cl new cs)"
  by pat_completeness auto

termination
  by (relation "measure (\<lambda>(op, cl, new, s). length s)") (auto dest: after_close_shorter)

text \<open>A text without the opening text is left as it is.\<close>

lemma sub_spans_none: "\<not> occurs op s \<Longrightarrow> sub_spans op cl new s = s"
  by (induction op cl new s rule: sub_spans.induct) auto

end
