(* ===== verification/Ib_Gateway.thy ===== *)
theory Ib_Gateway
  imports Py_Compare
begin

section \<open>The validator of the IB Gateway workload\<close>

text \<open>
  \<^verbatim>\<open>scripts/validate_ibgateway_manifest.py\<close> renders the applications and the storage classes through the
  entry points that Flux uses, and checks every resource of one namespace against a fixed specification, in one of two
  phases. An error is given by its label; the text after the label, which shows Python sets in no particular order, is left
  out. \<^verbatim>\<open>main\<close> turns the exceptions it lists into the exit status 1.

  The world is a record: the components of the resolved root, the location to which a path resolves, the files there, a
  YAML file loaded from a path, which programs are installed, a command's exit status and outputs, and all documents of a
  YAML text. Every function may raise.
\<close>

record ib_world =
  ib_root :: "string list"
  ib_resolve :: "string list \<Rightarrow> string list"
  ib_is_file :: "string list \<Rightarrow> bool"
  ib_yaml :: "string list \<Rightarrow> jval res"
  ib_which :: "string \<Rightarrow> bool"
  ib_run :: "string list \<Rightarrow> (int \<times> string \<times> string) res"
  ib_yaml_all :: "string \<Rightarrow> jval list res"

subsection \<open>Constants\<close>

definition IB_NAMESPACE :: string where
  "IB_NAMESPACE = ''autonomous-investing''"

definition APP_LABELS :: jval where
  "APP_LABELS =
     JDict [(''app.kubernetes.io/name'', JStr ''ib-gateway-paper'')]"

definition NAMESPACE_LABELS :: jval where
  "NAMESPACE_LABELS =
     JDict [(''app.kubernetes.io/part-of'', JStr IB_NAMESPACE),
       (''kubernetes.io/metadata.name'', JStr IB_NAMESPACE),
       (''pod-security.kubernetes.io/audit'', JStr ''restricted''),
       (''pod-security.kubernetes.io/audit-version'', JStr ''latest''),
       (''pod-security.kubernetes.io/enforce'', JStr ''restricted''),
       (''pod-security.kubernetes.io/enforce-version'', JStr ''latest''),
       (''pod-security.kubernetes.io/warn'', JStr ''restricted''),
       (''pod-security.kubernetes.io/warn-version'', JStr ''latest'')]"

definition ADMITTED_REPOSITORY :: string where
  "ADMITTED_REPOSITORY = ''registry.brmartin.co.uk:443/autonomous-investing/system/ib-gateway''"

definition ADMITTED_DIGEST :: string where
  "ADMITTED_DIGEST = ''sha256:fd88e62b91efcd392ee9da607ceaee98569f2278d830a33466b9b729725b59d0''"

definition ADMITTED_IMAGE :: string where
  "ADMITTED_IMAGE = (ADMITTED_REPOSITORY @ ''@'' @ ADMITTED_DIGEST)"

definition BROKER_ADMITTED_REPOSITORY :: string where
  "BROKER_ADMITTED_REPOSITORY = ''registry.brmartin.co.uk:443/autonomous-investing/system/broker-observer''"

definition BROKER_ADMITTED_DIGEST :: string where
  "BROKER_ADMITTED_DIGEST = ''sha256:28ffe718b8b200a67904ad16fbf7eef7d03e800490d7a112c73261951304d546''"

definition BROKER_ADMITTED_IMAGE :: string where
  "BROKER_ADMITTED_IMAGE = (BROKER_ADMITTED_REPOSITORY @ ''@'' @ BROKER_ADMITTED_DIGEST)"

definition EXPECTED_IB_DEPLOYMENT_POLICY :: jval where
  "EXPECTED_IB_DEPLOYMENT_POLICY =
     JDict [(''schemaVersion'', JInt 1),
       (''artifact'', JDict [(''repository'', JStr ADMITTED_REPOSITORY),
           (''digest'', JStr ADMITTED_DIGEST),
           (''reference'', JStr ADMITTED_IMAGE)]),
       (''provenance'', JDict [(''systemProjectId'', JInt 35),
           (''protectedMainPipelineId'', JInt 5591),
           (''sourceCommit'', JStr ''6d37a1a275f50acccfe35e341e0d16d36ab6c701''),
           (''admissionJobId'', JInt 20419)])]"

definition EXPECTED_BROKER_DEPLOYMENT_POLICY :: jval where
  "EXPECTED_BROKER_DEPLOYMENT_POLICY =
     JDict [(''schemaVersion'', JInt 1),
       (''artifact'', JDict [(''repository'', JStr BROKER_ADMITTED_REPOSITORY),
           (''digest'', JStr BROKER_ADMITTED_DIGEST),
           (''reference'', JStr BROKER_ADMITTED_IMAGE)]),
       (''provenance'', JDict [(''systemProjectId'', JInt 35),
           (''protectedMainPipelineId'', JInt 5597),
           (''sourceCommit'', JStr ''1171a986c6517599ef65f8d8581ab0c964c27d17''),
           (''admissionJobId'', JInt 20432)])]"

definition DNS_NAMES :: "string list" where
  "DNS_NAMES = [''zdc1.ibllc.com'', ''zdc1-hb1.ibllc.com'', ''zdc1-hb2.ibllc.com'', ''ndc1.ibllc.com'', ''ndc1-hb1.ibllc.com'', ''ndc1-hb2.ibllc.com'', ''cdc1.ibllc.com'', ''cdc1-hb1.ibllc.com'', ''cdc1-hb2.ibllc.com'']"

definition APPS_FLUX_KUSTOMIZATION :: "string" where
  "APPS_FLUX_KUSTOMIZATION = ''clusters/k3s-homelab/flux-system/kustomization-apps.yaml''"

definition STORAGE_FLUX_KUSTOMIZATION :: "string" where
  "STORAGE_FLUX_KUSTOMIZATION = ''clusters/k3s-homelab/flux-system/kustomization-storage-classes.yaml''"

definition IB_DEPLOYMENT_POLICY_RECORD :: "string" where
  "IB_DEPLOYMENT_POLICY_RECORD = ''autonomous-investing/ib-gateway-paper-deployment-policy.yaml''"

definition BROKER_DEPLOYMENT_POLICY_RECORD :: "string" where
  "BROKER_DEPLOYMENT_POLICY_RECORD = ''autonomous-investing/broker-observer-deployment-policy.yaml''"

definition DEPLOYMENT_SOURCE_SET :: "string list" where
  "DEPLOYMENT_SOURCE_SET =
    [''autonomous-investing/deployment-autonomous-investing-ib-gateway-paper.yaml'',
     ''autonomous-investing/persistentvolumeclaim-autonomous-investing-ib-gateway-settings.yaml'',
     IB_DEPLOYMENT_POLICY_RECORD, BROKER_DEPLOYMENT_POLICY_RECORD]"

text \<open>The two patterns for images: the repository and exactly one digest.\<close>

definition digest_after :: "string \<Rightarrow> string \<Rightarrow> bool" where
  "digest_after repository s \<longleftrightarrow> prefix (repository @ ''@sha256:'') s
     \<and> (let h = drop (length repository + 8) s in length h = 64 \<and> list_all (\<lambda>c. is_digit c \<or> c \<in> set ''abcdef'') h)"

definition GATEWAY_IMAGE_PATTERN :: "string \<Rightarrow> bool" where
  "GATEWAY_IMAGE_PATTERN = digest_after ''registry.brmartin.co.uk:443/autonomous-investing/system/ib-gateway''"

definition BROKER_IMAGE_PATTERN :: "string \<Rightarrow> bool" where
  "BROKER_IMAGE_PATTERN = digest_after ''registry.brmartin.co.uk:443/autonomous-investing/system/broker-observer''"

subsection \<open>Checks\<close>

definition type_strict_equal :: "jval \<Rightarrow> jval \<Rightarrow> bool" where
  "type_strict_equal actual expected = strict_equal actual expected"

definition differs :: "jval \<Rightarrow> jval \<Rightarrow> string \<Rightarrow> string list" where
  "differs actual expected label = (if type_strict_equal actual expected then [] else [label])"

definition differ_all :: "jval \<Rightarrow> (string list \<times> jval \<times> string) list \<Rightarrow> string list res" where
  "differ_all v checks = in_order (map (\<lambda>(ks, e, label). rbind (get_at ks v) (\<lambda>a. Inr (differs a e label))) checks)"

text \<open>The comparison of \<^verbatim>\<open>set(v)\<close> with a set of names, and \<^verbatim>\<open>Checks.absent\<close>.\<close>

definition check_fields :: "jval \<Rightarrow> string list \<Rightarrow> string \<Rightarrow> string list res" where
  "check_fields v names label = rbind (set_of v) (\<lambda>xs. Inr (if set xs = JStr ` set names then [] else [label]))"

definition check_absent :: "jval \<Rightarrow> string list \<Rightarrow> string \<Rightarrow> string list res" where
  "check_absent v names label = rbind (set_of v) (\<lambda>xs. Inr (if list_ex (\<lambda>f. JStr f \<in> set xs) names then [label] else []))"

subsection \<open>Rendering and the entry points of Flux\<close>

definition path_text :: "string list \<Rightarrow> string" where
  "path_text p = ''/'' @ join ''/'' p"

definition render_entrypoint :: "ib_world \<Rightarrow> string list \<Rightarrow> string res" where
  "render_entrypoint w p =
     (if ib_which w ''kustomize'' \<or> ib_which w ''kubectl''
      then
        rbind (ib_run w (if ib_which w ''kustomize'' then [''kustomize'', ''build'', path_text p] else [''kubectl'', ''kustomize'', path_text p]))
          (\<lambda>(code, out, err). if code \<noteq> 0 then Inl (runtime_error (strip err)) else Inr out)
      else Inl (runtime_error ''kustomize or kubectl is required to render manifests''))"

text \<open>
  \<^verbatim>\<open>PurePosixPath\<close>: two leading slashes are a root of their own, empty components and single dots disappear, and
  the text of an empty path is a dot.
\<close>

definition posix_root :: "string \<Rightarrow> string" where
  "posix_root s = (if prefix ''//'' s \<and> \<not> prefix ''///'' s then ''//'' else if prefix ''/'' s then ''/'' else [])"

definition as_posix :: "string \<Rightarrow> string" where
  "as_posix s = (if posix_root s = [] \<and> parts s = [] then ''.'' else posix_root s @ join ''/'' (parts s))"

definition safe_relative :: "string \<Rightarrow> bool" where
  "safe_relative t \<longleftrightarrow> t \<noteq> [] \<and> CHR 0x5C \<notin> set t \<and> posix_root t = [] \<and> as_posix t = t
     \<and> \<not> list_ex (\<lambda>p. p = [] \<or> p = ''.'' \<or> p = ''..'') (parts t)"

definition flux_identity :: "jval \<Rightarrow> (jval \<times> jval \<times> jval \<times> jval) res" where
  "flux_identity v =
     rbind (jget ''apiVersion'' v) (\<lambda>a. rbind (jget ''kind'' v) (\<lambda>k.
     rbind (jget_or ''metadata'' (JDict []) v) (\<lambda>m. rbind (jget ''name'' m) (\<lambda>n. rbind (jget ''namespace'' m) (\<lambda>ns.
     Inr (a, k, n, ns))))))"

definition declared_relative :: "jval \<Rightarrow> bool \<Rightarrow> string res" where
  "declared_relative spec require_wait =
     (case spec of
        JDict d \<Rightarrow>
          if require_wait \<and> dget ''wait'' d \<noteq> JBool True then Inl (value_error ''spec.wait must be true'')
          else (case dget ''path'' d of
              JStr p \<Rightarrow>
                if \<not> prefix ''./'' p then Inl (value_error ''spec.path must start with ./'')
                else if safe_relative (drop 2 p) then Inr (drop 2 p)
                else Inl (value_error ''spec.path must be a normalized safe repository-relative path'')
            | _ \<Rightarrow> Inl (value_error ''spec.path must start with ./''))
      | _ \<Rightarrow> Inl (value_error ''spec must be an object''))"

definition discover_flux_entrypoint :: "ib_world \<Rightarrow> string \<Rightarrow> string \<Rightarrow> bool \<Rightarrow> string list res" where
  "discover_flux_entrypoint w file expected_name require_wait =
     rbind (ib_yaml w (ib_root w @ parts file)) (\<lambda>v.
     if \<not> is_dict v then Inl (value_error ''does not contain a YAML object'')
     else
       rbind (flux_identity v) (\<lambda>identity.
       if identity \<noteq> (JStr ''kustomize.toolkit.fluxcd.io/v1'', JStr ''Kustomization'', JStr expected_name, JStr ''flux-system'')
       then Inl (value_error ''unexpected Flux Kustomization identity'')
       else
         rbind (jget ''spec'' v) (\<lambda>spec.
         rbind (declared_relative spec require_wait) (\<lambda>relative.
         (let entrypoint = ib_resolve w (ib_root w @ parts relative) in
          if \<not> prefix (ib_root w) entrypoint \<or> entrypoint = ib_root w
          then Inl (value_error ''spec.path escapes or names the repository root'')
          else if \<not> ib_is_file w (entrypoint @ [''kustomization.yaml''])
          then Inl (value_error ''spec.path is not a Kustomize entrypoint'')
          else Inr entrypoint)))))"

definition discover_apps_entrypoint :: "ib_world \<Rightarrow> string list res" where
  "discover_apps_entrypoint w = discover_flux_entrypoint w APPS_FLUX_KUSTOMIZATION ''apps'' True"

definition discover_storage_entrypoint :: "ib_world \<Rightarrow> string list res" where
  "discover_storage_entrypoint w = discover_flux_entrypoint w STORAGE_FLUX_KUSTOMIZATION ''storage-classes'' False"

subsection \<open>Policy records\<close>

definition file_name :: "string \<Rightarrow> string" where
  "file_name p = (if parts p = [] then [] else last (parts p))"

definition validate_policy_records_not_rendered :: "ib_world \<Rightarrow> string list \<Rightarrow> string list res" where
  "validate_policy_records_not_rendered w apps =
     rbind (ib_yaml w (apps @ [''autonomous-investing'', ''kustomization.yaml''])) (\<lambda>document.
     (let resources = (case document of JDict d \<Rightarrow> dget_or ''resources'' (JList []) d | _ \<Rightarrow> JList []) in
      rbind (py_iter resources) (\<lambda>items.
      (let rendered = concat (map (\<lambda>i. case i of JStr s \<Rightarrow> [file_name s] | _ \<Rightarrow> []) items) in
       Inr (check_true (is_list resources \<and> list_all is_str items) ''autonomous-investing Kustomization resources''
         @ concat (map (\<lambda>record. check_true (file_name record \<notin> set rendered) (''deployment policy record must not be rendered: '' @ file_name record))
             [IB_DEPLOYMENT_POLICY_RECORD, BROKER_DEPLOYMENT_POLICY_RECORD]))))))"

definition classify_deployment_source_set :: "ib_world \<Rightarrow> string list \<Rightarrow> string \<times> string list" where
  "classify_deployment_source_set w apps =
     (let present = filter (\<lambda>p. ib_is_file w (apps @ parts p)) DEPLOYMENT_SOURCE_SET;
          missing = filter (\<lambda>p. p \<notin> set present) DEPLOYMENT_SOURCE_SET in
      if length present = length DEPLOYMENT_SOURCE_SET then (''deployment'', [])
      else if present = [] then (''foundation'', [])
      else (''partial'', [''partial deployment source set'']
        @ (if IB_DEPLOYMENT_POLICY_RECORD \<in> set missing then [''deployment policy record is required''] else [])
        @ (if BROKER_DEPLOYMENT_POLICY_RECORD \<in> set missing then [''broker observer deployment policy record is required''] else [])))"

definition derived_reference :: "dict \<Rightarrow> jval" where
  "derived_reference artifact = (case (dget ''repository'' artifact, dget ''digest'' artifact) of
      (JStr repository, JStr digest) \<Rightarrow> JStr (repository @ ''@'' @ digest)
    | _ \<Rightarrow> JNull)"

definition policy_reference :: "jval \<Rightarrow> string \<Rightarrow> string list \<times> string option" where
  "policy_reference policy role = (case policy of
      JDict d \<Rightarrow>
        (case dget ''artifact'' d of
           JDict artifact \<Rightarrow>
             (differs (dget ''reference'' artifact) (derived_reference artifact) (role @ ''deployment policy artifact reference''),
              case dget ''reference'' artifact of JStr s \<Rightarrow> Some s | _ \<Rightarrow> None)
         | _ \<Rightarrow> ([], None))
    | _ \<Rightarrow> ([], None))"

definition validate_deployment_policy :: "ib_world \<Rightarrow> string list \<Rightarrow> jval \<Rightarrow> string \<Rightarrow> (string list \<times> string option) res" where
  "validate_deployment_policy w path expected_policy role =
     (if \<not> ib_is_file w path then Inr ([role @ ''deployment policy record is required''], None)
      else
        rbind (ib_yaml w path) (\<lambda>policy.
        (let (errors, reference) = policy_reference policy role in
         Inr (differs policy expected_policy (role @ ''deployment policy record'') @ errors, reference))))"

subsection \<open>Resources and their identities\<close>

definition load_resources :: "ib_world \<Rightarrow> string \<Rightarrow> jval list res" where
  "load_resources w rendered =
     rbind (ib_yaml_all w rendered) (\<lambda>docs.
     (let resources = filter truthy docs in
      if list_all is_dict resources then Inr resources else Inl (value_error ''rendered output contains a non-object YAML document'')))"

type_synonym ident3 = "jval \<times> jval \<times> jval"

definition resource_id :: "jval \<Rightarrow> ident3 res" where
  "resource_id resource =
     rbind (jget_or ''metadata'' (JDict []) resource) (\<lambda>metadata.
     rbind (jget_or ''kind'' (JStr []) resource) (\<lambda>kind.
     rbind (jget_or ''name'' (JStr []) metadata) (\<lambda>name.
     rbind (jget ''namespace'' metadata) (\<lambda>ns. Inr (kind, name, ns)))))"

definition same_id :: "ident3 \<Rightarrow> ident3 \<Rightarrow> bool" where
  "same_id a b \<longleftrightarrow> key_eq (fst a) (fst b) \<and> key_eq (fst (snd a)) (fst (snd b)) \<and> key_eq (snd (snd a)) (snd (snd b))"

fun put_id :: "ident3 \<Rightarrow> jval \<Rightarrow> (ident3 \<times> jval) list \<Rightarrow> (ident3 \<times> jval) list" where
  "put_id i r [] = [(i, r)]"
| "put_id i r ((i', r') # rest) = (if same_id i i' then (i', r) # rest else (i', r') # put_id i r rest)"

fun index_resources :: "(ident3 \<times> jval) list \<Rightarrow> jval list \<Rightarrow> (string list \<times> (ident3 \<times> jval) list) res" where
  "index_resources indexed [] = Inr ([], indexed)"
| "index_resources indexed (r # rs) =
     rbind (resource_id r) (\<lambda>i.
     if \<not> (hashable (fst i) \<and> hashable (fst (snd i)) \<and> hashable (snd (snd i))) then Inl (PyError ''TypeError'')
     else
       rbind (index_resources (put_id i r indexed) rs) (\<lambda>(errors, result).
       Inr ((if list_ex (\<lambda>e. same_id i (fst e)) indexed then [''duplicate rendered resource''] else []) @ errors, result)))"

definition is_governed_resource :: "jval \<Rightarrow> bool res" where
  "is_governed_resource resource =
     rbind (resource_id resource) (\<lambda>(kind, name, ns).
     Inr (ns = JStr IB_NAMESPACE \<or> kind = JStr ''Namespace'' \<and> name = JStr IB_NAMESPACE))"

subsection \<open>Namespace, claim and storage class\<close>

definition NAMESPACE_CHECKS :: "(string list \<times> jval \<times> string) list" where
  "NAMESPACE_CHECKS =
    [([''apiVersion''], JStr ''v1'', ''Namespace apiVersion''),
     ([''kind''], JStr ''Namespace'', ''Namespace kind''),
     ([''metadata''], JDict [(''labels'', NAMESPACE_LABELS), (''name'', JStr IB_NAMESPACE)], ''Namespace metadata and labels'')]"

definition PVC_CHECKS :: "(string list \<times> jval \<times> string) list" where
  "PVC_CHECKS =
    [([''apiVersion''], JStr ''v1'', ''PVC apiVersion''),
     ([''kind''], JStr ''PersistentVolumeClaim'', ''PVC kind''),
     ([''metadata''], JDict [(''name'', JStr ''ib-gateway-settings''), (''namespace'', JStr IB_NAMESPACE)], ''PVC metadata''),
     ([''spec''], JDict [(''accessModes'', JList [JStr ''ReadWriteOnce'']),
         (''resources'', JDict [(''requests'', JDict [(''storage'', JStr ''2Gi'')])]),
         (''storageClassName'', JStr ''local-path-retain'')], ''PVC spec'')]"

definition STORAGE_CLASS_CHECKS :: "(string list \<times> jval \<times> string) list" where
  "STORAGE_CLASS_CHECKS =
    [([''apiVersion''], JStr ''storage.k8s.io/v1'', ''local-path-retain apiVersion''),
     ([''kind''], JStr ''StorageClass'', ''local-path-retain kind''),
     ([''metadata'', ''name''], JStr ''local-path-retain'', ''StorageClass name''),
     ([''provisioner''], JStr ''rancher.io/local-path'', ''local-path-retain provisioner''),
     ([''volumeBindingMode''], JStr ''WaitForFirstConsumer'', ''local-path-retain volumeBindingMode''),
     ([''reclaimPolicy''], JStr ''Retain'', ''local-path-retain reclaimPolicy'')]"

definition validate_namespace :: "jval \<Rightarrow> string list res" where
  "validate_namespace namespace = in_order
     [check_fields namespace [''apiVersion'', ''kind'', ''metadata''] ''Namespace fields'', differ_all namespace NAMESPACE_CHECKS]"

definition validate_pvc :: "jval \<Rightarrow> string list res" where
  "validate_pvc pvc = in_order
     [check_fields pvc [''apiVersion'', ''kind'', ''metadata'', ''spec''] ''PVC fields'', differ_all pvc PVC_CHECKS]"

definition validate_storage_class :: "jval \<Rightarrow> string list res" where
  "validate_storage_class storage_class = differ_all storage_class STORAGE_CLASS_CHECKS"

subsection \<open>The Deployment\<close>

definition DEPLOYMENT_CHECKS :: "(string list \<times> jval \<times> string) list" where
  "DEPLOYMENT_CHECKS =
    [([''apiVersion''], JStr ''apps/v1'', ''Deployment apiVersion''),
     ([''metadata'', ''labels''], APP_LABELS, ''Deployment labels'')]"

definition DEPLOYMENT_SPEC_CHECKS :: "(string list \<times> jval \<times> string) list" where
  "DEPLOYMENT_SPEC_CHECKS =
    [([''replicas''], JInt 1, ''Deployment replicas''),
     ([''strategy''], JDict [(''type'', JStr ''Recreate'')], ''Deployment strategy''),
     ([''selector''], JDict [(''matchLabels'', APP_LABELS)], ''Deployment selector'')]"

definition TEMPLATE_CHECKS :: "(string list \<times> jval \<times> string) list" where
  "TEMPLATE_CHECKS =
    [([''metadata''], JDict [(''labels'', APP_LABELS)], ''Pod template metadata'')]"

definition POD_FIELDS :: "string list" where
  "POD_FIELDS = [''automountServiceAccountToken'', ''containers'', ''dnsConfig'', ''enableServiceLinks'', ''imagePullSecrets'', ''nodeSelector'', ''securityContext'', ''shareProcessNamespace'', ''terminationGracePeriodSeconds'', ''volumes'']"

definition IB_POD_CHECKS :: "(string list \<times> jval \<times> string) list" where
  "IB_POD_CHECKS =
    [([''automountServiceAccountToken''], JBool False, ''Pod automountServiceAccountToken''),
     ([''dnsConfig''], JDict [(''options'', JList [JDict [(''name'', JStr ''ndots''), (''value'', JStr ''1'')]])], ''Pod dnsConfig''),
     ([''enableServiceLinks''], JBool False, ''Pod enableServiceLinks''),
     ([''shareProcessNamespace''], JBool False, ''Pod shareProcessNamespace''),
     ([''terminationGracePeriodSeconds''], JInt 120, ''Pod terminationGracePeriodSeconds''),
     ([''nodeSelector''], JDict [(''kubernetes.io/arch'', JStr ''amd64''), (''kubernetes.io/hostname'', JStr ''hestia'')], ''Pod nodeSelector''),
     ([''imagePullSecrets''], JList [JDict [(''name'', JStr ''gitlab-registry'')]], ''Pod imagePullSecrets''),
     ([''securityContext''], JDict [(''fsGroup'', JInt 10001),
         (''fsGroupChangePolicy'', JStr ''OnRootMismatch''),
         (''runAsGroup'', JInt 10001),
         (''runAsNonRoot'', JBool True),
         (''runAsUser'', JInt 10001),
         (''seccompProfile'', JDict [(''type'', JStr ''RuntimeDefault'')])], ''Pod securityContext'')]"

definition CONTAINER_FIELDS :: "string list" where
  "CONTAINER_FIELDS = [''image'', ''imagePullPolicy'', ''name'', ''resources'', ''securityContext'', ''volumeMounts'']"

definition FORBIDDEN_RUNTIME_FIELDS :: "string list" where
  "FORBIDDEN_RUNTIME_FIELDS = [''args'', ''command'', ''env'', ''envFrom'', ''lifecycle'', ''livenessProbe'', ''ports'', ''readinessProbe'', ''startupProbe'']"

definition GATEWAY_CHECKS :: "(string list \<times> jval \<times> string) list" where
  "GATEWAY_CHECKS =
    [([''imagePullPolicy''], JStr ''IfNotPresent'', ''Gateway imagePullPolicy''),
     ([''resources''], JDict [(''limits'', JDict [(''cpu'', JStr ''1''), (''memory'', JStr ''2Gi'')]),
         (''requests'', JDict [(''cpu'', JStr ''250m''), (''memory'', JStr ''768Mi'')])], ''Gateway resources''),
     ([''securityContext''], JDict [(''allowPrivilegeEscalation'', JBool False),
         (''capabilities'', JDict [(''drop'', JList [JStr ''ALL''])]),
         (''readOnlyRootFilesystem'', JBool True),
         (''runAsGroup'', JInt 10001),
         (''runAsNonRoot'', JBool True),
         (''runAsUser'', JInt 10001),
         (''seccompProfile'', JDict [(''type'', JStr ''RuntimeDefault'')])], ''Gateway securityContext'')]"

definition GATEWAY_MOUNTS :: dict where
  "GATEWAY_MOUNTS =
     [(''settings'', JDict [(''mountPath'', JStr ''/var/lib/ibgateway''), (''name'', JStr ''settings'')]),
       (''ibc-runtime'', JDict [(''mountPath'', JStr ''/run/ibc''), (''mountPropagation'', JStr ''None''), (''name'', JStr ''ibc-runtime'')]),
       (''tmp'', JDict [(''mountPath'', JStr ''/tmp''), (''name'', JStr ''tmp'')]),
       (''credentials'', JDict [(''mountPath'', JStr ''/run/secrets''), (''name'', JStr ''credentials''), (''readOnly'', JBool True)])]"

definition BROKER_CHECKS :: "(string list \<times> jval \<times> string) list" where
  "BROKER_CHECKS =
    [([''imagePullPolicy''], JStr ''IfNotPresent'', ''Broker Observer imagePullPolicy''),
     ([''resources''], JDict [(''limits'', JDict [(''cpu'', JStr ''250m''), (''memory'', JStr ''256Mi'')]),
         (''requests'', JDict [(''cpu'', JStr ''25m''), (''memory'', JStr ''64Mi'')])], ''Broker Observer resources''),
     ([''securityContext''], JDict [(''allowPrivilegeEscalation'', JBool False),
         (''capabilities'', JDict [(''drop'', JList [JStr ''ALL''])]),
         (''readOnlyRootFilesystem'', JBool True),
         (''runAsGroup'', JInt 10001),
         (''runAsNonRoot'', JBool True),
         (''runAsUser'', JInt 10001),
         (''seccompProfile'', JDict [(''type'', JStr ''RuntimeDefault'')])], ''Broker Observer securityContext''),
     ([''volumeMounts''], JList [JDict [(''mountPath'', JStr ''/tmp''), (''mountPropagation'', JStr ''None''), (''name'', JStr ''observer-tmp'')]], ''Broker Observer volumeMounts'')]"

definition IB_VOLUMES :: jval where
  "IB_VOLUMES =
     JList [JDict [(''name'', JStr ''settings''),
              (''persistentVolumeClaim'', JDict [(''claimName'', JStr ''ib-gateway-settings'')])],
       JDict [(''emptyDir'', JDict [(''medium'', JStr ''Memory''), (''sizeLimit'', JStr ''16Mi'')]),
              (''name'', JStr ''ibc-runtime'')],
       JDict [(''emptyDir'', JDict [(''medium'', JStr ''Memory''), (''sizeLimit'', JStr ''512Mi'')]),
              (''name'', JStr ''tmp'')],
       JDict [(''name'', JStr ''credentials''),
              (''secret'', JDict [(''defaultMode'', JInt 288),
                  (''items'', JList [JDict [(''key'', JStr ''TWS_USERID''), (''path'', JStr ''TWS_USERID'')],
                      JDict [(''key'', JStr ''TWS_PASSWORD''), (''path'', JStr ''TWS_PASSWORD'')]]),
                  (''secretName'', JStr ''ibkr-paper-gateway-credentials'')])],
       JDict [(''emptyDir'', JDict [(''medium'', JStr ''Memory''), (''sizeLimit'', JStr ''16Mi'')]),
              (''name'', JStr ''observer-tmp'')]]"

definition RUNTIME_MOUNTS :: jval where
  "RUNTIME_MOUNTS =
     JList [JList [JStr ''ib-gateway-paper'',
              JDict [(''mountPath'', JStr ''/run/ibc''), (''mountPropagation'', JStr ''None''), (''name'', JStr ''ibc-runtime'')]]]"

definition OBSERVER_TMP_MOUNTS :: jval where
  "OBSERVER_TMP_MOUNTS =
     JList [JList [JStr ''broker-observer'',
              JDict [(''mountPath'', JStr ''/tmp''), (''mountPropagation'', JStr ''None''), (''name'', JStr ''observer-tmp'')]]]"

definition WRITABLE_MOUNTS :: jval where
  "WRITABLE_MOUNTS =
     JList [JList [JStr ''ib-gateway-paper'', JStr ''settings''],
       JList [JStr ''ib-gateway-paper'', JStr ''ibc-runtime''],
       JList [JStr ''ib-gateway-paper'', JStr ''tmp''],
       JList [JStr ''broker-observer'', JStr ''observer-tmp'']]"

text \<open>A dict that is built by \<^verbatim>\<open>{item.get("name"): item ...}\<close>, its size, and its comparison with fixed names.\<close>

fun by_name :: "(jval \<times> jval) list \<Rightarrow> jval list \<Rightarrow> (jval \<times> jval) list res" where
  "by_name acc [] = Inr acc"
| "by_name acc (item # items) =
     (case item of
        JDict d \<Rightarrow>
          if hashable (dget ''name'' d) then by_name (put_key (dget ''name'' d) item acc) items else Inl (PyError ''TypeError'')
      | _ \<Rightarrow> by_name acc items)"

definition mapping_equal :: "(jval \<times> jval) list \<Rightarrow> dict \<Rightarrow> bool" where
  "mapping_equal acc expected \<longleftrightarrow> set (map fst acc) = JStr ` set (map fst expected)
     \<and> list_all (\<lambda>(k, e). case map_of acc (JStr k) of None \<Rightarrow> False | Some v \<Rightarrow> type_strict_equal v e) expected"

text \<open>The checks on the image of a container, with the labels of its role.\<close>

definition image_checks :: "(string \<Rightarrow> bool) \<Rightarrow> jval \<Rightarrow> string option \<Rightarrow> string option \<Rightarrow> string list \<Rightarrow> string list" where
  "image_checks pattern img policy_image expected_image labels =
     check_true (case img of JStr s \<Rightarrow> pattern s | _ \<Rightarrow> False) (labels ! 0)
     @ (case policy_image of None \<Rightarrow> [] | Some p \<Rightarrow> differs img (JStr p) (labels ! 1))
     @ (case expected_image of
          None \<Rightarrow> []
        | Some e \<Rightarrow> check_true (pattern e) (labels ! 2) @ differs img (JStr e) (labels ! 3)
            @ (case policy_image of None \<Rightarrow> [] | Some p \<Rightarrow> differs (JStr p) (JStr e) (labels ! 4)))"

definition GATEWAY_IMAGE_LABELS :: "string list" where
  "GATEWAY_IMAGE_LABELS = [''Gateway image must use the governed repository and exactly one sha256 digest'', ''Gateway deployment policy image'',
     ''--expected-image must itself be a valid governed sha256 reference'', ''Gateway admitted image'', ''Deployment policy admitted image'']"

definition BROKER_IMAGE_LABELS :: "string list" where
  "BROKER_IMAGE_LABELS = [''Broker Observer image must use the governed repository and exactly one sha256 digest'', ''Broker Observer deployment policy image'',
     ''--expected-broker-observer-image must itself be a valid governed sha256 reference'', ''Broker Observer admitted image'',
     ''Broker Observer deployment policy admitted image'']"

definition container_shape :: "jval \<Rightarrow> string \<Rightarrow> string list res" where
  "container_shape container role = in_order
     [check_fields container CONTAINER_FIELDS (role @ '' container fields''), check_absent container FORBIDDEN_RUNTIME_FIELDS (role @ '' container'')]"

definition gateway_mount_checks :: "jval \<Rightarrow> string list res" where
  "gateway_mount_checks gateway =
     rbind (jget_or ''volumeMounts'' (JList []) gateway) (\<lambda>mv.
     rbind (py_iter mv) (\<lambda>mounts. rbind (by_name [] mounts) (\<lambda>named_mounts. rbind (py_len mv) (\<lambda>n.
     Inr (check_true (length named_mounts = n) ''Gateway volumeMount names''
       @ check_true (mapping_equal named_mounts GATEWAY_MOUNTS) ''Gateway volumeMounts'')))))"

definition gateway_checks :: "jval \<Rightarrow> string option \<Rightarrow> string option \<Rightarrow> string list res" where
  "gateway_checks gateway policy_image expected_image = in_order
     [differ_all gateway [([''name''], JStr ''ib-gateway-paper'', ''Gateway container name'')],
      rbind (jget_or ''image'' (JStr []) gateway) (\<lambda>img.
        Inr (image_checks GATEWAY_IMAGE_PATTERN img policy_image expected_image GATEWAY_IMAGE_LABELS)),
      differ_all gateway GATEWAY_CHECKS,
      gateway_mount_checks gateway]"

definition broker_checks :: "jval \<Rightarrow> string option \<Rightarrow> string option \<Rightarrow> string list res" where
  "broker_checks broker policy_image expected_image = in_order
     [differ_all broker [([''name''], JStr ''broker-observer'', ''Broker Observer container name'')],
      rbind (jget_or ''image'' (JStr []) broker) (\<lambda>img.
        Inr (image_checks BROKER_IMAGE_PATTERN img policy_image expected_image BROKER_IMAGE_LABELS)),
      differ_all broker BROKER_CHECKS]"

definition volume_checks :: "jval \<Rightarrow> string list res" where
  "volume_checks pod =
     rbind (jget_or ''volumes'' (JList []) pod) (\<lambda>vv.
     rbind (py_iter vv) (\<lambda>volumes. rbind (by_name [] volumes) (\<lambda>named_volumes. rbind (py_len vv) (\<lambda>n.
     Inr (check_true (length named_volumes = n) ''Pod volume names'' @ differs vv IB_VOLUMES ''Pod volumes'')))))"

text \<open>The mounts of all containers of any kind, with the name of the container, that satisfy a test on the mount's name.\<close>

definition list_field :: "string \<Rightarrow> jval \<Rightarrow> jval list res" where
  "list_field k pod = rbind (jget_or k (JList []) pod) (\<lambda>v. case v of JList xs \<Rightarrow> Inr xs | _ \<Rightarrow> Inl (PyError ''TypeError''))"

definition mounts_of :: "(jval \<Rightarrow> bool res) \<Rightarrow> jval \<Rightarrow> (jval \<times> jval) list res" where
  "mounts_of chosen container = (case container of
      JDict c \<Rightarrow>
        rbind (py_iter (dget_or ''volumeMounts'' (JList []) c)) (\<lambda>mounts.
        rbind (rfilter (\<lambda>m. rbind (jget ''name'' m) chosen) (filter is_dict mounts)) (\<lambda>found.
        Inr (map (\<lambda>m. (dget ''name'' c, m)) found)))
    | _ \<Rightarrow> Inr [])"

definition all_mounts :: "(jval \<Rightarrow> bool res) \<Rightarrow> jval list \<Rightarrow> (jval \<times> jval) list res" where
  "all_mounts chosen containers = rbind (rmap (mounts_of chosen) containers) (\<lambda>found. Inr (concat found))"

definition mount_checks :: "jval list \<Rightarrow> string list res" where
  "mount_checks containers =
     rbind (all_mounts (\<lambda>n. Inr (n = JStr ''ibc-runtime'')) containers) (\<lambda>runtime.
     rbind (all_mounts (\<lambda>n. Inr (n = JStr ''observer-tmp'')) containers) (\<lambda>observer_tmp.
     rbind (all_mounts (\<lambda>n. in_strs n [''settings'', ''ibc-runtime'', ''tmp'', ''observer-tmp'']) containers) (\<lambda>writable.
     Inr (differs (JList (map (\<lambda>(c, m). JList [c, m]) runtime)) RUNTIME_MOUNTS ''exclusive ibc-runtime mount''
       @ differs (JList (map (\<lambda>(c, m). JList [c, m]) observer_tmp)) OBSERVER_TMP_MOUNTS ''exclusive observer-tmp mount''
       @ differs (JList (map (\<lambda>(c, m). JList [c, dget ''name'' (case m of JDict d \<Rightarrow> d | _ \<Rightarrow> [])]) writable)) WRITABLE_MOUNTS
           ''exclusive writable volume mounts''))))"

definition two_containers :: "jval list \<Rightarrow> (jval \<times> jval) option" where
  "two_containers cs = (case cs of [a, b] \<Rightarrow> if is_dict a \<and> is_dict b then Some (a, b) else None | _ \<Rightarrow> None)"

record images =
  policy_image :: "string option"
  broker_policy_image :: "string option"
  expected_image :: "string option"
  expected_broker_observer_image :: "string option"

definition containers_checks :: "jval \<Rightarrow> jval list \<Rightarrow> images \<Rightarrow> string list res" where
  "containers_checks pod containers im =
     (case two_containers containers of
        None \<Rightarrow> Inr []
      | Some (gateway, broker) \<Rightarrow> in_order
          [container_shape gateway ''Gateway'', container_shape broker ''Broker Observer'',
           gateway_checks gateway (policy_image im) (expected_image im),
           broker_checks broker (broker_policy_image im) (expected_broker_observer_image im),
           volume_checks pod,
           rbind (list_field ''initContainers'' pod) (\<lambda>inits. rbind (list_field ''ephemeralContainers'' pod) (\<lambda>ephemeral.
             mount_checks (containers @ inits @ ephemeral)))])"

definition pod_checks :: "jval \<Rightarrow> images \<Rightarrow> string list res" where
  "pod_checks pod im = in_order
     [check_fields pod POD_FIELDS ''Pod spec fields'',
      check_absent pod [''ephemeralContainers'', ''hostIPC'', ''hostNetwork'', ''hostPID'', ''initContainers''] ''Pod spec'',
      differ_all pod IB_POD_CHECKS,
      rbind (jget_or ''containers'' (JList []) pod) (\<lambda>cv. rbind (py_len cv) (\<lambda>n. rbind (py_iter cv) (\<lambda>containers. in_order
        [Inr (differs (JInt (int n)) (JInt 2) ''Pod container count''),
         Inr (differs (JList (map (\<lambda>c. case c of JDict d \<Rightarrow> dget ''name'' d | _ \<Rightarrow> JNull) containers))
           (JList [JStr ''ib-gateway-paper'', JStr ''broker-observer'']) ''Pod container names''),
         containers_checks pod containers im])))]"

definition validate_deployment :: "jval \<Rightarrow> images \<Rightarrow> string list res" where
  "validate_deployment deployment im = in_order
     [differ_all deployment DEPLOYMENT_CHECKS,
      rbind (jget_or ''spec'' (JDict []) deployment) (\<lambda>spec. in_order
        [check_fields spec [''replicas'', ''selector'', ''strategy'', ''template''] ''Deployment spec fields'',
         differ_all spec DEPLOYMENT_SPEC_CHECKS,
         rbind (jget_or ''template'' (JDict []) spec) (\<lambda>template. in_order
           [differ_all template TEMPLATE_CHECKS,
            rbind (jget_or ''spec'' (JDict []) template) (\<lambda>pod. pod_checks pod im)])])]"

subsection \<open>Network policies\<close>

definition NETWORK_POLICY_CHECKS :: "(string list \<times> jval \<times> string) list" where
  "NETWORK_POLICY_CHECKS =
    [([''apiVersion''], JStr ''networking.k8s.io/v1'', ''NetworkPolicy apiVersion''),
     ([''spec''], JDict [(''egress'', JList []),
         (''ingress'', JList []),
         (''podSelector'', JDict [(''matchLabels'', APP_LABELS)]),
         (''policyTypes'', JList [JStr ''Ingress'', JStr ''Egress''])], ''default-deny NetworkPolicy spec'')]"

definition exact_names :: jval where
  "exact_names = JList (map (\<lambda>name. JDict [(''matchName'', JStr name)]) DNS_NAMES)"

definition CILIUM_SPEC :: jval where
  "CILIUM_SPEC =
     JDict [(''egress'', JList [JDict [(''toEndpoints'', JList [JDict [(''matchLabels'', JDict [(''k8s:io.kubernetes.pod.namespace'', JStr ''kube-system''), (''k8s:k8s-app'', JStr ''kube-dns'')])]]),
                  (''toPorts'', JList [JDict [(''ports'', JList [JDict [(''port'', JStr ''53''), (''protocol'', JStr ''UDP'')],
                                 JDict [(''port'', JStr ''53''), (''protocol'', JStr ''TCP'')]]),
                             (''rules'', JDict [(''dns'', exact_names)])]])],
           JDict [(''toFQDNs'', exact_names),
                  (''toPorts'', JList [JDict [(''ports'', JList [JDict [(''port'', JStr ''4000''), (''protocol'', JStr ''TCP'')],
                                 JDict [(''port'', JStr ''4001''), (''protocol'', JStr ''TCP'')]])]])]]),
       (''endpointSelector'', JDict [(''matchLabels'', APP_LABELS)])]"

definition BROAD_EGRESS_KEYS :: "string list" where
  "BROAD_EGRESS_KEYS = [''toCIDR'', ''toCIDRSet'', ''toEntities'', ''toNodes'', ''toServices'']"

definition validate_network_policy :: "jval \<Rightarrow> string list res" where
  "validate_network_policy policy = differ_all policy NETWORK_POLICY_CHECKS"

definition egress_rule_checks :: "jval \<Rightarrow> string list res" where
  "egress_rule_checks rule = in_order
     [check_absent rule BROAD_EGRESS_KEYS ''Cilium egress rule'',
      rbind (jget_or ''toFQDNs'' (JList []) rule) (\<lambda>fv. rbind (py_iter fv) (\<lambda>fqdns.
        in_order (map (\<lambda>fqdn. check_absent fqdn [''matchPattern''] ''Cilium egress rule FQDN'') fqdns)))]"

definition validate_cilium_policy :: "jval \<Rightarrow> string list res" where
  "validate_cilium_policy policy = in_order
     [differ_all policy [([''apiVersion''], JStr ''cilium.io/v2'', ''CiliumNetworkPolicy apiVersion''), ([''spec''], CILIUM_SPEC, ''CiliumNetworkPolicy spec'')],
      rbind (jget_or ''spec'' (JDict []) policy) (\<lambda>spec. rbind (jget_or ''egress'' (JList []) spec) (\<lambda>ev. rbind (py_iter ev) (\<lambda>rules.
        in_order (map egress_rule_checks rules))))]"

subsection \<open>The phases\<close>

definition FORBIDDEN_EXPOSURE_KINDS :: "string list" where
  "FORBIDDEN_EXPOSURE_KINDS = [''Gateway'', ''HTTPRoute'', ''Ingress'', ''IngressRoute'', ''Service'']"

definition foundation_ids :: "ident3 list" where
  "foundation_ids = [(JStr ''Namespace'', JStr IB_NAMESPACE, JNull),
     (JStr ''NetworkPolicy'', JStr ''ib-gateway-paper-default-deny'', JStr IB_NAMESPACE),
     (JStr ''CiliumNetworkPolicy'', JStr ''ib-gateway-paper'', JStr IB_NAMESPACE)]"

definition pvc_id :: ident3 where
  "pvc_id = (JStr ''PersistentVolumeClaim'', JStr ''ib-gateway-settings'', JStr IB_NAMESPACE)"

definition deployment_id :: ident3 where
  "deployment_id = (JStr ''Deployment'', JStr ''ib-gateway-paper'', JStr IB_NAMESPACE)"

definition expected_ids :: "string \<Rightarrow> ident3 list" where
  "expected_ids phase = foundation_ids @ (if phase = ''deployment'' then [pvc_id, deployment_id] else [])"

definition of_kind :: "string \<Rightarrow> jval list \<Rightarrow> jval list" where
  "of_kind kind resources = filter (\<lambda>r. case r of JDict d \<Rightarrow> dget ''kind'' d = JStr kind | _ \<Rightarrow> False) resources"

text \<open>
  \<^verbatim>\<open>sorted\<close> of the identities of one kind, compared with a single one. Names that are not strings cannot be sorted
  among others.
\<close>

definition only_id :: "jval list \<Rightarrow> ident3 \<Rightarrow> string \<Rightarrow> string list res" where
  "only_id resources wanted label =
     rbind (rmap resource_id resources) (\<lambda>ids.
     if 1 < length ids \<and> \<not> list_all (\<lambda>i. is_str (fst (snd i))) ids then Inl (PyError ''TypeError'')
     else Inr (check_true (ids = [wanted]) label))"

definition phase_checks :: "string \<Rightarrow> jval list \<Rightarrow> string list res" where
  "phase_checks phase resources =
     (if phase = ''foundation'' then Inr
        (check_true (of_kind ''PersistentVolumeClaim'' resources = []) ''foundation phase forbids PersistentVolumeClaim resources in autonomous-investing''
         @ check_true (of_kind ''Deployment'' resources = []) ''foundation phase forbids Deployment resources in autonomous-investing'')
      else if phase = ''deployment'' then in_order
        [only_id (of_kind ''PersistentVolumeClaim'' resources) pvc_id ''deployment phase PersistentVolumeClaim resources'',
         only_id (of_kind ''Deployment'' resources) deployment_id ''deployment phase Deployment resources'']
      else Inr [])"

definition exposure_checks :: "jval list \<Rightarrow> string list res" where
  "exposure_checks resources =
     rbind (rfilter (\<lambda>r. rbind (jget ''kind'' r) (\<lambda>k. in_strs k FORBIDDEN_EXPOSURE_KINDS)) resources) (\<lambda>exposed.
     Inr (check_true (exposed = []) ''forbidden external exposure resources''))"

definition expected_image_checks :: "string \<Rightarrow> (string \<Rightarrow> bool) \<Rightarrow> string option \<Rightarrow> string \<Rightarrow> string list" where
  "expected_image_checks phase pattern expected option = (case expected of
      None \<Rightarrow> []
    | Some e \<Rightarrow> check_true (pattern e) (option @ '' must itself be a valid governed sha256 reference'')
        @ check_true (phase = ''deployment'') (option @ '' requires deployment phase''))"

definition check_indexed :: "(ident3 \<times> jval) list \<Rightarrow> ident3 \<Rightarrow> (jval \<Rightarrow> string list res) \<Rightarrow> string list res" where
  "check_indexed indexed i f = (case map_of indexed i of None \<Rightarrow> Inr [] | Some r \<Rightarrow> if truthy r then f r else Inr [])"

definition storage_checks :: "ib_world \<Rightarrow> string list res" where
  "storage_checks w =
     rbind (discover_storage_entrypoint w) (\<lambda>entrypoint.
     rbind (render_entrypoint w entrypoint) (\<lambda>rendered.
     rbind (load_resources w rendered) (\<lambda>resources.
     rbind (rfilter (named ''StorageClass'' ''local-path-retain'') resources) (\<lambda>classes.
     case classes of
       [c] \<Rightarrow> validate_storage_class c
     | _ \<Rightarrow> Inr [''authoritative storage render local-path-retain count'']))))"

definition policy_checks :: "ib_world \<Rightarrow> string list \<Rightarrow> string \<Rightarrow> (string list \<times> string option \<times> string option) res" where
  "policy_checks w apps phase =
     (if phase = ''deployment''
      then
        rbind (validate_deployment_policy w (apps @ parts IB_DEPLOYMENT_POLICY_RECORD) EXPECTED_IB_DEPLOYMENT_POLICY []) (\<lambda>(e1, p).
        rbind (validate_deployment_policy w (apps @ parts BROKER_DEPLOYMENT_POLICY_RECORD) EXPECTED_BROKER_DEPLOYMENT_POLICY ''broker observer '') (\<lambda>(e2, b).
        Inr (e1 @ e2, p, b)))
      else Inr ([], None, None))"

definition governed_checks :: "ib_world \<Rightarrow> string list \<Rightarrow> string \<Rightarrow> (ident3 \<times> jval) list \<Rightarrow> string option \<Rightarrow> string option \<Rightarrow> string list res" where
  "governed_checks w apps phase indexed expected broker_expected =
     rbind (policy_checks w apps phase) (\<lambda>(e, p, b).
     rbind (in_order
       [check_indexed indexed (JStr ''Namespace'', JStr IB_NAMESPACE, JNull) validate_namespace,
        check_indexed indexed pvc_id validate_pvc,
        check_indexed indexed deployment_id (\<lambda>d. validate_deployment d
          \<lparr>policy_image = p, broker_policy_image = b, expected_image = expected, expected_broker_observer_image = broker_expected\<rparr>),
        check_indexed indexed (JStr ''NetworkPolicy'', JStr ''ib-gateway-paper-default-deny'', JStr IB_NAMESPACE) validate_network_policy,
        check_indexed indexed (JStr ''CiliumNetworkPolicy'', JStr ''ib-gateway-paper'', JStr IB_NAMESPACE) validate_cilium_policy]) (\<lambda>errors.
     Inr (e @ errors)))"

definition phase_of :: "string \<Rightarrow> jval list \<Rightarrow> string" where
  "phase_of requested resources =
     (if requested = ''auto'' then (if of_kind ''Deployment'' resources \<noteq> [] then ''deployment'' else ''foundation'') else requested)"

definition validate_ib :: "ib_world \<Rightarrow> string \<Rightarrow> string option \<Rightarrow> string option \<Rightarrow> (string list \<times> string) res" where
  "validate_ib w requested expected broker_expected =
     rbind (discover_apps_entrypoint w) (\<lambda>apps.
     rbind (validate_policy_records_not_rendered w apps) (\<lambda>e1.
     (let (source_phase, e2) = classify_deployment_source_set w apps in
     rbind (render_entrypoint w apps) (\<lambda>rendered.
     rbind (load_resources w rendered) (\<lambda>loaded.
     rbind (rfilter is_governed_resource loaded) (\<lambda>resources.
     rbind (index_resources [] resources) (\<lambda>(e3, indexed).
     (let phase = phase_of requested resources in
     rbind (in_order
       [Inr (e1 @ e2 @ e3),
        Inr (check_true (source_phase = phase) ''deployment source set phase''),
        Inr (check_true (set (map fst indexed) = set (expected_ids phase)) ''rendered resource set''),
        phase_checks phase resources,
        exposure_checks resources,
        Inr (expected_image_checks phase GATEWAY_IMAGE_PATTERN expected ''--expected-image''),
        Inr (expected_image_checks phase BROKER_IMAGE_PATTERN broker_expected ''--expected-broker-observer-image''),
        governed_checks w apps phase indexed expected broker_expected,
        storage_checks w]) (\<lambda>errors. Inr (errors, phase))))))))))"

text \<open>The exceptions that \<^verbatim>\<open>main\<close> catches, by the name of their class.\<close>

definition caught :: "exn \<Rightarrow> bool" where
  "caught e = (case e of
      PyError s \<Rightarrow> takeWhile (\<lambda>c. c \<noteq> CHR '':'') s \<in> {''AttributeError'', ''KeyError'', ''OSError'', ''RuntimeError'', ''TypeError'', ''ValueError'', ''YAMLError''}
    | _ \<Rightarrow> False)"

definition ib_main :: "ib_world \<Rightarrow> string \<Rightarrow> string option \<Rightarrow> string option \<Rightarrow> int res" where
  "ib_main w requested expected broker_expected =
     (case validate_ib w requested expected broker_expected of
        Inl e \<Rightarrow> if caught e then Inr 1 else Inl e
      | Inr (errors, phase) \<Rightarrow> Inr (if errors \<noteq> [] then 1 else 0))"

end
