(* ===== verification/Ib_Properties.thy ===== *)
theory Ib_Properties
  imports Ib_Gateway Manifest_Lemmas
begin

section \<open>Properties of the IB Gateway validator\<close>

text \<open>
  The paths that Flux may name are exactly the normalized relative ones; acceptance in the deployment phase fixes the set of
  resources, the images and what each container can mount.
\<close>

subsection \<open>Paths\<close>

lemma parts_join:
  assumes "list_all (\<lambda>c. c \<noteq> [] \<and> c \<noteq> ''.'' \<and> CHR ''/'' \<notin> set c) cs"
  shows "parts (join ''/'' cs) = cs"
proof -
  have "split_on (CHR ''/'') (join ''/'' cs) = (if cs = [] then [[]] else cs)"
    using assms
  proof (induction cs rule: induct_list012)
    case (3 x y zs)
    then show ?case using split_on_append [of "CHR ''/''" x "join ''/'' (y # zs)"] by simp
  qed (simp_all add: split_on_no_char)
  then show ?thesis using assms by (simp add: parts_def list_all_iff filter_id_conv)
qed

lemma parts_ok: "list_all (\<lambda>c. c \<noteq> [] \<and> c \<noteq> ''.'' \<and> CHR ''/'' \<notin> set c) (parts s)"
  by (auto simp: parts_def list_all_iff dest: split_on_no_sep)

lemma set_join: "x \<in> set (join sep cs) \<Longrightarrow> x \<in> set sep \<or> (\<exists>c \<in> set cs. x \<in> set c)"
  by (induction sep cs rule: join.induct) auto

lemma set_join_part: "c \<in> set cs \<Longrightarrow> set c \<subseteq> set (join sep cs)"
  by (induction sep cs rule: join.induct) auto

text \<open>
  (C36) The path test of the validator is exact: it accepts a text exactly when the text is a sequence of one or more
  components joined by slashes, in which no component is empty, a dot or two dots, and none contains a slash or a backslash,
  or the single dot, which names the root of the repository and which the comparison of the resolved locations refuses.
  No other spelling of a path passes, and no path that leaves the repository by its text.
\<close>

theorem safe_relative_exact:
  "safe_relative t \<longleftrightarrow> t = ''.'' \<or> (\<exists>cs. cs \<noteq> [] \<and> t = join ''/'' cs
     \<and> list_all (\<lambda>c. c \<notin> {[], ''.'', ''..''} \<and> CHR ''/'' \<notin> set c \<and> CHR 0x5C \<notin> set c) cs)"
  (is "_ \<longleftrightarrow> _ \<or> ?components")
proof
  assume s: "safe_relative t"
  then have t: "posix_root t = []" "CHR 0x5C \<notin> set t" "as_posix t = t" "\<not> list_ex (\<lambda>p. p = [] \<or> p = ''.'' \<or> p = ''..'') (parts t)"
    by (auto simp: safe_relative_def)
  show "t = ''.'' \<or> ?components"
  proof (cases "parts t")
    case Nil
    with t(1,3) show ?thesis by (simp add: as_posix_def)
  next
    case (Cons c cs)
    then have j: "t = join ''/'' (parts t)" using t(1,3) by (simp add: as_posix_def)
    have "CHR 0x5C \<notin> set c" if "c \<in> set (parts t)" for c
      using set_join_part [OF that, of "''/''"] t(2) unfolding j [symmetric] by blast
    then have "list_all (\<lambda>c. c \<notin> {[], ''.'', ''..''} \<and> CHR ''/'' \<notin> set c \<and> CHR 0x5C \<notin> set c) (parts t)"
      using parts_ok [of t] t(4) by (auto simp: list_all_iff list_ex_iff)
    moreover have "parts t \<noteq> []" using Cons by simp
    ultimately show ?thesis using j by blast
  qed
next
  assume "t = ''.'' \<or> ?components"
  then show "safe_relative t"
  proof
    assume "t = ''.''"
    then show ?thesis by (simp add: safe_relative_def as_posix_def posix_root_def parts_def)
  next
    assume ?components
    then obtain cs where cs: "cs \<noteq> []" "t = join ''/'' cs"
        "list_all (\<lambda>c. c \<notin> {[], ''.'', ''..''} \<and> CHR ''/'' \<notin> set c \<and> CHR 0x5C \<notin> set c) cs" by blast
    obtain c cs' where c: "cs = c # cs'" using cs(1) by (cases cs) auto
    then obtain x xs where x: "c = x # xs" "x \<noteq> CHR ''/''" using cs(3) by (cases c) auto
    have p: "parts t = cs" unfolding cs(2) by (rule parts_join) (use cs(3) in \<open>auto simp: list_all_iff\<close>)
    have r: "posix_root t = []" "t \<noteq> []" using x c cs(2) by (cases cs'; simp add: posix_root_def)+
    have "CHR 0x5C \<notin> set t" using set_join [of "CHR 0x5C" "''/''" cs] cs(2,3) by (auto simp: list_all_iff)
    with p r cs show ?thesis by (auto simp: safe_relative_def as_posix_def list_all_iff list_ex_iff)
  qed
qed

subsection \<open>Tables and images\<close>

lemma differs_Nil [check_simps]: "differs a e label = [] \<longleftrightarrow> strict_equal a e"
  by (simp add: differs_def type_strict_equal_def)

lemma differ_all_satisfies: "differ_all v table = Inr [] \<longleftrightarrow> satisfies v table"
  by (auto simp: differ_all_def in_order_Nil satisfies_def list_all_iff rbind_eq_Inr differs_Nil split: prod.splits)

lemma image_checks_policy: "image_checks pattern img (Some p) expected labels = [] \<Longrightarrow> img = JStr p \<and> (expected = None \<or> expected = Some p)"
  by (auto simp: image_checks_def check_simps split: option.splits)

lemma policy_reference_expected:
  assumes "strict_equal policy (JDict [(''schemaVersion'', v), (''artifact'', JDict [(''repository'', r), (''digest'', d), (''reference'', JStr p)]), (''provenance'', q)])"
  shows "snd (policy_reference policy role) = Some p"
proof -
  obtain pd where pd: "policy = JDict pd" using assms by (auto simp: strict_equal_JDict)
  have "strict_equal (dget ''artifact'' pd) (JDict [(''repository'', r), (''digest'', d), (''reference'', JStr p)])"
    using strict_equal_dget(1) [OF assms [unfolded pd], of "''artifact''"] by simp
  then obtain ad where ad: "dget ''artifact'' pd = JDict ad" and s: "strict_equal (JDict ad) (JDict [(''repository'', r), (''digest'', d), (''reference'', JStr p)])"
    by (auto simp: strict_equal_JDict)
  have "dget ''reference'' ad = JStr p" using strict_equal_dget(1) [OF s, of "''reference''"] by simp
  then show ?thesis by (simp add: policy_reference_def pd ad)
qed

lemma policy_accepted:
  assumes "validate_deployment_policy w path expected role = Inr ([], p)"
    and "expected = JDict [(''schemaVersion'', v), (''artifact'', JDict [(''repository'', r), (''digest'', d), (''reference'', JStr s)]), (''provenance'', q)]"
  shows "p = Some s \<and> ib_is_file w path"
proof -
  obtain policy where "ib_is_file w path" "strict_equal policy expected" "p = snd (policy_reference policy role)"
    using assms(1) by (auto simp: validate_deployment_policy_def rbind_eq_Inr differs_Nil Let_def case_prod_beta split: if_splits)
  then show ?thesis using policy_reference_expected assms(2) by simp
qed

subsection \<open>Mounts by name\<close>

definition name_of :: "jval \<Rightarrow> jval" where
  "name_of m = (case m of JDict d \<Rightarrow> dget ''name'' d | _ \<Rightarrow> JNull)"

lemma key_eq_refl [simp]: "key_eq k k"
  by (simp add: key_eq_def)

lemma put_key_new: "\<not> list_ex (\<lambda>e. key_eq k (fst e)) acc \<Longrightarrow> put_key k v acc = acc @ [(k, v)]"
  by (induction k v acc rule: put_key.induct) auto

lemma put_key_old: "list_ex (\<lambda>e. key_eq k (fst e)) acc \<Longrightarrow> map fst (put_key k v acc) = map fst acc"
  by (induction k v acc rule: put_key.induct) auto

lemma put_key_distinct: "distinct (map fst acc) \<Longrightarrow> distinct (map fst (put_key k v acc))"
  by (cases "list_ex (\<lambda>e. key_eq k (fst e)) acc") (auto simp: put_key_old put_key_new list_ex_iff)

lemma by_name_distinct: "by_name acc ms = Inr r \<Longrightarrow> distinct (map fst acc) \<Longrightarrow> distinct (map fst r)"
  by (induction ms arbitrary: acc) (auto split: jval.splits if_splits simp: put_key_distinct)

lemma by_name_complete:
  assumes "by_name acc ms = Inr r"
  shows "length r \<le> length acc + length ms
    \<and> (length r = length acc + length ms \<longrightarrow> r = acc @ map (\<lambda>m. (name_of m, m)) ms \<and> list_all is_dict ms)"
  using assms
proof (induction ms arbitrary: acc)
  case (Cons m ms)
  show ?case
  proof (cases m)
    case (JDict d)
    with Cons.prems have r: "by_name (put_key (dget ''name'' d) m acc) ms = Inr r" by (auto split: if_splits)
    note ih = Cons.IH [OF r]
    show ?thesis
    proof (cases "list_ex (\<lambda>e. key_eq (dget ''name'' d) (fst e)) acc")
      case True
      then have "length (put_key (dget ''name'' d) m acc) = length acc" by (metis length_map put_key_old)
      with ih show ?thesis by simp
    next
      case False
      with ih show ?thesis by (simp add: put_key_new name_of_def JDict)
    qed
  qed (use Cons in fastforce)+
qed simp

lemma mounts_all_expected:
  assumes "by_name [] ms = Inr r" "length r = length ms" "mapping_equal r expected" "m \<in> set ms"
  shows "is_dict m \<and> list_ex (\<lambda>e. strict_equal m (snd e)) expected"
proof -
  have r: "r = map (\<lambda>m. (name_of m, m)) ms" "list_all is_dict ms" "distinct (map fst r)"
    using by_name_complete [OF assms(1)] by_name_distinct [OF assms(1)] assms(2) by auto
  then have m: "(name_of m, m) \<in> set r" using assms(4) by auto
  then have "name_of m \<in> JStr ` set (map fst expected)" using assms(3) unfolding mapping_equal_def by (metis fst_conv image_eqI list.set_map)
  then obtain k e where k: "name_of m = JStr k" "(k, e) \<in> set expected" by auto
  have "map_of r (JStr k) = Some m" using m k(1) r(3) by simp
  with assms(3) k(2) have "strict_equal m e" by (fastforce simp: mapping_equal_def list_all_iff type_strict_equal_def)
  with k(2) r(2) assms(4) show ?thesis by (force simp: list_all_iff list_ex_iff)
qed

lemma gateway_mounts_expected:
  assumes "gateway_mount_checks gateway = Inr []"
  shows "\<exists>ms. jget ''volumeMounts'' gateway = Inr (JList ms) \<and> list_all (\<lambda>m. list_ex (\<lambda>e. strict_equal m (snd e)) GATEWAY_MOUNTS) ms"
proof -
  obtain mv ms r n where g: "jget_or ''volumeMounts'' (JList []) gateway = Inr mv" "py_iter mv = Inr ms" "by_name [] ms = Inr r" "py_len mv = Inr n"
      "length r = n" "mapping_equal r GATEWAY_MOUNTS"
    using assms by (auto simp: gateway_mount_checks_def rbind_eq_Inr check_simps)
  have n: "length ms = n" using g(2,4) by (auto simp: py_iter_def py_len_def split: jval.splits)
  have "GATEWAY_MOUNTS \<noteq> []" by (simp add: GATEWAY_MOUNTS_def)
  then have "r \<noteq> []" using g(6) by (cases GATEWAY_MOUNTS) (auto simp: mapping_equal_def)
  then have ne: "ms \<noteq> []" using g(5) n by auto
  have all: "is_dict m \<and> list_ex (\<lambda>e. strict_equal m (snd e)) GATEWAY_MOUNTS" if "m \<in> set ms" for m
    using mounts_all_expected [OF g(3) _ g(6) that] g(5) n by simp
  obtain x xs where "ms = x # xs" "is_dict x" using all ne by (cases ms) auto
  then have "mv = JList ms" using g(2) by (auto simp: py_iter_def map_eq_Cons_conv split: jval.splits)
  moreover have "jget ''volumeMounts'' gateway = Inr mv" using g(1) ne calculation by (auto simp: jget_or_eq_Inr jget_eq_Inr dget_def dget_or_def split: option.splits)
  ultimately show ?thesis using all by (auto simp: list_all_iff)
qed

subsection \<open>The Deployment\<close>

lemma gateway_accepted:
  assumes "gateway_checks gateway (Some p) expected = Inr []" "p \<noteq> []"
  shows "jget ''image'' gateway = Inr (JStr p) \<and> (expected = None \<or> expected = Some p)
    \<and> (\<exists>ms. jget ''volumeMounts'' gateway = Inr (JList ms) \<and> list_all (\<lambda>m. list_ex (\<lambda>e. strict_equal m (snd e)) GATEWAY_MOUNTS) ms)"
proof -
  obtain img where img: "jget_or ''image'' (JStr []) gateway = Inr img" "image_checks GATEWAY_IMAGE_PATTERN img (Some p) expected GATEWAY_IMAGE_LABELS = []"
    and m: "gateway_mount_checks gateway = Inr []"
    using assms(1) by (auto simp: gateway_checks_def in_order_Nil rbind_eq_Inr)
  have i: "img = JStr p" "expected = None \<or> expected = Some p" using image_checks_policy [OF img(2)] by auto
  have "jget ''image'' gateway = Inr (JStr p)"
    using img(1) i(1) assms(2) by (auto simp: jget_or_eq_Inr jget_eq_Inr dget_or_def dget_def split: option.splits)
  with i(2) gateway_mounts_expected [OF m] show ?thesis by blast
qed

lemma broker_accepted:
  assumes "broker_checks broker (Some p) expected = Inr []" "p \<noteq> []"
  shows "jget ''image'' broker = Inr (JStr p) \<and> (expected = None \<or> expected = Some p)
    \<and> (\<exists>m. jget ''volumeMounts'' broker = Inr (JList [m]) \<and> jget ''name'' m = Inr (JStr ''observer-tmp''))"
proof -
  obtain img where img: "jget_or ''image'' (JStr []) broker = Inr img" "image_checks BROKER_IMAGE_PATTERN img (Some p) expected BROKER_IMAGE_LABELS = []"
    and m: "satisfies broker BROKER_CHECKS"
    using assms(1) by (auto simp: broker_checks_def in_order_Nil rbind_eq_Inr differ_all_satisfies)
  have i: "img = JStr p" "expected = None \<or> expected = Some p" using image_checks_policy [OF img(2)] by auto
  have "jget ''image'' broker = Inr (JStr p)"
    using img(1) i(1) assms(2) by (auto simp: jget_or_eq_Inr jget_eq_Inr dget_or_def dget_def split: option.splits)
  moreover have "\<exists>m. jget ''volumeMounts'' broker = Inr (JList [m]) \<and> jget ''name'' m = Inr (JStr ''observer-tmp'')"
  proof -
    let ?e = "JDict [(''mountPath'', JStr ''/tmp''), (''mountPropagation'', JStr ''None''), (''name'', JStr ''observer-tmp'')]"
    have "3 < length BROKER_CHECKS" "BROKER_CHECKS ! 3 = ([''volumeMounts''], JList [?e], ''Broker Observer volumeMounts'')"
      by (simp_all add: BROKER_CHECKS_def)
    from satisfies_row [OF m this] obtain x where x: "jget ''volumeMounts'' broker = Inr (JList [x])" "strict_equal x ?e"
      by (auto simp: strict_equal_JList list_all2_Cons2)
    have "\<exists>a'. get_at [''name''] x = Inr a' \<and> strict_equal a' (JStr ''observer-tmp'')"
      by (rule strict_equal_get_at [OF x(2)]) simp_all
    with x(1) show ?thesis by simp
  qed
  ultimately show ?thesis using i(2) by blast
qed

text \<open>What an accepted Deployment guarantees of its Pod.\<close>

definition pod_admitted :: "jval \<Rightarrow> string \<Rightarrow> string \<Rightarrow> bool" where
  "pod_admitted pod p b \<longleftrightarrow> (\<exists>d gateway broker ms m.
     pod = JDict d \<and> set (map fst d) = set POD_FIELDS \<and> dget ''containers'' d = JList [gateway, broker]
     \<and> strict_equal (dget ''volumes'' d) IB_VOLUMES
     \<and> jget ''image'' gateway = Inr (JStr p) \<and> jget ''image'' broker = Inr (JStr b)
     \<and> jget ''volumeMounts'' gateway = Inr (JList ms) \<and> list_all (\<lambda>m. list_ex (\<lambda>e. strict_equal m (snd e)) GATEWAY_MOUNTS) ms
     \<and> jget ''volumeMounts'' broker = Inr (JList [m]) \<and> jget ''name'' m = Inr (JStr ''observer-tmp''))"

lemma check_fields_Nil: "check_fields (JDict d) names label = Inr [] \<longleftrightarrow> set (map fst d) = set names"
proof -
  have "set (map (JStr \<circ> fst) d) = JStr ` set (map fst d)" by auto
  then show ?thesis
    by (auto simp: check_fields_def set_of_def hash_set_def py_iter_def hashable_def list_all_iff rbind_eq_Inr inj_image_eq_iff inj_def)
qed

lemma named_containers:
  assumes "py_iter cv = Inr cs" "strict_equal (JList (map name_of cs)) (JList [JStr x, JStr y])"
  shows "\<exists>a b. cv = JList [a, b] \<and> cs = [a, b] \<and> two_containers cs = Some (a, b)"
  using assms by (auto simp: strict_equal_JList list_all2_Cons2 py_iter_def map_eq_Cons_conv name_of_def two_containers_def split: jval.splits)

lemma pod_accepted:
  assumes "pod_checks pod im = Inr []" "policy_image im = Some p" "broker_policy_image im = Some b" "p \<noteq> []" "b \<noteq> []"
  shows "pod_admitted pod p b \<and> (expected_image im = None \<or> expected_image im = Some p)
    \<and> (expected_broker_observer_image im = None \<or> expected_broker_observer_image im = Some b)"
proof -
  obtain cv cs n where c: "jget_or ''containers'' (JList []) pod = Inr cv" "py_iter cv = Inr cs"
      "strict_equal (JList (map name_of cs)) (JList [JStr ''ib-gateway-paper'', JStr ''broker-observer''])"
      "containers_checks pod cs im = Inr []" and f: "check_fields pod POD_FIELDS ''Pod spec fields'' = Inr []"
    using assms(1) by (auto simp: pod_checks_def in_order_Nil rbind_eq_Inr differs_Nil name_of_def [abs_def])
  obtain gateway broker where gb: "cv = JList [gateway, broker]" "two_containers cs = Some (gateway, broker)" using named_containers [OF c(2,3)] by blast
  obtain d where d: "pod = JDict d" using c(1) by (auto simp: jget_or_eq_Inr)
  have g: "gateway_checks gateway (Some p) (expected_image im) = Inr []" and br: "broker_checks broker (Some b) (expected_broker_observer_image im) = Inr []"
    and v: "volume_checks pod = Inr []"
    using c(4) assms(2,3) by (auto simp: containers_checks_def gb(2) in_order_Nil)
  have "strict_equal (dget_or ''volumes'' (JList []) d) IB_VOLUMES" using v by (auto simp: d volume_checks_def rbind_eq_Inr differs_Nil check_simps)
  then have vol: "strict_equal (dget ''volumes'' d) IB_VOLUMES"
    by (auto simp: dget_def dget_or_def IB_VOLUMES_def strict_equal_JList split: option.splits)
  have con: "dget ''containers'' d = JList [gateway, broker]" using c(1) gb(1) by (auto simp: d dget_def dget_or_def split: option.splits)
  show ?thesis using gateway_accepted [OF g assms(4)] broker_accepted [OF br assms(5)] f vol con unfolding pod_admitted_def d check_fields_Nil by blast
qed

lemma deployment_accepted:
  assumes "validate_deployment deployment im = Inr []" "policy_image im = Some p" "broker_policy_image im = Some b" "p \<noteq> []" "b \<noteq> []"
  shows "\<exists>pod. sub_at [''spec'', ''template'', ''spec''] deployment = Inr pod \<and> pod_admitted pod p b
    \<and> (expected_image im = None \<or> expected_image im = Some p)
    \<and> (expected_broker_observer_image im = None \<or> expected_broker_observer_image im = Some b)"
proof -
  obtain pod where "sub_at [''spec'', ''template'', ''spec''] deployment = Inr pod" "pod_checks pod im = Inr []"
    using assms(1) by (auto simp: validate_deployment_def in_order_Nil rbind_eq_Inr)
  with pod_accepted [OF _ assms(2-)] show ?thesis by blast
qed

subsection \<open>The set of resources\<close>

lemma same_id_refl [simp]: "same_id i i"
  by (simp add: same_id_def)

lemma put_id_new: "\<not> list_ex (\<lambda>e. same_id i (fst e)) acc \<Longrightarrow> put_id i r acc = acc @ [(i, r)]"
  by (induction i r acc rule: put_id.induct) auto

lemma index_resources_clean:
  assumes "index_resources acc rs = Inr ([], result)" "distinct (map fst acc)"
  shows "\<exists>ids. rmap resource_id rs = Inr ids \<and> result = acc @ zip ids rs \<and> distinct (map fst result)"
  using assms
proof (induction rs arbitrary: acc)
  case (Cons r rs)
  obtain i where i: "resource_id r = Inr i" "\<not> list_ex (\<lambda>e. same_id i (fst e)) acc" "index_resources (put_id i r acc) rs = Inr ([], result)"
    using Cons.prems(1) by (auto simp: rbind_eq_Inr split: if_splits)
  have "i \<notin> fst ` set acc" using i(2) by (auto simp: list_ex_iff)
  then have "distinct (map fst (acc @ [(i, r)]))" using Cons.prems(2) by simp
  from Cons.IH [OF i(3) [unfolded put_id_new [OF i(2)]] this] obtain ids where
    "rmap resource_id rs = Inr ids" "result = (acc @ [(i, r)]) @ zip ids rs" "distinct (map fst result)" by blast
  then show ?case using i(1) by simp
qed simp

lemma filter_full: "length (filter P xs) = length xs \<longleftrightarrow> list_all P xs"
  by (metis filter_id_conv length_filter_less list_all_iff nat_neq_iff)

lemma classify_phases:
  assumes "fst (classify_deployment_source_set w apps) = phase"
  shows "(phase = ''deployment'' \<longleftrightarrow> list_all (\<lambda>p. ib_is_file w (apps @ parts p)) DEPLOYMENT_SOURCE_SET)
      \<and> (phase = ''foundation'' \<longleftrightarrow> list_all (\<lambda>p. \<not> ib_is_file w (apps @ parts p)) DEPLOYMENT_SOURCE_SET)"
proof -
  have ne: "DEPLOYMENT_SOURCE_SET \<noteq> []" by (simp add: DEPLOYMENT_SOURCE_SET_def)
  then have "\<not> (list_all P DEPLOYMENT_SOURCE_SET \<and> list_all (\<lambda>p. \<not> P p) DEPLOYMENT_SOURCE_SET)" for P
    by (metis list.set_sel(1) list_all_iff)
  then show ?thesis using assms unfolding classify_deployment_source_set_def Let_def
    by (auto simp: filter_full filter_empty_conv list_all_iff split: if_splits)
qed

text \<open>The parts of an accepted run.\<close>

lemma validate_ib_accepts:
  assumes "validate_ib w requested expected broker_expected = Inr ([], phase)"
  shows "\<exists>apps rendered loaded resources indexed.
    discover_apps_entrypoint w = Inr apps \<and> render_entrypoint w apps = Inr rendered \<and> load_resources w rendered = Inr loaded
    \<and> rfilter is_governed_resource loaded = Inr resources \<and> index_resources [] resources = Inr ([], indexed)
    \<and> fst (classify_deployment_source_set w apps) = phase \<and> phase = phase_of requested resources
    \<and> set (map fst indexed) = set (expected_ids phase) \<and> governed_checks w apps phase indexed expected broker_expected = Inr []"
  using assms unfolding validate_ib_def Let_def
  by (clarsimp simp: rbind_eq_Inr in_order_Nil check_simps case_prod_beta)

text \<open>
  (C35) Acceptance fixes what is deployed in the namespace: among all documents of the rendered applications, the ones that
  belong to the governed namespace are pairwise distinct and are exactly the resources of the phase, three of the foundation, and
  the claim and the Deployment as well when all four source files of the deployment are present.
\<close>

theorem ib_resource_set_exact:
  assumes "validate_ib w requested expected broker_expected = Inr ([], phase)"
  shows "\<exists>apps rendered loaded resources ids.
    discover_apps_entrypoint w = Inr apps \<and> render_entrypoint w apps = Inr rendered \<and> load_resources w rendered = Inr loaded
    \<and> rfilter is_governed_resource loaded = Inr resources \<and> rmap resource_id resources = Inr ids
    \<and> distinct ids \<and> set ids = set (expected_ids phase)
    \<and> (phase = ''deployment'' \<longleftrightarrow> list_all (\<lambda>p. ib_is_file w (apps @ parts p)) DEPLOYMENT_SOURCE_SET)
    \<and> (phase = ''foundation'' \<longleftrightarrow> list_all (\<lambda>p. \<not> ib_is_file w (apps @ parts p)) DEPLOYMENT_SOURCE_SET)"
proof -
  from validate_ib_accepts [OF assms] obtain apps rendered loaded resources indexed where v:
      "discover_apps_entrypoint w = Inr apps" "render_entrypoint w apps = Inr rendered" "load_resources w rendered = Inr loaded"
      "rfilter is_governed_resource loaded = Inr resources" "index_resources [] resources = Inr ([], indexed)"
      "fst (classify_deployment_source_set w apps) = phase" "set (map fst indexed) = set (expected_ids phase)"
    by blast
  obtain ids where ids: "rmap resource_id resources = Inr ids" "indexed = zip ids resources" "distinct (map fst indexed)"
    using index_resources_clean [OF v(5)] by auto
  have "length ids = length resources" using ids(1) by (auto simp: rmap_eq_Inr dest: list_all2_lengthD)
  then have "map fst indexed = ids" using ids(2) by simp
  then have "distinct ids" "set ids = set (expected_ids phase)" using ids(3) v(7) by simp_all
  moreover have "(phase = ''deployment'' \<longleftrightarrow> list_all (\<lambda>p. ib_is_file w (apps @ parts p)) DEPLOYMENT_SOURCE_SET)
      \<and> (phase = ''foundation'' \<longleftrightarrow> list_all (\<lambda>p. \<not> ib_is_file w (apps @ parts p)) DEPLOYMENT_SOURCE_SET)"
    using v(6) by (rule classify_phases)
  ultimately show ?thesis using v ids(1) by blast
qed

subsection \<open>Admitted images\<close>

lemma policies_accepted:
  assumes "policy_checks w apps ''deployment'' = Inr ([], p, b)"
  shows "p = Some ADMITTED_IMAGE \<and> b = Some BROKER_ADMITTED_IMAGE"
proof -
  have "validate_deployment_policy w (apps @ parts IB_DEPLOYMENT_POLICY_RECORD) EXPECTED_IB_DEPLOYMENT_POLICY [] = Inr ([], p)"
      "validate_deployment_policy w (apps @ parts BROKER_DEPLOYMENT_POLICY_RECORD) EXPECTED_BROKER_DEPLOYMENT_POLICY ''broker observer '' = Inr ([], b)"
    using assms by (auto simp: policy_checks_def rbind_eq_Inr)
  then show ?thesis using policy_accepted EXPECTED_IB_DEPLOYMENT_POLICY_def EXPECTED_BROKER_DEPLOYMENT_POLICY_def by metis
qed

lemma images_nonempty: "ADMITTED_IMAGE \<noteq> []" "BROKER_ADMITTED_IMAGE \<noteq> []"
  by (simp_all add: ADMITTED_IMAGE_def BROKER_ADMITTED_IMAGE_def ADMITTED_REPOSITORY_def BROKER_ADMITTED_REPOSITORY_def)

text \<open>
  (C34) Only admitted images are deployed, and the credentials stay with the gateway. When the validator accepts in the
  deployment phase, the rendered Deployment runs exactly two containers with the two admitted digests, also when another image was
  expected on the command line; its Pod has no further containers and only the fixed volumes; every mount of the gateway is one of
  its four, and the only mount of the observer is its own scratch volume.
\<close>

theorem ib_deployment_admitted:
  assumes "validate_ib w requested expected broker_expected = Inr ([], ''deployment'')"
  shows "\<exists>apps rendered loaded deployment pod.
    discover_apps_entrypoint w = Inr apps \<and> render_entrypoint w apps = Inr rendered \<and> load_resources w rendered = Inr loaded
    \<and> deployment \<in> set loaded \<and> resource_id deployment = Inr deployment_id
    \<and> sub_at [''spec'', ''template'', ''spec''] deployment = Inr pod \<and> pod_admitted pod ADMITTED_IMAGE BROKER_ADMITTED_IMAGE
    \<and> (expected = None \<or> expected = Some ADMITTED_IMAGE) \<and> (broker_expected = None \<or> broker_expected = Some BROKER_ADMITTED_IMAGE)"
proof -
  from validate_ib_accepts [OF assms] obtain apps rendered loaded resources indexed where v:
      "discover_apps_entrypoint w = Inr apps" "render_entrypoint w apps = Inr rendered" "load_resources w rendered = Inr loaded"
      "rfilter is_governed_resource loaded = Inr resources" "index_resources [] resources = Inr ([], indexed)"
      "set (map fst indexed) = set (expected_ids ''deployment'')" "governed_checks w apps ''deployment'' indexed expected broker_expected = Inr []"
    by blast
  obtain ids where ids: "rmap resource_id resources = Inr ids" "indexed = zip ids resources" "distinct (map fst indexed)"
    using index_resources_clean [OF v(5)] by auto
  have "deployment_id \<in> set (map fst indexed)" unfolding v(6) by (simp add: expected_ids_def)
  then obtain deployment where d: "(deployment_id, deployment) \<in> set indexed" by auto
  then have m: "map_of indexed deployment_id = Some deployment" using ids(3) by simp
  have r: "deployment \<in> set resources" "resource_id deployment = Inr deployment_id"
    using d ids(1,2) by (auto simp: rmap_eq_Inr list_all2_conv_all_nth set_zip)
  then have "truthy deployment" by (auto simp: resource_id_def rbind_eq_Inr jget_or_eq_Inr deployment_id_def)
  obtain p b where pb: "policy_checks w apps ''deployment'' = Inr ([], p, b)"
      "check_indexed indexed deployment_id (\<lambda>d. validate_deployment d \<lparr>policy_image = p, broker_policy_image = b, expected_image = expected, expected_broker_observer_image = broker_expected\<rparr>) = Inr []"
    using v(7) by (auto simp: governed_checks_def rbind_eq_Inr in_order_Nil)
  have "validate_deployment deployment \<lparr>policy_image = p, broker_policy_image = b, expected_image = expected, expected_broker_observer_image = broker_expected\<rparr> = Inr []"
    using pb(2) m \<open>truthy deployment\<close> by (simp add: check_indexed_def)
  from deployment_accepted [OF this] policies_accepted [OF pb(1)] images_nonempty
  obtain pod where "sub_at [''spec'', ''template'', ''spec''] deployment = Inr pod" "pod_admitted pod ADMITTED_IMAGE BROKER_ADMITTED_IMAGE"
      "expected = None \<or> expected = Some ADMITTED_IMAGE" "broker_expected = None \<or> broker_expected = Some BROKER_ADMITTED_IMAGE" by auto
  moreover have "deployment \<in> set loaded" using rfilter_set [OF v(4)] r(1) by auto
  ultimately show ?thesis using v(1-3) r(2) by blast
qed

subsection \<open>An accepted repository\<close>

definition ex_gateway :: jval where
  "ex_gateway = JDict (from_table GATEWAY_CHECKS @ [(''name'', JStr ''ib-gateway-paper''), (''image'', JStr ADMITTED_IMAGE), (''volumeMounts'', JList (map snd GATEWAY_MOUNTS))])"

definition ex_broker :: jval where
  "ex_broker = JDict (from_table BROKER_CHECKS @ [(''name'', JStr ''broker-observer''), (''image'', JStr BROKER_ADMITTED_IMAGE)])"

definition ex_ib_pod :: jval where
  "ex_ib_pod = JDict (from_table IB_POD_CHECKS @ [(''containers'', JList [ex_gateway, ex_broker]), (''volumes'', IB_VOLUMES)])"

definition ex_deployment :: jval where
  "ex_deployment = JDict
     [(''apiVersion'', JStr ''apps/v1''), (''kind'', JStr ''Deployment''),
      (''metadata'', JDict [(''labels'', APP_LABELS), (''name'', JStr ''ib-gateway-paper''), (''namespace'', JStr IB_NAMESPACE)]),
      (''spec'', JDict (from_table DEPLOYMENT_SPEC_CHECKS @ [(''template'', JDict [(''metadata'', JDict [(''labels'', APP_LABELS)]), (''spec'', ex_ib_pod)])]))]"

definition ex_policy_of :: "string \<Rightarrow> string \<Rightarrow> dict \<Rightarrow> jval" where
  "ex_policy_of kind name d = JDict ([(''kind'', JStr kind), (''metadata'', JDict [(''name'', JStr name), (''namespace'', JStr IB_NAMESPACE)])] @ d)"

definition ex_apps :: "jval list" where
  "ex_apps = [JDict (from_table NAMESPACE_CHECKS), JDict (from_table PVC_CHECKS), ex_deployment,
     ex_policy_of ''NetworkPolicy'' ''ib-gateway-paper-default-deny'' (from_table NETWORK_POLICY_CHECKS),
     ex_policy_of ''CiliumNetworkPolicy'' ''ib-gateway-paper'' [(''apiVersion'', JStr ''cilium.io/v2''), (''spec'', CILIUM_SPEC)]]"

definition ex_storage :: jval where
  "ex_storage = JDict [(''apiVersion'', JStr ''storage.k8s.io/v1''), (''kind'', JStr ''StorageClass''), (''metadata'', JDict [(''name'', JStr ''local-path-retain'')]),
     (''provisioner'', JStr ''rancher.io/local-path''), (''volumeBindingMode'', JStr ''WaitForFirstConsumer''), (''reclaimPolicy'', JStr ''Retain'')]"

definition ex_flux :: "string \<Rightarrow> string \<Rightarrow> jval" where
  "ex_flux name path = JDict [(''apiVersion'', JStr ''kustomize.toolkit.fluxcd.io/v1''), (''kind'', JStr ''Kustomization''),
     (''metadata'', JDict [(''name'', JStr name), (''namespace'', JStr ''flux-system'')]), (''spec'', JDict [(''wait'', JBool True), (''path'', JStr path)])]"

definition ex_yaml :: "string \<Rightarrow> jval" where
  "ex_yaml name =
     (if name = ''kustomization-apps.yaml'' then ex_flux ''apps'' ''./apps''
      else if name = ''kustomization-storage-classes.yaml'' then ex_flux ''storage-classes'' ''./storage''
      else if name = ''ib-gateway-paper-deployment-policy.yaml'' then EXPECTED_IB_DEPLOYMENT_POLICY
      else if name = ''broker-observer-deployment-policy.yaml'' then EXPECTED_BROKER_DEPLOYMENT_POLICY
      else JDict [(''resources'', JList [JStr ''deployment.yaml''])])"

definition ex_ib_world :: ib_world where
  "ex_ib_world = \<lparr>ib_root = [''repo''], ib_resolve = id, ib_is_file = (\<lambda>_. True), ib_yaml = (\<lambda>p. Inr (ex_yaml (last p))),
     ib_which = (\<lambda>_. True), ib_run = (\<lambda>command. Inr (0, last command, [])),
     ib_yaml_all = (\<lambda>text. Inr (if text = ''/repo/apps'' then ex_apps else [ex_storage]))\<rparr>"

lemma ex_container_checks:
  "container_shape ex_gateway ''Gateway'' = Inr []" "container_shape ex_broker ''Broker Observer'' = Inr []"
  by (simp_all add: container_shape_def ex_gateway_def ex_broker_def in_order_def check_fields_def check_absent_def set_of_def hash_set_def py_iter_def hashable_def
      from_table_def GATEWAY_CHECKS_def BROKER_CHECKS_def CONTAINER_FIELDS_def FORBIDDEN_RUNTIME_FIELDS_def insert_commute)

lemma ex_gateway_checks: "gateway_checks ex_gateway (Some ADMITTED_IMAGE) None = Inr []"
proof -
  have d: "GATEWAY_IMAGE_PATTERN ADMITTED_IMAGE"
    by (simp add: GATEWAY_IMAGE_PATTERN_def digest_after_def ADMITTED_IMAGE_def ADMITTED_REPOSITORY_def ADMITTED_DIGEST_def is_digit_def)
  have t: "satisfies ex_gateway GATEWAY_CHECKS" "satisfies ex_gateway [([''name''], JStr ''ib-gateway-paper'', ''Gateway container name'')]"
    by (simp_all add: satisfies_def GATEWAY_CHECKS_def ex_gateway_def from_table_def strict_equal_refl)
  have m: "jget_or ''volumeMounts'' (JList []) ex_gateway = Inr (JList (map snd GATEWAY_MOUNTS))" "jget_or ''image'' (JStr []) ex_gateway = Inr (JStr ADMITTED_IMAGE)"
    by (simp_all add: ex_gateway_def from_table_def GATEWAY_CHECKS_def)
  have n: "by_name [] (map snd GATEWAY_MOUNTS) = Inr (map (\<lambda>(k, e). (JStr k, e)) GATEWAY_MOUNTS)"
    by (simp add: GATEWAY_MOUNTS_def hashable_def key_eq_def)
  have e: "mapping_equal (map (\<lambda>(k, e). (JStr k, e)) GATEWAY_MOUNTS) GATEWAY_MOUNTS"
    by (simp add: mapping_equal_def GATEWAY_MOUNTS_def type_strict_equal_def strict_equal_refl)
  have "gateway_mount_checks ex_gateway = Inr []"
    by (simp add: gateway_mount_checks_def m py_iter_def py_len_def n e check_true_def)
  then show ?thesis using t by (simp add: gateway_checks_def in_order_Nil differ_all_satisfies m image_checks_def check_true_def d differs_def type_strict_equal_def)
qed

lemma ex_broker_checks: "broker_checks ex_broker (Some BROKER_ADMITTED_IMAGE) None = Inr []"
proof -
  have d: "BROKER_IMAGE_PATTERN BROKER_ADMITTED_IMAGE"
    by (simp add: BROKER_IMAGE_PATTERN_def digest_after_def BROKER_ADMITTED_IMAGE_def BROKER_ADMITTED_REPOSITORY_def BROKER_ADMITTED_DIGEST_def is_digit_def)
  have t: "satisfies ex_broker BROKER_CHECKS" "satisfies ex_broker [([''name''], JStr ''broker-observer'', ''Broker Observer container name'')]"
    by (simp_all add: satisfies_def BROKER_CHECKS_def ex_broker_def from_table_def strict_equal_refl)
  have "jget_or ''image'' (JStr []) ex_broker = Inr (JStr BROKER_ADMITTED_IMAGE)"
    by (simp add: ex_broker_def from_table_def BROKER_CHECKS_def)
  then show ?thesis using t by (simp add: broker_checks_def in_order_Nil differ_all_satisfies image_checks_def check_true_def d differs_def type_strict_equal_def)
qed

lemma ex_volume_checks: "volume_checks ex_ib_pod = Inr []"
proof -
  obtain vs where v: "IB_VOLUMES = JList vs" "length vs = 5" "\<exists>r. by_name [] vs = Inr r \<and> length r = 5" "keys_ok IB_VOLUMES"
    by (simp add: IB_VOLUMES_def hashable_def key_eq_def)
  have "jget_or ''volumes'' (JList []) ex_ib_pod = Inr IB_VOLUMES" by (simp add: ex_ib_pod_def from_table_def IB_POD_CHECKS_def)
  moreover have "py_iter IB_VOLUMES = Inr vs" "py_len IB_VOLUMES = Inr 5" unfolding v(1) py_iter_def py_len_def using v(2) by simp_all
  ultimately show ?thesis using v(3) strict_equal_refl [OF v(4)] by (auto simp: volume_checks_def check_true_def differs_def type_strict_equal_def)
qed

lemma ex_mount_checks: "mount_checks [ex_gateway, ex_broker] = Inr []"
proof -
  have g: "mounts_of chosen ex_gateway = rbind (rfilter (\<lambda>m. rbind (jget ''name'' m) chosen) (map snd GATEWAY_MOUNTS)) (\<lambda>found. Inr (map (Pair (JStr ''ib-gateway-paper'')) found))" for chosen
    by (simp add: mounts_of_def ex_gateway_def from_table_def GATEWAY_CHECKS_def py_iter_def GATEWAY_MOUNTS_def)
  have b: "mounts_of chosen ex_broker = rbind (rfilter (\<lambda>m. rbind (jget ''name'' m) chosen)
      [JDict [(''mountPath'', JStr ''/tmp''), (''mountPropagation'', JStr ''None''), (''name'', JStr ''observer-tmp'')]]) (\<lambda>found. Inr (map (Pair (JStr ''broker-observer'')) found))" for chosen
    by (simp add: mounts_of_def ex_broker_def from_table_def BROKER_CHECKS_def py_iter_def)
  have k: "keys_ok RUNTIME_MOUNTS" "keys_ok OBSERVER_TMP_MOUNTS" "keys_ok WRITABLE_MOUNTS" by (simp_all add: RUNTIME_MOUNTS_def OBSERVER_TMP_MOUNTS_def WRITABLE_MOUNTS_def)
  show ?thesis using k [THEN strict_equal_refl]
    by (simp add: mount_checks_def all_mounts_def g b GATEWAY_MOUNTS_def differs_def type_strict_equal_def RUNTIME_MOUNTS_def OBSERVER_TMP_MOUNTS_def WRITABLE_MOUNTS_def)
qed

definition ex_images :: images where
  "ex_images = \<lparr>policy_image = Some ADMITTED_IMAGE, broker_policy_image = Some BROKER_ADMITTED_IMAGE, expected_image = None, expected_broker_observer_image = None\<rparr>"

lemma ex_pod_checks: "pod_checks ex_ib_pod ex_images = Inr []"
proof -
  have f: "check_fields ex_ib_pod POD_FIELDS ''Pod spec fields'' = Inr []"
    by (simp add: ex_ib_pod_def check_fields_Nil from_table_def IB_POD_CHECKS_def POD_FIELDS_def insert_commute)
  have a: "check_absent ex_ib_pod [''ephemeralContainers'', ''hostIPC'', ''hostNetwork'', ''hostPID'', ''initContainers''] ''Pod spec'' = Inr []"
    by (simp add: ex_ib_pod_def check_absent_def set_of_def hash_set_def py_iter_def from_table_def IB_POD_CHECKS_def hashable_def)
  have t: "satisfies ex_ib_pod IB_POD_CHECKS" by (simp add: satisfies_def IB_POD_CHECKS_def ex_ib_pod_def from_table_def strict_equal_refl)
  have c: "jget_or ''containers'' (JList []) ex_ib_pod = Inr (JList [ex_gateway, ex_broker])" "list_field ''initContainers'' ex_ib_pod = Inr []"
      "list_field ''ephemeralContainers'' ex_ib_pod = Inr []"
    by (simp_all add: ex_ib_pod_def from_table_def IB_POD_CHECKS_def list_field_def)
  have n: "name_of ex_gateway = JStr ''ib-gateway-paper''" "name_of ex_broker = JStr ''broker-observer''" "is_dict ex_gateway" "is_dict ex_broker"
    by (simp_all add: name_of_def ex_gateway_def ex_broker_def from_table_def GATEWAY_CHECKS_def BROKER_CHECKS_def)
  have "containers_checks ex_ib_pod [ex_gateway, ex_broker] ex_images = Inr []"
    using ex_container_checks ex_gateway_checks ex_broker_checks ex_volume_checks ex_mount_checks
    by (simp add: containers_checks_def two_containers_def n c in_order_Nil ex_images_def)
  then show ?thesis using f a t
    by (simp add: pod_checks_def in_order_Nil differ_all_satisfies c py_iter_def py_len_def differs_Nil strict_equal_JList name_of_def [symmetric] n)
qed

lemma ex_deployment_checks: "validate_deployment ex_deployment ex_images = Inr []"
proof -
  let ?spec = "JDict (from_table DEPLOYMENT_SPEC_CHECKS @ [(''template'', JDict [(''metadata'', JDict [(''labels'', APP_LABELS)]), (''spec'', ex_ib_pod)])])"
  have "satisfies ex_deployment DEPLOYMENT_CHECKS" by (simp add: satisfies_def DEPLOYMENT_CHECKS_def ex_deployment_def APP_LABELS_def strict_equal_refl)
  moreover have "jget_or ''spec'' (JDict []) ex_deployment = Inr ?spec" by (simp add: ex_deployment_def)
  moreover have "check_fields ?spec [''replicas'', ''selector'', ''strategy'', ''template''] ''Deployment spec fields'' = Inr []"
    by (simp add: check_fields_Nil from_table_def DEPLOYMENT_SPEC_CHECKS_def insert_commute)
  moreover have "satisfies ?spec DEPLOYMENT_SPEC_CHECKS" by (simp add: satisfies_def DEPLOYMENT_SPEC_CHECKS_def from_table_def APP_LABELS_def strict_equal_refl)
  moreover have "jget_or ''template'' (JDict []) ?spec = Inr (JDict [(''metadata'', JDict [(''labels'', APP_LABELS)]), (''spec'', ex_ib_pod)])"
    by (simp add: from_table_def DEPLOYMENT_SPEC_CHECKS_def)
  moreover have "satisfies (JDict [(''metadata'', JDict [(''labels'', APP_LABELS)]), (''spec'', ex_ib_pod)]) TEMPLATE_CHECKS"
    by (simp add: satisfies_def TEMPLATE_CHECKS_def APP_LABELS_def strict_equal_refl)
  ultimately show ?thesis using ex_pod_checks by (simp add: validate_deployment_def in_order_Nil differ_all_satisfies)
qed

lemma ex_entrypoints:
  "discover_apps_entrypoint ex_ib_world = Inr [''repo'', ''apps'']" "discover_storage_entrypoint ex_ib_world = Inr [''repo'', ''storage'']"
  by (simp_all add: discover_apps_entrypoint_def discover_storage_entrypoint_def discover_flux_entrypoint_def ex_ib_world_def ex_yaml_def parts_def
      APPS_FLUX_KUSTOMIZATION_def STORAGE_FLUX_KUSTOMIZATION_def ex_flux_def flux_identity_def declared_relative_def safe_relative_def as_posix_def
      posix_root_def)

lemma ex_sources:
  "validate_policy_records_not_rendered ex_ib_world [''repo'', ''apps''] = Inr []" "classify_deployment_source_set ex_ib_world apps = (''deployment'', [])"
  "render_entrypoint ex_ib_world [''repo'', ''apps''] = Inr ''/repo/apps''" "render_entrypoint ex_ib_world [''repo'', ''storage''] = Inr ''/repo/storage''"
  by (simp_all add: validate_policy_records_not_rendered_def ex_ib_world_def ex_yaml_def file_name_def parts_def IB_DEPLOYMENT_POLICY_RECORD_def
      BROKER_DEPLOYMENT_POLICY_RECORD_def check_true_def py_iter_def classify_deployment_source_set_def render_entrypoint_def path_text_def)

definition ex_ids :: "ident3 list" where
  "ex_ids = [(JStr ''Namespace'', JStr IB_NAMESPACE, JNull), pvc_id, deployment_id,
     (JStr ''NetworkPolicy'', JStr ''ib-gateway-paper-default-deny'', JStr IB_NAMESPACE), (JStr ''CiliumNetworkPolicy'', JStr ''ib-gateway-paper'', JStr IB_NAMESPACE)]"

lemma ex_resource_id_all:
  "resource_id (JDict (from_table NAMESPACE_CHECKS)) = Inr (JStr ''Namespace'', JStr IB_NAMESPACE, JNull)" "resource_id (JDict (from_table PVC_CHECKS)) = Inr pvc_id"
  "resource_id ex_deployment = Inr deployment_id" "resource_id (ex_policy_of kind name d) = Inr (JStr kind, JStr name, JStr IB_NAMESPACE)"
  by (simp_all add: resource_id_def from_table_def NAMESPACE_CHECKS_def PVC_CHECKS_def ex_deployment_def ex_policy_of_def pvc_id_def deployment_id_def)

lemma ex_governed:
  "load_resources ex_ib_world ''/repo/apps'' = Inr ex_apps" "load_resources ex_ib_world ''/repo/storage'' = Inr [ex_storage]"
  "rfilter is_governed_resource ex_apps = Inr ex_apps" "index_resources [] ex_apps = Inr ([], zip ex_ids ex_apps)"
proof -
  show "load_resources ex_ib_world ''/repo/apps'' = Inr ex_apps" "load_resources ex_ib_world ''/repo/storage'' = Inr [ex_storage]"
    by (simp_all add: load_resources_def ex_ib_world_def ex_apps_def ex_storage_def ex_deployment_def ex_policy_of_def from_table_def NAMESPACE_CHECKS_def PVC_CHECKS_def)
  show "rfilter is_governed_resource ex_apps = Inr ex_apps"
    by (simp add: ex_apps_def is_governed_resource_def ex_resource_id_all pvc_id_def deployment_id_def)
  show "index_resources [] ex_apps = Inr ([], zip ex_ids ex_apps)"
    by (simp add: ex_apps_def ex_ids_def ex_resource_id_all pvc_id_def deployment_id_def hashable_def same_id_def key_eq_def)
qed

lemma ex_kinds:
  "of_kind ''PersistentVolumeClaim'' ex_apps = [JDict (from_table PVC_CHECKS)]" "of_kind ''Deployment'' ex_apps = [ex_deployment]" "exposure_checks ex_apps = Inr []"
  by (simp_all add: of_kind_def exposure_checks_def ex_apps_def FORBIDDEN_EXPOSURE_KINDS_def from_table_def NAMESPACE_CHECKS_def PVC_CHECKS_def ex_deployment_def
      ex_policy_of_def check_true_def)

lemma ex_policies: "policy_checks ex_ib_world apps ''deployment'' = Inr ([], Some ADMITTED_IMAGE, Some BROKER_ADMITTED_IMAGE)"
proof -
  have k: "keys_ok EXPECTED_IB_DEPLOYMENT_POLICY" "keys_ok EXPECTED_BROKER_DEPLOYMENT_POLICY"
    by (simp_all add: EXPECTED_IB_DEPLOYMENT_POLICY_def EXPECTED_BROKER_DEPLOYMENT_POLICY_def)
  have r: "policy_reference EXPECTED_IB_DEPLOYMENT_POLICY role = ([], Some ADMITTED_IMAGE)" "policy_reference EXPECTED_BROKER_DEPLOYMENT_POLICY role = ([], Some BROKER_ADMITTED_IMAGE)" for role
    by (simp_all add: policy_reference_def EXPECTED_IB_DEPLOYMENT_POLICY_def EXPECTED_BROKER_DEPLOYMENT_POLICY_def derived_reference_def differs_def type_strict_equal_def
        ADMITTED_IMAGE_def BROKER_ADMITTED_IMAGE_def)
  have y: "ib_is_file ex_ib_world p" "ib_yaml ex_ib_world (apps @ parts IB_DEPLOYMENT_POLICY_RECORD) = Inr EXPECTED_IB_DEPLOYMENT_POLICY"
      "ib_yaml ex_ib_world (apps @ parts BROKER_DEPLOYMENT_POLICY_RECORD) = Inr EXPECTED_BROKER_DEPLOYMENT_POLICY" for p
    by (simp_all add: ex_ib_world_def ex_yaml_def parts_def IB_DEPLOYMENT_POLICY_RECORD_def BROKER_DEPLOYMENT_POLICY_RECORD_def)
  show ?thesis using k [THEN strict_equal_refl] by (simp add: policy_checks_def validate_deployment_policy_def y r differs_def type_strict_equal_def)
qed

lemma ex_foundation:
  "validate_namespace (JDict (from_table NAMESPACE_CHECKS)) = Inr []" "validate_pvc (JDict (from_table PVC_CHECKS)) = Inr []"
  "validate_network_policy (ex_policy_of kind name (from_table NETWORK_POLICY_CHECKS)) = Inr []" "storage_checks ex_ib_world = Inr []"
proof -
  show "validate_namespace (JDict (from_table NAMESPACE_CHECKS)) = Inr []" "validate_pvc (JDict (from_table PVC_CHECKS)) = Inr []"
    by (simp_all add: validate_namespace_def validate_pvc_def in_order_Nil check_fields_Nil differ_all_satisfies satisfies_def from_table_def NAMESPACE_CHECKS_def
        PVC_CHECKS_def NAMESPACE_LABELS_def strict_equal_refl insert_commute)
  show "validate_network_policy (ex_policy_of kind name (from_table NETWORK_POLICY_CHECKS)) = Inr []"
    by (simp add: validate_network_policy_def differ_all_satisfies satisfies_def ex_policy_of_def from_table_def NETWORK_POLICY_CHECKS_def APP_LABELS_def strict_equal_refl)
  have "named ''StorageClass'' ''local-path-retain'' ex_storage = Inr True" by (simp add: named_def ex_storage_def)
  moreover have "validate_storage_class ex_storage = Inr []"
    by (simp add: validate_storage_class_def differ_all_satisfies satisfies_def STORAGE_CLASS_CHECKS_def ex_storage_def)
  ultimately show "storage_checks ex_ib_world = Inr []" by (simp add: storage_checks_def ex_entrypoints ex_sources ex_governed)
qed

lemma ex_cilium: "validate_cilium_policy (ex_policy_of kind name [(''apiVersion'', JStr ''cilium.io/v2''), (''spec'', CILIUM_SPEC)]) = Inr []"
proof -
  have k: "keys_ok CILIUM_SPEC" by (simp add: CILIUM_SPEC_def exact_names_def DNS_NAMES_def APP_LABELS_def)
  have n: "list_all (\<lambda>fqdn. check_absent fqdn [''matchPattern''] label = Inr []) (map (\<lambda>name. JDict [(''matchName'', JStr name)]) DNS_NAMES)" for label
    by (simp add: list_all_iff check_absent_def set_of_def hash_set_def py_iter_def hashable_def)
  have "\<exists>rules. jget_or ''egress'' (JList []) CILIUM_SPEC = Inr (JList rules) \<and> list_all (\<lambda>rule. egress_rule_checks rule = Inr []) rules"
    using n by (simp add: CILIUM_SPEC_def egress_rule_checks_def in_order_Nil check_absent_def set_of_def hash_set_def py_iter_def hashable_def BROAD_EGRESS_KEYS_def exact_names_def list_all_iff)
  then show ?thesis using strict_equal_refl [OF k]
    by (auto simp: validate_cilium_policy_def in_order_Nil differ_all_satisfies satisfies_def ex_policy_of_def py_iter_def list_all_iff)
qed

lemma ex_ids_set: "set ex_ids = set (expected_ids ''deployment'')"
  by (auto simp: ex_ids_def expected_ids_def foundation_ids_def)

lemma ex_ib_accepted: "validate_ib ex_ib_world ''auto'' None None = Inr ([], ''deployment'')"
proof -
  have t: "truthy (JDict (from_table NAMESPACE_CHECKS))" "truthy (JDict (from_table PVC_CHECKS))" "truthy ex_deployment" "truthy (ex_policy_of k n d)" for k n d
    by (simp_all add: from_table_def NAMESPACE_CHECKS_def PVC_CHECKS_def ex_deployment_def ex_policy_of_def)
  have g: "governed_checks ex_ib_world apps ''deployment'' (zip ex_ids ex_apps) None None = Inr []" for apps
    using ex_foundation(1-3) ex_cilium ex_deployment_checks
    by (simp add: governed_checks_def ex_policies in_order_def check_indexed_def ex_ids_def ex_apps_def pvc_id_def deployment_id_def t ex_images_def)
  have p: "phase_checks ''deployment'' ex_apps = Inr []"
    by (simp add: phase_checks_def in_order_Nil only_id_def ex_kinds ex_resource_id_all check_true_def)
  have "map fst (zip ex_ids ex_apps) = ex_ids" by (simp add: ex_ids_def ex_apps_def)
  then have i: "fst ` set (zip ex_ids ex_apps) = set (expected_ids ''deployment'')"
    by (metis list.set_map ex_ids_set)
  show ?thesis
    unfolding validate_ib_def
    by (simp add: ex_entrypoints ex_sources ex_governed phase_of_def ex_kinds in_order_def p g i ex_foundation(4) check_true_def expected_image_checks_def)
qed

theorem ib_resource_set_exact_witness:
  "\<exists>apps rendered loaded resources ids. discover_apps_entrypoint ex_ib_world = Inr apps \<and> render_entrypoint ex_ib_world apps = Inr rendered
    \<and> load_resources ex_ib_world rendered = Inr loaded \<and> rfilter is_governed_resource loaded = Inr resources
    \<and> rmap resource_id resources = Inr ids \<and> distinct ids \<and> set ids = set (expected_ids ''deployment'')"
  using ib_resource_set_exact [OF ex_ib_accepted] by (elim exE conjE, intro exI conjI) assumption+

theorem ib_deployment_admitted_witness:
  "\<exists>apps rendered loaded deployment pod. discover_apps_entrypoint ex_ib_world = Inr apps \<and> render_entrypoint ex_ib_world apps = Inr rendered
    \<and> load_resources ex_ib_world rendered = Inr loaded \<and> deployment \<in> set loaded
    \<and> sub_at [''spec'', ''template'', ''spec''] deployment = Inr pod \<and> pod_admitted pod ADMITTED_IMAGE BROKER_ADMITTED_IMAGE"
  using ib_deployment_admitted [OF ex_ib_accepted] by (elim exE conjE, intro exI conjI) assumption+

end
