(* ===== verification/Admission_Liveness.thy ===== *)
theory Admission_Liveness
  imports Admission_Example
begin

section \<open>A recovery comes to its end\<close>

text \<open>
  The other properties of the protocol say what no run does. Here the recovery makes progress: in a cluster that answers
  and in which nobody else writes, \<^verbatim>\<open>recover\<close> ends without an exception after a bounded number of actions, and
  then the state is \<^verbatim>\<open>DONE\<close> and the runner is not paused. \<open>completes\<close> is the total counterpart of the
  weakest precondition of \<open>Prog\<close>: the environment is a relation, it has an answer to every action, and no answer of it
  may lead to an exception.
\<close>

subsection \<open>Programs that complete\<close>

primrec completes :: "('e \<Rightarrow> 'q \<Rightarrow> 'r \<Rightarrow> 'e \<Rightarrow> bool) \<Rightarrow> ('q, 'r, 'a) prog \<Rightarrow> ('a \<Rightarrow> 'e \<Rightarrow> bool) \<Rightarrow> 'e \<Rightarrow> bool" where
  "completes env (Ret x) Q e = Q x e"
| "completes env (Fail ex) Q e = False"
| "completes env OutOfFuel Q e = False"
| "completes env (Act q k) Q e = ((\<exists>r e'. env e q r e') \<and> (\<forall>r e'. env e q r e' \<longrightarrow> completes env (k r) Q e'))"

inductive served :: "('e \<Rightarrow> 'q \<Rightarrow> 'r \<Rightarrow> 'e \<Rightarrow> bool) \<Rightarrow> 'e \<Rightarrow> ('q \<times> 'r) list \<Rightarrow> 'e \<Rightarrow> bool" for env where
  Nothing: "served env e [] e"
| Answer: "env e q r e' \<Longrightarrow> served env e' t e'' \<Longrightarrow> served env e ((q, r) # t) e''"

inductive_cases served_ConsE: "served env e (a # t) e'"
inductive_cases served_NilE: "served env e [] e'"

lemma completes_pbind: "completes env m (\<lambda>x. completes env (f x) Q) e \<Longrightarrow> completes env (pbind m f) Q e"
  by (induction m arbitrary: e) auto

lemma completes_pcatch: "completes env m Q e \<Longrightarrow> completes env (pcatch m h) Q e"
  by (induction m arbitrary: e) auto

lemma completes_mono: "completes env m Q e \<Longrightarrow> (\<And>x e'. Q x e' \<Longrightarrow> R x e') \<Longrightarrow> completes env m R e"
  by (induction m arbitrary: e) auto

lemmas completes_bind = completes_pbind [OF completes_mono]

lemma completes_pure [simp]:
  "m = Inr x \<Longrightarrow> completes env (pbind (liftr m) f) Q e = completes env (f x) Q e"
  "c \<Longrightarrow> completes env (pbind (prequire c s) g) Q e = completes env (g ()) Q e"
  by (simp_all add: liftr_def prequire_def)

lemma runs_append: "runs p t p' \<Longrightarrow> runs p' t' p'' \<Longrightarrow> runs p (t @ t') p''"
  by (induction rule: runs.induct) auto

lemma completes_runs:
  "runs p t p' \<Longrightarrow> served env e t e' \<Longrightarrow> completes env p Q e \<Longrightarrow> completes env p' Q e'"
  by (induction arbitrary: e rule: runs.induct) (auto elim!: served_ConsE served_NilE)

text \<open>A program that completes has a run to its end.\<close>

lemma completes_ends: "completes env p Q e \<Longrightarrow> \<exists>t x e'. runs p t (Ret x) \<and> served env e t e' \<and> Q x e'"
proof (induction p arbitrary: e)
  case (Act q k)
  then obtain r e1 where r: "env e q r e1" "completes env (k r) Q e1" by auto
  from Act.IH [OF rangeI r(2)] obtain t x e' where "runs (k r) t (Ret x)" "served env e1 t e'" "Q x e'" by blast
  with r(1) show ?case by (intro exI [of _ "(q, r) # t"] exI [of _ x] exI [of _ e']) (auto intro: served.Answer)
next
  case (Ret x)
  then show ?case by (intro exI [of _ "[]"] exI [of _ x] exI [of _ e]) (simp add: served.Nothing)
qed simp_all

lemma at_most_pcatch: "at_most m a \<Longrightarrow> (\<And>ex. at_most (h ex) b) \<Longrightarrow> at_most (pcatch m h) (a + b)"
proof (induction m arbitrary: a)
  case (Act q k)
  have "at_most (pcatch (k r) h) (a - 1 + b)" for r
    by (rule Act.IH [OF rangeI]) (use Act.prems in auto)
  with Act.prems(1) show ?case by (simp add: diff_add_assoc2 [symmetric])
qed (simp_all add: at_most_le [of _ b])

subsection \<open>A quiet cluster\<close>

text \<open>
  The state object and the runner. A write of the state with the current resource version is
  installed under a new one, a write with any other one is answered by the status 409, and nobody else writes. The Pods are given by their payloads, and the clock reads times from
  \<open>lo\<close> up to \<open>hi\<close>.
\<close>

record quiet =
  q_cm :: dict
  q_paused :: bool

definition renewed :: "dict \<Rightarrow> string \<Rightarrow> dict" where
  "renewed body rv = AList.update ''metadata''
     (JDict (AList.update ''resourceVersion'' (JStr rv) (dsub ''metadata'' body))) body"

inductive quiet_step :: "store \<Rightarrow> (string \<Rightarrow> jval) \<Rightarrow> rat \<Rightarrow> rat \<Rightarrow> quiet \<Rightarrow> kact \<Rightarrow> kresp \<Rightarrow> quiet \<Rightarrow> bool"
  for st payload lo hi where
  Clock: "lo \<le> t \<Longrightarrow> t < hi \<Longrightarrow> quiet_step st payload lo hi e Now (Time t) e"
| ReadState: "http_result r = Inr (JDict (q_cm e), hs) \<Longrightarrow>
    quiet_step st payload lo hi e (Http (st_base st) ''GET'' STATE None) r e"
| WriteState: "http_result r = Inr (v, hs) \<Longrightarrow> rv_of body = rv_of (q_cm e) \<Longrightarrow> wf_text rv \<Longrightarrow> JStr rv \<noteq> rv_of body \<Longrightarrow>
    quiet_step st payload lo hi e (Http (st_base st) ''PUT'' STATE (Some (JDict body))) r (e\<lparr>q_cm := renewed body rv\<rparr>)"
| StaleWrite: "rv_of body \<noteq> rv_of (q_cm e) \<Longrightarrow>
    quiet_step st payload lo hi e (Http (st_base st) ''PUT'' STATE (Some (JDict body))) (NetHttpError 409) e"
| ReadPods: "http_result r = Inr (payload ns, hs) \<Longrightarrow>
    quiet_step st payload lo hi e (Http (st_base st) ''GET'' (pods_path ns) None) r e"
| ReadRunner: "http_result r = Inr (v, hs) \<Longrightarrow> runner_value v = Inr (q_paused e) \<Longrightarrow>
    quiet_step st payload lo hi e (Http GITLAB ''GET'' RUNNER_PATH None) r e"
| WriteRunner: "http_result r = Inr (v, hs) \<Longrightarrow>
    quiet_step st payload lo hi e (Http GITLAB ''PUT'' RUNNER_PATH (paused_body b)) r (e\<lparr>q_paused := b\<rparr>)"

inductive_cases quiet_NowE: "quiet_step st payload lo hi e Now r e'"
inductive_cases quiet_HttpE: "quiet_step st payload lo hi e (Http b verb path body) r e'"

subsection \<open>Objects that can be read\<close>

text \<open>
  \<^verbatim>\<open>HTTP.request\<close> refuses a response of more than 2,000,000 characters, so an object can be read only when it is
  small enough. \<open>roomy\<close> leaves the text of the state and the resource version out of account: they are replaced by
  a write, and those of a well-formed state are bounded (\<open>jsize_encode\<close>) when the hash and the policy have at most
  256 characters and the times at most twelve digits (\<open>in_range\<close>).
\<close>

definition data_size :: "dict \<Rightarrow> nat" where
  "data_size cm = jsize (dget ''data'' cm) + jsize (rv_of cm)"

definition roomy :: "dict \<Rightarrow> bool" where
  "roomy cm \<longleftrightarrow> good (JDict cm) \<and> jsize (JDict cm) \<le> 1000000 + data_size cm"

definition in_range :: "mstate \<Rightarrow> bool" where
  "in_range s \<longleftrightarrow> ms_heartbeat s < 10 ^ 12 \<and> (\<forall>p. ms_operation s = Some p \<longrightarrow> \<bar>op_slot p\<bar> < 10 ^ 12)
     \<and> (\<forall>g. ms_gc s = Some g \<longrightarrow> gc_claimed_at g < 10 ^ 12)"

definition short_digests :: "store \<Rightarrow> bool" where
  "short_digests st \<longleftrightarrow> length (st_policy st) \<le> 256 \<and> (\<forall>x. length (st_sha st x) \<le> 256)"

lemma jsize_update: "map_of d k = Some w \<Longrightarrow> jsize (JDict (AList.update k v d)) + jsize w = jsize (JDict d) + jsize v"
  by (induction d) (auto split: if_splits)

lemma plain_update: "plain (JDict d) \<Longrightarrow> plain v \<Longrightarrow> plain (JDict (AList.update k v d))"
  by (induction d) auto

lemma keys_ok_update: "keys_ok (JDict d) \<Longrightarrow> keys_ok v \<Longrightarrow> keys_ok (JDict (AList.update k v d))"
proof -
  assume d: "keys_ok (JDict d)" and v: "keys_ok v"
  from d v have "list_all (\<lambda>kv. keys_ok (snd kv)) (AList.update k v d)" by (induction d) auto
  with d show ?thesis by (simp add: distinct_update)
qed

lemma plain_member: "plain (JDict d) \<Longrightarrow> map_of d k = Some v \<Longrightarrow> plain v"
  and keys_ok_member: "keys_ok (JDict d) \<Longrightarrow> map_of d k = Some v \<Longrightarrow> keys_ok v"
  by (auto simp: list_all_iff dest!: map_of_SomeD)

lemma length_show_nat: "n < 10 ^ k \<Longrightarrow> 0 < k \<Longrightarrow> length (show_nat n) \<le> k"
proof (induction k arbitrary: n)
  case (Suc k)
  show ?case
  proof (cases "n < 10")
    case False
    with Suc.prems have "n div 10 < 10 ^ k" "0 < k" by (auto intro: gr0I)
    with Suc.IH [of "n div 10"] False show ?thesis by (simp add: show_nat.simps [of n])
  qed (simp add: show_nat.simps)
qed simp

lemma length_show_int: "\<bar>i\<bar> < 10 ^ k \<Longrightarrow> 0 < k \<Longrightarrow> length (show_int i) \<le> k + 1"
proof -
  assume i: "\<bar>i\<bar> < 10 ^ k" "0 < k"
  then have "nat \<bar>i\<bar> < 10 ^ k" by (simp add: nat_less_iff)
  from length_show_nat [OF this i(2)] show ?thesis by (auto simp: show_int_def abs_if split: if_splits)
qed

lemma jsize_ident: "wf_ident i \<Longrightarrow> jsize (enc_ident i) \<le> 8000"
  by (simp add: wf_ident_def wf_text_def enc_ident_def)

lemma jsize_opt_ident: "(\<And>i. x = Some i \<Longrightarrow> wf_ident i) \<Longrightarrow> jsize (enc_opt enc_ident x) \<le> 8000"
  using jsize_ident by (cases x) (auto simp: enc_opt_def)

lemma jsize_encode:
  assumes "wf_state (st_sha st) uid (st_policy st) s" and "in_range s" and "short_digests st"
  shows "jsize (encode s) \<le> 50000"
proof -
  have op: "jsize (enc_opt enc_op (ms_operation s)) \<le> 30000"
  proof (cases "ms_operation s")
    case (Some p)
    then have wf: "wf_operation (st_sha st) (st_policy st) (ms_phase s) p" and r: "\<bar>op_slot p\<bar> < 10 ^ 12"
      using assms(1,2) by (auto simp: wf_state_def in_range_def)
    have "length (show_int i) \<le> 14" if "i \<in> {op_slot p, op_slot p + 1200, op_slot p + 1800, op_slot p + 2700}" for i
      by (rule length_show_int [where k = 13, simplified]) (use that r in auto)
    then have n: "length (show_int (op_slot p)) \<le> 14" "length (show_int (op_slot p + 1200)) \<le> 14"
      "length (show_int (op_slot p + 1800)) \<le> 14" "length (show_int (op_slot p + 2700)) \<le> 14" by simp_all
    have i: "jsize (enc_ident (op_coordinator p)) \<le> 8000" "jsize (enc_opt enc_ident (op_worker p)) \<le> 8000"
      "jsize (enc_opt enc_ident (op_holder p)) \<le> 8000"
      using wf by (auto simp: wf_operation_def intro!: jsize_ident jsize_opt_ident)
    have t: "length (op_outcome p) \<le> 256" "length (op_id p) \<le> 256" "length (write_str (op_write p)) \<le> 10"
      using wf assms(3) by (simp_all add: wf_operation_def wf_text_def short_digests_def operation_hash_def) (cases "op_write p"; simp)
    from n i t wf Some show ?thesis by (simp add: enc_opt_def enc_op_def wf_operation_def)
  qed (simp add: enc_opt_def)
  have gc: "jsize (enc_opt enc_gc (ms_gc s)) \<le> 9000"
  proof (cases "ms_gc s")
    case (Some g)
    then have "wf_ident (gc_ident g)" "length (show_int (gc_claimed_at g)) \<le> 14"
      using assms(1,2) length_show_int [of "gc_claimed_at g" 12] by (auto simp: wf_state_def in_range_def wf_gc_def)
    with Some jsize_ident [of "gc_ident g"] show ?thesis by (simp add: enc_opt_def enc_gc_def)
  qed (simp add: enc_opt_def)
  have "length (show_int (ms_heartbeat s)) \<le> 13" "length (phase_str (ms_phase s)) \<le> 12"
    using assms(1,2) length_show_int [of "ms_heartbeat s" 12]
    by (auto simp: wf_state_def in_range_def) (cases "ms_phase s"; simp)
  with op gc assms(1,3) show ?thesis
    by (simp add: encode_def wf_state_def short_digests_def wf_text_def show_int_def show_nat.simps)
qed

text \<open>The object holds a state that the store accepts, and there is room in it.\<close>

definition keeps :: "store \<Rightarrow> string \<Rightarrow> quiet \<Rightarrow> mstate \<Rightarrow> bool" where
  "keeps st uid e s \<longleftrightarrow> read_cm st (Some uid) (JDict (q_cm e)) = Inr (q_cm e, s, uid) \<and> roomy (q_cm e) \<and> in_range s"

lemma keeps_wf: "keeps st uid e s \<Longrightarrow> wf_state (st_sha st) uid (st_policy st) s" "keeps st uid e s \<Longrightarrow> in_range s"
  unfolding keeps_def by (auto dest: read_cm_Inr)

lemma keeps_first: "keeps st uid e s \<Longrightarrow> latch = None \<or> latch = Some uid \<Longrightarrow> read_cm st latch (JDict (q_cm e)) = Inr (q_cm e, s, uid)"
  unfolding keeps_def read_cm_iff by auto

lemma keeps_meta:
  assumes "keeps st uid e s"
  obtains meta data rv where "map_of (q_cm e) ''kind'' = Some (JStr ''ConfigMap'')" "map_of (q_cm e) ''metadata'' = Some (JDict meta)"
    "meta_ok meta uid" "map_of (q_cm e) ''data'' = Some data" "map_of meta ''resourceVersion'' = Some (JStr rv)"
proof -
  obtain meta data where m: "dget ''kind'' (q_cm e) = JStr ''ConfigMap''" "dget_or ''metadata'' (JDict []) (q_cm e) = JDict meta"
      "meta_ok meta uid" "jitem ''data'' (JDict (q_cm e)) = Inr data"
    using assms unfolding keeps_def read_cm_iff by blast
  obtain rv where "dget ''resourceVersion'' meta = JStr rv" using m(3) by (auto simp: meta_ok_def text_ok_iff dec_str_iff)
  with m show ?thesis
    by (intro that [of meta data rv]) (auto simp: dget_def dget_or_def meta_ok_def jitem_JDict split: option.splits)
qed

lemma roomy_installed:
  assumes "roomy cm" and "map_of cm ''metadata'' = Some (JDict meta)" and "map_of cm ''data'' = Some data"
    and "map_of meta ''resourceVersion'' = Some (JStr rv0)" and "jsize (encode s) \<le> 50000" and "wf_text rv"
  shows "roomy (renewed (desired cm s) rv)"
proof -
  let ?data = "JDict [(''state.json'', JStr (json_dumps (encode s)))]" and ?meta = "AList.update ''resourceVersion'' (JStr rv) meta"
  let ?cm = "renewed (desired cm s) rv"
  have m: "dsub ''metadata'' cm = meta" using assms(2) by (simp add: dsub_def dget_def)
  then have cm: "?cm = AList.update ''metadata'' (JDict ?meta) (AList.update ''data'' ?data cm)"
    by (simp add: renewed_def meta_desired) (simp add: desired_def)
  have ok: "plain (JDict cm)" "keys_ok (JDict cm)" using assms(1) by (simp_all add: roomy_def good_def)
  have "plain (JDict ?cm)" "keys_ok (JDict ?cm)"
    unfolding cm using ok plain_member [OF ok(1) assms(2)] keys_ok_member [OF ok(2) assms(2)]
    by (intro plain_update keys_ok_update; simp)+
  moreover have old: "data_size cm = jsize data + jsize (JStr rv0)"
    using assms(3,4) m by (simp add: data_size_def rv_of_def dget_def)
  moreover have new: "data_size ?cm = jsize ?data + jsize (JStr rv)"
    by (simp add: cm data_size_def rv_of_def dsub_def dget_def update_conv')
  moreover have "jsize (JDict ?cm) + jsize (JDict meta) = jsize (JDict (AList.update ''data'' ?data cm)) + jsize (JDict ?meta)"
    unfolding cm by (rule jsize_update) (use assms(2) in \<open>simp add: update_conv'\<close>)
  moreover have "jsize (JDict (AList.update ''data'' ?data cm)) + jsize data = jsize (JDict cm) + jsize ?data"
    by (rule jsize_update [OF assms(3)])
  moreover have "jsize (JDict ?meta) + jsize (JStr rv0) = jsize (JDict meta) + jsize (JStr rv)"
    by (rule jsize_update [OF assms(4)])
  moreover have "jsize ?data \<le> 400000" "jsize (JStr rv) \<le> 2000"
    using length_dumps [of s] assms(5,6) by (simp_all add: wf_text_def)
  moreover have "jsize (JDict cm) \<le> 1000000 + data_size cm" using assms(1) by (simp add: roomy_def)
  ultimately show ?thesis unfolding roomy_def good_def by linarith
qed

lemma keeps_installed:
  assumes "keeps st uid e s" and "wf_state (st_sha st) uid (st_policy st) s'" and "in_range s'" and "short_digests st" and "wf_text rv"
  shows "keeps st uid (e'\<lparr>q_cm := renewed (desired (q_cm e) s') rv\<rparr>) s'"
proof -
  obtain meta data rv0 where m: "map_of (q_cm e) ''kind'' = Some (JStr ''ConfigMap'')" "map_of (q_cm e) ''metadata'' = Some (JDict meta)"
      "meta_ok meta uid" "map_of (q_cm e) ''data'' = Some data" "map_of meta ''resourceVersion'' = Some (JStr rv0)"
    by (rule keeps_meta [OF assms(1)])
  have "dsub ''metadata'' (q_cm e) = meta" using m(2) by (simp add: dsub_def dget_def)
  then have d: "dsub ''metadata'' (desired (q_cm e) s') = meta" by (simp add: meta_desired)
  have "roomy (renewed (desired (q_cm e) s') rv)"
    using roomy_installed [OF _ m(2,4,5) jsize_encode [OF assms(2-4)] assms(5)] assms(1) by (simp add: keeps_def)
  moreover have "read_cm st (Some uid) (JDict (renewed (desired (q_cm e) s') rv)) = Inr (renewed (desired (q_cm e) s') rv, s', uid)"
    unfolding read_cm_iff using m assms(2,5)
    by (auto simp: renewed_def d dget_def dget_or_def update_conv' map_of_desired meta_ok_def jitem_JDict load_state_dumps split: if_splits)
  ultimately show ?thesis using assms(3) by (simp add: keeps_def)
qed

subsection \<open>The steps of the recovery\<close>

definition quiet_ok :: "store \<Rightarrow> (string \<Rightarrow> jval) \<Rightarrow> jval list \<Rightarrow> rat \<Rightarrow> rat \<Rightarrow> bool" where
  "quiet_ok st payload snapshot lo hi \<longleftrightarrow> st_base st \<noteq> GITLAB \<and> short_digests st
     \<and> 0 \<le> lo \<and> lo < hi \<and> hi + 60 \<le> of_int TOKEN_EXPIRY
     \<and> (\<forall>ns \<in> {''ci'', CONTROL_NAMESPACE, WORKER_NAMESPACE}. good (payload ns))
     \<and> rbind (pods_payload ''ci'' (payload ''ci'')) (\<lambda>a.
       rbind (pods_payload CONTROL_NAMESPACE (payload CONTROL_NAMESPACE)) (\<lambda>b.
       rbind (pods_payload WORKER_NAMESPACE (payload WORKER_NAMESPACE)) (\<lambda>c. merge_snapshots a b c))) = Inr snapshot"

lemma quiet_okD:
  assumes "quiet_ok st payload snapshot lo hi"
  shows "st_base st \<noteq> GITLAB" "short_digests st" "0 \<le> lo" "lo < hi" "hi + 60 \<le> of_int TOKEN_EXPIRY" "hi < 10 ^ 12"
proof -
  show "st_base st \<noteq> GITLAB" "short_digests st" "0 \<le> lo" "lo < hi" and t: "hi + 60 \<le> of_int TOKEN_EXPIRY"
    using assms by (simp_all add: quiet_ok_def)
  have "(of_int TOKEN_EXPIRY :: rat) < 10 ^ 12"
    by (simp add: TOKEN_EXPIRY_def timestamp_def date_ordinal_def days_before_month_def days_in_month_def is_leap_def upto.simps)
  with t show "hi < 10 ^ 12" by linarith
qed

lemma paths_differ [simp]: "STATE \<noteq> pods_path ns" "pods_path ns \<noteq> STATE" "pods_path a = pods_path b \<longleftrightarrow> a = b"
  by (auto simp: STATE_def pods_path_def)

lemma quiet_reply: "http_result (reply JNull) = Inr (JNull, [])"
  by (rule good_reply) (simp add: good_def)

lemma completes_now: "completes (quiet_step st payload lo hi) now (\<lambda>t e'. e' = e \<and> lo \<le> t \<and> t < hi) e"
  if "quiet_ok st payload snapshot lo hi"
proof -
  have "quiet_step st payload lo hi e Now (Time lo) e" by (rule quiet_step.Clock) (use quiet_okD(4) [OF that] in auto)
  then show ?thesis by (auto simp: now_def elim: quiet_NowE)
qed

text \<open>A request completes when the cluster answers it and every answer is one the program accepts.\<close>

lemma completes_request:
  assumes "prefix ''/'' path" and "\<not> prefix ''//'' path" and "base \<noteq> GITLAB \<or> gitlab_authority verb path body"
    and "env e (Http base verb path body) r0 e0"
    and "\<And>r e'. env e (Http base verb path body) r e' \<Longrightarrow> \<exists>x. http_result r = Inr x \<and> Q x e'"
  shows "completes env (request base verb path body) Q e"
  using assms(1-4) by (fastforce simp: request_def dest: assms(5))

lemma completes_read:
  assumes q: "quiet_ok st payload snapshot lo hi" and k: "keeps st uid e s" and "latch = None \<or> latch = Some uid"
  shows "completes (quiet_step st payload lo hi) (store_read st latch) (\<lambda>x e'. e' = e \<and> x = (q_cm e, s, uid)) e"
proof -
  have "completes (quiet_step st payload lo hi) (request (st_base st) ''GET'' STATE None)
      (\<lambda>x e'. e' = e \<and> fst x = JDict (q_cm e)) e"
  proof (rule completes_request)
    have "good (JDict (q_cm e))" using k by (simp add: keeps_def roomy_def)
    then show "quiet_step st payload lo hi e (Http (st_base st) ''GET'' STATE None) (reply (JDict (q_cm e))) e"
      by (intro quiet_step.ReadState [OF good_reply])
  qed (use quiet_okD(1) [OF q] in \<open>auto simp: STATE_def pods_path_def elim!: quiet_HttpE\<close>)
  then show ?thesis unfolding store_read_def
    by (elim completes_bind) (auto simp: keeps_first [OF assms(2,3)])
qed

lemma completes_save:
  assumes q: "quiet_ok st payload snapshot lo hi" and k: "keeps st uid e s"
    and wf: "wf_state (st_sha st) uid (st_policy st) s'" "in_range s'"
  shows "completes (quiet_step st payload lo hi) (store_save st uid (q_cm e) s')
    (\<lambda>x e'. x = s' \<and> keeps st uid e' s' \<and> q_paused e' = q_paused e) e"
proof -
  have v: "validate (st_sha st) (encode s') uid (st_policy st) = Inr ()" using wf by (simp add: validate_encode)
  have rv: "rv_of (desired (q_cm e) s') = rv_of (q_cm e)" by (simp add: rv_of_def meta_desired)
  have "wf_text ''1''" "wf_text ''2''" "JStr ''1'' \<noteq> JStr ''2''" by (simp_all add: wf_text_def)
  then obtain rv where new: "wf_text rv" "JStr rv \<noteq> rv_of (desired (q_cm e) s')" by metis
  have "completes (quiet_step st payload lo hi) (request (st_base st) ''PUT'' STATE (Some (JDict (desired (q_cm e) s'))))
      (\<lambda>x e'. keeps st uid e' s' \<and> q_paused e' = q_paused e) e"
  proof (rule completes_request)
    show "quiet_step st payload lo hi e (Http (st_base st) ''PUT'' STATE (Some (JDict (desired (q_cm e) s')))) (reply JNull)
        (e\<lparr>q_cm := renewed (desired (q_cm e) s') rv\<rparr>)"
      by (rule quiet_step.WriteState [OF quiet_reply rv new])
  qed (use quiet_okD(1,2) [OF q] rv keeps_installed [OF k wf] in \<open>auto simp: STATE_def elim!: quiet_HttpE\<close>)
  then show ?thesis unfolding store_save_def v
    by (simp, elim completes_bind) (auto intro!: completes_bind [OF completes_read [OF q]])
qed

lemma completes_pods:
  assumes q: "quiet_ok st payload snapshot lo hi"
    and p: "pods_payload ns (payload ns) = Inr ps" "ns \<in> {''ci'', CONTROL_NAMESPACE, WORKER_NAMESPACE}"
  shows "completes (quiet_step st payload lo hi) (pods (st_base st) ns) (\<lambda>x e'. e' = e \<and> x = ps) e"
proof -
  have "completes (quiet_step st payload lo hi) (request (st_base st) ''GET'' (pods_path ns) None)
      (\<lambda>x e'. e' = e \<and> fst x = payload ns) e"
  proof (rule completes_request)
    have "good (payload ns)" using q p(2) by (auto simp: quiet_ok_def)
    then show "quiet_step st payload lo hi e (Http (st_base st) ''GET'' (pods_path ns) None) (reply (payload ns)) e"
      by (intro quiet_step.ReadPods [OF good_reply])
  qed (use quiet_okD(1) [OF q] in \<open>auto simp: pods_path_def STATE_def elim!: quiet_HttpE\<close>)
  then have "completes (quiet_step st payload lo hi) (pbind (request (st_base st) ''GET'' (pods_path ns) None)
      (\<lambda>(value, _). liftr (pods_payload ns value))) (\<lambda>x e'. e' = e \<and> x = ps) e"
    by (elim completes_bind) (auto simp: p(1))
  with p(2) show ?thesis by (auto simp: pods_def)
qed

lemma completes_snapshot:
  assumes "quiet_ok st payload snapshot lo hi"
  shows "completes (quiet_step st payload lo hi) (snapshot_all (st_base st)) (\<lambda>x e'. e' = e \<and> x = snapshot) e"
proof -
  obtain a b c where "pods_payload ''ci'' (payload ''ci'') = Inr a" "pods_payload CONTROL_NAMESPACE (payload CONTROL_NAMESPACE) = Inr b"
      "pods_payload WORKER_NAMESPACE (payload WORKER_NAMESPACE) = Inr c" "merge_snapshots a b c = Inr snapshot"
    using assms by (auto simp: quiet_ok_def rbind_eq_Inr)
  then show ?thesis unfolding snapshot_all_def
    by (auto intro!: completes_bind [OF completes_pods [OF assms]])
qed

lemma completes_runner:
  assumes "quiet_ok st payload snapshot lo hi"
  shows "completes (quiet_step st payload lo hi) runner (\<lambda>x e'. e' = e \<and> x = q_paused e) e"
proof -
  have "completes (quiet_step st payload lo hi) (request GITLAB ''GET'' RUNNER_PATH None)
      (\<lambda>x e'. e' = e \<and> runner_value (fst x) = Inr (q_paused e)) e"
  proof (rule completes_request)
    show "quiet_step st payload lo hi e (Http GITLAB ''GET'' RUNNER_PATH None) (reply (JDict [(''id'', JInt 2), (''paused'', JBool (q_paused e))])) e"
      by (rule quiet_step.ReadRunner [OF good_reply [OF ex_good(4)]]) (simp add: runner_value_def)
  qed (use quiet_okD(1) [OF assms] in \<open>auto simp: RUNNER_PATH_def gitlab_authority_def elim!: quiet_HttpE\<close>)
  then show ?thesis unfolding runner_def by (elim completes_bind) auto
qed

lemma completes_gitlab_put:
  assumes "quiet_ok st payload snapshot lo hi"
  shows "completes (quiet_step st payload lo hi) (gitlab_put b reason) (\<lambda>x e'. q_cm e' = q_cm e \<and> q_paused e' = b) e"
proof -
  have "completes (quiet_step st payload lo hi) (request GITLAB ''PUT'' RUNNER_PATH (paused_body b))
      (\<lambda>x e'. q_cm e' = q_cm e \<and> q_paused e' = b) e"
  proof (rule completes_request)
    show "quiet_step st payload lo hi e (Http GITLAB ''PUT'' RUNNER_PATH (paused_body b)) (reply JNull) (e\<lparr>q_paused := b\<rparr>)"
      by (rule quiet_step.WriteRunner [OF quiet_reply])
  qed (use quiet_okD(1) [OF assms] in
    \<open>auto simp: RUNNER_PATH_def gitlab_authority_def paused_body_def has_keys_def elim!: quiet_HttpE\<close>)
  then show ?thesis unfolding gitlab_put_def
    by (elim completes_bind) (auto intro!: completes_bind [OF completes_runner [OF assms]] simp: prequire_def)
qed

subsection \<open>The recovery\<close>

lemma terminal_found:
  assumes "terminal snapshot i = Inr True"
  shows "\<exists>q. find (\<lambda>q. pod_uid q = id_uid i) snapshot = Some q"
proof -
  obtain q where "filter (\<lambda>p. pod_ns p = id_ns i \<and> pod_name p = id_name i \<and> pod_uid p = id_uid i) snapshot = [q]"
    by (rule terminal_matches [OF assms])
  then have "q \<in> {p \<in> set snapshot. pod_ns p = id_ns i \<and> pod_name p = id_name i \<and> pod_uid p = id_uid i}"
    unfolding set_filter [symmetric] by simp
  then have "find (\<lambda>q. pod_uid q = id_uid i) snapshot \<noteq> None" unfolding find_None_iff by blast
  then show ?thesis by blast
qed

text \<open>The operation can be restored: it has no unresolved write, and its owners are retired.\<close>

definition restorable :: "jval list \<Rightarrow> operation \<Rightarrow> bool" where
  "restorable snapshot p \<longleftrightarrow> op_write p = WNone \<and> owners_retired p snapshot = Inr True"

lemma final_outcome_ok:
  assumes "restorable snapshot p" and "wf_operation sha policy ph p"
  shows "\<exists>out. final_outcome p snapshot = Inr out \<and> wf_text out"
proof (cases "op_claimed p")
  case True
  then obtain w where "op_worker p = Some w" using assms(2) by (auto simp: wf_operation_def)
  moreover from this True assms(1) have "terminal snapshot w = Inr True"
    by (auto simp: restorable_def owners_retired_def rbind_eq_Inr terminal_opt_def split: if_splits option.splits)
  ultimately show ?thesis using terminal_found [of snapshot w] True by (auto simp: final_outcome_def wf_text_def)
next
  case False
  then show ?thesis using assms(2) by (auto simp: final_outcome_def wf_text_def wf_operation_def)
qed

definition restored :: "store \<Rightarrow> string \<Rightarrow> quiet \<Rightarrow> bool" where
  "restored st uid e \<longleftrightarrow> \<not> q_paused e \<and> (\<exists>s p. keeps st uid e s \<and> ms_phase s = DONE \<and> ms_operation s = Some p \<and> op_restored p)"

lemma completes_restore:
  assumes "quiet_ok st payload snapshot lo hi" and "keeps st uid e s" and "ms_operation s = Some p" and "restorable snapshot p"
    and "wf_ident me" and "id_ns me = CONTROL_NAMESPACE"
  shows "completes (quiet_step st payload lo hi) (restore st uid me snapshot (q_cm e) s) (\<lambda>_. restored st uid) e"
proof -
  have wf: "wf_state (st_sha st) uid (st_policy st) s" using keeps_wf(1) [OF assms(2)] .
  then have wfo: "wf_operation (st_sha st) (st_policy st) (ms_phase s) p" using assms(3) by (simp add: wf_state_def)
  then obtain out where out: "final_outcome p snapshot = Inr out" "wf_text out" using final_outcome_ok [OF assms(4)] by blast
  define q where "q = p\<lparr>op_outcome := out, op_holder := Some me, op_write := WRestore\<rparr>"
  define s1 where "s1 = set_op s RESTORING q"
  define s2 where "s2 = set_op s1 DONE (q\<lparr>op_write := WNone, op_restored := True\<rparr>)"
  have wf1: "wf_state (st_sha st) uid (st_policy st) s1" and wf2: "wf_state (st_sha st) uid (st_policy st) s2"
    using wf wfo out(2) assms(5,6) by (auto simp: q_def s1_def s2_def set_op_def wf_state_def wf_operation_def)
  have r1: "in_range s1" and r2: "in_range s2"
    using keeps_wf(2) [OF assms(2)] assms(3) by (auto simp: q_def s1_def s2_def set_op_def in_range_def)
  have s1: "ms_phase s1 = RESTORING" "ms_operation s1 = Some q" "op_holder q = Some me" "\<not> op_baseline p"
    using wfo by (simp_all add: s1_def set_op_def q_def wf_operation_def)
  have fin: "completes (quiet_step st payload lo hi) (finish_restore st uid me) (\<lambda>_. restored st uid) e'"
    if "keeps st uid e' s1" "\<not> q_paused e'" for e'
  proof -
    have "restored st uid e''" if "keeps st uid e'' s2" "\<not> q_paused e''" for e''
      using that by (auto simp: restored_def s2_def set_op_def)
    with that(2) show ?thesis unfolding finish_restore_def
      by (intro completes_bind [OF completes_read [OF assms(1) that(1)]])
         (auto simp: s1 the_op_def s2_def [symmetric] intro!: completes_bind [OF completes_save [OF assms(1) that(1) wf2 r2]])
  qed
  have put: "completes (quiet_step st payload lo hi)
      (pcatch (gitlab_put (op_baseline p) r) h) (\<lambda>_ e'. keeps st uid e' s1 \<and> \<not> q_paused e') e'" if "keeps st uid e' s1" for e' r h
    using that s1(4) by (intro completes_pcatch completes_mono [OF completes_gitlab_put [OF assms(1)]]) (auto simp: keeps_def)
  show ?thesis using assms(3,4) unfolding restore_def restorable_def
    by (auto simp: the_op_def out q_def [symmetric] s1_def [symmetric] intro!: completes_bind [OF completes_save [OF assms(1,2) wf1 r1]]
        completes_bind [OF put] fin)
qed

lemma completes_operation:
  assumes q: "quiet_ok st payload snapshot lo hi" and k: "keeps st uid e s" and p: "ms_operation s = Some p" "restorable snapshot p"
    and me: "wf_ident me" "id_ns me = CONTROL_NAMESPACE"
    and ph: "ms_phase s \<notin> {IDLE, DONE, ALERT}" and hi: "hi \<le> of_int (op_recover_by p)"
    and lo: "ms_phase s \<in> {CLOSING, RESTORING} \<or> of_int (op_cleanup_by p) \<le> lo"
  shows "completes (quiet_step st payload lo hi) (recover_operation st uid me (q_cm e) s) (\<lambda>_. restored st uid) e"
proof -
  have wf: "wf_state (st_sha st) uid (st_policy st) s" using keeps_wf(1) [OF k] .
  then have wfo: "wf_operation (st_sha st) (st_policy st) (ms_phase s) p" using p(1) by (simp add: wf_state_def)
  then have dl: "op_drain_by p < op_cleanup_by p" by (simp add: wf_operation_def)
  have wait: "completes (quiet_step st payload lo hi) (recover_waits s p snapshot) (\<lambda>w e'. e' = e \<and> \<not> w) e"
    using lo dl unfolding recover_waits_def by (auto intro!: completes_bind [OF completes_now [OF q]] simp: not_less)
  have wfc: "wf_state (st_sha st) uid (st_policy st) (s\<lparr>ms_phase := CLOSING\<rparr>)"
    using wf p(1) by (auto simp: wf_state_def wf_operation_def)
  have rc: "in_range (s\<lparr>ms_phase := CLOSING\<rparr>)" using keeps_wf(2) [OF k] by (simp add: in_range_def)
  have go: "completes (quiet_step st payload lo hi)
      (pbind (store_save st uid (q_cm e) (s\<lparr>ms_phase := CLOSING\<rparr>)) (\<lambda>_.
       pbind (store_read st (Some uid)) (\<lambda>(cm, s, _). restore st uid me snapshot cm s))) (\<lambda>_. restored st uid) e"
    using p by (auto intro!: completes_bind [OF completes_save [OF q k wfc rc]] completes_bind [OF completes_read [OF q]]
        completes_restore [OF q _ _ p(2) me])
  show ?thesis using ph p hi unfolding recover_operation_def
    by (auto simp: the_op_def intro!: completes_bind [OF completes_snapshot [OF q]] completes_bind [OF completes_now [OF q]]
        completes_bind [OF wait] go completes_restore [OF q k p me])
qed

lemma completes_gc:
  assumes q: "quiet_ok st payload snapshot lo hi" and k: "keeps st uid e s" and p: "ms_operation s = Some p" "restorable snapshot p"
    and me: "wf_ident me" "id_ns me = CONTROL_NAMESPACE"
    and ph: "ms_phase s \<notin> {IDLE, DONE, ALERT}" and hi: "hi \<le> of_int (op_recover_by p)"
    and lo: "ms_phase s \<in> {CLOSING, RESTORING} \<or> of_int (op_cleanup_by p) \<le> lo"
    and gc: "retire_gc s snapshot = Inr (s', True)"
  shows "completes (quiet_step st payload lo hi) (recover_gc st uid me (q_cm e) s) (\<lambda>_. restored st uid) e"
proof (cases "ms_gc s")
  case None
  then show ?thesis using completes_operation [OF q k p me ph hi lo] by (simp add: recover_gc_def)
next
  case (Some g)
  have s': "s' = s\<lparr>ms_gc := None\<rparr>" using retire_gc_Inr(1) [OF gc] .
  then have wf: "wf_state (st_sha st) uid (st_policy st) s'" "in_range s'"
    using keeps_wf [OF k] p(1) by (auto simp: wf_state_def in_range_def)
  have "completes (quiet_step st payload lo hi) (recover_operation st uid me (q_cm e') s') (\<lambda>_. restored st uid) e'" if "keeps st uid e' s'" for e'
    by (rule completes_operation [OF q that _ p(2) me]) (use s' p(1) ph hi lo in auto)
  then show ?thesis using gc Some unfolding recover_gc_def
    by (auto intro!: completes_bind [OF completes_snapshot [OF q]] completes_bind [OF completes_save [OF q k wf]]
        completes_bind [OF completes_read [OF q]])
qed

lemma completes_recover:
  assumes q: "quiet_ok st payload snapshot lo hi" and k: "keeps st uid e s" and p: "ms_operation s = Some p" "restorable snapshot p"
    and me: "wf_ident me" "id_ns me = CONTROL_NAMESPACE"
    and ph: "ms_phase s \<notin> {IDLE, DONE, ALERT}" and hi: "hi \<le> of_int (op_recover_by p)"
    and lo: "ms_phase s \<in> {CLOSING, RESTORING} \<or> of_int (op_cleanup_by p) \<le> lo"
    and gc: "retire_gc s snapshot = Inr (s', True)"
  shows "completes (quiet_step st payload lo hi) (recover st me) (\<lambda>_. restored st uid) e"
proof -
  note lo0 = quiet_okD(3) [OF q] and token = quiet_okD(5) [OF q] and top = quiet_okD(6) [OF q]
  have cred: "completes (quiet_step st payload lo hi) (pcatch credential_check h) (\<lambda>_ e'. e' = e) e" for h
    using token unfolding credential_check_def
    by (intro completes_pcatch completes_bind [OF completes_now [OF q]]) (auto intro!: completes_bind [OF completes_runner [OF q]])
  have beat: "completes (quiet_step st payload lo hi)
      (pbind (store_save st uid (q_cm e) (s\<lparr>ms_heartbeat := int_trunc t\<rparr>)) (\<lambda>_.
       pbind (store_read st (Some uid)) (\<lambda>(cm, s, _). recover_gc st uid me cm s))) (\<lambda>_. restored st uid) e" if "lo \<le> t" "t < hi" for t
  proof -
    let ?s = "s\<lparr>ms_heartbeat := int_trunc t\<rparr>"
    have wf: "wf_state (st_sha st) uid (st_policy st) ?s"
      using keeps_wf(1) [OF k] lo0 that(1) by (auto simp: wf_state_def int_trunc_def split: option.splits)
    have "(of_int (int_trunc t) :: rat) < of_int (10 ^ 12)" using lo0 that top by (simp add: int_trunc_def)
    then have rg: "in_range ?s" using keeps_wf(2) [OF k] unfolding of_int_less_iff by (simp add: in_range_def)
    have "\<exists>s''. retire_gc ?s snapshot = Inr (s'', True)" using gc by (auto simp: retire_gc_def rbind_eq_Inr split: if_splits option.splits)
    then have "completes (quiet_step st payload lo hi) (recover_gc st uid me (q_cm e') ?s) (\<lambda>_. restored st uid) e'" if "keeps st uid e' ?s" for e'
      using completes_gc [OF q that _ p(2) me] p(1) ph hi lo by auto
    then show ?thesis
      by (auto intro!: completes_bind [OF completes_save [OF q k wf rg]] completes_bind [OF completes_read [OF q]])
  qed
  show ?thesis using ph unfolding recover_def
    by (intro completes_bind [OF completes_read [OF q k]])
       (auto intro!: completes_bind [OF cred] completes_bind [OF completes_now [OF q]] beat)
qed

subsection \<open>The number of actions\<close>

lemma at_most_then: "at_most m a \<Longrightarrow> a \<le> n \<Longrightarrow> (\<And>x. at_most (f x) (n - a)) \<Longrightarrow> at_most (pbind m f) n"
  using at_most_pbind [of m a f "n - a"] by simp

lemma at_most_now: "at_most now 1"
  by (auto simp: now_def split: kresp.split)

lemma at_most_read: "at_most (store_read st latch) 1"
  unfolding store_read_def by (rule at_most_then [OF request_once]) (auto split: prod.split)

lemma at_most_save: "at_most (store_save st uid cm s) 2"
  unfolding store_save_def
  by (intro at_most_bind_pure at_most_then [OF request_once]) (auto intro!: at_most_then [OF at_most_read] at_most_bind_pure split: prod.split)

lemma at_most_snapshot: "at_most (snapshot_all base) 3"
proof -
  have "at_most (pods base ns) 1" for ns
    unfolding pods_def by (intro at_most_bind_pure at_most_then [OF request_once]) (auto split: prod.split)
  then show ?thesis unfolding snapshot_all_def by (intro at_most_then [where a = 1]) simp_all
qed

lemma at_most_runner: "at_most runner 1"
  unfolding runner_def by (rule at_most_then [OF request_once]) (auto split: prod.split)

lemma at_most_put: "at_most (gitlab_put b reason) 2"
  unfolding gitlab_put_def by (intro at_most_then [OF request_once] at_most_then [OF at_most_runner]) simp_all

lemma at_most_alert: "at_most (alert st uid cm s reason) 2"
  unfolding alert_def by (rule at_most_then [OF at_most_save]) simp_all

lemma at_most_the_op: "(\<And>p. at_most (f p) n) \<Longrightarrow> at_most (pbind (the_op s) f) n"
  by (simp add: the_op_def split: option.split)

lemma at_most_unknown: "at_most (unknown_write st uid reason) 3"
  unfolding unknown_write_def
  by (rule at_most_then [OF at_most_read]) (auto intro!: at_most_the_op at_most_alert split: prod.split)

lemma at_most_finish: "at_most (finish_restore st uid me) 3"
  unfolding finish_restore_def
  by (rule at_most_then [OF at_most_read]) (auto intro!: at_most_the_op at_most_bind_pure at_most_then [OF at_most_save] split: prod.split)

lemma at_most_restore: "at_most (restore st uid me snapshot cm s) 10"
proof -
  have "at_most (pcatch (gitlab_put b r) (\<lambda>_. unknown_write st uid r')) 5" for b r r'
    using at_most_pcatch [OF at_most_put at_most_unknown] by simp
  then show ?thesis unfolding restore_def
    by (auto intro!: at_most_the_op at_most_bind_pure at_most_le [OF at_most_alert] at_most_then [OF at_most_save]
        at_most_then [where a = 5] at_most_finish)
qed

lemma at_most_waits: "at_most (recover_waits s p snapshot) 1"
  by (auto simp: recover_waits_def intro!: at_most_then [OF at_most_now] at_most_bind_pure)

lemma at_most_operation: "at_most (recover_operation st uid me cm s) 18"
  unfolding recover_operation_def
  by (auto intro!: at_most_then [OF at_most_snapshot] at_most_then [OF at_most_now] at_most_the_op at_most_le [OF at_most_alert]
      at_most_then [OF at_most_waits] at_most_le [OF at_most_restore] at_most_then [OF at_most_save] at_most_then [OF at_most_read])

lemma at_most_gc: "at_most (recover_gc st uid me cm s) 24"
  unfolding recover_gc_def
  by (auto intro!: at_most_then [OF at_most_snapshot] at_most_then [OF at_most_now] at_most_bind_pure at_most_le [OF at_most_alert]
      at_most_le [OF at_most_operation] at_most_then [OF at_most_save] at_most_then [OF at_most_read] split: option.split)

lemma at_most_recover: "at_most (recover st me) 33"
proof -
  have c: "at_most credential_check 2" unfolding credential_check_def
    by (auto intro!: at_most_then [OF at_most_now] at_most_bind_pure at_most_then [OF at_most_runner])
  have "at_most (pcatch credential_check (\<lambda>e. if b then alert st uid cm s r else Fail e)) 4" for b uid cm s r
    using at_most_pcatch [OF c, of "\<lambda>e. if b then alert st uid cm s r else Fail e" 2] by (simp add: at_most_alert)
  then show ?thesis unfolding recover_def
    by (intro at_most_then [OF at_most_read])
       (auto intro!: at_most_then [where a = 4] at_most_then [OF at_most_now] at_most_then [OF at_most_save] at_most_then [OF at_most_read]
         at_most_le [OF at_most_gc])
qed

text \<open>
  (C7) A recovery comes to its end. Assume a state whose phase is not \<^verbatim>\<open>IDLE\<close>, \<^verbatim>\<open>DONE\<close> or \<^verbatim>\<open>ALERT\<close>,
  whose operation has no pending or unknown write (\<^verbatim>\<open>write\<close> is \<^verbatim>\<open>none\<close>) and whose owners,
  the coordinator, a worker that has claimed, an earlier holder and a garbage collection, are all retired by the evidence
  of the Pods. All readings of the clock lie in a window that begins after the deadline of the clean-up, unless the state is already
  closing or restoring, and ends before the deadline of the recovery and a minute before the expiry of the token. Nobody else
  writes the state object or the runner, requests succeed except a write of the state with a stale resource version, which
  gets a conflict, and the object, the hash, the policy and the times are small enough for a response to be read. Then no run of
  \<^verbatim>\<open>recover\<close> in this cluster has more than 33 actions, and from every point of every run the cluster can
  take it to its normal end, so it never raises and is never stuck; at the end the state is \<^verbatim>\<open>DONE\<close> with the
  restoration recorded and the runner is not paused.
\<close>

theorem recovery_completes:
  assumes "quiet_ok st payload snapshot lo hi" and "keeps st uid e s" and "wf_ident me" and "id_ns me = CONTROL_NAMESPACE"
    and "ms_operation s = Some p" and "restorable snapshot p" and "retire_gc s snapshot = Inr (s', True)"
    and "ms_phase s \<notin> {IDLE, DONE, ALERT}" and "hi \<le> of_int (op_recover_by p)"
    and "ms_phase s \<in> {CLOSING, RESTORING} \<or> of_int (op_cleanup_by p) \<le> lo"
    and "runs (recover st me) t p'" and "served (quiet_step st payload lo hi) e t e'"
  shows "length t \<le> 33 \<and> (p' = Ret () \<longrightarrow> restored st uid e')
    \<and> (\<exists>t' e''. runs p' t' (Ret ()) \<and> served (quiet_step st payload lo hi) e' t' e'' \<and> length (t @ t') \<le> 33 \<and> restored st uid e'')"
proof -
  have c: "completes (quiet_step st payload lo hi) p' (\<lambda>_. restored st uid) e'"
    using completes_runs [OF assms(11,12) completes_recover [OF assms(1,2,5,6,3,4,8,9,10,7)]] .
  from completes_ends [OF this] obtain t' e'' where t': "runs p' t' (Ret ())" "served (quiet_step st payload lo hi) e' t' e''" "restored st uid e''"
    by auto
  have "length (t @ t') \<le> 33" using at_most_runs [OF runs_append [OF assms(11) t'(1)] at_most_recover] .
  with c t' show ?thesis by (cases p') auto
qed

subsection \<open>A complete recovery\<close>

definition ex_done :: mstate where
  "ex_done = set_op ex_restoring DONE
     (ex_operation\<lparr>op_outcome := ''drain-timeout'', op_holder := Some ex_recoverer, op_write := WNone, op_restored := True\<rparr>)"

definition ex_unpaused :: kresp where
  "ex_unpaused = reply (JDict [(''id'', JInt 2), (''paused'', JBool False)])"

definition ex_rest_trace :: "(kact \<times> kresp) list" where
  "ex_rest_trace = [(ex_resume_put, ex_unpaused), (Http GITLAB ''GET'' RUNNER_PATH None, ex_unpaused)] @
     ([ex_get ''6'' ex_restoring] @ ([ex_put ''6'' ex_restoring ex_done, ex_get ''7'' ex_done] @ []))"

lemma ex_done_ok: "wf_state (st_sha ex_store) ''u1'' (st_policy ex_store) ex_done" "good (JDict (ex_cm ''7'' ex_done))"
  by (simp_all add: wf_state_def wf_operation_def ex_done_def ex_state_defs wf_text_def wf_ident_def CONTROL_NAMESPACE_def)
     (rule good_cm; simp add: encode_def enc_op_def enc_ident_def enc_opt_def ex_done_def ex_state_defs show_int_def show_nat.simps)

lemma ex_unpaused_result: "http_result ex_unpaused = Inr (JDict [(''id'', JInt 2), (''paused'', JBool False)], [])"
  unfolding ex_unpaused_def by (rule good_reply [OF ex_good(4)])

lemma ex_rest_runs: "runs ex_resume_rest ex_rest_trace (Ret ())"
proof -
  have path: "\<not> prefix ''//'' RUNNER_PATH \<and> prefix ''/'' RUNNER_PATH \<and> gitlab_authority ''PUT'' RUNNER_PATH (paused_body False)
      \<and> gitlab_authority ''GET'' RUNNER_PATH None"
    by (simp add: RUNNER_PATH_def gitlab_authority_def paused_body_def has_keys_def)
  have put: "runs (gitlab_put False reason) [(ex_resume_put, ex_unpaused), (Http GITLAB ''GET'' RUNNER_PATH None, ex_unpaused)] (Ret ())" for reason
    using path by (simp add: gitlab_put_def runner_def request_def ex_resume_put_def ex_unpaused_result runner_value_def)
  have rd: "runs (store_read ex_store (Some ''u1'')) [ex_get ''6'' ex_restoring] (Ret (ex_cm ''6'' ex_restoring, ex_restoring, ''u1''))"
    by (intro ex_read_runs ex_recovery_cms ex_recovery_wf) (simp_all add: wf_text_def)
  have sv: "runs (store_save ex_store ''u1'' (ex_cm ''6'' ex_restoring) ex_done) [ex_put ''6'' ex_restoring ex_done, ex_get ''7'' ex_done] (Ret ex_done)"
    by (intro ex_save_runs ex_done_ok) (simp add: wf_text_def)
  have s: "ms_phase ex_restoring = RESTORING" "ms_operation ex_restoring
      = Some (ex_operation\<lparr>op_outcome := ''drain-timeout'', op_holder := Some ex_recoverer, op_write := WRestore\<rparr>)"
    by (simp_all add: ex_restoring_def set_op_def)
  have fin: "runs (pbind (store_save ex_store ''u1'' (ex_cm ''6'' ex_restoring) ex_done) (\<lambda>_. Ret ()))
      ([ex_put ''6'' ex_restoring ex_done, ex_get ''7'' ex_done] @ []) (Ret ())"
    by (rule runs_pbindI [OF sv]) (rule runs.Done)
  show ?thesis unfolding ex_resume_rest_def ex_rest_trace_def
    apply (rule runs_pbindI [OF runs_pcatchI [OF put]])
    unfolding finish_restore_def
    apply (rule runs_pbindI [OF rd])
    apply (simp only: prod.case s the_op_def option.case)
    apply (rule runs_pure(2), simp)
    apply simp
    using fin by (simp add: ex_done_def)
qed

definition ex_payload :: "string \<Rightarrow> jval" where
  "ex_payload ns = ex_pods (if ns = CONTROL_NAMESPACE then [ex_ended_pod] else [])"

definition ex_quiet :: "string \<Rightarrow> mstate \<Rightarrow> bool \<Rightarrow> quiet" where
  "ex_quiet rv s paused = \<lparr>q_cm = ex_cm rv s, q_paused = paused\<rparr>"

abbreviation ex_cluster :: "quiet \<Rightarrow> kact \<Rightarrow> kresp \<Rightarrow> quiet \<Rightarrow> bool" where
  "ex_cluster \<equiv> quiet_step ex_store ex_payload 1767228400 1767231120"

lemma served_append: "served env e t e' \<Longrightarrow> served env e' t' e'' \<Longrightarrow> served env e (t @ t') e''"
  by (induction rule: served.induct) (auto intro: served.intros)

lemma served_one: "env e q r e' \<Longrightarrow> served env e [(q, r)] e'"
  by (auto intro: served.intros)

lemma renewed_ex: "renewed (desired (ex_cm rv s) s') rv' = ex_cm rv' s'"
  by (simp add: renewed_def desired_def ex_cm_def dsub_def)

lemma served_get: "good (JDict (ex_cm rv s)) \<Longrightarrow> served ex_cluster (ex_quiet rv s b) [ex_get rv s] (ex_quiet rv s b)"
  unfolding ex_get_def by (intro served_one quiet_step.ReadState [OF good_reply [THEN trans]]) (simp_all add: ex_quiet_def)

lemma served_save:
  assumes "good (JDict (ex_cm rv' s'))" and "wf_text rv'" and "rv' \<noteq> rv"
  shows "served ex_cluster (ex_quiet rv s b) [ex_put rv s s', ex_get rv' s'] (ex_quiet rv' s' b)"
proof -
  have "rv_of (desired (ex_cm rv s) s') = JStr rv" "rv_of (ex_cm rv s) = JStr rv"
    by (simp_all add: rv_of_def meta_desired) (simp_all add: ex_cm_def dsub_def)
  then have "ex_cluster (ex_quiet rv s b) (Http (st_base ex_store) ''PUT'' STATE (Some (JDict (desired (ex_cm rv s) s')))) (reply (ex_pods []))
      ((ex_quiet rv s b)\<lparr>q_cm := renewed (desired (ex_cm rv s) s') rv'\<rparr>)"
    using assms(2,3) by (intro quiet_step.WriteState [OF good_reply [OF ex_good(1)]]) (simp_all add: ex_quiet_def)
  then have "served ex_cluster (ex_quiet rv s b) [ex_put rv s s'] (ex_quiet rv' s' b)"
    unfolding ex_put_def renewed_ex by (intro served_one) (simp add: ex_quiet_def)
  from served_append [OF this served_get [OF assms(1)]] show ?thesis by simp
qed

lemma served_now: "1767228400 \<le> x \<Longrightarrow> x < 1767231120 \<Longrightarrow> served ex_cluster e [(Now, Time x)] e"
  by (intro served_one quiet_step.Clock)

lemma served_snapshot: "served ex_cluster e (ex_snapshot_trace [ex_ended_pod]) e"
proof -
  have "http_result (reply (ex_payload ns)) = Inr (ex_payload ns, [])" for ns
    unfolding ex_payload_def using good_reply [OF ex_ended_good] good_reply [OF ex_good(1)] by simp
  then have "served ex_cluster e [(Http (st_base ex_store) ''GET'' (pods_path ns) None, reply (ex_payload ns))] e" for ns
    by (intro served_one quiet_step.ReadPods)
  note pods = this [of "''ci''"] this [of CONTROL_NAMESPACE] this [of WORKER_NAMESPACE]
  show ?thesis
    using served_append [OF pods(1) served_append [OF pods(2,3)]]
    by (simp add: ex_snapshot_trace_def ex_payload_def CONTROL_NAMESPACE_def WORKER_NAMESPACE_def)
qed

lemma served_runner: "served ex_cluster (ex_quiet rv s b) [(Http GITLAB ''GET'' RUNNER_PATH None, reply (JDict [(''id'', JInt 2), (''paused'', JBool b)]))] (ex_quiet rv s b)"
  by (intro served_one quiet_step.ReadRunner [OF good_reply [OF ex_good(4)]]) (simp add: runner_value_def ex_quiet_def)

lemma served_resume: "served ex_cluster (ex_quiet rv s b) [(ex_resume_put, ex_unpaused)] (ex_quiet rv s False)"
  using quiet_step.WriteRunner [OF ex_unpaused_result, where e = "ex_quiet rv s b" and b = False]
  unfolding ex_resume_put_def by (intro served_one) (simp add: ex_quiet_def)

lemma ex_recovery_served:
  "served ex_cluster (ex_quiet ''3'' ex_closing True) (ex_resume_trace @ ex_rest_trace) (ex_quiet ''7'' ex_done False)"
proof -
  have c: "good (JDict (ex_cm rv ex_closing))" "good (JDict (ex_cm rv ex_restoring))" if "rv \<in> {''3'', ''4'', ''5'', ''6''}" for rv
    using that ex_recovery_cms [of rv] by auto
  have t: "wf_text rv" if "rv \<in> {''4'', ''5'', ''6'', ''7''}" for rv using that by (auto simp: wf_text_def)
  have cred: "served ex_cluster (ex_quiet rv s True) ex_credential_trace (ex_quiet rv s True)" for rv s
    using served_append [OF served_now served_runner] by (simp add: ex_credential_trace_def)
  have "served ex_cluster (ex_quiet ''3'' ex_closing True) ex_resume_trace (ex_quiet ''6'' ex_restoring True)"
    unfolding ex_resume_trace_def
    by (rule served_append [OF served_get] served_append [OF cred] served_append [OF served_now] served_append [OF served_save]
        served_append [OF served_snapshot] served_save c t | simp)+
  moreover have "served ex_cluster (ex_quiet ''6'' ex_restoring True) ex_rest_trace (ex_quiet ''7'' ex_done False)"
    using served_append [OF served_resume [of "''6''" ex_restoring True] served_append [OF served_runner [of "''6''" ex_restoring False]
      served_append [OF served_get [OF c(2)] served_save [OF ex_done_ok(2) t]]]]
    by (simp add: ex_rest_trace_def ex_unpaused_def)
  ultimately show ?thesis by (rule served_append)
qed

lemma roomy_ex: "good (JDict (ex_cm rv s)) \<Longrightarrow> roomy (ex_cm rv s)"
  by (simp add: roomy_def data_size_def rv_of_def ex_cm_def dsub_def)

lemma ex_closing_range: "in_range ex_closing"
  by (simp add: in_range_def ex_closing_def set_op_def ex_idle_def ex_operation_def new_operation_def ex_slot_def)

theorem recovery_completes_witness:
  "\<exists>t e'. runs (recover ex_store ex_recoverer) t (Ret ()) \<and> served ex_cluster (ex_quiet ''3'' ex_closing True) t e'
     \<and> length t \<le> 33 \<and> restored ex_store ''u1'' e'"
proof -
  have r: "runs (recover ex_store ex_recoverer) (ex_resume_trace @ ex_rest_trace) (Ret ())"
    by (rule ex_resume_prefix [OF ex_rest_runs])
  have q: "quiet_ok ex_store ex_payload [ex_ended_pod] 1767228400 1767231120"
    by (simp add: quiet_ok_def ex_base(1) ex_payload_def ex_pods_empty ex_ended_pods CONTROL_NAMESPACE_def WORKER_NAMESPACE_def
        ex_pods_empty ex_ended_pods [unfolded CONTROL_NAMESPACE_def] merge_snapshots_Inr ex_good(1) ex_ended_good short_digests_def ex_base(3,4)
        TOKEN_EXPIRY_def timestamp_def date_ordinal_def days_before_month_def days_in_month_def is_leap_def upto.simps)
  have k: "keeps ex_store ''u1'' (ex_quiet ''3'' ex_closing True) ex_closing"
    using ex_recovery_cms(1) [of "''3''"] unfolding keeps_def ex_quiet_def
    by (simp add: read_ex_cm [OF ex_recovery_wf(1)] wf_text_def roomy_ex ex_closing_range)
  have m: "wf_ident ex_recoverer" "id_ns ex_recoverer = CONTROL_NAMESPACE"
    by (simp_all add: wf_ident_def ex_recoverer_def wf_text_def CONTROL_NAMESPACE_def)
  have s: "ms_operation ex_closing = Some ex_operation" "ms_gc ex_closing = None" "ms_phase ex_closing = CLOSING"
    by (simp_all add: ex_closing_def set_op_def ex_idle_def)
  have o: "restorable [ex_ended_pod] ex_operation"
    by (simp add: restorable_def owners_retired_def ex_operation_def new_operation_def ex_ended_terminal)
  have "length (ex_resume_trace @ ex_rest_trace) \<le> 33 \<and> restored ex_store ''u1'' (ex_quiet ''7'' ex_done False)"
    using recovery_completes [OF q k m s(1) o _ _ _ _ r ex_recovery_served] s
    by (simp add: retire_gc_def ex_operation_def new_operation_def ex_slot_def)
  then show ?thesis using r ex_recovery_served by blast
qed

end
