(* ===== verification/Py_Docs.thy ===== *)
theory Py_Docs
  imports Py_Compare
begin

section \<open>Documents of a repository\<close>

text \<open>
  What the validators of Temporal, GitLab and Factorio share in handling files and documents: reading a file and loading its YAML with
  the exceptions of Python, access by subscript, searches and tests on texts.
\<close>

subsection \<open>Files and YAML\<close>

definition read_text :: "'a repo_scheme \<Rightarrow> string \<Rightarrow> string res" where
  "read_text w path = (case r_read w path of
      FileText s \<Rightarrow> Inr s
    | OsError msg \<Rightarrow> Inl (PyError (''OSError: '' @ msg))
    | Undecodable msg \<Rightarrow> Inl (value_error msg))"

definition load_yaml :: "'a repo_scheme \<Rightarrow> string \<Rightarrow> jval res" where
  "load_yaml w s = (case r_yaml w s of
      Loaded v \<Rightarrow> Inr v
    | YamlError msg \<Rightarrow> Inl (PyError (''YAMLError: '' @ msg))
    | BadScalar msg \<Rightarrow> Inl (value_error msg))"

text \<open>\<^verbatim>\<open>yaml.safe_load\<close> of a value that should be a text.\<close>

definition safe_load :: "'a repo_scheme \<Rightarrow> jval \<Rightarrow> jval res" where
  "safe_load w v = (case v of JStr s \<Rightarrow> load_yaml w s | _ \<Rightarrow> Inl (PyError ''AttributeError''))"

subsection \<open>Parts of a document\<close>

text \<open>\<^verbatim>\<open>v[k1][k2]...\<close>, \<^verbatim>\<open>v[n]\<close>, and \<^verbatim>\<open>x in v\<close> for a dict \<open>x\<close>.\<close>

fun items_at :: "string list \<Rightarrow> jval \<Rightarrow> jval res" where
  "items_at [] v = Inr v"
| "items_at (k # ks) v = rbind (jitem k v) (items_at ks)"

definition py_nth :: "nat \<Rightarrow> jval \<Rightarrow> jval res" where
  "py_nth n v = (case v of
      JList xs \<Rightarrow> if n < length xs then Inr (xs ! n) else Inl (PyError ''IndexError'')
    | JStr s \<Rightarrow> if n < length s then Inr (JStr [s ! n]) else Inl (PyError ''IndexError'')
    | JDict _ \<Rightarrow> Inl (PyError ''KeyError'')
    | _ \<Rightarrow> Inl (PyError ''TypeError''))"

definition py_member :: "jval \<Rightarrow> jval \<Rightarrow> bool res" where
  "py_member x v = (case v of JList xs \<Rightarrow> Inr (list_ex (py_eq x) xs) | _ \<Rightarrow> Inl (PyError ''TypeError''))"

text \<open>\<^verbatim>\<open>[x.get(k) for x in v.get(field, [])]\<close>, and a list of strings.\<close>

definition gets_of :: "string \<Rightarrow> string \<Rightarrow> jval \<Rightarrow> jval list res" where
  "gets_of k field v = rbind (jget_or field (JList []) v) (\<lambda>xs. rbind (py_iter xs) (rmap (jget k)))"

definition strings :: "string list \<Rightarrow> jval" where
  "strings ss = JList (map JStr ss)"

text \<open>\<^verbatim>\<open>next(x for x in xs if p(x))\<close>, and the same with the default \<^verbatim>\<open>{}\<close>.\<close>

fun first_with :: "(jval \<Rightarrow> bool res) \<Rightarrow> jval list \<Rightarrow> jval res" where
  "first_with p [] = Inl (PyError ''StopIteration'')"
| "first_with p (x # xs) = rbind (p x) (\<lambda>b. if b then Inr x else first_with p xs)"

fun next_doc :: "(jval \<Rightarrow> bool res) \<Rightarrow> jval list \<Rightarrow> jval res" where
  "next_doc p [] = Inr (JDict [])"
| "next_doc p (x # xs) = rbind (p x) (\<lambda>b. if b then Inr x else next_doc p xs)"

text \<open>\<^verbatim>\<open>d.get("kind") == kind\<close>, \<^verbatim>\<open>v.startswith(t)\<close> and \<^verbatim>\<open>v.endswith(t)\<close>.\<close>

definition has_kind :: "string \<Rightarrow> jval \<Rightarrow> bool res" where
  "has_kind kind resource = rbind (jget ''kind'' resource) (\<lambda>k. Inr (k = JStr kind))"

definition starts_text :: "string \<Rightarrow> jval \<Rightarrow> bool res" where
  "starts_text t v = (case v of JStr s \<Rightarrow> Inr (prefix t s) | _ \<Rightarrow> Inl (PyError ''AttributeError''))"

definition ends_text :: "string \<Rightarrow> jval \<Rightarrow> bool res" where
  "ends_text t v = (case v of JStr s \<Rightarrow> Inr (suffix t s) | _ \<Rightarrow> Inl (PyError ''AttributeError''))"

end
