(* ===== verification/Temporal.thy ===== *)
theory Temporal
  imports Py_Docs
begin

section \<open>The validator of Temporal\<close>

text \<open>
  \<^verbatim>\<open>scripts/validate_temporal_manifest.py\<close> checks the rendered schema Jobs, the servers, their configuration and
  network policy, the prerequisites in the platform and the order in which Flux applies them. A group of checks is the list of
  errors it adds, without the part of a message that prints a set; a loop over resources is a function for its body. \<open>t_dump\<close> is \<^verbatim>\<open>yaml.safe_dump\<close> with sorted keys, and
  \<open>t_is_dir\<close> says which paths below the root are directories.
\<close>

record temporal_repo = repo +
  t_is_dir :: "string \<Rightarrow> bool"
  t_dump :: "jval \<Rightarrow> string"

definition TEMPORAL_NAMESPACE :: string where
  "TEMPORAL_NAMESPACE = ''temporal''"

definition SERVER_IMAGE :: string where
  "SERVER_IMAGE = ''temporalio/server@sha256:b5ecdb8282bededae2a10c36e8d862e27d0bc2d247fc73c5416025997ab4a1da''"

definition ADMIN_IMAGE :: string where
  "ADMIN_IMAGE = ''temporalio/admin-tools@sha256:dbc5fcd6ee8f0f4d808bf765af9a87dea9d8a283abfdcfbd2fc148496ba66107''"

definition SERVICES :: "string list" where
  "SERVICES = [''frontend'', ''history'', ''matching'', ''worker'']"

definition EXPECTED_SHARDS :: nat where
  "EXPECTED_SHARDS = 128"

definition EXPECTED_DATABASES :: "string list" where
  "EXPECTED_DATABASES = [''temporal'', ''temporal_visibility'']"

definition SECRET_NAME :: string where
  "SECRET_NAME = ''temporal-postgres''"

definition FRONTEND_MTLS_SECRET_NAME :: string where
  "FRONTEND_MTLS_SECRET_NAME = ''temporal-frontend-mtls''"

definition FRONTEND_MTLS_KEYS :: "string list" where
  "FRONTEND_MTLS_KEYS = [''ca.crt'', ''server.crt'', ''server.key'', ''system-worker.crt'', ''system-worker.key'']"

definition FLUX_FILES :: "(string \<times> string) list" where
  "FLUX_FILES = [(''temporal-schema-setup'', ''kustomization-temporal-schema-setup.yaml''),
     (''temporal-schema-upgrade'', ''kustomization-temporal-schema-upgrade.yaml''),
     (''temporal'', ''kustomization-temporal.yaml'')]"

subsection \<open>Parts of a resource\<close>

definition temporal_key :: "jval \<Rightarrow> (jval \<times> jval \<times> jval) res" where
  "temporal_key resource =
     rbind (jget ''metadata'' resource) (\<lambda>m.
     rbind (jget_or ''kind'' (JStr []) resource) (\<lambda>kind.
     rbind (jget_or ''name'' (JStr []) (or_dict m)) (\<lambda>name.
     rbind (jget ''namespace'' (or_dict m)) (\<lambda>ns. Inr (kind, name, ns)))))"

definition workload_containers :: "jval \<Rightarrow> jval res" where
  "workload_containers resource = rbind (sub_at [''spec'', ''template'', ''spec''] resource) (jget_or ''containers'' (JList []))"

definition workload_spec :: "jval \<Rightarrow> jval res" where
  "workload_spec resource = sub_at [''spec'', ''template'', ''spec''] resource"

definition env_map :: "jval \<Rightarrow> (jval \<times> jval) list res" where
  "env_map container = rbind (jget_or ''env'' (JList []) container) name_map"

definition parse_server_config :: "'a repo_scheme \<Rightarrow> string \<Rightarrow> jval yaml" where
  "parse_server_config w config =
     (case r_yaml w (sub_spans ''{{'' ''}}'' ''\"template\"'' config) of
        Loaded (JDict d) \<Rightarrow> Loaded (JDict d)
      | Loaded _ \<Rightarrow> BadScalar ''server config template must render to a mapping''
      | e \<Rightarrow> e)"

text \<open>The text \<^verbatim>\<open>kind/name\<close> of a message, and a comparison of a field that adds one message.\<close>

definition label_of :: "'a repo_scheme \<Rightarrow> jval \<Rightarrow> jval \<Rightarrow> string" where
  "label_of w kind name = py_str (r_float w) kind @ ''/'' @ py_str (r_float w) name"

definition check_at :: "string list \<Rightarrow> jval \<Rightarrow> jval \<Rightarrow> string \<Rightarrow> string list res" where
  "check_at ks v wanted message = rbind (get_at ks v) (\<lambda>a. Inr (check_true (py_eq a wanted) message))"

text \<open>\<^verbatim>\<open>v.get(k) is b\<close> for a truth value \<open>b\<close>.\<close>

definition check_is :: "string \<Rightarrow> jval \<Rightarrow> bool \<Rightarrow> string \<Rightarrow> string list res" where
  "check_is k v b message = rbind (jget k v) (\<lambda>a. Inr (check_true (a = JBool b) message))"

subsection \<open>Hardening\<close>

definition container_hardening :: "string \<Rightarrow> jval \<Rightarrow> string list res" where
  "container_hardening label container =
     rbind (jget_or ''securityContext'' (JDict []) container) (\<lambda>context.
     rbind (jget ''allowPrivilegeEscalation'' context) (\<lambda>escalation.
     rbind (jget ''readOnlyRootFilesystem'' context) (\<lambda>read_only.
     rbind (get_at [''capabilities'', ''drop''] context) (\<lambda>dropped.
     rbind (jget_or ''resources'' (JDict []) container) (\<lambda>resources.
     rbind (jget ''requests'' resources) (\<lambda>requests.
     rbind (jget ''limits'' resources) (\<lambda>limits.
     Inr (check_true (escalation = JBool False \<and> read_only = JBool True) (label @ '': container hardening incomplete'')
       @ check_true (py_eq dropped (JList [JStr ''ALL''])) (label @ '': all capabilities must be dropped'')
       @ check_true (truthy requests \<and> truthy limits) (label @ '': conservative requests and limits are required'')))))))))"

definition validate_pod_hardening :: "'a repo_scheme \<Rightarrow> jval \<Rightarrow> string list res" where
  "validate_pod_hardening w resource =
     rbind (temporal_key resource) (\<lambda>(kind, name, _).
     (let label = label_of w kind name in
     rbind (workload_spec resource) (\<lambda>spec.
     rbind (jget_or ''securityContext'' (JDict []) spec) (\<lambda>security.
     in_order
       [rbind (jget ''runAsNonRoot'' security) (\<lambda>non_root.
        rbind (or_else (non_root \<noteq> JBool True)
            (rbind (get_at [''seccompProfile'', ''type''] security) (\<lambda>t. Inr (t \<noteq> JStr ''RuntimeDefault'')))) (\<lambda>bad.
        Inr (check_true (\<not> bad) (label @ '': pod security context incomplete'')))),
        check_is ''automountServiceAccountToken'' spec False (label @ '': service-account token must be disabled''),
        rbind (workload_containers resource) (\<lambda>v. rbind (py_iter v) (\<lambda>cs. in_order (map (container_hardening label) cs)))]))))"

subsection \<open>Namespaces and schema Jobs\<close>

definition namespace_error :: "'a repo_scheme \<Rightarrow> jval \<Rightarrow> string list res" where
  "namespace_error w resource =
     rbind (temporal_key resource) (\<lambda>(kind, name, ns).
     Inr (check_true (kind = JStr ''Namespace'' \<or> ns = JStr TEMPORAL_NAMESPACE) (label_of w kind name @ '': expected namespace temporal'')))"

definition has_key :: "string \<Rightarrow> string \<Rightarrow> jval \<Rightarrow> bool res" where
  "has_key kind name resource = rbind (temporal_key resource) (\<lambda>(k, n, _). Inr (k = JStr kind \<and> n = JStr name))"

definition namespace_checks :: "jval list \<Rightarrow> string list res" where
  "namespace_checks all_resources =
     rbind (rfilter (has_key ''Namespace'' TEMPORAL_NAMESPACE) all_resources) (\<lambda>namespaces.
     case namespaces of
       [n] \<Rightarrow>
         rbind (sub_at [''metadata'', ''labels''] n) (\<lambda>labels.
         in_order (map (\<lambda>label. check_at [''pod-security.kubernetes.io/'' @ label] labels (JStr ''restricted'')
             (''Namespace missing restricted '' @ label @ '' label'')) [''enforce'', ''audit'', ''warn'']))
     | _ \<Rightarrow> Inr [''expected exactly one temporal Namespace, got '' @ show_nat (length namespaces)])"

definition job_container_checks :: "'a repo_scheme \<Rightarrow> string \<Rightarrow> string \<Rightarrow> string \<Rightarrow> jval \<Rightarrow> jval \<Rightarrow> (string list \<times> jval list) res" where
  "job_container_checks w phase command label job container =
     rbind (jget ''image'' container) (\<lambda>image.
     rbind (jget_or ''args'' (JList []) container) (\<lambda>args. rbind (py_join '' '' args) (\<lambda>args_text.
     rbind (jget_or ''command'' (JList []) container) (\<lambda>cmd. rbind (py_join '' '' cmd) (\<lambda>command_text.
     rbind (env_map container) (\<lambda>env.
     rbind (jget ''value'' (map_get ''SQL_DATABASE'' env)) (\<lambda>database.
     rbind (if truthy database then hash_set [database] else Inr []) (\<lambda>databases.
     rbind (in_order
       [Inr (check_true (image = JStr ADMIN_IMAGE) (label @ '': admin-tools digest mismatch'')),
        Inr (check_true (occurs command (command_text @ '' '' @ args_text)) (label @ '': missing '' @ phase @ '' command'')),
        check_at [''valueFrom'', ''secretKeyRef'', ''name''] (map_get ''SQL_USER'' env) (JStr SECRET_NAME) (label @ '': SQL_USER must reference '' @ SECRET_NAME),
        check_at [''valueFrom'', ''secretKeyRef'', ''name''] (map_get ''SQL_PASSWORD'' env) (JStr SECRET_NAME) (label @ '': SQL_PASSWORD must reference '' @ SECRET_NAME),
        check_at [''value''] (map_get ''SQL_TLS'' env) (JStr ''true'') (label @ '': SQL TLS is not required''),
        check_at [''value''] (map_get ''SQL_TLS_DISABLE_HOST_VERIFICATION'' env) (JStr ''false'') (label @ '': PostgreSQL host verification is not fail closed''),
        validate_pod_hardening w job]) (\<lambda>errors. Inr (errors, databases))))))))))"

definition job_checks :: "'a repo_scheme \<Rightarrow> string \<Rightarrow> string \<Rightarrow> jval \<Rightarrow> (string list \<times> jval list) res" where
  "job_checks w phase command job =
     rbind (temporal_key job) (\<lambda>(_, name, _).
     (let label = ''Job/'' @ py_str (r_float w) name in
     rbind (py_in ''1-31-2'' name) (\<lambda>versioned.
     rbind (workload_spec job) (\<lambda>spec.
     rbind (check_is ''automountServiceAccountToken'' spec False (label @ '': service-account token must be disabled'')) (\<lambda>token.
     rbind (workload_containers job) (\<lambda>cs. rbind (py_len cs) (\<lambda>n.
     (let before = check_true versioned (label @ '': name is not version-matched to 1.31.2'') @ token in
     if n \<noteq> 1 then Inr (before @ [label @ '': expected one container''], [])
     else
       rbind (py_first cs) (\<lambda>container.
       rbind (job_container_checks w phase command label job container) (\<lambda>(errors, databases).
       Inr (before @ errors, databases)))))))))))"

text \<open>\<^verbatim>\<open>sorted\<close> of a set of databases for the message: strings and numbers cannot be sorted together.\<close>

definition sortable :: "jval list \<Rightarrow> bool" where
  "sortable xs \<longleftrightarrow> list_all is_str xs \<or> list_all (\<lambda>x. number_of x \<noteq> None) xs"

definition schema_jobs :: "'a repo_scheme \<Rightarrow> string \<Rightarrow> string \<Rightarrow> jval list \<Rightarrow> string list res" where
  "schema_jobs w phase command resources =
     rbind (rfilter (has_kind ''Job'') resources) (\<lambda>jobs.
     rbind (rmap (job_checks w phase command) jobs) (\<lambda>results.
     (let databases = concat (map snd results) in
      if \<not> same_set databases EXPECTED_DATABASES \<and> \<not> sortable databases then Inl (PyError ''TypeError'')
      else
        Inr (check_true (length jobs = 2) (''expected two '' @ phase @ '' Jobs, got '' @ show_nat (length jobs))
          @ concat (map fst results)
          @ check_true (same_set databases EXPECTED_DATABASES) (phase @ '' Jobs databases'')))))"

subsection \<open>Servers\<close>

definition scheduling_identity :: "jval \<Rightarrow> jval res" where
  "scheduling_identity deployment =
     rbind (workload_spec deployment) (\<lambda>spec.
     rbind (jget ''nodeName'' spec) (\<lambda>node.
     rbind (jget ''nodeSelector'' spec) (\<lambda>selector.
     rbind (get_at [''affinity'', ''nodeAffinity'', ''requiredDuringSchedulingIgnoredDuringExecution''] spec) (\<lambda>required.
     Inr (JDict [(''nodeName'', node), (''nodeSelector'', selector), (''requiredNodeAffinity'', required)])))))"

definition server_container_checks :: "'a repo_scheme \<Rightarrow> string \<Rightarrow> jval \<Rightarrow> jval \<Rightarrow> string list res" where
  "server_container_checks w label deployment container =
     rbind (check_at [''image''] container (JStr SERVER_IMAGE) (label @ '': server digest mismatch'')) (\<lambda>image.
     rbind (env_map container) (\<lambda>env.
     rbind (in_order (map (\<lambda>variable. check_at [''valueFrom'', ''secretKeyRef'', ''name''] (map_get variable env) (JStr SECRET_NAME)
         (label @ '': '' @ variable @ '' must reference '' @ SECRET_NAME))
         [''TEMPORAL_DEFAULT_STORE_PASSWORD'', ''TEMPORAL_VISIBILITY_STORE_PASSWORD'', ''TEMPORAL_POSTGRES_USER''])) (\<lambda>refs.
     rbind (scheduling_identity deployment) (\<lambda>scheduling.
     rbind (sub_at [''spec'', ''template'', ''metadata'', ''annotations''] deployment) (\<lambda>annotations.
     rbind (jget ''prometheus.io/scrape'' annotations) (\<lambda>scrape.
     rbind (or_else (scrape \<noteq> JStr ''true'') (rbind (py_in ''elastic.co/dataset'' annotations) (\<lambda>b. Inr (\<not> b)))) (\<lambda>incomplete.
     rbind (jget_or ''volumeMounts'' (JList []) container) (\<lambda>vm. rbind (name_map vm) (\<lambda>mounts.
     rbind (workload_spec deployment) (\<lambda>spec. rbind (jget_or ''volumes'' (JList []) spec) (\<lambda>vs. rbind (name_map vs) (\<lambda>volumes.
     rbind (in_order
       [check_at [''mountPath''] (map_get ''config-runtime'' mounts) (JStr ''/etc/temporal/config'') (label @ '': writable config runtime mount is missing''),
        check_at [''emptyDir''] (map_get ''config-runtime'' volumes) (JDict []) (label @ '': config runtime must be ephemeral''),
        check_at [''mountPath''] (map_get ''frontend-mtls'' mounts) (JStr ''/etc/temporal/frontend-mtls'') (label @ '': frontend mTLS material mount is missing''),
        rbind (jget_or ''secret'' (JDict []) (map_get ''frontend-mtls'' volumes)) (\<lambda>secret.
        rbind (jget_or ''items'' (JList []) secret) (\<lambda>items. rbind (py_iter items) (\<lambda>is. rbind (rmap (jget ''key'') is) (\<lambda>ks. rbind (hash_set ks) (\<lambda>mtls_keys.
        rbind (jget ''secretName'' secret) (\<lambda>name.
        Inr (check_true (name = JStr FRONTEND_MTLS_SECRET_NAME \<and> same_set mtls_keys FRONTEND_MTLS_KEYS)
          (label @ '': frontend mTLS Secret contract is incomplete''))))))))]) (\<lambda>storage.
     rbind (validate_pod_hardening w deployment) (\<lambda>hardening.
     Inr (image
       @ check_true (map_of env (JStr ''TEMPORAL_ALLOW_NO_AUTH'') = None) (label @ '': must not opt into unauthenticated server admission'')
       @ refs
       @ check_true (\<not> occurs ''hestia'' (lower (py_repr (r_float w) scheduling))) (label @ '': workload must not be pinned to Hestia'')
       @ check_true (\<not> incomplete) (label @ '': logs/metrics annotations incomplete'')
       @ storage @ hardening)))))))))))))))"

definition server_checks :: "'a repo_scheme \<Rightarrow> jval \<Rightarrow> string list res" where
  "server_checks w deployment =
     rbind (temporal_key deployment) (\<lambda>(_, name, _).
     (let label = ''Deployment/'' @ py_str (r_float w) name in
     rbind (workload_containers deployment) (\<lambda>cs. rbind (py_len cs) (\<lambda>n.
     if n \<noteq> 1 then Inr [label @ '': expected one container'']
     else rbind (py_first cs) (server_container_checks w label deployment)))))"

definition component_label :: "jval \<Rightarrow> jval res" where
  "component_label resource = get_at [''metadata'', ''labels'', ''app.kubernetes.io/component''] resource"

text \<open>The components of the resources of a kind, as a set.\<close>

definition component_set :: "string \<Rightarrow> jval list \<Rightarrow> jval list res" where
  "component_set kind resources =
     rbind (rfilter (has_kind kind) resources) (\<lambda>rs. rbind (rmap component_label rs) hash_set)"

definition servers_checks :: "'a repo_scheme \<Rightarrow> jval list \<Rightarrow> string list res" where
  "servers_checks w resources =
     rbind (rfilter (has_kind ''Deployment'') resources) (\<lambda>deployments.
     rbind (component_set ''Deployment'' resources) (\<lambda>components.
     in_order (Inr (check_true (same_set components SERVICES) ''server components'') # map (server_checks w) deployments)))"

subsection \<open>Configuration\<close>

definition CONFIG_TEXTS :: "string list" where
  "CONFIG_TEXTS =
    [''numHistoryShards: '' @ show_nat EXPECTED_SHARDS,
     ''databaseName: temporal'' @ [CHR 0x0A],
     ''databaseName: temporal_visibility'' @ [CHR 0x0A],
     ''connectAddr: 192.168.1.10:5433'',
     ''enabled: true'',
     ''enableHostVerification: true'',
     ''currentClusterName: \"homelab-temporal-v1\"'']"

definition config_text_checks :: "string \<Rightarrow> string list" where
  "config_text_checks config =
     check_true (prefix (''# enable-template'' @ [CHR 0x0A]) config) ''server config must explicitly enable Temporal 1.31 sprig templating''
     @ check_true (count_of (''maxConns: 2'' @ [CHR 0x0A]) config = 1 \<and> count_of (''maxConns: 1'' @ [CHR 0x0A]) config = 1)
         ''server PostgreSQL pools must remain within the 24-connection Temporal budget''
     @ concat (map (\<lambda>required. check_true (occurs required config) (''server config missing immutable/runtime contract: '' @ strip required)) CONFIG_TEXTS)
     @ check_true (list_all (occurs ''{{ env \"TEMPORAL_'') (filter (prefix ''password:'') (map strip (splitlines config))))
         ''server config contains a non-environment PostgreSQL password''"

definition EXPECTED_CLIENT :: jval where
  "EXPECTED_CLIENT = JDict
    [(''serverName'', JStr ''temporal-frontend.temporal.svc.cluster.local''),
     (''disableHostVerification'', JBool False),
     (''rootCaFiles'', JList [JStr ''/etc/temporal/frontend-mtls/ca.crt''])]"

definition tls_checks :: "jval \<Rightarrow> string list res" where
  "tls_checks parsed =
     rbind (sub_at [''global'', ''tls''] parsed) (\<lambda>tls.
     rbind (jget_or ''frontend'' (JDict []) tls) (\<lambda>frontend.
     rbind (jget_or ''server'' (JDict []) frontend) (\<lambda>server.
     rbind (jget_or ''client'' (JDict []) frontend) (\<lambda>client.
     rbind (jget_or ''systemWorker'' (JDict []) tls) (\<lambda>worker.
     in_order
       [check_is ''requireClientAuth'' server True ''frontend mTLS client authentication must be required'',
        check_at [''clientCaFiles''] server (JList [JStr ''/etc/temporal/frontend-mtls/ca.crt'']) ''frontend mTLS client CA trust is missing'',
        rbind (jget ''certFile'' server) (\<lambda>cert. rbind (jget ''keyFile'' server) (\<lambda>key.
        Inr (check_true (cert = JStr ''/etc/temporal/frontend-mtls/server.crt'' \<and> key = JStr ''/etc/temporal/frontend-mtls/server.key'')
          ''frontend mTLS server identity is incomplete''))),
        Inr (check_true (py_eq client EXPECTED_CLIENT) ''frontend TLS client verification is not fail closed''),
        rbind (jget ''certFile'' worker) (\<lambda>cert. rbind (jget ''keyFile'' worker) (\<lambda>key.
        Inr (check_true (cert = JStr ''/etc/temporal/frontend-mtls/system-worker.crt'' \<and> key = JStr ''/etc/temporal/frontend-mtls/system-worker.key'')
          ''system-worker mTLS client identity is incomplete''))),
        check_at [''client''] worker EXPECTED_CLIENT ''system-worker frontend TLS verification is not fail closed''])))))"

definition config_checks :: "'a repo_scheme \<Rightarrow> jval list \<Rightarrow> string list res" where
  "config_checks w resources =
     rbind (rfilter (has_key ''ConfigMap'' ''temporal-server-config'') resources) (\<lambda>configmaps.
     case configmaps of
       [c] \<Rightarrow>
         rbind (jget_or ''data'' (JDict []) c) (\<lambda>data.
         rbind (jget_or ''config_template.yaml'' (JStr []) data) (\<lambda>v.
         case v of
           JStr config \<Rightarrow>
             rbind (case parse_server_config w config of
                 Loaded parsed \<Rightarrow> tls_checks parsed
               | YamlError msg \<Rightarrow> Inr [''server config template is invalid: '' @ msg]
               | BadScalar msg \<Rightarrow> Inr [''server config template is invalid: '' @ msg]) (\<lambda>errors.
             Inr (config_text_checks config @ errors))
         | _ \<Rightarrow> Inl (PyError ''AttributeError'')))
     | _ \<Rightarrow> Inr [''expected one ConfigMap/temporal-server-config''])"

subsection \<open>Exposure and network policy\<close>

definition frontend_checks :: "jval \<Rightarrow> string list res" where
  "frontend_checks service =
     rbind (jget_or ''spec'' (JDict []) service) (\<lambda>spec.
     rbind (jget_or ''type'' (JStr ''ClusterIP'') spec) (\<lambda>type.
     rbind (jget_or ''ports'' (JList []) spec) (\<lambda>ports.
     rbind (or_else (type \<noteq> JStr ''ClusterIP'') (rbind (py_iter ports) (any_res (py_in ''nodePort'')))) (\<lambda>exposed.
     rbind (py_iter ports) (\<lambda>ps. rbind (rmap (jget ''port'') ps) (\<lambda>ns. rbind (hash_set ns) (\<lambda>numbers.
     Inr (check_true (\<not> exposed) ''frontend must be ClusterIP-only''
       @ check_true (numbers \<noteq> [] \<and> list_all (\<lambda>n. key_eq n (JInt 7233)) numbers) ''frontend must expose only port 7233''))))))))"

definition service_checks :: "jval list \<Rightarrow> string list res" where
  "service_checks resources =
     rbind (rfilter (has_kind ''Service'') resources) (\<lambda>services.
     rbind (rfilter (\<lambda>r. rbind (temporal_key r) (\<lambda>(_, n, _). Inr (n = JStr ''temporal-frontend''))) services) (\<lambda>frontend.
     rbind (case frontend of [f] \<Rightarrow> frontend_checks f | _ \<Rightarrow> Inr [''expected one Service/temporal-frontend'']) (\<lambda>errors.
     rbind (any_res (\<lambda>r. rbind (jget ''kind'' r) (\<lambda>k. in_strs k [''Ingress'', ''IngressRoute''])) resources) (\<lambda>exposed.
     Inr (errors @ check_true (\<not> exposed) ''Temporal UI/ingress exposure is forbidden'')))))"

definition POLICY_TEXTS :: "string list" where
  "POLICY_TEXTS =
    [''192.168.1.10/32'', [CHR 0x27] @ ''7233'' @ [CHR 0x27], [CHR 0x27] @ ''5433'' @ [CHR 0x27], [CHR 0x27] @ ''53'' @ [CHR 0x27],
     ''app.kubernetes.io/instance: victoriametrics'', ''k8s:io.kubernetes.pod.namespace: default'']"

definition BROAD_PEERS :: "string list" where
  "BROAD_PEERS = [''fromCIDR'', ''fromCIDRSet'', ''fromEntities'']"

definition node_rule_checks :: "jval \<Rightarrow> string list res" where
  "node_rule_checks rule = in_order
     [check_at [''fromNodes''] rule (JList [JDict [(''matchLabels'', JDict [(''kubernetes.io/hostname'', JStr ''hestia'')])]]) ''Hestia node selector must be exact'',
      rbind (jget_or ''toPorts'' (JList []) rule) (\<lambda>ports.
      Inr (check_true (py_eq ports (JList [JDict [(''ports'', JList [JDict [(''port'', JStr ''7233''), (''protocol'', JStr ''TCP'')]])]]))
        ''Hestia frontend ingress must allow only TCP 7233'')),
      rbind (set_of rule) (\<lambda>ks. Inr (check_true (same_set ks [''fromNodes'', ''toPorts''])
        ''Hestia frontend ingress rule contains an unexpected peer or constraint''))]"

definition broad_peer_checks :: "jval \<Rightarrow> string list res" where
  "broad_peer_checks rule =
     rbind (any_res (\<lambda>peer. py_in peer rule) BROAD_PEERS) (\<lambda>broad.
     Inr (check_true (\<not> broad) ''broad host, world, or CIDR ingress is forbidden''))"

definition DNS_SELECTOR :: jval where
  "DNS_SELECTOR = JList [JDict [(''matchLabels'', JDict
     [(''k8s:io.kubernetes.pod.namespace'', JStr ''kube-system''), (''k8s:io.cilium.k8s.policy.serviceaccount'', JStr ''coredns'')])]]"

definition DNS_PORTS :: jval where
  "DNS_PORTS = JList [JDict
    [(''ports'', JList [JDict [(''port'', JStr ''53''), (''protocol'', JStr ''UDP'')], JDict [(''port'', JStr ''53''), (''protocol'', JStr ''TCP'')]]),
     (''rules'', JDict [(''dns'', JList [JDict [(''matchPattern'', JStr ''*.*.svc.cluster.local'')]])])]]"

definition has_dns_rule :: "jval \<Rightarrow> bool res" where
  "has_dns_rule rule =
     rbind (jget_or ''toPorts'' (JList []) rule) (\<lambda>v. rbind (py_iter v) (\<lambda>ports.
     any_res (\<lambda>p. rbind (get_at [''rules'', ''dns''] p) (\<lambda>d. Inr (truthy d))) ports))"

definition dns_rule_checks :: "jval \<Rightarrow> string list res" where
  "dns_rule_checks rule = in_order
     [check_at [''toEndpoints''] rule DNS_SELECTOR ''DNS egress must select only the CoreDNS service account'',
      check_at [''toPorts''] rule DNS_PORTS ''DNS egress must allow exactly Kubernetes service FQDNs over kube-dns TCP/UDP 53'',
      rbind (set_of rule) (\<lambda>ks. Inr (check_true (same_set ks [''toEndpoints'', ''toPorts'']) ''DNS egress rule contains an unexpected destination''))]"

definition policy_rules :: "string \<Rightarrow> jval \<Rightarrow> jval list res" where
  "policy_rules direction policy =
     rbind (jget_or ''spec'' (JDict []) policy) (\<lambda>spec. rbind (jget_or direction (JList []) spec) py_iter)"

definition network_policy_checks :: "temporal_repo \<Rightarrow> jval \<Rightarrow> string list res" where
  "network_policy_checks w policy = in_order
     [Inr (concat (map (\<lambda>required. check_true (occurs required (t_dump w policy)) (''Cilium policy missing topology restriction '' @ required)) POLICY_TEXTS)),
      rbind (policy_rules ''ingress'' policy) (\<lambda>ingress.
      rbind (rfilter (py_in ''fromNodes'') ingress) (\<lambda>node_rules.
      rbind (case node_rules of [r] \<Rightarrow> node_rule_checks r | _ \<Rightarrow> Inr [''Hestia frontend ingress rule must use fromNodes exactly once'']) (\<lambda>errors.
      rbind (in_order (map broad_peer_checks ingress)) (\<lambda>broad. Inr (errors @ broad))))),
      rbind (policy_rules ''egress'' policy) (\<lambda>egress.
      rbind (rfilter has_dns_rule egress) (\<lambda>dns_rules.
      case dns_rules of [r] \<Rightarrow> dns_rule_checks r | _ \<Rightarrow> Inr [''expected exactly one cluster DNS egress rule'']))]"

definition policies_checks :: "temporal_repo \<Rightarrow> jval list \<Rightarrow> string list res" where
  "policies_checks w resources =
     rbind (rfilter (has_kind ''CiliumNetworkPolicy'') resources) (\<lambda>policies.
     case policies of [p] \<Rightarrow> network_policy_checks w p | _ \<Rightarrow> Inr [''expected one Temporal CiliumNetworkPolicy''])"

subsection \<open>Prerequisites of the platform\<close>

definition CILIUM_DATA :: jval where
  "CILIUM_DATA = JDict [(''enable-l7-proxy'', JStr ''true''), (''enable-node-selector-labels'', JStr ''true''),
     (''node-labels'', JStr ''kubernetes.io/hostname'')]"

definition CILIUM_ANNOTATIONS :: jval where
  "CILIUM_ANNOTATIONS = JDict [(''kustomize.toolkit.fluxcd.io/prune'', JStr ''Disabled''), (''kustomize.toolkit.fluxcd.io/ssa'', JStr ''Merge'')]"

definition has_full_key :: "string \<Rightarrow> string \<Rightarrow> string \<Rightarrow> jval \<Rightarrow> bool res" where
  "has_full_key kind name ns resource = rbind (temporal_key resource) (\<lambda>i. Inr (i = (JStr kind, JStr name, JStr ns)))"

definition cilium_config_checks :: "jval \<Rightarrow> string list res" where
  "cilium_config_checks config = in_order
     [rbind (sub_at [''metadata'', ''annotations''] config) (\<lambda>annotations.
      Inr (check_true (py_eq annotations CILIUM_ANNOTATIONS) ''Cilium global configuration must use non-pruning Flux SSA merge ownership'')),
      check_at [''data''] config CILIUM_DATA ''Cilium global L7 proxy and node-selector-label prerequisites must be enabled with hostname-only identities'',
      rbind (set_of config) (\<lambda>ks. Inr (check_true (same_set ks [''apiVersion'', ''kind'', ''metadata'', ''data''])
        ''Cilium global configuration contains unexpected fields''))]"

definition node_config_checks :: "jval \<Rightarrow> string list res" where
  "node_config_checks config =
     rbind (jget_or ''spec'' (JDict []) config) (\<lambda>spec. in_order
     [check_at [''nodeSelector''] spec (JDict []) ''Cilium node-selector-label prerequisite must select every cluster node'',
      check_at [''defaults''] spec CILIUM_DATA ''Cilium all-node L7 proxy and node-selector-label prerequisites must be enabled with hostname-only identities'',
      rbind (set_of spec) (\<lambda>ks. Inr (check_true (same_set ks [''nodeSelector'', ''defaults''])
        ''Cilium node-selector-label prerequisite contains unexpected configuration''))])"

definition platform_checks :: "'a repo_scheme \<Rightarrow> string list res" where
  "platform_checks w =
     rbind (case render_docs w ''infrastructure/platform'' of
         Got docs \<Rightarrow> Inr ([], docs)
       | Caught msg \<Rightarrow> Inr ([msg], [])
       | Escapes e \<Rightarrow> Inl e) (\<lambda>(errors, resources).
     rbind (in_order
       [rbind (rfilter (has_full_key ''ConfigMap'' ''cilium-config'' ''kube-system'') resources) (\<lambda>configs.
        case configs of [c] \<Rightarrow> cilium_config_checks c | _ \<Rightarrow> Inr [''expected one merged kube-system ConfigMap/cilium-config prerequisite'']),
        rbind (rfilter (has_full_key ''CiliumNodeConfig'' ''node-selector-labels'' ''kube-system'') resources) (\<lambda>configs.
        case configs of [c] \<Rightarrow> node_config_checks c | _ \<Rightarrow> Inr [''expected one kube-system CiliumNodeConfig/node-selector-labels prerequisite''])]) (\<lambda>more.
     Inr (errors @ more)))"

subsection \<open>The order of Flux\<close>

definition FLUX_ROOT :: string where
  "FLUX_ROOT = ''clusters/k3s-homelab/flux-system/''"

fun load_flux :: "'a repo_scheme \<Rightarrow> string \<Rightarrow> (string \<times> string) list \<Rightarrow> (string list \<times> dict) res" where
  "load_flux w root_kustomization [] = Inr ([], [])"
| "load_flux w root_kustomization ((name, filename) # files) =
     (if \<not> occurs (''- '' @ filename @ [CHR 0x0A]) root_kustomization
      then rbind (load_flux w root_kustomization files) (\<lambda>(errors, flux). Inr ((''Flux root missing '' @ filename) # errors, flux))
      else
        rbind (read_text w (FLUX_ROOT @ filename)) (\<lambda>s. rbind (load_yaml w s) (\<lambda>resource.
        rbind (jget_or ''spec'' (JDict []) resource) (\<lambda>spec.
        rbind (jget ''wait'' spec) (\<lambda>wait. rbind (jget ''prune'' spec) (\<lambda>prune.
        rbind (load_flux w root_kustomization files) (\<lambda>(errors, flux).
        Inr (check_true (wait = JBool True \<and> prune = JBool True) (''Flux Kustomization/'' @ name @ '': wait and prune must be true'') @ errors,
          (name, resource) # flux))))))))"

definition FLUX_ORDER :: "(string \<times> string \<times> string list) list" where
  "FLUX_ORDER =
    [(''temporal-schema-setup'', ''./apps/temporal/schema-setup'', [''shared-services'']),
     (''temporal-schema-upgrade'', ''./apps/temporal/schema-upgrade'', [''temporal-schema-setup'']),
     (''temporal'', ''./apps/temporal/server'', [''platform'', ''temporal-schema-upgrade''])]"

definition order_check :: "dict \<Rightarrow> string \<times> string \<times> string list \<Rightarrow> string list res" where
  "order_check flux e = (case e of (name, path, dependencies) \<Rightarrow>
     rbind (jget_or ''spec'' (JDict []) (dget_or name (JDict []) flux)) (\<lambda>spec.
     rbind (jget_or ''dependsOn'' (JList []) spec) (\<lambda>v. rbind (py_iter v) (\<lambda>items.
     rbind (rmap (jget ''name'') items) (\<lambda>names. rbind (hash_set names) (\<lambda>actual.
     rbind (jget ''path'' spec) (\<lambda>p.
     Inr (check_true (p = JStr path \<and> same_set actual dependencies) (''Flux Kustomization/'' @ name @ '': unsafe path/dependency ordering'')))))))))"

definition flux_checks :: "'a repo_scheme \<Rightarrow> string list res" where
  "flux_checks w =
     rbind (read_text w (FLUX_ROOT @ ''kustomization.yaml'')) (\<lambda>root_kustomization.
     rbind (load_flux w root_kustomization FLUX_FILES) (\<lambda>(errors, flux).
     rbind (if flux = [] then Inr [] else in_order (map (order_check flux) FLUX_ORDER)) (\<lambda>order.
     Inr (errors @ order))))"

subsection \<open>validate and main\<close>

fun render_all :: "'a repo_scheme \<Rightarrow> string list \<Rightarrow> (string list \<times> jval list list) res" where
  "render_all w [] = Inr ([], [])"
| "render_all w (path # paths) =
     (case render_docs w path of
        Escapes e \<Rightarrow> Inl e
      | Caught msg \<Rightarrow> rbind (render_all w paths) (\<lambda>(errors, docs). Inr (msg # errors, [] # docs))
      | Got ds \<Rightarrow> rbind (render_all w paths) (\<lambda>(errors, docs). Inr (errors, ds # docs)))"

definition ENTRYPOINTS :: "string list" where
  "ENTRYPOINTS = [''apps/temporal/schema-setup'', ''apps/temporal/schema-upgrade'', ''apps/temporal/server'']"

definition resource_checks :: "temporal_repo \<Rightarrow> jval list \<Rightarrow> jval list \<Rightarrow> jval list \<Rightarrow> string list res" where
  "resource_checks w schema upgrade server =
     (let all_resources = schema @ upgrade @ server in
      in_order
        [rbind (any_res (has_kind ''Secret'') all_resources) (\<lambda>secret.
         Inr (check_true (\<not> secret) ''Temporal desired state must not contain Secret resources'')),
         in_order (map (namespace_error w) all_resources),
         namespace_checks all_resources,
         schema_jobs w ''setup'' ''setup-schema -v 0.0'' schema,
         schema_jobs w ''upgrade'' ''update-schema --schema-dir /etc/temporal/schema/postgresql/v12/'' upgrade,
         servers_checks w server,
         config_checks w server,
         service_checks server,
         policies_checks w server,
         platform_checks w,
         rbind (component_set ''PodDisruptionBudget'' server) (\<lambda>components.
         Inr (check_true (same_set components SERVICES) ''each Temporal service requires a PodDisruptionBudget'')),
         flux_checks w])"

definition validate_temporal :: "temporal_repo \<Rightarrow> string list res" where
  "validate_temporal w =
     (if \<not> t_is_dir w ''apps/temporal'' then Inr [''apps/temporal desired state is missing'']
      else
        rbind (render_all w ENTRYPOINTS) (\<lambda>(errors, docs).
        if errors \<noteq> [] then Inr errors else resource_checks w (docs ! 0) (docs ! 1) (docs ! 2)))"

definition temporal_main :: "temporal_repo \<Rightarrow> int res" where
  "temporal_main w = rbind (validate_temporal w) (\<lambda>errors. Inr (if errors \<noteq> [] then 1 else 0))"

end
