(* ===== verification/Temporal_Properties.thy ===== *)
theory Temporal_Properties
  imports Temporal
begin

section \<open>What acceptance by the Temporal validator means\<close>

text \<open>
  From an empty list of errors back to the manifests: the workloads run the reviewed images without privileges, and the network
  policy admits only the one node and only name resolution in the cluster.
\<close>

subsection \<open>Checks that add no error\<close>

lemma check_at_Nil [check_simps]: "check_at ks v wanted m = Inr [] \<longleftrightarrow> (\<exists>a. get_at ks v = Inr a \<and> py_eq a wanted)"
  by (auto simp: check_at_def rbind_eq_Inr check_simps)

lemma check_is_Nil [check_simps]: "check_is k v b m = Inr [] \<longleftrightarrow> jget k v = Inr (JBool b)"
  by (auto simp: check_is_def rbind_eq_Inr check_simps)

lemma one_of_Nil [check_simps]: "(case xs of [x] \<Rightarrow> f x | _ \<Rightarrow> Inr [m]) = Inr [] \<longleftrightarrow> (\<exists>x. xs = [x] \<and> f x = Inr [])"
  by (auto split: list.splits)

lemma in_order_in: "in_order cs = Inr [] \<Longrightarrow> c \<in> set cs \<Longrightarrow> c = Inr []"
  by (auto simp: in_order_Nil list_all_iff)

lemma rmap_in: "rmap f xs = Inr ys \<Longrightarrow> x \<in> set xs \<Longrightarrow> \<exists>y \<in> set ys. f x = Inr y"
  by (induction xs arbitrary: ys) (auto simp: rbind_eq_Inr)

lemma any_res_False: "any_res p xs = Inr False \<longleftrightarrow> (\<forall>x \<in> set xs. p x = Inr False)"
  by (induction xs) (auto simp: rbind_eq_Inr)

lemma rfilter_unique: "rfilter p xs = Inr [x] \<Longrightarrow> x \<in> set xs \<and> p x = Inr True \<and> (\<forall>y \<in> set xs. p y = Inr True \<longrightarrow> y = x)"
  using rfilter_set [of p xs "[x]"] by (auto simp: rfilter_all)

subsection \<open>Workloads\<close>

text \<open>
  A workload with one container of a given image that runs without privileges: the Pod and the container have the restricted
  security context and no token of a service account, all capabilities are dropped, and requests and limits are set.
\<close>

definition container_hardened :: "jval \<Rightarrow> bool" where
  "container_hardened c \<longleftrightarrow>
     get_at [''securityContext'', ''allowPrivilegeEscalation''] c = Inr (JBool False)
     \<and> get_at [''securityContext'', ''readOnlyRootFilesystem''] c = Inr (JBool True)
     \<and> get_at [''securityContext'', ''capabilities'', ''drop''] c = Inr (JList [JStr ''ALL''])
     \<and> (\<exists>requests limits. get_at [''resources'', ''requests''] c = Inr requests \<and> truthy requests
        \<and> get_at [''resources'', ''limits''] c = Inr limits \<and> truthy limits)"

definition workload_hardened :: "string \<Rightarrow> jval \<Rightarrow> bool" where
  "workload_hardened img r \<longleftrightarrow> (\<exists>spec c.
     workload_spec r = Inr spec \<and> jget ''containers'' spec = Inr (JList [c]) \<and> jget ''image'' c = Inr (JStr img)
     \<and> get_at [''securityContext'', ''runAsNonRoot''] spec = Inr (JBool True)
     \<and> get_at [''securityContext'', ''seccompProfile'', ''type''] spec = Inr (JStr ''RuntimeDefault'')
     \<and> jget ''automountServiceAccountToken'' spec = Inr (JBool False) \<and> container_hardened c)"

lemma container_hardening_Nil: "container_hardening label c = Inr [] \<Longrightarrow> container_hardened c"
  by (auto simp: container_hardening_def container_hardened_def rbind_eq_Inr check_simps py_eq_JList list_all2_Cons2)

lemma one_container:
  assumes "workload_containers r = Inr cs" and "py_len cs = Inr 1" and "py_first cs = Inr c" and "jget k c = Inr v"
  shows "\<exists>spec. workload_spec r = Inr spec \<and> jget ''containers'' spec = Inr (JList [c])"
proof -
  obtain spec where spec: "workload_spec r = Inr spec" "jget_or ''containers'' (JList []) spec = Inr cs"
    using assms(1) by (auto simp: workload_containers_def workload_spec_def rbind_eq_Inr)
  have "cs = JList [c]"
    using assms(2-4) by (cases cs) (auto simp: py_len_def py_first_def jget_def split: list.splits)
  then show ?thesis using spec by (auto simp: jget_or_eq_Inr jget_eq_Inr dget_or_def dget_def split: option.splits)
qed

lemma hardening_Nil:
  assumes "validate_pod_hardening w r = Inr []" and "workload_spec r = Inr spec" and "jget ''containers'' spec = Inr (JList [c])"
  shows "get_at [''securityContext'', ''runAsNonRoot''] spec = Inr (JBool True)
     \<and> get_at [''securityContext'', ''seccompProfile'', ''type''] spec = Inr (JStr ''RuntimeDefault'')
     \<and> jget ''automountServiceAccountToken'' spec = Inr (JBool False) \<and> container_hardened c"
proof -
  have "workload_containers r = Inr (JList [c])"
    using assms(2,3) by (auto simp: workload_containers_def workload_spec_def jget_or_eq_Inr jget_eq_Inr dget_or_def dget_def split: option.splits)
  with assms(1,2) show ?thesis
    by (auto simp: validate_pod_hardening_def rbind_eq_Inr check_simps or_else_def py_iter_def Let_def split: if_splits
        dest: container_hardening_Nil)
qed

lemma job_Nil:
  assumes "job_checks w phase command job = Inr ([], databases)"
  shows "workload_hardened ADMIN_IMAGE job"
proof -
  obtain cs c where j: "workload_containers job = Inr cs" "py_len cs = Inr 1" "py_first cs = Inr c" "jget ''image'' c = Inr (JStr ADMIN_IMAGE)"
      "validate_pod_hardening w job = Inr []"
    using assms unfolding job_checks_def job_container_checks_def
    by (auto simp: rbind_eq_Inr check_simps Let_def split: if_splits prod.splits)
  from one_container [OF j(1-4)] obtain spec where spec: "workload_spec job = Inr spec" "jget ''containers'' spec = Inr (JList [c])" by blast
  with hardening_Nil [OF j(5) spec] j(4) show ?thesis unfolding workload_hardened_def by blast
qed

lemma server_Nil:
  assumes "server_checks w d = Inr []"
  shows "workload_hardened SERVER_IMAGE d"
proof -
  obtain cs c label where j: "workload_containers d = Inr cs" "py_len cs = Inr 1" "py_first cs = Inr c"
      "server_container_checks w label d c = Inr []"
    using assms unfolding server_checks_def by (auto simp: rbind_eq_Inr Let_def split: if_splits prod.splits)
  then have i: "jget ''image'' c = Inr (JStr SERVER_IMAGE)" "validate_pod_hardening w d = Inr []"
    unfolding server_container_checks_def by (auto simp: rbind_eq_Inr check_simps)
  from one_container [OF j(1-3) i(1)] obtain spec where spec: "workload_spec d = Inr spec" "jget ''containers'' spec = Inr (JList [c])" by blast
  with hardening_Nil [OF i(2) spec] i(1) show ?thesis unfolding workload_hardened_def by blast
qed

subsection \<open>From acceptance to the groups of checks\<close>

lemma render_all_ENTRYPOINTS:
  "render_all w ENTRYPOINTS = Inr ([], docs) \<Longrightarrow> \<exists>schema upgrade server. docs = [schema, upgrade, server]
     \<and> render_docs w ''apps/temporal/schema-setup'' = Got schema \<and> render_docs w ''apps/temporal/schema-upgrade'' = Got upgrade
     \<and> render_docs w ''apps/temporal/server'' = Got server"
  by (auto simp: ENTRYPOINTS_def rbind_eq_Inr split: attempt.splits)

lemma temporal_accepted:
  assumes "validate_temporal w = Inr []"
  shows "\<exists>schema upgrade server. render_docs w ''apps/temporal/schema-setup'' = Got schema
    \<and> render_docs w ''apps/temporal/schema-upgrade'' = Got upgrade \<and> render_docs w ''apps/temporal/server'' = Got server
    \<and> resource_checks w schema upgrade server = Inr []"
proof -
  obtain docs where d: "render_all w ENTRYPOINTS = Inr ([], docs)" "resource_checks w (docs ! 0) (docs ! 1) (docs ! 2) = Inr []"
    using assms by (auto simp: validate_temporal_def rbind_eq_Inr split: if_splits)
  from render_all_ENTRYPOINTS [OF d(1)] d(2) show ?thesis by auto
qed

lemma schema_jobs_Nil:
  assumes "schema_jobs w phase command resources = Inr []" and "job \<in> set resources" and "has_kind ''Job'' job = Inr True"
  shows "workload_hardened ADMIN_IMAGE job"
proof -
  obtain jobs results where j: "rfilter (has_kind ''Job'') resources = Inr jobs" "rmap (job_checks w phase command) jobs = Inr results"
      "concat (map fst results) = []"
    using assms(1) by (auto simp: schema_jobs_def rbind_eq_Inr Let_def split: if_splits)
  have "job \<in> set jobs" using rfilter_set [OF j(1)] assms(2,3) by blast
  then obtain r where "r \<in> set results" "job_checks w phase command job = Inr r"
    using rmap_in [OF j(2)] by blast
  moreover from this have "fst r = []" using j(3) by simp
  ultimately show ?thesis using job_Nil [of w phase command job "snd r"] by (metis prod.collapse)
qed

lemma servers_Nil:
  assumes "servers_checks w resources = Inr []" and "d \<in> set resources" and "has_kind ''Deployment'' d = Inr True"
  shows "workload_hardened SERVER_IMAGE d"
proof -
  obtain ds where ds: "rfilter (has_kind ''Deployment'') resources = Inr ds" "list_all (\<lambda>d. server_checks w d = Inr []) ds"
    using assms(1) by (auto simp: servers_checks_def rbind_eq_Inr in_order_Nil list_all_iff)
  then have "server_checks w d = Inr []" using rfilter_set [OF ds(1)] assms(2,3) by (auto simp: list_all_iff)
  then show ?thesis by (rule server_Nil)
qed

lemma temporal_key_kind: "temporal_key r = Inr (kind, name, ns) \<Longrightarrow> kind \<noteq> JStr [] \<Longrightarrow> jget ''kind'' r = Inr kind"
  by (cases r) (auto simp: temporal_key_def rbind_eq_Inr jget_def dget_def dget_or_def split: option.splits)

text \<open>
  (C37) Only reviewed, unprivileged workloads are accepted. When the Temporal validator accepts, no rendered resource is a Secret
  and all but Namespaces are in the namespace of Temporal; every schema Job has exactly one container, of the reviewed
  administration image, and every Deployment exactly one, of the reviewed server image; and both run as non-root with the
  default seccomp profile, a read-only root, no escalation, no capabilities, no service account token, and with limits.
\<close>

theorem temporal_workloads_hardened:
  assumes "validate_temporal w = Inr []"
  shows "\<exists>schema upgrade server. render_docs w ''apps/temporal/schema-setup'' = Got schema
    \<and> render_docs w ''apps/temporal/schema-upgrade'' = Got upgrade \<and> render_docs w ''apps/temporal/server'' = Got server
    \<and> (\<forall>r \<in> set (schema @ upgrade @ server). \<exists>kind name ns. temporal_key r = Inr (kind, name, ns) \<and> kind \<noteq> JStr ''Secret''
        \<and> (kind = JStr ''Namespace'' \<or> ns = JStr TEMPORAL_NAMESPACE))
    \<and> (\<forall>job \<in> set (schema @ upgrade). has_kind ''Job'' job = Inr True \<longrightarrow> workload_hardened ADMIN_IMAGE job)
    \<and> (\<forall>d \<in> set server. has_kind ''Deployment'' d = Inr True \<longrightarrow> workload_hardened SERVER_IMAGE d)"
proof -
  obtain schema upgrade server where r: "render_docs w ''apps/temporal/schema-setup'' = Got schema"
      "render_docs w ''apps/temporal/schema-upgrade'' = Got upgrade" "render_docs w ''apps/temporal/server'' = Got server"
      "resource_checks w schema upgrade server = Inr []"
    using temporal_accepted [OF assms] by blast
  let ?all = "schema @ upgrade @ server"
  have c: "any_res (has_kind ''Secret'') ?all = Inr False" "\<forall>r \<in> set ?all. namespace_error w r = Inr []"
      "\<exists>command. schema_jobs w ''setup'' command schema = Inr []" "\<exists>command. schema_jobs w ''upgrade'' command upgrade = Inr []"
      "servers_checks w server = Inr []"
    using r(4) unfolding resource_checks_def Let_def by (auto simp: in_order_Nil list_all_iff rbind_eq_Inr check_simps)
  have "\<exists>kind name ns. temporal_key r = Inr (kind, name, ns) \<and> kind \<noteq> JStr ''Secret''
      \<and> (kind = JStr ''Namespace'' \<or> ns = JStr TEMPORAL_NAMESPACE)" if "r \<in> set ?all" for r
  proof -
    have "namespace_error w r = Inr []" "has_kind ''Secret'' r = Inr False" using c(1,2) that by (auto simp: any_res_False)
    then show ?thesis using temporal_key_kind [of r "JStr ''Secret''"]
      by (auto simp: namespace_error_def has_kind_def rbind_eq_Inr check_simps)
  qed
  moreover have "workload_hardened ADMIN_IMAGE job" if "job \<in> set (schema @ upgrade)" "has_kind ''Job'' job = Inr True" for job
    using that c(3,4) schema_jobs_Nil [of w _ _ schema job] schema_jobs_Nil [of w _ _ upgrade job] by auto
  ultimately show ?thesis using r(1-3) servers_Nil [OF c(5)] by blast
qed

subsection \<open>The network policy\<close>

definition HESTIA_RULE :: jval where
  "HESTIA_RULE = JDict
    [(''fromNodes'', JList [JDict [(''matchLabels'', JDict [(''kubernetes.io/hostname'', JStr ''hestia'')])]]),
     (''toPorts'', JList [JDict [(''ports'', JList [JDict [(''port'', JStr ''7233''), (''protocol'', JStr ''TCP'')]])]])]"

definition DNS_RULE :: jval where
  "DNS_RULE = JDict [(''toEndpoints'', DNS_SELECTOR), (''toPorts'', DNS_PORTS)]"

lemma same_keys: "set_of (JDict d) = Inr ks \<Longrightarrow> same_set ks names \<longleftrightarrow> set (map fst d) = set names"
proof -
  assume "set_of (JDict d) = Inr ks"
  then have "ks = map (JStr \<circ> fst) d" by (simp add: set_of_def hash_set_def py_iter_def split: if_splits)
  then have "set ks = JStr ` set (map fst d)" by (simp add: image_comp)
  moreover have "inj JStr" by (simp add: inj_def)
  ultimately show ?thesis by (simp add: same_set_def inj_image_eq_iff del: set_map)
qed

lemma rule_equal:
  assumes "get_at [a] r = Inr x" "py_eq x v" "get_at [b] r = Inr y" "py_eq y v'" "set_of r = Inr ks" "same_set ks [a, b]"
  shows "py_eq r (JDict [(a, v), (b, v')])"
proof -
  obtain d where d: "r = JDict d" using assms(1) by (auto simp: jget_eq_Inr)
  with assms same_keys [of d ks "[a, b]"] show ?thesis by (simp add: py_eq_JDict)
qed

lemma node_rule_Nil: "node_rule_checks r = Inr [] \<Longrightarrow> py_eq r HESTIA_RULE"
proof -
  assume "node_rule_checks r = Inr []"
  then obtain x y ks where n: "get_at [''fromNodes''] r = Inr x" "jget_or ''toPorts'' (JList []) r = Inr y" "set_of r = Inr ks"
      "same_set ks [''fromNodes'', ''toPorts'']"
      "py_eq x (JList [JDict [(''matchLabels'', JDict [(''kubernetes.io/hostname'', JStr ''hestia'')])]])"
      "py_eq y (JList [JDict [(''ports'', JList [JDict [(''port'', JStr ''7233''), (''protocol'', JStr ''TCP'')]])]])"
    unfolding node_rule_checks_def by (auto simp: in_order_Nil check_simps rbind_eq_Inr simp del: get_at.simps)
  obtain d where d: "r = JDict d" using n(1) by (auto simp: jget_eq_Inr)
  then have "''toPorts'' \<in> set (map fst d)" using same_keys [of d ks] n(3,4) by simp
  then have "get_at [''toPorts''] r = Inr y" using n(2) d
    by (auto simp: dget_def dget_or_def split: option.splits dest: map_of_eq_None_iff [THEN iffD1])
  from rule_equal [OF n(1,5) this n(6,3,4)] show ?thesis by (simp only: HESTIA_RULE_def)
qed

lemma dns_rule_Nil: "dns_rule_checks r = Inr [] \<Longrightarrow> py_eq r DNS_RULE"
  unfolding dns_rule_checks_def DNS_RULE_def
  by (auto simp: in_order_Nil check_simps rbind_eq_Inr simp del: get_at.simps intro: rule_equal)

lemma broad_peer_Nil: "broad_peer_checks rule = Inr [] \<longleftrightarrow> (\<forall>peer \<in> set BROAD_PEERS. py_in peer rule = Inr False)"
  by (auto simp: broad_peer_checks_def rbind_eq_Inr check_simps any_res_False [symmetric])

lemma policy_Nil:
  assumes "network_policy_checks w policy = Inr []"
  shows "\<exists>ingress egress node dns. policy_rules ''ingress'' policy = Inr ingress \<and> policy_rules ''egress'' policy = Inr egress
    \<and> rfilter (py_in ''fromNodes'') ingress = Inr [node] \<and> py_eq node HESTIA_RULE
    \<and> (\<forall>rule \<in> set ingress. \<forall>peer \<in> set BROAD_PEERS. py_in peer rule = Inr False)
    \<and> rfilter has_dns_rule egress = Inr [dns] \<and> py_eq dns DNS_RULE"
proof -
  obtain ingress egress node dns where p: "policy_rules ''ingress'' policy = Inr ingress" "policy_rules ''egress'' policy = Inr egress"
      "rfilter (py_in ''fromNodes'') ingress = Inr [node]" "rfilter has_dns_rule egress = Inr [dns]"
      "list_all (\<lambda>rule. broad_peer_checks rule = Inr []) ingress" "node_rule_checks node = Inr []" "dns_rule_checks dns = Inr []"
    using assms unfolding network_policy_checks_def by (auto simp: in_order_Nil rbind_eq_Inr list_all_iff check_simps)
  then show ?thesis using node_rule_Nil dns_rule_Nil by (auto simp: list_all_iff broad_peer_Nil)
qed

lemma frontend_Nil:
  assumes "frontend_checks service = Inr []"
  shows "\<exists>spec ports. jget_or ''spec'' (JDict []) service = Inr spec \<and> jget_or ''type'' (JStr ''ClusterIP'') spec = Inr (JStr ''ClusterIP'')
    \<and> rbind (jget_or ''ports'' (JList []) spec) py_iter = Inr ports \<and> ports \<noteq> []
    \<and> (\<forall>p \<in> set ports. py_in ''nodePort'' p = Inr False \<and> (\<exists>n. jget ''port'' p = Inr n \<and> key_eq n (JInt 7233)))"
proof -
  obtain spec v ps ns numbers where f: "jget_or ''spec'' (JDict []) service = Inr spec"
      "jget_or ''type'' (JStr ''ClusterIP'') spec = Inr (JStr ''ClusterIP'')" "jget_or ''ports'' (JList []) spec = Inr v"
      "py_iter v = Inr ps" "any_res (py_in ''nodePort'') ps = Inr False" "rmap (jget ''port'') ps = Inr ns" "hash_set ns = Inr numbers"
      "numbers \<noteq> []" "list_all (\<lambda>n. key_eq n (JInt 7233)) numbers"
    using assms by (auto simp: frontend_checks_def rbind_eq_Inr check_simps or_else_def split: if_splits)
  have "numbers = ns" using f(7) by (auto simp: hash_set_def split: if_splits)
  then have "\<exists>n. jget ''port'' p = Inr n \<and> key_eq n (JInt 7233)" if "p \<in> set ps" for p
    using rmap_in [OF f(6) that] f(9) by (auto simp: list_all_iff)
  moreover have "ps \<noteq> []" using f(6,8) \<open>numbers = ns\<close> by auto
  ultimately show ?thesis using f(1-5) by (auto simp: any_res_False)
qed

text \<open>
  (C38) The policy and the frontend of Temporal. When the validator accepts, the rendered server has exactly one
  \<^verbatim>\<open>CiliumNetworkPolicy\<close>; no ingress rule of
  it has a peer by address, address set or entity; its only ingress rule for nodes is exactly the one that admits the node
  Hestia to port 7233; its only egress rule for name resolution is exactly the one to CoreDNS for names in the cluster; no resource is
  an \<^verbatim>\<open>Ingress\<close> or \<^verbatim>\<open>IngressRoute\<close>; and there is exactly one Service named
  \<^verbatim>\<open>temporal-frontend\<close>, which is of the type \<^verbatim>\<open>ClusterIP\<close>, has no node port, and at
  least one port, all of them 7233. Nothing is said of policies of other kinds or of Services of other names.
\<close>

theorem temporal_network_confined:
  assumes "validate_temporal w = Inr []"
  shows "\<exists>server policy ingress egress node dns frontend spec ports.
    render_docs w ''apps/temporal/server'' = Got server
    \<and> rfilter (has_kind ''CiliumNetworkPolicy'') server = Inr [policy]
    \<and> policy_rules ''ingress'' policy = Inr ingress \<and> policy_rules ''egress'' policy = Inr egress
    \<and> (\<forall>rule \<in> set ingress. \<forall>peer \<in> set BROAD_PEERS. py_in peer rule = Inr False)
    \<and> rfilter (py_in ''fromNodes'') ingress = Inr [node] \<and> py_eq node HESTIA_RULE
    \<and> rfilter has_dns_rule egress = Inr [dns] \<and> py_eq dns DNS_RULE
    \<and> (\<forall>r \<in> set server. \<forall>kind. jget ''kind'' r = Inr kind \<longrightarrow> kind \<notin> {JStr ''Ingress'', JStr ''IngressRoute''})
    \<and> frontend \<in> set server \<and> has_key ''Service'' ''temporal-frontend'' frontend = Inr True
    \<and> (\<forall>r \<in> set server. has_key ''Service'' ''temporal-frontend'' r = Inr True \<longrightarrow> r = frontend)
    \<and> jget_or ''spec'' (JDict []) frontend = Inr spec \<and> jget_or ''type'' (JStr ''ClusterIP'') spec = Inr (JStr ''ClusterIP'')
    \<and> rbind (jget_or ''ports'' (JList []) spec) py_iter = Inr ports \<and> ports \<noteq> []
    \<and> (\<forall>p \<in> set ports. py_in ''nodePort'' p = Inr False \<and> (\<exists>n. jget ''port'' p = Inr n \<and> key_eq n (JInt 7233)))"
proof -
  obtain schema upgrade server where r: "render_docs w ''apps/temporal/server'' = Got server" "resource_checks w schema upgrade server = Inr []"
    using temporal_accepted [OF assms] by blast
  then have c: "service_checks server = Inr []" "policies_checks w server = Inr []"
    unfolding resource_checks_def Let_def by (auto simp: in_order_Nil)
  obtain policy where p: "rfilter (has_kind ''CiliumNetworkPolicy'') server = Inr [policy]" "network_policy_checks w policy = Inr []"
    using c(2) by (auto simp: policies_checks_def rbind_eq_Inr check_simps)
  obtain services frontend where s: "rfilter (has_kind ''Service'') server = Inr services"
      "rfilter (\<lambda>r. rbind (temporal_key r) (\<lambda>(_, n, _). Inr (n = JStr ''temporal-frontend''))) services = Inr [frontend]"
      "frontend_checks frontend = Inr []"
      "any_res (\<lambda>r. rbind (jget ''kind'' r) (\<lambda>k. in_strs k [''Ingress'', ''IngressRoute''])) server = Inr False"
    using c(1) by (auto simp: service_checks_def rbind_eq_Inr check_simps)
  have "r = frontend" if a: "r \<in> set server" and b: "has_key ''Service'' ''temporal-frontend'' r = Inr True" for r
  proof -
    obtain ns where k: "temporal_key r = Inr (JStr ''Service'', JStr ''temporal-frontend'', ns)"
      using b by (auto simp: has_key_def rbind_eq_Inr)
    then have "has_kind ''Service'' r = Inr True" using temporal_key_kind [OF k] by (simp add: has_kind_def)
    then have "r \<in> set services" using rfilter_set [OF s(1)] a by blast
    then show ?thesis using rfilter_unique [OF s(2)] k by simp
  qed
  moreover have "kind \<notin> {JStr ''Ingress'', JStr ''IngressRoute''}" if "r \<in> set server" "jget ''kind'' r = Inr kind" for r kind
    using s(4) that by (auto simp: any_res_False)
  moreover obtain spec ports where "jget_or ''spec'' (JDict []) frontend = Inr spec" "jget_or ''type'' (JStr ''ClusterIP'') spec = Inr (JStr ''ClusterIP'')"
      "rbind (jget_or ''ports'' (JList []) spec) py_iter = Inr ports" "ports \<noteq> []"
      "\<forall>p \<in> set ports. py_in ''nodePort'' p = Inr False \<and> (\<exists>n. jget ''port'' p = Inr n \<and> key_eq n (JInt 7233))"
    using frontend_Nil [OF s(3)] by blast
  moreover have "frontend \<in> set server" "has_key ''Service'' ''temporal-frontend'' frontend = Inr True"
  proof -
    have f: "frontend \<in> set services" "rbind (temporal_key frontend) (\<lambda>(_, n, _). Inr (n = JStr ''temporal-frontend'')) = Inr True"
      using rfilter_set [OF s(2)] by auto
    then have g: "frontend \<in> set server" "has_kind ''Service'' frontend = Inr True" using rfilter_set [OF s(1)] by auto
    obtain k ns where k: "temporal_key frontend = Inr (k, JStr ''temporal-frontend'', ns)" using f(2) by (auto simp: rbind_eq_Inr)
    have "jget ''kind'' frontend = Inr (JStr ''Service'')" using g(2) by (auto simp: has_kind_def rbind_eq_Inr)
    then have "k = JStr ''Service''" using k
      by (cases frontend) (auto simp: temporal_key_def rbind_eq_Inr jget_def dget_def dget_or_def split: option.splits)
    with k g(1) show "frontend \<in> set server" "has_key ''Service'' ''temporal-frontend'' frontend = Inr True" by (simp_all add: has_key_def)
  qed
  ultimately show ?thesis using r(1) p(1) policy_Nil [OF p(2)] by blast
qed

end
