(* ===== verification/Temporal_Example.thy ===== *)
theory Temporal_Example
  imports Temporal_Properties
begin

section \<open>Manifests of Temporal that are accepted\<close>

text \<open>
  A repository whose manifests pass the validator, for the witnesses of the properties. The YAML library, \<^verbatim>\<open>kustomize\<close> and the files
  are concrete functions: a rendering is identified by the path of its entry point, and a file by its name.
\<close>

definition ex_object :: "string \<Rightarrow> string \<Rightarrow> string \<Rightarrow> dict \<Rightarrow> dict \<Rightarrow> jval" where
  "ex_object kind name component extra rest = JDict
    ([(''kind'', JStr kind),
      (''metadata'', JDict ([(''name'', JStr name), (''namespace'', JStr ''temporal''),
         (''labels'', JDict [(''app.kubernetes.io/component'', JStr component)])] @ extra))] @ rest)"

definition ex_pod_template :: "dict \<Rightarrow> dict \<Rightarrow> dict \<Rightarrow> jval" where
  "ex_pod_template annotations volumes container = JDict [(''template'', JDict
    [(''metadata'', JDict [(''annotations'', JDict annotations)]),
     (''spec'', JDict ([(''automountServiceAccountToken'', JBool False),
        (''securityContext'', JDict [(''runAsNonRoot'', JBool True), (''seccompProfile'', JDict [(''type'', JStr ''RuntimeDefault'')])]),
        (''containers'', JList [JDict (container @
           [(''securityContext'', JDict [(''allowPrivilegeEscalation'', JBool False), (''readOnlyRootFilesystem'', JBool True),
              (''capabilities'', JDict [(''drop'', JList [JStr ''ALL''])])]),
            (''resources'', JDict [(''requests'', JDict [(''cpu'', JInt 1)]), (''limits'', JDict [(''cpu'', JInt 1)])])])])] @ volumes))])]"

definition ex_ref :: "string \<Rightarrow> jval" where
  "ex_ref name = JDict [(''name'', JStr name), (''valueFrom'', JDict [(''secretKeyRef'', JDict [(''name'', JStr SECRET_NAME)])])]"

definition ex_var :: "string \<Rightarrow> string \<Rightarrow> jval" where
  "ex_var name v = JDict [(''name'', JStr name), (''value'', JStr v)]"

definition ex_schema_job :: "string \<Rightarrow> string \<Rightarrow> string \<Rightarrow> jval" where
  "ex_schema_job name command database = ex_object ''Job'' name ''schema'' []
    [(''spec'', ex_pod_template [] [] [(''image'', JStr ADMIN_IMAGE), (''command'', JList [JStr command]),
       (''env'', JList [ex_var ''SQL_DATABASE'' database, ex_ref ''SQL_USER'', ex_ref ''SQL_PASSWORD'', ex_var ''SQL_TLS'' ''true'',
          ex_var ''SQL_TLS_DISABLE_HOST_VERIFICATION'' ''false''])])]"

definition ex_server :: "string \<Rightarrow> jval" where
  "ex_server component = ex_object ''Deployment'' component component []
    [(''spec'', ex_pod_template [(''prometheus.io/scrape'', JStr ''true''), (''elastic.co/dataset'', JStr ''temporal'')]
       [(''volumes'', JList
          [JDict [(''name'', JStr ''config-runtime''), (''emptyDir'', JDict [])],
           JDict [(''name'', JStr ''frontend-mtls''), (''secret'', JDict [(''secretName'', JStr FRONTEND_MTLS_SECRET_NAME),
             (''items'', JList (map (\<lambda>k. JDict [(''key'', JStr k)]) FRONTEND_MTLS_KEYS))])]])]
       [(''image'', JStr SERVER_IMAGE),
        (''env'', JList [ex_ref ''TEMPORAL_DEFAULT_STORE_PASSWORD'', ex_ref ''TEMPORAL_VISIBILITY_STORE_PASSWORD'', ex_ref ''TEMPORAL_POSTGRES_USER'']),
        (''volumeMounts'', JList
          [JDict [(''name'', JStr ''config-runtime''), (''mountPath'', JStr ''/etc/temporal/config'')],
           JDict [(''name'', JStr ''frontend-mtls''), (''mountPath'', JStr ''/etc/temporal/frontend-mtls'')]])])]"

definition ex_config :: string where
  "ex_config = unlines ([''# enable-template'', ''maxConns: 2'', ''maxConns: 1'', ''databaseName: temporal'', ''databaseName: temporal_visibility'',
     ''numHistoryShards: 128'', ''connectAddr: 192.168.1.10:5433'', ''enabled: true'', ''enableHostVerification: true'',
     ''currentClusterName: \"homelab-temporal-v1\"'', ''password: {{ env \"TEMPORAL_DEFAULT_STORE_PASSWORD\" }}''])"

definition ex_parsed :: jval where
  "ex_parsed = JDict [(''global'', JDict [(''tls'', JDict
    [(''frontend'', JDict
       [(''server'', JDict [(''requireClientAuth'', JBool True), (''clientCaFiles'', JList [JStr ''/etc/temporal/frontend-mtls/ca.crt'']),
           (''certFile'', JStr ''/etc/temporal/frontend-mtls/server.crt''), (''keyFile'', JStr ''/etc/temporal/frontend-mtls/server.key'')]),
        (''client'', EXPECTED_CLIENT)]),
     (''systemWorker'', JDict [(''certFile'', JStr ''/etc/temporal/frontend-mtls/system-worker.crt''),
        (''keyFile'', JStr ''/etc/temporal/frontend-mtls/system-worker.key''), (''client'', EXPECTED_CLIENT)])])])]"

definition ex_policy :: jval where
  "ex_policy = ex_object ''CiliumNetworkPolicy'' ''temporal'' ''policy'' []
    [(''spec'', JDict [(''ingress'', JList [HESTIA_RULE]), (''egress'', JList [DNS_RULE])])]"

definition ex_frontend :: jval where
  "ex_frontend = ex_object ''Service'' ''temporal-frontend'' ''frontend'' [] [(''spec'', JDict [(''ports'', JList [JDict [(''port'', JInt 7233)]])])]"

definition ex_namespace :: jval where
  "ex_namespace = JDict [(''kind'', JStr ''Namespace''), (''metadata'', JDict [(''name'', JStr ''temporal''), (''labels'', JDict
    [(''pod-security.kubernetes.io/enforce'', JStr ''restricted''), (''pod-security.kubernetes.io/audit'', JStr ''restricted''),
     (''pod-security.kubernetes.io/warn'', JStr ''restricted'')])])]"

definition ex_schema :: "jval list" where
  "ex_schema = [ex_namespace, ex_schema_job ''setup-1-31-2'' ''setup-schema -v 0.0'' ''temporal'',
     ex_schema_job ''setup-visibility-1-31-2'' ''setup-schema -v 0.0'' ''temporal_visibility'']"

definition ex_upgrade :: "jval list" where
  "ex_upgrade = [ex_schema_job ''upgrade-1-31-2'' ''update-schema --schema-dir /etc/temporal/schema/postgresql/v12/'' ''temporal'',
     ex_schema_job ''upgrade-visibility-1-31-2'' ''update-schema --schema-dir /etc/temporal/schema/postgresql/v12/'' ''temporal_visibility'']"

definition ex_servers :: "jval list" where
  "ex_servers = map ex_server SERVICES @ map (\<lambda>c. ex_object ''PodDisruptionBudget'' c c [] []) SERVICES
     @ [ex_object ''ConfigMap'' ''temporal-server-config'' ''config'' [] [(''data'', JDict [(''config_template.yaml'', JStr ex_config)])],
        ex_frontend, ex_policy]"

definition ex_platform :: "jval list" where
  "ex_platform =
    [JDict [(''apiVersion'', JStr ''v1''), (''kind'', JStr ''ConfigMap''), (''data'', CILIUM_DATA),
       (''metadata'', JDict [(''name'', JStr ''cilium-config''), (''namespace'', JStr ''kube-system''), (''annotations'', CILIUM_ANNOTATIONS)])],
     JDict [(''kind'', JStr ''CiliumNodeConfig''), (''metadata'', JDict [(''name'', JStr ''node-selector-labels''), (''namespace'', JStr ''kube-system'')]),
       (''spec'', JDict [(''nodeSelector'', JDict []), (''defaults'', CILIUM_DATA)])]]"

definition ex_flux_file :: "string \<times> string \<times> string list \<Rightarrow> jval" where
  "ex_flux_file e = (case e of (name, path, dependencies) \<Rightarrow> JDict [(''spec'', JDict [(''wait'', JBool True), (''prune'', JBool True), (''path'', JStr path),
     (''dependsOn'', JList (map (\<lambda>d. JDict [(''name'', JStr d)]) dependencies))])])"

definition ex_temporal :: temporal_repo where
  "ex_temporal = \<lparr>r_which = (\<lambda>_. None), r_run = (\<lambda>command. Exited 0 (last command) []),
     r_read = (\<lambda>path. FileText (if path = FLUX_ROOT @ ''kustomization.yaml''
        then concat (map (\<lambda>(_, file). ''- '' @ file @ [CHR 0x0A]) FLUX_FILES) else path)),
     r_yaml = (\<lambda>s. Loaded (if s = FLUX_ROOT @ snd (FLUX_FILES ! 0) then ex_flux_file (FLUX_ORDER ! 0)
        else if s = FLUX_ROOT @ snd (FLUX_FILES ! 1) then ex_flux_file (FLUX_ORDER ! 1)
        else if s = FLUX_ROOT @ snd (FLUX_FILES ! 2) then ex_flux_file (FLUX_ORDER ! 2) else ex_parsed)),
     r_yaml_all = (\<lambda>s. Loaded (if s = ''apps/temporal/schema-setup'' then ex_schema
        else if s = ''apps/temporal/schema-upgrade'' then ex_upgrade
        else if s = ''apps/temporal/server'' then ex_servers else ex_platform)),
     r_float = (\<lambda>_. []), t_is_dir = (\<lambda>_. True), t_dump = (\<lambda>_. unlines POLICY_TEXTS)\<rparr>"

lemma ex_servers_ok: "servers_checks ex_temporal ex_servers = Inr []"
  by code_simp

lemma ex_jobs_ok:
  "schema_jobs ex_temporal ''setup'' ''setup-schema -v 0.0'' ex_schema = Inr []"
  "schema_jobs ex_temporal ''upgrade'' ''update-schema --schema-dir /etc/temporal/schema/postgresql/v12/'' ex_upgrade = Inr []"
  by code_simp+

lemma ex_config_checks_ok: "config_checks ex_temporal ex_servers = Inr []"
  by code_simp

lemma ex_service_ok: "service_checks ex_servers = Inr []"
  by code_simp

lemma ex_policies_ok: "policies_checks ex_temporal ex_servers = Inr []"
  by code_simp

lemma ex_platform_ok: "platform_checks ex_temporal = Inr []"
  by code_simp

lemma ex_flux_ok: "flux_checks ex_temporal = Inr []"
  by code_simp

lemma ex_names_ok:
  "any_res (has_kind ''Secret'') (ex_schema @ ex_upgrade @ ex_servers) = Inr False"
  "in_order (map (namespace_error ex_temporal) (ex_schema @ ex_upgrade @ ex_servers)) = Inr []"
  "namespace_checks (ex_schema @ ex_upgrade @ ex_servers) = Inr []"
  by code_simp+

lemma ex_budgets_ok: "rbind (component_set ''PodDisruptionBudget'' ex_servers) (\<lambda>c. Inr (same_set c SERVICES)) = Inr True"
  by code_simp

lemma ex_rendered:
  "render_docs ex_temporal ''apps/temporal/schema-setup'' = Got ex_schema"
  "render_docs ex_temporal ''apps/temporal/schema-upgrade'' = Got ex_upgrade"
  "render_docs ex_temporal ''apps/temporal/server'' = Got ex_servers"
  by (simp_all add: render_docs_def render_command_def ex_temporal_def ex_schema_def ex_upgrade_def ex_servers_def ex_namespace_def
      ex_schema_job_def ex_object_def ex_server_def ex_frontend_def ex_policy_def SERVICES_def)

lemma ex_temporal_accepted: "validate_temporal ex_temporal = Inr []"
proof -
  have "t_is_dir ex_temporal ''apps/temporal''" by (simp add: ex_temporal_def)
  moreover have "render_all ex_temporal ENTRYPOINTS = Inr ([], [ex_schema, ex_upgrade, ex_servers])"
    by (simp add: ENTRYPOINTS_def ex_rendered)
  moreover have "rbind (component_set ''PodDisruptionBudget'' ex_servers) (\<lambda>c. Inr (check_true (same_set c SERVICES) m)) = Inr []" for m
    using ex_budgets_ok by (auto simp: rbind_eq_Inr check_true_def)
  then have "resource_checks ex_temporal ex_schema ex_upgrade ex_servers = Inr []"
    unfolding resource_checks_def Let_def
    by (intro in_order_Nil [THEN iffD2]) (simp only: list.pred_inject ex_servers_ok ex_jobs_ok ex_config_checks_ok ex_service_ok ex_policies_ok ex_platform_ok ex_flux_ok ex_names_ok
        rbind_Inr check_true_def simp_thms if_True)
  ultimately show ?thesis by (simp add: validate_temporal_def)
qed

theorem temporal_workloads_hardened_witness:
  "workload_hardened SERVER_IMAGE (ex_server ''frontend'')
   \<and> workload_hardened ADMIN_IMAGE (ex_schema_job ''setup-1-31-2'' ''setup-schema -v 0.0'' ''temporal'')"
proof -
  have "has_kind ''Deployment'' (ex_server ''frontend'') = Inr True"
      "has_kind ''Job'' (ex_schema_job ''setup-1-31-2'' ''setup-schema -v 0.0'' ''temporal'') = Inr True"
    by (simp_all add: has_kind_def ex_server_def ex_schema_job_def ex_object_def)
  moreover have "ex_server ''frontend'' \<in> set ex_servers" by (simp add: ex_servers_def SERVICES_def)
  moreover have "ex_schema_job ''setup-1-31-2'' ''setup-schema -v 0.0'' ''temporal'' \<in> set ex_schema" by (simp add: ex_schema_def)
  ultimately show ?thesis using temporal_workloads_hardened [OF ex_temporal_accepted] unfolding ex_rendered attempt.inject by auto
qed

theorem temporal_network_confined_witness:
  "\<exists>policy ingress. rfilter (has_kind ''CiliumNetworkPolicy'') ex_servers = Inr [policy] \<and> policy_rules ''ingress'' policy = Inr ingress
     \<and> list_all (\<lambda>rule. py_in ''fromCIDR'' rule = Inr False) ingress"
proof -
  have "''fromCIDR'' \<in> set BROAD_PEERS" by (simp add: BROAD_PEERS_def)
  then show ?thesis using temporal_network_confined [OF ex_temporal_accepted] unfolding ex_rendered attempt.inject list_all_iff by metis
qed

end
