(* ===== verification/Helm_Values.thy ===== *)
theory Helm_Values
  imports Temporal
begin

section \<open>The validator of the GitLab chart: release and sources\<close>

text \<open>
  The first part of \<^verbatim>\<open>scripts/validate_gitlab_helm.py\<close>: the comparison \<^verbatim>\<open>expect\<close>, the checks on the HelmRelease and
  its values, on the alerts and the storage for recovery, and on the running web tier. The tables hold the paths and the wanted
  values in the order of the code. \<open>h_dump\<close> and \<open>h_dump_all\<close> are \<^verbatim>\<open>yaml.safe_dump\<close> and \<^verbatim>\<open>yaml.safe_dump_all\<close>, \<open>h_build\<close> is
  the run of an executable on a directory with the texts of \<^verbatim>\<open>resources.yaml\<close> and \<^verbatim>\<open>kustomization.yaml\<close>, and \<open>h_sha256\<close> the
  digest of a file in hexadecimal, if the file can be read.
\<close>

record helm_repo = repo +
  h_dump :: "jval \<Rightarrow> string"
  h_dump_all :: "jval list \<Rightarrow> string"
  h_build :: "string \<Rightarrow> string \<Rightarrow> string \<Rightarrow> run_result"
  h_sha256 :: "string \<Rightarrow> string option"

subsection \<open>Values at a path\<close>

fun get_path :: "string list \<Rightarrow> jval \<Rightarrow> jval" where
  "get_path [] v = v"
| "get_path (k # ks) v = (case v of JDict d \<Rightarrow> get_path ks (dget k d) | _ \<Rightarrow> JNull)"

definition get_value :: "jval \<Rightarrow> string \<Rightarrow> jval" where
  "get_value v path = get_path (split_on (CHR ''.'') path) v"

text \<open>\<^verbatim>\<open>type(a) is type(b)\<close>. Below the top the comparison is Python's, so that 0 and \<^verbatim>\<open>False\<close> agree there.\<close>

definition same_type :: "jval \<Rightarrow> jval \<Rightarrow> bool" where
  "same_type a b = (case (a, b) of
      (JNull, JNull) \<Rightarrow> True | (JBool _, JBool _) \<Rightarrow> True | (JInt _, JInt _) \<Rightarrow> True | (JFloat _, JFloat _) \<Rightarrow> True
    | (JStr _, JStr _) \<Rightarrow> True | (JList _, JList _) \<Rightarrow> True | (JDict _, JDict _) \<Rightarrow> True | _ \<Rightarrow> False)"

definition expect :: "'a repo_scheme \<Rightarrow> jval \<Rightarrow> string \<Rightarrow> jval \<Rightarrow> string list" where
  "expect w v path wanted =
     (let actual = get_value v path in
      if same_type actual wanted \<and> py_eq actual wanted then []
      else [path @ '': expected '' @ py_repr (r_float w) wanted @ '', got '' @ py_repr (r_float w) actual])"

definition expects :: "'a repo_scheme \<Rightarrow> jval \<Rightarrow> (string \<times> jval) list \<Rightarrow> string list" where
  "expects w v table = concat (map (\<lambda>(path, wanted). expect w v path wanted) table)"

subsection \<open>Constants\<close>

definition BACKUP_SCHEDULE :: "(string \<times> jval) list" where
  "BACKUP_SCHEDULE =
    [(''suspend'', JBool True),
     (''schedule'', JStr ''0 1 * * *''),
     (''timeZone'', JStr ''Europe/London''),
     (''concurrencyPolicy'', JStr ''Forbid''),
     (''startingDeadlineSeconds'', JInt 1800),
     (''successfulJobsHistoryLimit'', JInt 2),
     (''failedJobsHistoryLimit'', JInt 2)]"

definition BACKUP_RESOURCES :: jval where
  "BACKUP_RESOURCES =
     JDict [(''requests'', JDict [(''cpu'', JStr ''100m''), (''memory'', JStr ''512Mi'')]),
       (''limits'', JDict [(''memory'', JStr ''2Gi'')])]"

definition DISABLED_BACKUP_TYPES :: string where
  "DISABLED_BACKUP_TYPES = ''external_diffs,terraform_state,pages,ci_secure_files,agent_plan_content,ci_catalog_bundles''"

definition NATIVE_BACKUP_ARGS :: jval where
  "NATIVE_BACKUP_ARGS =
     JList [JStr ''/bin/bash'', JStr ''-c'', JStr ((''test -f /etc/gitlab/.s3cfg && cp /etc/gitlab/.s3cfg $HOME/.s3cfg; backup-utility --skip '' @ DISABLED_BACKUP_TYPES) @ '' --skip-cleanup'')]"

definition SITE_BACKUP_ARGS :: jval where
  "SITE_BACKUP_ARGS =
     JList [JStr ''/bin/bash'',
       JStr ''-c'',
       JStr ''test -f /etc/gitlab/.s3cfg && cp /etc/gitlab/.s3cfg $HOME/.s3cfg; exec python3 /backup-script/nas-export.py'']"

definition BACKUP_TARGET :: jval where
  "BACKUP_TARGET =
     JDict [(''group'', JStr ''batch''),
       (''version'', JStr ''v1''),
       (''kind'', JStr ''CronJob''),
       (''name'', JStr ''^gitlab-helm-toolbox-backup$''),
       (''namespace'', JStr ''default'')]"

definition BACKUP_VOLUMES :: "jval list" where
  "BACKUP_VOLUMES =
    [JDict [(''name'', JStr ''backup-recovery''),
              (''persistentVolumeClaim'', JDict [(''claimName'', JStr ''gitlab-helm-recovery-windsor-sync'')])],
       JDict [(''name'', JStr ''backup-script''),
              (''configMap'', JDict [(''name'', JStr ''gitlab-helm-native-backup''), (''defaultMode'', JInt 292)])]]"

definition BACKUP_MOUNTS :: "jval list" where
  "BACKUP_MOUNTS =
    [JDict [(''name'', JStr ''backup-recovery''), (''mountPath'', JStr ''/recovery'')],
       JDict [(''name'', JStr ''backup-script''), (''mountPath'', JStr ''/backup-script''), (''readOnly'', JBool True)]]"

definition HOOK_NAME :: string where
  "HOOK_NAME = ''gitlab-helm-gitlab-upgrade-check''"

definition ADMISSION_IMAGE :: string where
  "ADMISSION_IMAGE = ''docker.io/library/postgres@sha256:9b18b78397054fce88a9552e9d5a3ad5bb7fd258c5b3cc1c5028e46373d6ea8f''"

definition HOOK_TARGET :: jval where
  "HOOK_TARGET =
     JDict [(''group'', JStr ''batch''),
       (''version'', JStr ''v1''),
       (''kind'', JStr ''Job''),
       (''name'', JStr (''^'' @ HOOK_NAME @ ''$'')),
       (''namespace'', JStr ''default'')]"

definition RESOURCES :: "(string \<times> string \<times> string \<times> string option) list" where
  "RESOURCES =
    [(''gitaly'', ''50m'', ''300Mi'', Some ''512Mi''),
     (''kas'', ''50m'', ''128Mi'', Some ''512Mi''),
     (''registry'', ''100m'', ''64Mi'', Some ''256Mi''),
     (''sidekiq'', ''150m'', ''1600Mi'', Some ''2Gi''),
     (''webservice'', ''75m'', ''2100Mi'', Some ''3Gi''),
     (''gitlab-workhorse'', ''100m'', ''32Mi'', Some ''256Mi''),
     (''toolbox'', ''50m'', ''350M'', None),
     (''migrations'', ''75m'', ''2100Mi'', Some ''3Gi'')]"

definition WORKLOADS :: "string list" where
  "WORKLOADS = [''gitaly'', ''kas'', ''registry'', ''sidekiq'', ''webservice'', ''toolbox'']"

definition app_resources :: "string \<times> string \<times> string option \<Rightarrow> jval" where
  "app_resources r = (case r of (cpu, memory, limit) \<Rightarrow> JDict
     ([(''requests'', JDict [(''cpu'', JStr cpu), (''memory'', JStr memory)])]
      @ (case limit of None \<Rightarrow> [] | Some l \<Rightarrow> [(''limits'', JDict [(''memory'', JStr l)])])))"

definition REDIS_DATABASES :: "(string \<times> nat) list" where
  "REDIS_DATABASES = [(''cache'', 1), (''queues'', 2), (''shared_state'', 3), (''trace_chunks'', 4), (''rate_limiting'', 5), (''sessions'', 6)]"

definition redis_url :: "nat \<Rightarrow> jval" where
  "redis_url db = JStr (''redis://gitlab-redis:6379/'' @ show_nat db)"

subsection \<open>The release\<close>

definition RELEASE_FIELDS :: "(string \<times> jval) list" where
  "RELEASE_FIELDS =
    [(''apiVersion'', JStr ''helm.toolkit.fluxcd.io/v2''),
     (''kind'', JStr ''HelmRelease''),
     (''metadata.name'', JStr ''gitlab-helm''),
     (''metadata.namespace'', JStr ''default''),
     (''spec.suspend'', JBool True),
     (''spec.releaseName'', JStr ''gitlab-helm''),
     (''spec.targetNamespace'', JStr ''default''),
     (''spec.chart.spec.chart'', JStr ''gitlab''),
     (''spec.chart.spec.version'', JStr ''10.5.0''),
     (''spec.chart.spec.sourceRef'', JDict [(''kind'', JStr ''HelmRepository''), (''name'', JStr ''gitlab''), (''namespace'', JStr ''default'')])]"

definition VALUE_FIELDS :: "(string \<times> jval) list" where
  "VALUE_FIELDS =
    [(''global.edition'', JStr ''ce''),
     (''global.gitlabVersion'', JNull),
     (''global.gatewayApi.enabled'', JBool False),
     (''global.gatewayApi.installEnvoy'', JBool False),
     (''global.gatewayApi.configureCertmanager'', JBool False),
     (''global.ingress.enabled'', JBool False),
     (''global.ingress.configureCertmanager'', JBool False),
     (''installCertmanager'', JBool False),
     (''gitlab-runner.install'', JBool False),
     (''nginx-ingress.enabled'', JBool False),
     (''nginx-ingress-geo.enabled'', JBool False),
     (''traefik.install'', JBool False),
     (''haproxy.install'', JBool False),
     (''prometheus.install'', JBool False),
     (''shared-secrets.enabled'', JBool False),
     (''gitlab.gitlab-shell.enabled'', JBool False),
     (''gitlab.gitlab-exporter.enabled'', JBool False),
     (''gitlab.migrations.enabled'', JBool True),
     (''registry.database.enabled'', JBool False),
     (''gitlab.webservice.workerProcesses'', JInt 1),
     (''gitlab.webservice.puma.threads.min'', JInt 1),
     (''gitlab.webservice.puma.threads.max'', JInt 4),
     (''gitlab.sidekiq.concurrency'', JInt 5),
     (''global.psql.host'', JStr ''192.168.1.10''),
     (''global.psql.port'', JInt 5433),
     (''global.psql.database'', JStr ''gitlabhq_production''),
     (''global.psql.preparedStatements'', JBool False),
     (''global.psql.ci.database'', JStr ''gitlabhq_production''),
     (''global.psql.ci.databaseTasks'', JBool False),
     (''global.redis.host'', JStr ''gitlab-redis''),
     (''global.redis.auth.enabled'', JBool False),
     (''global.appConfig.object_store.connection'', JDict [(''secret'', JStr ''gitlab-helm-objectstore''), (''key'', JStr ''connection'')]),
     (''registry.storage'', JDict [(''secret'', JStr ''gitlab-helm-registry-storage''),
         (''key'', JStr ''config''),
         (''redirect'', JDict [(''disable'', JBool True)])]),
     (''gitlab.toolbox.backups.objectStorage.config'', JDict [(''secret'', JStr ''gitlab-helm-backup-config''), (''key'', JStr ''config'')]),
     (''global.appConfig.object_store.enabled'', JBool True),
     (''global.appConfig.object_store.proxy_download'', JBool True),
     (''global.registry.bucket'', JStr ''gitlab-registry''),
     (''global.pages.enabled'', JBool False),
     (''global.pages.objectStore.enabled'', JBool False),
     (''global.appConfig.backups'', JDict [(''bucket'', JStr ''gitlab-backups''), (''tmpBucket'', JStr ''gitlab-restore-scratch'')])]"

definition phase_fields :: "'a repo_scheme \<Rightarrow> jval \<Rightarrow> string \<Rightarrow> string list" where
  "phase_fields w release phase =
     expects w release (map (\<lambda>field. (''spec.'' @ phase @ ''.'' @ field, JBool False)) [''disableWait'', ''disableWaitForJobs'', ''disableHooks'']
       @ [(''spec.'' @ phase @ ''.remediation.retries'', JInt 0), (''spec.'' @ phase @ ''.remediation.remediateLastFailure'', JBool False)])
     @ check_true (get_value release (''spec.'' @ phase @ ''.strategy'') = JNull) (phase @ '': do not override native remediation strategy'')"

definition ENV_COPY :: jval where
  "ENV_COPY = JDict [(''op'', JStr ''copy''), (''from'', JStr ''/spec/template/spec/containers/0/env''), (''path'', JStr ''/spec/template/spec/initContainers/0/env'')]"

definition patch_checks :: "'a repo_scheme \<Rightarrow> jval \<Rightarrow> string list res" where
  "patch_checks w patches =
     rbind (py_len patches) (\<lambda>n.
     rbind (or_else (n \<noteq> 2)
         (rbind (py_nth 0 patches) (\<lambda>p. rbind (jget ''target'' p) (\<lambda>t. or_else (\<not> py_eq t HOOK_TARGET)
           (rbind (py_nth 1 patches) (\<lambda>q. rbind (jget ''target'' q) (\<lambda>u. Inr (\<not> py_eq u BACKUP_TARGET)))))))) (\<lambda>bad.
     if bad then Inr [''exactly one targeted native upgrade and one native backup patch required'']
     else
       rbind (py_nth 0 patches) (\<lambda>p. rbind (jget_or ''patch'' (JStr []) p) (\<lambda>t. rbind (safe_load w t) (\<lambda>v.
       rbind (py_member ENV_COPY (or_empty v)) (\<lambda>copied.
       Inr (check_true copied ''target env must be copied from native run-check''))))))) "

definition renderer_checks :: "'a repo_scheme \<Rightarrow> jval \<Rightarrow> string list res" where
  "renderer_checks w release =
     (let renderers = or_empty (get_value release ''spec.postRenderers'') in
      rbind (py_len renderers) (\<lambda>n.
      rbind (or_else (n \<noteq> 1) (rbind (py_nth 0 renderers) (\<lambda>r. rbind (set_of r) (\<lambda>ks. Inr (\<not> same_set ks [''kustomize'']))))) (\<lambda>bad.
      if bad then Inr [''exactly one native Kustomize postrenderer required'']
      else rbind (py_nth 0 renderers) (\<lambda>r. rbind (jitem ''kustomize'' r) (\<lambda>k. rbind (jget_or ''patches'' (JList []) k) (patch_checks w))))))"

fun pins :: "jval \<Rightarrow> string list" where
  "pins (JDict d) =
     (if map_of d ''tag'' \<noteq> None \<or> map_of d ''digest'' \<noteq> None
      then [''values must not freeze per-component images independently of chart''] else []) @ concat (map (\<lambda>kv. pins (snd kv)) d)"
| "pins (JList xs) = concat (map pins xs)"
| "pins _ = []"

definition BACKUP_CRON_FIELDS :: "(string \<times> jval) list" where
  "BACKUP_CRON_FIELDS = BACKUP_SCHEDULE
     @ [(''enabled'', JBool True), (''activeDeadlineSeconds'', JInt 10800), (''backoffLimit'', JInt 0), (''restartPolicy'', JStr ''Never''),
        (''extraArgs'', JStr (''--skip '' @ DISABLED_BACKUP_TYPES @ '' --skip-cleanup'')), (''resources'', BACKUP_RESOURCES),
        (''persistence'', JDict [(''enabled'', JBool True), (''storageClass'', JStr ''local-path-retain''), (''size'', JStr ''100Gi'')])]"

definition resource_path :: "string \<Rightarrow> string" where
  "resource_path name = (if name = ''registry'' then ''registry'' else if name = ''gitlab-workhorse'' then ''gitlab.webservice.workhorse'' else ''gitlab.'' @ name)"

definition value_table :: "(string \<times> jval) list" where
  "value_table =
     [(''upgradeCheck.securityContext'', JDict [(''fsGroup'', JNull)])] @ VALUE_FIELDS
     @ concat (map (\<lambda>name. [(''global.appConfig.'' @ name @ ''.enabled'', JBool True), (''global.appConfig.'' @ name @ ''.bucket'', JStr (''gitlab-'' @ name))])
         [''artifacts'', ''lfs'', ''uploads'', ''packages''])
     @ map (\<lambda>name. (''global.appConfig.'' @ name @ ''.enabled'', JBool False))
         [''externalDiffs'', ''terraformState'', ''dependencyProxy'', ''ciSecureFiles'', ''agentPlanContent'', ''ciCatalogBundles'']
     @ map (\<lambda>(key, wanted). (''gitlab.toolbox.backups.cron.'' @ key, wanted)) BACKUP_CRON_FIELDS
     @ map (\<lambda>(name, db). (''global.redis.redisYmlOverride.'' @ name @ ''.url'', redis_url db)) REDIS_DATABASES
     @ [(''gitlab.kas.customConfig.redis.database_index'', JInt 3)]
     @ concat (map (\<lambda>name. [(''gitlab.'' @ name @ ''.minReplicas'', JInt 1), (''gitlab.'' @ name @ ''.maxReplicas'', JInt 1)]) [''webservice'', ''sidekiq'', ''kas''])
     @ [(''registry.hpa.minReplicas'', JInt 1), (''registry.hpa.maxReplicas'', JInt 1)]
     @ map (\<lambda>(name, r). (resource_path name @ ''.resources'', app_resources r)) RESOURCES"

definition validate_release :: "helm_repo \<Rightarrow> jval \<Rightarrow> string list res" where
  "validate_release w release =
     rbind (renderer_checks w release) (\<lambda>renderers.
     (let vals = or_dict (get_value release ''spec.values'') in
     Inr (expects w release RELEASE_FIELDS
       @ concat (map (phase_fields w release) [''install'', ''upgrade''])
       @ expect w release ''spec.postRenderStrategy'' (JStr ''combined'')
       @ renderers @ expects w vals value_table @ pins vals
       @ check_true (\<not> occurs ''evaluation'' (h_dump w vals)) ''planning-only Secret references must be normalized'')))"

subsection \<open>Alias, alerts and storage\<close>

definition ALIAS_FIELDS :: "(string \<times> jval) list" where
  "ALIAS_FIELDS =
    [(''metadata.name'', JStr ''gitlab-registry-internal''),
     (''metadata.namespace'', JStr ''default''),
     (''spec.selector'', JDict [(''app'', JStr ''gitlab''), (''component'', JStr ''registry'')]),
     (''spec.ports'', JList [JDict [(''name'', JStr ''http''), (''port'', JInt 443), (''protocol'', JStr ''TCP''), (''targetPort'', JInt 5000)]])]"

definition validate_internal_alias :: "'a repo_scheme \<Rightarrow> jval \<Rightarrow> string list" where
  "validate_internal_alias w service = expects w service ALIAS_FIELDS"

definition ALERT_ACTIVE :: string where
  "ALERT_ACTIVE = ''(max by(namespace) (kube_cronjob_spec_suspend{namespace=\"default\",cronjob=\"gitlab-helm-toolbox-backup\"}) == 0)''"

definition ALERT_OWNER :: string where
  "ALERT_OWNER = ''(kube_job_owner{namespace=\"default\",owner_kind=\"CronJob\",owner_name=\"gitlab-helm-toolbox-backup\",owner_is_controller=\"true\"} == 1)''"

definition attempt_start :: "string \<Rightarrow> string" where
  "attempt_start state = ''max by(namespace) (kube_job_status_start_time{namespace=\"default\"} ''
     @ ''and on(namespace, job_name) (kube_job_'' @ state @ ''{namespace=\"default\",condition=\"true\"} == 1) ''
     @ ''and on(namespace, job_name) '' @ ALERT_OWNER @ '')''"

definition ALERT_SUCCESS :: string where
  "ALERT_SUCCESS = ''('' @ attempt_start ''complete'' @ '' or on(namespace) (0 * '' @ ALERT_ACTIVE @ ''))''"

definition BACKUP_ALERTS :: "(string \<times> string \<times> int \<times> string \<times> string) list" where
  "BACKUP_ALERTS =
    [(''gitlab-native-backup-failed-api'',
      ''('' @ attempt_start ''failed'' @ '' > on(namespace) '' @ ALERT_SUCCESS @ '') and on(namespace) '' @ ALERT_ACTIVE, 0, ''5m'', ''warning''),
     (''gitlab-native-backup-stale-api'',
      ''(time() - '' @ ALERT_SUCCESS @ '') and on(namespace) '' @ ALERT_ACTIVE, 93600, ''0s'', ''critical'')]"

definition without_blanks :: "string \<Rightarrow> string" where
  "without_blanks s = filter (\<lambda>c. \<not> blank c) s"

definition rules_with :: "string \<Rightarrow> jval \<Rightarrow> (jval \<times> jval) list res" where
  "rules_with uid document =
     rbind (jget_or ''groups'' (JList []) document) (\<lambda>gs. rbind (py_iter gs) (\<lambda>groups.
     rbind (rmap (\<lambda>g. rbind (jget_or ''rules'' (JList []) g) (\<lambda>rs. rbind (py_iter rs) (\<lambda>rules.
       rbind (rfilter (\<lambda>r. rbind (jget ''uid'' r) (\<lambda>u. Inr (u = JStr uid))) rules) (\<lambda>found. Inr (map (Pair g) found))))) groups) (\<lambda>found.
     Inr (concat found))))"

definition query_checks :: "'a repo_scheme \<Rightarrow> string \<Rightarrow> string \<Rightarrow> int \<Rightarrow> jval \<Rightarrow> jval \<Rightarrow> string list res" where
  "query_checks w uid expression threshold query condition =
     (case (let v = get_value query ''model.expr'' in if truthy v then v else JStr []) of
        JStr s \<Rightarrow> Inr
          (expects w query [(''datasourceUid'', JStr ''prometheus''),
             (''model.datasource'', JDict [(''type'', JStr ''prometheus''), (''uid'', JStr ''prometheus'')]), (''model.instant'', JBool True)]
           @ check_true (without_blanks s = without_blanks expression) (uid @ '': native backup predicate changed'')
           @ expects w condition [(''datasourceUid'', JStr ''-100''), (''model.expression'', JStr ''A''), (''model.type'', JStr ''threshold''),
               (''model.conditions'', JList [JDict [(''evaluator'', JDict [(''params'', JList [JInt threshold]), (''type'', JStr ''gt'')])]])])
      | _ \<Rightarrow> Inl (PyError ''TypeError''))"

definition alert_rule_checks :: "'a repo_scheme \<Rightarrow> jval \<Rightarrow> string \<times> string \<times> int \<times> string \<times> string \<Rightarrow> string list res" where
  "alert_rule_checks w document e = (case e of (uid, expression, threshold, duration, severity) \<Rightarrow>
     rbind (rules_with uid document) (\<lambda>matches.
     case matches of
       [(found, rule)] \<Rightarrow>
         (let errors = expects w found [(''name'', JStr ''backup-health''), (''interval'', JStr ''1m'')]
            @ expects w rule [(''condition'', JStr ''C''), (''noDataState'', JStr ''OK''), (''execErrState'', JStr ''OK''), (''for'', JStr duration),
                (''labels.severity'', JStr severity), (''isPaused'', JBool False)] in
          rbind (gets_of ''refId'' ''data'' rule) (\<lambda>refs.
          if \<not> py_eq (JList refs) (strings [''A'', ''C'']) then Inr (errors @ [uid @ '': expected A query and C threshold''])
          else
            rbind (jget_or ''data'' (JList []) rule) (\<lambda>data. rbind (py_iter data) (\<lambda>queries.
            rbind (query_checks w uid expression threshold (queries ! 0) (queries ! 1)) (\<lambda>more. Inr (errors @ more))))))
     | _ \<Rightarrow> Inr [uid @ '': expected exactly one provisioned rule'']))"

definition validate_backup_alerts :: "'a repo_scheme \<Rightarrow> jval \<Rightarrow> string list res" where
  "validate_backup_alerts w document = in_order (map (alert_rule_checks w document) BACKUP_ALERTS)"

definition STORAGE_FIELDS :: "(string \<times> jval) list" where
  "STORAGE_FIELDS =
    [(''apiVersion'', JStr ''storage.k8s.io/v1''),
     (''kind'', JStr ''StorageClass''),
     (''metadata.name'', JStr ''gitlab-recovery-nfs-sync''),
     (''metadata.annotations'', JDict [(''storageclass.kubernetes.io/is-default-class'', JStr ''false'')]),
     (''provisioner'', JStr ''nfs.csi.k8s.io''),
     (''reclaimPolicy'', JStr ''Retain''),
     (''volumeBindingMode'', JStr ''Immediate''),
     (''allowVolumeExpansion'', JBool False),
     (''mountOptions'', JList [JStr ''nfsvers=3'', JStr ''hard'', JStr ''timeo=600'']),
     (''parameters'', JDict [(''onDelete'', JStr ''retain''),
         (''server'', JStr ''${GITLAB_RECOVERY_NFS_SERVER}''),
         (''share'', JStr ''${GITLAB_RECOVERY_NFS_EXPORT}''),
         (''subDir'', JStr ''$${pvc.metadata.namespace}/$${pvc.metadata.name}-$${pv.metadata.name}'')])]"

definition LEAF_FIELDS :: "(string \<times> jval) list" where
  "LEAF_FIELDS =
    [(''apiVersion'', JStr ''kustomize.toolkit.fluxcd.io/v1''),
     (''kind'', JStr ''Kustomization''),
     (''metadata.name'', JStr ''gitlab-recovery-storage''),
     (''metadata.namespace'', JStr ''flux-system''),
     (''spec.path'', JStr ''./infrastructure/storage/gitlab-recovery''),
     (''spec.sourceRef'', JDict [(''kind'', JStr ''GitRepository''), (''name'', JStr ''cluster-state'')]),
     (''spec.dependsOn'', JList [JDict [(''name'', JStr ''storage-nfs-csi'')]]),
     (''spec.interval'', JStr ''10m0s''),
     (''spec.retryInterval'', JStr ''1m0s''),
     (''spec.timeout'', JStr ''10m0s''),
     (''spec.prune'', JBool True),
     (''spec.wait'', JBool True),
     (''spec.postBuild'', JDict [(''substituteFrom'', JList [JDict [(''kind'', JStr ''Secret''), (''name'', JStr ''gitlab-recovery-nfs-config''), (''optional'', JBool False)]])])]"

definition claim_checks :: "'a repo_scheme \<Rightarrow> jval list \<Rightarrow> string \<times> string \<Rightarrow> string list res" where
  "claim_checks w prepared e = (case e of (name, storage_class) \<Rightarrow>
     rbind (rfilter (named ''PersistentVolumeClaim'' name) prepared) (\<lambda>claims.
     case claims of
       [c] \<Rightarrow> Inr (expects w c [(''metadata.namespace'', JStr ''default''),
           (''spec'', JDict [(''storageClassName'', JStr storage_class), (''accessModes'', strings [''ReadWriteMany'']),
              (''resources'', JDict [(''requests'', JDict [(''storage'', JStr ''100Gi'')])])]),
           (''metadata.annotations'', JDict [(''kustomize.toolkit.fluxcd.io/prune'', JStr ''disabled''), (''helm.sh/resource-policy'', JStr ''keep'')])])
     | _ \<Rightarrow> Inr [name @ '': exactly one retained recovery PVC required'']))"

definition validate_recovery_storage :: "'a repo_scheme \<Rightarrow> jval list \<Rightarrow> jval \<Rightarrow> jval list \<Rightarrow> string list res" where
  "validate_recovery_storage w storage leaf prepared = (case storage of
      [s] \<Rightarrow>
        (let refs = or_empty (get_value leaf ''spec.postBuild.substituteFrom'') in
         rbind (py_len refs) (\<lambda>n.
         rbind (if n = 1 then rbind (py_nth 0 refs) (\<lambda>r. Inr (expect w r ''optional'' (JBool False))) else Inr []) (\<lambda>optional.
         rbind (in_order (map (claim_checks w prepared)
           [(''gitlab-helm-recovery-windsor'', ''windsor-nfs-rwx''), (''gitlab-helm-recovery-windsor-sync'', ''gitlab-recovery-nfs-sync'')])) (\<lambda>claims.
         Inr (expects w s STORAGE_FIELDS @ expects w leaf LEAF_FIELDS @ optional @ claims)))))
    | _ \<Rightarrow> Inr [''recovery storage leaf must render exactly one StorageClass''])"

subsection \<open>The running web tier\<close>

text \<open>A document of a kind and a name in the namespace \<^verbatim>\<open>default\<close>.\<close>

definition default_named :: "string \<Rightarrow> string \<Rightarrow> jval \<Rightarrow> bool res" where
  "default_named kind name d =
     rbind (named kind name d) (\<lambda>b. and_then b (rbind (jitem ''metadata'' d) (\<lambda>m. rbind (jget ''namespace'' m) (\<lambda>ns. Inr (ns = JStr ''default'')))))"

definition validate_legacy_workhorse_template :: "jval list \<Rightarrow> string list res" where
  "validate_legacy_workhorse_template docs =
     rbind (rfilter (default_named ''ConfigMap'' ''workhorse-config'') docs) (\<lambda>configs.
     case configs of
       [c] \<Rightarrow>
         rbind (jget_or ''data'' (JDict []) c) (\<lambda>data. rbind (set_of data) (\<lambda>ks.
         Inr (check_true (same_set ks [''workhorse-config.toml.tpl''])
           ''Workhorse requires only workhorse-config.toml.tpl; ERB is unsupported and plain TOML shadows rendering'')))
     | _ \<Rightarrow> Inr [''exactly one native Workhorse template ConfigMap required''])"

fun unique_keys :: "jval list \<Rightarrow> bool" where
  "unique_keys [] = True"
| "unique_keys (x # xs) = (\<not> list_ex (key_eq x) xs \<and> unique_keys xs)"

definition has_name :: "string \<Rightarrow> jval \<Rightarrow> bool res" where
  "has_name name v = rbind (jitem ''name'' v) (\<lambda>n. Inr (n = JStr name))"

definition mount_errors :: "string \<Rightarrow> jval \<Rightarrow> string list res" where
  "mount_errors component mount =
     rbind (jitem ''mountPath'' mount) (\<lambda>path.
     rbind (or_else (path = JStr ''/tmp/gitlab'') (starts_text ''/tmp/gitlab/'' path)) (\<lambda>native.
     rbind (jget ''subPath'' mount) (\<lambda>sub.
     Inr (check_true (\<not> native) (component @ '': native /tmp/gitlab must be created by CNG, not mounted'')
       @ check_true (sub \<noteq> JStr ''workhorse-tmp'') (component @ '': obsolete PVC temporary subPath remains'')))))"

definition component_mounts :: "jval list \<Rightarrow> string \<Rightarrow> string list res" where
  "component_mounts containers component =
     rbind (first_with (has_name component) containers) (\<lambda>container.
     rbind (jget_or ''volumeMounts'' (JList []) container) (\<lambda>v. rbind (py_iter v) (\<lambda>all.
     rbind (rfilter (\<lambda>m. rbind (jitem ''mountPath'' m) (\<lambda>p. Inr (p = JStr ''/tmp''))) all) (\<lambda>mounts.
     rbind (in_order (map (mount_errors component) all)) (\<lambda>errors.
     Inr (check_true (py_eq (JList mounts) (JList [JDict [(''name'', JStr ''web-tmp''), (''mountPath'', JStr ''/tmp'')]]))
         (component @ '': /tmp parent must share writable web-tmp without subPath'') @ errors))))))"

definition port_names :: "jval list \<Rightarrow> jval list res" where
  "port_names containers =
     rbind (rmap (\<lambda>c. rbind (jget_or ''ports'' (JList []) c) (\<lambda>v. rbind (py_iter v) (\<lambda>ports.
       rbind (rfilter (py_in ''name'') ports) (rmap (jitem ''name''))))) containers) (\<lambda>names. hash_set (concat names))"

definition selected_by :: "jval \<Rightarrow> jval \<Rightarrow> bool res" where
  "selected_by selector d =
     and_then (truthy selector) (rbind (py_items selector) (\<lambda>pairs.
     rbind (any_res (\<lambda>(k, v). rbind (items_at [''spec'', ''template'', ''metadata''] d) (\<lambda>m.
       rbind (jget_or ''labels'' (JDict []) m) (\<lambda>l. rbind (jget k l) (\<lambda>a. Inr (\<not> py_eq a v))))) pairs) (\<lambda>differs. Inr (\<not> differs))))"

definition workhorse_service :: "'a repo_scheme \<Rightarrow> jval list \<Rightarrow> jval list \<Rightarrow> string list res" where
  "workhorse_service w docs deployments =
     rbind (rfilter (default_named ''Service'' ''gitlab-workhorse'') docs) (\<lambda>services.
     case services of
       [s] \<Rightarrow>
         rbind (jitem ''spec'' s) (\<lambda>spec. rbind (jget_or ''selector'' (JDict []) spec) (\<lambda>selector.
         rbind (rfilter (selected_by selector) deployments) (\<lambda>ds. rbind (rmap (items_at [''metadata'', ''name'']) ds) (\<lambda>selected.
         Inr (expects w s [(''spec.selector'', JDict [(''app'', JStr ''gitlab''), (''component'', JStr ''webservice'')]),
             (''spec.ports'', JList [JDict [(''name'', JStr ''http''), (''port'', JInt 8181), (''protocol'', JStr ''TCP''), (''targetPort'', JInt 8181)]])]
           @ check_true (selected = [JStr ''gitlab-webservice'']) ''gitlab-workhorse Service must select only the colocated web tier'')))))
     | _ \<Rightarrow> Inr [''exactly one compatible gitlab-workhorse Service required''])"

definition WORKHORSE_ARGS :: string where
  "WORKHORSE_ARGS = ''-authBackend http://127.0.0.1:8080 -cableBackend http://127.0.0.1:8080 -apiCiLongPollingDuration 50s''"

definition web_tier_checks :: "'a repo_scheme \<Rightarrow> jval list \<Rightarrow> jval list \<Rightarrow> jval \<Rightarrow> jval list \<Rightarrow> string list res" where
  "web_tier_checks w docs deployments pod containers =
     rbind (jget_or ''volumes'' (JList []) pod) (\<lambda>v. rbind (py_iter v) (\<lambda>volumes.
     rbind (rmap (jitem ''name'') volumes) (\<lambda>ns. rbind (hash_set ns) (\<lambda>names.
     rbind (in_order (map (component_mounts containers) [''webservice'', ''workhorse''])) (\<lambda>mounts.
     rbind (rfilter (has_name ''web-tmp'') volumes) (\<lambda>tmp.
     rbind (port_names containers) (\<lambda>ports.
     rbind (first_with (has_name ''workhorse'') containers) (\<lambda>workhorse.
     rbind (jget_or ''env'' (JList []) workhorse) (\<lambda>ev. rbind (py_iter ev) (\<lambda>env.
     rbind (rfilter (has_name ''GITLAB_WORKHORSE_EXTRA_ARGS'') env) (\<lambda>es. rbind (rmap (jget ''value'') es) (\<lambda>args.
     rbind (workhorse_service w docs deployments) (\<lambda>service.
     Inr (check_true (unique_keys names) ''web Pod volume names must be unique'' @ mounts
       @ check_true (py_eq (JList tmp) (JList [JDict [(''name'', JStr ''web-tmp''), (''emptyDir'', JDict [])]]))
           ''web-tmp must be one disk-backed emptyDir, not PVC or memory''
       @ check_true (unique_keys ports) ''web Pod container port names must be unique''
       @ check_true (args = [JStr WORKHORSE_ARGS]) ''Workhorse auth and cable backends must use Pod loopback Rails''
       @ service)))))))))))))) "

text \<open>
  \<^verbatim>\<open>sorted\<close> of the names of the containers, compared with two names. Names that are neither all strings nor all numbers
  cannot be sorted.
\<close>

definition validate_legacy_artifact_tmp :: "'a repo_scheme \<Rightarrow> jval list \<Rightarrow> string list res" where
  "validate_legacy_artifact_tmp w docs =
     rbind (rfilter (\<lambda>d. rbind (jget ''kind'' d) (\<lambda>k. and_then (k = JStr ''Deployment'')
       (rbind (get_at [''metadata'', ''namespace''] d) (\<lambda>ns. Inr (ns = JStr ''default''))))) docs) (\<lambda>deployments.
     rbind (any_res (\<lambda>d. rbind (items_at [''metadata'', ''name''] d) (\<lambda>n. Inr (n = JStr ''gitlab-workhorse''))) deployments) (\<lambda>separate.
     rbind (rfilter (\<lambda>d. rbind (items_at [''metadata'', ''name''] d) (\<lambda>n. Inr (n = JStr ''gitlab-webservice''))) deployments) (\<lambda>workloads.
     (let retired = check_true (\<not> separate) ''separate gitlab-workhorse Deployment must be retired'' in
      case workloads of
        [workload] \<Rightarrow>
          (let errors = retired @ expects w workload [(''spec.replicas'', JInt 1), (''spec.strategy'', JDict [(''type'', JStr ''Recreate'')])] in
           rbind (items_at [''spec'', ''template'', ''spec''] workload) (\<lambda>pod.
           rbind (jget_or ''containers'' (JList []) pod) (\<lambda>v. rbind (py_iter v) (\<lambda>containers.
           rbind (rmap (jitem ''name'') containers) (\<lambda>names.
           if 1 < length names \<and> \<not> sortable names then Inl (PyError ''TypeError'')
           else if names \<noteq> [JStr ''webservice'', JStr ''workhorse''] \<and> names \<noteq> [JStr ''workhorse'', JStr ''webservice'']
           then Inr (errors @ [''webservice and workhorse must be the only two web Pod containers''])
           else rbind (web_tier_checks w docs deployments pod containers) (\<lambda>more. Inr (errors @ more)))))))
      | _ \<Rightarrow> Inr (retired @ [''exactly one colocated gitlab-webservice Deployment required''])))))"

end
