(* ===== verification/Helm_Render.thy ===== *)
theory Helm_Render
  imports Helm_Values Resource_Strip
begin

section \<open>The validator of the GitLab chart: renders\<close>

text \<open>
  The second part of \<^verbatim>\<open>scripts/validate_gitlab_helm.py\<close>: the checks on the documents that Helm renders, the native
  postrender by Kustomize, and the comparison of the documents before and after it. A value that the code copies and then
  changes is a new value here. \<^verbatim>\<open>json.dumps\<close> with sorted keys is injective on values with sorted keys, so the sets of texts in
  \<^verbatim>\<open>other_docs\<close> are sets of these values.
\<close>

subsection \<open>The native upgrade hook and the backup\<close>

definition hook_jobs :: "jval list \<Rightarrow> jval list res" where
  "hook_jobs docs = rfilter (\<lambda>d. and_then (truthy d) (rbind (jget ''apiVersion'' d) (\<lambda>a.
     and_then (a = JStr ''batch/v1'') (default_named ''Job'' HOOK_NAME d)))) docs"

definition backup_crons :: "jval list \<Rightarrow> jval list res" where
  "backup_crons docs = rfilter (\<lambda>d. and_then (truthy d) (rbind (jget ''apiVersion'' d) (\<lambda>a.
     and_then (a = JStr ''batch/v1'') (default_named ''CronJob'' ''gitlab-helm-toolbox-backup'' d)))) docs"

text \<open>\<^verbatim>\<open>len(xs) != 1 or xs[0].get("name") != name\<close>.\<close>

definition not_only :: "string \<Rightarrow> jval \<Rightarrow> bool res" where
  "not_only name xs = rbind (py_len xs) (\<lambda>n. or_else (n \<noteq> 1)
     (rbind (py_nth 0 xs) (\<lambda>x. rbind (jget ''name'' x) (\<lambda>a. Inr (a \<noteq> JStr name)))))"

definition hook_shape_changed :: "jval \<Rightarrow> jval \<Rightarrow> bool res" where
  "hook_shape_changed spec container =
     rbind (gets_of ''name'' ''env'' container) (\<lambda>env.
     or_else (\<not> py_eq (JList env) (strings [''GITLAB_VERSION'', ''CHART_VERSION'']))
       (rbind (jget ''command'' container) (\<lambda>command.
        or_else (\<not> py_eq command (strings [''/bin/sh'', ''/scripts/runcheck'']))
          (rbind (jget ''initContainers'' spec) (\<lambda>inits. or_else (truthy inits)
            (rbind (gets_of ''name'' ''volumes'' spec) (\<lambda>volumes. Inr (\<not> py_eq (JList volumes) (strings [''chart-info'', ''scripts''])))))))))"

definition validate_hook_input :: "jval list \<Rightarrow> string list res" where
  "validate_hook_input docs =
     rbind (hook_jobs docs) (\<lambda>hooks.
     case hooks of
       [hook] \<Rightarrow>
         rbind (items_at [''spec'', ''template'', ''spec''] hook) (\<lambda>spec.
         rbind (jget_or ''containers'' (JList []) spec) (\<lambda>containers.
         rbind (not_only ''run-check'' containers) (\<lambda>other.
         if other then Inr [''native upgrade container shape changed'']
         else
           rbind (py_nth 0 containers) (\<lambda>container.
           rbind (hook_shape_changed spec container) (\<lambda>changed.
           if changed then Inr [''native upgrade env/init/volume/command shape changed'']
           else
             rbind (jitem ''metadata'' hook) (\<lambda>m. rbind (get_at [''annotations'', ''helm.sh/hook''] m) (\<lambda>phase.
             rbind (jget_or ''securityContext'' (JDict []) spec) (\<lambda>context. rbind (py_in ''fsGroup'' context) (\<lambda>group.
             Inr (check_true (phase = JStr ''pre-upgrade'') ''native pre-upgrade annotation changed''
               @ check_true (\<not> group) ''upgrade pod must not change NAS ownership via fsGroup''))))))))))
     | _ \<Rightarrow> Inr [''native upgrade target: expected exactly one, got '' @ show_nat (length hooks)])"

definition CRON_POD :: "string list" where
  "CRON_POD = [''spec'', ''jobTemplate'', ''spec'', ''template'', ''spec'']"

definition validate_backup_input :: "jval list \<Rightarrow> string list res" where
  "validate_backup_input docs =
     rbind (backup_crons docs) (\<lambda>crons.
     case crons of
       [cron] \<Rightarrow>
         rbind (items_at CRON_POD cron) (\<lambda>spec.
         rbind (jget_or ''containers'' (JList []) spec) (\<lambda>containers.
         rbind (not_only ''toolbox-backup'' containers) (\<lambda>other.
         rbind (or_else other
           (rbind (py_nth 0 containers) (\<lambda>c. rbind (jget ''args'' c) (\<lambda>args. or_else (\<not> py_eq args NATIVE_BACKUP_ARGS)
             (rbind (get_at [''securityContext'', ''fsGroup''] spec) (\<lambda>group. Inr (\<not> py_eq group (JInt 1000)))))))) (\<lambda>changed.
         Inr (check_true (\<not> changed) ''native backup container/command/security shape changed'')))))
     | _ \<Rightarrow> Inr [''native backup target: expected exactly one''])"

subsection \<open>Kustomize\<close>

text \<open>
  The exceptions of \<^verbatim>\<open>kustomize\<close> are values: \<open>Caught\<close> holds a \<^verbatim>\<open>ValueError\<close> or a \<^verbatim>\<open>CalledProcessError\<close>, whose text
  is kept without the command.
\<close>

definition built_docs :: "'a repo_scheme \<Rightarrow> run_result \<Rightarrow> jval list attempt" where
  "built_docs w r = (case r of
      NotStarted msg \<Rightarrow> Escapes (PyError (''OSError: '' @ msg))
    | UndecodableOutput msg \<Rightarrow> Caught msg
    | Exited code out err \<Rightarrow>
        if code \<noteq> 0 then Caught (''returned non-zero exit status '' @ show_int code)
        else (case r_yaml_all w out of
            Loaded docs \<Rightarrow> Got (filter truthy docs)
          | YamlError msg \<Rightarrow> Escapes (PyError (''YAMLError: '' @ msg))
          | BadScalar msg \<Rightarrow> Caught msg))"

definition kustomize_with :: "'a repo_scheme \<Rightarrow> (string \<Rightarrow> run_result) \<Rightarrow> jval list attempt" where
  "kustomize_with w run = (case r_which w ''kustomize'' of
      Some executable \<Rightarrow>
        if executable \<noteq> [] then built_docs w (run executable)
        else Caught ''standalone kustomize required (no Kubernetes API access needed)''
    | None \<Rightarrow> Caught ''standalone kustomize required (no Kubernetes API access needed)'')"

definition kustomize :: "'a repo_scheme \<Rightarrow> string \<Rightarrow> jval list res" where
  "kustomize w path = (case kustomize_with w (\<lambda>executable. r_run w [executable, ''build'', path]) of
      Got docs \<Rightarrow> Inr docs | Caught msg \<Rightarrow> Inl (value_error msg) | Escapes e \<Rightarrow> Inl e)"

definition attempt_of :: "'a res \<Rightarrow> ('a \<Rightarrow> 'b attempt) \<Rightarrow> 'b attempt" where
  "attempt_of m f = (case m of Inl e \<Rightarrow> Escapes e | Inr x \<Rightarrow> f x)"

definition postrender_kustomization :: "dict \<Rightarrow> jval" where
  "postrender_kustomization settings =
     JDict (foldl (\<lambda>d (k, v). AList.update k v d)
       [(''apiVersion'', JStr ''kustomize.config.k8s.io/v1beta1''), (''kind'', JStr ''Kustomization''), (''resources'', strings [''resources.yaml''])]
       settings)"

definition apply_postrender :: "helm_repo \<Rightarrow> jval list \<Rightarrow> jval \<Rightarrow> bool \<Rightarrow> jval list attempt" where
  "apply_postrender w docs release check_input =
     attempt_of (if check_input then in_order [validate_hook_input docs, validate_backup_input docs] else Inr []) (\<lambda>errors.
     if errors \<noteq> [] then Caught (join ''; '' errors)
     else
       attempt_of (rbind (items_at [''spec'', ''postRenderers''] release) (\<lambda>rs. rbind (py_nth 0 rs) (\<lambda>r.
         rbind (jitem ''kustomize'' r) py_items))) (\<lambda>settings.
       kustomize_with w (\<lambda>executable. h_build w executable (h_dump_all w docs) (h_dump w (postrender_kustomization settings)))))"

subsection \<open>Before and after the postrender\<close>

definition admission_settings :: "'a repo_scheme \<Rightarrow> jval \<Rightarrow> dict res" where
  "admission_settings w release =
     rbind (items_at [''spec'', ''values'', ''global'', ''psql''] release) (\<lambda>db.
     rbind (jitem ''ci'' db) (\<lambda>ci.
     rbind (jitem ''host'' db) (\<lambda>host. rbind (jitem ''port'' db) (\<lambda>port.
     rbind (jitem ''database'' db) (\<lambda>database. rbind (jitem ''username'' db) (\<lambda>user.
     rbind (jget_or ''host'' host ci) (\<lambda>ci_host. rbind (jget_or ''port'' port ci) (\<lambda>ci_port.
     rbind (jitem ''database'' ci) (\<lambda>ci_database. rbind (jitem ''databaseTasks'' ci) (\<lambda>tasks.
     (let text = py_str (r_float w) in
     Inr [(''PGHOST'', JStr (text host)), (''PGPORT'', JStr (text port)), (''PGDATABASE'', database), (''PGUSER'', user),
       (''CI_DB_HOST'', JStr (text ci_host)), (''CI_DB_PORT'', JStr (text ci_port)), (''CI_DB_NAME'', ci_database),
       (''CI_DATABASE_TASKS'', JStr (lower (text tasks)))])))))))))))"

text \<open>\<^verbatim>\<open>v + xs\<close> for a list \<open>xs\<close>, \<^verbatim>\<open>v[:2]\<close> and \<^verbatim>\<open>v[:-2]\<close>.\<close>

definition py_plus :: "jval \<Rightarrow> jval list \<Rightarrow> jval res" where
  "py_plus v xs = (case v of JList ys \<Rightarrow> Inr (JList (ys @ xs)) | _ \<Rightarrow> Inl (PyError ''TypeError''))"

definition py_prefix :: "(nat \<Rightarrow> nat) \<Rightarrow> jval \<Rightarrow> jval res" where
  "py_prefix n v = (case v of
      JList xs \<Rightarrow> Inr (JList (take (n (length xs)) xs))
    | JStr s \<Rightarrow> Inr (JStr (take (n (length s)) s))
    | _ \<Rightarrow> Inl (PyError ''TypeError''))"

text \<open>What \<^verbatim>\<open>v[k1]...[kn]\<close> refers to is changed, and \<^verbatim>\<open>v[k] = f(v[k])\<close>, \<^verbatim>\<open>v[k] = x\<close> and \<^verbatim>\<open>v[0]\<close>.\<close>

fun modify_at :: "string list \<Rightarrow> (jval \<Rightarrow> jval res) \<Rightarrow> jval \<Rightarrow> jval res" where
  "modify_at [] f v = f v"
| "modify_at (k # ks) f v =
     (case v of
        JDict d \<Rightarrow> (case map_of d k of
            None \<Rightarrow> Inl (PyError ''KeyError'')
          | Some x \<Rightarrow> rbind (modify_at ks f x) (\<lambda>y. Inr (JDict (AList.update k y d))))
      | _ \<Rightarrow> Inl (PyError ''TypeError''))"

definition assign_item :: "string \<Rightarrow> jval \<Rightarrow> jval \<Rightarrow> jval res" where
  "assign_item k x v = (case v of JDict d \<Rightarrow> Inr (JDict (AList.update k x d)) | _ \<Rightarrow> Inl (PyError ''TypeError''))"

definition modify_first :: "(jval \<Rightarrow> jval res) \<Rightarrow> jval \<Rightarrow> jval res" where
  "modify_first f v = (case v of
      JList (x # xs) \<Rightarrow> rbind (f x) (\<lambda>y. Inr (JList (y # xs)))
    | JList [] \<Rightarrow> Inl (PyError ''IndexError'')
    | JDict _ \<Rightarrow> Inl (PyError ''KeyError'')
    | _ \<Rightarrow> Inl (PyError ''TypeError''))"

definition pop_keys :: "string list \<Rightarrow> jval \<Rightarrow> jval res" where
  "pop_keys ks v = (case v of JDict d \<Rightarrow> Inr (JDict (dpops ks d)) | _ \<Rightarrow> Inl (PyError ''AttributeError''))"

definition HOOK_POD :: "string list" where
  "HOOK_POD = [''spec'', ''template'', ''spec'']"

definition ADMISSION_MOUNTS :: jval where
  "ADMISSION_MOUNTS =
     JList (map (\<lambda>(n, p, ro). JDict ([(''name'', JStr n), (''mountPath'', JStr p)] @ (if ro then [(''readOnly'', JBool True)] else [])))
       [(''chart-info'', ''/chart-info'', True), (''admission-script'', ''/admission-script'', True),
        (''admission-db-password'', ''/db-secret'', True), (''admission-recovery'', ''/recovery'', False),
        (''admission-work'', ''/admission-work'', False)])"

definition ADMISSION_VOLUMES :: "jval list" where
  "ADMISSION_VOLUMES =
    [JDict [(''name'', JStr ''admission-script''),
       (''configMap'', JDict [(''name'', JStr ''gitlab-helm-upgrade-admission''), (''defaultMode'', JInt 292)])],
     JDict [(''name'', JStr ''admission-db-password''), (''secret'', JDict [(''secretName'', JStr ''gitlab-secrets''), (''defaultMode'', JInt 292),
       (''items'', JList [JDict [(''key'', JStr ''db_password''), (''path'', JStr ''db_password'')]])])],
     JDict [(''name'', JStr ''admission-recovery''),
       (''persistentVolumeClaim'', JDict [(''claimName'', JStr ''gitlab-helm-recovery-windsor-sync'')])],
     JDict [(''name'', JStr ''admission-work''), (''emptyDir'', JDict [(''medium'', JStr ''Memory''), (''sizeLimit'', JStr ''16Mi'')])]]"

definition ADMISSION_FIELDS :: "(string \<times> jval) list" where
  "ADMISSION_FIELDS =
    [(''image'', JStr ADMISSION_IMAGE),
     (''command'', strings [''/bin/bash'', ''/admission-script/upgrade-admission.sh'']),
     (''securityContext'', JDict [(''runAsNonRoot'', JBool True), (''runAsUser'', JInt 1000), (''runAsGroup'', JInt 1000),
        (''allowPrivilegeEscalation'', JBool False), (''readOnlyRootFilesystem'', JBool True), (''capabilities'', JDict [(''drop'', strings [''ALL''])])])]"

definition restored_hook :: "jval \<Rightarrow> jval res" where
  "restored_hook new = modify_at HOOK_POD (\<lambda>spec.
     rbind (pop_keys [''initContainers'', ''automountServiceAccountToken''] spec) (modify_at [''volumes''] (py_prefix (\<lambda>n. 2)))) new"

definition admission_checks :: "'a repo_scheme \<Rightarrow> jval \<Rightarrow> jval \<Rightarrow> jval \<Rightarrow> jval \<Rightarrow> jval \<Rightarrow> string list res" where
  "admission_checks w release old new spec admission =
     rbind (items_at HOOK_POD old) (\<lambda>original.
     rbind (jitem ''containers'' original) (\<lambda>cs. rbind (py_nth 0 cs) (\<lambda>c. rbind (jitem ''env'' c) (\<lambda>upstream_env.
     rbind (admission_settings w release) (\<lambda>settings.
     rbind (py_plus upstream_env (map (\<lambda>(k, v). JDict [(''name'', JStr k), (''value'', v)]) settings)) (\<lambda>expected_env.
     rbind (jitem ''volumes'' original) (\<lambda>vs. rbind (py_plus vs ADMISSION_VOLUMES) (\<lambda>volumes.
     rbind (restored_hook new) (\<lambda>restored.
     Inr (expect w admission ''env'' expected_env @ expects w admission ADMISSION_FIELDS
       @ expect w spec ''automountServiceAccountToken'' (JBool False)
       @ expect w admission ''volumeMounts'' ADMISSION_MOUNTS
       @ expect w spec ''volumes'' volumes
       @ check_true (py_eq restored old) ''postrender changed upstream hook beyond admission extension''))))))))))"

definition restored_backup :: "jval \<Rightarrow> jval res" where
  "restored_backup new = modify_at CRON_POD (\<lambda>spec.
     rbind (pop_keys [''automountServiceAccountToken''] spec) (\<lambda>s.
     rbind (modify_at [''securityContext''] (assign_item ''fsGroup'' (JInt 1000)) s) (\<lambda>s.
     rbind (modify_at [''containers''] (modify_first (\<lambda>c. rbind (assign_item ''args'' NATIVE_BACKUP_ARGS c)
       (modify_at [''volumeMounts''] (py_prefix (\<lambda>n. n - 2))))) s)
     (modify_at [''volumes''] (py_prefix (\<lambda>n. n - 2)))))) new"

definition backup_extension_checks :: "'a repo_scheme \<Rightarrow> jval \<Rightarrow> jval \<Rightarrow> string list res" where
  "backup_extension_checks w old new =
     rbind (items_at CRON_POD new) (\<lambda>spec.
     rbind (jget_or ''containers'' (JList [JDict []]) spec) (\<lambda>cs. rbind (py_nth 0 cs) (\<lambda>c.
     rbind (items_at CRON_POD old) (\<lambda>original.
     rbind (jitem ''containers'' original) (\<lambda>ocs. rbind (py_nth 0 ocs) (\<lambda>oc. rbind (jitem ''volumeMounts'' oc) (\<lambda>ms.
     rbind (py_plus ms BACKUP_MOUNTS) (\<lambda>mounts.
     rbind (jitem ''volumes'' original) (\<lambda>vs. rbind (py_plus vs BACKUP_VOLUMES) (\<lambda>volumes.
     rbind (jget_or ''securityContext'' (JDict []) spec) (\<lambda>context. rbind (py_in ''fsGroup'' context) (\<lambda>group.
     rbind (restored_backup new) (\<lambda>restored.
     Inr (expect w c ''args'' SITE_BACKUP_ARGS @ expect w c ''volumeMounts'' mounts @ expect w spec ''volumes'' volumes
       @ expect w spec ''automountServiceAccountToken'' (JBool False)
       @ check_true (\<not> group) ''native backup must not repair NAS ownership via fsGroup''
       @ check_true (py_eq restored old) ''postrender changed native backup beyond producer publication extension'')))))))))))))) "

definition validate_backup_postrender :: "'a repo_scheme \<Rightarrow> jval list \<Rightarrow> jval list \<Rightarrow> string list res" where
  "validate_backup_postrender w prior after =
     rbind (validate_backup_input prior) (\<lambda>errors.
     if errors \<noteq> [] then Inr (errors @ [''postrender must retain exactly one native backup CronJob''])
     else
       rbind (backup_crons after) (\<lambda>news. rbind (backup_crons prior) (\<lambda>olds.
       case news of
         [new] \<Rightarrow> backup_extension_checks w (hd olds) new
       | _ \<Rightarrow> Inr [''postrender must retain exactly one native backup CronJob''])))"

text \<open>\<^verbatim>\<open>other_docs\<close>: a null \<^verbatim>\<open>metadata.annotations\<close>, which Kustomize drops, is dropped.\<close>

definition without_null_annotations :: "jval \<Rightarrow> jval res" where
  "without_null_annotations doc =
     rbind (jget_or ''metadata'' (JDict []) doc) (\<lambda>m. rbind (jget_or ''annotations'' (JDict []) m) (\<lambda>a.
     if a = JNull then modify_at [''metadata''] (pop_keys [''annotations'']) doc else Inr doc))"

definition other_docs :: "jval list \<Rightarrow> jval list res" where
  "other_docs ds =
     rbind (hook_jobs ds) (\<lambda>hooks. rbind (backup_crons ds) (\<lambda>crons.
     rbind (rmap without_null_annotations (filter (\<lambda>d. truthy d \<and> \<not> list_ex (py_eq d) (hooks @ crons)) ds)) (\<lambda>docs.
     Inr (map sort_keys docs))))"

definition others_changed :: "jval list \<Rightarrow> jval list \<Rightarrow> bool res" where
  "others_changed prior after =
     or_else (length prior \<noteq> length after)
       (rbind (other_docs prior) (\<lambda>old. rbind (other_docs after) (\<lambda>new. Inr (set old \<noteq> set new))))"

definition validate_postrender :: "'a repo_scheme \<Rightarrow> jval list \<Rightarrow> jval list \<Rightarrow> jval \<Rightarrow> string list res" where
  "validate_postrender w prior after release =
     rbind (validate_hook_input prior) (\<lambda>errors.
     if errors \<noteq> [] then Inr (errors @ [''postrender must retain exactly one native upgrade Job''])
     else
       rbind (hook_jobs after) (\<lambda>news. rbind (hook_jobs prior) (\<lambda>olds.
       case news of
         [new] \<Rightarrow>
           rbind (items_at HOOK_POD new) (\<lambda>spec.
           rbind (jget_or ''initContainers'' (JList []) spec) (\<lambda>inits.
           rbind (not_only ''site-upgrade-admission'' inits) (\<lambda>other.
           if other then Inr [''exactly one site admission init required'']
           else
             rbind (py_nth 0 inits) (\<lambda>admission.
             rbind (admission_checks w release (hd olds) new spec admission) (\<lambda>extension.
             rbind (validate_backup_postrender w prior after) (\<lambda>backup.
             rbind (others_changed prior after) (\<lambda>changed.
             Inr (extension @ backup
               @ check_true (\<not> changed) ''postrender changed resources outside the native upgrade/backup targets''))))))))
       | _ \<Rightarrow> Inr [''postrender must retain exactly one native upgrade Job''])))"

end
