(* ===== verification/Helm_Chart.thy ===== *)
theory Helm_Chart
  imports Helm_Render
begin

section \<open>The validator of the GitLab chart: workloads and the whole run\<close>

text \<open>
  The last part of \<^verbatim>\<open>scripts/validate_gitlab_helm.py\<close>: the rendered backup and workloads, the checks on the sources and \<^verbatim>\<open>main\<close>. The
  message about the set of workloads is kept without the two sets, which have no order. A run gives the exit status, the printed
  lines and the files it writes.
\<close>

subsection \<open>The rendered backup\<close>

text \<open>\<^verbatim>\<open>{e["name"]: e.get("value") for e in c.get("env", [])}\<close>.\<close>

fun put_values :: "(jval \<times> jval) list \<Rightarrow> jval list \<Rightarrow> (jval \<times> jval) list res" where
  "put_values acc [] = Inr acc"
| "put_values acc (e # es) =
     rbind (jitem ''name'' e) (\<lambda>n. rbind (jget ''value'' e) (\<lambda>v.
     if hashable n then put_values (put_key n v acc) es else Inl (PyError ''TypeError'')))"

definition env_values :: "jval \<Rightarrow> (jval \<times> jval) list res" where
  "env_values c = rbind (jget_or ''env'' (JList []) c) (\<lambda>v. rbind (py_iter v) (put_values []))"

definition value_of :: "string \<Rightarrow> (jval \<times> jval) list \<Rightarrow> jval" where
  "value_of k m = (case map_of m (JStr k) of None \<Rightarrow> JNull | Some v \<Rightarrow> v)"

text \<open>\<^verbatim>\<open>d.get("kind") == kind and d["metadata"]["name"] == name\<close>.\<close>

definition is_doc :: "string \<Rightarrow> string \<Rightarrow> jval \<Rightarrow> bool res" where
  "is_doc kind name d = rbind (jget ''kind'' d) (\<lambda>k. and_then (k = JStr kind)
     (rbind (items_at [''metadata'', ''name''] d) (\<lambda>n. Inr (n = JStr name))))"

definition BACKUP_BUCKETS :: "(string \<times> string) list" where
  "BACKUP_BUCKETS = [(''ARTIFACTS'', ''gitlab-artifacts''), (''REGISTRY'', ''gitlab-registry''), (''LFS'', ''gitlab-lfs''),
     (''UPLOADS'', ''gitlab-uploads''), (''PACKAGES'', ''gitlab-packages''), (''BACKUP'', ''gitlab-backups''), (''TMP'', ''gitlab-restore-scratch'')]"

text \<open>\<^verbatim>\<open>expect(errors, env, name + "_BUCKET_NAME", bucket)\<close> on the dict of the environment; the name has no dot.\<close>

definition bucket_check :: "'a repo_scheme \<Rightarrow> (jval \<times> jval) list \<Rightarrow> string \<times> string \<Rightarrow> string list" where
  "bucket_check w env e = (case e of (name, bucket) \<Rightarrow>
     (let key = name @ ''_BUCKET_NAME'' in expect w (JDict [(key, value_of key env)]) key (JStr bucket)))"

definition backup_container_checks :: "'a repo_scheme \<Rightarrow> bool \<Rightarrow> jval list \<Rightarrow> jval \<Rightarrow> jval \<Rightarrow> string list res" where
  "backup_container_checks w patched docs spec c =
     rbind (env_values c) (\<lambda>env.
     rbind (jget_or ''initContainers'' (JList []) spec) (\<lambda>v. rbind (py_iter v) (\<lambda>inits.
     rbind (any_res (has_name ''configure'') inits) (\<lambda>configured.
     rbind (jget_or ''volumes'' (JList []) spec) (\<lambda>u. rbind (py_iter u) (\<lambda>volumes.
     rbind (next_doc (has_name ''toolbox-tmp'') volumes) (\<lambda>tmp.
     rbind (next_doc (is_doc ''PersistentVolumeClaim'' ''gitlab-helm-toolbox-backup-tmp'') docs) (\<lambda>pvc.
     Inr (expects w c [(''name'', JStr ''toolbox-backup''),
         (''image'', JStr ''registry.gitlab.com/gitlab-org/build/cng/gitlab-toolbox-ce:v19.5.0''), (''resources'', BACKUP_RESOURCES),
         (''args'', if patched then SITE_BACKUP_ARGS else NATIVE_BACKUP_ARGS)]
       @ concat (map (bucket_check w env) BACKUP_BUCKETS)
       @ check_true configured ''native Toolbox configure init missing''
       @ expect w tmp ''persistentVolumeClaim.claimName'' (JStr ''gitlab-helm-toolbox-backup-tmp'')
       @ expects w pvc [(''spec.storageClassName'', JStr ''local-path-retain''), (''spec.resources.requests.storage'', JStr ''100Gi'')]))))))))) "

definition validate_backup_render :: "'a repo_scheme \<Rightarrow> jval list \<Rightarrow> bool \<Rightarrow> string list res" where
  "validate_backup_render w docs patched =
     rbind (rfilter (has_kind ''CronJob'') docs) (\<lambda>crons.
     case crons of
       [cron] \<Rightarrow>
         (let job = or_dict (get_value cron ''spec.jobTemplate.spec''); spec = or_dict (get_value job ''template.spec'');
              errors = expects w cron ((''metadata.name'', JStr ''gitlab-helm-toolbox-backup'') # map (\<lambda>(key, wanted). (''spec.'' @ key, wanted)) BACKUP_SCHEDULE)
                @ expects w job [(''activeDeadlineSeconds'', JInt 10800), (''backoffLimit'', JInt 0)]
                @ expect w spec ''restartPolicy'' (JStr ''Never'') in
          rbind (jget_or ''containers'' (JList []) spec) (\<lambda>containers.
          rbind (py_len containers) (\<lambda>n.
          if n \<noteq> 1 then Inr (errors @ [''native backup container shape changed''])
          else rbind (py_nth 0 containers) (\<lambda>c. rbind (backup_container_checks w patched docs spec c) (\<lambda>more. Inr (errors @ more))))))
     | _ \<Rightarrow> Inr [''exactly one native Toolbox backup CronJob required''])"

subsection \<open>The rendered workloads\<close>

definition NETWORK_KINDS :: "string list" where
  "NETWORK_KINDS = [''Ingress'', ''Gateway'', ''HTTPRoute'', ''GRPCRoute'', ''Certificate'', ''Issuer'']"

definition is_one_of :: "jval \<Rightarrow> string list \<Rightarrow> bool" where
  "is_one_of v names \<longleftrightarrow> v \<in> JStr ` set names"

text \<open>\<^verbatim>\<open>name in names and not c["image"].endswith(t)\<close>.\<close>

definition wrong_image :: "jval \<Rightarrow> string list \<Rightarrow> string \<Rightarrow> jval \<Rightarrow> bool res" where
  "wrong_image name names t c =
     and_then (is_one_of name names) (rbind (jitem ''image'' c) (\<lambda>i. rbind (ends_text t i) (\<lambda>b. Inr (\<not> b))))"

definition expected_env :: "jval \<Rightarrow> (string \<times> string) list" where
  "expected_env name =
     (if name = JStr ''webservice'' then [(''WORKER_PROCESSES'', ''1''), (''PUMA_THREADS_MIN'', ''1''), (''PUMA_THREADS_MAX'', ''4'')]
      else if name = JStr ''sidekiq'' then [(''SIDEKIQ_CONCURRENCY'', ''5'')] else [])"

definition resources_changed :: "jval \<Rightarrow> jval \<Rightarrow> bool res" where
  "resources_changed name c =
     (if \<not> hashable name then Inl (PyError ''TypeError'')
      else case name of
        JStr n \<Rightarrow> (case map_of RESOURCES n of
            Some r \<Rightarrow> rbind (jget ''resources'' c) (\<lambda>a. Inr (\<not> py_eq a (app_resources r)))
          | None \<Rightarrow> Inr False)
      | _ \<Rightarrow> Inr False)"

definition chart_container_checks :: "'a repo_scheme \<Rightarrow> jval \<Rightarrow> string list res" where
  "chart_container_checks w c =
     rbind (jitem ''name'' c) (\<lambda>name.
     (let label = py_str (r_float w) name in
     rbind (resources_changed name c) (\<lambda>changed.
     rbind (wrong_image name [''webservice'', ''sidekiq'', ''gitlab-workhorse'', ''toolbox'', ''migrations''] ''-ce:v19.5.0'' c) (\<lambda>ce.
     rbind (wrong_image name [''gitaly'', ''kas''] '':v19.5.0'' c) (\<lambda>release.
     rbind (env_values c) (\<lambda>env.
     rbind (and_then (name = JStr ''migrations'')
       (rbind (jget_or ''args'' (JList []) c) (\<lambda>args. rbind (py_join '' '' args) (\<lambda>t. Inr (\<not> occurs ''/scripts/db-migrate'' t))))) (\<lambda>disabled.
     Inr (check_true (\<not> changed) (label @ '': application resources changed'')
       @ check_true (\<not> ce) (label @ '': wrong CE release image'')
       @ check_true (\<not> release) (label @ '': wrong release image'')
       @ concat (map (\<lambda>(key, value). check_true (value_of key env = JStr value) (label @ '': '' @ key @ '' changed'')) (expected_env name))
       @ check_true (\<not> disabled) ''native schema migration disabled''))))))))"

text \<open>The part of the loop for a Deployment or a StatefulSet, and its body. \<open>seen\<close> is the set of the apps so far.\<close>

definition workload_checks :: "'a repo_scheme \<Rightarrow> jval \<Rightarrow> jval \<Rightarrow> jval list \<Rightarrow> string list res" where
  "workload_checks w d app seen =
     rbind (hash_set [app]) (\<lambda>_.
     rbind (if \<not> is_one_of app WORKLOADS \<or> list_ex (key_eq app) seen
        then rbind (items_at [''metadata'', ''name''] d) (\<lambda>n. Inr [''unexpected/duplicate workload: '' @ py_str (r_float w) n])
        else Inr []) (\<lambda>unexpected.
     rbind (jitem ''spec'' d) (\<lambda>spec. rbind (jget_or ''replicas'' (JInt 1) spec) (\<lambda>replicas.
     Inr (unexpected @ check_true (py_eq replicas (JInt 1)) (py_str (r_float w) app @ '': expected singleton''))))))"

definition chart_doc_checks :: "'a repo_scheme \<Rightarrow> jval \<Rightarrow> jval list \<Rightarrow> (string list \<times> jval list) res" where
  "chart_doc_checks w d seen =
     rbind (jget ''kind'' d) (\<lambda>kind.
     (let network = check_true (\<not> is_one_of kind NETWORK_KINDS) (''duplicate networking/certificate resource: '' @ py_str (r_float w) kind) in
     if \<not> is_one_of kind [''Deployment'', ''StatefulSet'', ''Job''] then Inr (network, seen)
     else
       rbind (jitem ''metadata'' d) (\<lambda>m. rbind (get_at [''labels'', ''app''] m) (\<lambda>app.
       rbind (if kind \<noteq> JStr ''Job'' then workload_checks w d app seen else Inr []) (\<lambda>workload.
       rbind (items_at [''spec'', ''template'', ''spec''] d) (\<lambda>spec.
       rbind (jitem ''containers'' spec) (\<lambda>v. rbind (py_iter v) (\<lambda>cs.
       rbind (in_order (map (chart_container_checks w) cs)) (\<lambda>containers.
       rbind (and_then (is_one_of app [''webservice'', ''sidekiq''])
         (rbind (jget_or ''initContainers'' (JList []) spec) (\<lambda>u. rbind (py_iter u) (\<lambda>inits.
          rbind (any_res (has_name ''dependencies'') inits) (\<lambda>b. Inr (\<not> b)))))) (\<lambda>unchecked.
       Inr (network @ workload @ containers @ check_true (\<not> unchecked) (py_str (r_float w) app @ '': native init dependency checks missing''),
         if kind \<noteq> JStr ''Job'' then app # seen else seen)))))))))))"

fun chart_docs_checks :: "'a repo_scheme \<Rightarrow> jval list \<Rightarrow> jval list \<Rightarrow> (string list \<times> jval list) res" where
  "chart_docs_checks w seen [] = Inr ([], seen)"
| "chart_docs_checks w seen (d # ds) =
     rbind (chart_doc_checks w d seen) (\<lambda>(errors, seen).
     rbind (chart_docs_checks w seen ds) (\<lambda>(more, seen). Inr (errors @ more, seen)))"

definition hpa_unbounded :: "jval \<Rightarrow> bool res" where
  "hpa_unbounded d = rbind (jitem ''spec'' d) (\<lambda>spec.
     rbind (jget ''minReplicas'' spec) (\<lambda>least. or_else (\<not> py_eq least (JInt 1))
       (rbind (jget ''maxReplicas'' spec) (\<lambda>most. Inr (\<not> py_eq most (JInt 1))))))"

definition hpa_checks :: "jval list \<Rightarrow> string list res" where
  "hpa_checks docs =
     rbind (rfilter (has_kind ''HorizontalPodAutoscaler'') docs) (\<lambda>hpas.
     rbind (or_else (length hpas \<noteq> 4) (any_res hpa_unbounded hpas)) (\<lambda>bad. Inr (check_true (\<not> bad) ''singleton HPA bounds changed'')))"

definition chart_job_checks :: "jval list \<Rightarrow> string list res" where
  "chart_job_checks docs =
     rbind (rfilter (has_kind ''Job'') docs) (\<lambda>jobs.
     rbind (any_res (\<lambda>d. rbind (items_at [''metadata'', ''name''] d) (starts_text ''gitlab-helm-migrations-'')) jobs) (\<lambda>migration.
     rbind (any_res (\<lambda>d. rbind (jitem ''metadata'' d) (\<lambda>m. rbind (get_at [''annotations'', ''helm.sh/hook''] m) (\<lambda>a.
       Inr (a = JStr ''pre-upgrade'')))) jobs) (\<lambda>hook.
     Inr (check_true migration ''native migration Job missing'' @ check_true hook ''native pre-upgrade hook missing''))))"

text \<open>The fragments of the application's configuration: \<^verbatim>\<open>yaml.safe_load(data.get(name, "{}"))\<close>.\<close>

definition load_fragment :: "'a repo_scheme \<Rightarrow> string \<Rightarrow> jval \<Rightarrow> jval res" where
  "load_fragment w name data = rbind (jget_or name (JStr ''{}'') data) (safe_load w)"

definition load_database :: "'a repo_scheme \<Rightarrow> jval \<Rightarrow> jval res" where
  "load_database w data = rbind (jget_or ''database.yml.erb'' (JStr ''{}'') data) (\<lambda>v. case v of
      JStr s \<Rightarrow> load_yaml w (sub_spans ''<%='' ''%>'' ''\"secret-file-reference\"'' s)
    | _ \<Rightarrow> Inl (PyError ''TypeError''))"

definition DATABASE_FIELDS :: "(string \<times> jval) list" where
  "DATABASE_FIELDS = concat (map (\<lambda>db. map (\<lambda>(field, wanted). (''production.'' @ db @ ''.'' @ field, wanted))
     [(''database'', JStr ''gitlabhq_production''), (''host'', JStr ''192.168.1.10''), (''port'', JInt 5433), (''prepared_statements'', JBool False)])
     [''main'', ''ci'']) @ [(''production.ci.database_tasks'', JBool False)]"

definition fragment_checks :: "'a repo_scheme \<Rightarrow> jval list \<Rightarrow> string list res" where
  "fragment_checks w docs =
     rbind (next_doc (is_doc ''ConfigMap'' ''gitlab-helm-kas'') docs) (\<lambda>kas. rbind (jget_or ''data'' (JDict []) kas) (\<lambda>kd.
     rbind (load_fragment w ''config.yaml'' kd) (\<lambda>config.
     rbind (next_doc (is_doc ''ConfigMap'' ''gitlab-helm-webservice'') docs) (\<lambda>web. rbind (jget_or ''data'' (JDict []) web) (\<lambda>data.
     rbind (load_fragment w ''redis.yml.erb'' data) (\<lambda>redis.
     rbind (load_fragment w ''resque.yml.erb'' data) (\<lambda>resque. rbind (load_fragment w ''cable.yml.erb'' data) (\<lambda>cable.
     rbind (load_database w data) (\<lambda>database.
     Inr (expects w config [(''redis.database_index'', JInt 3), (''agent.kubernetes_api.url_path_prefix'', JStr ''/-/kubernetes-agent/k8s-proxy/'')]
       @ expects w redis (map (\<lambda>(name, db). (''production.'' @ name @ ''.url'', redis_url db)) REDIS_DATABASES)
       @ expect w resque ''production.url'' (redis_url 0) @ expect w cable ''production.url'' (redis_url 0)
       @ expects w database DATABASE_FIELDS))))))))))"

definition validate_render :: "'a repo_scheme \<Rightarrow> jval list \<Rightarrow> bool \<Rightarrow> string list res" where
  "validate_render w documents patched =
     (let docs = filter truthy documents in
     rbind (validate_backup_render w docs patched) (\<lambda>backup.
     rbind (chart_docs_checks w [] docs) (\<lambda>(workloads, seen).
     rbind (in_order [hpa_checks docs, chart_job_checks docs, fragment_checks w docs]) (\<lambda>more.
     Inr (backup @ workloads @ check_true (same_set seen WORKLOADS) ''expected workloads'' @ more)))))"

end
