(* ===== verification/Helm_Main.thy ===== *)
theory Helm_Main
  imports Helm_Chart
begin

section \<open>The validator of the GitLab chart: sources and the whole run\<close>

text \<open>
  \<^verbatim>\<open>validate_source\<close> and \<^verbatim>\<open>main\<close> of \<^verbatim>\<open>scripts/validate_gitlab_helm.py\<close>. A run gives the exit status, the
  printed lines and the files it writes with their texts.
\<close>

subsection \<open>The sources\<close>

definition load_file :: "'a repo_scheme \<Rightarrow> string \<Rightarrow> jval res" where
  "load_file w path = rbind (read_text w path) (load_yaml w)"

definition alert_source_checks :: "'a repo_scheme \<Rightarrow> string list res" where
  "alert_source_checks w =
     (case r_read w ''infrastructure/observability-ui/grafana/_grafana_alert_rules.yaml'' of
        OsError msg \<Rightarrow> Inr [''cannot read native backup alerts: '' @ msg]
      | Undecodable msg \<Rightarrow> Inl (value_error msg)
      | FileText s \<Rightarrow> (case r_yaml w s of
          Loaded document \<Rightarrow> validate_backup_alerts w document
        | YamlError msg \<Rightarrow> Inr [''cannot read native backup alerts: '' @ msg]
        | BadScalar msg \<Rightarrow> Inl (value_error msg)))"

text \<open>The ConfigMap of a script holds the text of the script.\<close>

definition config_script_checks :: "'a repo_scheme \<Rightarrow> jval list \<Rightarrow> string \<times> string \<Rightarrow> string list res" where
  "config_script_checks w prepared e = (case e of (name, file) \<Rightarrow>
     rbind (next_doc (is_doc ''ConfigMap'' name) prepared) (\<lambda>config.
     rbind (read_text w (''apps/gitlab-helm/files/'' @ file)) (\<lambda>text.
     Inr (expect w config ''data'' (JDict [(file, JStr text)])))))"

definition prepared_checks :: "'a repo_scheme \<Rightarrow> jval list \<Rightarrow> string list res" where
  "prepared_checks w prepared = in_order
     (map (config_script_checks w prepared) [(''gitlab-helm-upgrade-admission'', ''upgrade-admission.sh''), (''gitlab-helm-native-backup'', ''nas-export.py'')]
      @ [rbind (rfilter (has_kind ''CronJob'') prepared) (\<lambda>exports.
           Inr (check_true (exports = []) ''no standalone export CronJob: publication belongs to native producer'')),
         rbind (load_file w ''apps/gitlab-helm/helmrepository.yaml'') (\<lambda>repository.
           Inr (expect w repository ''spec.url'' (JStr ''https://charts.gitlab.io'')))])"

definition leaf_checks :: "'a repo_scheme \<Rightarrow> string list res" where
  "leaf_checks w =
     rbind (load_file w (FLUX_ROOT @ ''kustomization-gitlab-helm.yaml'')) (\<lambda>leaf.
     rbind (py_member (JDict [(''name'', JStr ''gitlab-recovery-storage'')]) (or_empty (get_value leaf ''spec.dependsOn''))) (\<lambda>depends.
     Inr (expects w leaf [(''spec.path'', JStr ''./apps/gitlab-helm''), (''spec.suspend'', JBool True),
         (''spec.sourceRef'', JDict [(''kind'', JStr ''GitRepository''), (''name'', JStr ''cluster-state'')])]
       @ check_true depends ''inactive candidate must depend on recovery storage'')))"

definition recovery_leaf_checks :: "'a repo_scheme \<Rightarrow> jval list \<Rightarrow> jval list \<Rightarrow> string list res" where
  "recovery_leaf_checks w controllers prepared =
     rbind (rfilter (named ''Kustomization'' ''gitlab-recovery-storage'') controllers) (\<lambda>leaves.
     rbind (kustomize w ''infrastructure/storage/gitlab-recovery'') (\<lambda>storage.
     rbind (validate_recovery_storage w storage (case leaves of [l] \<Rightarrow> l | _ \<Rightarrow> JDict []) prepared) (\<lambda>errors.
     Inr (check_true (length leaves = 1) ''active root must contain exactly one gitlab-recovery-storage leaf'' @ errors))))"

definition macro_checks :: "'a repo_scheme \<Rightarrow> string \<Rightarrow> string list res" where
  "macro_checks w name =
     rbind (load_file w (FLUX_ROOT @ ''kustomization-'' @ name @ ''.yaml'')) (\<lambda>existing.
     rbind (jitem ''spec'' existing) (\<lambda>spec. rbind (py_in ''postBuild'' spec) (\<lambda>b.
     Inr (check_true (\<not> b) (name @ '': must not substitute existing CSI macros'')))))"

definition candidate_absent :: "string \<Rightarrow> jval \<Rightarrow> string list res" where
  "candidate_absent entrypoint doc =
     rbind (jget_or ''metadata'' (JDict []) doc) (\<lambda>m. rbind (jget_or ''name'' (JStr []) m) (\<lambda>n. rbind (starts_text ''gitlab-helm'' n) (\<lambda>b.
     Inr (check_true (\<not> b) (entrypoint @ '': inactive candidate has entered active graph'')))))"

definition active_checks :: "'a repo_scheme \<Rightarrow> string \<Rightarrow> string list res" where
  "active_checks w entrypoint =
     rbind (kustomize w entrypoint) (\<lambda>rendered.
     in_order ((if entrypoint = ''apps'' then [validate_legacy_artifact_tmp w rendered, validate_legacy_workhorse_template rendered] else [])
       @ map (candidate_absent entrypoint) rendered))"

definition redis_checks :: "'a repo_scheme \<Rightarrow> string list res" where
  "redis_checks w =
     rbind (load_file w ''apps/gitlab-redis/persistentvolumeclaim.yaml'') (\<lambda>claim.
     rbind (load_file w ''apps/gitlab/deployment-default-gitlab-redis.yaml'') (\<lambda>redis.
     rbind (items_at [''spec'', ''template'', ''spec'', ''containers''] redis) (\<lambda>cs. rbind (py_nth 0 cs) (\<lambda>c. rbind (jitem ''resources'' c) (\<lambda>r.
     Inr (expect w claim ''metadata.annotations.volumeType'' (JStr ''local'') @ expect w redis ''spec.replicas'' (JInt 1)
       @ check_true (py_eq r (JDict [(''requests'', JDict [(''cpu'', JStr ''50m''), (''memory'', JStr ''32Mi'')]), (''limits'', JDict [(''memory'', JStr ''256Mi'')])]))
           ''retained Redis resources changed''))))))"

definition controller_checks :: "'a repo_scheme \<Rightarrow> jval list \<Rightarrow> string list res" where
  "controller_checks w controllers =
     rbind (next_doc (is_doc ''Deployment'' ''helm-controller'') controllers) (\<lambda>helm.
     if \<not> truthy helm then Inr [''native helm-controller missing'']
     else
       rbind (items_at [''spec'', ''template'', ''spec'', ''containers''] helm) (\<lambda>cs. rbind (py_nth 0 cs) (\<lambda>container.
       Inr (expects w container [(''image'', JStr ''ghcr.io/fluxcd/helm-controller:v1.6.5''),
         (''resources.requests'', JDict [(''cpu'', JStr ''100m''), (''memory'', JStr ''64Mi'')])]))))"

definition validate_source :: "helm_repo \<Rightarrow> string list res" where
  "validate_source w =
     rbind (alert_source_checks w) (\<lambda>alerts.
     rbind (load_file w ''apps/gitlab-helm/helmrelease.yaml'') (\<lambda>release.
     rbind (validate_release w release) (\<lambda>errors.
     rbind (kustomize w ''apps/gitlab-helm'') (\<lambda>prepared.
     rbind (in_order [prepared_checks w prepared, leaf_checks w]) (\<lambda>sources.
     rbind (kustomize w ''clusters/k3s-homelab/flux-system'') (\<lambda>controllers.
     rbind (in_order ([recovery_leaf_checks w controllers prepared] @ map (macro_checks w) [''storage-classes'', ''storage-nfs-csi'']
       @ map (active_checks w) [''apps'', ''clusters/k3s-homelab/flux-system'']
       @ [rbind (load_file w ''apps/gitlab/service-default-gitlab-registry-internal.yaml'') (\<lambda>s. Inr (validate_internal_alias w s)),
          redis_checks w, controller_checks w controllers])) (\<lambda>more.
     Inr (alerts @ errors @ sources @ more))))))))"

subsection \<open>The command\<close>

record helm_args =
  rendered :: "string option"
  write_postrender :: "string option"
  write_values :: "string option"
  check_archive :: "string option"
  index_file :: "string option"

type_synonym writes = "(string \<times> string) list"

definition load_all :: "'a repo_scheme \<Rightarrow> string \<Rightarrow> jval list res" where
  "load_all w path = rbind (read_text w path) (\<lambda>s. case r_yaml_all w s of
      Loaded docs \<Rightarrow> Inr (filter truthy docs)
    | YamlError msg \<Rightarrow> Inl (PyError (''YAMLError: '' @ msg))
    | BadScalar msg \<Rightarrow> Inl (value_error msg))"

text \<open>
  The \<^verbatim>\<open>try\<close> block: a \<^verbatim>\<open>ValueError\<close> or a failed command becomes an error text. The two validations raise no
  \<^verbatim>\<open>ValueError\<close> but for a scalar without a value in a fragment of the configuration, which \<open>value_caught\<close> turns into a text.
\<close>

definition value_caught :: "string list res \<Rightarrow> string list attempt" where
  "value_caught m = (case m of
      Inr errors \<Rightarrow> Got errors
    | Inl e \<Rightarrow> (case e of
        PyError s \<Rightarrow> if prefix ''ValueError: '' s then Caught (drop (length ''ValueError: '') s) else Escapes (PyError s)
      | _ \<Rightarrow> Escapes e))"

definition postrender_errors :: "helm_repo \<Rightarrow> jval list \<Rightarrow> jval list \<Rightarrow> jval \<Rightarrow> string list \<times> string list attempt" where
  "postrender_errors w docs patched release =
     (case value_caught (validate_postrender w docs patched release) of
        Got errors \<Rightarrow> (errors, value_caught (validate_render w patched True))
      | other \<Rightarrow> ([], other))"

definition rendered_run :: "helm_repo \<Rightarrow> helm_args \<Rightarrow> string list \<Rightarrow> string \<Rightarrow> (string list \<times> writes) res" where
  "rendered_run w args errors path =
     rbind (load_all w path) (\<lambda>docs.
     rbind (validate_render w docs False) (\<lambda>render.
     rbind (load_file w ''apps/gitlab-helm/helmrelease.yaml'') (\<lambda>release.
     (let so_far = errors @ render; rejected = (\<lambda>msg. ''native upgrade postrender rejected: '' @ msg) in
      case apply_postrender w docs release True of
        Escapes e \<Rightarrow> Inl e
      | Caught msg \<Rightarrow> Inr (so_far @ [rejected msg], [])
      | Got patched \<Rightarrow> (case postrender_errors w docs patched release of
          (extension, Escapes e) \<Rightarrow> Inl e
        | (extension, Caught msg) \<Rightarrow> Inr (so_far @ extension @ [rejected msg], [])
        | (extension, Got again) \<Rightarrow>
            (let all = so_far @ extension @ again in
             Inr (all, case write_postrender args of
                 Some out \<Rightarrow> if all = [] then [(out, h_dump_all w patched)] else []
               | None \<Rightarrow> [])))))))"

definition text_of :: "jval \<Rightarrow> string res" where
  "text_of v = (case v of JStr s \<Rightarrow> Inr s | _ \<Rightarrow> Inl (PyError ''AttributeError''))"

definition index_checks :: "'a repo_scheme \<Rightarrow> string \<Rightarrow> string \<Rightarrow> string list res" where
  "index_checks w digest path =
     rbind (load_file w path) (\<lambda>document. rbind (items_at [''entries'', ''gitlab''] document) (\<lambda>v. rbind (py_iter v) (\<lambda>entries.
     rbind (first_with (\<lambda>e. rbind (jitem ''version'' e) (\<lambda>n. Inr (n = JStr ''10.5.0''))) entries) (\<lambda>entry.
     rbind (jitem ''digest'' entry) (\<lambda>d. rbind (text_of d) (\<lambda>t.
     rbind (or_else (removeprefix ''sha256:'' t \<noteq> digest) (rbind (jitem ''appVersion'' entry) (\<lambda>a. Inr (a \<noteq> JStr ''v19.5.0'')))) (\<lambda>bad.
     Inr (check_true (\<not> bad) ''official index digest/application identity mismatch''))))))))"

definition archive_checks :: "helm_repo \<Rightarrow> helm_args \<Rightarrow> string \<Rightarrow> string list res" where
  "archive_checks w args archive =
     rbind (read_text w ''apps/gitlab-helm/chart-lock.json'') (\<lambda>s.
     case (json_loads s, h_sha256 w archive) of
       (None, _) \<Rightarrow> Inl (PyError ''JSONDecodeError'')
     | (Some _, None) \<Rightarrow> Inl (PyError ''OSError'')
     | (Some lock, Some digest) \<Rightarrow>
         rbind (jitem ''sha256'' lock) (\<lambda>wanted.
         rbind (case index_file args of None \<Rightarrow> Inr [] | Some path \<Rightarrow> index_checks w digest path) (\<lambda>listed.
         Inr (check_true (wanted = JStr digest) ''chart archive differs from reviewed identity'' @ listed))))"

definition helm_main :: "helm_repo \<Rightarrow> helm_args \<Rightarrow> (int \<times> string list \<times> writes) res" where
  "helm_main w args =
     rbind (validate_source w) (\<lambda>source.
     rbind (case rendered args of None \<Rightarrow> Inr (source, []) | Some path \<Rightarrow> rendered_run w args source path) (\<lambda>(errors, writes).
     rbind (case check_archive args of None \<Rightarrow> Inr [] | Some archive \<Rightarrow> archive_checks w args archive) (\<lambda>archive.
     if errors @ archive \<noteq> [] then Inr (1, errors @ archive, writes)
     else
       rbind (case write_values args of
           None \<Rightarrow> Inr []
         | Some out \<Rightarrow> rbind (load_file w ''apps/gitlab-helm/helmrelease.yaml'') (\<lambda>release.
             rbind (items_at [''spec'', ''values''] release) (\<lambda>vals. Inr [(out, h_dump w vals)]))) (\<lambda>more.
       Inr (0, [''GitLab Helm inactive-preparation contract passed''], writes @ more)))))"

end
