(* ===== verification/Helm_Properties.thy ===== *)
theory Helm_Properties
  imports Helm_Main Temporal_Properties
begin

section \<open>What the GitLab chart validator accepts\<close>

text \<open>
  The workloads of an accepted render, and the documents that an accepted postrender may change.
\<close>

subsection \<open>Workloads\<close>

definition kind_in :: "string list \<Rightarrow> jval \<Rightarrow> bool" where
  "kind_in kinds d \<longleftrightarrow> (case jget ''kind'' d of Inr (JStr k) \<Rightarrow> k \<in> set kinds | _ \<Rightarrow> False)"

definition app_of :: "jval \<Rightarrow> jval" where
  "app_of d = (case rbind (jitem ''metadata'' d) (get_at [''labels'', ''app'']) of Inr a \<Rightarrow> a | Inl _ \<Rightarrow> JNull)"

abbreviation "workload_kinds \<equiv> [''Deployment'', ''StatefulSet'']"
abbreviation "pod_kinds \<equiv> [''Deployment'', ''StatefulSet'', ''Job'']"

definition runs_once :: "jval \<Rightarrow> bool" where
  "runs_once d \<longleftrightarrow> (case rbind (jitem ''spec'' d) (jget_or ''replicas'' (JInt 1)) of Inr r \<Rightarrow> py_eq r (JInt 1) | Inl _ \<Rightarrow> False)"

definition containers_of :: "jval \<Rightarrow> jval list res" where
  "containers_of d = rbind (items_at [''spec'', ''template'', ''spec'', ''containers''] d) py_iter"

text \<open>A container of a listed name has the resources of its name, and the release image if it is one of the named applications.\<close>

definition as_reviewed :: "jval \<Rightarrow> bool" where
  "as_reviewed c \<longleftrightarrow>
     (\<forall>n. jitem ''name'' c = Inr (JStr n) \<longrightarrow>
        (\<forall>r. map_of RESOURCES n = Some r \<longrightarrow> (\<exists>a. jget ''resources'' c = Inr a \<and> py_eq a (app_resources r)))
      \<and> (n \<in> {''webservice'', ''sidekiq'', ''gitlab-workhorse'', ''toolbox'', ''migrations''} \<longrightarrow>
           (\<exists>i. jitem ''image'' c = Inr (JStr i) \<and> suffix ''-ce:v19.5.0'' i))
      \<and> (n \<in> {''gitaly'', ''kas''} \<longrightarrow> (\<exists>i. jitem ''image'' c = Inr (JStr i) \<and> suffix '':v19.5.0'' i)))"

lemma is_one_of_iff: "is_one_of v names \<longleftrightarrow> (\<exists>n \<in> set names. v = JStr n)"
  by (auto simp: is_one_of_def)

lemma kind_in_iff: "kind_in kinds d \<longleftrightarrow> (\<exists>k \<in> set kinds. jget ''kind'' d = Inr (JStr k))"
  by (auto simp: kind_in_def split: sum.splits jval.splits)

lemma key_eq_JStr: "key_eq (JStr a) x \<longleftrightarrow> x = JStr a"
  by (cases x) (auto simp: key_eq_def)

lemma seen_iff: "list_ex (key_eq (JStr a)) seen \<longleftrightarrow> JStr a \<in> set seen"
  by (induction seen) (auto simp: key_eq_JStr)

lemma ends_text_Inr: "ends_text t v = Inr b \<longleftrightarrow> (\<exists>s. v = JStr s \<and> b = suffix t s)"
  by (cases v) (auto simp: ends_text_def)

lemma wrong_image_False:
  assumes "wrong_image (JStr n) names t c = Inr False" "n \<in> set names"
  shows "\<exists>i. jitem ''image'' c = Inr (JStr i) \<and> suffix t i"
  using assms by (auto simp: wrong_image_def is_one_of_iff rbind_eq_Inr ends_text_Inr)

lemma container_reviewed:
  assumes "chart_container_checks w c = Inr []"
  shows "as_reviewed c"
proof -
  obtain name where name: "jitem ''name'' c = Inr name" and
    checks: "resources_changed name c = Inr False"
      "wrong_image name [''webservice'', ''sidekiq'', ''gitlab-workhorse'', ''toolbox'', ''migrations''] ''-ce:v19.5.0'' c = Inr False"
      "wrong_image name [''gitaly'', ''kas''] '':v19.5.0'' c = Inr False"
    using assms by (auto simp: chart_container_checks_def rbind_eq_Inr Let_def check_true_Nil)
  show ?thesis
    unfolding as_reviewed_def using name checks
    by (auto simp: resources_changed_def rbind_eq_Inr hashable_def split: option.splits dest!: wrong_image_False)
qed

text \<open>What one document of an accepted render satisfies, and how it extends the set of apps.\<close>

lemma chart_doc_accepted:
  assumes "chart_doc_checks w d seen = Inr ([], seen')"
  shows "\<not> kind_in NETWORK_KINDS d"
    and "kind_in pod_kinds d \<Longrightarrow> \<exists>cs. containers_of d = Inr cs \<and> list_all as_reviewed cs"
    and "kind_in workload_kinds d \<Longrightarrow> runs_once d \<and> app_of d \<in> JStr ` set WORKLOADS - set seen"
    and "seen' = (if kind_in workload_kinds d then app_of d # seen else seen)"
proof -
  obtain kind where kind: "jget ''kind'' d = Inr kind" and network: "\<not> is_one_of kind NETWORK_KINDS"
    using assms by (auto simp: chart_doc_checks_def rbind_eq_Inr Let_def check_true_Nil split: if_splits)
  then show "\<not> kind_in NETWORK_KINDS d"
    by (auto simp: kind_in_iff is_one_of_iff)
  have pod: "kind_in kinds d \<longleftrightarrow> is_one_of kind kinds" for kinds
    using kind by (auto simp: kind_in_iff is_one_of_iff)
  consider (plain) "\<not> is_one_of kind pod_kinds" "seen' = seen" | (pod) m app spec v cs where
    "is_one_of kind pod_kinds" "jitem ''metadata'' d = Inr m" "get_at [''labels'', ''app''] m = Inr app"
    "kind \<noteq> JStr ''Job'' \<Longrightarrow> workload_checks w d app seen = Inr []"
    "items_at [''spec'', ''template'', ''spec''] d = Inr spec" "jitem ''containers'' spec = Inr v" "py_iter v = Inr cs"
    "in_order (map (chart_container_checks w) cs) = Inr []" "seen' = (if kind \<noteq> JStr ''Job'' then app # seen else seen)"
    using assms kind by (auto simp: chart_doc_checks_def rbind_eq_Inr Let_def check_true_Nil split: if_splits)
  note cases = this
  show "\<exists>cs. containers_of d = Inr cs \<and> list_all as_reviewed cs" if "kind_in pod_kinds d"
    using cases
  proof cases
    case pod
    then show ?thesis
      by (auto simp: containers_of_def rbind_eq_Inr in_order_Nil list_all_iff intro!: container_reviewed [of w])
  qed (use that pod in simp)
  show "runs_once d \<and> app_of d \<in> JStr ` set WORKLOADS - set seen" if "kind_in workload_kinds d"
    using cases
  proof cases
    case (pod m app)
    then have "workload_checks w d app seen = Inr []" using that kind by (auto simp: kind_in_iff)
    with pod show ?thesis
      by (auto simp: workload_checks_def rbind_eq_Inr check_true_Nil runs_once_def app_of_def is_one_of_iff seen_iff split: if_splits)
  qed (use that pod in \<open>auto simp: is_one_of_iff\<close>)
  show "seen' = (if kind_in workload_kinds d then app_of d # seen else seen)"
    using cases by cases (use kind in \<open>auto simp: kind_in_iff is_one_of_iff app_of_def\<close>)
qed

definition doc_accepted :: "jval \<Rightarrow> bool" where
  "doc_accepted d \<longleftrightarrow> \<not> kind_in NETWORK_KINDS d
     \<and> (kind_in pod_kinds d \<longrightarrow> (\<exists>cs. containers_of d = Inr cs \<and> list_all as_reviewed cs))
     \<and> (kind_in workload_kinds d \<longrightarrow> runs_once d)"

lemma chart_docs_accepted:
  assumes "chart_docs_checks w seen ds = Inr ([], seen')" "distinct seen"
  shows "seen' = rev (map app_of (filter (kind_in workload_kinds) ds)) @ seen \<and> distinct seen' \<and> list_all doc_accepted ds"
  using assms
proof (induction ds arbitrary: seen)
  case (Cons d ds)
  from Cons.prems obtain seen1 where step: "chart_doc_checks w d seen = Inr ([], seen1)" "chart_docs_checks w seen1 ds = Inr ([], seen')"
    by (auto simp: rbind_eq_Inr)
  note doc = chart_doc_accepted [OF step(1)]
  have "distinct seen1" using doc(3,4) Cons.prems by (auto split: if_splits)
  from Cons.IH [OF step(2) this] have rest: "seen' = rev (map app_of (filter (kind_in workload_kinds) ds)) @ seen1"
    "distinct seen'" "list_all doc_accepted ds" by blast+
  have "doc_accepted d" using doc by (simp add: doc_accepted_def)
  with rest doc(4) show ?case by simp
qed simp

text \<open>A value without truth has no kind.\<close>

lemma kind_in_truthy: "(truthy d \<and> kind_in kinds d) \<longleftrightarrow> kind_in kinds d"
  by (cases d) (auto simp: kind_in_iff jget_def)

lemma not_truthy_accepted: "(truthy d \<Longrightarrow> doc_accepted d) \<Longrightarrow> doc_accepted d"
  using kind_in_truthy [of d] by (auto simp: doc_accepted_def)

lemma distinct_WORKLOADS: "distinct (map JStr WORKLOADS)"
  by (simp add: WORKLOADS_def)

text \<open>
  (C40) A render that the validator accepts has the six workloads of GitLab, each exactly once and with one replica, and no
  routes, gateways or certificates. Of the containers of a workload or Job, those named in the table of resources request and are limited to
  exactly the resources reviewed for their name, those named \<^verbatim>\<open>webservice\<close>, \<^verbatim>\<open>sidekiq\<close>, \<^verbatim>\<open>gitlab-workhorse\<close>,
  \<^verbatim>\<open>toolbox\<close> and \<^verbatim>\<open>migrations\<close> run an image that ends in \<^verbatim>\<open>-ce:v19.5.0\<close>, and those named
  \<^verbatim>\<open>gitaly\<close> and \<^verbatim>\<open>kas\<close> one that ends in \<^verbatim>\<open>:v19.5.0\<close>. A container of any other name is not restricted,
  nor is the image of the registry.
\<close>

theorem chart_workloads_exact:
  assumes "validate_render w docs patched = Inr []"
  shows "mset (map app_of (filter (kind_in workload_kinds) docs)) = mset (map JStr WORKLOADS) \<and> (\<forall>d \<in> set docs. doc_accepted d)"
proof -
  obtain seen where loop: "chart_docs_checks w [] (filter truthy docs) = Inr ([], seen)" and all: "same_set seen WORKLOADS"
    using assms by (auto simp: validate_render_def Let_def rbind_eq_Inr check_true_Nil split: prod.splits)
  from chart_docs_accepted [OF loop] have seen: "seen = rev (map app_of (filter (kind_in workload_kinds) (filter truthy docs)))"
    "distinct seen" "list_all doc_accepted (filter truthy docs)" by auto
  from seen(2) all have "mset seen = mset (map JStr WORKLOADS)"
    using set_eq_iff_mset_eq_distinct [OF _ distinct_WORKLOADS, of seen] by (simp add: same_set_def)
  then have "mset (map app_of (filter (kind_in workload_kinds) docs)) = mset (map JStr WORKLOADS)"
    using seen(1) by (simp add: kind_in_truthy)
  then show ?thesis using seen(3) by (auto simp: list_all_iff intro: not_truthy_accepted)
qed

subsection \<open>Pinned images\<close>

text \<open>The values and parts of a value.\<close>

inductive part_of :: "jval \<Rightarrow> jval \<Rightarrow> bool" where
  part_self: "part_of v v"
| part_dict: "(k, x) \<in> set d \<Longrightarrow> part_of v x \<Longrightarrow> part_of v (JDict d)"
| part_list: "x \<in> set xs \<Longrightarrow> part_of v x \<Longrightarrow> part_of v (JList xs)"

inductive_simps part_of_dict: "part_of v (JDict d)"
inductive_simps part_of_list: "part_of v (JList xs)"
inductive_simps part_of_scalar: "part_of v JNull" "part_of v (JBool b)" "part_of v (JInt i)" "part_of v (JFloat r)" "part_of v (JStr s)"

text \<open>No part of the values freezes an image.\<close>

definition no_pins :: "jval \<Rightarrow> bool" where
  "no_pins v \<longleftrightarrow> (\<forall>d. part_of (JDict d) v \<longrightarrow> map_of d ''tag'' = None \<and> map_of d ''digest'' = None)"

lemma no_pins_dict: "no_pins (JDict d) \<longleftrightarrow> map_of d ''tag'' = None \<and> map_of d ''digest'' = None \<and> (\<forall>kv \<in> set d. no_pins (snd kv))"
  unfolding no_pins_def part_of_dict by (auto simp: all_conj_distrib Ball_def; blast)

lemma no_pins_list: "no_pins (JList xs) \<longleftrightarrow> (\<forall>x \<in> set xs. no_pins x)"
  unfolding no_pins_def part_of_list by blast

lemma pins_exact: "pins v = [] \<longleftrightarrow> no_pins v"
proof (induction v rule: pins.induct)
  case (1 d)
  then show ?case by (auto simp: no_pins_dict)
next
  case (2 xs)
  then show ?case by (auto simp: no_pins_list)
qed (simp_all add: no_pins_def part_of_scalar)

lemma release_no_pins: "validate_release w release = Inr [] \<Longrightarrow> no_pins (or_dict (get_value release ''spec.values''))"
  by (auto simp: validate_release_def rbind_eq_Inr Let_def pins_exact)

end
