(* ===== verification/Helm_Postrender.thy ===== *)
theory Helm_Postrender
  imports Helm_Properties
begin

section \<open>What an accepted postrender may change\<close>

text \<open>
  The validator undoes the extension on a copy and compares. The lemmas here turn this into a statement about the new documents:
  which fields agree with the old ones and what the others hold.
\<close>

subsection \<open>Values that agree but for a part\<close>

definition same_but :: "string set \<Rightarrow> dict \<Rightarrow> dict \<Rightarrow> bool" where
  "same_but ks d e \<longleftrightarrow> (\<forall>k. k \<notin> ks \<longrightarrow> rel_option py_eq (map_of d k) (map_of e k))"

text \<open>Outside of what a path refers to, two values agree.\<close>

fun same_outside :: "string list \<Rightarrow> jval \<Rightarrow> jval \<Rightarrow> bool" where
  "same_outside [] v u = True"
| "same_outside (k # ks) v u = (case (v, u) of
      (JDict d, JDict e) \<Rightarrow> same_but {k} d e \<and> (case (map_of d k, map_of e k) of (Some x, Some y) \<Rightarrow> same_outside ks x y | _ \<Rightarrow> False)
    | _ \<Rightarrow> False)"

lemma py_eq_same:
  assumes "py_eq v (JDict e)"
  obtains d where "v = JDict d" "\<And>k. rel_option py_eq (map_of d k) (map_of e k)"
proof -
  obtain d where d: "v = JDict d" "set (map fst d) = set (map fst e)" "list_all (\<lambda>kv. py_eq (dget (fst kv) d) (snd kv)) e"
    using assms by (auto simp: py_eq_JDict)
  have "rel_option py_eq (map_of d k) (map_of e k)" for k
  proof (cases "map_of e k")
    case None
    then have "k \<notin> fst ` set e" by (simp add: map_of_eq_None_iff)
    then have "map_of d k = None" using d(2) by (simp add: map_of_eq_None_iff)
    with None show ?thesis by simp
  next
    case (Some y)
    then have "(k, y) \<in> set e" by (rule map_of_SomeD)
    then have "py_eq (dget k d) y" "k \<in> fst ` set d" using d(2,3) by (force simp: list_all_iff)+
    moreover from this(2) obtain x where "map_of d k = Some x" by (metis domI dom_map_of_conv_image_fst domD)
    ultimately show ?thesis using Some by (simp add: dget_map_of)
  qed
  with d(1) that show ?thesis by blast
qed

lemma modify_at_same:
  assumes "modify_at ks f v = Inr r" "py_eq r u" "items_at ks u = Inr z"
  shows "\<exists>x y. items_at ks v = Inr x \<and> f x = Inr y \<and> py_eq y z \<and> same_outside ks v u"
  using assms
proof (induction ks arbitrary: v r u)
  case (Cons k ks)
  from Cons.prems(1) obtain d x y where v: "v = JDict d" "map_of d k = Some x" "modify_at ks f x = Inr y" "r = JDict (AList.update k y d)"
    by (auto simp: rbind_eq_Inr split: jval.splits option.splits)
  from Cons.prems(3) obtain e t where u: "u = JDict e" "map_of e k = Some t" "items_at ks t = Inr z"
    by (auto simp: res_simps)
  have eq: "rel_option py_eq (map_of (AList.update k y d) k') (map_of e k')" for k'
    using Cons.prems(2) v(4) u(1) by (auto elim: py_eq_same)
  have yt: "py_eq y t" using eq [of k] u(2) by (simp add: update_conv')
  have rest: "same_but {k} d e"
    unfolding same_but_def using eq by (metis fun_upd_other insertI1 update_conv')
  show ?case using Cons.IH [OF v(3) yt u(3)] v(1,2) u(1,2) rest by (auto simp: jitem_eq_Inr rbind_eq_Inr)
qed simp

subsection \<open>The upgrade hook\<close>

lemma expect_Nil: "expect w v path wanted = [] \<longleftrightarrow> same_type (get_value v path) wanted \<and> py_eq (get_value v path) wanted"
  by (simp add: expect_def Let_def)

lemma expects_Nil: "expects w v table = [] \<longleftrightarrow> (\<forall>(path, wanted) \<in> set table. expect w v path wanted = [])"
  by (auto simp: expects_def)

text \<open>Paths of one key.\<close>

lemma get_value_key: "CHR ''.'' \<notin> set k \<Longrightarrow> get_value (JDict d) k = dget k d"
  by (simp add: get_value_def split_on_no_char)

lemma not_only_False:
  assumes "not_only name xs = Inr False"
  shows "\<exists>d. xs = JList [JDict d] \<and> dget ''name'' d = JStr name"
proof -
  from assms obtain n x where "py_len xs = Inr n" "n = 1" "py_nth 0 xs = Inr x" "jget ''name'' x = Inr (JStr name)"
    by (auto simp: not_only_def rbind_eq_Inr or_else_def split: if_splits)
  then show ?thesis
    by (cases xs) (auto simp: py_len_def py_nth_def res_simps length_Suc_conv split: if_splits)
qed

text \<open>
  The new hook has one more init container, of the pinned image and without privileges, with the environment of the
  container that Helm rendered and the settings of the release, four more volumes and no token; all else is as it was.
\<close>

definition hook_extended :: "dict \<Rightarrow> jval \<Rightarrow> jval \<Rightarrow> bool" where
  "hook_extended settings old new \<longleftrightarrow> same_outside HOOK_POD new old \<and>
     (\<exists>pod pod' vs admission cs c env. items_at HOOK_POD old = Inr (JDict pod) \<and> items_at HOOK_POD new = Inr (JDict pod')
        \<and> same_but {''initContainers'', ''automountServiceAccountToken'', ''volumes''} pod' pod
        \<and> dget ''automountServiceAccountToken'' pod' = JBool False
        \<and> dget ''volumes'' pod = JList vs \<and> py_eq (dget ''volumes'' pod') (JList (vs @ ADMISSION_VOLUMES))
        \<and> dget ''initContainers'' pod' = JList [JDict admission] \<and> dget ''name'' admission = JStr ''site-upgrade-admission''
        \<and> (\<forall>(field, wanted) \<in> set ADMISSION_FIELDS. py_eq (dget field admission) wanted)
        \<and> py_eq (dget ''volumeMounts'' admission) ADMISSION_MOUNTS
        \<and> dget ''containers'' pod = JList (JDict c # cs) \<and> dget ''env'' c = JList env
        \<and> py_eq (dget ''env'' admission) (JList (env @ map (\<lambda>(k, v). JDict [(''name'', JStr k), (''value'', v)]) settings)))"

lemma same_type_bool: "same_type v (JBool b) \<and> py_eq v (JBool b) \<longleftrightarrow> v = JBool b"
  by (cases v) (auto simp: same_type_def py_eq.simps key_eq_def)

lemma py_plus_Inr: "py_plus v xs = Inr u \<longleftrightarrow> (\<exists>ys. v = JList ys \<and> u = JList (ys @ xs))"
  by (cases v) (auto simp: py_plus_def)

lemma same_but_changed:
  assumes "py_eq (JDict y) (JDict e)" "\<And>k. k \<notin> ks \<Longrightarrow> map_of y k = map_of d k"
  shows "same_but ks d e"
proof -
  have "rel_option py_eq (map_of y k) (map_of e k)" for k
    using assms(1) by (auto elim: py_eq_same)
  with assms(2) show ?thesis unfolding same_but_def by metis
qed

lemma same_but_pops:
  assumes "rbind (pop_keys ks (JDict d)) (modify_at [k] f) = Inr y" "py_eq y (JDict e)"
  shows "same_but (insert k (set ks)) d e"
proof -
  obtain x where "y = JDict (AList.update k x (dpops ks d))"
    using assms(1) by (auto simp: pop_keys_def rbind_eq_Inr split: option.splits)
  then show ?thesis using assms(2) by (auto intro!: same_but_changed simp: update_conv' map_of_dpops split: if_splits)
qed

lemma ADMISSION_FIELDS_keys: "(field, wanted) \<in> set ADMISSION_FIELDS \<Longrightarrow> CHR ''.'' \<notin> set field"
  by (auto simp: ADMISSION_FIELDS_def)

lemma admission_accepted:
  assumes checks: "admission_checks w release old new spec admission = Inr []"
    and spec: "items_at HOOK_POD new = Inr spec" "jget_or ''initContainers'' (JList []) spec = Inr inits"
    and init: "not_only ''site-upgrade-admission'' inits = Inr False" "py_nth 0 inits = Inr admission"
  shows "\<exists>settings. admission_settings w release = Inr settings \<and> hook_extended settings old new"
proof -
  from init obtain a where a: "inits = JList [JDict a]" "admission = JDict a" "dget ''name'' a = JStr ''site-upgrade-admission''"
    by (auto dest!: not_only_False simp: py_nth_def)
  obtain pod' where pod': "spec = JDict pod'" using spec(2) by (auto simp: res_simps)
  have inits: "dget ''initContainers'' pod' = JList [JDict a]"
    using spec(2) a(1) pod' by (auto simp: dget_or_def dget_def split: option.splits)
  obtain original vs restored cv c env settings where c: "items_at HOOK_POD old = Inr original" "jitem ''volumes'' original = Inr (JList vs)"
      "restored_hook new = Inr restored" "py_eq restored old" "expects w admission ADMISSION_FIELDS = []"
      "expect w spec ''automountServiceAccountToken'' (JBool False) = []" "expect w admission ''volumeMounts'' ADMISSION_MOUNTS = []"
      "expect w spec ''volumes'' (JList (vs @ ADMISSION_VOLUMES)) = []"
    and env: "jitem ''containers'' original = Inr cv" "py_nth 0 cv = Inr c" "jitem ''env'' c = Inr (JList env)"
      "admission_settings w release = Inr settings"
      "expect w admission ''env'' (JList (env @ map (\<lambda>(k, v). JDict [(''name'', JStr k), (''value'', v)]) settings)) = []"
    using checks by (auto simp: admission_checks_def rbind_eq_Inr check_true_Nil py_plus_Inr)
  obtain pod where pod: "original = JDict pod" "map_of pod ''volumes'' = Some (JList vs)" using c(2) by (auto simp: res_simps)
  from modify_at_same [OF c(3) [unfolded restored_hook_def] c(4) c(1)] obtain y where
    y: "rbind (pop_keys [''initContainers'', ''automountServiceAccountToken''] spec) (modify_at [''volumes''] (py_prefix (\<lambda>n. 2))) = Inr y"
      "py_eq y original" "same_outside HOOK_POD new old"
    using spec(1) by auto
  have same: "same_but {''initContainers'', ''automountServiceAccountToken'', ''volumes''} pod' pod"
    using same_but_pops [OF y(1) [unfolded pod'] y(2) [unfolded pod(1)]] by (simp add: insert_commute)
  have fields: "\<forall>(field, wanted) \<in> set ADMISSION_FIELDS. py_eq (dget field a) wanted"
    using c(5) a(2) ADMISSION_FIELDS_keys by (fastforce simp: expects_Nil expect_Nil get_value_key)
  obtain c' cs where e: "dget ''containers'' pod = JList (JDict c' # cs)" "dget ''env'' c' = JList env"
    using env(1-3) pod(1) by (cases cv) (auto simp: py_nth_def res_simps dget_map_of neq_Nil_conv split: if_splits)
  have "py_eq (dget ''env'' a) (JList (env @ map (\<lambda>(k, v). JDict [(''name'', JStr k), (''value'', v)]) settings))"
    using env(5) a(2) by (simp add: expect_Nil get_value_key)
  then have "hook_extended settings old new"
    unfolding hook_extended_def using c(1,6-8) spec(1) pod pod' same fields y(3) inits a e
    by (auto simp: expect_Nil get_value_key same_type_bool dget_map_of)
  with env(4) show ?thesis by blast
qed

subsection \<open>The backup\<close>

text \<open>
  The new backup runs the site's command, has two more mounts and volumes, no token, and no group that would change the
  ownership of the volume; all else is as it was.
\<close>

definition backup_extended :: "jval \<Rightarrow> jval \<Rightarrow> bool" where
  "backup_extended old new \<longleftrightarrow> same_outside CRON_POD new old \<and>
     (\<exists>pod pod' vs ctx ctx' c c' ms. items_at CRON_POD old = Inr (JDict pod) \<and> items_at CRON_POD new = Inr (JDict pod')
        \<and> same_but {''automountServiceAccountToken'', ''securityContext'', ''containers'', ''volumes''} pod' pod
        \<and> dget ''automountServiceAccountToken'' pod' = JBool False
        \<and> dget ''volumes'' pod = JList vs \<and> py_eq (dget ''volumes'' pod') (JList (vs @ BACKUP_VOLUMES))
        \<and> dget ''securityContext'' pod = JDict ctx \<and> dget ''securityContext'' pod' = JDict ctx'
        \<and> same_but {''fsGroup''} ctx' ctx \<and> map_of ctx' ''fsGroup'' = None
        \<and> dget ''containers'' pod = JList [JDict c] \<and> dget ''containers'' pod' = JList [JDict c']
        \<and> same_but {''args'', ''volumeMounts''} c' c \<and> py_eq (dget ''args'' c') SITE_BACKUP_ARGS
        \<and> dget ''volumeMounts'' c = JList ms \<and> py_eq (dget ''volumeMounts'' c') (JList (ms @ BACKUP_MOUNTS)))"

lemma modify_key_Inr:
  "modify_at [k] f v = Inr u \<longleftrightarrow> (\<exists>d x y. v = JDict d \<and> map_of d k = Some x \<and> f x = Inr y \<and> u = JDict (AList.update k y d))"
  by (auto simp: rbind_eq_Inr split: jval.splits option.splits)

lemma assign_item_Inr: "assign_item k x v = Inr u \<longleftrightarrow> (\<exists>d. v = JDict d \<and> u = JDict (AList.update k x d))"
  by (cases v) (auto simp: assign_item_def)

lemma modify_first_Inr: "modify_first f v = Inr u \<longleftrightarrow> (\<exists>x xs y. v = JList (x # xs) \<and> f x = Inr y \<and> u = JList (y # xs))"
  by (auto simp: modify_first_def rbind_eq_Inr split: jval.splits list.splits)

lemma pop_keys_Inr: "pop_keys ks v = Inr u \<longleftrightarrow> (\<exists>d. v = JDict d \<and> u = JDict (dpops ks d))"
  by (cases v) (auto simp: pop_keys_def)

text \<open>The copy on which the extension is undone, in terms of the new Pod.\<close>

definition undo_backup :: "jval \<Rightarrow> jval res" where
  "undo_backup spec = rbind (pop_keys [''automountServiceAccountToken''] spec) (\<lambda>s.
     rbind (modify_at [''securityContext''] (assign_item ''fsGroup'' (JInt 1000)) s) (\<lambda>s.
     rbind (modify_at [''containers''] (modify_first (\<lambda>c. rbind (assign_item ''args'' NATIVE_BACKUP_ARGS c)
       (modify_at [''volumeMounts''] (py_prefix (\<lambda>n. n - 2))))) s)
     (modify_at [''volumes''] (py_prefix (\<lambda>n. n - 2)))))"

lemma undo_backup_Inr:
  assumes "undo_backup (JDict pod') = Inr y"
  obtains ctx' c' cs m u where "map_of pod' ''securityContext'' = Some (JDict ctx')" "map_of pod' ''containers'' = Some (JList (JDict c' # cs))"
    "y = JDict (AList.update ''volumes'' u (AList.update ''containers''
       (JList (JDict (AList.update ''volumeMounts'' m (AList.update ''args'' NATIVE_BACKUP_ARGS c')) # cs))
       (AList.update ''securityContext'' (JDict (AList.update ''fsGroup'' (JInt 1000) ctx')) (dpops [''automountServiceAccountToken''] pod'))))"
  using assms
  by (auto simp: undo_backup_def rbind_eq_Inr pop_keys_Inr modify_key_Inr assign_item_Inr modify_first_Inr update_conv' map_of_dpops
      simp del: modify_at.simps)

lemma restored_backup_undo: "restored_backup new = modify_at CRON_POD undo_backup new"
  by (simp add: restored_backup_def undo_backup_def [abs_def])

lemma py_eq_JDict_left: "py_eq (JDict d) v \<Longrightarrow> \<exists>e. v = JDict e"
  by (cases v) (auto simp: py_eq.simps [of "JDict d"] key_eq_def)

lemma undone_backup_same:
  assumes undo: "undo_backup (JDict pod') = Inr y" and eq: "py_eq y (JDict pod)" and old: "map_of pod ''containers'' = Some (JList [JDict c])"
  obtains ctx ctx' c' where
    "same_but {''automountServiceAccountToken'', ''securityContext'', ''containers'', ''volumes''} pod' pod"
    "map_of pod ''securityContext'' = Some (JDict ctx)" "map_of pod' ''securityContext'' = Some (JDict ctx')"
    "same_but {''fsGroup''} ctx' ctx" "map_of pod' ''containers'' = Some (JList [JDict c'])" "same_but {''args'', ''volumeMounts''} c' c"
  using undo
proof (rule undo_backup_Inr)
  fix ctx' c' cs m u
  let ?ctx = "AList.update ''fsGroup'' (JInt 1000) ctx'"
  let ?c = "AList.update ''volumeMounts'' m (AList.update ''args'' NATIVE_BACKUP_ARGS c')"
  let ?y = "AList.update ''volumes'' u (AList.update ''containers'' (JList (JDict ?c # cs))
       (AList.update ''securityContext'' (JDict ?ctx) (dpops [''automountServiceAccountToken''] pod')))"
  assume pod': "map_of pod' ''securityContext'' = Some (JDict ctx')" "map_of pod' ''containers'' = Some (JList (JDict c' # cs))" and y: "y = JDict ?y"
  have rel: "rel_option py_eq (map_of ?y k) (map_of pod k)" for k
    using eq y by (auto elim: py_eq_same)
  from rel [of "''containers''"] old have c: "cs = []" "py_eq (JDict ?c) (JDict c)"
    by (auto simp: update_conv' py_eq_JList)
  from rel [of "''securityContext''"] obtain ctx where ctx: "map_of pod ''securityContext'' = Some (JDict ctx)" "py_eq (JDict ?ctx) (JDict ctx)"
    by (auto simp: update_conv' option_rel_Some1 dest: py_eq_JDict_left)
  show thesis
  proof (rule that)
    show "same_but {''automountServiceAccountToken'', ''securityContext'', ''containers'', ''volumes''} pod' pod"
      by (rule same_but_changed [OF eq [unfolded y]]) (simp add: update_conv' map_of_dpops)
    show "same_but {''fsGroup''} ctx' ctx"
      by (rule same_but_changed [OF ctx(2)]) (simp add: update_conv')
    show "same_but {''args'', ''volumeMounts''} c' c"
      by (rule same_but_changed [OF c(2)]) (simp add: update_conv')
  qed (use pod' ctx(1) c(1) in auto)
qed

lemma py_in_False: "py_in k (JDict d) = Inr False \<Longrightarrow> map_of d k = None"
  by (auto simp: py_in_def map_of_eq_None_iff)

lemma py_nth_one: "py_nth 0 (JList [x]) = Inr x"
  by (simp add: py_nth_def)

lemma backup_accepted:
  assumes checks: "backup_extension_checks w old new = Inr []" and old: "items_at CRON_POD old = Inr original"
    "jget_or ''containers'' (JList []) original = Inr cs" "not_only ''toolbox-backup'' cs = Inr False"
  shows "backup_extended old new"
proof -
  obtain pod where pod: "original = JDict pod" using old(2) by (auto simp: res_simps)
  from old(3) obtain c where "cs = JList [JDict c]" by (auto dest: not_only_False)
  then have c: "map_of pod ''containers'' = Some (JList [JDict c])"
    using old(2) pod by (auto simp: dget_or_def split: option.splits)
  obtain spec n x cs' vs ms restored where f: "items_at CRON_POD new = Inr spec" "jget_or ''containers'' (JList [JDict []]) spec = Inr cs'"
      "py_nth 0 cs' = Inr n" "map_of c ''volumeMounts'' = Some (JList ms)" "map_of pod ''volumes'' = Some (JList vs)"
      "jget_or ''securityContext'' (JDict []) spec = Inr x" "py_in ''fsGroup'' x = Inr False" "restored_backup new = Inr restored" "py_eq restored old"
      "expect w n ''args'' SITE_BACKUP_ARGS = []" "expect w n ''volumeMounts'' (JList (ms @ BACKUP_MOUNTS)) = []"
      "expect w spec ''volumes'' (JList (vs @ BACKUP_VOLUMES)) = []" "expect w spec ''automountServiceAccountToken'' (JBool False) = []"
    using checks old(1) pod c
    by (auto simp: backup_extension_checks_def rbind_eq_Inr check_true_Nil py_plus_Inr py_nth_one jitem_eq_Inr simp del: jitem_JDict)
  obtain pod' where pod': "spec = JDict pod'" using f(2) by (auto simp: res_simps)
  from modify_at_same [OF f(8) [unfolded restored_backup_undo] f(9) old(1)] obtain y where
    y: "undo_backup (JDict pod') = Inr y" "py_eq y (JDict pod)" "same_outside CRON_POD new old"
    using f(1) pod pod' by auto
  obtain ctx ctx' c' where s: "same_but {''automountServiceAccountToken'', ''securityContext'', ''containers'', ''volumes''} pod' pod"
    "map_of pod ''securityContext'' = Some (JDict ctx)" "map_of pod' ''securityContext'' = Some (JDict ctx')"
    "same_but {''fsGroup''} ctx' ctx" "map_of pod' ''containers'' = Some (JList [JDict c'])" "same_but {''args'', ''volumeMounts''} c' c"
    using undone_backup_same [OF y(1,2) c] by blast
  have new: "n = JDict c'" "map_of ctx' ''fsGroup'' = None"
    using f(2,3,6,7) pod' s(3,5) by (auto simp: dget_or_def py_nth_def dest: py_in_False)
  show ?thesis
    unfolding backup_extended_def using f(1,4,5,10-13) old(1) pod pod' y(3) s new c
    by (auto simp: expect_Nil get_value_key same_type_bool dget_map_of)
qed

subsection \<open>All other documents\<close>

text \<open>A document up to the order of its keys and an empty \<^verbatim>\<open>metadata.annotations\<close>.\<close>

definition doc_form :: "jval \<Rightarrow> jval res" where
  "doc_form d = rbind (without_null_annotations d) (\<lambda>x. Inr (sort_keys x))"

text \<open>Every document of the first list other than the targets occurs in the second one.\<close>

definition docs_kept :: "jval list \<Rightarrow> jval list \<Rightarrow> jval list \<Rightarrow> bool" where
  "docs_kept targets ds es \<longleftrightarrow> (\<forall>d \<in> set ds. truthy d \<longrightarrow>
     (\<exists>t \<in> set targets. py_eq d t) \<or> (\<exists>e \<in> set es. \<exists>x. doc_form d = Inr x \<and> doc_form e = Inr x))"

lemma rmap_set: "rmap f xs = Inr ys \<Longrightarrow> set ys = {y. \<exists>x \<in> set xs. f x = Inr y}"
  by (induction xs arbitrary: ys) (auto simp: rbind_eq_Inr)

lemma other_docs_set:
  assumes "hook_jobs ds = Inr [hook]" "backup_crons ds = Inr [cron]" "other_docs ds = Inr xs"
  shows "set xs = {x. \<exists>d \<in> set ds. truthy d \<and> \<not> py_eq d hook \<and> \<not> py_eq d cron \<and> doc_form d = Inr x}"
    and "d \<in> set ds \<Longrightarrow> truthy d \<Longrightarrow> \<not> py_eq d hook \<Longrightarrow> \<not> py_eq d cron \<Longrightarrow> \<exists>x \<in> set xs. doc_form d = Inr x"
proof -
  let ?others = "filter (\<lambda>d. truthy d \<and> \<not> list_ex (py_eq d) [hook, cron]) ds"
  obtain ys where ys: "rmap without_null_annotations ?others = Inr ys" "xs = map sort_keys ys"
    using assms by (auto simp: other_docs_def rbind_eq_Inr)
  show "set xs = {x. \<exists>d \<in> set ds. truthy d \<and> \<not> py_eq d hook \<and> \<not> py_eq d cron \<and> doc_form d = Inr x}"
    using rmap_set [OF ys(1)] by (auto simp: ys(2) doc_form_def rbind_eq_Inr image_iff)
  show "\<exists>x \<in> set xs. doc_form d = Inr x" if "d \<in> set ds" "truthy d" "\<not> py_eq d hook" "\<not> py_eq d cron"
    using rmap_in [OF ys(1), of d] that by (auto simp: ys(2) doc_form_def)
qed

lemma other_docs_kept:
  assumes "hook_jobs ds = Inr [hook]" "backup_crons ds = Inr [cron]" "other_docs ds = Inr xs"
    and "hook_jobs es = Inr [hook']" "backup_crons es = Inr [cron']" "other_docs es = Inr ys" "set xs = set ys"
  shows "docs_kept [hook, cron] ds es"
  unfolding docs_kept_def
proof (intro ballI impI)
  fix d assume d: "d \<in> set ds" "truthy d"
  show "(\<exists>t \<in> set [hook, cron]. py_eq d t) \<or> (\<exists>e \<in> set es. \<exists>x. doc_form d = Inr x \<and> doc_form e = Inr x)"
  proof (cases "py_eq d hook \<or> py_eq d cron")
    case False
    then obtain x where "x \<in> set ys" "doc_form d = Inr x" using other_docs_set(2) [OF assms(1-3) d] assms(7) by blast
    then show ?thesis using other_docs_set(1) [OF assms(4-6)] by auto
  qed auto
qed

lemma case_one_Nil:
  "(case xs of [] \<Rightarrow> Inr (m # ms) | x # ys \<Rightarrow> (case ys of [] \<Rightarrow> f x | _ \<Rightarrow> Inr (m # ms))) = Inr [] \<longleftrightarrow> (\<exists>x. xs = [x] \<and> f x = Inr [])"
  by (auto split: list.splits)

lemma hook_input_one: "validate_hook_input docs = Inr [] \<Longrightarrow> \<exists>hook. hook_jobs docs = Inr [hook]"
  by (auto simp: validate_hook_input_def rbind_eq_Inr case_one_Nil)

lemma backup_input_one:
  assumes "validate_backup_input docs = Inr []"
  obtains cron spec cs where "backup_crons docs = Inr [cron]" "items_at CRON_POD cron = Inr spec"
    "jget_or ''containers'' (JList []) spec = Inr cs" "not_only ''toolbox-backup'' cs = Inr False"
  using assms by (auto simp: validate_backup_input_def rbind_eq_Inr check_true_Nil or_else_def case_one_Nil split: if_splits)

text \<open>
  (C39) A postrender that the validator accepts changes exactly two documents. The upgrade hook gets one init container of the
  pinned image without privileges, with the environment of the container Helm rendered and the database settings of the release, and its volumes, the backup gets the site's command, its mounts and volumes and loses the
  group that would change ownership; every other field of the two is as Helm rendered it. All other documents are the same
  before and after, in number and, up to the order of keys and empty annotations, in content.
\<close>

theorem postrender_confined:
  assumes "validate_postrender w before after release = Inr []"
  shows "\<exists>hook hook' cron cron' settings. hook_jobs before = Inr [hook] \<and> hook_jobs after = Inr [hook']
     \<and> backup_crons before = Inr [cron] \<and> backup_crons after = Inr [cron']
     \<and> admission_settings w release = Inr settings \<and> hook_extended settings hook hook' \<and> backup_extended cron cron'
     \<and> length before = length after \<and> docs_kept [hook, cron] before after \<and> docs_kept [hook', cron'] after before"
proof -
  obtain hook where hook: "hook_jobs before = Inr [hook]"
    using assms hook_input_one by (auto simp: validate_postrender_def rbind_eq_Inr split: if_splits)
  obtain hook' spec inits admission changed where h: "hook_jobs after = Inr [hook']" "items_at HOOK_POD hook' = Inr spec"
      "jget_or ''initContainers'' (JList []) spec = Inr inits" "not_only ''site-upgrade-admission'' inits = Inr False" "py_nth 0 inits = Inr admission"
      "admission_checks w release hook hook' spec admission = Inr []" "validate_backup_postrender w before after = Inr []"
      "others_changed before after = Inr False"
    using assms hook by (auto simp: validate_postrender_def rbind_eq_Inr check_true_Nil case_one_Nil split: if_splits)
  from h(7) have "validate_backup_input before = Inr []"
    by (auto simp: validate_backup_postrender_def rbind_eq_Inr split: if_splits)
  then obtain cron original cs where b: "backup_crons before = Inr [cron]" "items_at CRON_POD cron = Inr original"
      "jget_or ''containers'' (JList []) original = Inr cs" "not_only ''toolbox-backup'' cs = Inr False"
    by (rule backup_input_one)
  obtain cron' where cron': "backup_crons after = Inr [cron']" "backup_extension_checks w cron cron' = Inr []"
    using h(7) b(1) by (auto simp: validate_backup_postrender_def rbind_eq_Inr case_one_Nil split: if_splits)
  obtain xs ys where o: "length before = length after" "other_docs before = Inr xs" "other_docs after = Inr ys" "set xs = set ys"
    using h(8) by (auto simp: others_changed_def or_else_def rbind_eq_Inr split: if_splits)
  have "docs_kept [hook, cron] before after" "docs_kept [hook', cron'] after before"
    using other_docs_kept [OF hook b(1) o(2) h(1) cron'(1) o(3,4)] other_docs_kept [OF h(1) cron'(1) o(3) hook b(1) o(2) o(4) [symmetric]] by simp_all
  with hook h(1) b(1) cron'(1) o(1) admission_accepted [OF h(6,2-5)] backup_accepted [OF cron'(2) b(2-4)] show ?thesis by blast
qed

end
