(* ===== verification/Helm_Example.thy ===== *)
theory Helm_Example
  imports Helm_Postrender
begin

section \<open>A render of the chart that is accepted\<close>

text \<open>
  Documents that pass the validator before and after the postrender, for the witnesses of the properties. A text of YAML is
  identified by a name.
\<close>

subsection \<open>Documents\<close>

definition ex_doc :: "string \<Rightarrow> string \<Rightarrow> string \<Rightarrow> dict \<Rightarrow> dict \<Rightarrow> jval" where
  "ex_doc version kind name meta rest = JDict ([(''apiVersion'', JStr version), (''kind'', JStr kind),
     (''metadata'', JDict ([(''name'', JStr name), (''namespace'', JStr ''default'')] @ meta))] @ rest)"

definition ex_pod :: "dict \<Rightarrow> dict" where
  "ex_pod spec = [(''template'', JDict [(''spec'', JDict spec)])]"

definition ex_env :: "string \<Rightarrow> string \<Rightarrow> jval" where
  "ex_env name v = JDict [(''name'', JStr name), (''value'', JStr v)]"

definition ex_container :: "string \<Rightarrow> string \<Rightarrow> dict \<Rightarrow> jval" where
  "ex_container name tag rest = JDict ([(''name'', JStr name), (''image'', JStr (''registry.gitlab.com/'' @ name @ tag)),
     (''resources'', app_resources (the (map_of RESOURCES name)))] @ rest)"

definition ex_workload :: "string \<Rightarrow> dict \<Rightarrow> jval" where
  "ex_workload app spec = ex_doc ''apps/v1'' (if app = ''gitaly'' then ''StatefulSet'' else ''Deployment'') (''gitlab-helm-'' @ app)
     [(''labels'', JDict [(''app'', JStr app)])] [(''spec'', JDict (ex_pod spec))]"

definition ex_named :: "string list \<Rightarrow> jval" where
  "ex_named names = JList (map (\<lambda>n. JDict [(''name'', JStr n)]) names)"

definition ex_workloads :: "jval list" where
  "ex_workloads =
    [ex_workload ''gitaly'' [(''containers'', JList [ex_container ''gitaly'' '':v19.5.0'' []])],
     ex_workload ''kas'' [(''containers'', JList [ex_container ''kas'' '':v19.5.0'' []])],
     ex_workload ''registry'' [(''containers'', JList [ex_container ''registry'' '':v4'' []])],
     ex_workload ''sidekiq'' [(''initContainers'', ex_named [''dependencies'']),
       (''containers'', JList [ex_container ''sidekiq'' ''-ce:v19.5.0'' [(''env'', JList [ex_env ''SIDEKIQ_CONCURRENCY'' ''5''])]])],
     ex_workload ''webservice'' [(''initContainers'', ex_named [''dependencies'']),
       (''containers'', JList [ex_container ''webservice'' ''-ce:v19.5.0'' [(''env'', JList [ex_env ''WORKER_PROCESSES'' ''1'',
          ex_env ''PUMA_THREADS_MIN'' ''1'', ex_env ''PUMA_THREADS_MAX'' ''4''])], ex_container ''gitlab-workhorse'' ''-ce:v19.5.0'' []])],
     ex_workload ''toolbox'' [(''containers'', JList [ex_container ''toolbox'' ''-ce:v19.5.0'' []])]]"

definition ex_hpas :: "jval list" where
  "ex_hpas = map (\<lambda>n. ex_doc ''autoscaling/v2'' ''HorizontalPodAutoscaler'' (''gitlab-helm-'' @ n) []
     [(''spec'', JDict [(''minReplicas'', JInt 1), (''maxReplicas'', JInt 1)])]) [''webservice'', ''sidekiq'', ''kas'', ''registry'']"

definition ex_config_map :: "string \<Rightarrow> dict \<Rightarrow> jval" where
  "ex_config_map name entries = ex_doc ''v1'' ''ConfigMap'' name [(''annotations'', JNull)] [(''data'', JDict entries)]"

definition ex_others :: "jval list" where
  "ex_others = ex_workloads @ ex_hpas @
    [ex_doc ''batch/v1'' ''Job'' ''gitlab-helm-migrations-1'' [] [(''spec'', JDict (ex_pod
       [(''containers'', JList [ex_container ''migrations'' ''-ce:v19.5.0'' [(''args'', strings [''/scripts/db-migrate''])]])]))],
     ex_config_map ''gitlab-helm-kas'' [(''config.yaml'', JStr ''kas'')],
     ex_config_map ''gitlab-helm-webservice'' [(''redis.yml.erb'', JStr ''redis''), (''resque.yml.erb'', JStr ''resque''), (''cable.yml.erb'', JStr ''cable''),
       (''database.yml.erb'', JStr ''<%= file %> database'')],
     ex_doc ''v1'' ''PersistentVolumeClaim'' ''gitlab-helm-toolbox-backup-tmp'' []
       [(''spec'', JDict [(''storageClassName'', JStr ''local-path-retain''), (''resources'', JDict [(''requests'', JDict [(''storage'', JStr ''100Gi'')])])])]]"

definition ex_upstream_env :: "jval list" where
  "ex_upstream_env = [ex_env ''GITLAB_VERSION'' ''19.5.0'', ex_env ''CHART_VERSION'' ''10.5.0'']"

text \<open>The upgrade hook and the backup, with what the postrender adds to the Pod.\<close>

definition ex_hook_pod :: "dict \<Rightarrow> jval list \<Rightarrow> dict" where
  "ex_hook_pod added volumes = [(''containers'', JList [JDict [(''name'', JStr ''run-check''), (''image'', JStr ''gitlab-base''),
       (''command'', strings [''/bin/sh'', ''/scripts/runcheck'']), (''env'', JList ex_upstream_env)]]),
     (''volumes'', JList ([JDict [(''name'', JStr ''chart-info'')], JDict [(''name'', JStr ''scripts'')]] @ volumes))] @ added"

definition ex_hook :: "dict \<Rightarrow> jval list \<Rightarrow> jval" where
  "ex_hook added volumes = ex_doc ''batch/v1'' ''Job'' HOOK_NAME [(''annotations'', JDict [(''helm.sh/hook'', JStr ''pre-upgrade'')])]
     [(''spec'', JDict (ex_pod (ex_hook_pod added volumes)))]"

definition ex_cron :: "jval \<Rightarrow> dict \<Rightarrow> dict \<Rightarrow> jval list \<Rightarrow> jval list \<Rightarrow> jval" where
  "ex_cron args fs_group added mounts volumes = ex_doc ''batch/v1'' ''CronJob'' ''gitlab-helm-toolbox-backup'' []
     [(''spec'', JDict (BACKUP_SCHEDULE @ [(''jobTemplate'', JDict [(''spec'', JDict ([(''activeDeadlineSeconds'', JInt 10800), (''backoffLimit'', JInt 0)]
        @ ex_pod ([(''restartPolicy'', JStr ''Never''), (''securityContext'', JDict ([(''runAsUser'', JInt 1000)] @ fs_group)),
          (''initContainers'', ex_named [''configure'']),
          (''containers'', JList [JDict [(''name'', JStr ''toolbox-backup''),
             (''image'', JStr ''registry.gitlab.com/gitlab-org/build/cng/gitlab-toolbox-ce:v19.5.0''), (''resources'', BACKUP_RESOURCES), (''args'', args),
             (''env'', JList (map (\<lambda>(n, b). ex_env (n @ ''_BUCKET_NAME'') b) BACKUP_BUCKETS)),
             (''volumeMounts'', JList ([JDict [(''name'', JStr ''toolbox-tmp''), (''mountPath'', JStr ''/srv'')]] @ mounts))]]),
          (''volumes'', JList ([JDict [(''name'', JStr ''toolbox-tmp''),
             (''persistentVolumeClaim'', JDict [(''claimName'', JStr ''gitlab-helm-toolbox-backup-tmp'')])]] @ volumes))] @ added)))])]))]"

definition ex_settings :: dict where
  "ex_settings = [(''PGHOST'', JStr ''192.168.1.10''), (''PGPORT'', JStr ''5433''), (''PGDATABASE'', JStr ''gitlabhq_production''), (''PGUSER'', JStr ''gitlab''),
     (''CI_DB_HOST'', JStr ''192.168.1.10''), (''CI_DB_PORT'', JStr ''5433''), (''CI_DB_NAME'', JStr ''gitlabhq_production''), (''CI_DATABASE_TASKS'', JStr ''false'')]"

definition ex_admission :: jval where
  "ex_admission = JDict ([(''name'', JStr ''site-upgrade-admission''), (''volumeMounts'', ADMISSION_MOUNTS),
     (''env'', JList (ex_upstream_env @ map (\<lambda>(k, v). JDict [(''name'', JStr k), (''value'', v)]) ex_settings))] @ ADMISSION_FIELDS)"

abbreviation "no_token \<equiv> (''automountServiceAccountToken'', JBool False)"

abbreviation "ex_added \<equiv> [no_token, (''initContainers'', JList [ex_admission])]"
abbreviation "ex_old_hook \<equiv> ex_hook [] []"
abbreviation "ex_new_hook \<equiv> ex_hook ex_added ADMISSION_VOLUMES"

definition ex_rendered_docs :: "jval list" where
  "ex_rendered_docs = [ex_old_hook, ex_cron NATIVE_BACKUP_ARGS [(''fsGroup'', JInt 1000)] [] [] []] @ ex_others"

text \<open>Kustomize drops empty annotations and may change the order.\<close>

definition ex_patched_docs :: "jval list" where
  "ex_patched_docs = map (\<lambda>d. case without_null_annotations d of Inr x \<Rightarrow> x | Inl _ \<Rightarrow> d) ex_others
     @ [ex_new_hook,
        ex_cron SITE_BACKUP_ARGS [] [no_token] BACKUP_MOUNTS BACKUP_VOLUMES]"

definition ex_release :: jval where
  "ex_release = JDict [(''spec'', JDict [(''values'', JDict [(''global'', JDict [(''psql'', JDict
     [(''host'', JStr ''192.168.1.10''), (''port'', JInt 5433), (''database'', JStr ''gitlabhq_production''), (''username'', JStr ''gitlab''),
      (''ci'', JDict [(''database'', JStr ''gitlabhq_production''), (''databaseTasks'', JBool False)])])])])])]"

subsection \<open>The repository\<close>

definition ex_url :: "nat \<Rightarrow> jval" where
  "ex_url db = JDict [(''url'', redis_url db)]"

definition ex_database :: jval where
  "ex_database = JDict [(''database'', JStr ''gitlabhq_production''), (''host'', JStr ''192.168.1.10''), (''port'', JInt 5433), (''prepared_statements'', JBool False),
     (''database_tasks'', JBool False)]"

definition ex_yaml :: "string \<Rightarrow> jval yaml" where
  "ex_yaml s =
     (if s = ''kas'' then Loaded (JDict [(''redis'', JDict [(''database_index'', JInt 3)]),
        (''agent'', JDict [(''kubernetes_api'', JDict [(''url_path_prefix'', JStr ''/-/kubernetes-agent/k8s-proxy/'')])])])
      else if s = ''redis'' then Loaded (JDict [(''production'', JDict (map (\<lambda>(name, db). (name, ex_url db)) REDIS_DATABASES))])
      else if s = ''resque'' \<or> s = ''cable'' then Loaded (JDict [(''production'', ex_url 0)])
      else if s = ''\"secret-file-reference\" database'' then Loaded (JDict [(''production'', JDict [(''main'', ex_database), (''ci'', ex_database)])])
      else YamlError s)"

definition ex_repo :: repo where
  "ex_repo = \<lparr>r_which = (\<lambda>_. None), r_run = (\<lambda>_. NotStarted []), r_read = OsError, r_yaml = ex_yaml, r_yaml_all = YamlError, r_float = (\<lambda>_. [])\<rparr>"

subsection \<open>Both renders are accepted\<close>

lemma ex_render_ok: "validate_render ex_repo ex_rendered_docs False = Inr []"
  by code_simp

lemma ex_hooks: "hook_jobs ex_rendered_docs = Inr [ex_old_hook]" "hook_jobs ex_patched_docs = Inr [ex_new_hook]"
  by code_simp+

lemma ex_inputs: "validate_hook_input ex_rendered_docs = Inr []" "validate_backup_postrender ex_repo ex_rendered_docs ex_patched_docs = Inr []"
  by code_simp+

lemma ex_others_same: "others_changed ex_rendered_docs ex_patched_docs = Inr False"
  by code_simp

lemma ex_pod_of: "items_at HOOK_POD (ex_hook added volumes) = Inr (JDict (ex_hook_pod added volumes))"
  by (simp add: HOOK_POD_def ex_hook_def ex_doc_def ex_pod_def jitem_JDict)

lemma ex_port: "show_nat 5433 = ''5433''"
  by (simp add: show_nat.simps [of 5433] show_nat.simps [of 543] show_nat.simps [of 54] show_nat.simps [of 5] digit_def) code_simp

lemma ex_false: "lower ''False'' = ''false''"
  by code_simp

lemma ex_settings_ok: "admission_settings ex_repo ex_release = Inr ex_settings"
  by (simp add: admission_settings_def ex_release_def ex_settings_def py_str_def show_int_def jitem_JDict ex_port ex_false Let_def)

lemma ex_admission_ok:
  "admission_checks ex_repo ex_release ex_old_hook ex_new_hook (JDict (ex_hook_pod ex_added ADMISSION_VOLUMES)) ex_admission = Inr []"
  unfolding admission_checks_def ex_settings_ok ex_pod_of by code_simp

lemma ex_inits: "dget_or ''initContainers'' (JList []) (ex_hook_pod ex_added ADMISSION_VOLUMES) = JList [ex_admission]"
  "not_only ''site-upgrade-admission'' (JList [ex_admission]) = Inr False"
  by code_simp+

lemma ex_postrender_ok: "validate_postrender ex_repo ex_rendered_docs ex_patched_docs ex_release = Inr []"
  by (simp add: validate_postrender_def ex_inputs ex_hooks ex_pod_of ex_inits py_nth_one ex_admission_ok ex_others_same check_true_def)

subsection \<open>Witnesses\<close>

theorem chart_workloads_exact_witness:
  "mset (map app_of (filter (kind_in workload_kinds) ex_rendered_docs)) = mset (map JStr WORKLOADS) \<and> doc_accepted (hd ex_workloads)"
proof -
  have "hd ex_workloads \<in> set ex_rendered_docs" by (simp add: ex_rendered_docs_def ex_others_def ex_workloads_def)
  then show ?thesis using chart_workloads_exact [OF ex_render_ok] by blast
qed

theorem postrender_confined_witness:
  "hook_extended ex_settings ex_old_hook ex_new_hook \<and> docs_kept (ex_old_hook # [hd (tl ex_rendered_docs)]) ex_rendered_docs ex_patched_docs"
proof -
  have "backup_crons ex_rendered_docs = Inr [hd (tl ex_rendered_docs)]" by code_simp
  then show ?thesis using postrender_confined [OF ex_postrender_ok] by (auto simp: ex_hooks ex_settings_ok)
qed

end
