(* ===== verification/Spec2Isabelle.thy ===== *)
theory Spec2Isabelle
  imports Admission_Properties Retention_Properties Nas_Properties Validator_Properties Audit_Properties Runner_Properties Export_Properties Gc_Properties Ib_Properties Admission_Liveness Temporal_Example Helm_Example
begin

text \<open>
  \<^bold>\<open>Verification of the maintenance and validation programs of the cluster-state repository.\<close>

  The repository describes a Kubernetes cluster. Beside its manifests it has Python programs that act on the cluster or
  that decide whether a change to it may be merged. This development models these programs and proves what makes each
  of them correct.

  \<^bold>\<open>The programs and their theories.\<close>

  \<^item> \<^emph>\<open>Maintenance admission\<close> (\<^verbatim>\<open>infrastructure/shared-services/gitlab-runner/ci/maintenance-admission.py\<close>). A coordinator pauses
    a GitLab runner, waits until its jobs are drained and admits one maintenance worker or one garbage collection; a recovery
    program resumes the runner when the owners are retired. All of them share one state, a JSON text in a ConfigMap that is
    written by compare-and-swap. \<open>Admission_State\<close> has the state as a record, its JSON form and the function \<^verbatim>\<open>validate\<close>;
    \<open>Kube_Pods\<close> has Pod snapshots, \<^verbatim>\<open>terminal\<close>, \<^verbatim>\<open>retired\<close> and the cron schedules; \<open>Admission_Protocol\<close> has the requests, the store
    and the programs \<^verbatim>\<open>coordinate\<close>, \<^verbatim>\<open>recover\<close>, \<^verbatim>\<open>WorkerFence\<close>, \<^verbatim>\<open>gc_claim\<close> and \<^verbatim>\<open>main\<close>.
  \<^item> \<^emph>\<open>Cache retention\<close> (\<^verbatim>\<open>ci/cache-retention.py\<close> beside it), which runs as the admitted worker and deletes old CI caches:
    \<open>Pod_Gate\<close> (\<^verbatim>\<open>pod_gate\<close>, \<^verbatim>\<open>combined_pods\<close>, \<^verbatim>\<open>wait_for_gate\<close>, \<^verbatim>\<open>api_gate\<close>), \<open>Retention_Fs\<close> (\<^verbatim>\<open>snapshot\<close>, \<^verbatim>\<open>remove_tree\<close>),
    \<open>Proc_Scan\<close> (\<^verbatim>\<open>mount_ids\<close>, \<^verbatim>\<open>open_ids\<close>), \<open>Retention\<close> (the UV clean-up, \<^verbatim>\<open>retain\<close> and \<^verbatim>\<open>main\<close>). It calls \<open>fence_check\<close> of the
    admission protocol before every deletion.
  \<^item> \<^emph>\<open>NAS export\<close> (\<^verbatim>\<open>apps/gitlab-helm/files/nas-export.py\<close>): \<open>Nas_Export\<close>.
  \<^item> \<^emph>\<open>Export to Kustomize\<close> (\<^verbatim>\<open>scripts/export_to_kustomize.py\<close>): \<open>Resource_Strip\<close> has the pure part, \<open>Kustomize_Export\<close> the
    programs and the tables. It writes the Kustomization that the migration validator reads.
  \<^item> \<^emph>\<open>Bucket audit\<close> (\<^verbatim>\<open>scripts/audit_seaweedfs_buckets.py\<close>): \<open>Bucket_Audit\<close>.
  \<^item> \<^emph>\<open>Validators\<close>: \<open>Migration_Jobs\<close> (\<^verbatim>\<open>scripts/validate_versioned_migration_jobs.py\<close>), \<open>Postgres_Budget\<close>
    (\<^verbatim>\<open>scripts/validate_shared_postgres_budget.py\<close>), \<open>Runner_Templates\<close> (\<^verbatim>\<open>scripts/validate_gitlab_runner_templates.py\<close>).
  \<^item> \<^emph>\<open>Manifest validators\<close>. \<open>Manifest_Checks\<close> has what they share: the comparison that distinguishes types, the class \<^verbatim>\<open>Checks\<close>,
    tables of expected values at paths of a document, and rendering. \<open>Gc_Alert\<close> (\<^verbatim>\<open>scripts/validate_hestia_ci_store_gc_alert.py\<close>) fixes the
    CronJob that calls \<^verbatim>\<open>gc-claim\<close> of the maintenance admission, and two alerts; \<open>Ib_Gateway\<close> (\<^verbatim>\<open>scripts/validate_ibgateway_manifest.py\<close>) fixes the
    workload of one namespace, its images and its network policies. \<open>Py_Compare\<close> has Python's equality, membership and joins, and
    \<open>Py_Docs\<close> the documents and accessors shared by the next two; \<open>Temporal\<close> is \<^verbatim>\<open>scripts/validate_temporal_manifest.py\<close>. \<^verbatim>\<open>scripts/validate_gitlab_helm.py\<close> is in four theories: \<open>Helm_Values\<close> (the
    release, alerts, storage and the running web tier), \<open>Helm_Render\<close> (the postrender and the comparison with the documents before it),
    \<open>Helm_Chart\<close> (the rendered workloads) and \<open>Helm_Main\<close> (the sources and \<^verbatim>\<open>main\<close>).

  \<^bold>\<open>How code becomes definitions.\<close> \<open>Prelude\<close> has Python's exceptions as values (\<open>exn\<close>, results \<open>'a res\<close>), the values of JSON,
  YAML and TOML as the datatype \<open>jval\<close> with accessors that raise where Python raises, decimal numbers and the calendar.
  \<open>Json_Text\<close> has the JSON printer and parser, \<open>Py_Text\<close> the methods of strings and values, \<open>Py_Pattern\<close> regular expressions with one
  group, \<open>Py_Base64\<close> the decoder. A pure function is a function into \<open>'a res\<close>. A function that talks to the cluster, to GitLab,
  to a clock or to a file system is a program of \<open>Prog\<close>: it performs an action and continues with whatever response comes, so
  that its runs cover all failures, delays and interleavings. A constant, function or method keeps its name; an inner
  function or the body of a loop has a name of its own, and the header of its theory says what it stands for.

  \<^bold>\<open>Interfaces.\<close> The locale \<open>progressing\<close> of \<open>Prog\<close> relates the calculus of weakest preconditions to a ghost state that only
  moves up in a preorder, \<open>growing\<close> is its case for sets of knowledge; they are interpreted by the history of a run (\<open>history\<close>), by what a
  process of the admission protocol knows (\<open>contract\<close>) and by what is known of the runner (\<open>baseline\<close>). \<open>cas_object\<close> of
  \<open>Cas_Object\<close> is an object with resource versions, interpreted by the ConfigMap (\<open>cm\<close>). \<open>evolving\<close> of \<open>Evolution\<close> is a state with an
  invariant and a latch, interpreted by the abstract protocol (\<open>admission\<close>). \<open>reading\<close>, \<open>acting\<close> and \<open>timed\<close> of \<open>Admission_Runs\<close> say
  which actions a program may perform.

  \<^bold>\<open>What is shown.\<close>

  \<^item> \<open>Admission_Spec\<close> has the abstract protocol with its steps, \<open>Admission_Contract\<close> shows that every program keeps it,
    \<open>Admission_System\<close> composes many processes around one object. The properties are in \<open>Admission_Properties\<close>: refinement of the abstract
    protocol, exclusion of worker and garbage collection, latches, the order of durable intent and remote writes, evidence for every
    restoration, exactness of the validator, confined authority, round trip of the state text, bounds and termination of the
    drain loop, errors. \<open>Admission_Liveness\<close> shows that a recovery comes to its end in a quiet cluster: however far it
    has run, it can go on, and after at most 33 actions it has returned and the runner is restored. The quiet cluster answers every
    request from one object, refuses a stale write with 409, and stays in the sizes listed below.
    \<open>Admission_Example\<close> has the concrete runs that show that the hypotheses can hold.
  \<^item> \<open>Retention_Spec\<close> and \<open>Retention_Properties\<close>: every deletion happens under the fence, directly after a passed gate. What
    is deleted is a candidate of this run's scan, is past its age, and has the fingerprint that the scan took. Its entries were looked
    at twice and are not open or mounted. The scans are complete; a dry run changes nothing.
  \<^item> \<open>Nas_Properties\<close>: nothing is pruned before the new archive is published and read back; an accepted archive belongs to
    this run, is complete, and its members have safe and pairwise different names; the newest exports stay.
  \<^item> \<open>Export_Properties\<close>: what is fetched is desired state with distinct identities; the exporter only reads the cluster, and it
    writes and creates directories only below its output directory, unless the kind or namespace of a resource holds a slash. Its
    Kustomization for GitLab is accepted by the migration validator. File names of different resources can collide.
  \<^item> \<open>Audit_Properties\<close>, \<open>Runner_Properties\<close>, \<open>Validator_Properties\<close>: what acceptance and each exit status mean, exactness of the
    token search, of the version parser and of the loader that refuses duplicate keys, the base64 round trip. A Job with
    three hyphens in its text escapes the migration validator.
  \<^item> \<open>Manifest_Lemmas\<close>: the comparison of the manifest validators is equality up to the order of keys. \<open>Script_Text\<close> and \<open>Gc_Properties\<close>: a
    GC Job that is accepted takes part in the maintenance protocol: its script is the reviewed one, and its labels and environment are as admission expects. \<open>Ib_Properties\<close>: the path test is
    exact, the resources of the namespace are exactly those of the phase, and only admitted images are deployed. \<open>Temporal_Properties\<close>: only
    reviewed and unprivileged workloads are accepted, one Cilium policy without broad peers, and a frontend Service on the reviewed port; \<open>Temporal_Example\<close> has manifests that are.
    \<open>Helm_Properties\<close>: an accepted render of the GitLab chart has exactly the six workloads, their listed containers have the
    reviewed images and resources, and no image is pinned in the values. \<open>Helm_Postrender\<close>: the postrender changes two documents by the reviewed extension and nothing else. \<open>Helm_Example\<close>
    has documents that are accepted.

  \<^bold>\<open>Bounds.\<close> The drain loop has a budget of 241 passes, which is proved to suffice for a clock that advances by five seconds
  per pass; \<^verbatim>\<open>drained\<close> reads at most 100 pages for each of nine statuses, as in the code. The depth of directories in \<open>Retention_Fs\<close>
  is bounded by an argument, the recursion limit of the interpreter. The number of members of an archive in \<open>Nas_Export\<close> is
  bounded by an argument too. What is proved holds for all values of these arguments, and of every result the program
  returns. Other recursion is over the data. Strings hold code points below 256, and floats are exact rationals.
  A response is bounded by 2,000,000 characters; the code bounds its bytes, which is the same for ASCII text. The quiet cluster of \<open>Admission_Liveness\<close> has names,
  hashes and policies of at most 256 characters and times of at most 12 digits; its states are proved to fit into a response.

  \<^bold>\<open>Parameters.\<close> The hash functions, the policy text, the YAML and TOML libraries, the UTF-8 decoder, the text of a float, the programs
  \<^verbatim>\<open>kubectl\<close>, \<^verbatim>\<open>kustomize\<close>, \<^verbatim>\<open>backup-utility\<close>, \<^verbatim>\<open>uv\<close> and \<^verbatim>\<open>curl\<close>, and the files of the repository.

  \<^bold>\<open>Not modelled.\<close> The opener for TLS with its refusal of redirects and the reading of token files (they are the environment of the
  programs); progress lines and the texts of some messages; the parsing of command lines by \<^verbatim>\<open>argparse\<close>. The validator of the manifests of
  Factorio, and the health probe and the pgAdmin settings: they are long lists of comparisons with
  fixed texts. The Go drivers, shell scripts, SQL, YAML manifests, tests and documents are not Python implementation.
\<close>

end
